(* ===== verification/P2P_Prelude.thy ===== *)
theory P2P_Prelude
  imports Main "HOL-Library.Word" "HOL-Library.AList" "HOL-Library.List_Lexorder"
begin

text \<open>
  Shared vocabulary of the development: Rust's machine integers and their checked
  operations, Rust's \<open>String\<close> as a list of Unicode scalar values, \<open>Result\<close> with the
  \<open>?\<close> operator, \<open>BTreeMap\<close> as a key-sorted association list and \<open>HashMap\<close> as an
  association list with distinct keys, the interface both share, and a generic
  command machine whose invariants are lifted from one command to whole runs.
\<close>

named_theorems result_simps \<open>unfolding of results and guards\<close>
named_theorems word_to_nat \<open>moving statements about words to naturals\<close>

section \<open>Machine integers\<close>

type_synonym u8 = "8 word"
type_synonym u16 = "16 word"
type_synonym u32 = "32 word"
type_synonym u64 = "64 word"

definition checked_add :: "'a::len word \<Rightarrow> 'a word \<Rightarrow> 'a word option" where
  "checked_add a b = (if uint a + uint b < 2 ^ LENGTH('a) then Some (a + b) else None)"

definition checked_mul :: "'a::len word \<Rightarrow> 'a word \<Rightarrow> 'a word option" where
  "checked_mul a b = (if uint a * uint b < 2 ^ LENGTH('a) then Some (a * b) else None)"

definition checked_sub :: "'a::len word \<Rightarrow> 'a word \<Rightarrow> 'a word option" where
  "checked_sub a b = (if b \<le> a then Some (a - b) else None)"

definition saturating_add :: "'a::len word \<Rightarrow> 'a word \<Rightarrow> 'a word" where
  "saturating_add a b = (case checked_add a b of Some c \<Rightarrow> c | None \<Rightarrow> - 1)"

definition saturating_sub :: "'a::len word \<Rightarrow> 'a word \<Rightarrow> 'a word" where
  "saturating_sub a b = (if b \<le> a then a - b else 0)"

lemma unat_lt2p_word: "unat (a :: 'a::len word) < 2 ^ LENGTH('a)"
  by (rule unsigned_less)

lemma checked_add_nat:
  "checked_add a b = (if unat a + unat b < 2 ^ LENGTH('a) then Some (a + b) else None)"
  for a b :: "'a::len word"
proof -
  have "uint a + uint b < 2 ^ LENGTH('a) \<longleftrightarrow> int (unat a + unat b) < int (2 ^ LENGTH('a))" by simp
  then show ?thesis unfolding checked_add_def by (simp only: of_nat_less_iff)
qed

lemma checked_mul_nat:
  "checked_mul a b = (if unat a * unat b < 2 ^ LENGTH('a) then Some (a * b) else None)"
  for a b :: "'a::len word"
proof -
  have "uint a * uint b < 2 ^ LENGTH('a) \<longleftrightarrow> int (unat a * unat b) < int (2 ^ LENGTH('a))" by simp
  then show ?thesis unfolding checked_mul_def by (simp only: of_nat_less_iff)
qed

lemma checked_add_Some_iff [word_to_nat]:
  "checked_add a b = Some c \<longleftrightarrow> unat c = unat a + unat b"
proof
  assume "checked_add a b = Some c"
  then show "unat c = unat a + unat b"
    by (auto simp: checked_add_nat unat_word_ariths split: if_splits)
next
  assume eq: "unat c = unat a + unat b"
  then have lt: "unat a + unat b < 2 ^ LENGTH('a)"
    using unat_lt2p_word [of c] by simp
  then have "unat (a + b) = unat c"
    by (simp add: eq unat_word_ariths)
  then have "a + b = c" by (rule unsigned_word_eqI)
  with lt show "checked_add a b = Some c" by (simp add: checked_add_nat)
qed

lemma checked_add_None_iff:
  "checked_add a b = None \<longleftrightarrow> 2 ^ LENGTH('a) \<le> unat a + unat (b :: 'a::len word)"
  by (auto simp: checked_add_nat)

lemma checked_mul_Some_iff [word_to_nat]:
  "checked_mul a b = Some c \<longleftrightarrow> unat c = unat a * unat b"
proof
  assume "checked_mul a b = Some c"
  then show "unat c = unat a * unat b"
    by (auto simp: checked_mul_nat unat_word_ariths split: if_splits)
next
  assume eq: "unat c = unat a * unat b"
  then have lt: "unat a * unat b < 2 ^ LENGTH('a)"
    using unat_lt2p_word [of c] by simp
  then have "unat (a * b) = unat c"
    by (simp add: eq unat_word_ariths)
  then have "a * b = c" by (rule unsigned_word_eqI)
  with lt show "checked_mul a b = Some c" by (simp add: checked_mul_nat)
qed

lemma checked_sub_Some_iff [word_to_nat]:
  "checked_sub a b = Some c \<longleftrightarrow> unat a = unat b + unat c"
proof
  assume "checked_sub a b = Some c"
  then show "unat a = unat b + unat c"
    by (auto simp: checked_sub_def unat_sub word_le_nat_alt split: if_splits)
next
  assume eq: "unat a = unat b + unat c"
  then have le: "b \<le> a" by (simp add: word_le_nat_alt)
  then have "unat (a - b) = unat c" by (simp add: unat_sub eq)
  then have "a - b = c" by (rule unsigned_word_eqI)
  with le show "checked_sub a b = Some c" by (simp add: checked_sub_def)
qed

lemma unat_saturating_add:
  "unat (saturating_add a b) = min (unat a + unat b) (2 ^ LENGTH('a) - 1)"
  for a b :: "'a::len word"
proof (cases "checked_add a b")
  case None
  then have "2 ^ LENGTH('a) \<le> unat a + unat b" by (simp add: checked_add_None_iff)
  with None show ?thesis
    by (simp add: saturating_add_def unsigned_minus_1_eq_mask mask_eq_exp_minus_1)
next
  case (Some c)
  then have "unat c = unat a + unat b" by (simp add: checked_add_Some_iff)
  moreover have "unat c \<le> 2 ^ LENGTH('a) - 1"
    using unat_lt2p_word [of c] by linarith
  ultimately show ?thesis using Some by (simp add: saturating_add_def)
qed

lemma unat_saturating_sub: "unat (saturating_sub a b) = unat a - unat b"
  by (auto simp: saturating_sub_def unat_sub word_le_nat_alt)

lemma unat_ucast_u32_u64 [simp]: "unat (ucast (c :: u32) :: u64) = unat c"
  using unat_lt2p_word [of c] by (simp add: unsigned_ucast_eq take_bit_nat_eq_self)

lemmas word_order_nat [word_to_nat] = word_less_nat_alt word_le_nat_alt

section \<open>Results\<close>

text \<open>\<open>Result<T, E>\<close> is \<open>'e + 't\<close> with the error on the left; \<open>bind_result\<close> is \<open>?\<close>.\<close>

fun bind_result :: "'e + 'a \<Rightarrow> ('a \<Rightarrow> 'e + 'b) \<Rightarrow> 'e + 'b" where
  "bind_result (Inl e) f = Inl e"
| "bind_result (Inr x) f = f x"

definition ok_or :: "'e \<Rightarrow> 'a option \<Rightarrow> 'e + 'a" where
  "ok_or e x = (case x of None \<Rightarrow> Inl e | Some v \<Rightarrow> Inr v)"

definition guard_result :: "bool \<Rightarrow> 'e \<Rightarrow> 'e + unit" where
  "guard_result bad e = (if bad then Inl e else Inr ())"

fun map_err :: "('e \<Rightarrow> 'f) \<Rightarrow> 'e + 'a \<Rightarrow> 'f + 'a" where
  "map_err f (Inl e) = Inl (f e)"
| "map_err f (Inr x) = Inr x"

lemma bind_result_Inr_iff [result_simps]:
  "bind_result m f = Inr y \<longleftrightarrow> (\<exists>x. m = Inr x \<and> f x = Inr y)"
  by (cases m) auto

lemma bind_result_Inl_iff [result_simps]:
  "bind_result m f = Inl e \<longleftrightarrow> m = Inl e \<or> (\<exists>x. m = Inr x \<and> f x = Inl e)"
  by (cases m) auto

lemma ok_or_Inr_iff [result_simps]: "ok_or e x = Inr v \<longleftrightarrow> x = Some v"
  by (cases x) (auto simp: ok_or_def)

lemma ok_or_Inl_iff [result_simps]: "ok_or e x = Inl f \<longleftrightarrow> x = None \<and> e = f"
  by (cases x) (auto simp: ok_or_def)

lemma guard_result_Inr_iff [result_simps]: "guard_result bad e = Inr u \<longleftrightarrow> \<not> bad"
  by (auto simp: guard_result_def)

lemma guard_result_Inl_iff [result_simps]: "guard_result bad e = Inl f \<longleftrightarrow> bad \<and> e = f"
  by (auto simp: guard_result_def)

lemma map_err_Inr_iff [result_simps]: "map_err f m = Inr x \<longleftrightarrow> m = Inr x"
  by (cases m) auto

lemma map_err_Inl_iff [result_simps]: "map_err f m = Inl e \<longleftrightarrow> (\<exists>d. m = Inl d \<and> e = f d)"
  by (cases m) auto

section \<open>Strings\<close>

text \<open>
  A Rust string is the list of its Unicode scalar values: \<open>chars()\<close> is the list
  itself, \<open>len()\<close> the number of UTF-8 bytes. Comparing strings byte-wise, as \<open>Ord\<close>
  does, agrees with comparing the scalar values lexicographically.
\<close>

type_synonym rchar = nat
type_synonym rstring = "rchar list"

definition rstr :: "string \<Rightarrow> rstring" where
  "rstr s = map of_char s"

definition utf8_len :: "rchar \<Rightarrow> nat" where
  "utf8_len c = (if c < 0x80 then 1 else if c < 0x800 then 2 else if c < 0x10000 then 3 else 4)"

definition str_len :: "rstring \<Rightarrow> nat" where
  "str_len s = sum_list (map utf8_len s)"

definition is_ascii_uppercase :: "rchar \<Rightarrow> bool" where
  "is_ascii_uppercase c \<longleftrightarrow> 65 \<le> c \<and> c \<le> 90"

definition is_ascii_lowercase :: "rchar \<Rightarrow> bool" where
  "is_ascii_lowercase c \<longleftrightarrow> 97 \<le> c \<and> c \<le> 122"

definition is_ascii_digit :: "rchar \<Rightarrow> bool" where
  "is_ascii_digit c \<longleftrightarrow> 48 \<le> c \<and> c \<le> 57"

definition is_ascii_alphanumeric :: "rchar \<Rightarrow> bool" where
  "is_ascii_alphanumeric c \<longleftrightarrow> is_ascii_uppercase c \<or> is_ascii_lowercase c \<or> is_ascii_digit c"

definition is_ascii_hexdigit :: "rchar \<Rightarrow> bool" where
  "is_ascii_hexdigit c \<longleftrightarrow> is_ascii_digit c \<or> 65 \<le> c \<and> c \<le> 70 \<or> 97 \<le> c \<and> c \<le> 102"

definition is_control :: "rchar \<Rightarrow> bool" where
  "is_control c \<longleftrightarrow> c < 0x20 \<or> 0x7F \<le> c \<and> c < 0xA0"

definition is_whitespace :: "rchar \<Rightarrow> bool" where
  "is_whitespace c \<longleftrightarrow>
     0x09 \<le> c \<and> c \<le> 0x0D \<or> c = 0x20 \<or> c = 0x85 \<or> c = 0xA0 \<or> c = 0x1680 \<or>
     0x2000 \<le> c \<and> c \<le> 0x200A \<or> c = 0x2028 \<or> c = 0x2029 \<or> c = 0x202F \<or> c = 0x205F \<or> c = 0x3000"

definition trim_start :: "rstring \<Rightarrow> rstring" where
  "trim_start s = dropWhile is_whitespace s"

definition trim :: "rstring \<Rightarrow> rstring" where
  "trim s = rev (trim_start (rev (trim_start s)))"

definition to_ascii_uppercase :: "rstring \<Rightarrow> rstring" where
  "to_ascii_uppercase s = map (\<lambda>c. if is_ascii_lowercase c then c - 32 else c) s"

definition eq_ignore_ascii_case :: "rstring \<Rightarrow> rstring \<Rightarrow> bool" where
  "eq_ignore_ascii_case s t \<longleftrightarrow> to_ascii_uppercase s = to_ascii_uppercase t"

definition ascii_token_char :: "rchar \<Rightarrow> bool" where
  "ascii_token_char c \<longleftrightarrow> is_ascii_alphanumeric c \<or> c = 95 \<or> c = 45"

fun starts_with :: "rstring \<Rightarrow> rstring \<Rightarrow> bool" where
  "starts_with s [] = True"
| "starts_with [] (p # ps) = False"
| "starts_with (c # s) (p # ps) \<longleftrightarrow> c = p \<and> starts_with s ps"

definition utf8_char :: "rchar \<Rightarrow> u8 list" where
  "utf8_char c =
     map of_nat
       (if c < 0x80 then [c]
        else if c < 0x800 then [0xC0 + c div 64, 0x80 + c mod 64]
        else if c < 0x10000 then [0xE0 + c div 4096, 0x80 + c div 64 mod 64, 0x80 + c mod 64]
        else [0xF0 + c div 262144, 0x80 + c div 4096 mod 64, 0x80 + c div 64 mod 64, 0x80 + c mod 64])"

definition as_bytes :: "rstring \<Rightarrow> u8 list" where
  "as_bytes s = concat (map utf8_char s)"

lemmas ascii_defs =
  is_ascii_alphanumeric_def is_ascii_uppercase_def is_ascii_lowercase_def is_ascii_digit_def

lemma str_len_simps [simp]:
  "str_len [] = 0" "str_len (c # s) = utf8_len c + str_len s"
  "str_len (s @ t) = str_len s + str_len t"
  by (simp_all add: str_len_def)

lemma utf8_len_bounds: "1 \<le> utf8_len c" "utf8_len c \<le> 4"
  by (simp_all add: utf8_len_def)

lemma length_le_str_len: "length s \<le> str_len s"
proof (induction s)
  case (Cons c s)
  then show ?case using utf8_len_bounds(1) [of c] by simp
qed simp

lemma str_len_le_4_length: "str_len s \<le> 4 * length s"
proof (induction s)
  case (Cons c s)
  then show ?case using utf8_len_bounds(2) [of c] by simp
qed simp

lemma str_len_0_iff [simp]: "str_len s = 0 \<longleftrightarrow> s = []"
  using length_le_str_len [of s] by auto

lemma str_len_ascii: "(\<forall>c \<in> set s. c < 128) \<Longrightarrow> str_len s = length s"
  by (induction s) (auto simp: utf8_len_def)

lemma ascii_alphanumeric_ascii: "is_ascii_alphanumeric c \<Longrightarrow> c < 128"
  by (auto simp: ascii_defs)

lemma ascii_alphanumeric_not_space: "is_ascii_alphanumeric c \<Longrightarrow> \<not> is_whitespace c"
  by (auto simp: ascii_defs is_whitespace_def)

lemma ascii_alphanumeric_not_control: "is_ascii_alphanumeric c \<Longrightarrow> \<not> is_control c"
  by (auto simp: ascii_defs is_control_def)

lemma ascii_token_char_props:
  assumes "ascii_token_char c"
  shows "c < 128" "\<not> is_whitespace c" "\<not> is_control c"
  using assms
  by (auto simp: ascii_token_char_def ascii_defs is_whitespace_def is_control_def)

lemma set_trim_start: "set (trim_start s) \<subseteq> set s"
  by (auto simp: trim_start_def dest: set_dropWhileD)

lemma set_trim: "set (trim s) \<subseteq> set s"
  using set_trim_start [of s] set_trim_start [of "rev (trim_start s)"]
  by (auto simp: trim_def)

lemma trim_start_idem_iff:
  "trim_start s = s \<longleftrightarrow> (s = [] \<or> \<not> is_whitespace (hd s))"
proof (cases s)
  case (Cons c t)
  have "length (dropWhile is_whitespace t) \<le> length t" by (rule length_dropWhile_le)
  with Cons show ?thesis by (auto simp: trim_start_def dest: arg_cong [where f = length])
qed (simp add: trim_start_def)

lemma trim_no_space: "(\<forall>c \<in> set s. \<not> is_whitespace c) \<Longrightarrow> trim s = s"
proof -
  assume ns: "\<forall>c \<in> set s. \<not> is_whitespace c"
  then have "trim_start s = s" by (auto simp: trim_start_idem_iff)
  moreover from ns have "trim_start (rev s) = rev s"
    by (cases "rev s") (auto simp: trim_start_idem_iff simp flip: set_rev [of s])
  ultimately show ?thesis by (simp add: trim_def)
qed

lemma trim_start_idem: "trim_start (trim_start s) = trim_start s"
  by (simp add: trim_start_def)

lemma trim_idem: "trim (trim s) = trim s"
proof -
  let ?u = "trim_start s" and ?v = "trim s"
  have "?u = ?v @ rev (takeWhile is_whitespace (rev ?u))"
    unfolding trim_def trim_start_def [of "rev (trim_start s)"]
    by (metis rev_append rev_rev_ident takeWhile_dropWhile_id)
  then have "?v \<noteq> [] \<Longrightarrow> hd ?v = hd ?u" by (metis hd_append2)
  moreover have "?u = [] \<or> \<not> is_whitespace (hd ?u)" using trim_start_idem by (simp add: trim_start_idem_iff [symmetric])
  moreover have "?u = [] \<Longrightarrow> ?v = []" by (simp add: trim_def) (simp add: trim_start_def)
  ultimately have "trim_start ?v = ?v" by (cases "?v = []") (auto simp: trim_start_idem_iff)
  moreover have "trim_start (rev ?v) = rev ?v" by (simp add: trim_def trim_start_idem)
  ultimately show ?thesis by (simp add: trim_def [of ?v])
qed

lemma to_ascii_uppercase_idem [simp]:
  "to_ascii_uppercase (to_ascii_uppercase s) = to_ascii_uppercase s"
  by (auto simp: to_ascii_uppercase_def is_ascii_lowercase_def)

lemma length_to_ascii_uppercase [simp]: "length (to_ascii_uppercase s) = length s"
  by (simp add: to_ascii_uppercase_def)

lemma case_find_result:
  "(case find P xs of Some x \<Rightarrow> Inl (f x) | None \<Rightarrow> Inr y) = Inr z \<longleftrightarrow> list_all (\<lambda>x. \<not> P x) xs \<and> y = z"
  by (induction xs) auto

section \<open>Maps\<close>

text \<open>
  The interface the two map implementations of the Rust standard library share, and what
  its clients use: inserting a whole sequence of entries leaves the last value per key.
\<close>

locale keyed_map =
  fixes emp :: 'm
    and get :: "'m \<Rightarrow> 'k \<Rightarrow> 'v option"
    and put :: "'k \<Rightarrow> 'v \<Rightarrow> 'm \<Rightarrow> 'm"
    and wf :: "'m \<Rightarrow> bool"
  assumes get_emp: "get emp = Map.empty"
    and wf_emp: "wf emp"
    and get_put: "wf m \<Longrightarrow> get (put k v m) = (get m)(k \<mapsto> v)"
    and wf_put: "wf m \<Longrightarrow> wf (put k v m)"
begin

lemma wf_put_all: "wf m \<Longrightarrow> wf (fold (\<lambda>(k, v). put k v) kvs m)"
  by (induction kvs arbitrary: m) (auto simp: wf_put)

lemma get_put_all:
  "wf m \<Longrightarrow> get (fold (\<lambda>(k, v). put k v) kvs m) = get m ++ map_of (rev kvs)"
proof (induction kvs arbitrary: m)
  case Nil
  then show ?case by simp
next
  case (Cons kv kvs)
  obtain k v where kv: "kv = (k, v)" by (cases kv)
  have "get (fold (\<lambda>(k, v). put k v) kvs (put k v m)) =
      get (put k v m) ++ map_of (rev kvs)"
    using Cons by (simp add: wf_put)
  also have "\<dots> = get m ++ map_of (rev (kv # kvs))"
    using Cons.prems by (auto simp: kv get_put map_add_def fun_eq_iff split: option.splits)
  finally show ?case by (simp add: kv)
qed

lemma get_put_all_distinct:
  assumes "distinct (map fst kvs)"
  shows "get (fold (\<lambda>(k, v). put k v) kvs emp) = map_of kvs"
proof -
  have "map_of (rev kvs) k = Some v \<longleftrightarrow> map_of kvs k = Some v" for k v
    using assms by (simp add: rev_map [symmetric])
  then have "map_of (rev kvs) = map_of kvs"
    by (intro ext) (metis option.exhaust)
  then show ?thesis by (simp add: get_put_all wf_emp get_emp)
qed

end

text \<open>\<open>BTreeMap\<close>: iteration is in key order, so the model keeps its entries sorted by key.\<close>

type_synonym ('k, 'v) btree_map = "('k \<times> 'v) list"

definition bt_wf :: "('k::linorder, 'v) btree_map \<Rightarrow> bool" where
  "bt_wf m \<longleftrightarrow> sorted_wrt (<) (map fst m)"

fun bt_insert :: "'k::linorder \<Rightarrow> 'v \<Rightarrow> ('k, 'v) btree_map \<Rightarrow> ('k, 'v) btree_map" where
  "bt_insert k v [] = [(k, v)]"
| "bt_insert k v ((k', v') # m) =
     (if k < k' then (k, v) # (k', v') # m
      else if k = k' then (k, v) # m
      else (k', v') # bt_insert k v m)"

lemma bt_wf_simps [simp]:
  "bt_wf []" "bt_wf (kv # m) \<longleftrightarrow> (\<forall>k \<in> set (map fst m). fst kv < k) \<and> bt_wf m"
  by (auto simp: bt_wf_def)

lemma map_of_bt_insert: "bt_wf m \<Longrightarrow> map_of (bt_insert k v m) = (map_of m)(k \<mapsto> v)"
proof (induction k v m rule: bt_insert.induct)
  case (2 k v k' v' m)
  then show ?case by (auto simp: fun_eq_iff)
qed simp

lemma keys_bt_insert: "fst ` set (bt_insert k v m) = insert k (fst ` set m)"
  by (induction k v m rule: bt_insert.induct) auto

lemma bt_wf_insert: "bt_wf m \<Longrightarrow> bt_wf (bt_insert k v m)"
  by (induction k v m rule: bt_insert.induct) (auto simp: keys_bt_insert)

lemma bt_wf_distinct: "bt_wf m \<Longrightarrow> distinct (map fst m)"
  by (simp add: bt_wf_def strict_sorted_iff)

interpretation bt: keyed_map "[]" map_of bt_insert bt_wf
  by unfold_locales (simp_all add: map_of_bt_insert bt_wf_insert)

text \<open>A sorted association list is determined by the map it represents.\<close>

lemma bt_ext:
  assumes "bt_wf m" "bt_wf n" "map_of m = map_of n"
  shows "m = n"
  using assms
proof (induction m arbitrary: n)
  case Nil
  then show ?case by (metis map_of_eq_empty_iff)
next
  case (Cons kv m)
  obtain k v where kv: "kv = (k, v)" by (cases kv)
  have dk: "fst ` set n = insert k (fst ` set m)"
    using Cons.prems(3) dom_map_of_conv_image_fst [of "kv # m"] dom_map_of_conv_image_fst [of n]
    by (metis fst_conv image_insert kv list.simps(15))
  then obtain l w n' where n: "n = (l, w) # n'"
    by (cases n) auto
  have least: "k \<le> x" if "x \<in> fst ` set n" for x
    using that dk Cons.prems(1) by (auto simp: kv)
  have "l \<le> x" if "x \<in> fst ` set n" for x
    using that Cons.prems(2) by (auto simp: n)
  with least dk n have kl: "k = l"
    by (metis antisym image_eqI insertI1 fst_conv list.set_intros(1))
  have vw: "v = w"
    using Cons.prems(3) by (simp add: kv n kl fun_eq_iff) (metis option.inject)
  have fresh: "map_of m k = None" "map_of n' k = None"
    using Cons.prems(1,2) by (auto simp: kv n kl map_of_eq_None_iff)
  have "map_of m x = map_of n' x" for x
    using fun_cong [OF Cons.prems(3), of x] fresh by (cases "x = k") (auto simp: kv n kl)
  then have "m = n'"
    using Cons.IH [of n'] Cons.prems by (auto simp: n)
  with kv n kl vw show ?case by simp
qed

lemma bt_insert_present:
  assumes "bt_wf m" "map_of m k = Some v"
  shows "bt_insert k v m = m"
  using assms by (intro bt_ext) (auto simp: bt_wf_insert map_of_bt_insert fun_eq_iff)

lemma bt_rebuild: "bt_wf m \<Longrightarrow> fold (\<lambda>(k, v). bt_insert k v) m [] = m"
  by (intro bt_ext) (simp_all add: bt.wf_put_all bt.get_put_all_distinct bt_wf_distinct)

lemma bt_wf_map_values: "bt_wf (map (\<lambda>(k, v). (k, f k v)) m) \<longleftrightarrow> bt_wf m"
  by (simp add: bt_wf_def comp_def case_prod_beta)

lemma map_of_map_values:
  "map_of (map (\<lambda>(k, v). (k, f k v)) m) = (\<lambda>k. map_option (f k) (map_of m k))"
  by (induction m) (auto simp: fun_eq_iff)

lemma ball_values_map_of:
  "distinct (map fst m) \<Longrightarrow> (\<forall>kv \<in> set m. P (fst kv) (snd kv)) \<longleftrightarrow> (\<forall>k v. map_of m k = Some v \<longrightarrow> P k v)"
  by auto

lemma bex_values_map_of:
  "distinct (map fst m) \<Longrightarrow> (\<exists>kv \<in> set m. P (fst kv) (snd kv)) \<longleftrightarrow> (\<exists>k v. map_of m k = Some v \<and> P k v)"
  by force

text \<open>
  \<open>HashMap\<close>: iteration order is unspecified, so the model is an association list with
  distinct keys in any order; statements quantify over all such lists.
\<close>

type_synonym ('k, 'v) hash_map = "('k \<times> 'v) list"

definition hm_wf :: "('k, 'v) hash_map \<Rightarrow> bool" where
  "hm_wf m \<longleftrightarrow> distinct (map fst m)"

interpretation hm: keyed_map "[]" map_of AList.update hm_wf
  by unfold_locales (simp_all add: hm_wf_def update_conv' distinct_update)

lemma hm_wf_delete: "hm_wf m \<Longrightarrow> hm_wf (AList.delete k m)"
  by (simp add: hm_wf_def distinct_delete)

lemma map_of_hm_delete: "map_of (AList.delete k m) = (map_of m)(k := None)"
  by (rule delete_conv')

section \<open>Command machines\<close>

text \<open>
  Several components are a state with one command handler that reports a result and may
  have changed the state even when it reports an error. An invariant that one command
  keeps holds after every sequence of commands.
\<close>

fun run_commands :: "('s \<Rightarrow> 'c \<Rightarrow> 's \<times> 'r) \<Rightarrow> 's \<Rightarrow> 'c list \<Rightarrow> 's" where
  "run_commands h s [] = s"
| "run_commands h s (c # cs) = run_commands h (fst (h s c)) cs"

lemma run_commands_append:
  "run_commands h s (cs @ ds) = run_commands h (run_commands h s cs) ds"
  by (induction cs arbitrary: s) auto

locale command_machine =
  fixes handler :: "'s \<Rightarrow> 'c \<Rightarrow> 's \<times> 'r"
    and inv :: "'s \<Rightarrow> bool"
  assumes inv_step: "inv s \<Longrightarrow> inv (fst (handler s c))"
begin

lemma inv_run: "inv s \<Longrightarrow> inv (run_commands handler s cs)"
  by (induction cs arbitrary: s) (auto intro: inv_step)

lemma monotone_run:
  assumes step: "\<And>s c. inv s \<Longrightarrow> (f s :: 'm::preorder) \<le> f (fst (handler s c))"
  shows "inv s \<Longrightarrow> f s \<le> f (run_commands handler s cs)"
proof (induction cs arbitrary: s)
  case (Cons c cs)
  have "f s \<le> f (fst (handler s c))" by (rule step [OF Cons.prems])
  also have "\<dots> \<le> f (run_commands handler (fst (handler s c)) cs)"
    by (rule Cons.IH) (rule inv_step [OF Cons.prems])
  finally show ?case by simp
qed simp

lemma constant_run:
  assumes step: "\<And>s c. inv s \<Longrightarrow> f (fst (handler s c)) = f s"
  shows "inv s \<Longrightarrow> f (run_commands handler s cs) = f s"
  by (induction cs arbitrary: s) (auto simp: step inv_step)

lemma stable_run:
  assumes step: "\<And>s c. inv s \<Longrightarrow> P s \<Longrightarrow> P (fst (handler s c))"
  shows "inv s \<Longrightarrow> P s \<Longrightarrow> P (run_commands handler s cs)"
  by (induction cs arbitrary: s) (auto intro: step inv_step)

end

end
