(* ===== verification/Domain_Ids.thy ===== *)
theory Domain_Ids
  imports P2P_Prelude
begin

text \<open>
  Identifiers, room codes, time and sessions of the domain crate
  (\<open>rust/crates/domain/src/{ids,time,session}.rs\<close>): the validated newtypes with their
  parsers, checked time arithmetic, and the session with its expiry.
\<close>

section \<open>Time\<close>

type_synonym epoch_millis = u64
type_synonym duration_millis = u64
type_synonym revision = u64

datatype time_error = TimeOverflow

definition epoch_checked_add :: "epoch_millis \<Rightarrow> duration_millis \<Rightarrow> time_error + epoch_millis" where
  "epoch_checked_add t d = ok_or TimeOverflow (checked_add t d)"

definition revision_next :: "revision \<Rightarrow> time_error + revision" where
  "revision_next r = ok_or TimeOverflow (checked_add r 1)"

lemma epoch_checked_add_Inr_iff:
  "epoch_checked_add t d = Inr s \<longleftrightarrow> unat s = unat t + unat d"
  by (simp add: epoch_checked_add_def result_simps word_to_nat)

lemma revision_next_Inr_iff: "revision_next r = Inr s \<longleftrightarrow> unat s = unat r + 1"
  by (simp add: revision_next_def result_simps word_to_nat)

section \<open>Identifiers\<close>

definition MAX_ID_BYTES :: nat where
  "MAX_ID_BYTES = 64"

datatype id_error =
    IdEmpty string
  | IdTooLong string
  | IdInvalidCharacter string rchar

definition validate_id :: "rstring \<Rightarrow> string \<Rightarrow> id_error + unit" where
  "validate_id val kind =
     (if val = [] then Inl (IdEmpty kind)
      else if MAX_ID_BYTES < str_len val then Inl (IdTooLong kind)
      else case find (\<lambda>c. \<not> is_ascii_alphanumeric c \<and> \<not> (c = 95 \<or> c = 45)) val of
             Some c \<Rightarrow> Inl (IdInvalidCharacter kind c)
           | None \<Rightarrow> Inr ())"

datatype session_id = SessionId (session_id_str: rstring)
datatype room_id = RoomId (room_id_str: rstring)
datatype peer_id = PeerId (peer_id_str: rstring)
datatype request_id = RequestId (request_id_str: rstring)

definition session_id_parse :: "rstring \<Rightarrow> id_error + session_id" where
  "session_id_parse v = bind_result (validate_id v ''session id'') (\<lambda>_. Inr (SessionId v))"

definition room_id_parse :: "rstring \<Rightarrow> id_error + room_id" where
  "room_id_parse v = bind_result (validate_id v ''room id'') (\<lambda>_. Inr (RoomId v))"

definition peer_id_parse :: "rstring \<Rightarrow> id_error + peer_id" where
  "peer_id_parse v = bind_result (validate_id v ''peer id'') (\<lambda>_. Inr (PeerId v))"

definition request_id_parse :: "rstring \<Rightarrow> id_error + request_id" where
  "request_id_parse v = bind_result (validate_id v ''request id'') (\<lambda>_. Inr (RequestId v))"

text \<open>The derived \<open>Ord\<close> of the newtypes used as \<open>BTreeMap\<close> keys.\<close>

instantiation session_id :: linorder
begin

definition less_eq_session_id :: "session_id \<Rightarrow> session_id \<Rightarrow> bool" where
  "less_eq_session_id a b \<longleftrightarrow> session_id_str a \<le> session_id_str b"

definition less_session_id :: "session_id \<Rightarrow> session_id \<Rightarrow> bool" where
  "less_session_id a b \<longleftrightarrow> session_id_str a < session_id_str b"

instance
  by standard (auto simp: less_eq_session_id_def less_session_id_def session_id.expand)

end

instantiation request_id :: linorder
begin

definition less_eq_request_id :: "request_id \<Rightarrow> request_id \<Rightarrow> bool" where
  "less_eq_request_id a b \<longleftrightarrow> request_id_str a \<le> request_id_str b"

definition less_request_id :: "request_id \<Rightarrow> request_id \<Rightarrow> bool" where
  "less_request_id a b \<longleftrightarrow> request_id_str a < request_id_str b"

instance
  by standard (auto simp: less_eq_request_id_def less_request_id_def request_id.expand)

end

lemmas id_order_defs =
  less_eq_session_id_def less_session_id_def less_eq_request_id_def less_request_id_def

section \<open>Room codes\<close>

datatype room_code = RoomCode (room_code_str: rstring)

datatype room_code_error = RoomCodeInvalidLength | RoomCodeInvalidCharacter rchar

definition ROOM_CODE_LENGTH :: nat where
  "ROOM_CODE_LENGTH = 6"

definition room_code_parse :: "rstring \<Rightarrow> room_code_error + room_code" where
  "room_code_parse v =
     (let val = to_ascii_uppercase (trim v)
      in if str_len val \<noteq> ROOM_CODE_LENGTH then Inl RoomCodeInvalidLength
         else case find (\<lambda>c. \<not> is_ascii_alphanumeric c) val of
                Some c \<Rightarrow> Inl (RoomCodeInvalidCharacter c)
              | None \<Rightarrow> Inr (RoomCode val))"

section \<open>Sessions\<close>

definition MAX_DISPLAY_NAME_CHARS :: nat where
  "MAX_DISPLAY_NAME_CHARS = 48"

datatype display_name = DisplayName (display_name_str: rstring)

datatype display_name_error = DisplayNameInvalidLength | DisplayNameControlCharacter

definition display_name_parse :: "rstring \<Rightarrow> display_name_error + display_name" where
  "display_name_parse v =
     (let val = trim v; len = length val
      in if len = 0 \<or> MAX_DISPLAY_NAME_CHARS < len then Inl DisplayNameInvalidLength
         else if list_ex is_control val then Inl DisplayNameControlCharacter
         else Inr (DisplayName val))"

datatype session_state = SessionActive | SessionExpired

record session =
  sess_id :: session_id
  sess_display_name :: display_name
  sess_expires_at :: epoch_millis
  sess_state :: session_state

datatype session_error = SessInvalidExpiry | SessExpiryNotReached | SessExpired

definition session_create ::
  "session_id \<Rightarrow> display_name \<Rightarrow> epoch_millis \<Rightarrow> epoch_millis \<Rightarrow> session_error + session" where
  "session_create sid name now expires =
     (if expires \<le> now then Inl SessInvalidExpiry
      else Inr \<lparr>sess_id = sid, sess_display_name = name, sess_expires_at = expires,
                sess_state = SessionActive\<rparr>)"

definition session_restore ::
  "session_id \<Rightarrow> display_name \<Rightarrow> epoch_millis \<Rightarrow> session_state \<Rightarrow> session" where
  "session_restore sid name expires st =
     \<lparr>sess_id = sid, sess_display_name = name, sess_expires_at = expires, sess_state = st\<rparr>"

definition session_expire :: "session \<Rightarrow> epoch_millis \<Rightarrow> session \<times> (session_error + bool)" where
  "session_expire s now =
     (if sess_state s = SessionExpired then (s, Inr False)
      else if now < sess_expires_at s then (s, Inl SessExpiryNotReached)
      else (s\<lparr>sess_state := SessionExpired\<rparr>, Inr True))"

definition session_ensure_active :: "session \<Rightarrow> epoch_millis \<Rightarrow> session_error + unit" where
  "session_ensure_active s now =
     (if sess_state s = SessionExpired \<or> sess_expires_at s \<le> now then Inl SessExpired
      else Inr ())"

section \<open>Facts about the parsers\<close>

lemma validate_id_Inr_iff:
  "validate_id v kind = Inr u \<longleftrightarrow>
   v \<noteq> [] \<and> length v \<le> 64 \<and> (\<forall>c \<in> set v. ascii_token_char c)"
proof (cases "\<forall>c \<in> set v. ascii_token_char c")
  case True
  then have "str_len v = length v"
    by (intro str_len_ascii) (auto dest: ascii_token_char_props)
  with True show ?thesis
    by (auto simp: validate_id_def MAX_ID_BYTES_def case_find_result list_all_iff ascii_token_char_def)
next
  case False
  then show ?thesis
    by (auto simp: validate_id_def case_find_result list_all_iff ascii_token_char_def)
qed

lemma validate_id_kind:
  "validate_id v kind = Inr u \<Longrightarrow> validate_id v kind' = Inr u"
  by (simp add: validate_id_Inr_iff)

lemma id_parse_Inr_iff [result_simps]:
  "session_id_parse v = Inr i \<longleftrightarrow> validate_id v ''session id'' = Inr () \<and> i = SessionId v"
  "room_id_parse v = Inr j \<longleftrightarrow> validate_id v ''room id'' = Inr () \<and> j = RoomId v"
  "peer_id_parse v = Inr k \<longleftrightarrow> validate_id v ''peer id'' = Inr () \<and> k = PeerId v"
  "request_id_parse v = Inr l \<longleftrightarrow> validate_id v ''request id'' = Inr () \<and> l = RequestId v"
  by (auto simp: session_id_parse_def room_id_parse_def peer_id_parse_def request_id_parse_def
      result_simps)

lemma to_ascii_uppercase_fixed:
  "to_ascii_uppercase s = s \<longleftrightarrow> (\<forall>c \<in> set s. \<not> is_ascii_lowercase c)"
  by (induction s) (auto simp: to_ascii_uppercase_def is_ascii_lowercase_def)

lemma not_lowercase_uppercased: "c \<in> set (to_ascii_uppercase s) \<Longrightarrow> \<not> is_ascii_lowercase c"
  by (auto simp: to_ascii_uppercase_def is_ascii_lowercase_def split: if_splits)

lemma room_code_parse_Inr_iff:
  "room_code_parse v = Inr c \<longleftrightarrow>
   room_code_str c = to_ascii_uppercase (trim v) \<and> length (room_code_str c) = 6 \<and>
   (\<forall>x \<in> set (room_code_str c). is_ascii_alphanumeric x)"
proof (cases "\<forall>x \<in> set (to_ascii_uppercase (trim v)). is_ascii_alphanumeric x")
  case True
  then have "str_len (to_ascii_uppercase (trim v)) = length (to_ascii_uppercase (trim v))"
    by (intro str_len_ascii) (auto dest: ascii_alphanumeric_ascii)
  with True show ?thesis
    by (cases c)
      (auto simp: room_code_parse_def Let_def ROOM_CODE_LENGTH_def case_find_result list_all_iff)
next
  case False
  then show ?thesis
    by (auto simp: room_code_parse_def Let_def case_find_result list_all_iff)
qed

text \<open>
  A code in the language of the parser's outputs: six ASCII capitals or digits. Every
  parsed code is in it and parses to itself.
\<close>

definition room_code_wf :: "room_code \<Rightarrow> bool" where
  "room_code_wf c \<longleftrightarrow> length (room_code_str c) = 6 \<and>
     list_all (\<lambda>x. is_ascii_uppercase x \<or> is_ascii_digit x) (room_code_str c)"

lemma room_code_parse_wf:
  assumes "room_code_parse v = Inr c"
  shows "room_code_wf c"
  using assms not_lowercase_uppercased [of _ "trim v"]
  by (auto simp: room_code_parse_Inr_iff room_code_wf_def list_all_iff is_ascii_alphanumeric_def)

lemma room_code_wf_parse:
  assumes "room_code_wf c"
  shows "room_code_parse (room_code_str c) = Inr c"
proof -
  have alnum: "\<forall>x \<in> set (room_code_str c). is_ascii_alphanumeric x"
    using assms by (auto simp: room_code_wf_def list_all_iff is_ascii_alphanumeric_def)
  then have "trim (room_code_str c) = room_code_str c"
    by (intro trim_no_space) (auto dest: ascii_alphanumeric_not_space)
  moreover have "to_ascii_uppercase (room_code_str c) = room_code_str c"
    using assms
    by (auto simp: to_ascii_uppercase_fixed room_code_wf_def list_all_iff
        is_ascii_uppercase_def is_ascii_lowercase_def is_ascii_digit_def)
  ultimately show ?thesis
    using assms alnum by (simp add: room_code_parse_Inr_iff room_code_wf_def)
qed

lemma session_ensure_active_Inr_iff [result_simps]:
  "session_ensure_active s now = Inr u \<longleftrightarrow> sess_state s = SessionActive \<and> now < sess_expires_at s"
  by (cases "sess_state s") (auto simp: session_ensure_active_def)

lemma display_name_parse_Inr_iff:
  "display_name_parse v = Inr n \<longleftrightarrow>
     trim v \<noteq> [] \<and> length (trim v) \<le> MAX_DISPLAY_NAME_CHARS \<and> \<not> list_ex is_control (trim v) \<and> n = DisplayName (trim v)"
  by (auto simp: display_name_parse_def Let_def)

lemma display_name_reparse:
  "display_name_parse v = Inr n \<Longrightarrow> display_name_parse (display_name_str n) = Inr n"
  by (auto simp: display_name_parse_Inr_iff trim_idem)

end
