(* ===== verification/Domain_Room.thy ===== *)
theory Domain_Room
  imports Domain_Ids
begin

text \<open>
  The room aggregate of the domain crate (\<open>rust/crates/domain/src/room.rs\<close>): memberships,
  join requests and the command handler. A command may have mutated the room even when it
  reports an error (\<open>commit\<close> runs after the mutation), so every operation returns the
  room together with its result.
\<close>

section \<open>Data\<close>

datatype room_state = RoomActive | RoomExpired
datatype membership_role = Owner | Receiver
datatype membership_state = Offline | Online peer_id | Left

record membership =
  mem_role :: membership_role
  mem_state :: membership_state

datatype join_request_state = Pending | Approved | Rejected | Cancelled | Expired

record join_request =
  jr_session_id :: session_id
  jr_expires_at :: epoch_millis
  jr_state :: join_request_state

record room_membership_snapshot =
  ms_session_id :: session_id
  ms_role :: membership_role
  ms_state :: membership_state

record room_join_request_snapshot =
  js_request_id :: request_id
  js_session_id :: session_id
  js_expires_at :: epoch_millis
  js_state :: join_request_state

datatype join_decision = Approve | Reject

datatype room_command =
    RequestJoin request_id session_id epoch_millis epoch_millis
  | DecideJoin session_id request_id join_decision epoch_millis
  | ExpireJoinRequest request_id epoch_millis
  | Attach session_id peer_id epoch_millis
  | Detach session_id peer_id
  | Leave session_id
  | Expire epoch_millis

datatype room_command_outcome = Outcome (outcome_changed: bool)

abbreviation CHANGED :: room_command_outcome where
  "CHANGED \<equiv> Outcome True"

abbreviation UNCHANGED :: room_command_outcome where
  "UNCHANGED \<equiv> Outcome False"

record room =
  rm_id :: room_id
  rm_code :: room_code
  rm_owner :: session_id
  rm_expires_at :: epoch_millis
  rm_state :: room_state
  rm_revision :: revision
  rm_memberships :: "(session_id, membership) btree_map"
  rm_join_requests :: "(request_id, join_request) btree_map"

datatype room_error =
    InvalidExpiry | Inactive | InvalidRequestExpiry | IdempotencyConflict | AlreadyMember
  | PendingRequestExists | Unauthorized | RequestNotFound | RequestExpired
  | RequestExpiryNotReached | TerminalRequest | MembershipNotFound | MembershipLeft
  | ExpiryNotReached | RevisionOverflow

datatype room_invariant_error =
    ZeroRevision | MissingOwner | InvalidOwner | InvalidReceiverRole
  | ApprovedRequestWithoutMembership

datatype room_restore_error =
    DuplicateMembership session_id
  | DuplicateJoinRequest request_id
  | RequestOutlivesRoom request_id
  | Invariant room_invariant_error

section \<open>Construction\<close>

definition room_create ::
  "room_id \<Rightarrow> room_code \<Rightarrow> session_id \<Rightarrow> epoch_millis \<Rightarrow> epoch_millis \<Rightarrow>
   room_error + (room \<times> room_command_outcome)" where
  "room_create i code owner now expires =
     (if expires \<le> now then Inl InvalidExpiry
      else Inr (\<lparr>rm_id = i, rm_code = code, rm_owner = owner, rm_expires_at = expires,
                 rm_state = RoomActive, rm_revision = 1,
                 rm_memberships = bt_insert owner \<lparr>mem_role = Owner, mem_state = Offline\<rparr> [],
                 rm_join_requests = []\<rparr>, CHANGED))"

fun verify_receiver_roles ::
  "session_id \<Rightarrow> (session_id, membership) btree_map \<Rightarrow> room_invariant_error + unit" where
  "verify_receiver_roles owner [] = Inr ()"
| "verify_receiver_roles owner ((sid, m) # ms) =
     (if sid \<noteq> owner \<and> mem_role m \<noteq> Receiver then Inl InvalidReceiverRole
      else verify_receiver_roles owner ms)"

fun verify_approved ::
  "(session_id, membership) btree_map \<Rightarrow> (request_id, join_request) btree_map \<Rightarrow>
   room_invariant_error + unit" where
  "verify_approved ms [] = Inr ()"
| "verify_approved ms ((rid, q) # js) =
     (if jr_state q = Approved then
        (case map_of ms (jr_session_id q) of
           None \<Rightarrow> Inl ApprovedRequestWithoutMembership
         | Some m \<Rightarrow>
             if mem_role m \<noteq> Receiver then Inl ApprovedRequestWithoutMembership
             else verify_approved ms js)
      else verify_approved ms js)"

definition verify_invariants :: "room \<Rightarrow> room_invariant_error + unit" where
  "verify_invariants r =
     (if rm_revision r = 0 then Inl ZeroRevision
      else case map_of (rm_memberships r) (rm_owner r) of
             None \<Rightarrow> Inl MissingOwner
           | Some m \<Rightarrow>
               if mem_role m \<noteq> Owner \<or> mem_state m = Left then Inl InvalidOwner
               else bind_result (verify_receiver_roles (rm_owner r) (rm_memberships r))
                      (\<lambda>_. verify_approved (rm_memberships r) (rm_join_requests r)))"

fun restore_memberships ::
  "room_membership_snapshot list \<Rightarrow> (session_id, membership) btree_map \<Rightarrow>
   room_restore_error + (session_id, membership) btree_map" where
  "restore_memberships [] acc = Inr acc"
| "restore_memberships (m # ms) acc =
     (case map_of acc (ms_session_id m) of
        Some _ \<Rightarrow> Inl (DuplicateMembership (ms_session_id m))
      | None \<Rightarrow>
          restore_memberships ms
            (bt_insert (ms_session_id m) \<lparr>mem_role = ms_role m, mem_state = ms_state m\<rparr> acc))"

fun restore_requests ::
  "epoch_millis \<Rightarrow> room_join_request_snapshot list \<Rightarrow> (request_id, join_request) btree_map \<Rightarrow>
   room_restore_error + (request_id, join_request) btree_map" where
  "restore_requests expires [] acc = Inr acc"
| "restore_requests expires (q # qs) acc =
     (if expires < js_expires_at q then Inl (RequestOutlivesRoom (js_request_id q))
      else case map_of acc (js_request_id q) of
             Some _ \<Rightarrow> Inl (DuplicateJoinRequest (js_request_id q))
           | None \<Rightarrow>
               restore_requests expires qs
                 (bt_insert (js_request_id q)
                    \<lparr>jr_session_id = js_session_id q, jr_expires_at = js_expires_at q,
                     jr_state = js_state q\<rparr> acc))"

definition room_restore ::
  "room_id \<Rightarrow> room_code \<Rightarrow> session_id \<Rightarrow> epoch_millis \<Rightarrow> room_state \<Rightarrow> revision \<Rightarrow>
   room_membership_snapshot list \<Rightarrow> room_join_request_snapshot list \<Rightarrow>
   room_restore_error + room" where
  "room_restore i code owner expires st rv ms js =
     bind_result (restore_memberships ms []) (\<lambda>memberships.
     bind_result (restore_requests expires js []) (\<lambda>requests.
       let r = \<lparr>rm_id = i, rm_code = code, rm_owner = owner, rm_expires_at = expires,
                rm_state = st, rm_revision = rv, rm_memberships = memberships,
                rm_join_requests = requests\<rparr>
       in bind_result (map_err Invariant (verify_invariants r)) (\<lambda>_. Inr r)))"

section \<open>Queries\<close>

definition membership_state_of :: "room \<Rightarrow> session_id \<Rightarrow> membership_state option" where
  "membership_state_of r sid = map_option mem_state (map_of (rm_memberships r) sid)"

definition join_request_state_of :: "room \<Rightarrow> request_id \<Rightarrow> join_request_state option" where
  "join_request_state_of r rid = map_option jr_state (map_of (rm_join_requests r) rid)"

definition membership_snapshots :: "room \<Rightarrow> room_membership_snapshot list" where
  "membership_snapshots r =
     map (\<lambda>(sid, m). \<lparr>ms_session_id = sid, ms_role = mem_role m, ms_state = mem_state m\<rparr>)
       (rm_memberships r)"

definition join_request_snapshots :: "room \<Rightarrow> room_join_request_snapshot list" where
  "join_request_snapshots r =
     map (\<lambda>(rid, q). \<lparr>js_request_id = rid, js_session_id = jr_session_id q,
                       js_expires_at = jr_expires_at q, js_state = jr_state q\<rparr>)
       (rm_join_requests r)"

section \<open>Commands\<close>

type_synonym room_result = "room \<times> (room_error + room_command_outcome)"

definition room_ensure_active :: "room \<Rightarrow> epoch_millis \<Rightarrow> room_error + unit" where
  "room_ensure_active r now =
     (if rm_state r \<noteq> RoomActive \<or> rm_expires_at r \<le> now then Inl Inactive else Inr ())"

definition commit :: "room \<Rightarrow> room_result" where
  "commit r =
     (case revision_next (rm_revision r) of
        Inl _ \<Rightarrow> (r, Inl RevisionOverflow)
      | Inr n \<Rightarrow> (r\<lparr>rm_revision := n\<rparr>, Inr CHANGED))"

definition request_join ::
  "room \<Rightarrow> request_id \<Rightarrow> session_id \<Rightarrow> epoch_millis \<Rightarrow> epoch_millis \<Rightarrow> room_result" where
  "request_join r rid sid now expires =
     (case room_ensure_active r now of
        Inl e \<Rightarrow> (r, Inl e)
      | Inr _ \<Rightarrow>
          if expires \<le> now \<or> rm_expires_at r < expires then (r, Inl InvalidRequestExpiry)
          else case map_of (rm_join_requests r) rid of
                 Some existing \<Rightarrow>
                   if jr_session_id existing = sid \<and> jr_expires_at existing = expires
                   then (r, Inr UNCHANGED) else (r, Inl IdempotencyConflict)
               | None \<Rightarrow>
                   if (case map_of (rm_memberships r) sid of
                         Some m \<Rightarrow> mem_state m \<noteq> Left | None \<Rightarrow> False)
                   then (r, Inl AlreadyMember)
                   else if list_ex (\<lambda>(_, q). jr_session_id q = sid \<and> jr_state q = Pending)
                             (rm_join_requests r)
                   then (r, Inl PendingRequestExists)
                   else commit (r\<lparr>rm_join_requests :=
                     bt_insert rid \<lparr>jr_session_id = sid, jr_expires_at = expires, jr_state = Pending\<rparr>
                       (rm_join_requests r)\<rparr>))"

definition decide_join ::
  "room \<Rightarrow> session_id \<Rightarrow> request_id \<Rightarrow> join_decision \<Rightarrow> epoch_millis \<Rightarrow> room_result" where
  "decide_join r actor rid decision now =
     (case room_ensure_active r now of
        Inl e \<Rightarrow> (r, Inl e)
      | Inr _ \<Rightarrow>
          if actor \<noteq> rm_owner r then (r, Inl Unauthorized)
          else case map_of (rm_join_requests r) rid of
                 None \<Rightarrow> (r, Inl RequestNotFound)
               | Some q \<Rightarrow>
                   if jr_expires_at q \<le> now then (r, Inl RequestExpired)
                   else case (jr_state q, decision) of
                          (Pending, Approve) \<Rightarrow>
                            commit (r\<lparr>rm_join_requests :=
                                        bt_insert rid (q\<lparr>jr_state := Approved\<rparr>) (rm_join_requests r),
                                      rm_memberships :=
                                        bt_insert (jr_session_id q)
                                          \<lparr>mem_role = Receiver, mem_state = Offline\<rparr>
                                          (rm_memberships r)\<rparr>)
                        | (Pending, Reject) \<Rightarrow>
                            commit (r\<lparr>rm_join_requests :=
                                        bt_insert rid (q\<lparr>jr_state := Rejected\<rparr>) (rm_join_requests r)\<rparr>)
                        | (Approved, Approve) \<Rightarrow> (r, Inr UNCHANGED)
                        | (Rejected, Reject) \<Rightarrow> (r, Inr UNCHANGED)
                        | _ \<Rightarrow> (r, Inl TerminalRequest))"

definition expire_join_request :: "room \<Rightarrow> request_id \<Rightarrow> epoch_millis \<Rightarrow> room_result" where
  "expire_join_request r rid now =
     (case room_ensure_active r now of
        Inl e \<Rightarrow> (r, Inl e)
      | Inr _ \<Rightarrow>
          (case map_of (rm_join_requests r) rid of
             None \<Rightarrow> (r, Inl RequestNotFound)
           | Some q \<Rightarrow>
               if jr_state q \<noteq> Pending then (r, Inr UNCHANGED)
               else if now < jr_expires_at q then (r, Inl RequestExpiryNotReached)
               else commit (r\<lparr>rm_join_requests :=
                      bt_insert rid (q\<lparr>jr_state := Expired\<rparr>) (rm_join_requests r)\<rparr>)))"

definition attach :: "room \<Rightarrow> session_id \<Rightarrow> peer_id \<Rightarrow> epoch_millis \<Rightarrow> room_result" where
  "attach r sid peer now =
     (case room_ensure_active r now of
        Inl e \<Rightarrow> (r, Inl e)
      | Inr _ \<Rightarrow>
          (case map_of (rm_memberships r) sid of
             None \<Rightarrow> (r, Inl MembershipNotFound)
           | Some m \<Rightarrow>
               if mem_state m = Online peer then (r, Inr UNCHANGED)
               else if mem_state m = Left then (r, Inl MembershipLeft)
               else commit (r\<lparr>rm_memberships :=
                      bt_insert sid (m\<lparr>mem_state := Online peer\<rparr>) (rm_memberships r)\<rparr>)))"

definition detach :: "room \<Rightarrow> session_id \<Rightarrow> peer_id \<Rightarrow> room_result" where
  "detach r sid peer =
     (case map_of (rm_memberships r) sid of
        None \<Rightarrow> (r, Inl MembershipNotFound)
      | Some m \<Rightarrow>
          (case mem_state m of
             Online current \<Rightarrow>
               if current = peer
               then commit (r\<lparr>rm_memberships :=
                      bt_insert sid (m\<lparr>mem_state := Offline\<rparr>) (rm_memberships r)\<rparr>)
               else (r, Inr UNCHANGED)
           | Offline \<Rightarrow> (r, Inr UNCHANGED)
           | Left \<Rightarrow> (r, Inl MembershipLeft)))"

definition leave :: "room \<Rightarrow> session_id \<Rightarrow> room_result" where
  "leave r sid =
     (if sid = rm_owner r then
        (if rm_state r = RoomExpired then (r, Inr UNCHANGED)
         else commit (r\<lparr>rm_state := RoomExpired\<rparr>))
      else case map_of (rm_memberships r) sid of
             Some m \<Rightarrow>
               if mem_state m = Left then (r, Inr UNCHANGED)
               else commit (r\<lparr>rm_memberships :=
                      bt_insert sid (m\<lparr>mem_state := Left\<rparr>) (rm_memberships r)\<rparr>)
           | None \<Rightarrow>
               (case find (\<lambda>(_, q). jr_session_id q = sid \<and> jr_state q = Pending)
                       (rm_join_requests r) of
                  Some (rid, q) \<Rightarrow>
                    commit (r\<lparr>rm_join_requests :=
                      bt_insert rid (q\<lparr>jr_state := Cancelled\<rparr>) (rm_join_requests r)\<rparr>)
                | None \<Rightarrow> (r, Inl MembershipNotFound)))"

definition lapse :: "join_request \<Rightarrow> join_request" where
  "lapse q = (if jr_state q = Pending then q\<lparr>jr_state := Expired\<rparr> else q)"

definition expire :: "room \<Rightarrow> epoch_millis \<Rightarrow> room_result" where
  "expire r now =
     (if rm_state r = RoomExpired then (r, Inr UNCHANGED)
      else if now < rm_expires_at r then (r, Inl ExpiryNotReached)
      else commit (r\<lparr>rm_state := RoomExpired,
                     rm_join_requests := map (\<lambda>(rid, q). (rid, lapse q)) (rm_join_requests r)\<rparr>))"

fun room_handle :: "room \<Rightarrow> room_command \<Rightarrow> room_result" where
  "room_handle r (RequestJoin rid sid now expires) = request_join r rid sid now expires"
| "room_handle r (DecideJoin actor rid decision now) = decide_join r actor rid decision now"
| "room_handle r (ExpireJoinRequest rid now) = expire_join_request r rid now"
| "room_handle r (Attach sid peer now) = attach r sid peer now"
| "room_handle r (Detach sid peer) = detach r sid peer"
| "room_handle r (Leave sid) = leave r sid"
| "room_handle r (Expire now) = expire r now"

end
