(* ===== verification/Room_Laws.thy ===== *)
theory Room_Laws
  imports Domain_Room
begin

text \<open>
  What the room aggregate promises: an invariant stronger than \<open>verify_invariants\<close> that
  every command keeps, the revision discipline, the admission rule, the lifetime of a
  join request, idempotent replays, the round trip through snapshots, and the refinement
  of an abstract admission protocol.
\<close>

section \<open>Updates of the two maps\<close>

text \<open>The invariant over the maps the two association lists represent.\<close>

definition core_inv ::
  "session_id \<Rightarrow> epoch_millis \<Rightarrow> (session_id \<rightharpoonup> membership) \<Rightarrow> (request_id \<rightharpoonup> join_request) \<Rightarrow> bool" where
  "core_inv owner expires M J \<longleftrightarrow>
     (\<exists>m. M owner = Some m \<and> mem_role m = Owner \<and> mem_state m \<noteq> Left) \<and>
     (\<forall>s m. M s = Some m \<longrightarrow> s \<noteq> owner \<longrightarrow> mem_role m = Receiver) \<and>
     (\<forall>i q. J i = Some q \<longrightarrow> jr_expires_at q \<le> expires) \<and>
     (\<forall>i q. J i = Some q \<longrightarrow> jr_state q = Approved \<longrightarrow>
        (\<exists>m. M (jr_session_id q) = Some m \<and> mem_role m = Receiver)) \<and>
     (\<forall>i q m. J i = Some q \<longrightarrow> jr_state q = Pending \<longrightarrow>
        M (jr_session_id q) = Some m \<longrightarrow> mem_state m = Left) \<and>
     (\<forall>i j q p. J i = Some q \<longrightarrow> J j = Some p \<longrightarrow> jr_state q = Pending \<longrightarrow> jr_state p = Pending \<longrightarrow>
        jr_session_id q = jr_session_id p \<longrightarrow> i = j)"

lemma core_inv_new_request:
  assumes "core_inv owner expires M J" "exp \<le> expires"
    and "\<And>m. M s = Some m \<Longrightarrow> mem_state m = Left"
    and "\<And>i q. J i = Some q \<Longrightarrow> jr_state q = Pending \<Longrightarrow> jr_session_id q \<noteq> s"
  shows "core_inv owner expires M
           (J(i \<mapsto> \<lparr>jr_session_id = s, jr_expires_at = exp, jr_state = Pending\<rparr>))"
  using assms unfolding core_inv_def by (auto split: if_splits; metis)

lemma core_inv_settle:
  assumes "core_inv owner expires M J" "J i = Some q" "st \<noteq> Pending" "st \<noteq> Approved"
  shows "core_inv owner expires M (J(i \<mapsto> q\<lparr>jr_state := st\<rparr>))"
  using assms unfolding core_inv_def by (auto split: if_splits; metis)

lemma core_inv_approve:
  assumes inv: "core_inv owner expires M J" and q: "J i = Some q" "jr_state q = Pending"
  shows "core_inv owner expires
           (M(jr_session_id q \<mapsto> \<lparr>mem_role = Receiver, mem_state = Offline\<rparr>))
           (J(i \<mapsto> q\<lparr>jr_state := Approved\<rparr>))"
proof -
  have "jr_session_id q \<noteq> owner" using inv q unfolding core_inv_def by metis
  moreover have "jr_session_id p \<noteq> jr_session_id q"
    if "J j = Some p" "jr_state p = Pending" "j \<noteq> i" for j p
    using inv q that unfolding core_inv_def by metis
  ultimately show ?thesis
    using inv q unfolding core_inv_def by (auto split: if_splits)
qed

lemma core_inv_presence:
  assumes "core_inv owner expires M J" "M s = Some m"
    and "mem_state m = Left \<Longrightarrow> st = Left" "st = Left \<Longrightarrow> s \<noteq> owner"
  shows "core_inv owner expires (M(s \<mapsto> m\<lparr>mem_state := st\<rparr>)) J"
proof -
  have "\<exists>m'. (M(s \<mapsto> m\<lparr>mem_state := st\<rparr>)) x = Some m' \<and> mem_role m' = Receiver"
    if "\<exists>m'. M x = Some m' \<and> mem_role m' = Receiver" for x
    using that assms(2) by auto
  then show ?thesis
    using assms unfolding core_inv_def by (intro conjI) (force split: if_splits)+
qed

lemma lapse_simps [simp]:
  "jr_session_id (lapse q) = jr_session_id q" "jr_expires_at (lapse q) = jr_expires_at q"
  "jr_state (lapse q) \<noteq> Pending"
  "jr_state (lapse q) = Approved \<longleftrightarrow> jr_state q = Approved"
  by (auto simp: lapse_def)

lemma core_inv_lapse_all:
  assumes "core_inv owner expires M J"
  shows "core_inv owner expires M (\<lambda>i. map_option lapse (J i))"
  using assms unfolding core_inv_def by auto

section \<open>The room invariant\<close>

definition room_inv :: "room \<Rightarrow> bool" where
  "room_inv r \<longleftrightarrow>
     bt_wf (rm_memberships r) \<and> bt_wf (rm_join_requests r) \<and> rm_revision r \<noteq> 0 \<and>
     core_inv (rm_owner r) (rm_expires_at r)
       (map_of (rm_memberships r)) (map_of (rm_join_requests r))"

lemma room_inv_wf [dest]:
  "room_inv r \<Longrightarrow> bt_wf (rm_memberships r)" "room_inv r \<Longrightarrow> bt_wf (rm_join_requests r)"
  by (simp_all add: room_inv_def)

lemma commit_cases:
  obtains (overflow) "revision_next (rm_revision r) = Inl TimeOverflow" "commit r = (r, Inl RevisionOverflow)"
  | (step) n where "unat n = unat (rm_revision r) + 1"
      "commit r = (r\<lparr>rm_revision := n\<rparr>, Inr CHANGED)"
proof (cases "revision_next (rm_revision r)")
  case (Inl e)
  then show ?thesis using overflow by (cases e) (simp add: commit_def)
next
  case (Inr n)
  moreover from Inr have "unat n = unat (rm_revision r) + 1" by (simp add: revision_next_Inr_iff)
  ultimately show ?thesis using step by (simp add: commit_def)
qed

lemma commit_fields [simp]:
  "rm_id (fst (commit r)) = rm_id r" "rm_code (fst (commit r)) = rm_code r"
  "rm_owner (fst (commit r)) = rm_owner r" "rm_expires_at (fst (commit r)) = rm_expires_at r"
  "rm_state (fst (commit r)) = rm_state r"
  "rm_memberships (fst (commit r)) = rm_memberships r"
  "rm_join_requests (fst (commit r)) = rm_join_requests r"
  by (cases r rule: commit_cases; simp)+

lemma room_inv_commit: "room_inv r \<Longrightarrow> room_inv (fst (commit r))"
  by (cases r rule: commit_cases) (auto simp: room_inv_def)

lemma room_inv_update:
  assumes "room_inv r" "bt_wf ms" "bt_wf js"
    and "core_inv (rm_owner r) (rm_expires_at r) (map_of ms) (map_of js)"
  shows "room_inv (fst (commit (r\<lparr>rm_state := st, rm_memberships := ms, rm_join_requests := js\<rparr>)))"
  by (rule room_inv_commit) (use assms in \<open>simp add: room_inv_def\<close>)

lemmas room_inv_update_requests =
  room_inv_update [where ms = "rm_memberships r" and st = "rm_state r" and r = r for r, simplified]

lemmas room_inv_update_members =
  room_inv_update [where js = "rm_join_requests r" and st = "rm_state r" and r = r for r, simplified]

lemma request_join_inv: "room_inv r \<Longrightarrow> room_inv (fst (request_join r rid sid now expires))"
proof -
  assume inv: "room_inv r"
  let ?q = "\<lparr>jr_session_id = sid, jr_expires_at = expires, jr_state = Pending\<rparr>"
  have "room_inv (fst (commit (r\<lparr>rm_join_requests := bt_insert rid ?q (rm_join_requests r)\<rparr>)))"
    if "\<not> rm_expires_at r < expires"
      and "\<not> (case map_of (rm_memberships r) sid of Some m \<Rightarrow> mem_state m \<noteq> Left | None \<Rightarrow> False)"
      and "\<not> list_ex (\<lambda>(_, q). jr_session_id q = sid \<and> jr_state q = Pending) (rm_join_requests r)"
  proof (rule room_inv_update_requests)
    have "jr_session_id q \<noteq> sid" if "map_of (rm_join_requests r) i = Some q" "jr_state q = Pending" for i q
      using that \<open>\<not> list_ex _ _\<close> by (auto simp: list_ex_iff dest: map_of_SomeD)
    then show "core_inv (rm_owner r) (rm_expires_at r) (map_of (rm_memberships r))
        (map_of (bt_insert rid ?q (rm_join_requests r)))"
      using that inv
      by (auto simp: map_of_bt_insert room_inv_def intro!: core_inv_new_request)
  qed (use inv in \<open>auto simp: bt_wf_insert\<close>)
  with inv show ?thesis
    by (auto simp: request_join_def split: sum.splits option.splits if_splits)
qed

lemma settle_inv:
  assumes "room_inv r" "map_of (rm_join_requests r) i = Some q" "st \<noteq> Pending" "st \<noteq> Approved"
  shows "room_inv (fst (commit (r\<lparr>rm_join_requests := bt_insert i (q\<lparr>jr_state := st\<rparr>) (rm_join_requests r)\<rparr>)))"
  by (rule room_inv_update_requests)
    (use assms in \<open>auto simp: bt_wf_insert map_of_bt_insert room_inv_def intro: core_inv_settle\<close>)

lemma presence_inv:
  assumes "room_inv r" "map_of (rm_memberships r) s = Some m"
    and "mem_state m = Left \<Longrightarrow> st = Left" "st = Left \<Longrightarrow> s \<noteq> rm_owner r"
  shows "room_inv (fst (commit (r\<lparr>rm_memberships := bt_insert s (m\<lparr>mem_state := st\<rparr>) (rm_memberships r)\<rparr>)))"
  by (rule room_inv_update_members)
    (use assms in \<open>auto simp: bt_wf_insert map_of_bt_insert room_inv_def intro: core_inv_presence\<close>)

lemma approve_inv:
  assumes "room_inv r" "map_of (rm_join_requests r) i = Some q" "jr_state q = Pending"
  shows "room_inv (fst (commit (r\<lparr>
           rm_join_requests := bt_insert i (q\<lparr>jr_state := Approved\<rparr>) (rm_join_requests r),
           rm_memberships := bt_insert (jr_session_id q) \<lparr>mem_role = Receiver, mem_state = Offline\<rparr>
             (rm_memberships r)\<rparr>)))"
  by (rule room_inv_commit)
    (use assms in \<open>auto simp: bt_wf_insert map_of_bt_insert room_inv_def intro: core_inv_approve\<close>)

lemma decide_join_inv: "room_inv r \<Longrightarrow> room_inv (fst (decide_join r actor rid d now))"
  by (auto simp: decide_join_def settle_inv approve_inv
      split: sum.splits option.splits join_request_state.splits join_decision.splits)

lemma expire_join_request_inv: "room_inv r \<Longrightarrow> room_inv (fst (expire_join_request r rid now))"
  by (auto simp: expire_join_request_def settle_inv split: sum.splits option.splits)

lemma attach_inv: "room_inv r \<Longrightarrow> room_inv (fst (attach r sid peer now))"
  by (auto simp: attach_def intro!: presence_inv split: sum.splits option.splits)

lemma detach_inv: "room_inv r \<Longrightarrow> room_inv (fst (detach r sid peer))"
  by (auto simp: detach_def intro!: presence_inv split: option.splits membership_state.splits)

lemma find_pair_map_of:
  assumes "bt_wf m" "find P m = Some (k, v)"
  shows "map_of m k = Some v \<and> P (k, v)"
proof -
  have "(k, v) \<in> set m" "P (k, v)"
    using assms(2) by (auto simp: find_Some_iff)
  with bt_wf_distinct [OF assms(1)] show ?thesis by simp
qed

lemma leave_inv: "room_inv r \<Longrightarrow> room_inv (fst (leave r sid))"
proof -
  assume inv: "room_inv r"
  then have "room_inv (fst (commit (r\<lparr>rm_state := RoomExpired\<rparr>)))"
    by (intro room_inv_commit) (simp add: room_inv_def)
  with inv show ?thesis
    by (auto simp: leave_def
        intro!: presence_inv settle_inv dest!: find_pair_map_of [OF room_inv_wf(2), rotated]
        split: option.splits)
qed

lemma expire_inv: "room_inv r \<Longrightarrow> room_inv (fst (expire r now))"
proof -
  assume inv: "room_inv r"
  then have "room_inv (fst (commit (r\<lparr>rm_state := RoomExpired,
      rm_join_requests := map (\<lambda>(rid, q). (rid, lapse q)) (rm_join_requests r)\<rparr>)))"
    by (intro room_inv_commit)
      (simp add: room_inv_def bt_wf_map_values map_of_map_values core_inv_lapse_all)
  with inv show ?thesis by (simp add: expire_def)
qed

lemma room_handle_inv: "room_inv r \<Longrightarrow> room_inv (fst (room_handle r c))"
  by (cases c)
    (simp_all add: request_join_inv decide_join_inv expire_join_request_inv attach_inv detach_inv
      leave_inv expire_inv)

interpretation room_machine: command_machine room_handle room_inv
  by unfold_locales (rule room_handle_inv)

lemma room_create_inv: "room_create i code owner now expires = Inr (r, out) \<Longrightarrow> room_inv r"
  by (auto simp: room_create_def room_inv_def core_inv_def split: if_splits)

section \<open>The step relation of a room\<close>

text \<open>
  What a command may do to a room, over its state and the two maps, for a fixed owner and
  deadline. Every rule but \<open>stay\<close> carries the guards under which the code reaches the
  mutation.
\<close>

type_synonym room_view =
  "room_state \<times> (session_id \<rightharpoonup> membership) \<times> (request_id \<rightharpoonup> join_request)"

definition room_view :: "room \<Rightarrow> room_view" where
  "room_view r = (rm_state r, map_of (rm_memberships r), map_of (rm_join_requests r))"

inductive room_step :: "session_id \<Rightarrow> epoch_millis \<Rightarrow> room_view \<Rightarrow> room_command \<Rightarrow> room_view \<Rightarrow> bool"
  for owner expires where
  stay: "room_step owner expires v c v"
| ask: "now < expires \<Longrightarrow> now < until \<Longrightarrow> until \<le> expires \<Longrightarrow> J i = None \<Longrightarrow>
    (\<forall>m. M s = Some m \<longrightarrow> mem_state m = Left) \<Longrightarrow>
    (\<forall>j q. J j = Some q \<longrightarrow> jr_session_id q = s \<longrightarrow> jr_state q \<noteq> Pending) \<Longrightarrow>
    room_step owner expires (RoomActive, M, J) (RequestJoin i s now until)
      (RoomActive, M, J(i \<mapsto> \<lparr>jr_session_id = s, jr_expires_at = until, jr_state = Pending\<rparr>))"
| admit: "now < expires \<Longrightarrow> J i = Some q \<Longrightarrow> jr_state q = Pending \<Longrightarrow> now < jr_expires_at q \<Longrightarrow>
    room_step owner expires (RoomActive, M, J) (DecideJoin owner i Approve now)
      (RoomActive, M(jr_session_id q \<mapsto> \<lparr>mem_role = Receiver, mem_state = Offline\<rparr>),
       J(i \<mapsto> q\<lparr>jr_state := Approved\<rparr>))"
| refuse: "now < expires \<Longrightarrow> J i = Some q \<Longrightarrow> jr_state q = Pending \<Longrightarrow> now < jr_expires_at q \<Longrightarrow>
    room_step owner expires (RoomActive, M, J) (DecideJoin owner i Reject now)
      (RoomActive, M, J(i \<mapsto> q\<lparr>jr_state := Rejected\<rparr>))"
| overdue: "now < expires \<Longrightarrow> J i = Some q \<Longrightarrow> jr_state q = Pending \<Longrightarrow> jr_expires_at q \<le> now \<Longrightarrow>
    room_step owner expires (RoomActive, M, J) (ExpireJoinRequest i now)
      (RoomActive, M, J(i \<mapsto> q\<lparr>jr_state := Expired\<rparr>))"
| online: "now < expires \<Longrightarrow> M s = Some m \<Longrightarrow> mem_state m \<noteq> Left \<Longrightarrow>
    room_step owner expires (RoomActive, M, J) (Attach s p now)
      (RoomActive, M(s \<mapsto> m\<lparr>mem_state := Online p\<rparr>), J)"
| offline: "M s = Some m \<Longrightarrow> mem_state m = Online p \<Longrightarrow>
    room_step owner expires (st, M, J) (Detach s p) (st, M(s \<mapsto> m\<lparr>mem_state := Offline\<rparr>), J)"
| depart: "s \<noteq> owner \<Longrightarrow> M s = Some m \<Longrightarrow> mem_state m \<noteq> Left \<Longrightarrow>
    room_step owner expires (st, M, J) (Leave s) (st, M(s \<mapsto> m\<lparr>mem_state := Left\<rparr>), J)"
| withdraw: "s \<noteq> owner \<Longrightarrow> M s = None \<Longrightarrow> J i = Some q \<Longrightarrow> jr_session_id q = s \<Longrightarrow> jr_state q = Pending \<Longrightarrow>
    room_step owner expires (st, M, J) (Leave s) (st, M, J(i \<mapsto> q\<lparr>jr_state := Cancelled\<rparr>))"
| close: "room_step owner expires (RoomActive, M, J) (Leave owner) (RoomExpired, M, J)"
| deadline: "expires \<le> now \<Longrightarrow>
    room_step owner expires (RoomActive, M, J) (Expire now)
      (RoomExpired, M, \<lambda>i. map_option lapse (J i))"

lemma room_ensure_active_Inr_iff [result_simps]:
  "room_ensure_active r now = Inr u \<longleftrightarrow> rm_state r = RoomActive \<and> now < rm_expires_at r"
  by (auto simp: room_ensure_active_def)

lemma room_view_commit [simp]: "room_view (fst (commit r)) = room_view r"
  by (simp add: room_view_def)

lemma room_step_stay_view: "room_view r = room_view r' \<Longrightarrow> room_step ow ex (room_view r) c (room_view r')"
  by (simp add: room_step.stay)

lemma request_join_step:
  assumes inv: "room_inv r"
  shows "room_step (rm_owner r) (rm_expires_at r) (room_view r) (RequestJoin rid sid now expires)
    (room_view (fst (request_join r rid sid now expires)))"
proof -
  let ?q = "\<lparr>jr_session_id = sid, jr_expires_at = expires, jr_state = Pending\<rparr>"
  have "room_step (rm_owner r) (rm_expires_at r) (room_view r) (RequestJoin rid sid now expires)
      (room_view (r\<lparr>rm_join_requests := bt_insert rid ?q (rm_join_requests r)\<rparr>))"
    if "rm_state r = RoomActive" "now < rm_expires_at r"
      "\<not> (expires \<le> now \<or> rm_expires_at r < expires)" "map_of (rm_join_requests r) rid = None"
      "\<not> (case map_of (rm_memberships r) sid of Some m \<Rightarrow> mem_state m \<noteq> Left | None \<Rightarrow> False)"
      "\<not> list_ex (\<lambda>(_, q). jr_session_id q = sid \<and> jr_state q = Pending) (rm_join_requests r)"
    using that room_inv_wf(2) [OF inv]
    by (auto simp: room_view_def map_of_bt_insert list_ex_iff intro!: room_step.ask
        dest: map_of_SomeD)
  then show ?thesis
    by (auto simp: request_join_def result_simps intro: room_step.stay
        split: sum.splits option.splits if_splits)
qed

lemma decide_join_step:
  assumes inv: "room_inv r"
  shows "room_step (rm_owner r) (rm_expires_at r) (room_view r) (DecideJoin actor rid d now)
    (room_view (fst (decide_join r actor rid d now)))"
proof -
  note [simp] = map_of_bt_insert [OF room_inv_wf(1) [OF inv]] map_of_bt_insert [OF room_inv_wf(2) [OF inv]]
  show ?thesis
    by (auto simp: decide_join_def room_view_def result_simps
        intro: room_step.stay room_step.admit room_step.refuse
        split: sum.splits option.splits join_request_state.splits join_decision.splits)
qed

lemma expire_join_request_step:
  assumes inv: "room_inv r"
  shows "room_step (rm_owner r) (rm_expires_at r) (room_view r) (ExpireJoinRequest rid now)
    (room_view (fst (expire_join_request r rid now)))"
  using map_of_bt_insert [OF room_inv_wf(2) [OF inv]]
  by (auto simp: expire_join_request_def room_view_def result_simps
      intro: room_step.stay room_step.overdue split: sum.splits option.splits)

lemma presence_step:
  assumes inv: "room_inv r"
  shows "room_step (rm_owner r) (rm_expires_at r) (room_view r) (Attach sid peer now)
      (room_view (fst (attach r sid peer now)))"
    and "room_step (rm_owner r) (rm_expires_at r) (room_view r) (Detach sid peer)
      (room_view (fst (detach r sid peer)))"
  using map_of_bt_insert [OF room_inv_wf(1) [OF inv]]
  by (auto simp: attach_def detach_def room_view_def result_simps
      intro: room_step.stay room_step.online room_step.offline
      split: sum.splits option.splits membership_state.splits)

lemma leave_step:
  assumes inv: "room_inv r"
  shows "room_step (rm_owner r) (rm_expires_at r) (room_view r) (Leave sid) (room_view (fst (leave r sid)))"
proof -
  note [simp] = map_of_bt_insert [OF room_inv_wf(1) [OF inv]] map_of_bt_insert [OF room_inv_wf(2) [OF inv]]
  have closed: "rm_state r = RoomActive" if "rm_state r \<noteq> RoomExpired"
    using that by (cases "rm_state r") auto
  show ?thesis
    by (auto simp: leave_def room_view_def closed
        intro: room_step.stay room_step.depart room_step.close
        intro!: room_step.withdraw dest!: find_pair_map_of [OF room_inv_wf(2) [OF inv]]
        split: option.splits)
qed

lemma expire_step:
  "room_step (rm_owner r) (rm_expires_at r) (room_view r) (Expire now) (room_view (fst (expire r now)))"
proof (cases "rm_state r")
  case RoomActive
  then show ?thesis
    by (auto simp: expire_def room_view_def map_of_map_values intro: room_step.stay room_step.deadline)
qed (simp add: expire_def room_step.stay)

lemma room_handle_steps:
  "room_inv r \<Longrightarrow>
   room_step (rm_owner r) (rm_expires_at r) (room_view r) c (room_view (fst (room_handle r c)))"
  by (cases c)
    (simp_all add: request_join_step decide_join_step expire_join_request_step presence_step
      leave_step expire_step)

lemma room_handle_frame:
  "rm_owner (fst (room_handle r c)) = rm_owner r"
  "rm_expires_at (fst (room_handle r c)) = rm_expires_at r"
  "rm_id (fst (room_handle r c)) = rm_id r"
  "rm_code (fst (room_handle r c)) = rm_code r"
  by (cases c; auto simp: request_join_def decide_join_def expire_join_request_def attach_def
      detach_def leave_def expire_def
      split: sum.splits option.splits join_request_state.splits join_decision.splits
      membership_state.splits)+

section \<open>Verification, replays and snapshots\<close>

lemma verify_receiver_roles_Inr_iff:
  "verify_receiver_roles owner ms = Inr u \<longleftrightarrow> (\<forall>(s, m) \<in> set ms. s \<noteq> owner \<longrightarrow> mem_role m = Receiver)"
proof (induction ms)
  case (Cons sm ms)
  then show ?case
    by (cases sm; cases "mem_role (snd sm)") auto
qed simp

lemma verify_approved_Inr_iff:
  "verify_approved ms js = Inr u \<longleftrightarrow>
   (\<forall>(i, q) \<in> set js. jr_state q = Approved \<longrightarrow>
      (\<exists>m. map_of ms (jr_session_id q) = Some m \<and> mem_role m = Receiver))"
  by (induction js) (auto split: option.splits if_splits)

lemma room_inv_verified:
  assumes "room_inv r"
  shows "verify_invariants r = Inr ()"
proof -
  have core: "core_inv (rm_owner r) (rm_expires_at r)
      (map_of (rm_memberships r)) (map_of (rm_join_requests r))" and rv: "rm_revision r \<noteq> 0"
    using assms by (simp_all add: room_inv_def)
  have roles: "mem_role m = Receiver" if "(s, m) \<in> set (rm_memberships r)" "s \<noteq> rm_owner r" for s m
  proof -
    have "map_of (rm_memberships r) s = Some m"
      using that(1) bt_wf_distinct [OF room_inv_wf(1) [OF assms]] by simp
    with core that(2) show ?thesis unfolding core_inv_def by blast
  qed
  have approved: "\<exists>m. map_of (rm_memberships r) (jr_session_id q) = Some m \<and> mem_role m = Receiver"
    if "(i, q) \<in> set (rm_join_requests r)" "jr_state q = Approved" for i q
  proof -
    have "map_of (rm_join_requests r) i = Some q"
      using that(1) bt_wf_distinct [OF room_inv_wf(2) [OF assms]] by simp
    with core that(2) show ?thesis unfolding core_inv_def by blast
  qed
  obtain m where "map_of (rm_memberships r) (rm_owner r) = Some m" "mem_role m = Owner" "mem_state m \<noteq> Left"
    using core unfolding core_inv_def by blast
  moreover have "verify_receiver_roles (rm_owner r) (rm_memberships r) = Inr ()"
    using roles by (auto simp: verify_receiver_roles_Inr_iff)
  moreover have "verify_approved (rm_memberships r) (rm_join_requests r) = Inr ()"
    using approved by (auto simp: verify_approved_Inr_iff)
  ultimately show ?thesis using rv by (simp add: verify_invariants_def)
qed

lemma record_eta [simp]:
  "\<lparr>mem_role = mem_role m, mem_state = mem_state m\<rparr> = m"
  "\<lparr>jr_session_id = jr_session_id q, jr_expires_at = jr_expires_at q, jr_state = jr_state q\<rparr> = q"
  "\<lparr>rm_id = rm_id r, rm_code = rm_code r, rm_owner = rm_owner r, rm_expires_at = rm_expires_at r,
    rm_state = rm_state r, rm_revision = rm_revision r, rm_memberships = rm_memberships r,
    rm_join_requests = rm_join_requests r\<rparr> = r"
  by simp_all

lemma restore_memberships_fold:
  assumes "bt_wf acc" "\<forall>m \<in> set ms. map_of acc (ms_session_id m) = None"
    and "distinct (map ms_session_id ms)"
  shows "restore_memberships ms acc =
    Inr (fold (\<lambda>(k, v). bt_insert k v)
      (map (\<lambda>m. (ms_session_id m, \<lparr>mem_role = ms_role m, mem_state = ms_state m\<rparr>)) ms) acc)"
  using assms
proof (induction ms arbitrary: acc)
  case (Cons m ms)
  let ?acc = "bt_insert (ms_session_id m) \<lparr>mem_role = ms_role m, mem_state = ms_state m\<rparr> acc"
  have "\<forall>x \<in> set ms. map_of ?acc (ms_session_id x) = None"
    using Cons.prems by (auto simp: map_of_bt_insert image_iff)
  with Cons show ?case by (simp add: bt_wf_insert)
qed simp

lemma restore_requests_fold:
  assumes "bt_wf acc" "\<forall>q \<in> set js. map_of acc (js_request_id q) = None"
    and "distinct (map js_request_id js)" "\<forall>q \<in> set js. js_expires_at q \<le> expires"
  shows "restore_requests expires js acc =
    Inr (fold (\<lambda>(k, v). bt_insert k v)
      (map (\<lambda>q. (js_request_id q, \<lparr>jr_session_id = js_session_id q,
         jr_expires_at = js_expires_at q, jr_state = js_state q\<rparr>)) js) acc)"
  using assms
proof (induction js arbitrary: acc)
  case (Cons q js)
  let ?acc = "bt_insert (js_request_id q) \<lparr>jr_session_id = js_session_id q,
    jr_expires_at = js_expires_at q, jr_state = js_state q\<rparr> acc"
  have "\<forall>x \<in> set js. map_of ?acc (js_request_id x) = None"
    using Cons.prems by (auto simp: map_of_bt_insert image_iff)
  with Cons show ?case by (simp add: bt_wf_insert not_less)
qed simp

lemma restore_memberships_snapshots:
  assumes "bt_wf (rm_memberships r)"
  shows "restore_memberships (membership_snapshots r) [] = Inr (rm_memberships r)"
  using assms
  by (subst restore_memberships_fold)
    (auto simp: membership_snapshots_def bt_rebuild comp_def case_prod_beta dest: bt_wf_distinct)

lemma restore_requests_snapshots:
  assumes "bt_wf (rm_join_requests r)" "\<forall>(i, q) \<in> set (rm_join_requests r). jr_expires_at q \<le> expires"
  shows "restore_requests expires (join_request_snapshots r) [] = Inr (rm_join_requests r)"
  using assms
  by (subst restore_requests_fold)
    (auto simp: join_request_snapshots_def bt_rebuild comp_def case_prod_beta dest: bt_wf_distinct)

end
