(* ===== verification/Room_Properties.thy ===== *)
theory Room_Properties
  imports Room_Laws
begin

text \<open>
  The properties of the room aggregate, each a short consequence of the step relation and
  the invariant of \<open>Room_Laws\<close>, with witnesses on a small room.
\<close>

section \<open>A room for the witnesses\<close>

definition ex_owner :: session_id where
  "ex_owner = SessionId (rstr ''owner_1'')"

definition ex_guest :: session_id where
  "ex_guest = SessionId (rstr ''guest_1'')"

definition ex_request :: request_id where
  "ex_request = RequestId (rstr ''request_1'')"

definition ex_peer :: peer_id where
  "ex_peer = PeerId (rstr ''peer_1'')"

definition ex_room :: room where
  "ex_room = \<lparr>rm_id = RoomId (rstr ''room_1''), rm_code = RoomCode (rstr ''ABC123''),
     rm_owner = ex_owner, rm_expires_at = 1000, rm_state = RoomActive, rm_revision = 1,
     rm_memberships = [(ex_owner, \<lparr>mem_role = Owner, mem_state = Offline\<rparr>)],
     rm_join_requests = []\<rparr>"

definition ex_joined :: room where
  "ex_joined = run_commands room_handle ex_room
     [RequestJoin ex_request ex_guest 10 900, DecideJoin ex_owner ex_request Approve 20]"

lemma ex_room_created:
  "room_create (RoomId (rstr ''room_1'')) (RoomCode (rstr ''ABC123'')) ex_owner 0 1000 =
     Inr (ex_room, CHANGED)"
  by (simp add: room_create_def ex_room_def)

lemmas ex_room_inv = room_create_inv [OF ex_room_created]

lemma ex_joined_inv: "room_inv ex_joined"
  unfolding ex_joined_def by (rule room_machine.inv_run [OF ex_room_inv])

lemma ex_ids_distinct: "ex_guest \<noteq> ex_owner"
  by (simp add: ex_guest_def ex_owner_def rstr_def)

lemma ex_ids_order [simp]: "ex_guest < ex_owner" "\<not> ex_owner < ex_guest" "ex_guest \<noteq> ex_owner"
  by (simp_all add: ex_guest_def ex_owner_def rstr_def id_order_defs)

lemmas room_op_defs =
  request_join_def decide_join_def expire_join_request_def attach_def detach_def leave_def
  expire_def room_ensure_active_def commit_def revision_next_def checked_add_nat ok_or_def

lemma ex_joined_eq:
  "ex_joined = ex_room\<lparr>rm_revision := 3,
     rm_memberships := [(ex_guest, \<lparr>mem_role = Receiver, mem_state = Offline\<rparr>),
                        (ex_owner, \<lparr>mem_role = Owner, mem_state = Offline\<rparr>)],
     rm_join_requests := [(ex_request, \<lparr>jr_session_id = ex_guest, jr_expires_at = 900,
                             jr_state = Approved\<rparr>)]\<rparr>"
  by (simp add: ex_joined_def ex_room_def room_op_defs)

section \<open>Invariant\<close>

text \<open>C1. Every room built by \<open>Room::create\<close> satisfies the room invariant after any sequence of
  commands, whatever each of them reported, so \<open>verify_invariants\<close> accepts it.\<close>

theorem room_runs_keep_invariants:
  assumes "room_create i code owner now expires = Inr (r, out)"
  shows "room_inv (run_commands room_handle r cs) \<and>
    verify_invariants (run_commands room_handle r cs) = Inr ()"
proof -
  have "room_inv (run_commands room_handle r cs)"
    by (rule room_machine.inv_run) (rule room_create_inv [OF assms])
  then show ?thesis by (simp add: room_inv_verified)
qed

theorem room_runs_keep_invariants_witness:
  "room_create (RoomId (rstr ''room_1'')) (RoomCode (rstr ''ABC123'')) ex_owner 0 1000 =
     Inr (ex_room, CHANGED) \<and>
   verify_invariants (run_commands room_handle ex_room
     [RequestJoin ex_request ex_guest 10 900, Leave ex_guest, Expire 2000]) = Inr ()"
  using ex_room_created room_runs_keep_invariants [OF ex_room_created] by blast

section \<open>Revision discipline\<close>

definition disciplined :: "room \<Rightarrow> room_result \<Rightarrow> bool" where
  "disciplined r res \<longleftrightarrow>
     (case res of
        (r', Inr out) \<Rightarrow>
          if outcome_changed out then unat (rm_revision r') = unat (rm_revision r) + 1 else r' = r
      | (r', Inl e) \<Rightarrow>
          if e = RevisionOverflow
          then rm_revision r' = rm_revision r \<and> unat (rm_revision r) = 2 ^ 64 - 1
          else r' = r)"

lemma disciplined_same:
  "disciplined r (r, Inr UNCHANGED)" "e \<noteq> RevisionOverflow \<Longrightarrow> disciplined r (r, Inl e)"
  by (simp_all add: disciplined_def)

lemma revision_next_overflow:
  "revision_next v = Inl e \<Longrightarrow> unat v = 2 ^ 64 - 1"
  using unat_lt2p_word [of v]
  by (auto simp: revision_next_def result_simps checked_add_None_iff)

lemma disciplined_commit: "rm_revision r' = rm_revision r \<Longrightarrow> disciplined r (commit r')"
  by (cases r' rule: commit_cases) (auto simp: disciplined_def dest: revision_next_overflow)

lemma room_ensure_active_error: "room_ensure_active r now = Inl e \<Longrightarrow> e \<noteq> RevisionOverflow"
  by (auto simp: room_ensure_active_def split: if_splits)

text \<open>C2. A command reports a change exactly when it advanced the revision by one; a command that
  reports no change, or fails, leaves the whole room as it was, except that a revision at
  \<open>u64::MAX\<close> makes the command fail after the mutation, with the revision kept.\<close>

theorem room_handle_revision: "disciplined r (room_handle r c)"
  by (cases c)
    (auto simp: request_join_def decide_join_def expire_join_request_def attach_def detach_def
      leave_def expire_def disciplined_same room_ensure_active_error
      intro!: disciplined_commit
      split: sum.splits option.splits join_request_state.splits join_decision.splits
      membership_state.splits)

section \<open>Admission\<close>

definition is_member :: "room \<Rightarrow> session_id \<Rightarrow> bool" where
  "is_member r s \<longleftrightarrow> (case membership_state_of r s of None \<Rightarrow> False | Some st \<Rightarrow> st \<noteq> Left)"

lemma is_member_view:
  "is_member r s \<longleftrightarrow> (\<exists>m. (fst (snd (room_view r))) s = Some m \<and> mem_state m \<noteq> Left)"
  by (auto simp: is_member_def membership_state_of_def room_view_def split: option.splits)

lemma room_step_admission:
  assumes "room_step owner expires (st, M, J) c (st', M', J')"
    and "M' s = Some m'" "mem_state m' \<noteq> Left" "\<forall>m. M s = Some m \<longrightarrow> mem_state m = Left"
  shows "\<exists>i q now. c = DecideJoin owner i Approve now \<and> J i = Some q \<and> jr_session_id q = s \<and>
    jr_state q = Pending \<and> now < jr_expires_at q \<and> now < expires \<and> st = RoomActive"
  using assms
  by (cases rule: room_step.cases) (auto split: if_splits)

text \<open>C3. A session becomes a member (or returns after leaving) only through an approval by the
  room's owner of that session's own pending request, before the request's and the room's
  deadline, in an active room.\<close>

theorem admission_needs_owner_approval:
  assumes "room_inv r" "\<not> is_member r s" "is_member (fst (room_handle r c)) s"
  shows "\<exists>i q now. c = DecideJoin (rm_owner r) i Approve now \<and>
    map_of (rm_join_requests r) i = Some q \<and> jr_session_id q = s \<and> jr_state q = Pending \<and>
    now < jr_expires_at q \<and> now < rm_expires_at r \<and> rm_state r = RoomActive"
proof -
  obtain st' M' J' where v': "room_view (fst (room_handle r c)) = (st', M', J')"
    by (metis prod_cases3)
  with room_handle_steps [OF assms(1), of c] have
    step: "room_step (rm_owner r) (rm_expires_at r)
      (rm_state r, map_of (rm_memberships r), map_of (rm_join_requests r)) c (st', M', J')"
    by (simp add: room_view_def)
  from assms(3) v' obtain m' where "M' s = Some m'" "mem_state m' \<noteq> Left"
    by (auto simp: is_member_view)
  moreover have "\<forall>m. map_of (rm_memberships r) s = Some m \<longrightarrow> mem_state m = Left"
    using assms(2) by (auto simp: is_member_view room_view_def)
  ultimately show ?thesis by (rule room_step_admission [OF step])
qed

theorem admission_needs_owner_approval_witness:
  "\<exists>i q now. DecideJoin ex_owner ex_request Approve 20 = DecideJoin (rm_owner ex_room) i Approve now \<and>
    map_of (rm_join_requests (fst (room_handle ex_room (RequestJoin ex_request ex_guest 10 900)))) i = Some q \<and>
    jr_session_id q = ex_guest \<and> now < jr_expires_at q"
proof -
  let ?r = "fst (room_handle ex_room (RequestJoin ex_request ex_guest 10 900))"
  have inv: "room_inv ?r" by (rule room_handle_inv [OF ex_room_inv])
  have "\<not> is_member ?r ex_guest"
    by (simp add: is_member_def membership_state_of_def ex_room_def room_op_defs)
  moreover have "is_member (fst (room_handle ?r (DecideJoin ex_owner ex_request Approve 20))) ex_guest"
    by (simp add: is_member_def membership_state_of_def ex_room_def room_op_defs)
  ultimately show ?thesis
    using admission_needs_owner_approval [OF inv, of ex_guest "DecideJoin ex_owner ex_request Approve 20"]
    by (auto simp: ex_room_def)
qed

section \<open>Lifetime of a join request\<close>

lemma room_step_requests:
  assumes "room_step owner expires (st, M, J) c (st', M', J')" "J i = Some q"
  shows "\<exists>q'. J' i = Some q' \<and> jr_session_id q' = jr_session_id q \<and>
    jr_expires_at q' = jr_expires_at q \<and> (q' = q \<or> jr_state q = Pending \<and> jr_state q' \<noteq> Pending)"
  using assms by (cases rule: room_step.cases) (auto simp: lapse_def)

lemma room_handle_requests:
  assumes "room_inv r" "map_of (rm_join_requests r) i = Some q"
  shows "\<exists>q'. map_of (rm_join_requests (fst (room_handle r c))) i = Some q' \<and>
    jr_session_id q' = jr_session_id q \<and> jr_expires_at q' = jr_expires_at q \<and>
    (q' = q \<or> jr_state q = Pending \<and> jr_state q' \<noteq> Pending)"
  using room_step_requests [OF room_handle_steps [OF assms(1), of c, unfolded room_view_def] assms(2)] .



section \<open>Replays\<close>

definition replayable :: "room \<Rightarrow> room_command \<Rightarrow> bool" where
  "replayable r c \<longleftrightarrow>
     (case c of
        Leave s \<Rightarrow> s = rm_owner r \<or> map_of (rm_memberships r) s \<noteq> None
      | _ \<Rightarrow> True)"

lemma commit_Inr:
  "commit r = (r', Inr out) \<Longrightarrow> out = CHANGED \<and> (\<exists>n. r' = r\<lparr>rm_revision := n\<rparr>)"
  by (cases r rule: commit_cases) auto

lemma request_join_replay:
  assumes "room_inv r" "request_join r i s now until = (r', Inr out)"
  shows "request_join r' i s now until = (r', Inr UNCHANGED)"
  using assms(2) map_of_bt_insert [OF room_inv_wf(2) [OF assms(1)]]
  by (auto simp: request_join_def room_ensure_active_def dest!: commit_Inr
      split: option.splits if_splits)

lemma decide_join_replay:
  assumes "room_inv r" "decide_join r actor i d now = (r', Inr out)"
  shows "decide_join r' actor i d now = (r', Inr UNCHANGED)"
proof -
  note [simp] = map_of_bt_insert [OF room_inv_wf(2) [OF assms(1)]]
  obtain q where q: "map_of (rm_join_requests r) i = Some q" and act: "room_ensure_active r now = Inr ()"
      "actor = rm_owner r" "\<not> jr_expires_at q \<le> now"
    using assms(2) by (auto simp: decide_join_def split: sum.splits option.splits if_splits)
  have same: "decide_join r' actor i d now = (r', Inr UNCHANGED)"
    if "rm_state r' = rm_state r" "rm_expires_at r' = rm_expires_at r" "rm_owner r' = rm_owner r"
      "map_of (rm_join_requests r') i = Some (q\<lparr>jr_state := st\<rparr>)"
      "st = Approved \<and> d = Approve \<or> st = Rejected \<and> d = Reject" for st
    using that act by (auto simp: decide_join_def room_ensure_active_def split: if_splits)
  show ?thesis
  proof (cases "jr_state q = Pending")
    case True
    with assms(2) q act have
      "(d = Approve \<longrightarrow> map_of (rm_join_requests r') i = Some (q\<lparr>jr_state := Approved\<rparr>)) \<and>
       (d = Reject \<longrightarrow> map_of (rm_join_requests r') i = Some (q\<lparr>jr_state := Rejected\<rparr>)) \<and>
       rm_state r' = rm_state r \<and> rm_expires_at r' = rm_expires_at r \<and> rm_owner r' = rm_owner r"
      by (cases d) (simp_all add: decide_join_def, (drule commit_Inr, clarsimp)+)
    then show ?thesis using same [of Approved] same [of Rejected] by (cases d) simp_all
  next
    case False
    with assms(2) q act show ?thesis
      by (cases "jr_state q"; cases d) (simp_all add: decide_join_def)
  qed
qed

lemma expire_join_request_replay:
  assumes "room_inv r" "expire_join_request r i now = (r', Inr out)"
  shows "expire_join_request r' i now = (r', Inr UNCHANGED)"
  using assms(2) map_of_bt_insert [OF room_inv_wf(2) [OF assms(1)]]
  by (auto simp: expire_join_request_def room_ensure_active_def dest!: commit_Inr
      split: option.splits if_splits)

lemma attach_replay:
  assumes "room_inv r" "attach r s p now = (r', Inr out)"
  shows "attach r' s p now = (r', Inr UNCHANGED)"
  using assms(2) map_of_bt_insert [OF room_inv_wf(1) [OF assms(1)]]
  by (auto simp: attach_def room_ensure_active_def dest!: commit_Inr split: option.splits if_splits)

lemma detach_replay:
  assumes "room_inv r" "detach r s p = (r', Inr out)"
  shows "detach r' s p = (r', Inr UNCHANGED)"
  using assms(2) map_of_bt_insert [OF room_inv_wf(1) [OF assms(1)]]
  by (auto simp: detach_def dest!: commit_Inr split: option.splits if_splits membership_state.splits)

lemma leave_replay:
  assumes "room_inv r" "leave r s = (r', Inr out)" "replayable r (Leave s)"
  shows "leave r' s = (r', Inr UNCHANGED)"
proof (cases "s = rm_owner r")
  case True
  show ?thesis
  proof (cases "rm_state r = RoomExpired")
    case False
    with assms(2) True obtain n where "r' = r\<lparr>rm_state := RoomExpired, rm_revision := n\<rparr>"
      by (auto simp: leave_def dest!: commit_Inr)
    with True show ?thesis by (simp add: leave_def)
  qed (use assms(2) True in \<open>simp add: leave_def\<close>)
next
  case False
  with assms(3) obtain m where "map_of (rm_memberships r) s = Some m"
    by (auto simp: replayable_def)
  with False assms(1,2) show ?thesis
    by (auto simp: leave_def map_of_bt_insert room_inv_wf dest!: commit_Inr split: if_splits)
qed

lemma expire_replay: "expire r now = (r', Inr out) \<Longrightarrow> expire r' now = (r', Inr UNCHANGED)"
  by (auto simp: expire_def dest!: commit_Inr split: if_splits)

text \<open>Replaying a command right after it succeeded reports no change and changes nothing, for
  every command except a \<open>Leave\<close> that withdrew a pending request (its replay finds no
  membership and fails).\<close>

theorem room_handle_replay:
  assumes "room_inv r" "replayable r c" "room_handle r c = (r', Inr out)"
  shows "room_handle r' c = (r', Inr UNCHANGED)"
  using assms
  by (cases c)
    (simp_all add: request_join_replay decide_join_replay expire_join_request_replay attach_replay
      detach_replay leave_replay expire_replay)

theorem room_handle_replay_witness:
  "room_handle (fst (room_handle ex_joined (Attach ex_guest ex_peer 30))) (Attach ex_guest ex_peer 30) =
     (fst (room_handle ex_joined (Attach ex_guest ex_peer 30)), Inr UNCHANGED)"
  by (rule room_handle_replay [OF ex_joined_inv, where out = CHANGED])
    (simp_all add: replayable_def ex_joined_eq ex_room_def room_op_defs)

section \<open>Snapshots\<close>

text \<open>C5. Restoring a room from its own snapshots gives back the same room, whatever commands it
  went through.\<close>

theorem room_restore_snapshots:
  assumes "room_inv r"
  shows "room_restore (rm_id r) (rm_code r) (rm_owner r) (rm_expires_at r) (rm_state r) (rm_revision r)
    (membership_snapshots r) (join_request_snapshots r) = Inr r"
proof -
  have "jr_expires_at q \<le> rm_expires_at r" if "(i, q) \<in> set (rm_join_requests r)" for i q
  proof -
    have "map_of (rm_join_requests r) i = Some q"
      using that bt_wf_distinct [OF room_inv_wf(2) [OF assms]] by simp
    with assms show ?thesis by (auto simp: room_inv_def core_inv_def)
  qed
  then have "restore_requests (rm_expires_at r) (join_request_snapshots r) [] = Inr (rm_join_requests r)"
    using assms by (intro restore_requests_snapshots) auto
  moreover have "restore_memberships (membership_snapshots r) [] = Inr (rm_memberships r)"
    using assms by (intro restore_memberships_snapshots) auto
  ultimately show ?thesis
    using room_inv_verified [OF assms] by (simp only: room_restore_def bind_result.simps Let_def record_eta map_err.simps)
qed

theorem room_restore_snapshots_witness:
  "room_restore (rm_id ex_joined) (rm_code ex_joined) (rm_owner ex_joined) (rm_expires_at ex_joined)
    (rm_state ex_joined) (rm_revision ex_joined) (membership_snapshots ex_joined)
    (join_request_snapshots ex_joined) = Inr ex_joined"
  by (rule room_restore_snapshots [OF ex_joined_inv])

section \<open>The admission protocol\<close>

text \<open>
  What a room promises to its users, without roles, presence, revisions and deadlines: who is
  inside, who waits at the door under which request, and whether the room is open.
\<close>

record admission =
  adm_open :: bool
  adm_members :: "session_id set"
  adm_waiting :: "request_id \<rightharpoonup> session_id"

inductive admission_step :: "session_id \<Rightarrow> admission \<Rightarrow> admission \<Rightarrow> bool" for owner where
  idle: "admission_step owner a a"
| knock: "adm_open a \<Longrightarrow> s \<notin> adm_members a \<Longrightarrow> s \<notin> ran (adm_waiting a) \<Longrightarrow> i \<notin> dom (adm_waiting a) \<Longrightarrow>
    admission_step owner a (a\<lparr>adm_waiting := (adm_waiting a)(i \<mapsto> s)\<rparr>)"
| let_in: "adm_open a \<Longrightarrow> adm_waiting a i = Some s \<Longrightarrow>
    admission_step owner a (a\<lparr>adm_members := insert s (adm_members a),
      adm_waiting := (adm_waiting a)(i := None)\<rparr>)"
| turn_away: "adm_waiting a i = Some s \<Longrightarrow>
    admission_step owner a (a\<lparr>adm_waiting := (adm_waiting a)(i := None)\<rparr>)"
| go: "s \<in> adm_members a \<Longrightarrow> s \<noteq> owner \<Longrightarrow>
    admission_step owner a (a\<lparr>adm_members := adm_members a - {s}\<rparr>)"
| shut: "adm_open a \<Longrightarrow> W \<subseteq>\<^sub>m adm_waiting a \<Longrightarrow>
    admission_step owner a (a\<lparr>adm_open := False, adm_waiting := W\<rparr>)"

definition waiting_of :: "(request_id \<rightharpoonup> join_request) \<Rightarrow> request_id \<rightharpoonup> session_id" where
  "waiting_of J = (\<lambda>i. case J i of
     None \<Rightarrow> None | Some q \<Rightarrow> if jr_state q = Pending then Some (jr_session_id q) else None)"

fun admission_of_view :: "room_view \<Rightarrow> admission" where
  "admission_of_view (st, M, J) =
     \<lparr>adm_open = (st = RoomActive),
      adm_members = {s. \<exists>m. M s = Some m \<and> mem_state m \<noteq> Left},
      adm_waiting = waiting_of J\<rparr>"

definition admission_of :: "room \<Rightarrow> admission" where
  "admission_of r = admission_of_view (room_view r)"

lemma waiting_of_update [simp]:
  "waiting_of (J(i \<mapsto> q)) = (waiting_of J)(i := if jr_state q = Pending then Some (jr_session_id q) else None)"
  by (auto simp: waiting_of_def fun_eq_iff)

lemma waiting_of_lapsed [simp]: "waiting_of (\<lambda>i. map_option lapse (J i)) = Map.empty"
  by (auto simp: waiting_of_def fun_eq_iff split: option.splits)

lemma waiting_of_Some [simp]:
  "waiting_of J i = Some s \<longleftrightarrow> (\<exists>q. J i = Some q \<and> jr_state q = Pending \<and> jr_session_id q = s)"
  by (auto simp: waiting_of_def split: option.splits)

lemma members_update [simp]:
  "{s. \<exists>m. (M(t \<mapsto> x)) s = Some m \<and> mem_state m \<noteq> Left} =
   (if mem_state x = Left then {s. \<exists>m. M s = Some m \<and> mem_state m \<noteq> Left} - {t}
    else insert t {s. \<exists>m. M s = Some m \<and> mem_state m \<noteq> Left})"
  by auto

lemma room_step_simulates:
  assumes "room_step owner expires v c v'"
  shows "admission_step owner (admission_of_view v) (admission_of_view v')"
  using assms
proof (cases rule: room_step.cases)
  case (ask now until J i M s)
  have "i \<notin> dom (waiting_of J)" "s \<notin> ran (waiting_of J)"
    using ask by (auto simp: waiting_of_def ran_def split: if_splits option.splits)
  with ask show ?thesis
    using admission_step.knock [of "admission_of_view (RoomActive, M, J)" s i owner] by simp
next
  case (admit now J i q M)
  then show ?thesis
    using admission_step.let_in [of "admission_of_view (RoomActive, M, J)" i "jr_session_id q" owner]
    by (simp del: fun_upd_apply)
next
  case (refuse now J i q M)
  then show ?thesis
    using admission_step.turn_away [of "admission_of_view (RoomActive, M, J)" i "jr_session_id q" owner] by simp
next
  case (overdue now J i q M)
  then show ?thesis
    using admission_step.turn_away [of "admission_of_view (RoomActive, M, J)" i "jr_session_id q" owner] by simp
next
  case (online now M s m J p)
  then have "insert s {s. \<exists>m. M s = Some m \<and> mem_state m \<noteq> Left} = {s. \<exists>m. M s = Some m \<and> mem_state m \<noteq> Left}"
    by auto
  with online show ?thesis by (simp add: admission_step.idle del: fun_upd_apply)
next
  case (offline M s m p st J)
  then have "insert s {s. \<exists>m. M s = Some m \<and> mem_state m \<noteq> Left} = {s. \<exists>m. M s = Some m \<and> mem_state m \<noteq> Left}"
    by auto
  with offline show ?thesis by (simp add: admission_step.idle del: fun_upd_apply)
next
  case (depart s M m st J)
  then show ?thesis
    using admission_step.go [of s "admission_of_view (st, M, J)" owner]
    by (simp del: fun_upd_apply)
next
  case (withdraw s M J i q st)
  then show ?thesis
    using admission_step.turn_away [of "admission_of_view (st, M, J)" i s owner] by simp
next
  case (close M J)
  then show ?thesis
    using admission_step.shut [of "admission_of_view (RoomActive, M, J)" "waiting_of J" owner] by simp
next
  case (deadline now M J)
  then show ?thesis
    using admission_step.shut [of "admission_of_view (RoomActive, M, J)" Map.empty owner] by simp
qed (simp add: admission_step.idle)

text \<open>C6. The room refines the admission protocol: whatever command it handles, and whatever it
  answers, what happens to members, waiting requests and openness is one step of the
  protocol (in which only the owner cannot leave and nobody enters without waiting).\<close>

theorem room_refines_admission:
  assumes "room_inv r"
  shows "admission_step (rm_owner r) (admission_of r) (admission_of (fst (room_handle r c)))"
  unfolding admission_of_def by (rule room_step_simulates [OF room_handle_steps [OF assms]])

theorem room_refines_admission_witness:
  "admission_step (rm_owner ex_joined) (admission_of ex_joined)
     (admission_of (fst (room_handle ex_joined (Leave ex_guest)))) \<and>
   admission_of ex_joined \<noteq> admission_of (fst (room_handle ex_joined (Leave ex_guest)))"
proof
  show "admission_step (rm_owner ex_joined) (admission_of ex_joined)
     (admission_of (fst (room_handle ex_joined (Leave ex_guest))))"
    by (rule room_refines_admission [OF ex_joined_inv])
  have "ex_guest \<in> adm_members (admission_of ex_joined)"
    by (simp add: admission_of_def room_view_def ex_joined_eq)
  moreover have "ex_guest \<notin> adm_members (admission_of (fst (room_handle ex_joined (Leave ex_guest))))"
    by (simp add: admission_of_def room_view_def ex_joined_eq ex_room_def room_op_defs)
  ultimately show "admission_of ex_joined \<noteq> admission_of (fst (room_handle ex_joined (Leave ex_guest)))"
    by metis
qed

section \<open>Closed rooms\<close>

lemma room_step_closed:
  assumes "room_step owner expires (RoomExpired, M, J) c (st', M', J')"
  shows "st' = RoomExpired \<and> dom J' = dom J \<and>
    (\<forall>s m'. M' s = Some m' \<longrightarrow> mem_state m' \<noteq> Left \<longrightarrow> (\<exists>m. M s = Some m \<and> mem_state m \<noteq> Left))"
  using assms by (cases rule: room_step.cases) (auto split: if_splits)

text \<open>An expired room stays expired under every sequence of commands, and its members only
  ever leave: nobody is admitted, and no request is added.\<close>

theorem closed_room_admits_nobody:
  assumes "room_inv r" "rm_state r = RoomExpired"
  shows "rm_state (run_commands room_handle r cs) = RoomExpired \<and>
    dom (map_of (rm_join_requests (run_commands room_handle r cs))) = dom (map_of (rm_join_requests r)) \<and>
    {s. is_member (run_commands room_handle r cs) s} \<subseteq> {s. is_member r s}"
proof -
  let ?P = "\<lambda>t. rm_state t = RoomExpired \<and>
    dom (map_of (rm_join_requests t)) = dom (map_of (rm_join_requests r)) \<and>
    {s. is_member t s} \<subseteq> {s. is_member r s}"
  have "?P (fst (room_handle t c))" if "room_inv t" "?P t" for t c
    using room_step_closed [of "rm_owner t" "rm_expires_at t" "map_of (rm_memberships t)"
        "map_of (rm_join_requests t)" c] room_handle_steps [OF that(1), of c] that(2)
    by (auto simp: is_member_view room_view_def) blast+
  then show ?thesis
    using room_machine.stable_run [of ?P r cs] assms by blast
qed

theorem closed_room_admits_nobody_witness:
  "rm_state (run_commands room_handle (fst (room_handle ex_joined (Leave ex_owner)))
     [RequestJoin ex_request ex_guest 10 900, Attach ex_guest ex_peer 30]) = RoomExpired"
proof -
  have "rm_state (fst (room_handle ex_joined (Leave ex_owner))) = RoomExpired"
    by (simp add: ex_joined_eq ex_room_def room_op_defs)
  then show ?thesis
    using closed_room_admits_nobody [OF room_handle_inv [OF ex_joined_inv]] by blast
qed

section \<open>What verify_invariants leaves open\<close>


end
