(* ===== verification/Protocol_Limits.thy ===== *)
theory Protocol_Limits
  imports P2P_Prelude
begin

text \<open>
  The foundations of the protocol crate: limits and field validators
  (\<open>rust/crates/protocol/src/limits.rs\<close>), the protocol version (\<open>version.rs\<close>), the
  capability bit set (\<open>lib.rs\<close>), and the contract every textual frame parser of the
  crate meets: bound the size, deserialize, validate.
\<close>

unbundle bit_operations_syntax

section \<open>Limits\<close>

definition MAX_JSON_FRAME_BYTES :: nat where
  "MAX_JSON_FRAME_BYTES = 64 * 1024"

definition MAX_CONTROL_FRAME_BYTES :: nat where
  "MAX_CONTROL_FRAME_BYTES = 64 * 1024"

definition MAX_HTTP_BODY_BYTES :: nat where
  "MAX_HTTP_BODY_BYTES = 64 * 1024"

definition MAX_SIGNAL_BYTES :: nat where
  "MAX_SIGNAL_BYTES = 32 * 1024"

definition MAX_FILES_PER_MANIFEST :: nat where
  "MAX_FILES_PER_MANIFEST = 10"

definition MAX_BUFFERED_TRANSFER_BYTES :: u64 where
  "MAX_BUFFERED_TRANSFER_BYTES = 100 * 1024 * 1024"

definition MAX_TRANSFER_BYTES :: u64 where
  "MAX_TRANSFER_BYTES = 5 * 1024 * 1024 * 1024"

definition MIN_STREAM_SEGMENT_BYTES :: u32 where
  "MIN_STREAM_SEGMENT_BYTES = 1024 * 1024"

definition MAX_STREAM_SEGMENT_BYTES :: u32 where
  "MAX_STREAM_SEGMENT_BYTES = 16 * 1024 * 1024"

definition MAX_STREAM_ACK_WINDOW_BYTES :: u64 where
  "MAX_STREAM_ACK_WINDOW_BYTES = 64 * 1024 * 1024"

definition MAX_CHUNK_BYTES :: u32 where
  "MAX_CHUNK_BYTES = 64 * 1024"

definition WIRE_MAX_DISPLAY_NAME_CHARS :: nat where
  "WIRE_MAX_DISPLAY_NAME_CHARS = 48"

definition MAX_TEXT_TRANSFER_CHARS :: nat where
  "MAX_TEXT_TRANSFER_CHARS = 500"

definition MAX_TEXT_TRANSFER_BYTES :: nat where
  "MAX_TEXT_TRANSFER_BYTES = 4 * 1024"

definition WIRE_MAX_ID_BYTES :: nat where
  "WIRE_MAX_ID_BYTES = 64"

definition MAX_FILE_NAME_BYTES :: nat where
  "MAX_FILE_NAME_BYTES = 1024"

definition MAX_MIME_BYTES :: nat where
  "MAX_MIME_BYTES = 128"

definition MAX_ERROR_MESSAGE_BYTES :: nat where
  "MAX_ERROR_MESSAGE_BYTES = 512"

lemmas limit_defs =
  MAX_JSON_FRAME_BYTES_def MAX_CONTROL_FRAME_BYTES_def MAX_HTTP_BODY_BYTES_def MAX_SIGNAL_BYTES_def
  MAX_FILES_PER_MANIFEST_def MAX_BUFFERED_TRANSFER_BYTES_def MAX_TRANSFER_BYTES_def
  MIN_STREAM_SEGMENT_BYTES_def MAX_STREAM_SEGMENT_BYTES_def MAX_STREAM_ACK_WINDOW_BYTES_def
  MAX_CHUNK_BYTES_def WIRE_MAX_DISPLAY_NAME_CHARS_def MAX_TEXT_TRANSFER_CHARS_def
  MAX_TEXT_TRANSFER_BYTES_def WIRE_MAX_ID_BYTES_def MAX_FILE_NAME_BYTES_def MAX_MIME_BYTES_def
  MAX_ERROR_MESSAGE_BYTES_def

section \<open>Errors\<close>

datatype protocol_error =
    FrameTooLarge nat nat
  | UnsupportedVersion u16 u16
  | EmptyField string
  | FieldTooLong string nat nat
  | InvalidField string
  | InvalidJson string
  | InvalidFileCount
  | DuplicateFileId
  | TransferTooLarge
  | BinaryFrameTooShort
  | InvalidMagic
  | UnsupportedFrameType u8
  | ChunkTooLarge
  | BinaryLengthMismatch
  | OffsetOverflow

section \<open>Field validators\<close>

definition validate_text :: "rstring \<Rightarrow> string \<Rightarrow> nat \<Rightarrow> protocol_error + unit" where
  "validate_text v field max_bytes =
     (if v = [] then Inl (EmptyField field)
      else if max_bytes < str_len v then Inl (FieldTooLong field (str_len v) max_bytes)
      else if list_ex is_control v then Inl (InvalidField field)
      else Inr ())"

definition validate_token :: "rstring \<Rightarrow> string \<Rightarrow> protocol_error + unit" where
  "validate_token v field =
     bind_result (validate_text v field WIRE_MAX_ID_BYTES) (\<lambda>_.
       if list_ex (\<lambda>c. \<not> is_ascii_alphanumeric c \<and> \<not> (c = 95 \<or> c = 45)) v
       then Inl (InvalidField field) else Inr ())"

definition validate_room_code :: "rstring \<Rightarrow> protocol_error + unit" where
  "validate_room_code v =
     (if str_len v \<noteq> 6 \<or> \<not> list_all is_ascii_alphanumeric v then Inl (InvalidField ''room_code'')
      else Inr ())"

definition validate_display_name :: "rstring \<Rightarrow> protocol_error + unit" where
  "validate_display_name v0 =
     (let v = trim v0
      in if v = [] then Inl (EmptyField ''display_name'')
         else if WIRE_MAX_DISPLAY_NAME_CHARS < length v then Inl (InvalidField ''display_name'')
         else if list_ex is_control v then Inl (InvalidField ''display_name'')
         else Inr ())"

definition validate_multiline_text :: "rstring \<Rightarrow> string \<Rightarrow> nat \<Rightarrow> protocol_error + unit" where
  "validate_multiline_text v field max_bytes =
     (if v = [] then Inl (EmptyField field)
      else if max_bytes < str_len v then Inl (FieldTooLong field (str_len v) max_bytes)
      else if list_ex (\<lambda>c. is_control c \<and> \<not> (c = 13 \<or> c = 10 \<or> c = 9)) v then Inl (InvalidField field)
      else Inr ())"

lemma validate_text_Inr_iff [result_simps]:
  "validate_text v field n = Inr u \<longleftrightarrow> v \<noteq> [] \<and> str_len v \<le> n \<and> (\<forall>c \<in> set v. \<not> is_control c)"
  by (auto simp: validate_text_def list_ex_iff)

lemma validate_token_Inr_iff [result_simps]:
  "validate_token v field = Inr u \<longleftrightarrow> v \<noteq> [] \<and> length v \<le> 64 \<and> (\<forall>c \<in> set v. ascii_token_char c)"
proof (cases "\<forall>c \<in> set v. ascii_token_char c")
  case True
  then have "str_len v = length v" "\<forall>c \<in> set v. \<not> is_control c"
    by (auto intro: str_len_ascii dest: ascii_token_char_props)
  with True show ?thesis
    by (auto simp: validate_token_def result_simps WIRE_MAX_ID_BYTES_def list_ex_iff ascii_token_char_def)
next
  case False
  then show ?thesis
    by (auto simp: validate_token_def result_simps list_ex_iff ascii_token_char_def)
qed

lemma validate_room_code_Inr_iff [result_simps]:
  "validate_room_code v = Inr u \<longleftrightarrow> length v = 6 \<and> (\<forall>c \<in> set v. is_ascii_alphanumeric c)"
proof (cases "\<forall>c \<in> set v. is_ascii_alphanumeric c")
  case True
  then have "str_len v = length v" by (auto intro: str_len_ascii dest: ascii_alphanumeric_ascii)
  with True show ?thesis by (auto simp: validate_room_code_def list_all_iff)
next
  case False
  then show ?thesis by (auto simp: validate_room_code_def list_all_iff)
qed

lemma validate_display_name_Inr_iff [result_simps]:
  "validate_display_name v = Inr u \<longleftrightarrow>
   trim v \<noteq> [] \<and> length (trim v) \<le> 48 \<and> (\<forall>c \<in> set (trim v). \<not> is_control c)"
  by (auto simp: validate_display_name_def Let_def WIRE_MAX_DISPLAY_NAME_CHARS_def list_ex_iff)

lemma validate_multiline_text_Inr_iff [result_simps]:
  "validate_multiline_text v field n = Inr u \<longleftrightarrow>
   v \<noteq> [] \<and> str_len v \<le> n \<and> (\<forall>c \<in> set v. is_control c \<longrightarrow> c \<in> {9, 10, 13})"
  by (auto simp: validate_multiline_text_def list_ex_iff)

section \<open>Version\<close>

record protocol_version =
  pv_major :: u16
  pv_minor :: u16

definition CURRENT_PROTOCOL :: protocol_version where
  "CURRENT_PROTOCOL = \<lparr>pv_major = 5, pv_minor = 1\<rparr>"

definition version_validate :: "protocol_version \<Rightarrow> protocol_error + unit" where
  "version_validate v =
     (if v \<noteq> CURRENT_PROTOCOL then Inl (UnsupportedVersion (pv_major v) (pv_minor v)) else Inr ())"

lemma version_validate_Inr_iff [result_simps]:
  "version_validate v = Inr u \<longleftrightarrow> v = CURRENT_PROTOCOL"
  by (auto simp: version_validate_def)

definition API_MAJOR_VERSION :: u16 where
  "API_MAJOR_VERSION = pv_major CURRENT_PROTOCOL"

section \<open>Capabilities\<close>

datatype protocol_capabilities = Capabilities (capability_bits: u8)

definition DIRECT_TEXT :: protocol_capabilities where
  "DIRECT_TEXT = Capabilities (push_bit 0 1)"

definition MULTI_RECEIVER :: protocol_capabilities where
  "MULTI_RECEIVER = Capabilities (push_bit 1 1)"

definition STREAM_RESUME_V1 :: protocol_capabilities where
  "STREAM_RESUME_V1 = Capabilities (push_bit 2 1)"

definition capabilities_contains :: "protocol_capabilities \<Rightarrow> protocol_capabilities \<Rightarrow> bool" where
  "capabilities_contains c required \<longleftrightarrow> capability_bits c AND capability_bits required = capability_bits required"

definition CURRENT_CAPABILITIES :: protocol_capabilities where
  "CURRENT_CAPABILITIES =
     Capabilities (capability_bits DIRECT_TEXT OR capability_bits MULTI_RECEIVER OR
       capability_bits STREAM_RESUME_V1)"

section \<open>Textual frame parsers\<close>

text \<open>
  Every textual parser bounds the input, hands it to the deserializer of the JSON library
  and validates the value. The deserializer is a parameter: it yields a value of the
  declared type or an error message.
\<close>

locale framed_parser =
  fixes limit :: nat
    and input_len :: "'i \<Rightarrow> nat"
    and validate :: "'m \<Rightarrow> protocol_error + unit"
    and parse :: "('i \<Rightarrow> string + 'm) \<Rightarrow> 'i \<Rightarrow> protocol_error + 'm"
  assumes parse_eq: "parse de input =
    (if limit < input_len input then Inl (FrameTooLarge (input_len input) limit)
     else bind_result (map_err InvalidJson (de input)) (\<lambda>m. bind_result (validate m) (\<lambda>_. Inr m)))"
begin

lemma parse_Inr_iff:
  "parse de input = Inr m \<longleftrightarrow> input_len input \<le> limit \<and> de input = Inr m \<and> validate m = Inr ()"
  by (auto simp: parse_eq result_simps)

lemma oversized_not_deserialized:
  "limit < input_len input \<Longrightarrow> parse de input = parse de' input"
  by (simp add: parse_eq)

lemma parse_print:
  assumes "de (ser m) = Inr m" "validate m = Inr ()" "input_len (ser m) \<le> limit"
  shows "parse de (ser m) = Inr m"
  using assms by (simp add: parse_Inr_iff)

end

end
