(* ===== verification/Protocol_Realtime.thy ===== *)
theory Protocol_Realtime
  imports Protocol_Limits
begin

text \<open>
  The realtime messages between the browser and the server
  (\<open>rust/crates/protocol/src/realtime.rs\<close>) and their validation.
\<close>

section \<open>Client messages\<close>

datatype rtc_signal =
    Offer rstring
  | Answer rstring
  | IceCandidate (ice_candidate: rstring) (ice_sdp_mid: "rstring option") (ice_sdp_m_line_index: "u16 option")

fun signal_validate :: "rtc_signal \<Rightarrow> protocol_error + unit" where
  "signal_validate (Offer sdp) = validate_multiline_text sdp ''sdp'' MAX_SIGNAL_BYTES"
| "signal_validate (Answer sdp) = validate_multiline_text sdp ''sdp'' MAX_SIGNAL_BYTES"
| "signal_validate (IceCandidate candidate sdp_mid _) =
     bind_result (validate_text candidate ''candidate'' MAX_SIGNAL_BYTES) (\<lambda>_.
       case sdp_mid of
         Some mid \<Rightarrow> validate_text mid ''sdp_mid'' 256
       | None \<Rightarrow> Inr ())"

datatype client_realtime_message =
    AttachRoom (cm_version: protocol_version) (cm_room_code: rstring) (cm_peer_id: rstring)
      (cm_last_revision: "u64 option")
  | WatchJoinRequest (cm_version: protocol_version) (cm_room_code: rstring) (cm_request_id: rstring)
      (cm_last_revision: "u64 option")
  | DetachRoom (cm_version: protocol_version) (cm_room_code: rstring)
  | ClientSignal (cm_version: protocol_version) (cm_room_code: rstring) (cm_to_peer_id: rstring)
      (cm_negotiation_id: rstring) (cm_signal: rtc_signal)
  | Heartbeat (cm_version: protocol_version) (cm_nonce: rstring)
  | AckEvent (cm_version: protocol_version) (cm_event_id: rstring)

definition client_message_validate :: "client_realtime_message \<Rightarrow> protocol_error + unit" where
  "client_message_validate m =
     bind_result (version_validate (cm_version m)) (\<lambda>_.
       case m of
         AttachRoom _ room_code peer_id _ \<Rightarrow>
           bind_result (validate_room_code room_code) (\<lambda>_. validate_token peer_id ''peer_id'')
       | WatchJoinRequest _ room_code request_id _ \<Rightarrow>
           bind_result (validate_room_code room_code) (\<lambda>_. validate_token request_id ''request_id'')
       | DetachRoom _ room_code \<Rightarrow> validate_room_code room_code
       | ClientSignal _ room_code to_peer_id negotiation_id signal \<Rightarrow>
           bind_result (validate_room_code room_code) (\<lambda>_.
           bind_result (validate_token to_peer_id ''to_peer_id'') (\<lambda>_.
           bind_result (validate_token negotiation_id ''negotiation_id'') (\<lambda>_.
             signal_validate signal)))
       | Heartbeat _ nonce \<Rightarrow> validate_token nonce ''nonce''
       | AckEvent _ event_id \<Rightarrow> validate_token event_id ''event_id'')"

definition parse_client_message ::
  "(rstring \<Rightarrow> string + client_realtime_message) \<Rightarrow> rstring \<Rightarrow> protocol_error + client_realtime_message" where
  "parse_client_message from_str input =
     (if MAX_JSON_FRAME_BYTES < str_len input
      then Inl (FrameTooLarge (str_len input) MAX_JSON_FRAME_BYTES)
      else bind_result (map_err InvalidJson (from_str input)) (\<lambda>message.
           bind_result (client_message_validate message) (\<lambda>_. Inr message)))"

interpretation client_frames:
  framed_parser MAX_JSON_FRAME_BYTES str_len client_message_validate parse_client_message
  by unfold_locales (simp add: parse_client_message_def)

section \<open>Server messages\<close>

datatype participant_role_wire = WireOwner | WireReceiver

record participant_snapshot =
  ps_session_id :: rstring
  ps_display_name :: rstring
  ps_role :: participant_role_wire
  ps_online :: bool
  ps_peer_id :: "rstring option"

datatype join_decision_wire = WireApproved | WireRejected

record join_request_snapshot =
  jq_request_id :: rstring
  jq_session_id :: rstring
  jq_display_name :: rstring
  jq_expires_at_ms :: u64

datatype server_realtime_message =
    SmAttached (sm_version: protocol_version) (sm_event_id: rstring) (sm_room_id: rstring) (sm_revision: u64)
  | SmJoinWatching (sm_version: protocol_version) (sm_event_id: rstring) (sm_room_id: rstring)
      (sm_request_id: rstring) (sm_revision: u64)
  | SmRoomSnapshot (sm_version: protocol_version) (sm_event_id: rstring) (sm_room_id: rstring)
      (sm_room_code: rstring) (sm_revision: u64) (sm_expires_at_ms: u64)
      (sm_participants: "participant_snapshot list") (sm_pending: "join_request_snapshot list")
  | SmJoinRequested (sm_version: protocol_version) (sm_event_id: rstring) (sm_revision: u64)
      (sm_request: join_request_snapshot)
  | SmJoinDecided (sm_version: protocol_version) (sm_event_id: rstring) (sm_revision: u64)
      (sm_request_id: rstring) (sm_decision: join_decision_wire)
  | SmPeerOnline (sm_version: protocol_version) (sm_event_id: rstring) (sm_revision: u64)
      (sm_session_id: rstring) (sm_peer_id: rstring)
  | SmPeerOffline (sm_version: protocol_version) (sm_event_id: rstring) (sm_revision: u64)
      (sm_session_id: rstring)
  | SmSignal (sm_version: protocol_version) (sm_event_id: rstring) (sm_from_peer_id: rstring)
      (sm_negotiation_id: rstring) (sm_signal: rtc_signal)
  | SmRoomExpired (sm_version: protocol_version) (sm_event_id: rstring) (sm_revision: u64)
  | SmError (sm_version: protocol_version) (sm_code: rstring) (sm_message: rstring) (sm_retryable: bool)

definition server_message_validate :: "server_realtime_message \<Rightarrow> protocol_error + unit" where
  "server_message_validate m =
     bind_result (version_validate (sm_version m)) (\<lambda>_.
       case m of
         SmSignal _ event_id from_peer_id negotiation_id signal \<Rightarrow>
           bind_result (validate_token event_id ''event_id'') (\<lambda>_.
           bind_result (validate_token from_peer_id ''from_peer_id'') (\<lambda>_.
           bind_result (validate_token negotiation_id ''negotiation_id'') (\<lambda>_.
             signal_validate signal)))
       | SmError _ code message _ \<Rightarrow>
           bind_result (validate_token code ''error_code'') (\<lambda>_.
             validate_text message ''error_message'' MAX_ERROR_MESSAGE_BYTES)
       | _ \<Rightarrow> Inr ())"

end
