(* ===== verification/Protocol_Http.thy ===== *)
theory Protocol_Http
  imports Protocol_Realtime
begin

text \<open>
  The HTTP requests and responses of the API (\<open>rust/crates/protocol/src/http.rs\<close>) and the
  service metadata of \<open>lib.rs\<close>. Requests are validated after deserialization.
\<close>

section \<open>Service metadata\<close>

datatype health_state = Ready

record health_response =
  hr_status :: health_state
  hr_service :: rstring
  hr_version :: rstring
  hr_release :: rstring

definition health_response_ready :: "rstring \<Rightarrow> rstring \<Rightarrow> rstring \<Rightarrow> health_response" where
  "health_response_ready service version release =
     \<lparr>hr_status = Ready, hr_service = service, hr_version = version, hr_release = release\<rparr>"

record build_info =
  bi_product :: rstring
  bi_version :: rstring
  bi_release :: rstring
  bi_api_major :: u16
  bi_api_minor :: u16
  bi_capabilities :: protocol_capabilities

section \<open>Requests and responses\<close>

definition MAX_PUBLIC_ERROR_MESSAGE_BYTES :: nat where
  "MAX_PUBLIC_ERROR_MESSAGE_BYTES = 512"

definition validate_optional_revision :: "u64 option \<Rightarrow> protocol_error + unit" where
  "validate_optional_revision rv =
     (if rv = Some 0 then Inl (InvalidField ''expected_revision'') else Inr ())"

record create_session_request =
  csr_version :: protocol_version
  csr_display_name :: rstring

definition create_session_request_validate :: "create_session_request \<Rightarrow> protocol_error + unit" where
  "create_session_request_validate q =
     bind_result (version_validate (csr_version q)) (\<lambda>_. validate_display_name (csr_display_name q))"

record session_response =
  sr_version :: protocol_version
  sr_session_id :: rstring
  sr_display_name :: rstring
  sr_expires_at_ms :: u64

record create_room_request =
  crq_version :: protocol_version
  crq_request_id :: rstring

definition create_room_request_validate :: "create_room_request \<Rightarrow> protocol_error + unit" where
  "create_room_request_validate q =
     bind_result (version_validate (crq_version q)) (\<lambda>_. validate_token (crq_request_id q) ''request_id'')"

record create_room_response =
  crr_version :: protocol_version
  crr_room_id :: rstring
  crr_room_code :: rstring
  crr_revision :: u64
  crr_expires_at_ms :: u64

record request_join_request =
  rjr_version :: protocol_version
  rjr_request_id :: rstring
  rjr_room_code :: rstring
  rjr_expected_revision :: "u64 option"
  rjr_invite_capability :: "rstring option"

definition request_join_request_validate :: "request_join_request \<Rightarrow> protocol_error + unit" where
  "request_join_request_validate q =
     bind_result (version_validate (rjr_version q)) (\<lambda>_.
     bind_result (validate_token (rjr_request_id q) ''request_id'') (\<lambda>_.
     bind_result (validate_room_code (rjr_room_code q)) (\<lambda>_.
     bind_result (validate_optional_revision (rjr_expected_revision q)) (\<lambda>_.
       case rjr_invite_capability q of
         Some capability \<Rightarrow> validate_token capability ''invite_capability''
       | None \<Rightarrow> Inr ()))))"

datatype join_decision_request = ApproveRequest | RejectRequest

record decide_join_request =
  djr_version :: protocol_version
  djr_request_id :: rstring
  djr_decision :: join_decision_request
  djr_expected_revision :: "u64 option"

definition decide_join_request_validate :: "decide_join_request \<Rightarrow> protocol_error + unit" where
  "decide_join_request_validate q =
     bind_result (version_validate (djr_version q)) (\<lambda>_.
     bind_result (validate_token (djr_request_id q) ''request_id'') (\<lambda>_.
       validate_optional_revision (djr_expected_revision q)))"

record leave_room_request =
  lrr_version :: protocol_version
  lrr_request_id :: rstring
  lrr_expected_revision :: "u64 option"

definition leave_room_request_validate :: "leave_room_request \<Rightarrow> protocol_error + unit" where
  "leave_room_request_validate q =
     bind_result (version_validate (lrr_version q)) (\<lambda>_.
     bind_result (validate_token (lrr_request_id q) ''request_id'') (\<lambda>_.
       validate_optional_revision (lrr_expected_revision q)))"

datatype join_request_state_wire =
    WirePending | WireStateApproved | WireStateRejected | WireCancelled | WireExpired

record join_request_response =
  jrr_version :: protocol_version
  jrr_room_id :: rstring
  jrr_request_id :: rstring
  jrr_state :: join_request_state_wire
  jrr_revision :: u64
  jrr_expires_at_ms :: u64

record room_mutation_response =
  rmr_version :: protocol_version
  rmr_room_id :: rstring
  rmr_revision :: u64

record create_invite_request =
  ciq_version :: protocol_version
  ciq_request_id :: rstring

definition create_invite_request_validate :: "create_invite_request \<Rightarrow> protocol_error + unit" where
  "create_invite_request_validate q =
     bind_result (version_validate (ciq_version q)) (\<lambda>_. validate_token (ciq_request_id q) ''request_id'')"

record create_invite_response =
  cir_version :: protocol_version
  cir_room_code :: rstring
  cir_capability :: rstring
  cir_expires_at_ms :: u64

record room_bootstrap_response =
  rbr_version :: protocol_version
  rbr_room_id :: rstring
  rbr_room_code :: rstring
  rbr_revision :: u64
  rbr_expires_at_ms :: u64
  rbr_participants :: "participant_snapshot list"
  rbr_pending_join_requests :: "join_request_snapshot list"

record ice_server =
  is_urls :: "rstring list"
  is_username :: "rstring option"
  is_credential :: "rstring option"

record rtc_config_response =
  rcr_version :: protocol_version
  rcr_ice_servers :: "ice_server list"
  rcr_expires_at_ms :: u64
  rcr_ttl_ms :: u64

datatype api_error_code =
    CodeUpgradeRequired | CodeInvalidRequest | CodeUnauthorized | CodeForbidden | CodeNotFound
  | CodeConflict | CodeRateLimited | CodeUnavailable | CodeInternal

record api_error_body =
  ae_code :: api_error_code
  ae_message :: rstring
  ae_request_id :: "rstring option"
  ae_retryable :: bool

definition api_error_body_validate :: "api_error_body \<Rightarrow> protocol_error + unit" where
  "api_error_body_validate e =
     bind_result (validate_text (ae_message e) ''error_message'' MAX_PUBLIC_ERROR_MESSAGE_BYTES) (\<lambda>_.
       case ae_request_id e of
         Some rid \<Rightarrow> validate_token rid ''request_id''
       | None \<Rightarrow> Inr ())"

datatype error_envelope = ErrorEnvelope (envelope_error: api_error_body)

section \<open>Bodies\<close>

text \<open>The body parser is generic in the request type: its validation and deserializer are arguments.\<close>

definition parse_http_body ::
  "('t \<Rightarrow> protocol_error + unit) \<Rightarrow> (u8 list \<Rightarrow> string + 't) \<Rightarrow> u8 list \<Rightarrow> protocol_error + 't" where
  "parse_http_body validate from_slice input =
     (if MAX_HTTP_BODY_BYTES < length input
      then Inl (FrameTooLarge (length input) MAX_HTTP_BODY_BYTES)
      else bind_result (map_err InvalidJson (from_slice input)) (\<lambda>v.
           bind_result (validate v) (\<lambda>_. Inr v)))"

interpretation http_bodies:
  framed_parser MAX_HTTP_BODY_BYTES length v "parse_http_body v" for v
  by unfold_locales (simp add: parse_http_body_def)

lemma validate_optional_revision_Inr_iff [result_simps]:
  "validate_optional_revision rv = Inr u \<longleftrightarrow> rv \<noteq> Some 0"
  by (auto simp: validate_optional_revision_def)

lemmas request_validate_defs =
  create_session_request_validate_def create_room_request_validate_def
  request_join_request_validate_def decide_join_request_validate_def leave_room_request_validate_def
  create_invite_request_validate_def

end
