(* ===== verification/Protocol_Data_Channel.thy ===== *)
theory Protocol_Data_Channel
  imports Protocol_Limits
begin

text \<open>
  The control messages two browsers exchange over a data channel
  (\<open>rust/crates/protocol/src/data_channel.rs\<close>): files, transfer modes, resume cursors,
  digests, the control message with its validation, and its parser.
\<close>

section \<open>Files, modes, cursors and digests\<close>

record file_manifest =
  fm_file_id :: rstring
  fm_name :: rstring
  fm_mime :: "rstring option"
  fm_size_bytes :: u64

definition file_manifest_validate :: "file_manifest \<Rightarrow> protocol_error + unit" where
  "file_manifest_validate f =
     bind_result (validate_token (fm_file_id f) ''file_id'') (\<lambda>_.
     bind_result (validate_text (fm_name f) ''file_name'' MAX_FILE_NAME_BYTES) (\<lambda>_.
       if list_ex (\<lambda>c. c = 47 \<or> c = 92) (fm_name f) then Inl (InvalidField ''file_name'')
       else case fm_mime f of
              Some mime \<Rightarrow> validate_text mime ''mime'' MAX_MIME_BYTES
            | None \<Rightarrow> Inr ()))"

datatype transfer_mode = Buffered | Streamed u32

fun max_transfer_bytes :: "transfer_mode \<Rightarrow> u64" where
  "max_transfer_bytes Buffered = MAX_BUFFERED_TRANSFER_BYTES"
| "max_transfer_bytes (Streamed _) = MAX_TRANSFER_BYTES"

fun transfer_mode_validate :: "transfer_mode \<Rightarrow> protocol_error + unit" where
  "transfer_mode_validate Buffered = Inr ()"
| "transfer_mode_validate (Streamed segment_bytes) =
     (if \<not> (MIN_STREAM_SEGMENT_BYTES \<le> segment_bytes \<and> segment_bytes \<le> MAX_STREAM_SEGMENT_BYTES) \<or>
         segment_bytes mod MAX_CHUNK_BYTES \<noteq> 0
      then Inl (InvalidField ''segment_bytes'') else Inr ())"

definition validate_blake3 :: "rstring \<Rightarrow> string \<Rightarrow> protocol_error + unit" where
  "validate_blake3 v field =
     (if str_len v \<noteq> 64 \<or> \<not> list_all is_ascii_hexdigit v then Inl (InvalidField field) else Inr ())"

record resume_cursor =
  rc_file_id :: rstring
  rc_committed_bytes :: u64
  rc_last_segment_blake3 :: "rstring option"

definition resume_cursor_validate :: "resume_cursor \<Rightarrow> protocol_error + unit" where
  "resume_cursor_validate c =
     bind_result (validate_token (rc_file_id c) ''file_id'') (\<lambda>_.
       if MAX_TRANSFER_BYTES < rc_committed_bytes c then Inl TransferTooLarge
       else case rc_last_segment_blake3 c of
              None \<Rightarrow>
                if rc_committed_bytes c = 0 then Inr () else Inl (InvalidField ''last_segment_blake3'')
            | Some blake3 \<Rightarrow>
                if rc_committed_bytes c = 0 then Inl (InvalidField ''last_segment_blake3'')
                else validate_blake3 blake3 ''last_segment_blake3'')"

record file_digest =
  dg_file_id :: rstring
  dg_size_bytes :: u64
  dg_blake3 :: rstring

definition file_digest_validate :: "file_digest \<Rightarrow> protocol_error + unit" where
  "file_digest_validate d =
     bind_result (validate_token (dg_file_id d) ''file_id'') (\<lambda>_.
       if MAX_TRANSFER_BYTES < dg_size_bytes d then Inl TransferTooLarge
       else validate_blake3 (dg_blake3 d) ''blake3'')"

section \<open>Lists of files\<close>

text \<open>\<open>ids\<close> is the set of identifiers seen so far, \<open>acc\<close> the running total.\<close>

fun unique_files_loop ::
  "('f \<Rightarrow> protocol_error + unit) \<Rightarrow> ('f \<Rightarrow> rstring) \<Rightarrow> ('f \<Rightarrow> u64) \<Rightarrow>
   rstring set \<Rightarrow> u64 \<Rightarrow> 'f list \<Rightarrow> protocol_error + u64" where
  "unique_files_loop validate file_id file_size ids acc [] = Inr acc"
| "unique_files_loop validate file_id file_size ids acc (f # fs) =
     bind_result (validate f) (\<lambda>_.
       if file_id f \<in> ids then Inl DuplicateFileId
       else bind_result (ok_or TransferTooLarge (checked_add acc (file_size f))) (\<lambda>acc'.
              unique_files_loop validate file_id file_size (insert (file_id f) ids) acc' fs))"

definition validate_unique_files ::
  "'f list \<Rightarrow> ('f \<Rightarrow> rstring) \<Rightarrow> ('f \<Rightarrow> protocol_error + unit) \<Rightarrow> ('f \<Rightarrow> u64) \<Rightarrow> protocol_error + u64" where
  "validate_unique_files fs file_id validate file_size =
     (if MAX_FILES_PER_MANIFEST < length fs then Inl InvalidFileCount
      else unique_files_loop validate file_id file_size {} 0 fs)"

definition resume_cursor_file_size :: "resume_cursor \<Rightarrow> u64" where
  "resume_cursor_file_size c = 0"

definition file_digest_file_size :: "file_digest \<Rightarrow> u64" where
  "file_digest_file_size d = dg_size_bytes d"

fun manifest_files_loop ::
  "rstring set \<Rightarrow> u64 \<Rightarrow> file_manifest list \<Rightarrow> protocol_error + u64" where
  "manifest_files_loop ids acc [] = Inr acc"
| "manifest_files_loop ids acc (f # fs) =
     bind_result (file_manifest_validate f) (\<lambda>_.
       if fm_file_id f \<in> ids then Inl DuplicateFileId
       else bind_result (ok_or TransferTooLarge (checked_add acc (fm_size_bytes f))) (\<lambda>acc'.
              manifest_files_loop (insert (fm_file_id f) ids) acc' fs))"

section \<open>Control messages\<close>

datatype cancel_reason = SenderCancelled | ReceiverCancelled | Timeout | PeerClosed

datatype stream_pause_reason = DestinationQuotaExceeded | DestinationPermissionDenied

datatype control_message =
    TextOffer (ctl_version: protocol_version) (ctl_transfer_id: rstring)
      (ctl_character_count: u32) (ctl_byte_length: u32)
  | TextDecision (ctl_version: protocol_version) (ctl_transfer_id: rstring) (ctl_accepted: bool)
  | TextPayload (ctl_version: protocol_version) (ctl_transfer_id: rstring) (ctl_text: rstring)
  | TextReceipt (ctl_version: protocol_version) (ctl_transfer_id: rstring)
  | TextCancel (ctl_version: protocol_version) (ctl_transfer_id: rstring)
  | Manifest (ctl_version: protocol_version) (ctl_transfer_id: rstring)
      (ctl_mode: transfer_mode) (ctl_files: "file_manifest list")
  | Decision (ctl_version: protocol_version) (ctl_transfer_id: rstring) (ctl_accepted: bool)
  | Start (ctl_version: protocol_version) (ctl_transfer_id: rstring)
  | StreamReady (ctl_version: protocol_version) (ctl_transfer_id: rstring)
      (ctl_max_chunk_bytes: u32) (ctl_ack_window_bytes: u64) (ctl_resume: "resume_cursor list")
  | SegmentCommit (ctl_version: protocol_version) (ctl_transfer_id: rstring) (ctl_file_id: rstring)
      (ctl_segment_index: u64) (ctl_offset: u64) (ctl_segment_bytes: u32) (ctl_blake3: rstring)
  | SegmentAck (ctl_version: protocol_version) (ctl_transfer_id: rstring) (ctl_file_id: rstring)
      (ctl_segment_index: u64) (ctl_committed_bytes: u64) (ctl_blake3: rstring)
  | StreamPaused (ctl_version: protocol_version) (ctl_transfer_id: rstring)
      (ctl_pause_reason: stream_pause_reason)
  | Cancel (ctl_version: protocol_version) (ctl_transfer_id: rstring) (ctl_cancel_reason: cancel_reason)
  | Complete (ctl_version: protocol_version) (ctl_transfer_id: rstring) (ctl_bytes: u64) (ctl_blake3: rstring)
  | StreamComplete (ctl_version: protocol_version) (ctl_transfer_id: rstring)
      (ctl_total_bytes: u64) (ctl_digests: "file_digest list")
  | ControlError (ctl_version: protocol_version) (ctl_transfer_id: rstring)
      (ctl_code: rstring) (ctl_message: rstring)

definition control_message_validate :: "control_message \<Rightarrow> protocol_error + unit" where
  "control_message_validate m =
     bind_result (version_validate (ctl_version m)) (\<lambda>_.
     bind_result (validate_token (ctl_transfer_id m) ''transfer_id'') (\<lambda>_.
       case m of
         TextOffer _ _ character_count byte_length \<Rightarrow>
           if character_count = 0 \<or> MAX_TEXT_TRANSFER_CHARS < unat character_count
           then Inl (InvalidField ''character_count'')
           else if byte_length = 0 \<or> MAX_TEXT_TRANSFER_BYTES < unat byte_length
           then Inl (InvalidField ''byte_length'')
           else Inr ()
       | TextPayload _ _ text \<Rightarrow>
           bind_result (validate_multiline_text text ''text'' MAX_TEXT_TRANSFER_BYTES) (\<lambda>_.
             if MAX_TEXT_TRANSFER_CHARS < length text then Inl (InvalidField ''text'') else Inr ())
       | Manifest _ _ mode files \<Rightarrow>
           bind_result (transfer_mode_validate mode) (\<lambda>_.
             if files = [] \<or> MAX_FILES_PER_MANIFEST < length files then Inl InvalidFileCount
             else bind_result (manifest_files_loop {} 0 files) (\<lambda>acc.
                    if max_transfer_bytes mode < acc then Inl TransferTooLarge else Inr ()))
       | Complete _ _ bytes blake3 \<Rightarrow>
           if MAX_BUFFERED_TRANSFER_BYTES < bytes then Inl TransferTooLarge
           else validate_blake3 blake3 ''blake3''
       | StreamReady _ _ max_chunk_bytes ack_window_bytes resume \<Rightarrow>
           if max_chunk_bytes = 0 \<or> MAX_CHUNK_BYTES < max_chunk_bytes
           then Inl (InvalidField ''max_chunk_bytes'')
           else if ack_window_bytes < ucast max_chunk_bytes \<or> MAX_STREAM_ACK_WINDOW_BYTES < ack_window_bytes
           then Inl (InvalidField ''ack_window_bytes'')
           else bind_result
                  (validate_unique_files resume rc_file_id resume_cursor_validate resume_cursor_file_size)
                  (\<lambda>_. Inr ())
       | SegmentCommit _ _ file_id _ offset bytes blake3 \<Rightarrow>
           bind_result (validate_token file_id ''file_id'') (\<lambda>_.
             if bytes = 0 \<or> MAX_STREAM_SEGMENT_BYTES < bytes then Inl (InvalidField ''segment_bytes'')
             else bind_result (ok_or OffsetOverflow (checked_add offset (ucast bytes))) (\<lambda>end_offset.
                    if MAX_TRANSFER_BYTES < end_offset then Inl TransferTooLarge
                    else validate_blake3 blake3 ''blake3''))
       | SegmentAck _ _ file_id _ committed_bytes blake3 \<Rightarrow>
           bind_result (validate_token file_id ''file_id'') (\<lambda>_.
             if committed_bytes = 0 \<or> MAX_TRANSFER_BYTES < committed_bytes
             then Inl (InvalidField ''committed_bytes'')
             else validate_blake3 blake3 ''blake3'')
       | StreamComplete _ _ total_bytes files \<Rightarrow>
           if files = [] then Inl InvalidFileCount
           else bind_result
                  (validate_unique_files files dg_file_id file_digest_validate file_digest_file_size)
                  (\<lambda>actual_total.
                     if actual_total \<noteq> total_bytes \<or> MAX_TRANSFER_BYTES < total_bytes
                     then Inl (InvalidField ''total_bytes'') else Inr ())
       | ControlError _ _ code message \<Rightarrow>
           bind_result (validate_token code ''error_code'') (\<lambda>_.
             validate_text message ''error_message'' MAX_ERROR_MESSAGE_BYTES)
       | _ \<Rightarrow> Inr ()))"

definition parse_control_message ::
  "(rstring \<Rightarrow> string + control_message) \<Rightarrow> rstring \<Rightarrow> protocol_error + control_message" where
  "parse_control_message from_str input =
     (if MAX_CONTROL_FRAME_BYTES < str_len input
      then Inl (FrameTooLarge (str_len input) MAX_CONTROL_FRAME_BYTES)
      else bind_result (map_err InvalidJson (from_str input)) (\<lambda>message.
           bind_result (control_message_validate message) (\<lambda>_. Inr message)))"

interpretation control_frames:
  framed_parser MAX_CONTROL_FRAME_BYTES str_len control_message_validate parse_control_message
  by unfold_locales (simp add: parse_control_message_def)

section \<open>What validation guarantees\<close>

lemma unique_files_loop_Inr_iff:
  "unique_files_loop v file_id sz ids acc fs = Inr t \<longleftrightarrow>
   (\<forall>f \<in> set fs. v f = Inr ()) \<and> distinct (map file_id fs) \<and> file_id ` set fs \<inter> ids = {} \<and>
   unat t = unat acc + (\<Sum>f \<leftarrow> fs. unat (sz f))"
proof (induction fs arbitrary: ids acc)
  case Nil
  then show ?case by (auto simp: word_unat_eq_iff)
next
  case (Cons f fs)
  have "unique_files_loop v file_id sz ids acc (f # fs) = Inr t \<longleftrightarrow>
      v f = Inr () \<and> file_id f \<notin> ids \<and>
      (\<exists>acc'. unat acc' = unat acc + unat (sz f) \<and>
         unique_files_loop v file_id sz (insert (file_id f) ids) acc' fs = Inr t)"
    by (auto simp: result_simps word_to_nat split: if_splits)
  also have "\<dots> \<longleftrightarrow> v f = Inr () \<and> file_id f \<notin> ids \<and> (\<forall>f \<in> set fs. v f = Inr ()) \<and>
      distinct (map file_id fs) \<and> file_id ` set fs \<inter> insert (file_id f) ids = {} \<and>
      unat t = unat acc + unat (sz f) + (\<Sum>f \<leftarrow> fs. unat (sz f))"
  proof -
    have "\<exists>acc' :: u64. unat acc' = unat acc + unat (sz f)"
      if "unat t = unat acc + unat (sz f) + (\<Sum>f \<leftarrow> fs. unat (sz f))"
    proof -
      have "unat acc + unat (sz f) < 2 ^ 64" using that unat_lt2p_word [of t] by simp
      then have "unat (acc + sz f) = unat acc + unat (sz f)" by (simp add: unat_word_ariths)
      then show ?thesis by blast
    qed
    then show ?thesis unfolding Cons.IH by (metis (no_types, lifting))
  qed
  also have "\<dots> \<longleftrightarrow> (\<forall>f \<in> set (f # fs). v f = Inr ()) \<and> distinct (map file_id (f # fs)) \<and>
      file_id ` set (f # fs) \<inter> ids = {} \<and> unat t = unat acc + (\<Sum>f \<leftarrow> (f # fs). unat (sz f))"
    by auto
  finally show ?case .
qed

lemma manifest_files_loop_eq:
  "manifest_files_loop ids acc fs = unique_files_loop file_manifest_validate fm_file_id fm_size_bytes ids acc fs"
  by (induction fs arbitrary: ids acc) (auto intro: arg_cong [where f = "bind_result _"] ext)

lemma validate_unique_files_Inr_iff [result_simps]:
  "validate_unique_files fs file_id v sz = Inr t \<longleftrightarrow>
   length fs \<le> 10 \<and> (\<forall>f \<in> set fs. v f = Inr ()) \<and> distinct (map file_id fs) \<and>
   unat t = (\<Sum>f \<leftarrow> fs. unat (sz f))"
  by (auto simp: validate_unique_files_def unique_files_loop_Inr_iff MAX_FILES_PER_MANIFEST_def)

lemma file_manifest_validate_Inr_iff [result_simps]:
  "file_manifest_validate f = Inr u \<longleftrightarrow>
   validate_token (fm_file_id f) ''file_id'' = Inr () \<and>
   fm_name f \<noteq> [] \<and> str_len (fm_name f) \<le> 1024 \<and>
   (\<forall>c \<in> set (fm_name f). \<not> is_control c \<and> c \<noteq> 47 \<and> c \<noteq> 92) \<and>
   (\<forall>mime. fm_mime f = Some mime \<longrightarrow> mime \<noteq> [] \<and> str_len mime \<le> 128 \<and> (\<forall>c \<in> set mime. \<not> is_control c))"
  by (auto simp: file_manifest_validate_def result_simps MAX_FILE_NAME_BYTES_def MAX_MIME_BYTES_def
      list_ex_iff split: option.splits if_splits)

lemma validate_blake3_Inr_iff [result_simps]:
  "validate_blake3 v field = Inr u \<longleftrightarrow> length v = 64 \<and> (\<forall>c \<in> set v. is_ascii_hexdigit c)"
proof (cases "\<forall>c \<in> set v. is_ascii_hexdigit c")
  case True
  then have "str_len v = length v"
    by (intro str_len_ascii) (auto simp: is_ascii_hexdigit_def is_ascii_digit_def)
  with True show ?thesis by (auto simp: validate_blake3_def list_all_iff)
next
  case False
  then show ?thesis by (auto simp: validate_blake3_def list_all_iff)
qed

end
