(* ===== verification/Transfer_Plan.thy ===== *)
theory Transfer_Plan
  imports P2P_Prelude
begin

text \<open>
  The transfer crate (\<open>rust/crates/transfer/src/lib.rs\<close>): the division of a payload into
  chunks and of a file into segments, over 64-bit and 32-bit machine integers, and the
  back-pressure thresholds of the sender.
\<close>

section \<open>Plans\<close>

definition DEFAULT_CHUNK_BYTES :: nat where
  "DEFAULT_CHUNK_BYTES = 32 * 1024"

definition DEFAULT_BUFFER_HIGH_BYTES :: u64 where
  "DEFAULT_BUFFER_HIGH_BYTES = 4 * 1024 * 1024"

definition DEFAULT_BUFFER_LOW_BYTES :: u64 where
  "DEFAULT_BUFFER_LOW_BYTES = 1024 * 1024"

definition DEFAULT_STREAM_CHUNK_BYTES :: nat where
  "DEFAULT_STREAM_CHUNK_BYTES = 32 * 1024"

definition DEFAULT_STREAM_SEGMENT_BYTES :: u32 where
  "DEFAULT_STREAM_SEGMENT_BYTES = 8 * 1024 * 1024"

definition DEFAULT_STREAM_ACK_WINDOW_BYTES :: u64 where
  "DEFAULT_STREAM_ACK_WINDOW_BYTES = 16 * 1024 * 1024"

datatype transfer_plan_error = ZeroChunkSize | ZeroSegmentSize

record chunk_descriptor =
  cd_index :: u64
  cd_offset :: u64
  cd_length :: u32
  cd_is_last :: bool

record chunk_plan =
  cp_total_bytes :: u64
  cp_chunk_bytes :: u32

definition chunk_plan_new :: "u64 \<Rightarrow> u32 \<Rightarrow> transfer_plan_error + chunk_plan" where
  "chunk_plan_new total_bytes chunk_bytes =
     (if chunk_bytes = 0 then Inl ZeroChunkSize
      else Inr \<lparr>cp_total_bytes = total_bytes, cp_chunk_bytes = chunk_bytes\<rparr>)"

definition chunk_count :: "chunk_plan \<Rightarrow> u64" where
  "chunk_count p =
     (if cp_total_bytes p = 0 then 0
      else ((cp_total_bytes p - 1) div ucast (cp_chunk_bytes p)) + 1)"

definition chunk :: "chunk_plan \<Rightarrow> u64 \<Rightarrow> chunk_descriptor option" where
  "chunk p index =
     (if chunk_count p \<le> index then None
      else Option.bind (checked_mul index (ucast (cp_chunk_bytes p))) (\<lambda>offset.
           Option.bind (checked_sub (cp_total_bytes p) offset) (\<lambda>remaining.
             Some \<lparr>cd_index = index, cd_offset = offset,
                   cd_length = ucast (min remaining (ucast (cp_chunk_bytes p))),
                   cd_is_last = (index + 1 = chunk_count p)\<rparr>)))"

record segment_descriptor =
  sd_index :: u64
  sd_offset :: u64
  sd_length :: u32
  sd_is_last :: bool

record segment_plan =
  sp_total_bytes :: u64
  sp_segment_bytes :: u32

definition segment_plan_new :: "u64 \<Rightarrow> u32 \<Rightarrow> transfer_plan_error + segment_plan" where
  "segment_plan_new total_bytes segment_bytes =
     (if segment_bytes = 0 then Inl ZeroSegmentSize
      else Inr \<lparr>sp_total_bytes = total_bytes, sp_segment_bytes = segment_bytes\<rparr>)"

definition segment_count :: "segment_plan \<Rightarrow> u64" where
  "segment_count p =
     (if sp_total_bytes p = 0 then 0
      else ((sp_total_bytes p - 1) div ucast (sp_segment_bytes p)) + 1)"

definition segment :: "segment_plan \<Rightarrow> u64 \<Rightarrow> segment_descriptor option" where
  "segment p index =
     (if segment_count p \<le> index then None
      else Option.bind (checked_mul index (ucast (sp_segment_bytes p))) (\<lambda>offset.
           Option.bind (checked_sub (sp_total_bytes p) offset) (\<lambda>remaining.
             Some \<lparr>sd_index = index, sd_offset = offset,
                   sd_length = ucast (min remaining (ucast (sp_segment_bytes p))),
                   sd_is_last = (index + 1 = segment_count p)\<rparr>)))"

section \<open>Back-pressure\<close>

record backpressure_policy =
  bp_chunk_bytes :: nat
  bp_high_watermark_bytes :: u64
  bp_low_watermark_bytes :: u64

definition default_backpressure_policy :: backpressure_policy where
  "default_backpressure_policy =
     \<lparr>bp_chunk_bytes = DEFAULT_CHUNK_BYTES,
      bp_high_watermark_bytes = DEFAULT_BUFFER_HIGH_BYTES,
      bp_low_watermark_bytes = DEFAULT_BUFFER_LOW_BYTES\<rparr>"

definition should_pause :: "backpressure_policy \<Rightarrow> u64 \<Rightarrow> bool" where
  "should_pause p buffered \<longleftrightarrow> bp_high_watermark_bytes p \<le> buffered"

definition can_resume :: "backpressure_policy \<Rightarrow> u64 \<Rightarrow> bool" where
  "can_resume p buffered \<longleftrightarrow> buffered \<le> bp_low_watermark_bytes p"

section \<open>What a plan promises\<close>

text \<open>
  The contract chunk plans and segment plans share, over naturals: pieces of one size laid
  end to end, the last one shorter. Its consequences are proved once.
\<close>

locale byte_plan =
  fixes valid :: "'p \<Rightarrow> bool"
    and tot :: "'p \<Rightarrow> nat"
    and sz :: "'p \<Rightarrow> nat"
    and pieces :: "'p \<Rightarrow> nat"
    and piece :: "'p \<Rightarrow> nat \<Rightarrow> (nat \<times> nat \<times> bool) option"
  assumes size_pos: "valid p \<Longrightarrow> 0 < sz p"
    and pieces_eq: "valid p \<Longrightarrow> pieces p = (tot p + sz p - 1) div sz p"
    and piece_eq: "valid p \<Longrightarrow> piece p i =
      (if i < pieces p then Some (i * sz p, min (tot p - i * sz p) (sz p), i + 1 = pieces p) else None)"
begin

lemma less_pieces_iff:
  assumes "valid p"
  shows "i < pieces p \<longleftrightarrow> i * sz p < tot p"
proof -
  have "i < pieces p \<longleftrightarrow> Suc i \<le> (tot p + sz p - 1) div sz p"
    by (simp add: pieces_eq assms Suc_le_eq)
  also have "\<dots> \<longleftrightarrow> Suc i * sz p \<le> tot p + sz p - 1"
    using size_pos [OF assms] by (simp add: less_eq_div_iff_mult_less_eq)
  also have "\<dots> \<longleftrightarrow> i * sz p < tot p"
    using size_pos [OF assms] by auto
  finally show ?thesis .
qed

lemma piece_bounds:
  assumes "valid p" "piece p i = Some (off, len, z)"
  shows "0 < len \<and> len \<le> sz p \<and> off + len \<le> tot p"
  using assms less_pieces_iff [OF assms(1), of i] size_pos [OF assms(1)]
  by (auto simp: piece_eq split: if_splits)

lemma piece_last:
  assumes "valid p" "piece p i = Some (off, len, z)"
  shows "z \<longleftrightarrow> off + len = tot p"
proof -
  have i: "i * sz p < tot p" "off = i * sz p" "len = min (tot p - i * sz p) (sz p)"
      "z \<longleftrightarrow> i + 1 = pieces p"
    using assms by (auto simp: piece_eq less_pieces_iff split: if_splits)
  have "z \<longleftrightarrow> \<not> i + 1 < pieces p"
    using i assms by (auto simp: piece_eq split: if_splits)
  also have "\<dots> \<longleftrightarrow> off + len = tot p"
    using i by (auto simp: less_pieces_iff [OF assms(1)])
  finally show ?thesis .
qed

lemma piece_adjacent:
  assumes "valid p" "piece p i = Some (off, len, z)" "piece p (Suc i) = Some (off', len', z')"
  shows "off' = off + len"
  using assms less_pieces_iff [OF assms(1), of "Suc i"] by (auto simp: piece_eq split: if_splits)

lemma piece_unique:
  assumes "valid p" "b < tot p"
  shows "\<exists>!i. \<exists>off len z. piece p i = Some (off, len, z) \<and> off \<le> b \<and> b < off + len"
proof -
  have at: "(\<exists>off len z. piece p i = Some (off, len, z) \<and> off \<le> b \<and> b < off + len) \<longleftrightarrow> i = b div sz p" for i
  proof -
    have "(\<exists>off len z. piece p i = Some (off, len, z) \<and> off \<le> b \<and> b < off + len) \<longleftrightarrow>
        i * sz p \<le> b \<and> b < Suc i * sz p"
      using assms by (auto simp: piece_eq less_pieces_iff)
    also have "\<dots> \<longleftrightarrow> i = b div sz p"
      using size_pos [OF assms(1)]
      by (metis div_nat_eqI dividend_less_div_times mult.commute div_times_less_eq_dividend add.commute mult_Suc)
    finally show ?thesis .
  qed
  then show ?thesis by simp
qed

lemma pieces_cover:
  assumes "valid p"
  shows "(\<Sum>i < pieces p. fst (snd (the (piece p i)))) = tot p"
proof -
  have "(\<Sum>i < n. fst (snd (the (piece p i)))) = min (n * sz p) (tot p)" if "n \<le> pieces p" for n
    using that
  proof (induction n)
    case (Suc n)
    then have "n < pieces p" by simp
    with Suc show ?case
      using less_pieces_iff [OF assms, of n] by (auto simp: piece_eq assms min_def)
  qed simp
  moreover have "tot p \<le> pieces p * sz p"
    using less_pieces_iff [OF assms, of "pieces p"] by simp
  ultimately show ?thesis by simp
qed

end

section \<open>The machine-integer arithmetic of both plans\<close>

lemma plan_count_nat:
  fixes t :: u64 and c :: u32
  assumes "c \<noteq> 0"
  shows "unat (if t = 0 then 0 else (t - 1) div ucast c + 1) = (unat t + unat c - 1) div unat c"
proof (cases "t = 0")
  case True
  have "0 < unat c" using assms by (simp add: unat_gt_0)
  with True show ?thesis by simp
next
  case False
  have c: "0 < unat c" and t: "0 < unat t" using assms False by (simp_all add: unat_gt_0)
  have "(unat t - 1) div unat c + 1 \<le> unat t"
    using c t div_le_dividend [of "unat t - 1" "unat c"] by linarith
  then have "(unat t - 1) div unat c + 1 < 2 ^ 64"
    using unat_lt2p_word [of t] by simp
  then have "unat ((t - 1) div ucast c + 1) = (unat t - 1) div unat c + 1"
    using False by (simp add: unat_word_ariths unat_minus_one unat_div)
  also have "\<dots> = (unat t - 1 + unat c) div unat c"
    using c by (metis div_add_self2 less_numeral_extra(3))
  also have "unat t - 1 + unat c = unat t + unat c - 1"
    using t by simp
  finally show ?thesis using False by simp
qed

lemma plan_piece_nat:
  fixes t i :: u64 and c :: u32
  assumes "unat i * unat c < unat t"
  shows "checked_mul i (ucast c) = Some (i * ucast c)"
    and "checked_sub t (i * ucast c) = Some (t - i * ucast c)"
    and "unat (i * ucast c) = unat i * unat c"
    and "unat (ucast (min (t - i * ucast c) (ucast c)) :: u32) = min (unat t - unat i * unat c) (unat c)"
proof -
  have lt: "unat i * unat c < 2 ^ 64" using assms unat_lt2p_word [of t] by simp
  then show mul: "unat (i * ucast c) = unat i * unat c" by (simp add: unat_word_ariths)
  from lt show "checked_mul i (ucast c) = Some (i * ucast c)" by (simp add: checked_mul_nat)
  have le: "i * ucast c \<le> t" using assms by (simp add: word_le_nat_alt mul)
  then show "checked_sub t (i * ucast c) = Some (t - i * ucast c)" by (simp add: checked_sub_def)
  have "unat (min (t - i * ucast c) (ucast c)) = min (unat t - unat i * unat c) (unat c)"
    using le by (simp add: min_def word_le_nat_alt unat_sub mul)
  moreover have "unat c < 2 ^ 32" using unat_lt2p_word [of c] by simp
  ultimately show "unat (ucast (min (t - i * ucast c) (ucast c)) :: u32) = min (unat t - unat i * unat c) (unat c)"
    by (simp add: unsigned_ucast_eq take_bit_nat_eq_self)
qed

text \<open>A descriptor as the contract sees it; positions past the 64-bit range have none.\<close>

definition chunk_piece :: "chunk_plan \<Rightarrow> nat \<Rightarrow> (nat \<times> nat \<times> bool) option" where
  "chunk_piece p i =
     (if i < 2 ^ 64
      then map_option (\<lambda>d. (unat (cd_offset d), unat (cd_length d), cd_is_last d)) (chunk p (of_nat i))
      else None)"

definition segment_piece :: "segment_plan \<Rightarrow> nat \<Rightarrow> (nat \<times> nat \<times> bool) option" where
  "segment_piece p i =
     (if i < 2 ^ 64
      then map_option (\<lambda>d. (unat (sd_offset d), unat (sd_length d), sd_is_last d)) (segment p (of_nat i))
      else None)"

lemma unat_of_nat_u64: "i < 2 ^ 64 \<Longrightarrow> unat (of_nat i :: u64) = i"
  by (simp add: unsigned_of_nat take_bit_nat_eq_self)

lemma count_less_iff:
  fixes t :: u64 and c :: u32
  assumes "0 < unat c"
  shows "i < (unat t + unat c - 1) div unat c \<longleftrightarrow> i * unat c < unat t"
proof -
  have "i < (unat t + unat c - 1) div unat c \<longleftrightarrow> Suc i * unat c \<le> unat t + unat c - 1"
    using assms by (simp add: less_eq_div_iff_mult_less_eq Suc_le_eq [symmetric])
  also have "\<dots> \<longleftrightarrow> i * unat c < unat t"
    using assms by auto
  finally show ?thesis .
qed

lemma succ_eq_iff:
  fixes a b :: u64
  assumes "a < b"
  shows "a + 1 = b \<longleftrightarrow> unat a + 1 = unat b"
proof -
  have "unat a + 1 < 2 ^ 64" using assms unat_lt2p_word [of b] by (simp add: word_less_nat_alt)
  then have "unat (a + 1) = unat a + 1" by (simp add: unat_word_ariths)
  then show ?thesis by (metis unsigned_word_eqI)
qed

lemma chunk_count_nat:
  "cp_chunk_bytes p \<noteq> 0 \<Longrightarrow>
   unat (chunk_count p) = (unat (cp_total_bytes p) + unat (cp_chunk_bytes p) - 1) div unat (cp_chunk_bytes p)"
  unfolding chunk_count_def by (rule plan_count_nat)

lemma segment_count_nat:
  "sp_segment_bytes p \<noteq> 0 \<Longrightarrow>
   unat (segment_count p) = (unat (sp_total_bytes p) + unat (sp_segment_bytes p) - 1) div unat (sp_segment_bytes p)"
  unfolding segment_count_def by (rule plan_count_nat)

lemma chunk_Some:
  assumes "cp_chunk_bytes p \<noteq> 0" "index < chunk_count p"
  shows "chunk p index = Some \<lparr>cd_index = index, cd_offset = index * ucast (cp_chunk_bytes p),
    cd_length = ucast (min (cp_total_bytes p - index * ucast (cp_chunk_bytes p)) (ucast (cp_chunk_bytes p))),
    cd_is_last = (index + 1 = chunk_count p)\<rparr>"
    and "unat index * unat (cp_chunk_bytes p) < unat (cp_total_bytes p)"
proof -
  show lt: "unat index * unat (cp_chunk_bytes p) < unat (cp_total_bytes p)"
    using assms count_less_iff [of "cp_chunk_bytes p" "unat index" "cp_total_bytes p"]
    by (simp add: word_less_nat_alt chunk_count_nat unat_gt_0)
  from assms(2) show "chunk p index = Some \<lparr>cd_index = index, cd_offset = index * ucast (cp_chunk_bytes p),
    cd_length = ucast (min (cp_total_bytes p - index * ucast (cp_chunk_bytes p)) (ucast (cp_chunk_bytes p))),
    cd_is_last = (index + 1 = chunk_count p)\<rparr>"
    by (simp add: chunk_def plan_piece_nat(1,2) [OF lt])
qed

lemma segment_Some:
  assumes "sp_segment_bytes p \<noteq> 0" "index < segment_count p"
  shows "segment p index = Some \<lparr>sd_index = index, sd_offset = index * ucast (sp_segment_bytes p),
    sd_length = ucast (min (sp_total_bytes p - index * ucast (sp_segment_bytes p)) (ucast (sp_segment_bytes p))),
    sd_is_last = (index + 1 = segment_count p)\<rparr>"
    and "unat index * unat (sp_segment_bytes p) < unat (sp_total_bytes p)"
proof -
  show lt: "unat index * unat (sp_segment_bytes p) < unat (sp_total_bytes p)"
    using assms count_less_iff [of "sp_segment_bytes p" "unat index" "sp_total_bytes p"]
    by (simp add: word_less_nat_alt segment_count_nat unat_gt_0)
  from assms(2) show "segment p index = Some \<lparr>sd_index = index, sd_offset = index * ucast (sp_segment_bytes p),
    sd_length = ucast (min (sp_total_bytes p - index * ucast (sp_segment_bytes p)) (ucast (sp_segment_bytes p))),
    sd_is_last = (index + 1 = segment_count p)\<rparr>"
    by (simp add: segment_def plan_piece_nat(1,2) [OF lt])
qed

lemma chunk_piece_eq:
  assumes "cp_chunk_bytes p \<noteq> 0"
  shows "chunk_piece p i =
    (if i < unat (chunk_count p)
     then Some (i * unat (cp_chunk_bytes p),
       min (unat (cp_total_bytes p) - i * unat (cp_chunk_bytes p)) (unat (cp_chunk_bytes p)),
       i + 1 = unat (chunk_count p))
     else None)"
proof (cases "i < unat (chunk_count p)")
  case True
  then have i64: "i < 2 ^ 64" using unat_lt2p_word [of "chunk_count p"] by simp
  define index :: u64 where "index = of_nat i"
  have i: "unat index = i" using i64 by (simp add: index_def unat_of_nat_u64)
  with True have lt: "index < chunk_count p" by (simp add: word_less_nat_alt)
  note c = chunk_Some [OF assms lt]
  show ?thesis
    using i64 True by (simp add: chunk_piece_def c(1) plan_piece_nat [OF c(2)] succ_eq_iff [OF lt] i
        flip: index_def)
next
  case False
  then have "chunk p (of_nat i) = None" if "i < 2 ^ 64"
    using that by (simp add: chunk_def word_le_nat_alt unat_of_nat_u64)
  with False show ?thesis by (simp add: chunk_piece_def)
qed

lemma segment_piece_eq:
  assumes "sp_segment_bytes p \<noteq> 0"
  shows "segment_piece p i =
    (if i < unat (segment_count p)
     then Some (i * unat (sp_segment_bytes p),
       min (unat (sp_total_bytes p) - i * unat (sp_segment_bytes p)) (unat (sp_segment_bytes p)),
       i + 1 = unat (segment_count p))
     else None)"
proof (cases "i < unat (segment_count p)")
  case True
  then have i64: "i < 2 ^ 64" using unat_lt2p_word [of "segment_count p"] by simp
  define index :: u64 where "index = of_nat i"
  have i: "unat index = i" using i64 by (simp add: index_def unat_of_nat_u64)
  with True have lt: "index < segment_count p" by (simp add: word_less_nat_alt)
  note c = segment_Some [OF assms lt]
  show ?thesis
    using i64 True by (simp add: segment_piece_def c(1) plan_piece_nat [OF c(2)] succ_eq_iff [OF lt] i
        flip: index_def)
next
  case False
  then have "segment p (of_nat i) = None" if "i < 2 ^ 64"
    using that by (simp add: segment_def word_le_nat_alt unat_of_nat_u64)
  with False show ?thesis by (simp add: segment_piece_def)
qed

interpretation chunks: byte_plan "\<lambda>p. cp_chunk_bytes p \<noteq> 0" "\<lambda>p. unat (cp_total_bytes p)"
  "\<lambda>p. unat (cp_chunk_bytes p)" "\<lambda>p. unat (chunk_count p)" chunk_piece
  by unfold_locales (simp_all add: unat_gt_0 chunk_count_nat chunk_piece_eq)

interpretation segments: byte_plan "\<lambda>p. sp_segment_bytes p \<noteq> 0" "\<lambda>p. unat (sp_total_bytes p)"
  "\<lambda>p. unat (sp_segment_bytes p)" "\<lambda>p. unat (segment_count p)" segment_piece
  by unfold_locales (simp_all add: unat_gt_0 segment_count_nat segment_piece_eq)

section \<open>Descriptors and pieces\<close>

lemma chunk_as_piece:
  "chunk p i = Some d \<Longrightarrow>
   chunk_piece p (unat i) = Some (unat (cd_offset d), unat (cd_length d), cd_is_last d)"
  using unat_lt2p_word [of i] by (simp add: chunk_piece_def)

lemma chunk_piece_as_descriptor:
  assumes "chunk_piece p n = Some (off, len, z)"
  obtains i d where "unat i = n" "chunk p i = Some d"
    "unat (cd_offset d) = off" "unat (cd_length d) = len"
  using assms unat_of_nat_u64 [of n] that [of "of_nat n"]
  by (auto simp: chunk_piece_def split: if_splits)

lemma chunk_index: "chunk p i = Some d \<Longrightarrow> cd_index d = i \<and> i < chunk_count p"
  by (auto simp: chunk_def bind_eq_Some_conv split: if_splits)

lemma chunk_plan_new_fields:
  "chunk_plan_new t c = Inr p \<Longrightarrow> cp_chunk_bytes p \<noteq> 0 \<and> cp_total_bytes p = t \<and> cp_chunk_bytes p = c"
  by (auto simp: chunk_plan_new_def split: if_splits)

lemma chunk_byte_unique:
  assumes "cp_chunk_bytes p \<noteq> 0" "b < unat (cp_total_bytes p)"
  shows "\<exists>!i. \<exists>d. chunk p i = Some d \<and>
    unat (cd_offset d) \<le> b \<and> b < unat (cd_offset d) + unat (cd_length d)"
proof -
  obtain n where n: "\<exists>off len z. chunk_piece p n = Some (off, len, z) \<and> off \<le> b \<and> b < off + len"
    and uniq: "\<And>m. \<exists>off len z. chunk_piece p m = Some (off, len, z) \<and> off \<le> b \<and> b < off + len \<Longrightarrow> m = n"
    using chunks.piece_unique [OF assms] by (elim ex1E) blast
  from n obtain i d where i: "unat i = n" "chunk p i = Some d"
      "unat (cd_offset d) \<le> b" "b < unat (cd_offset d) + unat (cd_length d)"
    by (metis chunk_piece_as_descriptor)
  show ?thesis
  proof (rule ex1I [of _ i])
    show "\<exists>d. chunk p i = Some d \<and> unat (cd_offset d) \<le> b \<and> b < unat (cd_offset d) + unat (cd_length d)"
      using i by blast
    fix j assume "\<exists>d. chunk p j = Some d \<and> unat (cd_offset d) \<le> b \<and> b < unat (cd_offset d) + unat (cd_length d)"
    then have "unat j = n" using uniq [of "unat j"] chunk_as_piece [of p j] by blast
    with i(1) show "j = i" by (metis unsigned_word_eqI)
  qed
qed

lemma chunk_bounds:
  assumes "cp_chunk_bytes p \<noteq> 0" "chunk p i = Some d"
  shows "cd_index d = i \<and> 0 < unat (cd_length d) \<and> cd_length d \<le> cp_chunk_bytes p \<and>
    unat (cd_offset d) + unat (cd_length d) \<le> unat (cp_total_bytes p) \<and>
    (cd_is_last d \<longleftrightarrow> unat (cd_offset d) + unat (cd_length d) = unat (cp_total_bytes p))"
  using chunks.piece_bounds [OF assms(1) chunk_as_piece [OF assms(2)]]
    chunks.piece_last [OF assms(1) chunk_as_piece [OF assms(2)]] chunk_index [OF assms(2)]
  by (simp add: word_le_nat_alt)

lemma chunk_adjacent:
  assumes "cp_chunk_bytes p \<noteq> 0" "chunk p i = Some d" "chunk p (i + 1) = Some e"
  shows "unat (cd_offset e) = unat (cd_offset d) + unat (cd_length d)"
proof -
  have "unat i + 1 < 2 ^ 64"
    using chunk_index [OF assms(2)] unat_lt2p_word [of "chunk_count p"] by (simp add: word_less_nat_alt)
  then have "unat (i + 1) = Suc (unat i)" by (simp add: unat_word_ariths)
  then show ?thesis
    using chunks.piece_adjacent [OF assms(1) chunk_as_piece [OF assms(2)], of "unat (cd_offset e)"]
      chunk_as_piece [OF assms(3)] by simp
qed

lemma chunk_lengths_sum:
  assumes "cp_chunk_bytes p \<noteq> 0"
  shows "(\<Sum>n < unat (chunk_count p). unat (cd_length (the (chunk p (of_nat n))))) = unat (cp_total_bytes p)"
proof -
  have "unat (cd_length (the (chunk p (of_nat n)))) = fst (snd (the (chunk_piece p n)))"
    if n: "n < unat (chunk_count p)" for n
  proof -
    have "n < 2 ^ 64" using n unat_lt2p_word [of "chunk_count p"] by simp
    then have "of_nat n < chunk_count p" using n by (simp add: word_less_nat_alt unat_of_nat_u64)
    from chunk_Some(1) [OF assms this] \<open>n < 2 ^ 64\<close> show ?thesis by (simp add: chunk_piece_def)
  qed
  then show ?thesis using chunks.pieces_cover [OF assms] by simp
qed

lemma segment_as_piece:
  "segment p i = Some d \<Longrightarrow>
   segment_piece p (unat i) = Some (unat (sd_offset d), unat (sd_length d), sd_is_last d)"
  using unat_lt2p_word [of i] by (simp add: segment_piece_def)

lemma segment_piece_as_descriptor:
  assumes "segment_piece p n = Some (off, len, z)"
  obtains i d where "unat i = n" "segment p i = Some d"
    "unat (sd_offset d) = off" "unat (sd_length d) = len"
  using assms unat_of_nat_u64 [of n] that [of "of_nat n"]
  by (auto simp: segment_piece_def split: if_splits)

lemma segment_index: "segment p i = Some d \<Longrightarrow> sd_index d = i \<and> i < segment_count p"
  by (auto simp: segment_def bind_eq_Some_conv split: if_splits)

lemma segment_plan_new_fields:
  "segment_plan_new t c = Inr p \<Longrightarrow> sp_segment_bytes p \<noteq> 0 \<and> sp_total_bytes p = t \<and> sp_segment_bytes p = c"
  by (auto simp: segment_plan_new_def split: if_splits)

lemma segment_byte_unique:
  assumes "sp_segment_bytes p \<noteq> 0" "b < unat (sp_total_bytes p)"
  shows "\<exists>!i. \<exists>d. segment p i = Some d \<and>
    unat (sd_offset d) \<le> b \<and> b < unat (sd_offset d) + unat (sd_length d)"
proof -
  obtain n where n: "\<exists>off len z. segment_piece p n = Some (off, len, z) \<and> off \<le> b \<and> b < off + len"
    and uniq: "\<And>m. \<exists>off len z. segment_piece p m = Some (off, len, z) \<and> off \<le> b \<and> b < off + len \<Longrightarrow> m = n"
    using segments.piece_unique [OF assms] by (elim ex1E) blast
  from n obtain i d where i: "unat i = n" "segment p i = Some d"
      "unat (sd_offset d) \<le> b" "b < unat (sd_offset d) + unat (sd_length d)"
    by (metis segment_piece_as_descriptor)
  show ?thesis
  proof (rule ex1I [of _ i])
    show "\<exists>d. segment p i = Some d \<and> unat (sd_offset d) \<le> b \<and> b < unat (sd_offset d) + unat (sd_length d)"
      using i by blast
    fix j assume "\<exists>d. segment p j = Some d \<and> unat (sd_offset d) \<le> b \<and> b < unat (sd_offset d) + unat (sd_length d)"
    then have "unat j = n" using uniq [of "unat j"] segment_as_piece [of p j] by blast
    with i(1) show "j = i" by (metis unsigned_word_eqI)
  qed
qed

lemma segment_bounds:
  assumes "sp_segment_bytes p \<noteq> 0" "segment p i = Some d"
  shows "sd_index d = i \<and> 0 < unat (sd_length d) \<and> sd_length d \<le> sp_segment_bytes p \<and>
    unat (sd_offset d) + unat (sd_length d) \<le> unat (sp_total_bytes p) \<and>
    (sd_is_last d \<longleftrightarrow> unat (sd_offset d) + unat (sd_length d) = unat (sp_total_bytes p))"
  using segments.piece_bounds [OF assms(1) segment_as_piece [OF assms(2)]]
    segments.piece_last [OF assms(1) segment_as_piece [OF assms(2)]] segment_index [OF assms(2)]
  by (simp add: word_le_nat_alt)

lemma segment_adjacent:
  assumes "sp_segment_bytes p \<noteq> 0" "segment p i = Some d" "segment p (i + 1) = Some e"
  shows "unat (sd_offset e) = unat (sd_offset d) + unat (sd_length d)"
proof -
  have "unat i + 1 < 2 ^ 64"
    using segment_index [OF assms(2)] unat_lt2p_word [of "segment_count p"] by (simp add: word_less_nat_alt)
  then have "unat (i + 1) = Suc (unat i)" by (simp add: unat_word_ariths)
  then show ?thesis
    using segments.piece_adjacent [OF assms(1) segment_as_piece [OF assms(2)], of "unat (sd_offset e)"]
      segment_as_piece [OF assms(3)] by simp
qed

lemma segment_lengths_sum:
  assumes "sp_segment_bytes p \<noteq> 0"
  shows "(\<Sum>n < unat (segment_count p). unat (sd_length (the (segment p (of_nat n))))) = unat (sp_total_bytes p)"
proof -
  have "unat (sd_length (the (segment p (of_nat n)))) = fst (snd (the (segment_piece p n)))"
    if n: "n < unat (segment_count p)" for n
  proof -
    have "n < 2 ^ 64" using n unat_lt2p_word [of "segment_count p"] by simp
    then have "of_nat n < segment_count p" using n by (simp add: word_less_nat_alt unat_of_nat_u64)
    from segment_Some(1) [OF assms this] \<open>n < 2 ^ 64\<close> show ?thesis by (simp add: segment_piece_def)
  qed
  then show ?thesis using segments.pieces_cover [OF assms] by simp
qed

section \<open>Properties\<close>

text \<open>A chunk plan the constructor accepts sends every byte of the payload exactly once:
  each byte position lies in exactly one chunk, the chunks are laid end to end, none is empty
  or longer than the chunk size or reaches past the payload, only the one that ends the
  payload is marked last, and their lengths add up to the payload. No 64-bit or 32-bit
  operation of the plan overflows on the way.\<close>

theorem chunk_plan_partitions_payload:
  assumes "chunk_plan_new t c = Inr p"
  shows "(\<forall>b < unat t. \<exists>!i. \<exists>d. chunk p i = Some d \<and>
        unat (cd_offset d) \<le> b \<and> b < unat (cd_offset d) + unat (cd_length d)) \<and>
    (\<forall>i d. chunk p i = Some d \<longrightarrow> cd_index d = i \<and> 0 < unat (cd_length d) \<and> cd_length d \<le> c \<and>
        unat (cd_offset d) + unat (cd_length d) \<le> unat t \<and>
        (cd_is_last d \<longleftrightarrow> unat (cd_offset d) + unat (cd_length d) = unat t)) \<and>
    (\<forall>i d e. chunk p i = Some d \<and> chunk p (i + 1) = Some e \<longrightarrow>
        unat (cd_offset e) = unat (cd_offset d) + unat (cd_length d)) \<and>
    (\<Sum>n < unat (chunk_count p). unat (cd_length (the (chunk p (of_nat n))))) = unat t"
proof -
  from chunk_plan_new_fields [OF assms] have p: "cp_chunk_bytes p \<noteq> 0" "cp_total_bytes p = t" "cp_chunk_bytes p = c"
    by auto
  show ?thesis
    using chunk_byte_unique [OF p(1)] chunk_bounds [OF p(1)] chunk_adjacent [OF p(1)] chunk_lengths_sum [OF p(1)]
    unfolding p(2,3) by blast
qed

theorem chunk_plan_partitions_payload_witness:
  "chunk_plan_new 131073 65536 = Inr \<lparr>cp_total_bytes = 131073, cp_chunk_bytes = 65536\<rparr> \<and>
   (\<exists>!i. \<exists>d. chunk \<lparr>cp_total_bytes = 131073, cp_chunk_bytes = 65536\<rparr> i = Some d \<and>
     unat (cd_offset d) \<le> 131072 \<and> 131072 < unat (cd_offset d) + unat (cd_length d))"
proof -
  have new: "chunk_plan_new 131073 65536 = Inr \<lparr>cp_total_bytes = 131073, cp_chunk_bytes = 65536\<rparr>"
    by (simp add: chunk_plan_new_def)
  show ?thesis using chunk_plan_partitions_payload [OF new] new by simp
qed

text \<open>C13. A segment plan the constructor accepts divides the file into segments that hold every
  byte exactly once, end to end, none empty or longer than the segment size, with only the
  final segment marked last and the lengths adding up to the file.\<close>

theorem segment_plan_partitions_file:
  assumes "segment_plan_new t c = Inr p"
  shows "(\<forall>b < unat t. \<exists>!i. \<exists>d. segment p i = Some d \<and>
        unat (sd_offset d) \<le> b \<and> b < unat (sd_offset d) + unat (sd_length d)) \<and>
    (\<forall>i d. segment p i = Some d \<longrightarrow> sd_index d = i \<and> 0 < unat (sd_length d) \<and> sd_length d \<le> c \<and>
        unat (sd_offset d) + unat (sd_length d) \<le> unat t \<and>
        (sd_is_last d \<longleftrightarrow> unat (sd_offset d) + unat (sd_length d) = unat t)) \<and>
    (\<forall>i d e. segment p i = Some d \<and> segment p (i + 1) = Some e \<longrightarrow>
        unat (sd_offset e) = unat (sd_offset d) + unat (sd_length d)) \<and>
    (\<Sum>n < unat (segment_count p). unat (sd_length (the (segment p (of_nat n))))) = unat t"
proof -
  from segment_plan_new_fields [OF assms]
  have p: "sp_segment_bytes p \<noteq> 0" "sp_total_bytes p = t" "sp_segment_bytes p = c"
    by auto
  show ?thesis
    using segment_byte_unique [OF p(1)] segment_bounds [OF p(1)] segment_adjacent [OF p(1)]
      segment_lengths_sum [OF p(1)]
    unfolding p(2,3) by blast
qed

text \<open>A five-gibibyte file in eight-mebibyte segments: 640 of them.\<close>

theorem segment_plan_partitions_file_witness:
  "segment_plan_new 5368709120 DEFAULT_STREAM_SEGMENT_BYTES =
     Inr \<lparr>sp_total_bytes = 5368709120, sp_segment_bytes = 8388608\<rparr> \<and>
   segment_count \<lparr>sp_total_bytes = 5368709120, sp_segment_bytes = 8388608\<rparr> = 640 \<and>
   (\<Sum>n < 640. unat (sd_length (the (segment \<lparr>sp_total_bytes = 5368709120, sp_segment_bytes = 8388608\<rparr>
     (of_nat n))))) = 5368709120"
proof -
  have new: "segment_plan_new 5368709120 DEFAULT_STREAM_SEGMENT_BYTES =
      Inr \<lparr>sp_total_bytes = 5368709120, sp_segment_bytes = 8388608\<rparr>"
    by (simp add: segment_plan_new_def DEFAULT_STREAM_SEGMENT_BYTES_def)
  have "segment_count \<lparr>sp_total_bytes = 5368709120, sp_segment_bytes = 8388608\<rparr> = 640"
    by (simp add: segment_count_def)
  then show ?thesis using segment_plan_partitions_file [OF new] new by simp
qed

end
