(* ===== verification/Protocol_Properties.thy ===== *)
theory Protocol_Properties
  imports Protocol_Http Protocol_Data_Channel Transfer_Plan Domain_Ids
begin

text \<open>
  What the protocol crate guarantees to the code behind it: validated wire fields parse into
  domain values, accepted control messages are bounded, and the segments a sender plans for
  an accepted manifest are always within what the receiver accepts.
\<close>

section \<open>Wire fields and domain values\<close>

lemma display_name_parse_iff:
  "(\<exists>n. display_name_parse v = Inr n) \<longleftrightarrow>
   trim v \<noteq> [] \<and> length (trim v) \<le> 48 \<and> (\<forall>c \<in> set (trim v). \<not> is_control c)"
  by (auto simp: display_name_parse_def Let_def MAX_DISPLAY_NAME_CHARS_def list_ex_iff)

lemma validate_room_code_parses:
  assumes "validate_room_code v = Inr ()"
  shows "room_code_parse v = Inr (RoomCode (to_ascii_uppercase v))"
proof -
  from assms have v: "length v = 6" "\<forall>c \<in> set v. is_ascii_alphanumeric c"
    by (simp_all add: result_simps)
  then have "trim v = v" by (intro trim_no_space) (auto dest: ascii_alphanumeric_not_space)
  moreover have "\<forall>c \<in> set (to_ascii_uppercase v). is_ascii_alphanumeric c"
    using v(2) by (auto simp: to_ascii_uppercase_def ascii_defs)
  ultimately show ?thesis using v(1) by (simp add: room_code_parse_Inr_iff)
qed



text \<open>A join request body is accepted exactly when it has at most 64 KiB, deserializes, and
  carries the current version, a request identifier and an invitation that are tokens, a room
  code of six letters or digits and no zero revision; then its code and request identifier
  parse in the domain. The deserializer is any function.\<close>

theorem accepted_join_body:
  "parse_http_body request_join_request_validate from_slice input = Inr q \<longleftrightarrow>
   length input \<le> 65536 \<and> from_slice input = Inr q \<and> rjr_version q = CURRENT_PROTOCOL \<and>
   (\<exists>i. request_id_parse (rjr_request_id q) = Inr i) \<and>
   length (rjr_room_code q) = 6 \<and> list_all is_ascii_alphanumeric (rjr_room_code q) \<and>
   rjr_expected_revision q \<noteq> Some 0 \<and>
   (case rjr_invite_capability q of None \<Rightarrow> True
    | Some c \<Rightarrow> c \<noteq> [] \<and> length c \<le> 64 \<and> list_all ascii_token_char c)"
  by (auto simp: http_bodies.parse_Inr_iff request_join_request_validate_def result_simps
      MAX_HTTP_BODY_BYTES_def validate_id_Inr_iff list_all_iff split: option.splits)

section \<open>Control messages\<close>

lemma manifest_validate_iff:
  "control_message_validate (Manifest v t mode files) = Inr u \<longleftrightarrow>
   v = CURRENT_PROTOCOL \<and> validate_token t ''transfer_id'' = Inr () \<and>
   transfer_mode_validate mode = Inr () \<and> files \<noteq> [] \<and> length files \<le> 10 \<and>
   (\<forall>f \<in> set files. file_manifest_validate f = Inr ()) \<and> distinct (map fm_file_id files) \<and>
   (\<Sum>f \<leftarrow> files. unat (fm_size_bytes f)) \<le> unat (max_transfer_bytes mode)"
proof -
  let ?s = "\<Sum>f \<leftarrow> files. unat (fm_size_bytes f)"
  have "(\<exists>x :: u64. unat x = ?s \<and> x \<le> max_transfer_bytes mode) \<longleftrightarrow> ?s \<le> unat (max_transfer_bytes mode)"
  proof
    assume le: "?s \<le> unat (max_transfer_bytes mode)"
    then have "?s < 2 ^ 64" using unat_lt2p_word [of "max_transfer_bytes mode"] by simp
    then have "unat (of_nat ?s :: u64) = ?s" by (simp add: unsigned_of_nat take_bit_nat_eq_self)
    with le show "\<exists>x :: u64. unat x = ?s \<and> x \<le> max_transfer_bytes mode"
      by (metis word_le_nat_alt)
  qed (auto simp: word_le_nat_alt)
  then show ?thesis
    by (auto simp: control_message_validate_def result_simps manifest_files_loop_eq
        unique_files_loop_Inr_iff MAX_FILES_PER_MANIFEST_def not_less)
qed

text \<open>C16. A manifest the receiver accepts from the wire announces between one and ten files with
  distinct identifiers, whose true (unwrapped) total is at most 100 MiB when buffered and 5 GiB
  when streamed, and no file name holds a path separator or a control character.\<close>

theorem accepted_manifest_is_bounded:
  assumes "parse_control_message from_str input = Inr (Manifest v t mode files)"
  shows "v = CURRENT_PROTOCOL \<and> 1 \<le> length files \<and> length files \<le> 10 \<and>
    distinct (map fm_file_id files) \<and>
    (\<Sum>f \<leftarrow> files. unat (fm_size_bytes f)) \<le>
      (case mode of Buffered \<Rightarrow> 100 * 2 ^ 20 | Streamed _ \<Rightarrow> 5 * 2 ^ 30) \<and>
    (\<forall>f \<in> set files. fm_name f \<noteq> [] \<and> str_len (fm_name f) \<le> 1024 \<and>
       47 \<notin> set (fm_name f) \<and> 92 \<notin> set (fm_name f) \<and> (\<forall>c \<in> set (fm_name f). \<not> is_control c))"
proof -
  have "control_message_validate (Manifest v t mode files) = Inr ()"
    using assms by (simp add: control_frames.parse_Inr_iff)
  note m = this [unfolded manifest_validate_iff]
  have "unat (max_transfer_bytes mode) = (case mode of Buffered \<Rightarrow> 100 * 2 ^ 20 | Streamed _ \<Rightarrow> 5 * 2 ^ 30)"
    by (cases mode) (simp_all add: MAX_BUFFERED_TRANSFER_BYTES_def MAX_TRANSFER_BYTES_def)
  with m show ?thesis
    by (auto simp: file_manifest_validate_Inr_iff Suc_le_eq)
qed

definition ex_manifest :: control_message where
  "ex_manifest = Manifest CURRENT_PROTOCOL (rstr ''transfer_1'') (Streamed 8388608)
     [\<lparr>fm_file_id = rstr ''file_1'', fm_name = rstr ''a.bin'', fm_mime = None, fm_size_bytes = 5368709120\<rparr>]"

lemma ex_manifest_valid: "control_message_validate ex_manifest = Inr ()"
  unfolding ex_manifest_def manifest_validate_iff
  by (simp add: result_simps rstr_def ascii_token_char_def ascii_defs is_control_def limit_defs utf8_len_def)

theorem accepted_manifest_is_bounded_witness:
  "parse_control_message (\<lambda>_. Inr ex_manifest) [] = Inr ex_manifest \<and> length (ctl_files ex_manifest) \<le> 10"
proof -
  have "parse_control_message (\<lambda>_. Inr ex_manifest) [] = Inr ex_manifest"
    by (simp add: control_frames.parse_Inr_iff ex_manifest_valid)
  moreover from this have "length (ctl_files ex_manifest) \<le> 10"
    using accepted_manifest_is_bounded [of "\<lambda>_. Inr ex_manifest" "[]"] by (simp add: ex_manifest_def)
  ultimately show ?thesis by simp
qed

lemma sum_list_member_le: "f \<in> set fs \<Longrightarrow> (g f :: nat) \<le> (\<Sum>x \<leftarrow> fs. g x)"
  by (induction fs) auto

lemma streamed_file_size:
  assumes "control_message_validate (Manifest v t (Streamed s) files) = Inr ()" "f \<in> set files"
  shows "unat (fm_size_bytes f) \<le> 5 * 2 ^ 30" "2 ^ 20 \<le> unat s" "unat s \<le> 2 ^ 24"
    "validate_token (fm_file_id f) ''file_id'' = Inr ()"
proof -
  have m: "(\<Sum>f \<leftarrow> files. unat (fm_size_bytes f)) \<le> 5 * 2 ^ 30" "transfer_mode_validate (Streamed s) = Inr ()"
      "file_manifest_validate f = Inr ()"
    using assms by (auto simp: manifest_validate_iff MAX_TRANSFER_BYTES_def)
  show "unat (fm_size_bytes f) \<le> 5 * 2 ^ 30"
    using m(1) sum_list_member_le [OF assms(2), of "\<lambda>f. unat (fm_size_bytes f)"] by simp
  show "2 ^ 20 \<le> unat s" "unat s \<le> 2 ^ 24"
    using m(2) by (auto simp: limit_defs word_le_nat_alt split: if_splits)
  show "validate_token (fm_file_id f) ''file_id'' = Inr ()"
    using m(3) by (simp add: file_manifest_validate_Inr_iff)
qed

lemma segment_messages_valid:
  assumes "0 < unat len" "unat len \<le> 2 ^ 24" "unat off + unat len \<le> 5 * 2 ^ 30"
    and "validate_token t ''transfer_id'' = Inr ()" "validate_token i ''file_id'' = Inr ()"
    and "validate_blake3 b ''blake3'' = Inr ()"
  shows "control_message_validate (SegmentCommit CURRENT_PROTOCOL t i k off len b) = Inr ()"
    and "control_message_validate (SegmentAck CURRENT_PROTOCOL t i k (off + ucast len) b) = Inr ()"
proof -
  have lt: "unat off + unat len < 2 ^ 64" using assms(3) by simp
  then have un: "unat (off + ucast len) = unat off + unat len" by (simp add: unat_word_ariths)
  have nz: "off + ucast len \<noteq> 0" "len \<noteq> 0" using un assms(1) by auto
  show "control_message_validate (SegmentCommit CURRENT_PROTOCOL t i k off len b) = Inr ()"
    using assms lt un nz
    by (simp add: control_message_validate_def result_simps checked_add_nat limit_defs word_less_nat_alt)
  show "control_message_validate (SegmentAck CURRENT_PROTOCOL t i k (off + ucast len) b) = Inr ()"
    using assms un nz
    by (simp add: control_message_validate_def result_simps limit_defs word_less_nat_alt)
qed

text \<open>Sender and receiver agree on streamed transfers: for every file of an accepted streamed
  manifest the segment plan exists and has at most 5120 segments, and for each of its segments
  the commit message of the sender and the acknowledgement of the receiver, with any digest of
  64 hexadecimal digits, pass validation.\<close>

theorem planned_segments_are_accepted:
  assumes "parse_control_message from_str input = Inr (Manifest v t (Streamed s) files)"
    and "f \<in> set files" and "validate_blake3 b ''blake3'' = Inr ()"
  shows "\<exists>p. segment_plan_new (fm_size_bytes f) s = Inr p \<and> segment_count p \<le> 5120 \<and>
    (\<forall>i d. segment p i = Some d \<longrightarrow>
       control_message_validate (SegmentCommit v t (fm_file_id f) i (sd_offset d) (sd_length d) b) = Inr () \<and>
       control_message_validate
         (SegmentAck v t (fm_file_id f) i (sd_offset d + ucast (sd_length d)) b) = Inr ())"
proof -
  have m: "control_message_validate (Manifest v t (Streamed s) files) = Inr ()"
    using assms(1) by (simp add: control_frames.parse_Inr_iff)
  note f = streamed_file_size [OF m assms(2)]
  have s: "s \<noteq> 0" using f(2) by auto
  define p where "p = \<lparr>sp_total_bytes = fm_size_bytes f, sp_segment_bytes = s\<rparr>"
  have new: "segment_plan_new (fm_size_bytes f) s = Inr p"
    using s by (simp add: segment_plan_new_def p_def)
  have p: "sp_segment_bytes p \<noteq> 0" "sp_segment_bytes p = s" "sp_total_bytes p = fm_size_bytes f"
    using s by (simp_all add: p_def)
  have count: "segment_count p \<le> 5120"
  proof -
    have "\<not> 5120 * unat s < unat (fm_size_bytes f)" using f(1,2) by simp
    then have "\<not> 5120 < unat (segment_count p)"
      using segments.less_pieces_iff [OF p(1), of 5120] by (simp add: p)
    then show ?thesis by (simp add: word_le_nat_alt)
  qed
  have v: "v = CURRENT_PROTOCOL" "validate_token t ''transfer_id'' = Inr ()"
    using m by (simp_all add: manifest_validate_iff)
  have "control_message_validate (SegmentCommit v t (fm_file_id f) i (sd_offset d) (sd_length d) b) = Inr () \<and>
      control_message_validate (SegmentAck v t (fm_file_id f) i (sd_offset d + ucast (sd_length d)) b) = Inr ()"
    if "segment p i = Some d" for i d
  proof -
    have "0 < unat (sd_length d)" "unat (sd_length d) \<le> 2 ^ 24"
        "unat (sd_offset d) + unat (sd_length d) \<le> 5 * 2 ^ 30"
      using segment_bounds [OF p(1) that] f(1,3) by (auto simp: p word_le_nat_alt)
    from segment_messages_valid [OF this v(2) f(4) assms(3)] show ?thesis by (simp add: v)
  qed
  with new count show ?thesis by blast
qed

theorem planned_segments_are_accepted_witness:
  "\<exists>p. segment_plan_new 5368709120 8388608 = Inr p \<and> segment_count p \<le> 5120"
proof -
  define f where "f = \<lparr>fm_file_id = rstr ''file_1'', fm_name = rstr ''a.bin'', fm_mime = None,
    fm_size_bytes = 5368709120\<rparr>"
  have m: "parse_control_message (\<lambda>_. Inr ex_manifest) [] =
      Inr (Manifest CURRENT_PROTOCOL (rstr ''transfer_1'') (Streamed 8388608) [f])"
    unfolding control_frames.parse_Inr_iff using ex_manifest_valid by (simp add: ex_manifest_def f_def)
  have b: "validate_blake3 (replicate 64 48) ''blake3'' = Inr ()"
    by (simp add: validate_blake3_Inr_iff is_ascii_hexdigit_def is_ascii_digit_def)
  show ?thesis using planned_segments_are_accepted [OF m _ b, of f] by (auto simp: f_def)
qed

text \<open>A stream-completion message passes validation exactly when it lists between one and ten
  valid digests with distinct file identifiers whose true sizes add up to the announced total
  of at most 5 GiB.\<close>

theorem stream_complete_totals:
  "control_message_validate (StreamComplete v t n ds) = Inr () \<longleftrightarrow>
   v = CURRENT_PROTOCOL \<and> validate_token t ''transfer_id'' = Inr () \<and>
   1 \<le> length ds \<and> length ds \<le> 10 \<and> list_all (\<lambda>d. file_digest_validate d = Inr ()) ds \<and>
   distinct (map dg_file_id ds) \<and>
   unat n = (\<Sum>d \<leftarrow> ds. unat (dg_size_bytes d)) \<and> unat n \<le> 5 * 2 ^ 30"
proof -
  have "(\<exists>x. unat x = k \<and> x = n \<and> P) \<longleftrightarrow> unat n = k \<and> P" for k P by auto
  then show ?thesis
    by (auto simp: control_message_validate_def result_simps file_digest_file_size_def
        MAX_TRANSFER_BYTES_def word_le_nat_alt list_all_iff not_less Suc_le_eq)
qed

end
