(* ===== verification/Binary_Frames.thy ===== *)
theory Binary_Frames
  imports Protocol_Limits
begin

text \<open>
  The binary chunk frame (\<open>rust/crates/protocol/src/data_channel.rs\<close>): a fixed header of 53
  bytes in network byte order followed by the payload.
\<close>

section \<open>Network byte order\<close>

definition to_be_bytes :: "nat \<Rightarrow> 'a::len word \<Rightarrow> u8 list" where
  "to_be_bytes n w = map (\<lambda>i. of_nat (unat w div 256 ^ i)) (rev [0..<n])"

definition from_be_bytes :: "u8 list \<Rightarrow> 'a::len word" where
  "from_be_bytes bs = of_nat (foldl (\<lambda>acc b. acc * 256 + unat b) 0 bs)"

lemma length_to_be_bytes [simp]: "length (to_be_bytes n w) = n"
  by (simp add: to_be_bytes_def)

lemma to_be_bytes_Suc:
  "to_be_bytes (Suc n) w = of_nat (unat w div 256 ^ n) # to_be_bytes n w"
  by (simp add: to_be_bytes_def)

lemma foldl_to_be_bytes:
  "foldl (\<lambda>acc b. acc * 256 + unat b) acc (to_be_bytes n w) = acc * 256 ^ n + unat w mod 256 ^ n"
proof (induction n arbitrary: acc)
  case 0
  then show ?case by (simp add: to_be_bytes_def)
next
  case (Suc n)
  have "unat (of_nat (unat w div 256 ^ n) :: u8) = unat w div 256 ^ n mod 256"
    by (simp add: unsigned_of_nat take_bit_eq_mod)
  then have "foldl (\<lambda>acc b. acc * 256 + unat b) acc (to_be_bytes (Suc n) w) =
      (acc * 256 + unat w div 256 ^ n mod 256) * 256 ^ n + unat w mod 256 ^ n"
    by (simp add: to_be_bytes_Suc Suc.IH)
  also have "\<dots> = acc * 256 ^ Suc n + (256 ^ n * (unat w div 256 ^ n mod 256) + unat w mod 256 ^ n)"
    by (simp add: algebra_simps)
  also have "256 ^ n * (unat w div 256 ^ n mod 256) + unat w mod 256 ^ n = unat w mod 256 ^ Suc n"
    using mod_mult2_eq [of "unat w" "256 ^ n" 256] by (simp add: mult.commute)
  finally show ?case .
qed

lemma from_to_be_bytes:
  assumes "8 * n = LENGTH('a)"
  shows "from_be_bytes (to_be_bytes n w) = (w :: 'a::len word)"
proof -
  have "(256::nat) ^ n = 2 ^ LENGTH('a)"
    by (simp add: assms [symmetric] power_mult)
  then have "unat w mod 256 ^ n = unat w" using unat_lt2p_word [of w] by simp
  then show ?thesis by (simp add: from_be_bytes_def foldl_to_be_bytes)
qed

lemma foldl_bytes_bound:
  "foldl (\<lambda>acc b. acc * 256 + unat b) acc bs < (acc + 1) * 256 ^ length (bs :: u8 list)"
proof (induction bs arbitrary: acc)
  case (Cons b bs)
  have b: "unat b < 256" using unat_lt2p_word [of b] by simp
  have "foldl (\<lambda>acc b. acc * 256 + unat b) acc (b # bs) < (acc * 256 + unat b + 1) * 256 ^ length bs"
    using Cons.IH [of "acc * 256 + unat b"] by simp
  also have "\<dots> \<le> ((acc + 1) * 256) * 256 ^ length bs"
    using b by (intro mult_right_mono) simp_all
  finally show ?case by (simp add: algebra_simps)
qed simp

lemma unat_from_be_bytes:
  assumes "8 * length bs = LENGTH('a)"
  shows "unat (from_be_bytes bs :: 'a::len word) = foldl (\<lambda>acc b. acc * 256 + unat b) 0 bs"
proof -
  have "(256::nat) ^ length bs = 2 ^ LENGTH('a)"
    by (simp add: assms [symmetric] power_mult)
  then have "foldl (\<lambda>acc b. acc * 256 + unat b) 0 bs < 2 ^ LENGTH('a)"
    using foldl_bytes_bound [of 0 bs] by simp
  then show ?thesis by (simp add: from_be_bytes_def unsigned_of_nat take_bit_nat_eq_self)
qed

lemma foldl_bytes_acc:
  "foldl (\<lambda>acc b. acc * 256 + unat b) acc bs =
   acc * 256 ^ length bs + foldl (\<lambda>acc b. acc * 256 + unat b) 0 (bs :: u8 list)"
proof (induction bs arbitrary: acc)
  case (Cons b bs)
  show ?case
    using Cons.IH [of "acc * 256 + unat b"] Cons.IH [of "unat b"] by (simp add: algebra_simps)
qed simp

lemma to_from_be_bytes:
  assumes "8 * length bs = LENGTH('a)"
  shows "to_be_bytes (length bs) (from_be_bytes bs :: 'a::len word) = bs"
proof -
  have "map (\<lambda>i. of_nat (k div 256 ^ i) :: u8) (rev [0..<length bs]) = bs"
    if "k mod 256 ^ length bs = foldl (\<lambda>acc b. acc * 256 + unat b) 0 bs" for k
    using that
  proof (induction bs arbitrary: k)
    case (Cons b bs)
    define r where "r = foldl (\<lambda>acc b. acc * 256 + unat b) 0 bs"
    have r: "r < 256 ^ length bs" using foldl_bytes_bound [of 0 bs] by (simp add: r_def)
    have b: "unat b < 256" using unat_lt2p_word [of b] by simp
    have k: "k mod (256 ^ length bs * 256) = unat b * 256 ^ length bs + r"
      using Cons.prems foldl_bytes_acc [of "unat b" bs] by (simp add: r_def mult.commute)
    have lo: "k mod 256 ^ length bs = r"
    proof -
      have "k mod 256 ^ length bs = k mod (256 ^ length bs * 256) mod 256 ^ length bs"
        by (simp add: mod_mod_cancel)
      then show ?thesis using k r by simp
    qed
    have "k div 256 ^ length bs mod 256 = k mod (256 ^ length bs * 256) div 256 ^ length bs"
      by (simp add: mod_mult2_eq)
    then have hi: "k div 256 ^ length bs mod 256 = unat b"
      using k r by simp
    have "of_nat (k div 256 ^ length bs) = b"
      by (rule unsigned_word_eqI [where 'a = nat]) (simp add: unsigned_of_nat take_bit_eq_mod hi)
    with Cons.IH [of k] lo show ?case by (simp add: r_def)
  qed simp
  then show ?thesis
    unfolding to_be_bytes_def
    using unat_from_be_bytes [where 'a = 'a, OF assms] foldl_bytes_bound [of 0 bs] by simp
qed

section \<open>Header and frame\<close>

definition CHUNK_MAGIC :: "u8 list" where
  "CHUNK_MAGIC = [80, 50, 80, 50]"

definition CHUNK_HEADER_LEN :: nat where
  "CHUNK_HEADER_LEN = 53"

definition DATA_FRAME_TYPE :: u8 where
  "DATA_FRAME_TYPE = 1"

text \<open>The identifiers are arrays of 16 bytes; \<open>header_wf\<close> is that typing.\<close>

record binary_chunk_header =
  bh_version :: protocol_version
  bh_transfer_id :: "u8 list"
  bh_file_id :: "u8 list"
  bh_offset :: u64
  bh_payload_len :: u32

definition header_wf :: "binary_chunk_header \<Rightarrow> bool" where
  "header_wf h \<longleftrightarrow> length (bh_transfer_id h) = 16 \<and> length (bh_file_id h) = 16"

definition copy_from_slice :: "nat \<Rightarrow> 'b list \<Rightarrow> 'b list \<Rightarrow> 'b list" where
  "copy_from_slice i src bytes = take i bytes @ src @ drop (i + length src) bytes"

definition binary_header_encode :: "binary_chunk_header \<Rightarrow> u8 list" where
  "binary_header_encode h =
     (let bytes = replicate CHUNK_HEADER_LEN 0;
          bytes = copy_from_slice 0 CHUNK_MAGIC bytes;
          bytes = copy_from_slice 4 (to_be_bytes 2 (pv_major (bh_version h))) bytes;
          bytes = copy_from_slice 6 (to_be_bytes 2 (pv_minor (bh_version h))) bytes;
          bytes = bytes[8 := DATA_FRAME_TYPE];
          bytes = copy_from_slice 9 (bh_transfer_id h) bytes;
          bytes = copy_from_slice 25 (bh_file_id h) bytes;
          bytes = copy_from_slice 41 (to_be_bytes 8 (bh_offset h)) bytes;
          bytes = copy_from_slice 49 (to_be_bytes 4 (bh_payload_len h)) bytes
      in bytes)"

definition slice :: "nat \<Rightarrow> nat \<Rightarrow> 'b list \<Rightarrow> 'b list" where
  "slice i j bytes = take (j - i) (drop i bytes)"

text \<open>
  The conversions of the two fixed slices into arrays cannot fail, and 53 plus a 32-bit
  length fits a \<open>usize\<close>; those two error branches are therefore absent.
\<close>

definition decode_binary_frame :: "u8 list \<Rightarrow> protocol_error + binary_chunk_header \<times> u8 list" where
  "decode_binary_frame frame =
     (if length frame < CHUNK_HEADER_LEN then Inl BinaryFrameTooShort
      else if slice 0 4 frame \<noteq> CHUNK_MAGIC then Inl InvalidMagic
      else
        let major = from_be_bytes [frame ! 4, frame ! 5];
            minor = from_be_bytes [frame ! 6, frame ! 7];
            version = \<lparr>pv_major = major, pv_minor = minor\<rparr>
        in bind_result (version_validate version) (\<lambda>_.
          if frame ! 8 \<noteq> DATA_FRAME_TYPE then Inl (UnsupportedFrameType (frame ! 8))
          else
            let transfer_id = slice 9 25 frame;
                file_id = slice 25 41 frame;
                offset = from_be_bytes (slice 41 49 frame);
                payload_len = from_be_bytes (slice 49 53 frame)
            in if MAX_CHUNK_BYTES < payload_len then Inl ChunkTooLarge
               else bind_result (ok_or OffsetOverflow (checked_add offset (ucast payload_len))) (\<lambda>_.
                 if length frame \<noteq> CHUNK_HEADER_LEN + unat payload_len then Inl BinaryLengthMismatch
                 else Inr (\<lparr>bh_version = version, bh_transfer_id = transfer_id, bh_file_id = file_id,
                            bh_offset = offset, bh_payload_len = payload_len\<rparr>,
                           drop CHUNK_HEADER_LEN frame))))"

lemma copy_next:
  "length pre = i \<Longrightarrow>
   copy_from_slice i src (pre @ replicate n z) = (pre @ src) @ replicate (n - length src) z"
  by (simp add: copy_from_slice_def)

lemma update_next:
  "length pre = i \<Longrightarrow> 0 < n \<Longrightarrow> (pre @ replicate n z)[i := x] = (pre @ [x]) @ replicate (n - 1) z"
  by (cases n) (simp_all add: list_update_append)

lemma binary_header_encode_eq:
  assumes "header_wf h"
  shows "binary_header_encode h =
    CHUNK_MAGIC @ to_be_bytes 2 (pv_major (bh_version h)) @ to_be_bytes 2 (pv_minor (bh_version h)) @
    [DATA_FRAME_TYPE] @ bh_transfer_id h @ bh_file_id h @ to_be_bytes 8 (bh_offset h) @
    to_be_bytes 4 (bh_payload_len h)"
proof -
  have wf: "length (bh_transfer_id h) = 16" "length (bh_file_id h) = 16" "length CHUNK_MAGIC = 4"
    using assms by (simp_all add: header_wf_def CHUNK_MAGIC_def)
  have start: "copy_from_slice 0 CHUNK_MAGIC (replicate 53 0) = CHUNK_MAGIC @ replicate 49 0"
    using copy_next [of "[]" 0 CHUNK_MAGIC 53] wf by simp
  show ?thesis
    unfolding binary_header_encode_def Let_def CHUNK_HEADER_LEN_def start
    by (simp add: copy_next update_next wf del: append_assoc)
qed

lemma length_binary_header_encode: "header_wf h \<Longrightarrow> length (binary_header_encode h) = CHUNK_HEADER_LEN"
  by (simp add: binary_header_encode_eq header_wf_def CHUNK_MAGIC_def CHUNK_HEADER_LEN_def)

section \<open>Frames and their fields\<close>

lemma drop_slice: "i \<le> j \<Longrightarrow> drop i xs = slice i j xs @ drop j xs"
  by (metis append_take_drop_id drop_drop le_add_diff_inverse2 slice_def)

lemma length_slice [simp]: "j \<le> length xs \<Longrightarrow> length (slice i j xs) = j - i"
  by (simp add: slice_def)

lemma slice_pair: "Suc i < length xs \<Longrightarrow> slice i (i + 2) xs = [xs ! i, xs ! Suc i]"
  by (simp add: slice_def numeral_2_eq_2 take_Suc_conv_app_nth hd_drop_conv_nth)

lemma slice_single: "i < length xs \<Longrightarrow> slice i (i + 1) xs = [xs ! i]"
  by (simp add: slice_def take_Suc_conv_app_nth hd_drop_conv_nth)

lemma frame_fields:
  assumes "53 \<le> length frame"
  shows "frame = slice 0 4 frame @ [frame ! 4, frame ! 5] @ [frame ! 6, frame ! 7] @ [frame ! 8] @
    slice 9 25 frame @ slice 25 41 frame @ slice 41 49 frame @ slice 49 53 frame @ drop 53 frame"
proof -
  have "frame = slice 0 4 frame @ slice 4 6 frame @ slice 6 8 frame @ slice 8 9 frame @
      slice 9 25 frame @ slice 25 41 frame @ slice 41 49 frame @ slice 49 53 frame @ drop 53 frame"
    using drop_slice [of 0 4 frame] drop_slice [of 4 6 frame] drop_slice [of 6 8 frame]
      drop_slice [of 8 9 frame] drop_slice [of 9 25 frame] drop_slice [of 25 41 frame]
      drop_slice [of 41 49 frame] drop_slice [of 49 53 frame] by simp
  moreover have "slice 4 6 frame = [frame ! 4, frame ! 5]" "slice 6 8 frame = [frame ! 6, frame ! 7]"
      "slice 8 9 frame = [frame ! 8]"
    using assms slice_pair [of 4 frame] slice_pair [of 6 frame] slice_single [of 8 frame] by simp_all
  ultimately show ?thesis by simp
qed

text \<open>
  A frame is determined by its fields: two splittings into pieces of the same lengths agree.
\<close>

lemma frame_fields_unique:
  assumes "53 \<le> length frame"
    and "frame = m @ ma @ mi @ [t] @ a @ b @ off @ pl @ payload"
    and "length m = 4" "length ma = 2" "length mi = 2" "length a = 16" "length b = 16"
      "length off = 8" "length pl = 4"
  shows "slice 0 4 frame = m" "[frame ! 4, frame ! 5] = ma" "[frame ! 6, frame ! 7] = mi" "frame ! 8 = t"
    "slice 9 25 frame = a" "slice 25 41 frame = b" "slice 41 49 frame = off" "slice 49 53 frame = pl"
    "drop 53 frame = payload"
proof -
  from assms(4,5) obtain w x y z where [simp]: "ma = [w, x]" "mi = [y, z]"
    by (auto simp: numeral_2_eq_2 length_Suc_conv)
  show "slice 0 4 frame = m" "[frame ! 4, frame ! 5] = ma" "[frame ! 6, frame ! 7] = mi" "frame ! 8 = t"
    "slice 9 25 frame = a" "slice 25 41 frame = b" "slice 41 49 frame = off" "slice 49 53 frame = pl"
    "drop 53 frame = payload"
    using assms(3,6-) unfolding assms(2) by (simp_all add: slice_def nth_append)
qed

text \<open>What a sender may put on the wire: the typing of the header and the limits of the protocol.\<close>

definition sendable :: "binary_chunk_header \<Rightarrow> u8 list \<Rightarrow> bool" where
  "sendable h payload \<longleftrightarrow> header_wf h \<and> bh_version h = CURRENT_PROTOCOL \<and>
     length payload = unat (bh_payload_len h) \<and> length payload \<le> 65536 \<and>
     unat (bh_offset h) + length payload < 2 ^ 64"

definition frame_header :: "u8 list \<Rightarrow> binary_chunk_header" where
  "frame_header frame =
     \<lparr>bh_version = \<lparr>pv_major = from_be_bytes [frame ! 4, frame ! 5],
                     pv_minor = from_be_bytes [frame ! 6, frame ! 7]\<rparr>,
      bh_transfer_id = slice 9 25 frame, bh_file_id = slice 25 41 frame,
      bh_offset = from_be_bytes (slice 41 49 frame), bh_payload_len = from_be_bytes (slice 49 53 frame)\<rparr>"

lemma decode_binary_frame_fields:
  "decode_binary_frame frame = Inr (h, payload) \<longleftrightarrow>
   53 \<le> length frame \<and> slice 0 4 frame = CHUNK_MAGIC \<and> h = frame_header frame \<and>
   bh_version (frame_header frame) = CURRENT_PROTOCOL \<and> frame ! 8 = DATA_FRAME_TYPE \<and>
   unat (bh_payload_len (frame_header frame)) \<le> 65536 \<and>
   unat (bh_offset (frame_header frame)) + unat (bh_payload_len (frame_header frame)) < 2 ^ 64 \<and>
   length frame = 53 + unat (bh_payload_len (frame_header frame)) \<and> payload = drop 53 frame"
proof -
  have "unat (1024 * 64 :: u32) = 65536" by simp
  then show ?thesis
    unfolding decode_binary_frame_def Let_def CHUNK_HEADER_LEN_def MAX_CHUNK_BYTES_def
    by (auto simp: result_simps checked_add_nat word_less_nat_alt frame_header_def not_less
        split: if_split_asm)
qed

lemma frame_header_encode:
  assumes "53 \<le> length frame"
  shows "binary_header_encode (frame_header frame) = CHUNK_MAGIC @ [frame ! 4, frame ! 5] @
    [frame ! 6, frame ! 7] @ [DATA_FRAME_TYPE] @ slice 9 25 frame @ slice 25 41 frame @
    slice 41 49 frame @ slice 49 53 frame"
proof -
  have pair: "to_be_bytes 2 (from_be_bytes [x, y] :: u16) = [x, y]" for x y
    using to_from_be_bytes [where 'a = 16, of "[x, y]"] by (simp add: numeral_2_eq_2)
  have wf: "header_wf (frame_header frame)"
    using assms by (simp add: header_wf_def frame_header_def)
  show ?thesis
    unfolding binary_header_encode_eq [OF wf]
    using assms to_from_be_bytes [where 'a = 64, of "slice 41 49 frame"]
      to_from_be_bytes [where 'a = 32, of "slice 49 53 frame"]
    by (simp add: frame_header_def pair)
qed

lemma sendable_decodes:
  assumes r: "sendable h payload" and fr: "frame = binary_header_encode h @ payload"
  shows "decode_binary_frame frame = Inr (h, payload)"
proof -
  from r have wf: "header_wf h" by (simp add: sendable_def)
  have lf: "length frame = 53 + length payload"
    by (simp add: fr length_binary_header_encode [OF wf] CHUNK_HEADER_LEN_def)
  then have len: "53 \<le> length frame" by simp
  have parts: "frame = CHUNK_MAGIC @ to_be_bytes 2 (pv_major (bh_version h)) @
      to_be_bytes 2 (pv_minor (bh_version h)) @ [DATA_FRAME_TYPE] @ bh_transfer_id h @ bh_file_id h @
      to_be_bytes 8 (bh_offset h) @ to_be_bytes 4 (bh_payload_len h) @ payload"
    by (simp add: fr binary_header_encode_eq [OF wf])
  have l: "length CHUNK_MAGIC = 4" "length (bh_transfer_id h) = 16" "length (bh_file_id h) = 16"
    using wf by (simp_all add: CHUNK_MAGIC_def header_wf_def)
  note f = frame_fields_unique [OF len parts l(1) length_to_be_bytes length_to_be_bytes l(2,3)
      length_to_be_bytes length_to_be_bytes]
  have "frame_header frame = h" by (simp add: frame_header_def f from_to_be_bytes)
  with r lf len show ?thesis
    unfolding decode_binary_frame_fields by (simp add: f sendable_def)
qed

section \<open>Properties\<close>

text \<open>C14. The decoder accepts exactly the frames the encoder produces for sendable headers: a
  frame decodes to a header and payload if and only if it is the encoded header followed by
  that payload, the version is current, the payload has the announced length of at most 64 KiB,
  and the chunk ends within the 64-bit offsets. In particular decoding inverts encoding and
  no two frames decode alike.\<close>

theorem binary_frame_round_trip:
  "decode_binary_frame frame = Inr (h, payload) \<longleftrightarrow>
   sendable h payload \<and> frame = binary_header_encode h @ payload"
proof
  assume "decode_binary_frame frame = Inr (h, payload)"
  then have len: "53 \<le> length frame" and magic: "slice 0 4 frame = CHUNK_MAGIC" and h: "h = frame_header frame"
    and v: "bh_version h = CURRENT_PROTOCOL" and t: "frame ! 8 = DATA_FRAME_TYPE"
    and n: "unat (bh_payload_len h) \<le> 65536" "unat (bh_offset h) + unat (bh_payload_len h) < 2 ^ 64"
      "length frame = 53 + unat (bh_payload_len h)" and p: "payload = drop 53 frame"
    unfolding decode_binary_frame_fields by blast+
  have "binary_header_encode h @ payload = frame"
    unfolding h p frame_header_encode [OF len] append_assoc
    by (rule frame_fields [OF len, unfolded magic t, symmetric])
  moreover have "header_wf h" using len by (simp add: h header_wf_def frame_header_def)
  moreover have "length payload = unat (bh_payload_len h)" using n(3) by (simp add: p)
  ultimately show "sendable h payload \<and> frame = binary_header_encode h @ payload"
    using v n(1,2) by (simp add: sendable_def)
qed (blast intro: sendable_decodes)

end
