(* ===== verification/Rate_Limit.thy ===== *)
theory Rate_Limit
  imports P2P_Prelude
begin

text \<open>
  The fixed-window rate limiter of the server (\<open>rust/apps/server/src/rate_limit.rs\<close>). The
  table behind the mutex is the state; \<open>check\<close> answers and returns the updated table.
\<close>

section \<open>The limiter\<close>

definition MAX_TRACKED_KEYS :: nat where
  "MAX_TRACKED_KEYS = 10000"

record rate_policy =
  rp_max_requests :: u32
  rp_window_ms :: u64

record rate_window =
  rw_count :: u32
  rw_resets_at_ms :: u64

type_synonym rate_entries = "(rstring, rate_window) hash_map"

definition rate_key :: "rstring \<Rightarrow> rstring \<Rightarrow> rstring" where
  "rate_key bucket key = bucket @ 58 # key"

definition rate_check ::
  "rate_entries \<Rightarrow> rstring \<Rightarrow> rstring \<Rightarrow> rate_policy \<Rightarrow> u64 \<Rightarrow> rate_entries \<times> bool" where
  "rate_check entries0 bucket key policy now_ms =
     (if rp_max_requests policy = 0 \<or> rp_window_ms policy = 0 then (entries0, False)
      else
        let entry_key = rate_key bucket key;
            full = MAX_TRACKED_KEYS \<le> length entries0 \<and> map_of entries0 entry_key = None;
            entries = (if full then filter (\<lambda>(_, w). now_ms < rw_resets_at_ms w) entries0 else entries0)
        in if full \<and> MAX_TRACKED_KEYS \<le> length entries then (entries, False)
           else
             let resets_at_ms = saturating_add now_ms (rp_window_ms policy);
                 fresh = \<lparr>rw_count = 0, rw_resets_at_ms = resets_at_ms\<rparr>;
                 found = (case map_of entries entry_key of Some w \<Rightarrow> w | None \<Rightarrow> fresh);
                 window = (if rw_resets_at_ms found \<le> now_ms then fresh else found)
             in if rp_max_requests policy \<le> rw_count window
                then (AList.update entry_key window entries, False)
                else (AList.update entry_key (window\<lparr>rw_count := rw_count window + 1\<rparr>) entries, True))"

section \<open>A bounded table\<close>

definition limiter_inv :: "rate_entries \<Rightarrow> bool" where
  "limiter_inv es \<longleftrightarrow> hm_wf es \<and> length es \<le> MAX_TRACKED_KEYS"

lemma length_hm_update:
  "length (AList.update k v m) = (if map_of m k = None then Suc (length m) else length m)"
  by (induction m) auto

lemma hm_wf_filter: "hm_wf m \<Longrightarrow> hm_wf (filter P m)"
  by (simp add: hm_wf_def distinct_map_filter)

lemma map_of_filter_values:
  "hm_wf m \<Longrightarrow> map_of (filter (\<lambda>(_, v). P v) m) k = Option.bind (map_of m k) (\<lambda>v. if P v then Some v else None)"
  by (induction m) (auto simp: hm_wf_def map_of_eq_None_iff split: if_splits dest: map_of_SomeD)

definition must_purge :: "rate_entries \<Rightarrow> rstring \<Rightarrow> bool" where
  "must_purge es k \<longleftrightarrow> MAX_TRACKED_KEYS \<le> length es \<and> map_of es k = None"

definition purged :: "rate_entries \<Rightarrow> rstring \<Rightarrow> u64 \<Rightarrow> rate_entries" where
  "purged es k now = (if must_purge es k then filter (\<lambda>(_, w). now < rw_resets_at_ms w) es else es)"

definition fresh_window :: "rate_policy \<Rightarrow> u64 \<Rightarrow> rate_window" where
  "fresh_window policy now = \<lparr>rw_count = 0, rw_resets_at_ms = saturating_add now (rp_window_ms policy)\<rparr>"

definition live_window :: "rate_entries \<Rightarrow> rstring \<Rightarrow> rate_policy \<Rightarrow> u64 \<Rightarrow> rate_window" where
  "live_window es k policy now =
     (if rw_resets_at_ms (case map_of es k of Some w \<Rightarrow> w | None \<Rightarrow> fresh_window policy now) \<le> now
      then fresh_window policy now
      else (case map_of es k of Some w \<Rightarrow> w | None \<Rightarrow> fresh_window policy now))"

lemma rate_check_eq:
  "rate_check es bucket key policy now =
     (if rp_max_requests policy = 0 \<or> rp_window_ms policy = 0 then (es, False)
      else if must_purge es (rate_key bucket key) \<and>
              MAX_TRACKED_KEYS \<le> length (purged es (rate_key bucket key) now)
      then (purged es (rate_key bucket key) now, False)
      else let es1 = purged es (rate_key bucket key) now;
               w = live_window es1 (rate_key bucket key) policy now
           in if rp_max_requests policy \<le> rw_count w
              then (AList.update (rate_key bucket key) w es1, False)
              else (AList.update (rate_key bucket key) (w\<lparr>rw_count := rw_count w + 1\<rparr>) es1, True))"
  by (simp only: rate_check_def must_purge_def purged_def fresh_window_def live_window_def Let_def)

lemma purged_inv: "limiter_inv es \<Longrightarrow> limiter_inv (purged es k now)"
  using le_trans [OF length_filter_le [of "\<lambda>(_, w). now < rw_resets_at_ms w" es]]
  by (simp add: limiter_inv_def purged_def hm_wf_filter)

lemma purged_room:
  "limiter_inv es \<Longrightarrow> \<not> (must_purge es k \<and> MAX_TRACKED_KEYS \<le> length (purged es k now)) \<Longrightarrow>
   limiter_inv (AList.update k v (purged es k now))"
  using purged_inv [of es k now]
  by (auto simp: limiter_inv_def length_hm_update hm.wf_put must_purge_def purged_def split: if_splits)

lemma purged_own: "hm_wf es \<Longrightarrow> map_of (purged es k now) k = map_of es k"
  by (simp add: purged_def must_purge_def map_of_filter_values)

lemma rate_check_inv:
  assumes "limiter_inv es"
  shows "limiter_inv (fst (rate_check es bucket key policy now))"
  using assms purged_inv [OF assms] purged_room [OF assms]
  by (simp add: rate_check_eq Let_def)

section \<open>A bounded number of requests\<close>

text \<open>The requests of a log, in the order the mutex admits them, and those accepted for one key.\<close>

type_synonym rate_request = "(rstring \<times> rstring) \<times> rate_policy \<times> u64"

fun accepted_for :: "rstring \<Rightarrow> rate_entries \<Rightarrow> rate_request list \<Rightarrow> nat" where
  "accepted_for k es [] = 0"
| "accepted_for k es (((bucket, key), policy, now) # qs) =
     (let (es', ok) = rate_check es bucket key policy now
      in (if ok \<and> rate_key bucket key = k then 1 else 0) + accepted_for k es' qs)"

text \<open>
  How many requests a key may still have accepted while the clock stays below \<open>hi\<close>: what is
  left of a window that outlasts \<open>hi\<close>, and one more full window otherwise.
\<close>

definition rate_budget :: "rstring \<Rightarrow> nat \<Rightarrow> nat \<Rightarrow> rate_entries \<Rightarrow> nat" where
  "rate_budget k m hi es =
     (case map_of es k of
        None \<Rightarrow> m
      | Some w \<Rightarrow> if hi \<le> unat (rw_resets_at_ms w) then m - unat (rw_count w) else m - unat (rw_count w) + m)"

lemma rate_budget_cong: "map_of es k = map_of es' k \<Longrightarrow> rate_budget k m hi es = rate_budget k m hi es'"
  by (simp add: rate_budget_def)

lemma rate_budget_purge:
  assumes "hm_wf es" "unat now < hi"
  shows "rate_budget k m hi (purged es k' now) \<le> rate_budget k m hi es"
  using assms
  by (auto simp: purged_def rate_budget_def map_of_filter_values word_less_nat_alt split: option.splits)

lemma rate_check_other:
  assumes "hm_wf es" "unat now < hi" "rate_key bucket key \<noteq> k"
  shows "rate_budget k m hi (fst (rate_check es bucket key policy now)) \<le> rate_budget k m hi es"
proof -
  have "rate_budget k m hi (AList.update (rate_key bucket key) v es1) = rate_budget k m hi es1" for v es1
    using assms(3) by (intro rate_budget_cong) (simp add: update_conv')
  then show ?thesis
    using rate_budget_purge [OF assms(1,2)] by (simp add: rate_check_eq Let_def)
qed

lemma unat_u32_succ: "(c :: u32) < m \<Longrightarrow> unat (c + 1) = Suc (unat c)"
proof -
  assume "c < m"
  then have "unat c + 1 < 2 ^ 32" using unat_lt2p_word [of m] by (simp add: word_less_nat_alt)
  then show ?thesis by (simp add: unat_word_ariths)
qed

lemma live_window_budget:
  assumes "map_of es1 k = map_of es k" and now: "unat t \<le> unat now" "unat now < hi"
    and hi: "hi = unat t + unat (rp_window_ms policy)" "hi < 2 ^ 64"
  shows "rate_budget k m hi (AList.update k (live_window es1 k policy now) es1) \<le> rate_budget k m hi es"
proof -
  have fr: "hi \<le> unat (rw_resets_at_ms (fresh_window policy now))"
      "\<not> rw_resets_at_ms (fresh_window policy now) \<le> now" "rw_count (fresh_window policy now) = 0"
    using now hi by (auto simp: fresh_window_def unat_saturating_add word_le_nat_alt)
  show ?thesis
    using fr now assms(1)
    by (auto simp: rate_budget_def update_conv' live_window_def word_le_nat_alt split: option.splits)
qed

lemma rate_check_same:
  assumes wf: "hm_wf es" and k: "rate_key bucket key = k" and m: "rp_max_requests policy = mx"
    and now: "unat t \<le> unat now" "unat now < hi" and hi: "hi = unat t + unat (rp_window_ms policy)" "hi < 2 ^ 64"
    and res: "rate_check es bucket key policy now = (es', ok)"
  shows "(if ok then 1 else 0) + rate_budget k (unat mx) hi es' \<le> rate_budget k (unat mx) hi es"
proof -
  let ?es = "purged es k now"
  let ?w = "live_window ?es k policy now"
  have budget_w: "rate_budget k (unat mx) hi (AList.update k ?w ?es) \<le> rate_budget k (unat mx) hi es"
    by (rule live_window_budget [OF purged_own [OF wf] now hi])
  have "1 + rate_budget k (unat mx) hi (AList.update k (?w\<lparr>rw_count := rw_count ?w + 1\<rparr>) ?es) \<le>
      rate_budget k (unat mx) hi (AList.update k ?w ?es)" if "rw_count ?w < mx"
    using that unat_u32_succ [OF that] by (auto simp: rate_budget_def update_conv' word_less_nat_alt)
  then show ?thesis
    using res budget_w rate_budget_purge [OF wf now(2), of k "unat mx" k]
    by (auto simp: rate_check_eq k m Let_def not_le split: if_splits)
qed

lemma rate_check_hm_wf: "hm_wf es \<Longrightarrow> hm_wf (fst (rate_check es bucket key policy now))"
  by (simp add: rate_check_eq Let_def purged_def hm_wf_filter hm.wf_put)

lemma accepted_le_budget:
  assumes "hm_wf es" "hi = unat t + unat (rp_window_ms policy)" "hi < 2 ^ 64"
    and "\<forall>((b, key), pol, now) \<in> set qs. unat t \<le> unat now \<and> unat now < hi \<and>
           (rate_key b key = k \<longrightarrow> pol = policy)"
  shows "accepted_for k es qs \<le> rate_budget k (unat (rp_max_requests policy)) hi es"
  using assms(1,4)
proof (induction qs arbitrary: es)
  case (Cons q qs)
  obtain b key pol now where q: "q = ((b, key), pol, now)" by (metis prod.exhaust)
  obtain es' ok where c: "rate_check es b key pol now = (es', ok)" by (metis prod.exhaust)
  have "hm_wf es'" using rate_check_hm_wf [OF Cons.prems(1), of b key pol now] c by simp
  then have ih: "accepted_for k es' qs \<le> rate_budget k (unat (rp_max_requests policy)) hi es'"
    using Cons by simp
  have now: "unat t \<le> unat now" "unat now < hi" using Cons.prems(2) by (auto simp: q)
  show ?case
  proof (cases "rate_key b key = k")
    case True
    then have "pol = policy" using Cons.prems(2) by (auto simp: q)
    from rate_check_same [OF Cons.prems(1) True _ now, of policy "rp_max_requests policy"] c assms(2,3) this ih True
    show ?thesis by (auto simp: q)
  next
    case False
    from rate_check_other [OF Cons.prems(1) now(2) False, of "unat (rp_max_requests policy)" pol] c ih False
    show ?thesis by (auto simp: q)
  qed
qed simp

section \<open>Properties\<close>

text \<open>C17. The limiter bounds the requests of a key: whatever other keys ask for meanwhile and in
  whatever order clock readings arrive, while the clock stays within one window length at most
  twice \<open>max_requests\<close> requests of the key are accepted, and at most \<open>max_requests\<close> when the key
  is not yet tracked. The table never tracks more than 10000 keys.\<close>

theorem rate_limit_holds:
  assumes "limiter_inv es" and "unat t + unat (rp_window_ms policy) < 2 ^ 64"
    and "\<forall>((b, key), pol, now) \<in> set qs. t \<le> now \<and> unat now < unat t + unat (rp_window_ms policy) \<and>
           (rate_key b key = k \<longrightarrow> pol = policy)"
  shows "accepted_for k es qs \<le> 2 * unat (rp_max_requests policy) \<and>
    (map_of es k = None \<longrightarrow> accepted_for k es qs \<le> unat (rp_max_requests policy)) \<and>
    length (fst (rate_check es bucket key pol' now')) \<le> 10000"
proof -
  let ?b = "rate_budget k (unat (rp_max_requests policy)) (unat t + unat (rp_window_ms policy)) es"
  have "accepted_for k es qs \<le> ?b"
    using assms by (intro accepted_le_budget [OF _ refl assms(2)])
      (auto simp: limiter_inv_def word_le_nat_alt split: prod.splits)
  moreover have "?b \<le> 2 * unat (rp_max_requests policy)"
    by (auto simp: rate_budget_def split: option.splits)
  moreover have "?b \<le> unat (rp_max_requests policy)" if "map_of es k = None"
    using that by (simp add: rate_budget_def)
  ultimately show ?thesis
    using rate_check_inv [OF assms(1), of bucket key pol' now'] by (auto simp: limiter_inv_def MAX_TRACKED_KEYS_def)
qed

theorem rate_limit_holds_witness:
  "accepted_for (rate_key (rstr ''join'') (rstr ''s'')) []
     (replicate 3 ((rstr ''join'', rstr ''s''), \<lparr>rp_max_requests = 2, rp_window_ms = 1000\<rparr>, 100)) \<le> 2"
  using rate_limit_holds [of "[]" 0 "\<lparr>rp_max_requests = 2, rp_window_ms = 1000\<rparr>"
      "replicate 3 ((rstr ''join'', rstr ''s''), \<lparr>rp_max_requests = 2, rp_window_ms = 1000\<rparr>, 100)"
      "rate_key (rstr ''join'') (rstr ''s'')"]
  by (simp add: limiter_inv_def hm_wf_def)

end
