(* ===== verification/Realtime_Hub.thy ===== *)
theory Realtime_Hub
  imports Domain_Ids Protocol_Realtime
begin

text \<open>
  The realtime hub of the server (\<open>rust/apps/server/src/realtime/hub.rs\<close>): connections, the
  routes from sessions and peers to them, and the operations under its mutex.

  Three things come from outside and are arguments, collected in an environment: the bounded
  channel of the asynchronous runtime (\<open>he_channel\<close>, \<open>he_try_send\<close>), the order in which a
  hash set is iterated (\<open>he_iter\<close>), and the random connection identifier of \<open>register\<close>.
\<close>

section \<open>State\<close>

datatype connection_id = ConnectionId (connection_id_str: rstring)

record attachment =
  at_room_id :: room_id
  at_room_code :: room_code
  at_session_id :: session_id
  at_peer_id :: peer_id

record join_watch =
  jw_room_id :: room_id
  jw_session_id :: session_id

datatype outbound = OutMessage server_realtime_message | OutClose u16 string

datatype try_send_result = SendOk | SendFull | SendClosed

record 'ch connection_entry =
  ce_session_id :: session_id
  ce_sender :: 'ch
  ce_attachment :: "attachment option"
  ce_join_watch :: "join_watch option"

record 'ch hub_state =
  hs_connections :: "(connection_id, 'ch connection_entry) hash_map"
  hs_evicted_attachments :: "(connection_id, attachment) hash_map"
  hs_room_connections :: "(room_id, connection_id list) hash_map"
  hs_session_routes :: "(room_id \<times> session_id, connection_id) hash_map"
  hs_peer_routes :: "(room_id \<times> peer_id, connection_id) hash_map"

record 'ch hub_env =
  he_channel :: "nat \<Rightarrow> 'ch"
  he_try_send :: "'ch \<Rightarrow> outbound \<Rightarrow> 'ch \<times> try_send_result"
  he_iter :: "connection_id list \<Rightarrow> connection_id list"

datatype hub_error = ConnectionNotFound | NotAttached | TargetNotFound | CannotSignalSelf | SlowConsumer

definition hub_empty :: "'ch hub_state" where
  "hub_empty = \<lparr>hs_connections = [], hs_evicted_attachments = [], hs_room_connections = [],
                hs_session_routes = [], hs_peer_routes = []\<rparr>"

definition hub_queue_capacity :: "nat \<Rightarrow> nat" where
  "hub_queue_capacity queue_capacity = max queue_capacity 1"

section \<open>Helpers under the lock\<close>

definition leave_room_set ::
  "connection_id \<Rightarrow> room_id \<Rightarrow> (room_id, connection_id list) hash_map \<Rightarrow> (room_id, connection_id list) hash_map" where
  "leave_room_set c rid rooms =
     (case map_of rooms rid of
        None \<Rightarrow> rooms
      | Some connections \<Rightarrow>
          let connections' = removeAll c connections
          in if connections' = [] then AList.delete rid rooms else AList.update rid connections' rooms)"

definition detach_mappings :: "'ch hub_state \<Rightarrow> connection_id \<Rightarrow> attachment \<Rightarrow> 'ch hub_state" where
  "detach_mappings st c a =
     st\<lparr>hs_session_routes :=
          (if map_of (hs_session_routes st) (at_room_id a, at_session_id a) = Some c
           then AList.delete (at_room_id a, at_session_id a) (hs_session_routes st)
           else hs_session_routes st),
        hs_peer_routes :=
          (if map_of (hs_peer_routes st) (at_room_id a, at_peer_id a) = Some c
           then AList.delete (at_room_id a, at_peer_id a) (hs_peer_routes st)
           else hs_peer_routes st),
        hs_room_connections := leave_room_set c (at_room_id a) (hs_room_connections st)\<rparr>"

definition detach_watch_mappings :: "'ch hub_state \<Rightarrow> connection_id \<Rightarrow> join_watch \<Rightarrow> 'ch hub_state" where
  "detach_watch_mappings st c w =
     st\<lparr>hs_session_routes :=
          (if map_of (hs_session_routes st) (jw_room_id w, jw_session_id w) = Some c
           then AList.delete (jw_room_id w, jw_session_id w) (hs_session_routes st)
           else hs_session_routes st),
        hs_room_connections := leave_room_set c (jw_room_id w) (hs_room_connections st)\<rparr>"

definition detach_attachment :: "'ch hub_state \<Rightarrow> connection_id \<Rightarrow> attachment option \<Rightarrow> 'ch hub_state" where
  "detach_attachment st c oa = (case oa of Some a \<Rightarrow> detach_mappings st c a | None \<Rightarrow> st)"

definition detach_watch :: "'ch hub_state \<Rightarrow> connection_id \<Rightarrow> join_watch option \<Rightarrow> 'ch hub_state" where
  "detach_watch st c ow = (case ow of Some w \<Rightarrow> detach_watch_mappings st c w | None \<Rightarrow> st)"

definition remove_connection_locked ::
  "'ch hub_state \<Rightarrow> connection_id \<Rightarrow> 'ch hub_state \<times> attachment option" where
  "remove_connection_locked st c =
     (case map_of (hs_connections st) c of
        None \<Rightarrow> (st, None)
      | Some entry \<Rightarrow>
          let st = st\<lparr>hs_connections := AList.delete c (hs_connections st)\<rparr>;
              st = detach_attachment st c (ce_attachment entry);
              st = detach_watch st c (ce_join_watch entry)
          in (st, ce_attachment entry))"

definition evict_connection_locked ::
  "'ch hub_state \<Rightarrow> connection_id \<Rightarrow> 'ch hub_state \<times> attachment option" where
  "evict_connection_locked st c =
     (case remove_connection_locked st c of
        (st', Some a) \<Rightarrow>
          (st'\<lparr>hs_evicted_attachments := AList.update c a (hs_evicted_attachments st')\<rparr>, Some a)
      | (st', None) \<Rightarrow> (st', None))"

text \<open>\<open>entry.sender.try_send\<close> of the connection \<open>c\<close>, if it exists.\<close>

definition send_to ::
  "'ch hub_env \<Rightarrow> 'ch hub_state \<Rightarrow> connection_id \<Rightarrow> outbound \<Rightarrow> 'ch hub_state \<times> try_send_result option" where
  "send_to env st c out =
     (case map_of (hs_connections st) c of
        None \<Rightarrow> (st, None)
      | Some entry \<Rightarrow>
          let (ch, r) = he_try_send env (ce_sender entry) out
          in (st\<lparr>hs_connections := AList.update c (entry\<lparr>ce_sender := ch\<rparr>) (hs_connections st)\<rparr>, Some r))"

section \<open>Operations\<close>

definition hub_register ::
  "'ch hub_env \<Rightarrow> nat \<Rightarrow> connection_id \<Rightarrow> 'ch hub_state \<Rightarrow> session_id \<Rightarrow> 'ch hub_state" where
  "hub_register env queue_capacity connection st sid =
     st\<lparr>hs_connections :=
          AList.update connection
            \<lparr>ce_session_id = sid, ce_sender = he_channel env (hub_queue_capacity queue_capacity),
             ce_attachment = None, ce_join_watch = None\<rparr> (hs_connections st)\<rparr>"

definition REPLACED_NOTICE :: outbound where
  "REPLACED_NOTICE = OutMessage (SmError CURRENT_PROTOCOL (rstr ''connection_replaced'')
     (rstr ''a newer connection replaced this socket'') True)"

fun replace_connections ::
  "'ch hub_env \<Rightarrow> 'ch hub_state \<Rightarrow> connection_id list \<Rightarrow> attachment list \<Rightarrow> 'ch hub_state \<times> attachment list" where
  "replace_connections env st [] replaced = (st, replaced)"
| "replace_connections env st (existing # rest) replaced =
     (let (st, _) = send_to env st existing REPLACED_NOTICE;
          (st, _) = send_to env st existing (OutClose 4001 ''connection replaced'');
          (st, old) = evict_connection_locked st existing
      in replace_connections env st rest (replaced @ (case old of Some a \<Rightarrow> [a] | None \<Rightarrow> [])))"

definition join_room_set ::
  "connection_id \<Rightarrow> room_id \<Rightarrow> (room_id, connection_id list) hash_map \<Rightarrow> (room_id, connection_id list) hash_map" where
  "join_room_set c rid rooms =
     AList.update rid (List.insert c (case map_of rooms rid of Some cs \<Rightarrow> cs | None \<Rightarrow> [])) rooms"

text \<open>The previous routes of a connection are removed before it takes a new place.\<close>

definition detach_previous :: "'ch hub_state \<Rightarrow> connection_id \<Rightarrow> 'ch hub_state" where
  "detach_previous st c =
     (let st = detach_attachment st c (Option.bind (map_of (hs_connections st) c) ce_attachment)
      in detach_watch st c (Option.bind (map_of (hs_connections st) c) ce_join_watch))"

definition unique_existing :: "connection_id \<Rightarrow> connection_id option list \<Rightarrow> connection_id list" where
  "unique_existing c existing_ids =
     remdups (filter (\<lambda>x. x \<noteq> c) (concat (map (case_option [] (\<lambda>x. [x])) existing_ids)))"

definition hub_attach ::
  "'ch hub_env \<Rightarrow> 'ch hub_state \<Rightarrow> connection_id \<Rightarrow> room_id \<Rightarrow> room_code \<Rightarrow> peer_id \<Rightarrow>
   'ch hub_state \<times> (hub_error + attachment list)" where
  "hub_attach env st c rid code peer =
     (case map_of (hs_connections st) c of
        None \<Rightarrow> (st, Inl ConnectionNotFound)
      | Some entry0 \<Rightarrow>
          let sid = ce_session_id entry0;
              a = \<lparr>at_room_id = rid, at_room_code = code, at_session_id = sid, at_peer_id = peer\<rparr>;
              existing_ids = [map_of (hs_session_routes st) (rid, sid), map_of (hs_peer_routes st) (rid, peer)];
              (st, replaced) = replace_connections env st (he_iter env (unique_existing c existing_ids)) [];
              st = detach_previous st c
          in case map_of (hs_connections st) c of
               None \<Rightarrow> (st, Inl ConnectionNotFound)
             | Some entry \<Rightarrow>
                 (st\<lparr>hs_connections :=
                       AList.update c (entry\<lparr>ce_attachment := Some a, ce_join_watch := None\<rparr>) (hs_connections st),
                     hs_room_connections := join_room_set c rid (hs_room_connections st),
                     hs_session_routes := AList.update (rid, sid) c (hs_session_routes st),
                     hs_peer_routes := AList.update (rid, peer) c (hs_peer_routes st)\<rparr>,
                  Inr replaced))"

definition hub_watch_join ::
  "'ch hub_state \<Rightarrow> connection_id \<Rightarrow> room_id \<Rightarrow> 'ch hub_state \<times> (hub_error + attachment list)" where
  "hub_watch_join st c rid =
     (case map_of (hs_connections st) c of
        None \<Rightarrow> (st, Inl ConnectionNotFound)
      | Some entry0 \<Rightarrow>
          let sid = ce_session_id entry0;
              w = \<lparr>jw_room_id = rid, jw_session_id = sid\<rparr>;
              (st, replaced) =
                (case map_of (hs_session_routes st) (rid, sid) of
                   Some existing \<Rightarrow>
                     if existing \<noteq> c
                     then (case evict_connection_locked st existing of
                             (st', Some a) \<Rightarrow> (st', [a])
                           | (st', None) \<Rightarrow> (st', []))
                     else (st, [])
                 | None \<Rightarrow> (st, []));
              st = detach_previous st c
          in case map_of (hs_connections st) c of
               None \<Rightarrow> (st, Inl ConnectionNotFound)
             | Some entry \<Rightarrow>
                 (st\<lparr>hs_connections :=
                       AList.update c (entry\<lparr>ce_attachment := None, ce_join_watch := Some w\<rparr>) (hs_connections st),
                     hs_room_connections := join_room_set c rid (hs_room_connections st),
                     hs_session_routes := AList.update (rid, sid) c (hs_session_routes st)\<rparr>,
                  Inr replaced))"

definition hub_detach ::
  "'ch hub_state \<Rightarrow> connection_id \<Rightarrow> 'ch hub_state \<times> (hub_error + attachment option)" where
  "hub_detach st c =
     (case map_of (hs_connections st) c of
        None \<Rightarrow> (st, Inl ConnectionNotFound)
      | Some entry \<Rightarrow>
          let a = ce_attachment entry;
              st = st\<lparr>hs_connections := AList.update c (entry\<lparr>ce_attachment := None\<rparr>) (hs_connections st)\<rparr>;
              st = detach_attachment st c a;
              w = ce_join_watch entry;
              st = st\<lparr>hs_connections :=
                        AList.update c (entry\<lparr>ce_attachment := None, ce_join_watch := None\<rparr>) (hs_connections st)\<rparr>;
              st = detach_watch st c w
          in (st, Inr a))"

definition hub_unregister :: "'ch hub_state \<Rightarrow> connection_id \<Rightarrow> 'ch hub_state \<times> attachment option" where
  "hub_unregister st c =
     (case remove_connection_locked st c of
        (st', Some a) \<Rightarrow> (st', Some a)
      | (st', None) \<Rightarrow>
          (st'\<lparr>hs_evicted_attachments := AList.delete c (hs_evicted_attachments st')\<rparr>,
           map_of (hs_evicted_attachments st') c))"

definition hub_attachment :: "'ch hub_state \<Rightarrow> connection_id \<Rightarrow> hub_error + attachment" where
  "hub_attachment st c = ok_or NotAttached (Option.bind (map_of (hs_connections st) c) ce_attachment)"

definition hub_send ::
  "'ch hub_env \<Rightarrow> 'ch hub_state \<Rightarrow> connection_id \<Rightarrow> outbound \<Rightarrow> 'ch hub_state \<times> (hub_error + unit)" where
  "hub_send env st c out =
     (case send_to env st c out of
        (st', None) \<Rightarrow> (st', Inl ConnectionNotFound)
      | (st', Some SendOk) \<Rightarrow> (st', Inr ())
      | (st', Some SendFull) \<Rightarrow> (fst (evict_connection_locked st' c), Inl SlowConsumer)
      | (st', Some SendClosed) \<Rightarrow> (fst (evict_connection_locked st' c), Inl ConnectionNotFound))"

definition hub_send_to_peer ::
  "'ch hub_env \<Rightarrow> 'ch hub_state \<Rightarrow> connection_id \<Rightarrow> peer_id \<Rightarrow> server_realtime_message \<Rightarrow>
   'ch hub_state \<times> (hub_error + unit)" where
  "hub_send_to_peer env st sender to_peer message =
     (case Option.bind (map_of (hs_connections st) sender) ce_attachment of
        None \<Rightarrow> (st, Inl NotAttached)
      | Some a \<Rightarrow>
          if at_peer_id a = to_peer then (st, Inl CannotSignalSelf)
          else case map_of (hs_peer_routes st) (at_room_id a, to_peer) of
                 None \<Rightarrow> (st, Inl TargetNotFound)
               | Some target \<Rightarrow>
                   (case send_to env st target (OutMessage message) of
                      (st', None) \<Rightarrow> (st', Inl TargetNotFound)
                    | (st', Some SendOk) \<Rightarrow> (st', Inr ())
                    | (st', Some SendFull) \<Rightarrow> (fst (evict_connection_locked st' target), Inl SlowConsumer)
                    | (st', Some SendClosed) \<Rightarrow> (fst (evict_connection_locked st' target), Inl TargetNotFound)))"

fun broadcast_to ::
  "'ch hub_env \<Rightarrow> server_realtime_message \<Rightarrow> 'ch hub_state \<Rightarrow> connection_id list \<Rightarrow> attachment list \<Rightarrow>
   'ch hub_state \<times> attachment list" where
  "broadcast_to env message st [] evicted = (st, evicted)"
| "broadcast_to env message st (c # cs) evicted =
     (case send_to env st c (OutMessage message) of
        (st', Some SendFull) \<Rightarrow>
          (case evict_connection_locked st' c of
             (st'', Some a) \<Rightarrow> broadcast_to env message st'' cs (evicted @ [a])
           | (st'', None) \<Rightarrow> broadcast_to env message st'' cs evicted)
      | (st', Some SendClosed) \<Rightarrow>
          (case evict_connection_locked st' c of
             (st'', Some a) \<Rightarrow> broadcast_to env message st'' cs (evicted @ [a])
           | (st'', None) \<Rightarrow> broadcast_to env message st'' cs evicted)
      | (st', _) \<Rightarrow> broadcast_to env message st' cs evicted)"

definition room_members :: "'ch hub_state \<Rightarrow> room_id \<Rightarrow> connection_id list" where
  "room_members st rid = (case map_of (hs_room_connections st) rid of Some cs \<Rightarrow> cs | None \<Rightarrow> [])"

definition hub_broadcast ::
  "'ch hub_env \<Rightarrow> 'ch hub_state \<Rightarrow> room_id \<Rightarrow> server_realtime_message \<Rightarrow> 'ch hub_state \<times> attachment list" where
  "hub_broadcast env st rid message = broadcast_to env message st (he_iter env (room_members st rid)) []"

definition hub_disconnect_session ::
  "'ch hub_env \<Rightarrow> 'ch hub_state \<Rightarrow> room_id \<Rightarrow> session_id \<Rightarrow> u16 \<Rightarrow> string \<Rightarrow> 'ch hub_state \<times> attachment list" where
  "hub_disconnect_session env st rid sid code reason =
     (case map_of (hs_session_routes st) (rid, sid) of
        None \<Rightarrow> (st, [])
      | Some c \<Rightarrow>
          let (st, _) = send_to env st c (OutClose code reason);
              (st, a) = evict_connection_locked st c
          in (st, case a of Some a \<Rightarrow> [a] | None \<Rightarrow> []))"

fun disconnect_all ::
  "'ch hub_env \<Rightarrow> u16 \<Rightarrow> string \<Rightarrow> 'ch hub_state \<Rightarrow> connection_id list \<Rightarrow> attachment list \<Rightarrow>
   'ch hub_state \<times> attachment list" where
  "disconnect_all env code reason st [] disconnected = (st, disconnected)"
| "disconnect_all env code reason st (c # cs) disconnected =
     (let (st, _) = send_to env st c (OutClose code reason);
          (st, a) = evict_connection_locked st c
      in disconnect_all env code reason st cs (disconnected @ (case a of Some a \<Rightarrow> [a] | None \<Rightarrow> [])))"

definition hub_disconnect_room ::
  "'ch hub_env \<Rightarrow> 'ch hub_state \<Rightarrow> room_id \<Rightarrow> u16 \<Rightarrow> string \<Rightarrow> 'ch hub_state \<times> attachment list" where
  "hub_disconnect_room env st rid code reason =
     disconnect_all env code reason st (he_iter env (room_members st rid)) []"

definition hub_connection_count :: "'ch hub_state \<Rightarrow> nat" where
  "hub_connection_count st = length (hs_connections st)"

end
