(* ===== verification/Hub_Laws.thy ===== *)
theory Hub_Laws
  imports Realtime_Hub
begin

text \<open>
  The invariant of the realtime hub and what each operation keeps of it. A connection has a
  place: attached to a room as a peer, watching a room, or none. The invariant says that the
  three route tables are exactly the indexes of the places.
\<close>

section \<open>Places and routes\<close>

type_synonym hub_place = "room_id \<times> session_id \<times> peer_id option"

definition placement :: "attachment option \<Rightarrow> join_watch option \<Rightarrow> hub_place option" where
  "placement oa ow =
     (case oa of
        Some a \<Rightarrow> Some (at_room_id a, at_session_id a, Some (at_peer_id a))
      | None \<Rightarrow> map_option (\<lambda>w. (jw_room_id w, jw_session_id w, None)) ow)"

definition place :: "'ch hub_state \<Rightarrow> connection_id \<Rightarrow> hub_place option" where
  "place st c = Option.bind (map_of (hs_connections st) c) (\<lambda>e. placement (ce_attachment e) (ce_join_watch e))"

definition entry_ok :: "'ch connection_entry \<Rightarrow> bool" where
  "entry_ok e \<longleftrightarrow> (ce_attachment e = None \<or> ce_join_watch e = None) \<and>
     (\<forall>a. ce_attachment e = Some a \<longrightarrow> at_session_id a = ce_session_id e) \<and>
     (\<forall>w. ce_join_watch e = Some w \<longrightarrow> jw_session_id w = ce_session_id e)"

definition session_index ::
  "(room_id \<times> session_id \<Rightarrow> connection_id option) \<Rightarrow> (connection_id \<Rightarrow> hub_place option) \<Rightarrow> bool" where
  "session_index sr pl \<longleftrightarrow> (\<forall>r s c. sr (r, s) = Some c \<longleftrightarrow> (\<exists>p. pl c = Some (r, s, p)))"

definition peer_index ::
  "(room_id \<times> peer_id \<Rightarrow> connection_id option) \<Rightarrow> (connection_id \<Rightarrow> hub_place option) \<Rightarrow> bool" where
  "peer_index pr pl \<longleftrightarrow> (\<forall>r p c. pr (r, p) = Some c \<longleftrightarrow> (\<exists>s. pl c = Some (r, s, Some p)))"

definition room_index ::
  "(room_id \<Rightarrow> connection_id list option) \<Rightarrow> (connection_id \<Rightarrow> hub_place option) \<Rightarrow> bool" where
  "room_index rc pl \<longleftrightarrow>
     (\<forall>r. case rc r of
            None \<Rightarrow> (\<forall>c s p. pl c \<noteq> Some (r, s, p))
          | Some cs \<Rightarrow> cs \<noteq> [] \<and> distinct cs \<and> (\<forall>c. c \<in> set cs \<longleftrightarrow> (\<exists>s p. pl c = Some (r, s, p))))"

definition tables_wf :: "'ch hub_state \<Rightarrow> bool" where
  "tables_wf st \<longleftrightarrow> hm_wf (hs_connections st) \<and> hm_wf (hs_evicted_attachments st) \<and>
     hm_wf (hs_room_connections st) \<and> hm_wf (hs_session_routes st) \<and> hm_wf (hs_peer_routes st)"

definition routed :: "'ch hub_state \<Rightarrow> (connection_id \<Rightarrow> hub_place option) \<Rightarrow> bool" where
  "routed st pl \<longleftrightarrow> tables_wf st \<and> session_index (map_of (hs_session_routes st)) pl \<and>
     peer_index (map_of (hs_peer_routes st)) pl \<and> room_index (map_of (hs_room_connections st)) pl"

definition hub_inv :: "'ch hub_state \<Rightarrow> bool" where
  "hub_inv st \<longleftrightarrow> routed st (place st) \<and>
     (\<forall>c e. map_of (hs_connections st) c = Some e \<longrightarrow> entry_ok e) \<and>
     (\<forall>c. map_of (hs_evicted_attachments st) c \<noteq> None \<longrightarrow> map_of (hs_connections st) c = None)"

section \<open>Removing and adding one place\<close>

lemma session_index_remove:
  assumes "session_index sr pl" "pl c = Some (r, s, p)"
  shows "sr (r, s) = Some c" "session_index (sr((r, s) := None)) (pl(c := None))"
proof -
  show c: "sr (r, s) = Some c" using assms by (auto simp: session_index_def)
  show "session_index (sr((r, s) := None)) (pl(c := None))"
    unfolding session_index_def
  proof (intro allI)
    fix r' s' c'
    show "(sr((r, s) := None)) (r', s') = Some c' \<longleftrightarrow> (\<exists>p. (pl(c := None)) c' = Some (r', s', p))"
      using assms c unfolding session_index_def by (cases "c' = c") (auto, metis option.inject)
  qed
qed

lemma peer_index_remove:
  assumes "peer_index pr pl" "pl c = Some (r, s, Some p)"
  shows "pr (r, p) = Some c" "peer_index (pr((r, p) := None)) (pl(c := None))"
proof -
  show c: "pr (r, p) = Some c" using assms by (auto simp: peer_index_def)
  show "peer_index (pr((r, p) := None)) (pl(c := None))"
    unfolding peer_index_def
  proof (intro allI)
    fix r' p' c'
    show "(pr((r, p) := None)) (r', p') = Some c' \<longleftrightarrow> (\<exists>s. (pl(c := None)) c' = Some (r', s, Some p'))"
      using assms c unfolding peer_index_def by (cases "c' = c") (auto, metis option.inject)
  qed
qed

lemma peer_index_remove_watch:
  "peer_index pr pl \<Longrightarrow> pl c = Some (r, s, None) \<Longrightarrow> peer_index pr (pl(c := None))"
  unfolding peer_index_def by auto

lemma room_index_remove:
  assumes "room_index (map_of rc) pl" "pl c = Some (r, s, p)" "hm_wf rc"
  shows "room_index (map_of (leave_room_set c r rc)) (pl(c := None))" "hm_wf (leave_room_set c r rc)"
proof -
  obtain cs where cs: "map_of rc r = Some cs" "distinct cs" "\<forall>x. x \<in> set cs \<longleftrightarrow> (\<exists>s p. pl x = Some (r, s, p))"
    using assms(1,2) unfolding room_index_def by (force split: option.splits)
  show "hm_wf (leave_room_set c r rc)"
    using assms(3) by (simp add: leave_room_set_def cs Let_def hm_wf_delete hm.wf_put)
  have rest: "case map_of rc r' of None \<Rightarrow> (\<forall>x s p. (pl(c := None)) x \<noteq> Some (r', s, p))
      | Some cs \<Rightarrow> cs \<noteq> [] \<and> distinct cs \<and> (\<forall>x. x \<in> set cs \<longleftrightarrow> (\<exists>s p. (pl(c := None)) x = Some (r', s, p)))"
    if "r' \<noteq> r" for r'
    using assms(1,2) that unfolding room_index_def by (auto split: option.splits dest!: spec [of _ r'])
  show "room_index (map_of (leave_room_set c r rc)) (pl(c := None))"
    unfolding room_index_def
  proof
    fix r'
    show "case map_of (leave_room_set c r rc) r' of None \<Rightarrow> (\<forall>x s p. (pl(c := None)) x \<noteq> Some (r', s, p))
      | Some cs \<Rightarrow> cs \<noteq> [] \<and> distinct cs \<and> (\<forall>x. x \<in> set cs \<longleftrightarrow> (\<exists>s p. (pl(c := None)) x = Some (r', s, p)))"
    proof (cases "r' = r")
      case True
      have "removeAll c cs = [] \<longleftrightarrow> (\<forall>x \<in> set cs. x = c)" by (auto simp: removeAll_filter_not_eq filter_empty_conv)
      then show ?thesis
        using cs True
        by (auto simp: leave_room_set_def Let_def map_of_hm_delete update_conv' distinct_removeAll)
    next
      case False
      then show ?thesis
        using rest [OF False] by (simp add: leave_room_set_def cs Let_def map_of_hm_delete update_conv')
    qed
  qed
qed

lemma session_index_add:
  "session_index sr pl \<Longrightarrow> pl c = None \<Longrightarrow> sr (r, s) = None \<Longrightarrow>
   session_index (sr((r, s) \<mapsto> c)) (pl(c \<mapsto> (r, s, p)))"
  unfolding session_index_def by (auto split: if_splits) (metis option.distinct(1))+

lemma peer_index_add:
  "peer_index pr pl \<Longrightarrow> pl c = None \<Longrightarrow> pr (r, p) = None \<Longrightarrow>
   peer_index (pr((r, p) \<mapsto> c)) (pl(c \<mapsto> (r, s, Some p)))"
  unfolding peer_index_def by (auto split: if_splits) (metis option.distinct(1))+

lemma peer_index_add_watch:
  "peer_index pr pl \<Longrightarrow> pl c = None \<Longrightarrow> peer_index pr (pl(c \<mapsto> (r, s, None)))"
  unfolding peer_index_def by (auto split: if_splits)

lemma room_index_add:
  assumes "room_index (map_of rc) pl" "pl c = None"
  shows "room_index (map_of (join_room_set c r rc)) (pl(c \<mapsto> (r, s, p)))"
  unfolding room_index_def
proof
  fix r'
  have old: "case map_of rc r' of None \<Rightarrow> (\<forall>c s p. pl c \<noteq> Some (r', s, p))
      | Some cs \<Rightarrow> cs \<noteq> [] \<and> distinct cs \<and> (\<forall>c. c \<in> set cs \<longleftrightarrow> (\<exists>s p. pl c = Some (r', s, p)))"
    using assms(1) by (simp add: room_index_def)
  show "case map_of (join_room_set c r rc) r' of None \<Rightarrow> (\<forall>x s' p'. (pl(c \<mapsto> (r, s, p))) x \<noteq> Some (r', s', p'))
    | Some cs \<Rightarrow> cs \<noteq> [] \<and> distinct cs \<and>
        (\<forall>x. x \<in> set cs \<longleftrightarrow> (\<exists>s' p'. (pl(c \<mapsto> (r, s, p))) x = Some (r', s', p')))"
    using old assms(2)
    by (cases "r' = r") (auto simp: join_room_set_def update_conv' List.insert_def split: option.splits if_splits)
qed

section \<open>What the helpers do to places\<close>

text \<open>The session of a connection, which no operation changes while the connection exists.\<close>

definition sess :: "'ch hub_state \<Rightarrow> connection_id \<Rightarrow> session_id option" where
  "sess st c = map_option ce_session_id (map_of (hs_connections st) c)"

lemma place_None: "map_of (hs_connections st) c = None \<Longrightarrow> place st c = None"
  by (simp add: place_def)

lemma place_fun_upd:
  "map_of (hs_connections st') = (map_of (hs_connections st))(c := e) \<Longrightarrow>
   place st' = (place st)(c := Option.bind e (\<lambda>e. placement (ce_attachment e) (ce_join_watch e)))"
  by (auto simp: place_def fun_eq_iff)

lemma detach_frame [simp]:
  "hs_connections (detach_attachment st c oa) = hs_connections st"
  "hs_connections (detach_watch st c ow) = hs_connections st"
  "hs_evicted_attachments (detach_attachment st c oa) = hs_evicted_attachments st"
  "hs_evicted_attachments (detach_watch st c ow) = hs_evicted_attachments st"
  by (simp_all add: detach_attachment_def detach_watch_def detach_mappings_def detach_watch_mappings_def
      split: option.splits)

lemma routed_connections: "routed (st\<lparr>hs_connections := cs\<rparr>) pl \<longleftrightarrow>
    routed st pl \<and> hm_wf cs" if "tables_wf st"
  using that by (auto simp: routed_def tables_wf_def)

lemma detach_routed:
  assumes "routed st pl" "pl c = placement oa ow" "oa = None \<or> ow = None"
  shows "routed (detach_watch (detach_attachment st c oa) c ow) (pl(c := None))"
proof (cases oa)
  case (Some a)
  then have c: "pl c = Some (at_room_id a, at_session_id a, Some (at_peer_id a))"
    using assms by (simp add: placement_def)
  from assms(1) have r: "session_index (map_of (hs_session_routes st)) pl"
      "peer_index (map_of (hs_peer_routes st)) pl" "room_index (map_of (hs_room_connections st)) pl"
      "tables_wf st" by (simp_all add: routed_def)
  have wf: "hm_wf (hs_room_connections st)" using r(4) by (simp add: tables_wf_def)
  show ?thesis
    using Some assms(3) r(4) session_index_remove [OF r(1) c] peer_index_remove [OF r(2) c]
      room_index_remove [OF r(3) c wf]
    by (simp add: routed_def detach_attachment_def detach_watch_def detach_mappings_def map_of_hm_delete
        tables_wf_def hm_wf_delete)
next
  case None
  show ?thesis
  proof (cases ow)
    case (Some w)
    then have c: "pl c = Some (jw_room_id w, jw_session_id w, None)"
      using assms None by (simp add: placement_def)
    from assms(1) have r: "session_index (map_of (hs_session_routes st)) pl"
        "peer_index (map_of (hs_peer_routes st)) pl" "room_index (map_of (hs_room_connections st)) pl"
        "tables_wf st" by (simp_all add: routed_def)
    have wf: "hm_wf (hs_room_connections st)" using r(4) by (simp add: tables_wf_def)
    show ?thesis
      using None Some r(4) session_index_remove [OF r(1) c] peer_index_remove_watch [OF r(2) c]
        room_index_remove [OF r(3) c wf]
      by (simp add: routed_def detach_attachment_def detach_watch_def detach_watch_mappings_def map_of_hm_delete
          tables_wf_def hm_wf_delete)
  next
    case None
    then have "pl c = None" using \<open>oa = None\<close> assms by (simp add: placement_def)
    then have "pl(c := None) = pl" by auto
    then show ?thesis using assms(1) None \<open>oa = None\<close> by (simp add: detach_attachment_def detach_watch_def)
  qed
qed

lemma hub_inv_entry:
  "hub_inv st \<Longrightarrow> map_of (hs_connections st) c = Some e \<Longrightarrow>
   entry_ok e \<and> place st c = placement (ce_attachment e) (ce_join_watch e) \<and>
   (ce_attachment e = None \<or> ce_join_watch e = None)"
  by (auto simp: hub_inv_def place_def entry_ok_def)

lemma hub_inv_routed: "hub_inv st \<Longrightarrow> routed st (place st)"
  by (simp add: hub_inv_def)

lemma hub_inv_wf: "hub_inv st \<Longrightarrow> tables_wf st"
  by (simp add: hub_inv_def routed_def)

lemma remove_connection_spec:
  assumes "hub_inv st" "remove_connection_locked st c = (st', oa)"
  shows "hub_inv st'" "map_of (hs_connections st') = (map_of (hs_connections st))(c := None)"
    "place st' = (place st)(c := None)" "oa = Option.bind (map_of (hs_connections st) c) ce_attachment"
    "hs_evicted_attachments st' = hs_evicted_attachments st"
proof -
  have A: "hub_inv st' \<and> map_of (hs_connections st') = (map_of (hs_connections st))(c := None) \<and>
    oa = Option.bind (map_of (hs_connections st) c) ce_attachment \<and>
    hs_evicted_attachments st' = hs_evicted_attachments st"
  proof (cases "map_of (hs_connections st) c")
    case None
    then show ?thesis using assms by (auto simp: remove_connection_locked_def)
  next
    case (Some e)
    define st1 where "st1 = st\<lparr>hs_connections := AList.delete c (hs_connections st)\<rparr>"
    have st': "st' = detach_watch (detach_attachment st1 c (ce_attachment e)) c (ce_join_watch e)"
        "oa = ce_attachment e"
      using assms(2) Some by (auto simp: remove_connection_locked_def Let_def st1_def)
    have conns: "map_of (hs_connections st') = (map_of (hs_connections st))(c := None)"
      by (simp add: st' st1_def map_of_hm_delete)
    have wf: "tables_wf st" by (rule hub_inv_wf [OF assms(1)])
    have "routed st1 (place st)"
      using hub_inv_routed [OF assms(1)] wf by (simp add: st1_def routed_connections hm_wf_delete tables_wf_def)
    then have "routed st' ((place st)(c := None))"
      unfolding st' using hub_inv_entry [OF assms(1) Some] by (intro detach_routed) auto
    then have "routed st' (place st')"
      using place_fun_upd [of st' st c None] conns by simp
    then have "hub_inv st'"
      using assms(1) conns by (auto simp: hub_inv_def st' st1_def split: if_splits)
    with conns Some show ?thesis by (simp add: st' st1_def)
  qed
  from A show "hub_inv st'" "map_of (hs_connections st') = (map_of (hs_connections st))(c := None)"
    "oa = Option.bind (map_of (hs_connections st) c) ce_attachment"
    "hs_evicted_attachments st' = hs_evicted_attachments st" by auto
  from A show "place st' = (place st)(c := None)" using place_fun_upd [of st' st c None] by simp
qed

lemma evict_connection_spec:
  assumes "hub_inv st" "evict_connection_locked st c = (st', oa)"
  shows "hub_inv st'" "map_of (hs_connections st') = (map_of (hs_connections st))(c := None)"
    "place st' = (place st)(c := None)" "oa = Option.bind (map_of (hs_connections st) c) ce_attachment"
    "map_of (hs_evicted_attachments st') =
       (case oa of Some a \<Rightarrow> (map_of (hs_evicted_attachments st))(c \<mapsto> a) | None \<Rightarrow> map_of (hs_evicted_attachments st))"
proof -
  obtain st1 where r: "remove_connection_locked st c = (st1, oa)"
      and st': "st' = (case oa of
        Some a \<Rightarrow> st1\<lparr>hs_evicted_attachments := AList.update c a (hs_evicted_attachments st1)\<rparr> | None \<Rightarrow> st1)"
    using assms(2) by (auto simp: evict_connection_locked_def split: prod.splits option.splits)
  note s = remove_connection_spec [OF assms(1) r]
  have same: "hs_connections st' = hs_connections st1" "place st' = place st1"
      "hs_session_routes st' = hs_session_routes st1" "hs_peer_routes st' = hs_peer_routes st1"
      "hs_room_connections st' = hs_room_connections st1"
    by (auto simp: st' place_def split: option.splits)
  show c: "map_of (hs_connections st') = (map_of (hs_connections st))(c := None)"
    "place st' = (place st)(c := None)" "oa = Option.bind (map_of (hs_connections st) c) ce_attachment"
    using s same by simp_all
  show ev: "map_of (hs_evicted_attachments st') =
       (case oa of Some a \<Rightarrow> (map_of (hs_evicted_attachments st))(c \<mapsto> a) | None \<Rightarrow> map_of (hs_evicted_attachments st))"
    using s(5) by (simp add: st' update_conv' split: option.splits)
  have "hm_wf (hs_evicted_attachments st')"
    using hub_inv_wf [OF s(1)] by (simp add: st' tables_wf_def hm.wf_put split: option.splits)
  then have "routed st' (place st')"
    using hub_inv_routed [OF s(1)] by (simp add: routed_def tables_wf_def same)
  then show "hub_inv st'"
    using s(1) c(1) s(2,5) ev by (auto simp: hub_inv_def same split: option.splits if_splits)
qed

lemma send_to_spec:
  assumes "hub_inv st" "send_to env st c out = (st', r)"
  shows "hub_inv st'" "place st' = place st" "sess st' = sess st"
    "\<forall>x. x \<noteq> c \<longrightarrow> map_of (hs_connections st') x = map_of (hs_connections st) x"
    "map_of (hs_connections st') c =
       map_option (\<lambda>e. e\<lparr>ce_sender := fst (he_try_send env (ce_sender e) out)\<rparr>) (map_of (hs_connections st) c)"
    "r = map_option (\<lambda>e. snd (he_try_send env (ce_sender e) out)) (map_of (hs_connections st) c)"
    "hs_evicted_attachments st' = hs_evicted_attachments st"
proof -
  have A: "hub_inv st' \<and> place st' = place st \<and> sess st' = sess st \<and>
    (\<forall>x. x \<noteq> c \<longrightarrow> map_of (hs_connections st') x = map_of (hs_connections st) x) \<and>
    map_of (hs_connections st') c =
      map_option (\<lambda>e. e\<lparr>ce_sender := fst (he_try_send env (ce_sender e) out)\<rparr>) (map_of (hs_connections st) c) \<and>
    r = map_option (\<lambda>e. snd (he_try_send env (ce_sender e) out)) (map_of (hs_connections st) c) \<and>
    hs_evicted_attachments st' = hs_evicted_attachments st"
  proof (cases "map_of (hs_connections st) c")
    case None
    then show ?thesis using assms by (simp add: send_to_def)
  next
    case (Some e)
    define e' where "e' = e\<lparr>ce_sender := fst (he_try_send env (ce_sender e) out)\<rparr>"
    have st': "st' = st\<lparr>hs_connections := AList.update c e' (hs_connections st)\<rparr>"
        "r = Some (snd (he_try_send env (ce_sender e) out))"
      using assms(2) Some by (simp_all add: send_to_def e'_def split: prod.splits)
    have conns: "map_of (hs_connections st') = (map_of (hs_connections st))(c \<mapsto> e')"
      by (simp add: st' update_conv')
    have pl: "place st' = place st"
      using place_fun_upd [OF conns] Some by (auto simp: fun_eq_iff place_def e'_def)
    have "routed st' (place st)"
      using hub_inv_routed [OF assms(1)] hub_inv_wf [OF assms(1)]
      by (simp add: st' routed_connections hm.wf_put tables_wf_def)
    moreover have "hs_evicted_attachments st' = hs_evicted_attachments st" by (simp add: st')
    moreover have "entry_ok e'" using hub_inv_entry [OF assms(1) Some] by (simp add: entry_ok_def e'_def)
    ultimately have "hub_inv st'"
      using assms(1) conns Some by (auto simp: hub_inv_def pl split: if_splits)
    then show ?thesis
      using conns Some pl by (auto simp: st' sess_def fun_eq_iff e'_def)
  qed
  from A show "hub_inv st'" "place st' = place st" "sess st' = sess st"
    "\<forall>x. x \<noteq> c \<longrightarrow> map_of (hs_connections st') x = map_of (hs_connections st) x"
    "map_of (hs_connections st') c =
       map_option (\<lambda>e. e\<lparr>ce_sender := fst (he_try_send env (ce_sender e) out)\<rparr>) (map_of (hs_connections st) c)"
    "r = map_option (\<lambda>e. snd (he_try_send env (ce_sender e) out)) (map_of (hs_connections st) c)"
    "hs_evicted_attachments st' = hs_evicted_attachments st" by blast+
qed

section \<open>Operations\<close>

text \<open>Iterating a hash set visits each of its elements once, in some order.\<close>

definition iter_ok :: "'ch hub_env \<Rightarrow> bool" where
  "iter_ok env \<longleftrightarrow> (\<forall>xs. distinct xs \<longrightarrow> distinct (he_iter env xs) \<and> set (he_iter env xs) = set xs)"

lemma evict_sess:
  assumes "hub_inv st" "evict_connection_locked st c = (st', oa)"
  shows "sess st' = (sess st)(c := None)"
  using evict_connection_spec(2) [OF assms] by (simp add: sess_def fun_eq_iff)

lemma notify_and_evict_spec:
  assumes "hub_inv st" "send_to env st c out = (st1, r1)" "evict_connection_locked st1 c = (st2, oa)"
  shows "hub_inv st2" "place st2 = (place st)(c := None)"
    "\<forall>x. x \<noteq> c \<longrightarrow> map_of (hs_connections st2) x = map_of (hs_connections st) x"
    "map_of (hs_connections st2) c = None" "oa = Option.bind (map_of (hs_connections st) c) ce_attachment"
proof -
  note s = send_to_spec [OF assms(1,2)]
  note e = evict_connection_spec [OF s(1) assms(3)]
  show "hub_inv st2" "place st2 = (place st)(c := None)" "map_of (hs_connections st2) c = None"
    using e s(2) by simp_all
  show "\<forall>x. x \<noteq> c \<longrightarrow> map_of (hs_connections st2) x = map_of (hs_connections st) x"
    using e(2) s(4) by simp
  show "oa = Option.bind (map_of (hs_connections st) c) ce_attachment"
    using e(4) s(5) by (cases "map_of (hs_connections st) c") simp_all
qed

lemma replace_connections_spec:
  assumes "hub_inv st" "replace_connections env st cs acc = (st', acc')"
  shows "hub_inv st' \<and> place st' = (\<lambda>x. if x \<in> set cs then None else place st x) \<and>
    (\<forall>x. x \<notin> set cs \<longrightarrow> map_of (hs_connections st') x = map_of (hs_connections st) x) \<and>
    (\<forall>x \<in> set cs. map_of (hs_connections st') x = None)"
  using assms
proof (induction env st cs acc rule: replace_connections.induct)
  case (1 env st acc)
  then show ?case by auto
next
  case (2 env st c cs acc)
  obtain st1 r1 where s1: "send_to env st c REPLACED_NOTICE = (st1, r1)" by (metis prod.exhaust)
  obtain st2 r2 where s2: "send_to env st1 c (OutClose 4001 ''connection replaced'') = (st2, r2)"
    by (metis prod.exhaust)
  obtain st3 oa where s3: "evict_connection_locked st2 c = (st3, oa)" by (metis prod.exhaust)
  note a = send_to_spec [OF "2.prems"(1) s1]
  note b = notify_and_evict_spec [OF a(1) s2 s3]
  have "replace_connections env st3 cs (acc @ (case oa of Some a \<Rightarrow> [a] | None \<Rightarrow> [])) = (st', acc')"
    using "2.prems"(2) by (simp add: s1 s2 s3)
  from "2.IH" [OF s1 [symmetric] _ s2 [symmetric] _ s3 [symmetric] _ b(1) this]
  show ?case using a(2,4) b(2-4) by (auto simp: fun_eq_iff)
qed

lemma detach_previous_spec:
  assumes "hub_inv st"
  shows "routed (detach_previous st c) ((place st)(c := None))"
    "hs_connections (detach_previous st c) = hs_connections st"
    "hs_evicted_attachments (detach_previous st c) = hs_evicted_attachments st"
proof -
  show "hs_connections (detach_previous st c) = hs_connections st"
    "hs_evicted_attachments (detach_previous st c) = hs_evicted_attachments st"
    by (simp_all add: detach_previous_def Let_def)
  show "routed (detach_previous st c) ((place st)(c := None))"
    unfolding detach_previous_def Let_def detach_frame
  proof (rule detach_routed [OF hub_inv_routed [OF assms]])
    show "place st c = placement (Option.bind (map_of (hs_connections st) c) ce_attachment)
        (Option.bind (map_of (hs_connections st) c) ce_join_watch)"
      by (cases "map_of (hs_connections st) c") (simp_all add: place_def placement_def)
    show "Option.bind (map_of (hs_connections st) c) ce_attachment = None \<or>
        Option.bind (map_of (hs_connections st) c) ce_join_watch = None"
      using hub_inv_entry [OF assms] by (cases "map_of (hs_connections st) c") auto
  qed
qed

text \<open>Taking a place that nobody else holds.\<close>

lemma take_place:
  assumes inv: "hub_inv st" and e: "map_of (hs_connections st) c = Some e" "entry_ok e'"
    and pl: "placement (ce_attachment e') (ce_join_watch e') = Some (r, s, op)"
    and free: "\<forall>x p. x \<noteq> c \<longrightarrow> place st x \<noteq> Some (r, s, p)"
      "\<forall>x s' p. x \<noteq> c \<longrightarrow> op = Some p \<longrightarrow> place st x \<noteq> Some (r, s', Some p)"
    and st0: "st0 = detach_previous st c"
    and st': "st' = st0\<lparr>hs_connections := AList.update c e' (hs_connections st0),
        hs_room_connections := join_room_set c r (hs_room_connections st0),
        hs_session_routes := AList.update (r, s) c (hs_session_routes st0),
        hs_peer_routes := (case op of Some p \<Rightarrow> AList.update (r, p) c (hs_peer_routes st0)
                           | None \<Rightarrow> hs_peer_routes st0)\<rparr>"
  shows "hub_inv st'" "place st' = (place st)(c \<mapsto> (r, s, op))"
    "map_of (hs_connections st') = (map_of (hs_connections st))(c \<mapsto> e')"
proof -
  note d = detach_previous_spec [OF inv, of c, folded st0]
  show conns: "map_of (hs_connections st') = (map_of (hs_connections st))(c \<mapsto> e')"
    by (simp add: st' d update_conv')
  show place': "place st' = (place st)(c \<mapsto> (r, s, op))"
    using place_fun_upd [OF conns] pl by simp
  let ?pl = "(place st)(c := None)"
  from d(1) have ix: "session_index (map_of (hs_session_routes st0)) ?pl"
      "peer_index (map_of (hs_peer_routes st0)) ?pl" "room_index (map_of (hs_room_connections st0)) ?pl"
      "tables_wf st0" by (simp_all add: routed_def)
  have sr: "map_of (hs_session_routes st0) (r, s) = None"
    using ix(1) free(1) unfolding session_index_def by (metis fun_upd_apply not_None_eq)
  have pr: "map_of (hs_peer_routes st0) (r, p) = None" if "op = Some p" for p
    using ix(2) free(2) that unfolding peer_index_def by (metis fun_upd_apply not_None_eq)
  have "session_index (map_of (hs_session_routes st')) (place st')"
    using session_index_add [OF ix(1), of c r s op] sr unfolding place' by (simp add: st' update_conv')
  moreover have "peer_index (map_of (hs_peer_routes st')) (place st')"
    using peer_index_add [OF ix(2), of c r _ s] pr peer_index_add_watch [OF ix(2), of c r s]
    unfolding place' by (cases op) (simp_all add: st' update_conv')
  moreover have "room_index (map_of (hs_room_connections st')) (place st')"
    using room_index_add [OF ix(3), of c r s op] unfolding place' by (simp add: st')
  moreover have "tables_wf st'"
    using ix(4) by (auto simp: st' tables_wf_def hm.wf_put join_room_set_def split: option.splits)
  ultimately have "routed st' (place st')" by (simp add: routed_def)
  moreover have "hs_evicted_attachments st' = hs_evicted_attachments st" by (simp add: st' d)
  ultimately show "hub_inv st'"
    using inv conns e by (auto simp: hub_inv_def split: if_splits)
qed

lemma hub_attach_spec:
  assumes inv: "hub_inv st" and it: "iter_ok env" and e: "map_of (hs_connections st) c = Some e"
    and res: "hub_attach env st c rid code peer = (st', out)"
  shows "hub_inv st'" "\<exists>replaced. out = Inr replaced"
    "place st' = (\<lambda>x. if x = c then Some (rid, ce_session_id e, Some peer)
       else if map_of (hs_session_routes st) (rid, ce_session_id e) = Some x \<or>
               map_of (hs_peer_routes st) (rid, peer) = Some x then None else place st x)"
    "sess st' c = Some (ce_session_id e)"
proof -
  define sid where "sid = ce_session_id e"
  define a where "a = \<lparr>at_room_id = rid, at_room_code = code, at_session_id = sid, at_peer_id = peer\<rparr>"
  define ex where
    "ex = unique_existing c [map_of (hs_session_routes st) (rid, sid), map_of (hs_peer_routes st) (rid, peer)]"
  have ex: "set (he_iter env ex) = {x. x \<noteq> c \<and> (map_of (hs_session_routes st) (rid, sid) = Some x \<or>
      map_of (hs_peer_routes st) (rid, peer) = Some x)}"
    using it by (auto simp: iter_ok_def ex_def unique_existing_def split: option.splits)
  obtain st1 acc where r: "replace_connections env st (he_iter env ex) [] = (st1, acc)" by (metis prod.exhaust)
  note s1 = replace_connections_spec [OF inv r]
  have c1: "map_of (hs_connections st1) c = Some e" using s1 e ex by auto
  define st0 where "st0 = detach_previous st1 c"
  define e' where "e' = e\<lparr>ce_attachment := Some a, ce_join_watch := None\<rparr>"
  have out: "st' = st0\<lparr>hs_connections := AList.update c e' (hs_connections st0),
        hs_room_connections := join_room_set c rid (hs_room_connections st0),
        hs_session_routes := AList.update (rid, sid) c (hs_session_routes st0),
        hs_peer_routes := (case Some peer of Some p \<Rightarrow> AList.update (rid, p) c (hs_peer_routes st0)
                           | None \<Rightarrow> hs_peer_routes st0)\<rparr>" "out = Inr acc"
    using res e c1 detach_previous_spec(2) [of st1 c] s1
    unfolding hub_attach_def
    by (simp_all add: Let_def r [unfolded ex_def sid_def] st0_def e'_def a_def sid_def)
  have pl1: "place st1 x = (if map_of (hs_session_routes st) (rid, sid) = Some x \<or>
      map_of (hs_peer_routes st) (rid, peer) = Some x then None else place st x)" if "x \<noteq> c" for x
    using s1 ex that by auto
  have idx: "session_index (map_of (hs_session_routes st)) (place st)"
      "peer_index (map_of (hs_peer_routes st)) (place st)"
    using hub_inv_routed [OF inv] by (simp_all add: routed_def)
  have ok: "entry_ok e'" by (simp add: entry_ok_def e'_def a_def sid_def)
  have plc: "placement (ce_attachment e') (ce_join_watch e') = Some (rid, sid, Some peer)"
    by (simp add: placement_def e'_def a_def)
  have free: "\<forall>x p. x \<noteq> c \<longrightarrow> place st1 x \<noteq> Some (rid, sid, p)"
      "\<forall>x s' p. x \<noteq> c \<longrightarrow> Some peer = Some p \<longrightarrow> place st1 x \<noteq> Some (rid, s', Some p)"
    using pl1 idx by (auto simp: session_index_def peer_index_def)
  note t = take_place [OF conjunct1 [OF s1] c1 ok plc free st0_def out(1)]
  show "hub_inv st'" by (rule t)
  show "\<exists>replaced. out = Inr replaced" using out by blast
  show "place st' = (\<lambda>x. if x = c then Some (rid, ce_session_id e, Some peer)
       else if map_of (hs_session_routes st) (rid, ce_session_id e) = Some x \<or>
               map_of (hs_peer_routes st) (rid, peer) = Some x then None else place st x)"
    using t(2) pl1 by (auto simp: fun_eq_iff sid_def)
  show "sess st' c = Some (ce_session_id e)" using t(3) by (simp add: sess_def e'_def)
qed

lemma hub_watch_join_inv:
  assumes inv: "hub_inv st" and res: "hub_watch_join st c rid = (st', out)"
  shows "hub_inv st'"
proof (cases "map_of (hs_connections st) c")
  case None
  then show ?thesis using inv res by (simp add: hub_watch_join_def)
next
  case (Some e)
  define sid where "sid = ce_session_id e"
  define pre where "pre = (case map_of (hs_session_routes st) (rid, sid) of
      Some existing \<Rightarrow> if existing \<noteq> c
        then (case evict_connection_locked st existing of (st', Some a) \<Rightarrow> (st', [a]) | (st', None) \<Rightarrow> (st', []))
        else (st, [])
    | None \<Rightarrow> (st, []))"
  obtain st1 acc where r: "pre = (st1, acc)" by (metis prod.exhaust)
  have idx: "session_index (map_of (hs_session_routes st)) (place st)"
    using hub_inv_routed [OF inv] by (simp add: routed_def)
  have s1: "hub_inv st1 \<and> map_of (hs_connections st1) c = Some e \<and>
      (\<forall>x p. x \<noteq> c \<longrightarrow> place st1 x \<noteq> Some (rid, sid, p))"
  proof (cases "\<exists>x. map_of (hs_session_routes st) (rid, sid) = Some x \<and> x \<noteq> c")
    case True
    then obtain x where x: "map_of (hs_session_routes st) (rid, sid) = Some x" "x \<noteq> c" by blast
    obtain st2 oa where ev: "evict_connection_locked st x = (st2, oa)" by (metis prod.exhaust)
    then have "st1 = st2" using r x by (auto simp: pre_def split: option.splits)
    moreover have "y = x" if "place st y = Some (rid, sid, p)" for y p
      using idx x that unfolding session_index_def by (metis option.inject)
    ultimately show ?thesis using evict_connection_spec [OF inv ev] x Some by auto
  next
    case False
    then have "st1 = st" using r by (auto simp: pre_def split: option.splits if_splits)
    with inv Some False idx show ?thesis by (auto simp: session_index_def)
  qed
  define st0 where "st0 = detach_previous st1 c"
  define e' where "e' = e\<lparr>ce_attachment := None, ce_join_watch := Some \<lparr>jw_room_id = rid, jw_session_id = sid\<rparr>\<rparr>"
  have out: "st' = st0\<lparr>hs_connections := AList.update c e' (hs_connections st0),
        hs_room_connections := join_room_set c rid (hs_room_connections st0),
        hs_session_routes := AList.update (rid, sid) c (hs_session_routes st0),
        hs_peer_routes := (case None of Some p \<Rightarrow> AList.update (rid, p) c (hs_peer_routes st0)
                           | None \<Rightarrow> hs_peer_routes st0)\<rparr>"
    using res Some s1 detach_previous_spec(2) [of st1 c]
    unfolding hub_watch_join_def
    by (auto simp: Let_def r [unfolded pre_def sid_def] st0_def e'_def sid_def)
  have ok: "entry_ok e'" by (simp add: entry_ok_def e'_def sid_def)
  have plc: "placement (ce_attachment e') (ce_join_watch e') = Some (rid, sid, None)"
    by (simp add: placement_def e'_def)
  show ?thesis
    using s1 by (intro take_place(1) [OF _ _ ok plc _ _ st0_def out]) auto
qed

lemma hub_register_inv:
  assumes inv: "hub_inv st" and fresh: "map_of (hs_connections st) c = None" "map_of (hs_evicted_attachments st) c = None"
  shows "hub_inv (hub_register env q c st s)" "place (hub_register env q c st s) = place st"
proof -
  let ?e = "\<lparr>ce_session_id = s, ce_sender = he_channel env (hub_queue_capacity q), ce_attachment = None,
    ce_join_watch = None\<rparr>"
  have conns: "map_of (hs_connections (hub_register env q c st s)) = (map_of (hs_connections st))(c \<mapsto> ?e)"
    by (simp add: hub_register_def update_conv')
  show pl: "place (hub_register env q c st s) = place st"
    using place_fun_upd [OF conns] place_None [OF fresh(1)] by (auto simp: fun_eq_iff placement_def)
  have "routed (hub_register env q c st s) (place st)"
    using hub_inv_routed [OF inv] hub_inv_wf [OF inv]
    by (simp add: hub_register_def routed_connections hm.wf_put tables_wf_def)
  moreover have "hs_evicted_attachments (hub_register env q c st s) = hs_evicted_attachments st"
    by (simp add: hub_register_def)
  moreover have "entry_ok ?e" by (simp add: entry_ok_def)
  ultimately show "hub_inv (hub_register env q c st s)"
    using inv conns fresh(2) by (auto simp: hub_inv_def pl split: if_splits)
qed

lemma hub_detach_spec:
  assumes inv: "hub_inv st" and res: "hub_detach st c = (st', out)"
  shows "hub_inv st'" "place st' = (place st)(c := None)"
    "out = (case map_of (hs_connections st) c of None \<Rightarrow> Inl ConnectionNotFound | Some e \<Rightarrow> Inr (ce_attachment e))"
proof -
  have "hub_inv st' \<and> place st' = (place st)(c := None) \<and>
    out = (case map_of (hs_connections st) c of None \<Rightarrow> Inl ConnectionNotFound | Some e \<Rightarrow> Inr (ce_attachment e))"
  proof (cases "map_of (hs_connections st) c")
    case None
    then show ?thesis using inv res place_None [OF None] by (auto simp: hub_detach_def fun_eq_iff)
  next
    case (Some e)
    define e' where "e' = e\<lparr>ce_attachment := None, ce_join_watch := None\<rparr>"
    have conns: "map_of (hs_connections st') = (map_of (hs_connections st))(c \<mapsto> e')"
      and ev: "hs_evicted_attachments st' = hs_evicted_attachments st" and out: "out = Inr (ce_attachment e)"
      using res Some by (auto simp: hub_detach_def Let_def e'_def update_conv')
    have pl: "place st' = (place st)(c := None)"
      using place_fun_upd [OF conns] by (simp add: e'_def placement_def)
    define mid where "mid = detach_watch (detach_attachment st c (ce_attachment e)) c (ce_join_watch e)"
    have "routed mid ((place st)(c := None))"
      unfolding mid_def using hub_inv_entry [OF inv Some] by (intro detach_routed [OF hub_inv_routed [OF inv]]) auto
    moreover have "hs_session_routes st' = hs_session_routes mid" "hs_peer_routes st' = hs_peer_routes mid"
        "hs_room_connections st' = hs_room_connections mid"
      using res Some
      by (auto simp: hub_detach_def Let_def mid_def detach_attachment_def detach_watch_def detach_mappings_def
          detach_watch_mappings_def split: option.splits)
    moreover have "hm_wf (hs_connections st')"
      using res Some hub_inv_wf [OF inv] by (auto simp: hub_detach_def Let_def tables_wf_def hm.wf_put)
    moreover have "hm_wf (hs_evicted_attachments st')"
      using hub_inv_wf [OF inv] by (simp add: ev tables_wf_def)
    ultimately have "routed st' (place st')" by (simp add: routed_def tables_wf_def pl)
    moreover have "entry_ok e'" by (simp add: entry_ok_def e'_def)
    ultimately have "hub_inv st'"
      using inv conns Some ev by (auto simp: hub_inv_def split: if_splits)
    with pl out Some show ?thesis by simp
  qed
  then show "hub_inv st'" "place st' = (place st)(c := None)"
    "out = (case map_of (hs_connections st) c of None \<Rightarrow> Inl ConnectionNotFound | Some e \<Rightarrow> Inr (ce_attachment e))"
    by blast+
qed

lemma hub_inv_evicted_delete:
  assumes "hub_inv st"
  shows "hub_inv (st\<lparr>hs_evicted_attachments := AList.delete c (hs_evicted_attachments st)\<rparr>)"
  using assms
  by (auto simp: hub_inv_def routed_def tables_wf_def hm_wf_delete place_def [abs_def] map_of_hm_delete split: if_splits)

lemma hub_unregister_spec:
  assumes inv: "hub_inv st" and res: "hub_unregister st c = (st', oa)"
  shows "hub_inv st'" "place st' = (place st)(c := None)"
    "map_of (hs_connections st') = (map_of (hs_connections st))(c := None)"
    "oa = (case Option.bind (map_of (hs_connections st) c) ce_attachment of
       Some a \<Rightarrow> Some a | None \<Rightarrow> map_of (hs_evicted_attachments st) c)"
    "map_of (hs_evicted_attachments st') c = None"
proof -
  obtain st1 oa1 where r: "remove_connection_locked st c = (st1, oa1)" by (metis prod.exhaust)
  note s = remove_connection_spec [OF inv r]
  let ?st2 = "st1\<lparr>hs_evicted_attachments := AList.delete c (hs_evicted_attachments st1)\<rparr>"
  have pl: "place ?st2 = place st1" by (simp add: place_def fun_eq_iff)
  have cases: "(\<exists>a. oa1 = Some a) \<and> st' = st1 \<and> oa = oa1 \<or>
      oa1 = None \<and> st' = ?st2 \<and> oa = map_of (hs_evicted_attachments st1) c"
    using res r by (auto simp: hub_unregister_def split: option.splits)
  show "hub_inv st'" "place st' = (place st)(c := None)"
    "map_of (hs_connections st') = (map_of (hs_connections st))(c := None)"
    using cases s hub_inv_evicted_delete [OF s(1), of c] pl by auto
  show "oa = (case Option.bind (map_of (hs_connections st) c) ce_attachment of
       Some a \<Rightarrow> Some a | None \<Rightarrow> map_of (hs_evicted_attachments st) c)"
    using cases s(4,5) by (auto split: option.splits)
  have "map_of (hs_evicted_attachments st) c = None" if "oa1 \<noteq> None"
    using that s(4) inv by (cases "map_of (hs_connections st) c") (auto simp: hub_inv_def)
  then show "map_of (hs_evicted_attachments st') c = None"
    using cases s(5) by (auto simp: map_of_hm_delete)
qed

lemma evict_inv: "hub_inv st \<Longrightarrow> hub_inv (fst (evict_connection_locked st c))"
  by (metis evict_connection_spec(1) prod.collapse)

lemma hub_send_inv:
  assumes "hub_inv st" "hub_send env st c out = (st', r)"
  shows "hub_inv st'"
proof -
  obtain st1 r1 where s: "send_to env st c out = (st1, r1)" by (metis prod.exhaust)
  have "hub_inv st1" by (rule send_to_spec [OF assms(1) s])
  then show ?thesis
    using assms(2) s evict_inv [of st1 c]
    by (auto simp: hub_send_def split: option.splits try_send_result.splits)
qed

lemma hub_send_to_peer_inv:
  assumes "hub_inv st" "hub_send_to_peer env st c p m = (st', r)"
  shows "hub_inv st'"
proof -
  consider "st' = st"
    | t st1 r1 where "send_to env st t (OutMessage m) = (st1, r1)"
        "st' = st1 \<or> st' = fst (evict_connection_locked st1 t)"
    using assms(2)
    by (auto simp: hub_send_to_peer_def split: option.splits try_send_result.splits if_splits prod.splits)
  then show ?thesis
  proof cases
    case 1
    then show ?thesis using assms(1) by simp
  next
    case (2 t st1 r1)
    then show ?thesis using send_to_spec(1) [OF assms(1) 2(1)] evict_inv [of st1 t] by auto
  qed
qed

lemma broadcast_to_spec:
  assumes "hub_inv st" "broadcast_to env m st cs acc = (st', acc')"
  shows "hub_inv st'" "\<forall>x. x \<notin> set cs \<longrightarrow> map_of (hs_connections st') x = map_of (hs_connections st) x"
proof -
  have "hub_inv st' \<and> (\<forall>x. x \<notin> set cs \<longrightarrow> map_of (hs_connections st') x = map_of (hs_connections st) x)"
    using assms
  proof (induction cs arbitrary: st acc)
    case Nil
    then show ?case by simp
  next
    case (Cons c cs)
    obtain st1 r where s: "send_to env st c (OutMessage m) = (st1, r)" by (metis prod.exhaust)
    obtain st2 oa where ev: "evict_connection_locked st1 c = (st2, oa)" by (metis prod.exhaust)
    note a = send_to_spec [OF Cons.prems(1) s]
    note b = notify_and_evict_spec [OF Cons.prems(1) s ev]
    have "\<exists>acc1. broadcast_to env m st1 cs acc1 = (st', acc') \<or> broadcast_to env m st2 cs acc1 = (st', acc')"
      using Cons.prems(2) by (auto simp: s ev split: option.splits try_send_result.splits)
    then show ?case
      using Cons.IH [OF a(1)] Cons.IH [OF b(1)] a(4) b(3) by (metis list.set_intros)
  qed
  then show "hub_inv st'" "\<forall>x. x \<notin> set cs \<longrightarrow> map_of (hs_connections st') x = map_of (hs_connections st) x"
    by blast+
qed

lemma broadcast_to_members:
  assumes "hub_inv st" "broadcast_to env m st cs acc = (st', acc')" "distinct cs" "x \<in> set cs"
    and "map_of (hs_connections st) x = Some e"
  shows "map_of (hs_connections st') x =
    (case he_try_send env (ce_sender e) (OutMessage m) of
       (ch, SendOk) \<Rightarrow> Some (e\<lparr>ce_sender := ch\<rparr>) | _ \<Rightarrow> None)"
  using assms
proof (induction cs arbitrary: st acc)
  case (Cons c cs)
  obtain st1 r where s: "send_to env st c (OutMessage m) = (st1, r)" by (metis prod.exhaust)
  obtain st2 oa where ev: "evict_connection_locked st1 c = (st2, oa)" by (metis prod.exhaust)
  note a = send_to_spec [OF Cons.prems(1) s]
  note b = notify_and_evict_spec [OF Cons.prems(1) s ev]
  have rest: "(\<exists>acc1. broadcast_to env m st1 cs acc1 = (st', acc')) \<and> (r = None \<or> r = Some SendOk) \<or>
      (\<exists>acc1. broadcast_to env m st2 cs acc1 = (st', acc')) \<and> (r = Some SendFull \<or> r = Some SendClosed)"
    using Cons.prems(2) by (auto simp: s ev split: option.splits try_send_result.splits)
  show ?case
  proof (cases "x = c")
    case True
    then have x: "x \<notin> set cs" using Cons.prems(3) by simp
    have "r = Some (snd (he_try_send env (ce_sender e) (OutMessage m)))"
      using a(6) Cons.prems(5) True by simp
    then show ?thesis
      using rest x True a(5) b(4) Cons.prems(5) broadcast_to_spec(2) [OF a(1)] broadcast_to_spec(2) [OF b(1)]
      by (auto split: prod.splits try_send_result.splits)
  next
    case False
    then have "map_of (hs_connections st1) x = Some e" "map_of (hs_connections st2) x = Some e"
      using Cons.prems(5) a(4) b(3) by auto
    then show ?thesis
      using rest Cons.IH [OF a(1)] Cons.IH [OF b(1)] Cons.prems(3,4) False by auto
  qed
qed simp

lemma disconnect_all_spec:
  assumes "hub_inv st" "disconnect_all env code reason st cs acc = (st', acc')"
  shows "hub_inv st'" "place st' = (\<lambda>x. if x \<in> set cs then None else place st x)"
    "\<forall>x. x \<notin> set cs \<longrightarrow> map_of (hs_connections st') x = map_of (hs_connections st) x"
    "\<forall>x \<in> set cs. map_of (hs_connections st') x = None"
proof -
  have "hub_inv st' \<and> place st' = (\<lambda>x. if x \<in> set cs then None else place st x) \<and>
    (\<forall>x. x \<notin> set cs \<longrightarrow> map_of (hs_connections st') x = map_of (hs_connections st) x) \<and>
    (\<forall>x \<in> set cs. map_of (hs_connections st') x = None)"
    using assms
  proof (induction cs arbitrary: st acc)
    case Nil
    then show ?case by simp
  next
    case (Cons c cs)
    obtain st1 r where s: "send_to env st c (OutClose code reason) = (st1, r)" by (metis prod.exhaust)
    obtain st2 oa where ev: "evict_connection_locked st1 c = (st2, oa)" by (metis prod.exhaust)
    note b = notify_and_evict_spec [OF Cons.prems(1) s ev]
    have "disconnect_all env code reason st2 cs (acc @ (case oa of Some a \<Rightarrow> [a] | None \<Rightarrow> [])) = (st', acc')"
      using Cons.prems(2) by (simp add: s ev)
    from Cons.IH [OF b(1) this] b(2-4) show ?case by (auto simp: fun_eq_iff)
  qed
  then show "hub_inv st'" "place st' = (\<lambda>x. if x \<in> set cs then None else place st x)"
    "\<forall>x. x \<notin> set cs \<longrightarrow> map_of (hs_connections st') x = map_of (hs_connections st) x"
    "\<forall>x \<in> set cs. map_of (hs_connections st') x = None"
    by blast+
qed

lemma hub_disconnect_session_spec:
  assumes "hub_inv st" "hub_disconnect_session env st rid sid code reason = (st', acc)"
  shows "hub_inv st'" "map_of (hs_session_routes st) (rid, sid) = Some c \<Longrightarrow> map_of (hs_connections st') c = None"
proof -
  have "hub_inv st' \<and> (\<forall>c. map_of (hs_session_routes st) (rid, sid) = Some c \<longrightarrow> map_of (hs_connections st') c = None)"
  proof (cases "map_of (hs_session_routes st) (rid, sid)")
    case (Some c)
    obtain st1 r where s: "send_to env st c (OutClose code reason) = (st1, r)" by (metis prod.exhaust)
    obtain st2 oa where ev: "evict_connection_locked st1 c = (st2, oa)" by (metis prod.exhaust)
    have "st' = st2" using assms(2) Some by (simp add: hub_disconnect_session_def s ev)
    with notify_and_evict_spec [OF assms(1) s ev] Some show ?thesis by auto
  qed (use assms in \<open>simp add: hub_disconnect_session_def\<close>)
  then show "hub_inv st'" "map_of (hs_session_routes st) (rid, sid) = Some c \<Longrightarrow> map_of (hs_connections st') c = None"
    by blast+
qed

end
