(* ===== verification/Hub_Properties.thy ===== *)
theory Hub_Properties
  imports Hub_Laws
begin

text \<open>
  What the realtime hub guarantees: its route tables always agree with its connections,
  signals stay within a room, a newer connection replaces the older ones, a broadcast reaches
  exactly the room, and the attachment of every connection is handed back once for cleanup.
\<close>

section \<open>Runs of the hub\<close>

text \<open>One operation under the mutex. A registration draws an identifier no connection has or had.\<close>

inductive hub_step :: "'ch hub_env \<Rightarrow> nat \<Rightarrow> 'ch hub_state \<Rightarrow> 'ch hub_state \<Rightarrow> bool"
  for env :: "'ch hub_env" and q :: nat where
  register: "map_of (hs_connections st) c = None \<Longrightarrow> map_of (hs_evicted_attachments st) c = None \<Longrightarrow>
    hub_step env q st (hub_register env q c st s)"
| attach: "hub_attach env st c rid code peer = (st', out) \<Longrightarrow> hub_step env q st st'"
| watch_join: "hub_watch_join st c rid = (st', out) \<Longrightarrow> hub_step env q st st'"
| detach: "hub_detach st c = (st', out') \<Longrightarrow> hub_step env q st st'"
| unregister: "hub_unregister st c = (st', oa) \<Longrightarrow> hub_step env q st st'"
| send: "hub_send env st c m = (st', r) \<Longrightarrow> hub_step env q st st'"
| send_to_peer: "hub_send_to_peer env st c p msg = (st', r) \<Longrightarrow> hub_step env q st st'"
| broadcast: "hub_broadcast env st rid msg = (st', evicted) \<Longrightarrow> hub_step env q st st'"
| disconnect_session: "hub_disconnect_session env st rid sid code16 reason = (st', gone) \<Longrightarrow> hub_step env q st st'"
| disconnect_room: "hub_disconnect_room env st rid code16 reason = (st', gone) \<Longrightarrow> hub_step env q st st'"

lemma hub_attach_missing:
  "map_of (hs_connections st) c = None \<Longrightarrow> hub_attach env st c rid code peer = (st, Inl ConnectionNotFound)"
  by (simp add: hub_attach_def)

lemma hub_step_inv:
  assumes "hub_step env q st st'" "hub_inv st" "iter_ok env"
  shows "hub_inv st'"
  using assms(1)
proof (cases rule: hub_step.cases)
  case (register c s)
  then show ?thesis using hub_register_inv(1) [OF assms(2)] by blast
next
  case (attach c rid code peer out)
  show ?thesis
  proof (cases "map_of (hs_connections st) c")
    case None
    then show ?thesis using attach assms(2) hub_attach_missing [OF None, of env rid code peer] by simp
  next
    case (Some e)
    then show ?thesis by (rule hub_attach_spec(1) [OF assms(2,3) _ attach])
  qed
next
  case (watch_join c rid out)
  then show ?thesis by (rule hub_watch_join_inv [OF assms(2)])
next
  case (detach c out)
  then show ?thesis by (rule hub_detach_spec(1) [OF assms(2)])
next
  case (unregister c oa)
  then show ?thesis by (rule hub_unregister_spec(1) [OF assms(2)])
next
  case (send c m r)
  then show ?thesis by (rule hub_send_inv [OF assms(2)])
next
  case (send_to_peer c p msg r)
  then show ?thesis by (rule hub_send_to_peer_inv [OF assms(2)])
next
  case (broadcast rid msg evicted)
  then show ?thesis unfolding hub_broadcast_def by (rule broadcast_to_spec(1) [OF assms(2)])
next
  case (disconnect_session rid sid code reason gone)
  then show ?thesis by (rule hub_disconnect_session_spec(1) [OF assms(2)])
next
  case (disconnect_room rid code reason gone)
  then show ?thesis unfolding hub_disconnect_room_def by (rule disconnect_all_spec(1) [OF assms(2)])
qed

lemma hub_empty_inv: "hub_inv hub_empty"
  by (simp add: hub_inv_def hub_empty_def routed_def tables_wf_def session_index_def peer_index_def
      room_index_def place_def hm_wf_def)

lemma hub_reachable_inv:
  assumes "(hub_step env q)\<^sup>*\<^sup>* hub_empty st" "iter_ok env"
  shows "hub_inv st"
  using assms(1) by (induction rule: rtranclp_induct) (auto intro: hub_empty_inv hub_step_inv assms(2))

lemma routes_iff:
  assumes "hub_inv st"
  shows "map_of (hs_session_routes st) (r, s) = Some c \<longleftrightarrow> (\<exists>p. place st c = Some (r, s, p))"
    and "map_of (hs_peer_routes st) (r, p) = Some c \<longleftrightarrow> (\<exists>s. place st c = Some (r, s, Some p))"
    and "c \<in> set (room_members st r) \<longleftrightarrow> (\<exists>s p. place st c = Some (r, s, p))"
    and "distinct (room_members st r)"
proof -
  from hub_inv_routed [OF assms] have i: "session_index (map_of (hs_session_routes st)) (place st)"
      "peer_index (map_of (hs_peer_routes st)) (place st)" "room_index (map_of (hs_room_connections st)) (place st)"
    by (simp_all add: routed_def)
  show "map_of (hs_session_routes st) (r, s) = Some c \<longleftrightarrow> (\<exists>p. place st c = Some (r, s, p))"
    using i(1) by (simp add: session_index_def)
  show "map_of (hs_peer_routes st) (r, p) = Some c \<longleftrightarrow> (\<exists>s. place st c = Some (r, s, Some p))"
    using i(2) by (simp add: peer_index_def)
  show "c \<in> set (room_members st r) \<longleftrightarrow> (\<exists>s p. place st c = Some (r, s, p))" "distinct (room_members st r)"
    using i(3) by (auto simp: room_index_def room_members_def split: option.splits dest!: spec [of _ r])
qed

text \<open>An attachment of a connection is its place.\<close>

lemma attached_place:
  "Option.bind (map_of (hs_connections st) c) ce_attachment = Some a \<Longrightarrow>
   place st c = Some (at_room_id a, at_session_id a, Some (at_peer_id a))"
  by (cases "map_of (hs_connections st) c") (auto simp: place_def placement_def)

lemma place_peer_attached:
  "place st c = Some (r, s, Some p) \<longleftrightarrow>
   (\<exists>a. Option.bind (map_of (hs_connections st) c) ce_attachment = Some a \<and>
      at_room_id a = r \<and> at_session_id a = s \<and> at_peer_id a = p)"
  by (cases "map_of (hs_connections st) c") (auto simp: place_def placement_def split: option.splits)

section \<open>Example\<close>

text \<open>Two sessions in one room, with channels that count what they carry.\<close>

definition ex_env :: "nat hub_env" where
  "ex_env = \<lparr>he_channel = (\<lambda>_. 0), he_try_send = (\<lambda>n _. (Suc n, SendOk)), he_iter = (\<lambda>xs. xs)\<rparr>"

abbreviation ex_c1 :: connection_id where "ex_c1 \<equiv> ConnectionId [1]"
abbreviation ex_c2 :: connection_id where "ex_c2 \<equiv> ConnectionId [2]"

definition ex_hub :: "nat hub_state" where
  "ex_hub =
     fst (hub_attach ex_env
       (hub_register ex_env 4 ex_c2
         (fst (hub_attach ex_env (hub_register ex_env 4 ex_c1 hub_empty (SessionId [1]))
           ex_c1 (RoomId [9]) (RoomCode []) (PeerId [1])))
         (SessionId [2]))
       ex_c2 (RoomId [9]) (RoomCode []) (PeerId [2]))"

lemma ex_env_iter: "iter_ok ex_env"
  by (simp add: iter_ok_def ex_env_def)

lemma ex_hub_eq:
  "ex_hub = \<lparr>hs_connections =
      [(ex_c1, \<lparr>ce_session_id = SessionId [1], ce_sender = 0, ce_attachment =
          Some \<lparr>at_room_id = RoomId [9], at_room_code = RoomCode [], at_session_id = SessionId [1],
            at_peer_id = PeerId [1]\<rparr>, ce_join_watch = None\<rparr>),
       (ex_c2, \<lparr>ce_session_id = SessionId [2], ce_sender = 0, ce_attachment =
          Some \<lparr>at_room_id = RoomId [9], at_room_code = RoomCode [], at_session_id = SessionId [2],
            at_peer_id = PeerId [2]\<rparr>, ce_join_watch = None\<rparr>)],
     hs_evicted_attachments = [], hs_room_connections = [(RoomId [9], [ex_c2, ex_c1])],
     hs_session_routes = [((RoomId [9], SessionId [1]), ex_c1), ((RoomId [9], SessionId [2]), ex_c2)],
     hs_peer_routes = [((RoomId [9], PeerId [1]), ex_c1), ((RoomId [9], PeerId [2]), ex_c2)]\<rparr>"
  by code_simp

lemma hub_attach_step: "hub_step env q st (fst (hub_attach env st c rid code peer))"
  by (rule hub_step.attach [OF surjective_pairing])

lemma ex_hub_inv: "hub_inv ex_hub"
proof -
  let ?h1 = "hub_register ex_env 4 ex_c1 hub_empty (SessionId [1])"
  let ?h2 = "fst (hub_attach ex_env ?h1 ex_c1 (RoomId [9]) (RoomCode []) (PeerId [1]))"
  let ?h3 = "hub_register ex_env 4 ex_c2 ?h2 (SessionId [2])"
  have "hub_inv ?h1" by (rule hub_register_inv [OF hub_empty_inv]) (simp_all add: hub_empty_def)
  then have h2: "hub_inv ?h2" by (rule hub_step_inv [OF hub_attach_step _ ex_env_iter])
  have "map_of (hs_connections ?h2) ex_c2 = None" "map_of (hs_evicted_attachments ?h2) ex_c2 = None"
    by code_simp+
  then have "hub_inv ?h3" by (rule hub_register_inv [OF h2])
  then show ?thesis unfolding ex_hub_def by (rule hub_step_inv [OF hub_attach_step _ ex_env_iter])
qed

section \<open>Properties\<close>

text \<open>C18. In every state the hub can reach, the route tables are exactly the indexes of the live
  connections: a session route leads to the one connection of that session in that room, a
  peer route to the one connection attached there as that peer, and the connections listed for
  a room are those attached to it or watching it, each once.\<close>

theorem hub_routes_agree:
  assumes "(hub_step env q)\<^sup>*\<^sup>* hub_empty st" and "iter_ok env"
  shows "(map_of (hs_session_routes st) (r, s) = Some c \<longleftrightarrow> (\<exists>p. place st c = Some (r, s, p))) \<and>
    (map_of (hs_peer_routes st) (r, p) = Some c \<longleftrightarrow>
      (\<exists>a. hub_attachment st c = Inr a \<and> at_room_id a = r \<and> at_peer_id a = p)) \<and>
    (c \<in> set (room_members st r) \<longleftrightarrow> (\<exists>s p. place st c = Some (r, s, p))) \<and> distinct (room_members st r)"
proof -
  note inv = hub_reachable_inv [OF assms]
  have "(\<exists>s. place st c = Some (r, s, Some p)) \<longleftrightarrow>
      (\<exists>a. hub_attachment st c = Inr a \<and> at_room_id a = r \<and> at_peer_id a = p)"
    by (auto simp: hub_attachment_def result_simps place_peer_attached)
  then show ?thesis by (simp add: routes_iff [OF inv])
qed

theorem hub_routes_agree_witness:
  "distinct (room_members (hub_register ex_env 4 ex_c1 hub_empty (SessionId [1])) (RoomId [9]))"
proof -
  have "(hub_step ex_env 4)\<^sup>*\<^sup>* hub_empty (hub_register ex_env 4 ex_c1 hub_empty (SessionId [1]))"
    by (intro r_into_rtranclp hub_step.register) (simp_all add: hub_empty_def)
  from hub_routes_agree [OF this ex_env_iter] show ?thesis by blast
qed

text \<open>C19. Signals stay within a room: relaying a message to a peer succeeds only when the sender is
  attached, and then exactly one connection is touched, the one attached to the sender's room
  as that peer, which is not the sender, and it is offered exactly that message; whatever the
  outcome, no connection other than that target changes.\<close>

theorem signal_stays_in_room:
  assumes "hub_inv st" and "hub_send_to_peer env st c to_peer m = (st', r)"
  shows "(r = Inr () \<longrightarrow>
      (\<exists>a t b e. hub_attachment st c = Inr a \<and> hub_attachment st t = Inr b \<and> t \<noteq> c \<and>
         at_room_id b = at_room_id a \<and> at_peer_id b = to_peer \<and> map_of (hs_connections st) t = Some e \<and>
         he_try_send env (ce_sender e) (OutMessage m) = (fst (he_try_send env (ce_sender e) (OutMessage m)), SendOk) \<and>
         map_of (hs_connections st') =
           (map_of (hs_connections st))(t \<mapsto> e\<lparr>ce_sender := fst (he_try_send env (ce_sender e) (OutMessage m))\<rparr>))) \<and>
    (\<forall>x a. map_of (hs_connections st') x \<noteq> map_of (hs_connections st) x \<and> hub_attachment st c = Inr a \<longrightarrow>
       map_of (hs_peer_routes st) (at_room_id a, to_peer) = Some x)"
proof (cases "Option.bind (map_of (hs_connections st) c) ce_attachment")
  case None
  then show ?thesis using assms(2) by (auto simp: hub_send_to_peer_def)
next
  case (Some a)
  then have c: "hub_attachment st c = Inr a" by (simp add: hub_attachment_def ok_or_def)
  show ?thesis
  proof (cases "at_peer_id a = to_peer \<or> map_of (hs_peer_routes st) (at_room_id a, to_peer) = None")
    case True
    then show ?thesis using assms(2) Some by (auto simp: hub_send_to_peer_def split: if_splits)
  next
    case False
    then obtain t where t: "map_of (hs_peer_routes st) (at_room_id a, to_peer) = Some t" "at_peer_id a \<noteq> to_peer"
      by auto
    then obtain sid where "place st t = Some (at_room_id a, sid, Some to_peer)"
      using routes_iff(2) [OF assms(1)] by blast
    then obtain b where b: "Option.bind (map_of (hs_connections st) t) ce_attachment = Some b"
        "at_room_id b = at_room_id a" "at_peer_id b = to_peer"
      by (auto simp: place_peer_attached)
    then obtain e where e: "map_of (hs_connections st) t = Some e" by (cases "map_of (hs_connections st) t") auto
    have tc: "t \<noteq> c" using b Some t by auto
    obtain st1 r1 where s: "send_to env st t (OutMessage m) = (st1, r1)" by (metis prod.exhaust)
    note sp = send_to_spec [OF assms(1) s]
    obtain st2 oa where ev: "evict_connection_locked st1 t = (st2, oa)" by (metis prod.exhaust)
    note ne = notify_and_evict_spec(3) [OF assms(1) s ev]
    have ok: "r1 = Some SendOk" "st' = st1" if "r = Inr ()"
      using assms(2) Some t s ev that
      by (auto simp: hub_send_to_peer_def split: option.splits try_send_result.splits)
    have only: "\<forall>x. x \<noteq> t \<longrightarrow> map_of (hs_connections st') x = map_of (hs_connections st) x"
      using assms(2) Some t s ev sp(4) ne
      by (auto simp: hub_send_to_peer_def split: option.splits try_send_result.splits)
    have upd: "map_of (hs_connections st1) =
        (map_of (hs_connections st))(t \<mapsto> e\<lparr>ce_sender := fst (he_try_send env (ce_sender e) (OutMessage m))\<rparr>)"
      using sp(4,5) e by (auto simp: fun_eq_iff)
    have res: "r1 = Some (snd (he_try_send env (ce_sender e) (OutMessage m)))" using sp(6) e by simp
    have tb: "hub_attachment st t = Inr b" using b(1) by (simp add: hub_attachment_def ok_or_def)
    have "\<exists>a t b e. hub_attachment st c = Inr a \<and> hub_attachment st t = Inr b \<and> t \<noteq> c \<and>
         at_room_id b = at_room_id a \<and> at_peer_id b = to_peer \<and> map_of (hs_connections st) t = Some e \<and>
         he_try_send env (ce_sender e) (OutMessage m) = (fst (he_try_send env (ce_sender e) (OutMessage m)), SendOk) \<and>
         map_of (hs_connections st') =
           (map_of (hs_connections st))(t \<mapsto> e\<lparr>ce_sender := fst (he_try_send env (ce_sender e) (OutMessage m))\<rparr>)"
      if "r = Inr ()"
      using ok [OF that] upd res c tb tc b(2,3) e
      by (intro exI [of _ a] exI [of _ t] exI [of _ b] exI [of _ e]) (simp add: prod_eq_iff)
    moreover have "x = t" if "map_of (hs_connections st') x \<noteq> map_of (hs_connections st) x" for x
      using only that by blast
    ultimately show ?thesis using c t(1) by auto
  qed
qed

theorem signal_stays_in_room_witness:
  "\<exists>t b. snd (hub_send_to_peer ex_env ex_hub ex_c1 (PeerId [2]) (SmRoomExpired CURRENT_PROTOCOL [] 0)) = Inr () \<and>
     t \<noteq> ex_c1 \<and> hub_attachment ex_hub t = Inr b \<and> at_peer_id b = PeerId [2]"
proof -
  have ok: "snd (hub_send_to_peer ex_env ex_hub ex_c1 (PeerId [2]) (SmRoomExpired CURRENT_PROTOCOL [] 0)) = Inr ()"
    by (simp add: ex_hub_eq hub_send_to_peer_def send_to_def ex_env_def)
  then have "hub_send_to_peer ex_env ex_hub ex_c1 (PeerId [2]) (SmRoomExpired CURRENT_PROTOCOL [] 0) =
      (fst (hub_send_to_peer ex_env ex_hub ex_c1 (PeerId [2]) (SmRoomExpired CURRENT_PROTOCOL [] 0)), Inr ())"
    by (metis prod.collapse)
  from signal_stays_in_room [OF ex_hub_inv this] ok show ?thesis by blast
qed

text \<open>The newest attachment wins: attaching an existing connection succeeds and leaves it the
  only connection of its session and the only connection of that peer identifier in the room,
  reachable by both routes; connections elsewhere keep their places.\<close>

theorem attach_takes_over:
  assumes "hub_inv st" and "iter_ok env" and "map_of (hs_connections st) c = Some e"
    and "hub_attach env st c rid code peer = (st', out)"
  shows "(\<exists>replaced. out = Inr replaced) \<and>
    map_of (hs_session_routes st') (rid, ce_session_id e) = Some c \<and>
    map_of (hs_peer_routes st') (rid, peer) = Some c \<and>
    (\<forall>x p. place st' x = Some (rid, ce_session_id e, p) \<longrightarrow> x = c) \<and>
    (\<forall>x s. place st' x = Some (rid, s, Some peer) \<longrightarrow> x = c) \<and>
    (\<forall>x. x \<noteq> c \<longrightarrow> place st x \<noteq> place st' x \<longrightarrow>
       (\<exists>s p. place st x = Some (rid, s, p) \<and> (s = ce_session_id e \<or> p = Some peer)))"
proof -
  note a = hub_attach_spec [OF assms]
  have pc: "place st' c = Some (rid, ce_session_id e, Some peer)" by (simp add: a(3))
  have routes: "map_of (hs_session_routes st') (rid, ce_session_id e) = Some c"
      "map_of (hs_peer_routes st') (rid, peer) = Some c"
    using routes_iff(1,2) [OF a(1)] pc by blast+
  have "x = c" if "place st' x = Some (rid, ce_session_id e, p)" for x p
    using routes(1) routes_iff(1) [OF a(1), of rid "ce_session_id e" x] that by auto
  moreover have "x = c" if "place st' x = Some (rid, s, Some peer)" for x s
    using routes(2) routes_iff(2) [OF a(1), of rid peer x] that by auto
  moreover have "\<exists>s p. place st x = Some (rid, s, p) \<and> (s = ce_session_id e \<or> p = Some peer)"
    if "x \<noteq> c" "place st x \<noteq> place st' x" for x
  proof -
    have "map_of (hs_session_routes st) (rid, ce_session_id e) = Some x \<or> map_of (hs_peer_routes st) (rid, peer) = Some x"
      using that by (auto simp: a(3) split: if_splits)
    then show ?thesis using routes_iff(1,2) [OF assms(1)] by blast
  qed
  ultimately show ?thesis using a(2) routes by blast
qed

theorem attach_takes_over_witness:
  "\<exists>st'. hub_attach ex_env ex_hub ex_c1 (RoomId [9]) (RoomCode []) (PeerId [2]) = (st', snd
      (hub_attach ex_env ex_hub ex_c1 (RoomId [9]) (RoomCode []) (PeerId [2]))) \<and>
    map_of (hs_peer_routes st') (RoomId [9], PeerId [2]) = Some ex_c1"
proof -
  obtain st' out where r: "hub_attach ex_env ex_hub ex_c1 (RoomId [9]) (RoomCode []) (PeerId [2]) = (st', out)"
    by (metis prod.exhaust)
  obtain e where e: "map_of (hs_connections ex_hub) ex_c1 = Some e" by (simp add: ex_hub_eq)
  from attach_takes_over [OF ex_hub_inv ex_env_iter e r] r show ?thesis by auto
qed

text \<open>A broadcast reaches exactly the room: every connection attached to the room or watching
  it is offered the message once and is dropped when its queue refuses it, and no other
  connection changes.\<close>

theorem broadcast_reaches_room:
  assumes "hub_inv st" and "iter_ok env" and "hub_broadcast env st rid m = (st', evicted)"
  shows "map_of (hs_connections st') x =
    (case map_of (hs_connections st) x of
       None \<Rightarrow> None
     | Some e \<Rightarrow>
         if (\<exists>s p. place st x = Some (rid, s, p))
         then (case he_try_send env (ce_sender e) (OutMessage m) of
                 (ch, SendOk) \<Rightarrow> Some (e\<lparr>ce_sender := ch\<rparr>) | _ \<Rightarrow> None)
         else Some e)"
proof -
  let ?cs = "he_iter env (room_members st rid)"
  have cs: "distinct ?cs" "set ?cs = set (room_members st rid)"
    using assms(2) routes_iff(4) [OF assms(1), of rid] by (auto simp: iter_ok_def)
  have b: "broadcast_to env m st ?cs [] = (st', evicted)" using assms(3) by (simp add: hub_broadcast_def)
  have mem: "x \<in> set ?cs \<longleftrightarrow> (\<exists>s p. place st x = Some (rid, s, p))"
    using routes_iff(3) [OF assms(1), of x rid] by (simp add: cs)
  show ?thesis
  proof (cases "map_of (hs_connections st) x")
    case None
    then have "x \<notin> set ?cs" using mem place_None [OF None] by simp
    then show ?thesis using None broadcast_to_spec(2) [OF assms(1) b] by simp
  next
    case (Some e)
    show ?thesis
    proof (cases "x \<in> set ?cs")
      case True
      then show ?thesis
        using mem Some broadcast_to_members [OF assms(1) b cs(1) True Some] by simp
    next
      case False
      then show ?thesis using mem Some broadcast_to_spec(2) [OF assms(1) b] by simp
    qed
  qed
qed

theorem broadcast_reaches_room_witness:
  "map_of (hs_connections (fst (hub_broadcast ex_env ex_hub (RoomId [9]) (SmRoomExpired CURRENT_PROTOCOL [] 0)))) ex_c2 =
   map_option (\<lambda>e. e\<lparr>ce_sender := 1\<rparr>) (map_of (hs_connections ex_hub) ex_c2)"
proof -
  obtain st' ev where b: "hub_broadcast ex_env ex_hub (RoomId [9]) (SmRoomExpired CURRENT_PROTOCOL [] 0) = (st', ev)"
    by (metis prod.exhaust)
  have "\<exists>s p. place ex_hub ex_c2 = Some (RoomId [9], s, p)" by (simp add: ex_hub_eq place_def placement_def)
  with broadcast_reaches_room [OF ex_hub_inv ex_env_iter b, of ex_c2] b show ?thesis
    by (simp add: ex_hub_eq ex_env_def)
qed

text \<open>Cleanup happens exactly once: when a connection is evicted (replaced, slow or
  disconnected), its attachment is kept, the next \<open>unregister\<close> of the connection returns that
  attachment, and a further \<open>unregister\<close> returns none.\<close>

theorem evicted_attachment_returned_once:
  assumes "hub_inv st" and "evict_connection_locked st c = (st1, Some a)"
    and "hub_unregister st1 c = (st2, first)" and "hub_unregister st2 c = (st3, second)"
  shows "hub_attachment st c = Inr a \<and> first = Some a \<and> second = None \<and>
    place st1 c = None \<and> place st3 = place st1"
proof -
  note e = evict_connection_spec [OF assms(1,2)]
  note u = hub_unregister_spec [OF e(1) assms(3)]
  note v = hub_unregister_spec [OF u(1) assms(4)]
  have "hub_attachment st c = Inr a" using e(4) [symmetric] by (simp add: hub_attachment_def ok_or_def)
  moreover have "first = Some a" using u(4) e(2,5) by simp
  moreover have "second = None" using v(4) u(3,5) by simp
  moreover have "place st1 c = None" "place st3 = place st1" using e(3) u(2) v(2) by auto
  ultimately show ?thesis by simp
qed

theorem evicted_attachment_returned_once_witness:
  "\<exists>a. hub_attachment ex_hub ex_c1 = Inr a \<and>
     snd (hub_unregister (fst (evict_connection_locked ex_hub ex_c1)) ex_c1) = Some a"
proof -
  obtain a where a: "hub_attachment ex_hub ex_c1 = Inr a" by (simp add: ex_hub_eq hub_attachment_def ok_or_def)
  have "snd (evict_connection_locked ex_hub ex_c1) = Some a"
    using a evict_connection_spec(4) [OF ex_hub_inv, of ex_c1] by (cases "evict_connection_locked ex_hub ex_c1")
      (simp add: hub_attachment_def result_simps)
  then have ev: "evict_connection_locked ex_hub ex_c1 = (fst (evict_connection_locked ex_hub ex_c1), Some a)"
    by (metis prod.collapse)
  from evicted_attachment_returned_once [OF ex_hub_inv ev surjective_pairing surjective_pairing] a
  show ?thesis by auto
qed

end
