(* ===== verification/Storage_Codec.thy ===== *)
theory Storage_Codec
  imports Domain_Room "HOL-Library.Product_Lexorder"
begin

text \<open>
  Rows of the server's SQLite database and their conversion to domain values
  (\<open>rust/apps/server/src/storage/codec.rs\<close>, \<open>error.rs\<close>, \<open>migrations/0001_initial.sql\<close>). A text
  column is a string, an integer column an integer of 64 bits, and a nullable column an option.
\<close>

section \<open>Errors\<close>

text \<open>
  The constraint a statement violates, or a row it expects and does not find. The text of a data-corruption message is reduced to the
  column it names.
\<close>

datatype db_error = DbCheck | DbUnique | DbForeignKey | DbRowNotFound

datatype storage_error =
    DatabaseError db_error
  | IntegerOutOfRange u64
  | CorruptData string
  | CorruptRoom room_restore_error
  | RoomNotFound
  | UniqueConflict
  | ForeignKeyViolation
  | RevisionConflict u64 u64
  | RoomFailure room_error

fun map_write_error :: "db_error \<Rightarrow> storage_error" where
  "map_write_error DbUnique = UniqueConflict"
| "map_write_error DbForeignKey = ForeignKeyViolation"
| "map_write_error DbCheck = DatabaseError DbCheck"
| "map_write_error DbRowNotFound = DatabaseError DbRowNotFound"

section \<open>Rows\<close>

record session_row =
  sw_id :: rstring
  sw_display_name :: rstring
  sw_state :: rstring
  sw_created_at_ms :: int
  sw_expires_at_ms :: int
  sw_updated_at_ms :: int

record room_row =
  rw_id :: rstring
  rw_code :: rstring
  rw_owner_session_id :: rstring
  rw_create_request_id :: rstring
  rw_state :: rstring
  rw_revision :: int
  rw_created_at_ms :: int
  rw_expires_at_ms :: int
  rw_updated_at_ms :: int

record member_row =
  mw_room_id :: rstring
  mw_session_id :: rstring
  mw_role :: rstring
  mw_state :: rstring
  mw_peer_id :: "rstring option"
  mw_created_at_ms :: int
  mw_updated_at_ms :: int

record join_request_row =
  jw_id :: rstring
  jw_room :: rstring
  jw_session :: rstring
  jw_state :: rstring
  jw_created_at_ms :: int
  jw_expires_at_ms :: int
  jw_updated_at_ms :: int

record invite_row =
  iw_id :: rstring
  iw_room_id :: rstring
  iw_request_id :: rstring
  iw_capability_hash :: "u8 list"
  iw_created_at_ms :: int
  iw_expires_at_ms :: int
  iw_consumed_at_ms :: "int option"

section \<open>Integers\<close>

definition sql_integer :: "u64 \<Rightarrow> storage_error + int" where
  "sql_integer v = (if uint v < 2 ^ 63 then Inr (uint v) else Inl (IntegerOutOfRange v))"

definition unsigned_sql_integer :: "int \<Rightarrow> string \<Rightarrow> storage_error + u64" where
  "unsigned_sql_integer v field = (if v < 0 then Inl (CorruptData field) else Inr (word_of_int v))"

section \<open>States as text\<close>

fun session_state_text :: "session_state \<Rightarrow> rstring" where
  "session_state_text SessionActive = rstr ''active''"
| "session_state_text SessionExpired = rstr ''expired''"

definition parse_session_state :: "rstring \<Rightarrow> storage_error + session_state" where
  "parse_session_state v =
     (if v = rstr ''active'' then Inr SessionActive
      else if v = rstr ''expired'' then Inr SessionExpired
      else Inl (CorruptData ''sessions.state''))"

fun room_state_text :: "room_state \<Rightarrow> rstring" where
  "room_state_text RoomActive = rstr ''active''"
| "room_state_text RoomExpired = rstr ''expired''"

definition parse_room_state :: "rstring \<Rightarrow> storage_error + room_state" where
  "parse_room_state v =
     (if v = rstr ''active'' then Inr RoomActive
      else if v = rstr ''expired'' then Inr RoomExpired
      else Inl (CorruptData ''rooms.state''))"

fun membership_role_text :: "membership_role \<Rightarrow> rstring" where
  "membership_role_text Owner = rstr ''owner''"
| "membership_role_text Receiver = rstr ''receiver''"

definition parse_membership_role :: "rstring \<Rightarrow> storage_error + membership_role" where
  "parse_membership_role v =
     (if v = rstr ''owner'' then Inr Owner
      else if v = rstr ''receiver'' then Inr Receiver
      else Inl (CorruptData ''room_members.role''))"

fun membership_state_parts :: "membership_state \<Rightarrow> rstring \<times> rstring option" where
  "membership_state_parts Offline = (rstr ''offline'', None)"
| "membership_state_parts (Online peer) = (rstr ''online'', Some (peer_id_str peer))"
| "membership_state_parts Left = (rstr ''left'', None)"

fun join_request_state_text :: "join_request_state \<Rightarrow> rstring" where
  "join_request_state_text Pending = rstr ''pending''"
| "join_request_state_text Approved = rstr ''approved''"
| "join_request_state_text Rejected = rstr ''rejected''"
| "join_request_state_text Cancelled = rstr ''cancelled''"
| "join_request_state_text Expired = rstr ''expired''"

definition parse_join_request_state :: "rstring \<Rightarrow> storage_error + join_request_state" where
  "parse_join_request_state v =
     (if v = rstr ''pending'' then Inr Pending
      else if v = rstr ''approved'' then Inr Approved
      else if v = rstr ''rejected'' then Inr Rejected
      else if v = rstr ''cancelled'' then Inr Cancelled
      else if v = rstr ''expired'' then Inr Expired
      else Inl (CorruptData ''join_requests.state''))"

section \<open>Decoding rows\<close>

definition corrupt :: "string \<Rightarrow> 'e \<Rightarrow> storage_error" where
  "corrupt field e = CorruptData field"

record decoded_room =
  dr_id :: room_id
  dr_code :: room_code
  dr_owner :: session_id
  dr_state :: room_state
  dr_revision :: revision
  dr_expires_at :: epoch_millis

definition decode_room :: "room_row \<Rightarrow> storage_error + decoded_room" where
  "decode_room row =
     bind_result (map_err (corrupt ''rooms.id'') (room_id_parse (rw_id row))) (\<lambda>i.
     bind_result (map_err (corrupt ''rooms.code'') (room_code_parse (rw_code row))) (\<lambda>code.
     bind_result (map_err (corrupt ''rooms.owner_session_id'') (session_id_parse (rw_owner_session_id row))) (\<lambda>owner.
     bind_result (parse_room_state (rw_state row)) (\<lambda>st.
     bind_result (unsigned_sql_integer (rw_revision row) ''rooms.revision'') (\<lambda>rv.
     bind_result (unsigned_sql_integer (rw_expires_at_ms row) ''rooms.expires_at_ms'') (\<lambda>expires.
       Inr \<lparr>dr_id = i, dr_code = code, dr_owner = owner, dr_state = st, dr_revision = rv,
            dr_expires_at = expires\<rparr>))))))"

definition decode_room_code :: "rstring \<Rightarrow> storage_error + room_code" where
  "decode_room_code v = map_err (corrupt ''rooms.code'') (room_code_parse v)"

definition decode_request_id :: "rstring \<Rightarrow> storage_error + request_id" where
  "decode_request_id v = map_err (corrupt ''join_requests.id'') (request_id_parse v)"

definition decode_session :: "session_row \<Rightarrow> storage_error + session" where
  "decode_session row =
     bind_result (map_err (corrupt ''sessions.id'') (session_id_parse (sw_id row))) (\<lambda>i.
     bind_result (map_err (corrupt ''sessions.display_name'') (display_name_parse (sw_display_name row))) (\<lambda>name.
     bind_result (parse_session_state (sw_state row)) (\<lambda>st.
     bind_result (unsigned_sql_integer (sw_expires_at_ms row) ''sessions.expires_at_ms'') (\<lambda>expires.
       Inr (session_restore i name expires st)))))"

definition decode_membership :: "member_row \<Rightarrow> storage_error + room_membership_snapshot" where
  "decode_membership row =
     bind_result (map_err (corrupt ''room_members.session_id'') (session_id_parse (mw_session_id row))) (\<lambda>sid.
     bind_result (parse_membership_role (mw_role row)) (\<lambda>role.
     bind_result
       (case mw_peer_id row of
          None \<Rightarrow>
            if mw_state row = rstr ''offline'' then Inr Offline
            else if mw_state row = rstr ''left'' then Inr Left
            else Inl (CorruptData ''room_members.state'')
        | Some peer \<Rightarrow>
            if mw_state row = rstr ''online''
            then bind_result (map_err (corrupt ''room_members.peer_id'') (peer_id_parse peer)) (\<lambda>p. Inr (Online p))
            else Inl (CorruptData ''room_members.state''))
       (\<lambda>st. Inr \<lparr>ms_session_id = sid, ms_role = role, ms_state = st\<rparr>)))"

definition decode_join_request :: "join_request_row \<Rightarrow> storage_error + room_join_request_snapshot" where
  "decode_join_request row =
     bind_result (map_err (corrupt ''join_requests.id'') (request_id_parse (jw_id row))) (\<lambda>rid.
     bind_result (map_err (corrupt ''join_requests.session_id'') (session_id_parse (jw_session row))) (\<lambda>sid.
     bind_result (parse_join_request_state (jw_state row)) (\<lambda>st.
     bind_result (unsigned_sql_integer (jw_expires_at_ms row) ''join_requests.expires_at_ms'') (\<lambda>expires.
       Inr \<lparr>js_request_id = rid, js_session_id = sid, js_expires_at = expires, js_state = st\<rparr>))))"

section \<open>Round trips\<close>

lemma unsigned_sql_integer_inverse:
  "sql_integer v = Inr i \<Longrightarrow> unsigned_sql_integer i field = Inr v"
  by (auto simp: sql_integer_def unsigned_sql_integer_def split: if_splits)

lemma sql_integer_Inr_iff [result_simps]:
  "sql_integer v = Inr i \<longleftrightarrow> unat v < 2 ^ 63 \<and> i = int (unat v)"
proof -
  have "uint v < 2 ^ 63 \<longleftrightarrow> int (unat v) < int (2 ^ 63)" by simp
  then show ?thesis unfolding sql_integer_def of_nat_less_iff by auto
qed

lemma unsigned_of_unat: "unsigned_sql_integer (int (unat v)) field = Inr v"
  by (simp add: unsigned_sql_integer_def)

lemma text_distinct:
  "rstr ''active'' \<noteq> rstr ''expired''" "rstr ''owner'' \<noteq> rstr ''receiver''"
  "distinct [rstr ''pending'', rstr ''approved'', rstr ''rejected'', rstr ''cancelled'', rstr ''expired'']"
  "distinct [rstr ''offline'', rstr ''left'', rstr ''online'']"
  by (simp_all add: rstr_def)

lemma parse_state_text:
  "parse_session_state (session_state_text a) = Inr a"
  "parse_room_state (room_state_text b) = Inr b"
  "parse_membership_role (membership_role_text c) = Inr c"
  "parse_join_request_state (join_request_state_text d) = Inr d"
proof -
  show "parse_session_state (session_state_text a) = Inr a"
    using text_distinct by (cases a) (auto simp: parse_session_state_def)
  show "parse_room_state (room_state_text b) = Inr b"
    using text_distinct by (cases b) (auto simp: parse_room_state_def)
  show "parse_membership_role (membership_role_text c) = Inr c"
    using text_distinct by (cases c) (auto simp: parse_membership_role_def)
  show "parse_join_request_state (join_request_state_text d) = Inr d"
    using text_distinct(3) by (cases d) (auto simp: parse_join_request_state_def)
qed

text \<open>Identifiers made by the domain parsers parse back from their text.\<close>

definition session_id_ok :: "session_id \<Rightarrow> bool" where
  "session_id_ok i \<longleftrightarrow> session_id_parse (session_id_str i) = Inr i"

definition peer_id_ok :: "peer_id \<Rightarrow> bool" where
  "peer_id_ok i \<longleftrightarrow> peer_id_parse (peer_id_str i) = Inr i"

definition request_id_ok :: "request_id \<Rightarrow> bool" where
  "request_id_ok i \<longleftrightarrow> request_id_parse (request_id_str i) = Inr i"

definition room_id_ok :: "room_id \<Rightarrow> bool" where
  "room_id_ok i \<longleftrightarrow> room_id_parse (room_id_str i) = Inr i"

lemma parsed_ids_ok:
  "session_id_parse v = Inr a \<Longrightarrow> session_id_ok a" "peer_id_parse v = Inr b \<Longrightarrow> peer_id_ok b"
  "request_id_parse v = Inr c \<Longrightarrow> request_id_ok c" "room_id_parse v = Inr d \<Longrightarrow> room_id_ok d"
  by (auto simp: session_id_ok_def peer_id_ok_def request_id_ok_def room_id_ok_def result_simps)

end
