(* ===== verification/Storage_Model.thy ===== *)
theory Storage_Model
  imports Storage_Codec
begin

text \<open>
  The storage layer of the server (\<open>rust/apps/server/src/storage/mod.rs\<close>) over a model of its
  tables: one sorted map per table, keyed by the primary key, with the constraints of
  \<open>migrations/0001_initial.sql\<close>. Each SQL statement of the source is a function that yields
  the constraint it violates or the changed tables: CHECK constraints first, then uniqueness,
  then foreign keys; the conflict target of an upsert is examined before other indexes. A
  transaction that ends in an error leaves the database as it was.
\<close>

section \<open>Tables\<close>

record database =
  db_sessions :: "(rstring, session_row) btree_map"
  db_rooms :: "(rstring, room_row) btree_map"
  db_members :: "(rstring \<times> rstring, member_row) btree_map"
  db_requests :: "(rstring, join_request_row) btree_map"
  db_invites :: "(rstring, invite_row) btree_map"

definition db_empty :: database where
  "db_empty = \<lparr>db_sessions = [], db_rooms = [], db_members = [], db_requests = [], db_invites = []\<rparr>"

definition session_row_check :: "session_row \<Rightarrow> bool" where
  "session_row_check r \<longleftrightarrow> sw_state r \<in> {rstr ''active'', rstr ''expired''} \<and> 0 \<le> sw_created_at_ms r \<and>
     sw_created_at_ms r < sw_expires_at_ms r \<and> sw_created_at_ms r \<le> sw_updated_at_ms r"

definition room_row_check :: "room_row \<Rightarrow> bool" where
  "room_row_check r \<longleftrightarrow> rw_state r \<in> {rstr ''active'', rstr ''expired''} \<and> 1 \<le> rw_revision r \<and>
     0 \<le> rw_created_at_ms r \<and> rw_created_at_ms r < rw_expires_at_ms r \<and>
     rw_created_at_ms r \<le> rw_updated_at_ms r"

definition member_row_check :: "member_row \<Rightarrow> bool" where
  "member_row_check r \<longleftrightarrow> mw_role r \<in> {rstr ''owner'', rstr ''receiver''} \<and>
     mw_state r \<in> {rstr ''offline'', rstr ''online'', rstr ''left''} \<and> 0 \<le> mw_created_at_ms r \<and>
     mw_created_at_ms r \<le> mw_updated_at_ms r \<and>
     (mw_state r = rstr ''online'' \<longleftrightarrow> mw_peer_id r \<noteq> None)"

definition request_row_check :: "join_request_row \<Rightarrow> bool" where
  "request_row_check r \<longleftrightarrow>
     jw_state r \<in> {rstr ''pending'', rstr ''approved'', rstr ''rejected'', rstr ''cancelled'', rstr ''expired''} \<and>
     0 \<le> jw_created_at_ms r \<and> jw_created_at_ms r < jw_expires_at_ms r \<and>
     jw_created_at_ms r \<le> jw_updated_at_ms r"

definition invite_row_check :: "invite_row \<Rightarrow> bool" where
  "invite_row_check r \<longleftrightarrow> length (iw_capability_hash r) = 32 \<and> 0 \<le> iw_created_at_ms r \<and>
     iw_created_at_ms r < iw_expires_at_ms r \<and>
     (case iw_consumed_at_ms r of None \<Rightarrow> True | Some t \<Rightarrow> iw_created_at_ms r \<le> t)"

text \<open>The unique index on pending requests: one per room and session.\<close>

definition pending_conflict :: "(rstring, join_request_row) btree_map \<Rightarrow> join_request_row \<Rightarrow> bool" where
  "pending_conflict requests r \<longleftrightarrow> jw_state r = rstr ''pending'' \<and>
     list_ex (\<lambda>(k, o'). k \<noteq> jw_id r \<and> jw_state o' = rstr ''pending'' \<and> jw_room o' = jw_room r \<and>
       jw_session o' = jw_session r) requests"

section \<open>Statements\<close>

definition sql_insert_session :: "session_row \<Rightarrow> database \<Rightarrow> db_error + database" where
  "sql_insert_session r db =
     (if \<not> session_row_check r then Inl DbCheck
      else if map_of (db_sessions db) (sw_id r) \<noteq> None then Inl DbUnique
      else Inr (db\<lparr>db_sessions := bt_insert (sw_id r) r (db_sessions db)\<rparr>))"

definition sql_insert_room :: "room_row \<Rightarrow> database \<Rightarrow> db_error + database" where
  "sql_insert_room r db =
     (if \<not> room_row_check r then Inl DbCheck
      else if map_of (db_rooms db) (rw_id r) \<noteq> None \<or>
              list_ex (\<lambda>(_, o'). rw_code o' = rw_code r) (db_rooms db) \<or>
              list_ex (\<lambda>(_, o'). rw_owner_session_id o' = rw_owner_session_id r \<and>
                         rw_create_request_id o' = rw_create_request_id r) (db_rooms db)
      then Inl DbUnique
      else if map_of (db_sessions db) (rw_owner_session_id r) = None then Inl DbForeignKey
      else Inr (db\<lparr>db_rooms := bt_insert (rw_id r) r (db_rooms db)\<rparr>))"

definition sql_upsert_member :: "member_row \<Rightarrow> database \<Rightarrow> db_error + database" where
  "sql_upsert_member r db =
     (if \<not> member_row_check r then Inl DbCheck
      else case map_of (db_members db) (mw_room_id r, mw_session_id r) of
             Some old \<Rightarrow>
               let new = old\<lparr>mw_role := mw_role r, mw_state := mw_state r, mw_peer_id := mw_peer_id r,
                             mw_updated_at_ms := mw_updated_at_ms r\<rparr>
               in if \<not> member_row_check new then Inl DbCheck
                  else Inr (db\<lparr>db_members := bt_insert (mw_room_id r, mw_session_id r) new (db_members db)\<rparr>)
           | None \<Rightarrow>
               if map_of (db_rooms db) (mw_room_id r) = None \<or> map_of (db_sessions db) (mw_session_id r) = None
               then Inl DbForeignKey
               else Inr (db\<lparr>db_members := bt_insert (mw_room_id r, mw_session_id r) r (db_members db)\<rparr>))"

definition sql_upsert_request :: "join_request_row \<Rightarrow> database \<Rightarrow> db_error + database" where
  "sql_upsert_request r db =
     (if \<not> request_row_check r then Inl DbCheck
      else case map_of (db_requests db) (jw_id r) of
             Some old \<Rightarrow>
               let new = old\<lparr>jw_state := jw_state r, jw_expires_at_ms := jw_expires_at_ms r,
                             jw_updated_at_ms := jw_updated_at_ms r\<rparr>
               in if \<not> request_row_check new then Inl DbCheck
                  else if pending_conflict (db_requests db) new then Inl DbUnique
                  else Inr (db\<lparr>db_requests := bt_insert (jw_id r) new (db_requests db)\<rparr>)
           | None \<Rightarrow>
               if pending_conflict (db_requests db) r then Inl DbUnique
               else if map_of (db_rooms db) (jw_room r) = None \<or> map_of (db_sessions db) (jw_session r) = None
               then Inl DbForeignKey
               else Inr (db\<lparr>db_requests := bt_insert (jw_id r) r (db_requests db)\<rparr>))"

text \<open>Updates one room where identifier and revision match; also the number of rows affected.\<close>

definition sql_update_room ::
  "rstring \<Rightarrow> int \<Rightarrow> rstring \<Rightarrow> int \<Rightarrow> int \<Rightarrow> int \<Rightarrow> database \<Rightarrow> db_error + (database \<times> nat)" where
  "sql_update_room i prior st rv expires updated db =
     (case map_of (db_rooms db) i of
        None \<Rightarrow> Inr (db, 0)
      | Some old \<Rightarrow>
          if rw_revision old \<noteq> prior then Inr (db, 0)
          else let new = old\<lparr>rw_state := st, rw_revision := rv, rw_expires_at_ms := expires,
                             rw_updated_at_ms := updated\<rparr>
               in if \<not> room_row_check new then Inl DbCheck
                  else Inr (db\<lparr>db_rooms := bt_insert i new (db_rooms db)\<rparr>, 1))"

definition sql_insert_invite :: "invite_row \<Rightarrow> database \<Rightarrow> db_error + database" where
  "sql_insert_invite r db =
     (if \<not> invite_row_check r then Inl DbCheck
      else if map_of (db_invites db) (iw_id r) \<noteq> None \<or>
              list_ex (\<lambda>(_, o'). iw_capability_hash o' = iw_capability_hash r) (db_invites db) \<or>
              list_ex (\<lambda>(_, o'). iw_room_id o' = iw_room_id r \<and> iw_request_id o' = iw_request_id r) (db_invites db)
      then Inl DbUnique
      else if map_of (db_rooms db) (iw_room_id r) = None then Inl DbForeignKey
      else Inr (db\<lparr>db_invites := bt_insert (iw_id r) r (db_invites db)\<rparr>))"

section \<open>Sessions\<close>

definition insert_session :: "database \<Rightarrow> session \<Rightarrow> epoch_millis \<Rightarrow> database \<times> (storage_error + unit)" where
  "insert_session db s now =
     (case bind_result (sql_integer now) (\<lambda>created.
           bind_result (sql_integer (sess_expires_at s)) (\<lambda>expires.
           bind_result (sql_integer now) (\<lambda>updated.
             map_err map_write_error (sql_insert_session
               \<lparr>sw_id = session_id_str (sess_id s), sw_display_name = display_name_str (sess_display_name s),
                sw_state = session_state_text (sess_state s), sw_created_at_ms = created,
                sw_expires_at_ms = expires, sw_updated_at_ms = updated\<rparr> db)))) of
        Inl e \<Rightarrow> (db, Inl e)
      | Inr db' \<Rightarrow> (db', Inr ()))"

definition find_session :: "database \<Rightarrow> session_id \<Rightarrow> storage_error + session option" where
  "find_session db sid =
     (case map_of (db_sessions db) (session_id_str sid) of
        None \<Rightarrow> Inr None
      | Some row \<Rightarrow> bind_result (decode_session row) (\<lambda>s. Inr (Some s)))"

section \<open>Rooms\<close>

fun collect_results :: "('e + 'a) list \<Rightarrow> 'e + 'a list" where
  "collect_results [] = Inr []"
| "collect_results (r # rs) =
     bind_result r (\<lambda>x. bind_result (collect_results rs) (\<lambda>xs. Inr (x # xs)))"

definition load_room_on :: "database \<Rightarrow> room_code \<Rightarrow> storage_error + room option" where
  "load_room_on db code =
     (case find (\<lambda>(_, r). rw_code r = room_code_str code) (db_rooms db) of
        None \<Rightarrow> Inr None
      | Some (_, row) \<Rightarrow>
          bind_result (decode_room row) (\<lambda>d.
          bind_result (collect_results (map (\<lambda>(_, m). decode_membership m)
              (filter (\<lambda>(_, m). mw_room_id m = room_id_str (dr_id d)) (db_members db)))) (\<lambda>memberships.
          bind_result (collect_results (map (\<lambda>(_, q). decode_join_request q)
              (filter (\<lambda>(_, q). jw_room q = room_id_str (dr_id d)) (db_requests db)))) (\<lambda>requests.
            map_err CorruptRoom
              (bind_result (room_restore (dr_id d) (dr_code d) (dr_owner d) (dr_expires_at d) (dr_state d)
                 (dr_revision d) memberships requests) (\<lambda>r. Inr (Some r)))))))"

fun persist_members ::
  "rstring \<Rightarrow> epoch_millis \<Rightarrow> room_membership_snapshot list \<Rightarrow> database \<Rightarrow> storage_error + database" where
  "persist_members room now [] db = Inr db"
| "persist_members room now (m # ms) db =
     (let (st, peer) = membership_state_parts (ms_state m)
      in bind_result (sql_integer now) (\<lambda>created.
         bind_result (sql_integer now) (\<lambda>updated.
         bind_result (map_err map_write_error (sql_upsert_member
             \<lparr>mw_room_id = room, mw_session_id = session_id_str (ms_session_id m),
              mw_role = membership_role_text (ms_role m), mw_state = st, mw_peer_id = peer,
              mw_created_at_ms = created, mw_updated_at_ms = updated\<rparr> db)) (\<lambda>db'.
           persist_members room now ms db'))))"

fun persist_requests ::
  "rstring \<Rightarrow> epoch_millis \<Rightarrow> room_join_request_snapshot list \<Rightarrow> database \<Rightarrow> storage_error + database" where
  "persist_requests room now [] db = Inr db"
| "persist_requests room now (q # qs) db =
     (let insert_created_at = min now (saturating_sub (js_expires_at q) 1)
      in bind_result (sql_integer insert_created_at) (\<lambda>created.
         bind_result (sql_integer (js_expires_at q)) (\<lambda>expires.
         bind_result (sql_integer now) (\<lambda>updated.
         bind_result (map_err map_write_error (sql_upsert_request
             \<lparr>jw_id = request_id_str (js_request_id q), jw_room = room,
              jw_session = session_id_str (js_session_id q), jw_state = join_request_state_text (js_state q),
              jw_created_at_ms = created, jw_expires_at_ms = expires, jw_updated_at_ms = updated\<rparr> db)) (\<lambda>db'.
           persist_requests room now qs db')))))"

definition persist_room_children :: "room \<Rightarrow> epoch_millis \<Rightarrow> database \<Rightarrow> storage_error + database" where
  "persist_room_children r now db =
     bind_result (persist_members (room_id_str (rm_id r)) now (membership_snapshots r) db) (\<lambda>db'.
       persist_requests (room_id_str (rm_id r)) now (join_request_snapshots r) db')"

text \<open>Ends a transaction: an error rolls back.\<close>

definition end_transaction :: "database \<Rightarrow> 'e + (database \<times> 'a) \<Rightarrow> database \<times> ('e + 'a)" where
  "end_transaction db r = (case r of Inl e \<Rightarrow> (db, Inl e) | Inr (db', x) \<Rightarrow> (db', Inr x))"

definition insert_room ::
  "database \<Rightarrow> room \<Rightarrow> request_id \<Rightarrow> epoch_millis \<Rightarrow> database \<times> (storage_error + unit)" where
  "insert_room db r create_request now =
     end_transaction db
       (bind_result (sql_integer (rm_revision r)) (\<lambda>rv.
        bind_result (sql_integer now) (\<lambda>created.
        bind_result (sql_integer (rm_expires_at r)) (\<lambda>expires.
        bind_result (sql_integer now) (\<lambda>updated.
        bind_result (map_err map_write_error (sql_insert_room
            \<lparr>rw_id = room_id_str (rm_id r), rw_code = room_code_str (rm_code r),
             rw_owner_session_id = session_id_str (rm_owner r),
             rw_create_request_id = request_id_str create_request, rw_state = room_state_text (rm_state r),
             rw_revision = rv, rw_created_at_ms = created, rw_expires_at_ms = expires,
             rw_updated_at_ms = updated\<rparr> db)) (\<lambda>db'.
        bind_result (persist_room_children r now db') (\<lambda>db''. Inr (db'', ()))))))))"

definition find_room_by_code :: "database \<Rightarrow> room_code \<Rightarrow> storage_error + room option" where
  "find_room_by_code db code = load_room_on db code"

definition find_room_by_create_request ::
  "database \<Rightarrow> session_id \<Rightarrow> request_id \<Rightarrow> storage_error + room option" where
  "find_room_by_create_request db owner rid =
     (case find (\<lambda>(_, r). rw_owner_session_id r = session_id_str owner \<and>
                  rw_create_request_id r = request_id_str rid) (db_rooms db) of
        None \<Rightarrow> Inr None
      | Some (_, row) \<Rightarrow>
          bind_result (map_err (corrupt ''rooms.code'') (room_code_parse (rw_code row)))
            (\<lambda>code. find_room_by_code db code))"

record room_mutation =
  mut_room :: room
  mut_outcome :: room_command_outcome

definition current_revision :: "rstring \<Rightarrow> database \<Rightarrow> storage_error + u64" where
  "current_revision i db =
     (case map_of (db_rooms db) i of
        None \<Rightarrow> Inl (DatabaseError DbRowNotFound)
      | Some row \<Rightarrow> unsigned_sql_integer (rw_revision row) ''rooms.revision'')"

definition apply_loaded ::
  "database \<Rightarrow> room \<Rightarrow> revision \<Rightarrow> room_command \<Rightarrow> epoch_millis \<Rightarrow>
   storage_error + (database \<times> room_mutation)" where
  "apply_loaded db r0 prior command now =
     (case room_handle r0 command of
        (_, Inl e) \<Rightarrow> Inl (RoomFailure e)
      | (r, Inr outcome) \<Rightarrow>
          if \<not> outcome_changed outcome then Inr (db, \<lparr>mut_room = r, mut_outcome = outcome\<rparr>)
          else
            bind_result (sql_integer (rm_revision r)) (\<lambda>rv.
            bind_result (sql_integer (rm_expires_at r)) (\<lambda>expires.
            bind_result (sql_integer now) (\<lambda>updated.
            bind_result (sql_integer prior) (\<lambda>prior'.
            bind_result (map_err DatabaseError (sql_update_room (room_id_str (rm_id r)) prior'
                (room_state_text (rm_state r)) rv expires updated db)) (\<lambda>(db', rows).
              if rows \<noteq> 1
              then bind_result (current_revision (room_id_str (rm_id r)) db') (\<lambda>actual.
                     Inl (RevisionConflict prior actual))
              else bind_result (persist_room_children r now db') (\<lambda>db''.
                     Inr (db'', \<lparr>mut_room = r, mut_outcome = outcome\<rparr>))))))))"

definition apply_room_command ::
  "database \<Rightarrow> room_code \<Rightarrow> revision option \<Rightarrow> room_command \<Rightarrow> epoch_millis \<Rightarrow>
   database \<times> (storage_error + room_mutation)" where
  "apply_room_command db code expected command now =
     end_transaction db
       (bind_result (load_room_on db code) (\<lambda>found.
        bind_result (ok_or RoomNotFound found) (\<lambda>r0.
          case expected of
            Some e \<Rightarrow>
              if e \<noteq> rm_revision r0 then Inl (RevisionConflict e (rm_revision r0))
              else apply_loaded db r0 (rm_revision r0) command now
          | None \<Rightarrow> apply_loaded db r0 (rm_revision r0) command now)))"

section \<open>Maintenance\<close>

text \<open>
  Rows are sorted by deadline and cut at a limit; rows with equal deadlines come in an order
  the database chooses, so the base order is an argument: \<open>scan\<close> permutes the rows.
\<close>

definition due_rows :: "('r list \<Rightarrow> 'r list) \<Rightarrow> ('r \<Rightarrow> int) \<Rightarrow> nat \<Rightarrow> ('r \<Rightarrow> bool) \<Rightarrow> 'r list \<Rightarrow> 'r list" where
  "due_rows scan deadline limit due rows = take limit (sort_key deadline (filter due (scan rows)))"

fun expire_session_rows :: "int \<Rightarrow> session_row list \<Rightarrow> database \<Rightarrow> db_error + database" where
  "expire_session_rows updated [] db = Inr db"
| "expire_session_rows updated (r # rs) db =
     (let new = r\<lparr>sw_state := rstr ''expired'', sw_updated_at_ms := updated\<rparr>
      in if \<not> session_row_check new then Inl DbCheck
         else expire_session_rows updated rs (db\<lparr>db_sessions := bt_insert (sw_id r) new (db_sessions db)\<rparr>))"

definition expire_due_sessions ::
  "(session_row list \<Rightarrow> session_row list) \<Rightarrow> database \<Rightarrow> epoch_millis \<Rightarrow> u32 \<Rightarrow>
   database \<times> (storage_error + nat)" where
  "expire_due_sessions scan db now limit =
     end_transaction db
       (bind_result (sql_integer now) (\<lambda>t.
          let rows = due_rows scan sw_expires_at_ms (unat limit)
                (\<lambda>r. sw_state r = rstr ''active'' \<and> sw_expires_at_ms r \<le> t) (map snd (db_sessions db))
          in bind_result (map_err DatabaseError (expire_session_rows t rows db)) (\<lambda>db'.
               Inr (db', length rows))))"

fun expire_rooms_loop ::
  "epoch_millis \<Rightarrow> room_row list \<Rightarrow> database \<Rightarrow> room_mutation list \<Rightarrow>
   database \<times> (storage_error + room_mutation list)" where
  "expire_rooms_loop now [] db mutations = (db, Inr mutations)"
| "expire_rooms_loop now (row # rows) db mutations =
     (case decode_room_code (rw_code row) of
        Inl e \<Rightarrow> (db, Inl e)
      | Inr code \<Rightarrow>
          (case apply_room_command db code None (Expire now) now of
             (db', Inl e) \<Rightarrow> (db', Inl e)
           | (db', Inr m) \<Rightarrow>
               expire_rooms_loop now rows db' (if outcome_changed (mut_outcome m) then mutations @ [m] else mutations)))"

definition expire_due_rooms ::
  "(room_row list \<Rightarrow> room_row list) \<Rightarrow> database \<Rightarrow> epoch_millis \<Rightarrow> u32 \<Rightarrow>
   database \<times> (storage_error + room_mutation list)" where
  "expire_due_rooms scan db now limit =
     (case sql_integer now of
        Inl e \<Rightarrow> (db, Inl e)
      | Inr t \<Rightarrow>
          expire_rooms_loop now
            (due_rows scan rw_expires_at_ms (unat limit)
               (\<lambda>r. rw_state r = rstr ''active'' \<and> rw_expires_at_ms r \<le> t) (map snd (db_rooms db)))
            db [])"

fun expire_requests_loop ::
  "epoch_millis \<Rightarrow> (join_request_row \<times> room_row) list \<Rightarrow> database \<Rightarrow> room_mutation list \<Rightarrow>
   database \<times> (storage_error + room_mutation list)" where
  "expire_requests_loop now [] db mutations = (db, Inr mutations)"
| "expire_requests_loop now ((q, row) # rows) db mutations =
     (case bind_result (decode_room_code (rw_code row)) (\<lambda>code.
           bind_result (decode_request_id (jw_id q)) (\<lambda>rid. Inr (code, rid))) of
        Inl e \<Rightarrow> (db, Inl e)
      | Inr (code, rid) \<Rightarrow>
          (case apply_room_command db code None (ExpireJoinRequest rid now) now of
             (db', Inl e) \<Rightarrow> (db', Inl e)
           | (db', Inr m) \<Rightarrow>
               expire_requests_loop now rows db'
                 (if outcome_changed (mut_outcome m) then mutations @ [m] else mutations)))"

definition expire_due_join_requests ::
  "((join_request_row \<times> room_row) list \<Rightarrow> (join_request_row \<times> room_row) list) \<Rightarrow> database \<Rightarrow>
   epoch_millis \<Rightarrow> u32 \<Rightarrow> database \<times> (storage_error + room_mutation list)" where
  "expire_due_join_requests scan db now limit =
     (case sql_integer now of
        Inl e \<Rightarrow> (db, Inl e)
      | Inr t \<Rightarrow>
          expire_requests_loop now
            (due_rows scan (\<lambda>(q, _). jw_expires_at_ms q) (unat limit)
               (\<lambda>(q, r). jw_state q = rstr ''pending'' \<and> jw_expires_at_ms q \<le> t \<and>
                  rw_state r = rstr ''active'' \<and> t < rw_expires_at_ms r)
               (concat (map (\<lambda>(_, q). case map_of (db_rooms db) (jw_room q) of
                     Some r \<Rightarrow> [(q, r)] | None \<Rightarrow> []) (db_requests db))))
            db [])"

section \<open>Invitations\<close>

definition insert_invite_capability ::
  "database \<Rightarrow> rstring \<Rightarrow> room_id \<Rightarrow> request_id \<Rightarrow> u8 list \<Rightarrow> epoch_millis \<Rightarrow> epoch_millis \<Rightarrow>
   database \<times> (storage_error + unit)" where
  "insert_invite_capability db cap_id room rid hash now expires_at =
     end_transaction db
       (bind_result (sql_integer now) (\<lambda>created.
        bind_result (sql_integer expires_at) (\<lambda>expires.
        bind_result (map_err map_write_error (sql_insert_invite
            \<lparr>iw_id = cap_id, iw_room_id = room_id_str room, iw_request_id = request_id_str rid,
             iw_capability_hash = hash, iw_created_at_ms = created, iw_expires_at_ms = expires,
             iw_consumed_at_ms = None\<rparr> db)) (\<lambda>db'. Inr (db', ())))))"

definition find_invite_expiry ::
  "database \<Rightarrow> room_id \<Rightarrow> request_id \<Rightarrow> storage_error + epoch_millis option" where
  "find_invite_expiry db room rid =
     (case find (\<lambda>(_, r). iw_room_id r = room_id_str room \<and> iw_request_id r = request_id_str rid)
             (db_invites db) of
        None \<Rightarrow> Inr None
      | Some (_, r) \<Rightarrow>
          bind_result (unsigned_sql_integer (iw_expires_at_ms r) ''invite_capabilities.expires_at_ms'')
            (\<lambda>t. Inr (Some t)))"

definition validate_invite_capability ::
  "database \<Rightarrow> room_id \<Rightarrow> u8 list \<Rightarrow> epoch_millis \<Rightarrow> storage_error + bool" where
  "validate_invite_capability db room hash now =
     bind_result (sql_integer now) (\<lambda>t.
       Inr (list_ex (\<lambda>(_, r). iw_room_id r = room_id_str room \<and> iw_capability_hash r = hash \<and>
              t < iw_expires_at_ms r \<and> iw_consumed_at_ms r = None) (db_invites db)))"

end
