(* ===== verification/Storage_Laws.thy ===== *)
theory Storage_Laws
  imports Storage_Model Room_Laws
begin

text \<open>
  How the database holds a room. A room is stored when its row, its member rows and its
  request rows carry exactly the room's content; loading a stored room gives it back, and
  persisting a changed room stores the changed one.
\<close>

section \<open>Sorted maps and decoded lists\<close>

lemma bt_same_keys:
  assumes "bt_wf m" "bt_wf n" "dom (map_of m) = dom (map_of n)"
  shows "map fst m = map fst n"
proof (rule strict_sorted_equal)
  show "sorted_wrt (<) (map fst m)" "sorted_wrt (<) (map fst n)" using assms by (simp_all add: bt_wf_def)
  show "set (map fst m) = set (map fst n)" using assms(3) by (simp add: dom_map_of_conv_image_fst)
qed

lemma bt_list_all2:
  assumes "bt_wf m" "bt_wf n" "\<And>k. rel_option P (map_of m k) (map_of n k)"
  shows "list_all2 (\<lambda>(k, v) (k', v'). k = k' \<and> P v v') m n"
proof -
  have "dom (map_of m) = dom (map_of n)"
    using assms(3) by (auto simp: dom_def) (metis option.rel_distinct option.exhaust)+
  then have keys: "map fst m = map fst n" by (rule bt_same_keys [OF assms(1,2)])
  then have len: "length m = length n" by (rule map_eq_imp_length_eq)
  show ?thesis
  proof (rule list_all2_all_nthI [OF len])
    fix i assume i: "i < length m"
    obtain k v where m: "m ! i = (k, v)" by (metis prod.exhaust)
    obtain k' v' where n: "n ! i = (k', v')" by (metis prod.exhaust)
    have "k = k'" using keys i len m n by (metis fst_conv nth_map)
    moreover have "map_of m k = Some v"
      using i m bt_wf_distinct [OF assms(1)] by (metis map_of_eq_Some_iff nth_mem)
    moreover have "map_of n k' = Some v'"
      using i n len bt_wf_distinct [OF assms(2)] by (metis map_of_eq_Some_iff nth_mem)
    ultimately show "(case m ! i of (k, v) \<Rightarrow> \<lambda>(k', v'). k = k' \<and> P v v') (n ! i)"
      using assms(3) [of k] by (simp add: m n)
  qed
qed

lemma collect_results_list_all2:
  "list_all2 (\<lambda>x y. d x = Inr y) xs ys \<Longrightarrow> collect_results (map d xs) = Inr ys"
  by (induction xs ys rule: list_all2_induct) auto

lemma find_unique:
  assumes "distinct (map fst m)" "map_of m k = Some v" "P v" "\<And>k' v'. map_of m k' = Some v' \<Longrightarrow> P v' \<Longrightarrow> k' = k"
  shows "find (\<lambda>(_, v). P v) m = Some (k, v)"
  using assms
proof (induction m)
  case (Cons kv m)
  obtain k0 v0 where kv: "kv = (k0, v0)" by (cases kv)
  show ?case
  proof (cases "P v0")
    case True
    then have "k0 = k" using Cons.prems(4) [of k0 v0] by (simp add: kv)
    then show ?thesis using Cons.prems(2) True by (simp add: kv)
  next
    case False
    then have k: "k0 \<noteq> k" using Cons.prems(2,3) by (auto simp: kv)
    have "find (\<lambda>(_, v). P v) m = Some (k, v)"
    proof (rule Cons.IH)
      show "distinct (map fst m)" "map_of m k = Some v" "P v" using Cons.prems k by (simp_all add: kv)
      fix k' v' assume "map_of m k' = Some v'" "P v'"
      moreover from this(1) have "k' \<noteq> k0" using Cons.prems(1) by (force simp: kv dest: map_of_SomeD)
      ultimately show "k' = k" using Cons.prems(4) [of k' v'] by (simp add: kv)
    qed
    then show ?thesis using False by (simp add: kv)
  qed
qed simp

section \<open>Stored rooms\<close>

text \<open>What the constraints of the tables guarantee.\<close>

definition db_ok :: "database \<Rightarrow> bool" where
  "db_ok db \<longleftrightarrow>
     bt_wf (db_sessions db) \<and> bt_wf (db_rooms db) \<and> bt_wf (db_members db) \<and> bt_wf (db_requests db) \<and>
     (\<forall>k r. map_of (db_rooms db) k = Some r \<longrightarrow> rw_id r = k) \<and>
     (\<forall>k r k' r'. map_of (db_rooms db) k = Some r \<longrightarrow> map_of (db_rooms db) k' = Some r' \<longrightarrow>
        rw_code r = rw_code r' \<longrightarrow> k = k') \<and>
     (\<forall>k m. map_of (db_members db) k = Some m \<longrightarrow> k = (mw_room_id m, mw_session_id m) \<and>
        map_of (db_rooms db) (mw_room_id m) \<noteq> None) \<and>
     (\<forall>k q. map_of (db_requests db) k = Some q \<longrightarrow> jw_id q = k \<and> map_of (db_rooms db) (jw_room q) \<noteq> None)"

definition member_content :: "member_row \<Rightarrow> rstring \<times> rstring \<times> rstring option" where
  "member_content row = (mw_role row, mw_state row, mw_peer_id row)"

definition membership_content :: "membership \<Rightarrow> rstring \<times> rstring \<times> rstring option" where
  "membership_content m = (membership_role_text (mem_role m), membership_state_parts (mem_state m))"

definition request_content :: "join_request_row \<Rightarrow> rstring \<times> rstring \<times> int" where
  "request_content row = (jw_session row, jw_state row, jw_expires_at_ms row)"

definition join_request_content :: "join_request \<Rightarrow> rstring \<times> rstring \<times> int" where
  "join_request_content q =
     (session_id_str (jr_session_id q), join_request_state_text (jr_state q), int (unat (jr_expires_at q)))"

definition room_row_holds :: "room_row \<Rightarrow> room \<Rightarrow> bool" where
  "room_row_holds row r \<longleftrightarrow>
     rw_id row = room_id_str (rm_id r) \<and> rw_code row = room_code_str (rm_code r) \<and>
     rw_owner_session_id row = session_id_str (rm_owner r) \<and> rw_state row = room_state_text (rm_state r) \<and>
     rw_revision row = int (unat (rm_revision r)) \<and> rw_expires_at_ms row = int (unat (rm_expires_at r))"

definition own_request :: "database \<Rightarrow> rstring \<Rightarrow> rstring \<Rightarrow> join_request_row option" where
  "own_request db room i =
     Option.bind (map_of (db_requests db) i) (\<lambda>q. if jw_room q = room then Some q else None)"

definition members_stored :: "database \<Rightarrow> rstring \<Rightarrow> (session_id \<rightharpoonup> membership) \<Rightarrow> bool" where
  "members_stored db room M \<longleftrightarrow>
     (\<forall>s. map_option member_content (map_of (db_members db) (room, s)) = map_option membership_content (M (SessionId s)))"

definition requests_stored :: "database \<Rightarrow> rstring \<Rightarrow> (request_id \<rightharpoonup> join_request) \<Rightarrow> bool" where
  "requests_stored db room J \<longleftrightarrow>
     (\<forall>i. map_option request_content (own_request db room i) = map_option join_request_content (J (RequestId i)))"

definition stored :: "database \<Rightarrow> room \<Rightarrow> bool" where
  "stored db r \<longleftrightarrow>
     (\<exists>row. map_of (db_rooms db) (room_id_str (rm_id r)) = Some row \<and> room_row_holds row r) \<and>
     members_stored db (room_id_str (rm_id r)) (map_of (rm_memberships r)) \<and>
     requests_stored db (room_id_str (rm_id r)) (map_of (rm_join_requests r))"

text \<open>Identifiers made by the parsers of the domain.\<close>

definition membership_ids_ok :: "session_id \<Rightarrow> membership \<Rightarrow> bool" where
  "membership_ids_ok s m \<longleftrightarrow> session_id_ok s \<and>
     (case mem_state m of Online p \<Rightarrow> peer_id_ok p | _ \<Rightarrow> True)"

definition request_ids_ok :: "request_id \<Rightarrow> join_request \<Rightarrow> bool" where
  "request_ids_ok i q \<longleftrightarrow> request_id_ok i \<and> session_id_ok (jr_session_id q)"

definition maps_ids_ok :: "(session_id \<rightharpoonup> membership) \<Rightarrow> (request_id \<rightharpoonup> join_request) \<Rightarrow> bool" where
  "maps_ids_ok M J \<longleftrightarrow> (\<forall>s m. M s = Some m \<longrightarrow> membership_ids_ok s m) \<and>
     (\<forall>i q. J i = Some q \<longrightarrow> request_ids_ok i q)"

definition room_ids_ok :: "room \<Rightarrow> bool" where
  "room_ids_ok r \<longleftrightarrow> room_id_ok (rm_id r) \<and> room_code_wf (rm_code r) \<and> session_id_ok (rm_owner r) \<and>
     maps_ids_ok (map_of (rm_memberships r)) (map_of (rm_join_requests r))"

fun command_ids_ok :: "room_command \<Rightarrow> bool" where
  "command_ids_ok (RequestJoin i s _ _) \<longleftrightarrow> request_id_ok i \<and> session_id_ok s"
| "command_ids_ok (Attach s p _) \<longleftrightarrow> peer_id_ok p"
| "command_ids_ok _ \<longleftrightarrow> True"

lemma room_step_ids_ok:
  assumes "room_step owner expires (st, M, J) c (st', M', J')" "maps_ids_ok M J" "command_ids_ok c"
  shows "maps_ids_ok M' J'"
  using assms
  by (cases rule: room_step.cases)
    (auto simp: maps_ids_ok_def membership_ids_ok_def request_ids_ok_def lapse_def split: if_splits)

lemma room_handle_ids_ok:
  assumes "room_inv r" "room_ids_ok r" "command_ids_ok c"
  shows "room_ids_ok (fst (room_handle r c))"
  using room_step_ids_ok [OF room_handle_steps [OF assms(1), of c, unfolded room_view_def] _ assms(3)] assms(2)
  by (simp add: room_ids_ok_def room_handle_frame)

section \<open>Loading\<close>

lemma unsigned_of_uint: "unsigned_sql_integer (uint v) field = Inr v"
  using unsigned_of_unat [of v field] by simp

lemma decode_member_row:
  assumes "member_content row = membership_content m" "mw_session_id row = session_id_str s" "membership_ids_ok s m"
  shows "decode_membership row = Inr \<lparr>ms_session_id = s, ms_role = mem_role m, ms_state = mem_state m\<rparr>"
proof -
  have s: "session_id_parse (session_id_str s) = Inr s" using assms(3) by (simp add: membership_ids_ok_def session_id_ok_def)
  have "mw_role row = membership_role_text (mem_role m)" "(mw_state row, mw_peer_id row) = membership_state_parts (mem_state m)"
    using assms(1) by (simp_all add: member_content_def membership_content_def)
  with s assms(2,3) text_distinct(4) show ?thesis
    by (cases "mem_state m")
      (auto simp: decode_membership_def parse_state_text membership_ids_ok_def peer_id_ok_def)
qed

lemma decode_request_row:
  assumes "request_content row = join_request_content q" "jw_id row = request_id_str i" "request_ids_ok i q"
  shows "decode_join_request row = Inr \<lparr>js_request_id = i, js_session_id = jr_session_id q,
    js_expires_at = jr_expires_at q, js_state = jr_state q\<rparr>"
  using assms
  by (simp add: decode_join_request_def request_content_def join_request_content_def request_ids_ok_def
      request_id_ok_def session_id_ok_def parse_state_text unsigned_of_uint)

lemma decode_room_row:
  assumes "room_row_holds row r" "room_ids_ok r"
  shows "decode_room row = Inr \<lparr>dr_id = rm_id r, dr_code = rm_code r, dr_owner = rm_owner r,
    dr_state = rm_state r, dr_revision = rm_revision r, dr_expires_at = rm_expires_at r\<rparr>"
  using assms
  by (simp add: decode_room_def room_row_holds_def room_ids_ok_def room_id_ok_def session_id_ok_def
      parse_state_text unsigned_of_uint room_code_wf_parse)

lemma own_request_Some:
  "own_request db room i = Some q \<longleftrightarrow> map_of (db_requests db) i = Some q \<and> jw_room q = room"
  by (auto simp: own_request_def bind_eq_Some_conv split: if_splits)

lemma map_of_filter_key:
  assumes "distinct (map fst m)"
  shows "map_of (filter (\<lambda>(_, v). P v) m) k = Option.bind (map_of m k) (\<lambda>v. if P v then Some v else None)"
  using assms by (induction m) (auto simp: map_of_eq_None_iff split: if_splits dest: map_of_SomeD)

lemma bt_wf_filter: "bt_wf m \<Longrightarrow> bt_wf (filter P m)"
  by (simp add: bt_wf_def sorted_wrt_map sorted_wrt_filter)

lemma db_ok_wf:
  assumes "db_ok db"
  shows "bt_wf (db_rooms db)" "bt_wf (db_members db)" "bt_wf (db_requests db)" "bt_wf (db_sessions db)"
  using assms by (simp_all add: db_ok_def)

lemma db_ok_rows:
  assumes "db_ok db"
  shows "map_of (db_rooms db) i = Some row \<Longrightarrow> rw_id row = i"
    and "map_of (db_rooms db) i = Some row \<Longrightarrow> map_of (db_rooms db) j = Some row' \<Longrightarrow>
      rw_code row = rw_code row' \<Longrightarrow> i = j"
    and "map_of (db_members db) k = Some m \<Longrightarrow> k = (mw_room_id m, mw_session_id m)"
    and "map_of (db_members db) k = Some m \<Longrightarrow> map_of (db_rooms db) (mw_room_id m) \<noteq> None"
    and "map_of (db_requests db) i = Some q \<Longrightarrow> jw_id q = i"
    and "map_of (db_requests db) i = Some q \<Longrightarrow> map_of (db_rooms db) (jw_room q) \<noteq> None"
  using assms unfolding db_ok_def by blast+

lemma load_members:
  assumes "db_ok db" "members_stored db R (map_of M)" "bt_wf M" "\<forall>s m. map_of M s = Some m \<longrightarrow> membership_ids_ok s m"
  shows "collect_results (map (\<lambda>(_, m). decode_membership m) (filter (\<lambda>(_, m). mw_room_id m = R) (db_members db))) =
    Inr (map (\<lambda>(s, m). \<lparr>ms_session_id = s, ms_role = mem_role m, ms_state = mem_state m\<rparr>) M)"
proof -
  let ?F = "filter (\<lambda>(_, m). mw_room_id m = R) (db_members db)"
  let ?G = "map (\<lambda>(k, m). (SessionId (snd k), m)) ?F"
  have wf: "bt_wf (db_members db)" using assms(1) by (simp add: db_ok_def)
  have rows: "k = (mw_room_id m, mw_session_id m)" if "(k, m) \<in> set (db_members db)" for k m
    by (rule db_ok_rows(3) [OF assms(1) map_of_is_SomeI [OF bt_wf_distinct [OF wf] that]])
  have keys: "fst k = R" if "(k, m) \<in> set ?F" for k m using rows [of k m] that by auto
  have G: "bt_wf ?G"
  proof -
    have "sorted_wrt (\<lambda>x y. fst x < fst y) ?F"
      using bt_wf_filter [OF wf, of "\<lambda>(_, m). mw_room_id m = R"] by (simp add: bt_wf_def sorted_wrt_map)
    moreover have "SessionId (snd (fst x)) < SessionId (snd (fst y))"
      if "x \<in> set ?F" "y \<in> set ?F" "fst x < fst y" for x y
      using keys [of "fst x" "snd x"] keys [of "fst y" "snd y"] that
      by (simp only: prod.collapse less_prod_simp less_session_id_def session_id.sel)
        (simp add: less_prod_def)
    ultimately have "sorted_wrt (\<lambda>x y. SessionId (snd (fst x)) < SessionId (snd (fst y))) ?F"
      by (rule sorted_wrt_mono_rel [rotated])
    then show ?thesis by (simp add: bt_wf_def sorted_wrt_map case_prod_beta)
  qed
  have mapG: "map_of ?G (SessionId s) = map_of (db_members db) (R, s)" for s
  proof (cases "map_of (db_members db) (R, s)")
    case (Some m)
    then have "((R, s), m) \<in> set ?F"
      using db_ok_rows(3) [OF assms(1) Some] by (auto dest: map_of_SomeD)
    then have "(SessionId s, m) \<in> set ?G" by force
    then show ?thesis using Some map_of_is_SomeI [OF bt_wf_distinct [OF G]] by simp
  next
    case None
    have "(SessionId s, m) \<notin> set ?G" for m
    proof
      assume "(SessionId s, m) \<in> set ?G"
      then obtain k where k: "(k, m) \<in> set ?F" "snd k = s" by auto
      then have "((R, s), m) \<in> set (db_members db)" using keys [OF k(1)] by (auto simp: prod_eq_iff)
      then show False using None by (simp add: map_of_eq_None_iff) (force)
    qed
    then show ?thesis using None by (metis map_of_SomeD not_None_eq)
  qed
  have "rel_option (\<lambda>row m. member_content row = membership_content m) (map_of ?G k) (map_of M k)" for k
    using assms(2) mapG [of "session_id_str k"]
    by (auto simp: members_stored_def rel_option_iff dest!: spec [of _ "session_id_str k"] split: option.splits)
  then have "list_all2 (\<lambda>(k, v) (k', v'). k = k' \<and> member_content v = membership_content v') ?G M"
    by (rule bt_list_all2 [OF G assms(3)])
  then have pair: "list_all2 (\<lambda>x y. SessionId (snd (fst x)) = fst y \<and>
      member_content (snd x) = membership_content (snd y)) ?F M"
    by (simp add: list_all2_map1 case_prod_beta)
  have "list_all2 (\<lambda>x y. decode_membership (snd x) =
      Inr \<lparr>ms_session_id = fst y, ms_role = mem_role (snd y), ms_state = mem_state (snd y)\<rparr>) ?F M"
  proof (rule list.rel_mono_strong [OF pair])
    fix x y assume x: "x \<in> set ?F" and y: "y \<in> set M"
      and xy: "SessionId (snd (fst x)) = fst y \<and> member_content (snd x) = membership_content (snd y)"
    obtain k row s m where e: "x = (k, row)" "y = (s, m)" by (metis prod.exhaust)
    have "membership_ids_ok s m" using assms(4) y bt_wf_distinct [OF assms(3)] by (auto simp: e)
    moreover have "mw_session_id row = session_id_str s"
      using rows [of k row] x xy by (auto simp: e)
    ultimately show "decode_membership (snd x) =
        Inr \<lparr>ms_session_id = fst y, ms_role = mem_role (snd y), ms_state = mem_state (snd y)\<rparr>"
      using decode_member_row xy by (simp add: e)
  qed
  then show ?thesis
    by (intro collect_results_list_all2) (simp add: list_all2_map2 case_prod_beta)
qed

lemma load_requests:
  assumes "db_ok db" "requests_stored db R (map_of J)" "bt_wf J" "\<forall>i q. map_of J i = Some q \<longrightarrow> request_ids_ok i q"
  shows "collect_results (map (\<lambda>(_, q). decode_join_request q) (filter (\<lambda>(_, q). jw_room q = R) (db_requests db))) =
    Inr (map (\<lambda>(i, q). \<lparr>js_request_id = i, js_session_id = jr_session_id q, js_expires_at = jr_expires_at q,
      js_state = jr_state q\<rparr>) J)"
proof -
  let ?F = "filter (\<lambda>(_, q). jw_room q = R) (db_requests db)"
  let ?G = "map (\<lambda>(k, q). (RequestId k, q)) ?F"
  have wf: "bt_wf (db_requests db)" by (rule db_ok_wf [OF assms(1)])
  have F: "bt_wf ?F" by (rule bt_wf_filter [OF wf])
  have G: "bt_wf ?G"
    using F by (simp add: bt_wf_def sorted_wrt_map case_prod_beta less_request_id_def)
  have mapF: "map_of ?F i = own_request db R i" for i
    by (simp add: map_of_filter_key [OF bt_wf_distinct [OF wf]] own_request_def)
  have "map_of (map (\<lambda>(k, q). (RequestId k, q)) xs) (RequestId i) = map_of xs i" for xs :: "(rstring \<times> join_request_row) list" and i
    by (induction xs) auto
  then have mapG: "map_of ?G (RequestId i) = own_request db R i" for i by (simp add: mapF)
  have "rel_option (\<lambda>row q. request_content row = join_request_content q) (map_of ?G k) (map_of J k)" for k
    using assms(2) mapG [of "request_id_str k"]
    by (auto simp: requests_stored_def rel_option_iff dest!: spec [of _ "request_id_str k"] split: option.splits)
  then have "list_all2 (\<lambda>(k, v) (k', v'). k = k' \<and> request_content v = join_request_content v') ?G J"
    by (rule bt_list_all2 [OF G assms(3)])
  then have pair: "list_all2 (\<lambda>x y. RequestId (fst x) = fst y \<and>
      request_content (snd x) = join_request_content (snd y)) ?F J"
    by (simp add: list_all2_map1 case_prod_beta)
  have "list_all2 (\<lambda>x y. decode_join_request (snd x) = Inr \<lparr>js_request_id = fst y,
      js_session_id = jr_session_id (snd y), js_expires_at = jr_expires_at (snd y), js_state = jr_state (snd y)\<rparr>) ?F J"
  proof (rule list.rel_mono_strong [OF pair])
    fix x y assume x: "x \<in> set ?F" and y: "y \<in> set J"
      and xy: "RequestId (fst x) = fst y \<and> request_content (snd x) = join_request_content (snd y)"
    obtain k row i q where e: "x = (k, row)" "y = (i, q)" by (metis prod.exhaust)
    have "request_ids_ok i q" using assms(4) y bt_wf_distinct [OF assms(3)] by (auto simp: e)
    moreover have "jw_id row = k"
      using x by (intro db_ok_rows(5) [OF assms(1)] map_of_is_SomeI [OF bt_wf_distinct [OF wf]]) (simp add: e)
    ultimately show "decode_join_request (snd x) = Inr \<lparr>js_request_id = fst y,
        js_session_id = jr_session_id (snd y), js_expires_at = jr_expires_at (snd y), js_state = jr_state (snd y)\<rparr>"
      using decode_request_row [of row q i] xy by (auto simp: e)
  qed
  then show ?thesis
    by (intro collect_results_list_all2) (simp add: list_all2_map2 case_prod_beta)
qed

lemma restore_of_inv:
  assumes "room_inv r"
  shows "room_restore (rm_id r) (rm_code r) (rm_owner r) (rm_expires_at r) (rm_state r) (rm_revision r)
    (membership_snapshots r) (join_request_snapshots r) = Inr r"
proof -
  have "\<forall>(i, q) \<in> set (rm_join_requests r). jr_expires_at q \<le> rm_expires_at r"
    using assms bt_wf_distinct [OF room_inv_wf(2) [OF assms]] by (auto simp: room_inv_def core_inv_def)
  then show ?thesis
    using room_inv_verified [OF assms]
    by (simp add: room_restore_def restore_memberships_snapshots restore_requests_snapshots room_inv_wf [OF assms]
        result_simps)
qed

lemma load_stored:
  assumes "db_ok db" "stored db r" "room_inv r" "room_ids_ok r"
  shows "load_room_on db (rm_code r) = Inr (Some r)"
proof -
  obtain row where row: "map_of (db_rooms db) (room_id_str (rm_id r)) = Some row" "room_row_holds row r"
    using assms(2) by (auto simp: stored_def)
  have "find (\<lambda>(_, x). rw_code x = room_code_str (rm_code r)) (db_rooms db) = Some (room_id_str (rm_id r), row)"
  proof (rule find_unique [OF bt_wf_distinct [OF db_ok_wf(1) [OF assms(1)]] row(1)])
    show "rw_code row = room_code_str (rm_code r)" using row(2) by (simp add: room_row_holds_def)
    fix k' v' assume "map_of (db_rooms db) k' = Some v'" "rw_code v' = room_code_str (rm_code r)"
    then show "k' = room_id_str (rm_id r)"
      using db_ok_rows(2) [OF assms(1) _ row(1)] row(2) by (simp add: room_row_holds_def)
  qed
  then show ?thesis
    using load_members [OF assms(1), of "room_id_str (rm_id r)" "rm_memberships r"]
      load_requests [OF assms(1), of "room_id_str (rm_id r)" "rm_join_requests r"] assms(2-4)
      restore_of_inv [OF assms(3)] decode_room_row [OF row(2) assms(4)]
    by (simp add: load_room_on_def stored_def room_inv_wf room_ids_ok_def maps_ids_ok_def
        membership_snapshots_def join_request_snapshots_def)
qed

section \<open>Persisting\<close>

text \<open>What the tables say of one room, by key.\<close>

definition member_view :: "database \<Rightarrow> rstring \<Rightarrow> rstring \<Rightarrow> (rstring \<times> rstring \<times> rstring option) option" where
  "member_view db R s = map_option member_content (map_of (db_members db) (R, s))"

definition request_view :: "database \<Rightarrow> rstring \<Rightarrow> rstring \<Rightarrow> (rstring \<times> rstring \<times> int) option" where
  "request_view db R i = map_option request_content (own_request db R i)"

lemma members_stored_view:
  "members_stored db R M \<longleftrightarrow> (\<forall>s. member_view db R s = map_option membership_content (M (SessionId s)))"
  by (simp add: members_stored_def member_view_def)

lemma requests_stored_view:
  "requests_stored db R J \<longleftrightarrow> (\<forall>i. request_view db R i = map_option join_request_content (J (RequestId i)))"
  by (simp add: requests_stored_def request_view_def)

definition same_others :: "database \<Rightarrow> database \<Rightarrow> bool" where
  "same_others db db' \<longleftrightarrow> db_rooms db' = db_rooms db \<and> db_sessions db' = db_sessions db \<and> db_invites db' = db_invites db"

lemma upsert_member_spec:
  assumes "db_ok db" "sql_upsert_member r db = Inr db'"
  shows "db_ok db'" "same_others db db'" "db_requests db' = db_requests db"
    "member_view db' R s = (if R = mw_room_id r \<and> s = mw_session_id r then Some (member_content r) else member_view db R s)"
proof -
  obtain row where db': "db' = db\<lparr>db_members := bt_insert (mw_room_id r, mw_session_id r) row (db_members db)\<rparr>"
    and row: "member_content row = member_content r" "mw_room_id row = mw_room_id r" "mw_session_id row = mw_session_id r"
    and fk: "map_of (db_rooms db) (mw_room_id r) \<noteq> None"
  proof (cases "map_of (db_members db) (mw_room_id r, mw_session_id r)")
    case None
    then show ?thesis using assms(2) that [of r] by (auto simp: sql_upsert_member_def split: if_splits)
  next
    case (Some old)
    then show ?thesis
      using assms(2) db_ok_rows(3,4) [OF assms(1) Some]
        that [of "old\<lparr>mw_role := mw_role r, mw_state := mw_state r, mw_peer_id := mw_peer_id r,
          mw_updated_at_ms := mw_updated_at_ms r\<rparr>"]
      by (auto simp: sql_upsert_member_def Let_def member_content_def split: if_splits)
  qed
  have mo: "map_of (db_members db') = (map_of (db_members db))((mw_room_id r, mw_session_id r) \<mapsto> row)"
    using db_ok_wf(2) [OF assms(1)] by (simp add: db' map_of_bt_insert)
  have "bt_wf (db_members db')" using db_ok_wf(2) [OF assms(1)] by (simp add: db' bt_wf_insert)
  moreover have same: "db_rooms db' = db_rooms db" "db_sessions db' = db_sessions db"
      "db_requests db' = db_requests db" "db_invites db' = db_invites db"
    by (simp_all add: db')
  moreover have "k = (mw_room_id m, mw_session_id m) \<and> map_of (db_rooms db) (mw_room_id m) \<noteq> None"
    if "map_of (db_members db') k = Some m" for k m
    using that row fk db_ok_rows(3,4) [OF assms(1), of k m] by (simp add: mo split: if_splits)
  ultimately show "db_ok db'" using assms(1) unfolding db_ok_def same by blast
  show "same_others db db'" "db_requests db' = db_requests db" by (simp_all add: same_others_def same)
  show "member_view db' R s = (if R = mw_room_id r \<and> s = mw_session_id r then Some (member_content r) else member_view db R s)"
    by (simp add: member_view_def mo row(1))
qed

lemma request_view_cong: "db_requests db' = db_requests db \<Longrightarrow> request_view db' R i = request_view db R i"
  by (simp add: request_view_def own_request_def)

definition snapshot_content :: "room_membership_snapshot \<Rightarrow> rstring \<times> rstring \<times> rstring option" where
  "snapshot_content m = (membership_role_text (ms_role m), membership_state_parts (ms_state m))"

lemma same_others_trans: "same_others a b \<Longrightarrow> same_others b c \<Longrightarrow> same_others a c"
  by (simp add: same_others_def)

lemma persist_members_spec:
  assumes "db_ok db" "persist_members R now ms db = Inr db'" "distinct (map ms_session_id ms)"
  shows "db_ok db' \<and> same_others db db' \<and> db_requests db' = db_requests db \<and>
    (\<forall>R' s. member_view db' R' s =
       (if R' = R then case map_of (map (\<lambda>m. (ms_session_id m, snapshot_content m)) ms) (SessionId s) of
                         Some c \<Rightarrow> Some c | None \<Rightarrow> member_view db R' s
        else member_view db R' s))"
  using assms
proof (induction ms arbitrary: db)
  case Nil
  then show ?case by (simp add: same_others_def)
next
  case (Cons m ms)
  obtain st peer where parts: "membership_state_parts (ms_state m) = (st, peer)" by (metis prod.exhaust)
  obtain c u db1 where up: "sql_upsert_member \<lparr>mw_room_id = R, mw_session_id = session_id_str (ms_session_id m),
      mw_role = membership_role_text (ms_role m), mw_state = st, mw_peer_id = peer,
      mw_created_at_ms = c, mw_updated_at_ms = u\<rparr> db = Inr db1" and rest: "persist_members R now ms db1 = Inr db'"
    using Cons.prems(2) by (auto simp: parts result_simps)
  note a = upsert_member_spec [OF Cons.prems(1) up]
  have ih: "db_ok db' \<and> same_others db1 db' \<and> db_requests db' = db_requests db1 \<and>
    (\<forall>R' s. member_view db' R' s =
       (if R' = R then case map_of (map (\<lambda>m. (ms_session_id m, snapshot_content m)) ms) (SessionId s) of
                         Some c \<Rightarrow> Some c | None \<Rightarrow> member_view db1 R' s
        else member_view db1 R' s))"
    using Cons.IH [OF a(1) rest] Cons.prems(3) by simp
  have fresh: "map_of (map (\<lambda>m. (ms_session_id m, snapshot_content m)) ms) (ms_session_id m) = None"
    using Cons.prems(3) by (auto simp: map_of_eq_None_iff)
  have view: "member_view db' R' s =
      (if R' = R then case map_of (map (\<lambda>m. (ms_session_id m, snapshot_content m)) (m # ms)) (SessionId s) of
                        Some c \<Rightarrow> Some c | None \<Rightarrow> member_view db R' s
       else member_view db R' s)" for R' s
  proof (cases "R' = R \<and> SessionId s = ms_session_id m")
    case True
    then have "s = session_id_str (ms_session_id m)" by (metis session_id.sel)
    then have "member_view db1 R' s = Some (snapshot_content m)"
      using True a(4) by (simp add: member_content_def snapshot_content_def parts)
    moreover have "member_view db' R' s = member_view db1 R' s" using ih fresh True by simp
    ultimately show ?thesis using True by simp
  next
    case False
    then have "member_view db1 R' s = member_view db R' s" using a(4) [of R' s] by (auto simp del: split_paired_Ex)
    then show ?thesis using ih False by (auto split: option.splits)
  qed
  show ?case using ih a(3) same_others_trans [OF a(2)] view by simp
qed

text \<open>
  A request identifier is free for a room when no other room uses it: its row, if any, belongs
  to the room and to the same session.
\<close>

definition id_free :: "database \<Rightarrow> rstring \<Rightarrow> rstring \<Rightarrow> rstring \<Rightarrow> bool" where
  "id_free db R i sid \<longleftrightarrow>
     (case map_of (db_requests db) i of None \<Rightarrow> True | Some old \<Rightarrow> jw_room old = R \<and> jw_session old = sid)"

lemma upsert_request_spec:
  assumes "db_ok db" "sql_upsert_request r db = Inr db'" "id_free db (jw_room r) (jw_id r) (jw_session r)"
  shows "db_ok db'" "same_others db db'" "db_members db' = db_members db"
    "request_view db' R i = (if R = jw_room r \<and> i = jw_id r then Some (request_content r) else request_view db R i)"
    "id_free db R i sid \<Longrightarrow> i \<noteq> jw_id r \<Longrightarrow> id_free db' R i sid"
proof -
  obtain row where db': "db' = db\<lparr>db_requests := bt_insert (jw_id r) row (db_requests db)\<rparr>"
    and row: "request_content row = request_content r" "jw_room row = jw_room r" "jw_id row = jw_id r"
    and fk: "map_of (db_rooms db) (jw_room r) \<noteq> None"
  proof (cases "map_of (db_requests db) (jw_id r)")
    case None
    then show ?thesis using assms(2) that [of r] by (auto simp: sql_upsert_request_def split: if_splits)
  next
    case (Some old)
    then show ?thesis
      using assms(2,3) db_ok_rows(5,6) [OF assms(1) Some]
        that [of "old\<lparr>jw_state := jw_state r, jw_expires_at_ms := jw_expires_at_ms r, jw_updated_at_ms := jw_updated_at_ms r\<rparr>"]
      by (auto simp: sql_upsert_request_def Let_def request_content_def id_free_def split: if_splits)
  qed
  have mo: "map_of (db_requests db') = (map_of (db_requests db))(jw_id r \<mapsto> row)"
    using db_ok_wf(3) [OF assms(1)] by (simp add: db' map_of_bt_insert)
  have "bt_wf (db_requests db')" using db_ok_wf(3) [OF assms(1)] by (simp add: db' bt_wf_insert)
  moreover have same: "db_rooms db' = db_rooms db" "db_sessions db' = db_sessions db"
      "db_members db' = db_members db" "db_invites db' = db_invites db"
    by (simp_all add: db')
  moreover have "jw_id q = k \<and> map_of (db_rooms db) (jw_room q) \<noteq> None"
    if "map_of (db_requests db') k = Some q" for k q
    using that row fk db_ok_rows(5,6) [OF assms(1), of k q] by (simp add: mo split: if_splits)
  ultimately show "db_ok db'" using assms(1) unfolding db_ok_def same by blast
  show "same_others db db'" "db_members db' = db_members db" by (simp_all add: same_others_def same)
  show "request_view db' R i = (if R = jw_room r \<and> i = jw_id r then Some (request_content r) else request_view db R i)"
    using row assms(3) by (auto simp: request_view_def own_request_def mo id_free_def split: option.splits)
  show "id_free db R i sid \<Longrightarrow> i \<noteq> jw_id r \<Longrightarrow> id_free db' R i sid" by (simp add: id_free_def mo)
qed

definition request_snapshot_content :: "room_join_request_snapshot \<Rightarrow> rstring \<times> rstring \<times> int" where
  "request_snapshot_content q =
     (session_id_str (js_session_id q), join_request_state_text (js_state q), int (unat (js_expires_at q)))"

lemma persist_requests_spec:
  assumes "db_ok db" "persist_requests R now qs db = Inr db'" "distinct (map js_request_id qs)"
    and "\<forall>q \<in> set qs. id_free db R (request_id_str (js_request_id q)) (session_id_str (js_session_id q))"
  shows "db_ok db' \<and> same_others db db' \<and> db_members db' = db_members db \<and>
    (\<forall>R' i. request_view db' R' i =
       (if R' = R then case map_of (map (\<lambda>q. (js_request_id q, request_snapshot_content q)) qs) (RequestId i) of
                         Some c \<Rightarrow> Some c | None \<Rightarrow> request_view db R' i
        else request_view db R' i))"
  using assms
proof (induction qs arbitrary: db)
  case Nil
  then show ?case by (simp add: same_others_def)
next
  case (Cons q qs)
  obtain c u db1 where up: "sql_upsert_request \<lparr>jw_id = request_id_str (js_request_id q), jw_room = R,
      jw_session = session_id_str (js_session_id q), jw_state = join_request_state_text (js_state q),
      jw_created_at_ms = c, jw_expires_at_ms = int (unat (js_expires_at q)), jw_updated_at_ms = u\<rparr> db = Inr db1"
    and rest: "persist_requests R now qs db1 = Inr db'"
    using Cons.prems(2) by (auto simp: result_simps Let_def)
  note a = upsert_request_spec [OF Cons.prems(1) up]
  have free: "id_free db R (request_id_str (js_request_id q)) (session_id_str (js_session_id q))"
    using Cons.prems(4) by simp
  have ne: "request_id_str (js_request_id p) \<noteq> request_id_str (js_request_id q)" if "p \<in> set qs" for p
  proof -
    have "js_request_id p \<noteq> js_request_id q"
      using Cons.prems(3) imageI [OF that, of js_request_id] by auto
    then show ?thesis using request_id.expand by blast
  qed
  have ih: "db_ok db' \<and> same_others db1 db' \<and> db_members db' = db_members db1 \<and>
    (\<forall>R' i. request_view db' R' i =
       (if R' = R then case map_of (map (\<lambda>q. (js_request_id q, request_snapshot_content q)) qs) (RequestId i) of
                         Some c \<Rightarrow> Some c | None \<Rightarrow> request_view db1 R' i
        else request_view db1 R' i))"
    using Cons.prems(3,4) a(5) ne free by (intro Cons.IH [OF a(1) rest]) auto
  have fresh: "map_of (map (\<lambda>q. (js_request_id q, request_snapshot_content q)) qs) (js_request_id q) = None"
    using Cons.prems(3) by (auto simp: map_of_eq_None_iff)
  have view: "request_view db' R' i =
      (if R' = R then case map_of (map (\<lambda>q. (js_request_id q, request_snapshot_content q)) (q # qs)) (RequestId i) of
                        Some c \<Rightarrow> Some c | None \<Rightarrow> request_view db R' i
       else request_view db R' i)" for R' i
  proof (cases "R' = R \<and> RequestId i = js_request_id q")
    case True
    then have "i = request_id_str (js_request_id q)" by (metis request_id.sel)
    then have "request_view db1 R' i = Some (request_snapshot_content q)"
      using True a(4) free by (simp add: request_content_def request_snapshot_content_def)
    moreover have "request_view db' R' i = request_view db1 R' i" using ih fresh True by simp
    ultimately show ?thesis using True by simp
  next
    case False
    then have "request_view db1 R' i = request_view db R' i" using a(4) [of R' i] free by auto
    then show ?thesis using ih False by (auto split: option.splits)
  qed
  show ?case using ih a(2,3) free same_others_trans view by auto
qed

lemma snapshot_maps:
  "map_of (map (\<lambda>m. (ms_session_id m, snapshot_content m)) (membership_snapshots r)) s =
     map_option membership_content (map_of (rm_memberships r) s)"
  "map_of (map (\<lambda>q. (js_request_id q, request_snapshot_content q)) (join_request_snapshots r)) i =
     map_option join_request_content (map_of (rm_join_requests r) i)"
proof -
  have "map (\<lambda>m. (ms_session_id m, snapshot_content m)) (membership_snapshots r) =
      map (\<lambda>(s, m). (s, (\<lambda>_. membership_content) s m)) (rm_memberships r)"
    by (simp add: membership_snapshots_def snapshot_content_def membership_content_def case_prod_beta)
  then show "map_of (map (\<lambda>m. (ms_session_id m, snapshot_content m)) (membership_snapshots r)) s =
     map_option membership_content (map_of (rm_memberships r) s)"
    by (simp only: map_of_map_values)
  have "map (\<lambda>q. (js_request_id q, request_snapshot_content q)) (join_request_snapshots r) =
      map (\<lambda>(i, q). (i, (\<lambda>_. join_request_content) i q)) (rm_join_requests r)"
    by (simp add: join_request_snapshots_def request_snapshot_content_def join_request_content_def case_prod_beta)
  then show "map_of (map (\<lambda>q. (js_request_id q, request_snapshot_content q)) (join_request_snapshots r)) i =
     map_option join_request_content (map_of (rm_join_requests r) i)"
    by (simp only: map_of_map_values)
qed

lemma persist_children_spec:
  assumes "db_ok db" "persist_room_children r now db = Inr db'" "bt_wf (rm_memberships r)" "bt_wf (rm_join_requests r)"
    and free: "\<And>i q. map_of (rm_join_requests r) i = Some q \<Longrightarrow>
      id_free db (room_id_str (rm_id r)) (request_id_str i) (session_id_str (jr_session_id q))"
    and cover: "\<And>s. member_view db (room_id_str (rm_id r)) s \<noteq> None \<Longrightarrow> map_of (rm_memberships r) (SessionId s) \<noteq> None"
      "\<And>i. request_view db (room_id_str (rm_id r)) i \<noteq> None \<Longrightarrow> map_of (rm_join_requests r) (RequestId i) \<noteq> None"
  shows "db_ok db'" "same_others db db'"
    "members_stored db' (room_id_str (rm_id r)) (map_of (rm_memberships r))"
    "requests_stored db' (room_id_str (rm_id r)) (map_of (rm_join_requests r))"
    "\<And>R'. R' \<noteq> room_id_str (rm_id r) \<Longrightarrow> member_view db' R' = member_view db R' \<and> request_view db' R' = request_view db R'"
proof -
  let ?R = "room_id_str (rm_id r)"
  obtain db1 where m: "persist_members ?R now (membership_snapshots r) db = Inr db1"
    and q: "persist_requests ?R now (join_request_snapshots r) db1 = Inr db'"
    using assms(2) by (auto simp: persist_room_children_def result_simps)
  have dm: "distinct (map ms_session_id (membership_snapshots r))"
    using bt_wf_distinct [OF assms(3)] by (simp add: membership_snapshots_def comp_def case_prod_beta)
  have dq: "distinct (map js_request_id (join_request_snapshots r))"
    using bt_wf_distinct [OF assms(4)] by (simp add: join_request_snapshots_def comp_def case_prod_beta)
  note M = persist_members_spec [OF assms(1) m dm, unfolded snapshot_maps]
  from M have M1: "db_requests db1 = db_requests db" and M2: "same_others db db1" by blast+
  have fr: "\<forall>x \<in> set (join_request_snapshots r). id_free db1 ?R (request_id_str (js_request_id x)) (session_id_str (js_session_id x))"
  proof
    fix x assume "x \<in> set (join_request_snapshots r)"
    then obtain i v where "(i, v) \<in> set (rm_join_requests r)" "js_request_id x = i" "js_session_id x = jr_session_id v"
      by (auto simp: join_request_snapshots_def)
    then show "id_free db1 ?R (request_id_str (js_request_id x)) (session_id_str (js_session_id x))"
      using free [of i v] bt_wf_distinct [OF assms(4)] by (simp add: id_free_def M1)
  qed
  note Q = persist_requests_spec [OF conjunct1 [OF M] q dq fr, unfolded snapshot_maps]
  from Q have Q1: "db_members db' = db_members db1" and Q2: "same_others db1 db'" and "db_ok db'" by blast+
  show "db_ok db'" by fact
  show "same_others db db'" by (rule same_others_trans [OF M2 Q2])
  have mv: "member_view db' R' s = member_view db1 R' s" for R' s by (simp add: member_view_def Q1)
  have rv: "request_view db1 R' i = request_view db R' i" for R' i by (rule request_view_cong [OF M1])
  show "members_stored db' ?R (map_of (rm_memberships r))"
    unfolding members_stored_view mv
  proof
    fix s
    have "member_view db1 ?R s = (case map_option membership_content (map_of (rm_memberships r) (SessionId s)) of
        Some c \<Rightarrow> Some c | None \<Rightarrow> member_view db ?R s)"
      using M [THEN conjunct2, THEN conjunct2, THEN conjunct2, rule_format, of ?R s] by simp
    then show "member_view db1 ?R s = map_option membership_content (map_of (rm_memberships r) (SessionId s))"
      using cover(1) [of s]
      by (cases "map_of (rm_memberships r) (SessionId s)"; cases "member_view db ?R s") simp_all
  qed
  show "requests_stored db' ?R (map_of (rm_join_requests r))"
    unfolding requests_stored_view
  proof
    fix i
    have "request_view db' ?R i = (case map_option join_request_content (map_of (rm_join_requests r) (RequestId i)) of
        Some c \<Rightarrow> Some c | None \<Rightarrow> request_view db ?R i)"
      using Q [THEN conjunct2, THEN conjunct2, THEN conjunct2, rule_format, of ?R i] unfolding rv by simp
    then show "request_view db' ?R i = map_option join_request_content (map_of (rm_join_requests r) (RequestId i))"
      using cover(2) [of i]
      by (cases "map_of (rm_join_requests r) (RequestId i)"; cases "request_view db ?R i") simp_all
  qed
  show "member_view db' R' = member_view db R' \<and> request_view db' R' = request_view db R'" if "R' \<noteq> ?R" for R'
    using M [THEN conjunct2, THEN conjunct2, THEN conjunct2, rule_format, of R']
      Q [THEN conjunct2, THEN conjunct2, THEN conjunct2, rule_format, of R'] that
    by (simp add: fun_eq_iff mv rv)
qed

section \<open>Commands\<close>

fun request_id_free :: "database \<Rightarrow> rstring \<Rightarrow> room_command \<Rightarrow> bool" where
  "request_id_free db R (RequestJoin i s _ _) \<longleftrightarrow> id_free db R (request_id_str i) (session_id_str s)"
| "request_id_free db R _ \<longleftrightarrow> True"

lemma room_step_origin:
  assumes "room_step owner expires (st, M, J) c (st', M', J')"
  shows "J' i = Some q' \<Longrightarrow> (\<exists>q. J i = Some q \<and> jr_session_id q = jr_session_id q') \<or>
      (\<exists>now until. c = RequestJoin i (jr_session_id q') now until)"
    and "J i \<noteq> None \<Longrightarrow> J' i \<noteq> None" and "M s \<noteq> None \<Longrightarrow> M' s \<noteq> None"
  using assms by (cases rule: room_step.cases; auto simp: lapse_def split: if_splits)+

lemma stored_id_free:
  assumes "requests_stored db R J" "J (RequestId i) = Some q"
  shows "id_free db R i (session_id_str (jr_session_id q))"
proof -
  obtain row where "own_request db R i = Some row" "request_content row = join_request_content q"
    using assms unfolding requests_stored_def by (metis (no_types, lifting) map_option_eq_Some)
  then show ?thesis
    by (auto simp: id_free_def own_request_Some request_content_def join_request_content_def)
qed

lemma update_room_spec:
  assumes "db_ok db" "map_of (db_rooms db) R = Some old"
    and "sql_update_room R before st rv expires updated db = Inr (db', n)" "rw_revision old = before"
  shows "n = 1" "db' = db\<lparr>db_rooms := bt_insert R (old\<lparr>rw_state := st, rw_revision := rv, rw_expires_at_ms := expires,
      rw_updated_at_ms := updated\<rparr>) (db_rooms db)\<rparr>"
    "db_ok db'"
proof -
  let ?new = "old\<lparr>rw_state := st, rw_revision := rv, rw_expires_at_ms := expires, rw_updated_at_ms := updated\<rparr>"
  show n: "n = 1" and db': "db' = db\<lparr>db_rooms := bt_insert R ?new (db_rooms db)\<rparr>"
    using assms(2-4) by (auto simp: sql_update_room_def Let_def split: if_splits)
  have mo: "map_of (db_rooms db') = (map_of (db_rooms db))(R \<mapsto> ?new)"
    using db_ok_wf(1) [OF assms(1)] by (simp add: db' map_of_bt_insert)
  have same: "db_members db' = db_members db" "db_requests db' = db_requests db" "db_sessions db' = db_sessions db"
    by (simp_all add: db')
  have "bt_wf (db_rooms db')" using db_ok_wf(1) [OF assms(1)] by (simp add: db' bt_wf_insert)
  moreover have "rw_id r = k" if "map_of (db_rooms db') k = Some r" for k r
    using that db_ok_rows(1) [OF assms(1), of k] assms(2) by (auto simp: mo split: if_splits)
  moreover have "k = k'" if "map_of (db_rooms db') k = Some r" "map_of (db_rooms db') k' = Some r'" "rw_code r = rw_code r'"
    for k k' r r'
  proof -
    have "\<exists>r0. map_of (db_rooms db) k = Some r0 \<and> rw_code r0 = rw_code r"
      if "map_of (db_rooms db') k = Some r" for k r
      using that assms(2) by (auto simp: mo split: if_splits)
    from this [OF that(1)] this [OF that(2)] that(3) show ?thesis using db_ok_rows(2) [OF assms(1)] by metis
  qed
  moreover have "map_of (db_rooms db') k \<noteq> None" if "map_of (db_rooms db) k \<noteq> None" for k
    using that by (simp add: mo)
  ultimately show "db_ok db'"
    using assms(1) unfolding db_ok_def same by blast
qed

lemma stored_cong:
  assumes "map_of (db_rooms db') (room_id_str (rm_id r)) = map_of (db_rooms db) (room_id_str (rm_id r))"
    and "member_view db' (room_id_str (rm_id r)) = member_view db (room_id_str (rm_id r))"
    and "request_view db' (room_id_str (rm_id r)) = request_view db (room_id_str (rm_id r))"
  shows "stored db' r \<longleftrightarrow> stored db r"
  using assms by (simp add: stored_def members_stored_view requests_stored_view)

lemma handle_request_free:
  assumes "room_inv r0" "requests_stored db (room_id_str (rm_id r0)) (map_of (rm_join_requests r0))"
    and "request_id_free db (room_id_str (rm_id r0)) c"
    and "map_of (rm_join_requests (fst (room_handle r0 c))) i = Some q"
  shows "id_free db (room_id_str (rm_id r0)) (request_id_str i) (session_id_str (jr_session_id q))"
proof -
  note origin = room_step_origin(1) [OF room_handle_steps [OF assms(1), of c, unfolded room_view_def] assms(4)]
  then show ?thesis
  proof
    assume "\<exists>q'. map_of (rm_join_requests r0) i = Some q' \<and> jr_session_id q' = jr_session_id q"
    then obtain q' where "map_of (rm_join_requests r0) (RequestId (request_id_str i)) = Some q'"
        "jr_session_id q' = jr_session_id q" by auto
    then show ?thesis using stored_id_free [OF assms(2)] by metis
  next
    assume "\<exists>now until. c = RequestJoin i (jr_session_id q) now until"
    then show ?thesis using assms(3) by auto
  qed
qed

lemma views_cong:
  assumes "db_members db' = db_members db" "db_requests db' = db_requests db"
  shows "member_view db' = member_view db" "request_view db' = request_view db"
    "id_free db' = id_free db"
  using assms by (simp_all add: fun_eq_iff member_view_def request_view_def own_request_def id_free_def)

lemma commit_changed: "commit r = (r', Inr out) \<Longrightarrow> outcome_changed out"
  by (auto simp: commit_def split: sum.splits)

lemma room_handle_unchanged:
  assumes "room_handle r c = (r', Inr out)" "\<not> outcome_changed out"
  shows "r' = r"
  using assms
  by (cases c)
    (auto simp: request_join_def decide_join_def expire_join_request_def attach_def detach_def leave_def
      expire_def dest: commit_changed split: sum.splits option.splits if_splits join_request_state.splits
      join_decision.splits membership_state.splits)

lemma apply_loaded_spec:
  assumes ok: "db_ok db" "stored db r0" "room_inv r0" "request_id_free db (room_id_str (rm_id r0)) c"
    and res: "apply_loaded db r0 (rm_revision r0) c now = Inr (db', m)"
  shows "room_handle r0 c = (mut_room m, Inr (mut_outcome m))" "db_ok db'" "stored db' (mut_room m)"
    "\<And>r2. rm_id r2 \<noteq> rm_id r0 \<Longrightarrow> stored db' r2 \<longleftrightarrow> stored db r2"
    "dom (map_of (db_rooms db')) = dom (map_of (db_rooms db))"
proof -
  obtain r out where h: "room_handle r0 c = (r, Inr out)"
    using res by (auto simp: apply_loaded_def split: prod.splits sum.splits)
  let ?R = "room_id_str (rm_id r0)"
  have frame: "rm_id r = rm_id r0" "rm_code r = rm_code r0" "rm_owner r = rm_owner r0"
    using room_handle_frame [of r0 c] h by simp_all
  have "room_handle r0 c = (mut_room m, Inr (mut_outcome m)) \<and> db_ok db' \<and> stored db' (mut_room m) \<and>
    (\<forall>r2. rm_id r2 \<noteq> rm_id r0 \<longrightarrow> stored db' r2 \<longleftrightarrow> stored db r2) \<and>
    dom (map_of (db_rooms db')) = dom (map_of (db_rooms db))"
  proof (cases "outcome_changed out")
    case False
    then have "db' = db" "m = \<lparr>mut_room = r, mut_outcome = out\<rparr>" using res h by (auto simp: apply_loaded_def)
    moreover have "r = r0"
      by (rule room_handle_unchanged [OF h False])
    ultimately show ?thesis using ok h by simp
  next
    case True
    obtain rv expires updated before' db1 n where
      n: "sql_integer (rm_revision r) = Inr rv" "sql_integer (rm_expires_at r) = Inr expires"
        "sql_integer (rm_revision r0) = Inr before'"
      and up: "sql_update_room (room_id_str (rm_id r)) before' (room_state_text (rm_state r)) rv expires updated db = Inr (db1, n)"
      and ch: "n = 1" "persist_room_children r now db1 = Inr db'" "m = \<lparr>mut_room = r, mut_outcome = out\<rparr>"
      using res h True by (auto simp: apply_loaded_def result_simps split: if_splits)
    obtain old where old: "map_of (db_rooms db) ?R = Some old" "room_row_holds old r0"
      using ok(2) by (auto simp: stored_def)
    have before: "rw_revision old = before'" using old(2) n(3) by (simp add: room_row_holds_def result_simps)
    note u = update_room_spec [OF ok(1) old(1) up [unfolded frame(1)] before]
    have v1: "member_view db1 = member_view db" "request_view db1 = request_view db" "id_free db1 = id_free db"
      by (rule views_cong; simp add: u(2))+
    have inv: "room_inv r" using room_handle_inv [OF ok(3), of c] h by simp
    have st: "members_stored db ?R (map_of (rm_memberships r0))" "requests_stored db ?R (map_of (rm_join_requests r0))"
      using ok(2) by (simp_all add: stored_def)
    have step: "room_step (rm_owner r0) (rm_expires_at r0) (rm_state r0, map_of (rm_memberships r0), map_of (rm_join_requests r0)) c
        (rm_state r, map_of (rm_memberships r), map_of (rm_join_requests r))"
      using room_handle_steps [OF ok(3), of c] h by (simp add: room_view_def)
    have P: "db_ok db'" "same_others db1 db'" "members_stored db' ?R (map_of (rm_memberships r))"
        "requests_stored db' ?R (map_of (rm_join_requests r))"
        "\<And>R'. R' \<noteq> ?R \<Longrightarrow> member_view db' R' = member_view db1 R' \<and> request_view db' R' = request_view db1 R'"
    proof -
      have free: "id_free db1 (room_id_str (rm_id r)) (request_id_str i) (session_id_str (jr_session_id q))"
        if "map_of (rm_join_requests r) i = Some q" for i q
        using handle_request_free [OF ok(3) st(2) ok(4), of i q] that h by (simp add: v1 frame)
      have c1: "map_of (rm_memberships r) (SessionId s) \<noteq> None" if "member_view db1 (room_id_str (rm_id r)) s \<noteq> None" for s
        using that st(1) room_step_origin(3) [OF step, of "SessionId s"] by (auto simp: members_stored_view v1 frame)
      have c2: "map_of (rm_join_requests r) (RequestId i) \<noteq> None" if "request_view db1 (room_id_str (rm_id r)) i \<noteq> None" for i
        using that st(2) room_step_origin(2) [OF step, of "RequestId i"] by (auto simp: requests_stored_view v1 frame)
      note p = persist_children_spec [OF u(3) ch(2) room_inv_wf [OF inv] free c1 c2, unfolded frame]
      show "db_ok db'" by (rule p(1))
      show "same_others db1 db'" by (rule p(2))
      show "members_stored db' ?R (map_of (rm_memberships r))" by (rule p(3))
      show "requests_stored db' ?R (map_of (rm_join_requests r))" by (rule p(4))
      show "\<And>R'. R' \<noteq> ?R \<Longrightarrow> member_view db' R' = member_view db1 R' \<and> request_view db' R' = request_view db1 R'"
        by (rule p(5))
    qed
    have rooms: "map_of (db_rooms db') = (map_of (db_rooms db))(?R \<mapsto> old\<lparr>rw_state := room_state_text (rm_state r),
        rw_revision := rv, rw_expires_at_ms := expires, rw_updated_at_ms := updated\<rparr>)"
      using P(2) db_ok_wf(1) [OF ok(1)] by (simp add: same_others_def u(2) map_of_bt_insert)
    have "stored db' r"
      using P(3,4) old(2) n rooms by (simp add: stored_def frame room_row_holds_def result_simps)
    moreover have "stored db' r2 \<longleftrightarrow> stored db r2" if "rm_id r2 \<noteq> rm_id r0" for r2
    proof (rule stored_cong)
      have "room_id_str (rm_id r2) \<noteq> ?R" using that room_id.expand by blast
      with P(5) rooms v1 show "map_of (db_rooms db') (room_id_str (rm_id r2)) = map_of (db_rooms db) (room_id_str (rm_id r2))"
        "member_view db' (room_id_str (rm_id r2)) = member_view db (room_id_str (rm_id r2))"
        "request_view db' (room_id_str (rm_id r2)) = request_view db (room_id_str (rm_id r2))" by simp_all
    qed
    moreover have "dom (map_of (db_rooms db')) = dom (map_of (db_rooms db))" using rooms old(1) by auto
    ultimately show ?thesis using h ch(3) P(1) by simp
  qed
  then show "room_handle r0 c = (mut_room m, Inr (mut_outcome m))" "db_ok db'" "stored db' (mut_room m)"
    "\<And>r2. rm_id r2 \<noteq> rm_id r0 \<Longrightarrow> stored db' r2 \<longleftrightarrow> stored db r2"
    "dom (map_of (db_rooms db')) = dom (map_of (db_rooms db))" by blast+
qed

section \<open>The database as a collection of rooms\<close>

definition sound_room :: "database \<Rightarrow> room \<Rightarrow> bool" where
  "sound_room db r \<longleftrightarrow> stored db r \<and> room_inv r \<and> room_ids_ok r"

definition db_inv :: "database \<Rightarrow> bool" where
  "db_inv db \<longleftrightarrow> db_ok db \<and>
     (\<forall>k row. map_of (db_rooms db) k = Some row \<longrightarrow> (\<exists>r. room_id_str (rm_id r) = k \<and> sound_room db r))"

lemma load_sound: "db_ok db \<Longrightarrow> sound_room db r \<Longrightarrow> load_room_on db (rm_code r) = Inr (Some r)"
  by (simp add: sound_room_def load_stored)

lemma load_room_found:
  assumes "db_inv db" "load_room_on db code = Inr (Some r)"
  shows "sound_room db r \<and> rm_code r = code"
proof -
  obtain k row where f: "find (\<lambda>(_, x). rw_code x = room_code_str code) (db_rooms db) = Some (k, row)"
    using assms(2) by (auto simp: load_room_on_def split: option.splits)
  then have row: "rw_code row = room_code_str code" "map_of (db_rooms db) k = Some row"
    using bt_wf_distinct [of "db_rooms db"] assms(1)
    by (auto simp: db_inv_def db_ok_def find_Some_iff in_set_conv_nth intro!: map_of_is_SomeI)
  then obtain r' where r': "room_id_str (rm_id r') = k" "sound_room db r'"
    using assms(1) by (auto simp: db_inv_def)
  then have "rw_code row = room_code_str (rm_code r')"
    using row(2) by (auto simp: sound_room_def stored_def room_row_holds_def)
  then have "rm_code r' = code" using row(1) room_code.expand by metis
  moreover have "load_room_on db (rm_code r') = Inr (Some r')"
    using load_sound r'(2) assms(1) by (simp add: db_inv_def)
  ultimately show ?thesis using r'(2) assms(2) by auto
qed

lemma apply_room_command_Inr:
  assumes "db_inv db" "apply_room_command db code expected c now = (db', Inr m)"
  obtains r0 where "sound_room db r0" "rm_code r0 = code" "expected = None \<or> expected = Some (rm_revision r0)"
    "apply_loaded db r0 (rm_revision r0) c now = Inr (db', m)" "load_room_on db code = Inr (Some r0)"
proof -
  obtain r0 where l: "load_room_on db code = Inr (Some r0)"
    and a: "apply_loaded db r0 (rm_revision r0) c now = Inr (db', m)" "expected = None \<or> expected = Some (rm_revision r0)"
    using assms(2)
    by (cases expected)
      (auto simp: apply_room_command_def end_transaction_def result_simps split: sum.splits if_splits)
  then show ?thesis using that load_room_found [OF assms(1) l] by blast
qed

lemma apply_room_command_spec:
  assumes inv: "db_inv db" and res: "apply_room_command db code expected c now = (db', Inr m)"
    and ids: "command_ids_ok c" and l: "load_room_on db code = Inr (Some r0)"
    and free: "request_id_free db (room_id_str (rm_id r0)) c"
  shows "room_handle r0 c = (mut_room m, Inr (mut_outcome m))" "db_inv db'" "sound_room db' (mut_room m)"
    "\<And>r2. rm_id r2 \<noteq> rm_id r0 \<Longrightarrow> stored db' r2 \<longleftrightarrow> stored db r2"
    "expected = None \<or> expected = Some (rm_revision r0)" "rm_code (mut_room m) = code" "rm_id (mut_room m) = rm_id r0"
    "dom (map_of (db_rooms db')) = dom (map_of (db_rooms db))"
proof -
  obtain r1 where r1: "sound_room db r1" "rm_code r1 = code" "expected = None \<or> expected = Some (rm_revision r1)"
      "apply_loaded db r1 (rm_revision r1) c now = Inr (db', m)" "load_room_on db code = Inr (Some r1)"
    by (rule apply_room_command_Inr [OF inv res])
  then have [simp]: "r1 = r0" using l by simp
  note s = r1(1) [unfolded sound_room_def]
  have ok: "db_ok db" using inv by (simp add: db_inv_def)
  have a: "apply_loaded db r0 (rm_revision r0) c now = Inr (db', m)" and st: "stored db r0" and ri: "room_inv r0"
    using r1(4) s by simp_all
  note p = apply_loaded_spec [OF ok st ri free a]
  show h: "room_handle r0 c = (mut_room m, Inr (mut_outcome m))" by (rule p(1))
  show frame: "rm_code (mut_room m) = code" "rm_id (mut_room m) = rm_id r0"
    using room_handle_frame [of r0 c] h r1(2) by simp_all
  show so: "sound_room db' (mut_room m)"
    using p(3) room_handle_inv [OF ri, of c] room_handle_ids_ok [OF ri _ ids] s h by (simp add: sound_room_def)
  show other: "stored db' r2 \<longleftrightarrow> stored db r2" if "rm_id r2 \<noteq> rm_id r0" for r2 by (rule p(4) [OF that])
  show "expected = None \<or> expected = Some (rm_revision r0)" using r1(3) by simp
  show dom: "dom (map_of (db_rooms db')) = dom (map_of (db_rooms db))" by (rule p(5))
  show "db_inv db'"
    unfolding db_inv_def
  proof (intro conjI allI impI)
    show "db_ok db'" by (rule p(2))
    fix k row assume "map_of (db_rooms db') k = Some row"
    then obtain row0 where "map_of (db_rooms db) k = Some row0" using dom by auto
    then obtain r where r: "room_id_str (rm_id r) = k" "sound_room db r" using inv by (auto simp: db_inv_def)
    show "\<exists>r. room_id_str (rm_id r) = k \<and> sound_room db' r"
    proof (cases "rm_id r = rm_id r0")
      case True
      then show ?thesis using so frame(2) r(1) by metis
    next
      case False
      then show ?thesis using other [OF False] r by (auto simp: sound_room_def)
    qed
  qed
qed

section \<open>New rooms\<close>

lemma insert_room_spec:
  assumes inv: "db_inv db" and r: "room_inv r" "room_ids_ok r" "rm_join_requests r = []"
    and res: "insert_room db r create_request now = (db', Inr ())"
  shows "db_inv db'" "sound_room db' r" "\<And>r2. rm_id r2 \<noteq> rm_id r \<Longrightarrow> stored db' r2 \<longleftrightarrow> stored db r2"
    "\<And>r2. rm_id r2 = rm_id r \<Longrightarrow> \<not> stored db r2" "load_room_on db (rm_code r) = Inr None"
proof -
  let ?R = "room_id_str (rm_id r)"
  obtain rv c x u db1 where n: "sql_integer (rm_revision r) = Inr rv" "sql_integer (rm_expires_at r) = Inr x"
    and ins: "sql_insert_room \<lparr>rw_id = ?R, rw_code = room_code_str (rm_code r),
             rw_owner_session_id = session_id_str (rm_owner r),
             rw_create_request_id = request_id_str create_request, rw_state = room_state_text (rm_state r),
             rw_revision = rv, rw_created_at_ms = c, rw_expires_at_ms = x,
             rw_updated_at_ms = u\<rparr> db = Inr db1"
    and ch: "persist_room_children r now db1 = Inr db'"
    using res by (auto simp: insert_room_def end_transaction_def result_simps split: sum.splits)
  define row where "row = \<lparr>rw_id = ?R, rw_code = room_code_str (rm_code r),
             rw_owner_session_id = session_id_str (rm_owner r),
             rw_create_request_id = request_id_str create_request, rw_state = room_state_text (rm_state r),
             rw_revision = rv, rw_created_at_ms = c, rw_expires_at_ms = x, rw_updated_at_ms = u\<rparr>"
  have ok: "db_ok db" using inv by (simp add: db_inv_def)
  have new: "map_of (db_rooms db) ?R = None" "\<not> list_ex (\<lambda>(_, o'). rw_code o' = rw_code row) (db_rooms db)"
    and db1: "db1 = db\<lparr>db_rooms := bt_insert ?R row (db_rooms db)\<rparr>"
    using ins by (auto simp: sql_insert_room_def row_def split: if_splits)
  have mo: "map_of (db_rooms db1) = (map_of (db_rooms db))(?R \<mapsto> row)"
    using db_ok_wf(1) [OF ok] by (simp add: db1 map_of_bt_insert)
  have codes: "rw_code row' \<noteq> rw_code row" if "map_of (db_rooms db) k = Some row'" for k row'
    using new(2) map_of_SomeD [OF that] by (auto simp: list_ex_iff)
  have codes_find: "find (\<lambda>(_, x). rw_code x = room_code_str (rm_code r)) (db_rooms db) = None"
    using new(2) by (auto simp: find_None_iff list_ex_iff row_def)
  have same: "db_members db1 = db_members db" "db_requests db1 = db_requests db" "db_sessions db1 = db_sessions db"
    by (simp_all add: db1)
  have ok1: "db_ok db1"
  proof -
    have "bt_wf (db_rooms db1)" using db_ok_wf(1) [OF ok] by (simp add: db1 bt_wf_insert)
    moreover have "rw_id r' = k" if "map_of (db_rooms db1) k = Some r'" for k r'
      using that db_ok_rows(1) [OF ok, of k] by (auto simp: mo row_def split: if_splits)
    moreover have "k = k'" if "map_of (db_rooms db1) k = Some a" "map_of (db_rooms db1) k' = Some b" "rw_code a = rw_code b"
      for k k' a b
      using that db_ok_rows(2) [OF ok, of k a k' b] codes [of k a] codes [of k' b] by (auto simp: mo split: if_splits)
    moreover have "map_of (db_rooms db1) k \<noteq> None" if "map_of (db_rooms db) k \<noteq> None" for k
      using that by (simp add: mo)
    ultimately show ?thesis using ok unfolding db_ok_def same by blast
  qed
  note v1 = views_cong [OF same(1,2)]
  have none1: "member_view db ?R s = None" for s
  proof (cases "map_of (db_members db) (?R, s)")
    case (Some m)
    then show ?thesis using new(1) db_ok_rows(3,4) [OF ok Some] by simp
  qed (simp add: member_view_def)
  have none2: "request_view db ?R i = None" for i
  proof (cases "own_request db ?R i")
    case (Some q)
    then show ?thesis using new(1) db_ok_rows(6) [OF ok, of i q] by (simp add: own_request_Some)
  qed (simp add: request_view_def)
  have free: "id_free db1 ?R (request_id_str i) (session_id_str (jr_session_id q))"
    if "map_of (rm_join_requests r) i = Some q" for i q
    using that by (simp add: r(3))
  have cover1: "map_of (rm_memberships r) (SessionId s) \<noteq> None" if "member_view db1 ?R s \<noteq> None" for s
    using that unfolding v1 by (simp add: none1)
  have cover2: "map_of (rm_join_requests r) (RequestId i) \<noteq> None" if "request_view db1 ?R i \<noteq> None" for i
    using that unfolding v1 by (simp add: none2)
  note P = persist_children_spec [OF ok1 ch room_inv_wf [OF r(1)] free cover1 cover2]
  have rooms: "map_of (db_rooms db') = (map_of (db_rooms db))(?R \<mapsto> row)"
    using P(2) mo by (simp add: same_others_def)
  show other: "stored db' r2 \<longleftrightarrow> stored db r2" if "rm_id r2 \<noteq> rm_id r" for r2
  proof (rule stored_cong)
    have "room_id_str (rm_id r2) \<noteq> ?R" using that room_id.expand by blast
    with P(5) [of "room_id_str (rm_id r2)"] rooms v1
    show "map_of (db_rooms db') (room_id_str (rm_id r2)) = map_of (db_rooms db) (room_id_str (rm_id r2))"
      "member_view db' (room_id_str (rm_id r2)) = member_view db (room_id_str (rm_id r2))"
      "request_view db' (room_id_str (rm_id r2)) = request_view db (room_id_str (rm_id r2))" by simp_all
  qed
  show "\<not> stored db r2" if "rm_id r2 = rm_id r" for r2 using new(1) that by (simp add: stored_def)
  show "load_room_on db (rm_code r) = Inr None"
    using codes_find by (simp add: load_room_on_def)
  show so: "sound_room db' r"
    using P(3,4) n rooms r(1,2) by (simp add: sound_room_def stored_def room_row_holds_def row_def result_simps)
  show "db_inv db'"
    unfolding db_inv_def
  proof (intro conjI allI impI)
    show "db_ok db'" by (rule P(1))
    fix k row' assume k: "map_of (db_rooms db') k = Some row'"
    show "\<exists>r. room_id_str (rm_id r) = k \<and> sound_room db' r"
    proof (cases "k = ?R")
      case True
      then show ?thesis using so by blast
    next
      case False
      then obtain r2 where r2: "room_id_str (rm_id r2) = k" "sound_room db r2"
        using inv k by (auto simp: rooms db_inv_def)
      then have "stored db' r2 \<longleftrightarrow> stored db r2" using False by (intro other) auto
      then show ?thesis using r2 by (auto simp: sound_room_def)
    qed
  qed
qed

section \<open>Sessions\<close>

lemma db_ok_sessions:
  assumes "db_ok db" "bt_wf m"
  shows "db_ok (db\<lparr>db_sessions := m\<rparr>)"
proof -
  have fields: "db_rooms (db\<lparr>db_sessions := m\<rparr>) = db_rooms db" "db_members (db\<lparr>db_sessions := m\<rparr>) = db_members db"
    "db_requests (db\<lparr>db_sessions := m\<rparr>) = db_requests db" "db_sessions (db\<lparr>db_sessions := m\<rparr>) = m"
    by simp_all
  show ?thesis using assms unfolding db_ok_def fields by (elim conjE) (intro conjI, assumption+)
qed

lemma insert_session_Inr:
  assumes "insert_session db s now = (db', Inr ())"
  obtains row where "map_of (db_sessions db) (session_id_str (sess_id s)) = None"
    "db' = db\<lparr>db_sessions := bt_insert (session_id_str (sess_id s)) row (db_sessions db)\<rparr>"
    "sw_id row = session_id_str (sess_id s)" "sw_display_name row = display_name_str (sess_display_name s)"
    "sw_state row = session_state_text (sess_state s)" "sw_expires_at_ms row = uint (sess_expires_at s)"
  using assms
  by (auto simp: insert_session_def sql_insert_session_def result_simps split: sum.splits if_splits)

lemma insert_session_inv:
  assumes "db_inv db" "insert_session db s now = (db', Inr ())"
  shows "db_inv db'"
proof -
  obtain row where d: "db' = db\<lparr>db_sessions := bt_insert (session_id_str (sess_id s)) row (db_sessions db)\<rparr>"
    by (rule insert_session_Inr [OF assms(2)])
  have ok: "db_ok db" using assms(1) by (simp add: db_inv_def)
  have "db_ok db'" unfolding d by (intro db_ok_sessions ok bt_wf_insert db_ok_wf(4))
  moreover have "sound_room db' r \<longleftrightarrow> sound_room db r" for r
    by (simp add: sound_room_def stored_def members_stored_def requests_stored_def own_request_def d)
  ultimately show ?thesis using assms(1) by (simp add: db_inv_def d)
qed

lemma db_inv_empty: "db_inv db_empty"
  by (simp add: db_inv_def db_ok_def db_empty_def bt_wf_def)

section \<open>Loading under the invariant\<close>

lemma load_room_iff:
  assumes "db_inv db"
  shows "load_room_on db code = Inr (Some r) \<longleftrightarrow> sound_room db r \<and> rm_code r = code"
  using load_room_found [OF assms] load_sound assms by (auto simp: db_inv_def)

lemma load_room_total:
  assumes "db_inv db"
  shows "\<exists>found. load_room_on db code = Inr found"
proof (cases "find (\<lambda>(_, x). rw_code x = room_code_str code) (db_rooms db)")
  case None
  then show ?thesis by (simp add: load_room_on_def)
next
  case (Some kx)
  then obtain k row where f: "find (\<lambda>(_, x). rw_code x = room_code_str code) (db_rooms db) = Some (k, row)"
    by (cases kx) auto
  then have row: "rw_code row = room_code_str code" "map_of (db_rooms db) k = Some row"
    using bt_wf_distinct [of "db_rooms db"] assms
    by (auto simp: db_inv_def db_ok_def find_Some_iff in_set_conv_nth intro!: map_of_is_SomeI)
  then obtain r where r: "room_id_str (rm_id r) = k" "sound_room db r" using assms by (auto simp: db_inv_def)
  then have "rm_code r = code"
    using row room_code.expand by (auto simp: sound_room_def stored_def room_row_holds_def)
  then show ?thesis using r(2) load_room_iff [OF assms] by blast
qed

lemma load_room_cong:
  assumes "db_inv db" "db_inv db'" "\<And>r. rm_code r = code \<Longrightarrow> sound_room db' r \<longleftrightarrow> sound_room db r"
  shows "load_room_on db' code = load_room_on db code"
proof -
  obtain f g where fg: "load_room_on db code = Inr f" "load_room_on db' code = Inr g"
    using load_room_total assms(1,2) by metis
  have "f = Some r \<longleftrightarrow> g = Some r" for r
    using load_room_iff [OF assms(1), of code r] load_room_iff [OF assms(2), of code r] assms(3) fg by auto
  then have "f = g" by (metis not_None_eq)
  then show ?thesis using fg by simp
qed

lemma sound_room_code_unique:
  assumes "db_inv db" "sound_room db r" "sound_room db r'"
  shows "rm_id r = rm_id r' \<longleftrightarrow> rm_code r = rm_code r'"
proof
  assume "rm_code r = rm_code r'"
  then have "load_room_on db (rm_code r) = Inr (Some r)" "load_room_on db (rm_code r) = Inr (Some r')"
    using load_room_iff [OF assms(1)] assms(2,3) by simp_all
  then show "rm_id r = rm_id r'" by simp
next
  assume "rm_id r = rm_id r'"
  then show "rm_code r = rm_code r'"
    using assms(2,3) room_code.expand by (auto simp: sound_room_def stored_def room_row_holds_def)
qed

lemma other_rooms_load:
  assumes inv: "db_inv db" "db_inv db'" and r: "sound_room db r0" "sound_room db' r1" "rm_id r1 = rm_id r0" "rm_code r1 = rm_code r0"
    and same: "\<And>r2 :: room. rm_id r2 \<noteq> rm_id r0 \<Longrightarrow> stored db' r2 \<longleftrightarrow> stored db r2" and code: "code \<noteq> rm_code r0"
  shows "load_room_on db' code = load_room_on db code"
proof (rule load_room_cong [OF inv])
  fix r2 :: room assume r2: "rm_code r2 = code"
  show "sound_room db' r2 \<longleftrightarrow> sound_room db r2"
  proof (cases "rm_id r2 = rm_id r0")
    case True
    have "\<not> sound_room db r2" using sound_room_code_unique [OF inv(1) _ r(1), of r2] True r2 code by auto
    moreover have "\<not> sound_room db' r2" using sound_room_code_unique [OF inv(2) _ r(2), of r2] True r2 code r(3,4) by auto
    ultimately show ?thesis by simp
  qed (simp add: sound_room_def same)
qed

lemma apply_room_command_load:
  assumes inv: "db_inv db" and res: "apply_room_command db code expected c now = (db', Inr m)"
    and ids: "command_ids_ok c" and l: "load_room_on db code = Inr (Some r0)"
    and free: "request_id_free db (room_id_str (rm_id r0)) c"
  shows "load_room_on db' code = Inr (Some (mut_room m))"
    "other \<noteq> code \<Longrightarrow> load_room_on db' other = load_room_on db other"
proof -
  have so: "sound_room db r0" "rm_code r0 = code" using l load_room_iff [OF inv] by simp_all
  note p = apply_room_command_spec [OF inv res ids l free]
  show "load_room_on db' code = Inr (Some (mut_room m))" using p(3,6) load_room_iff [OF p(2)] by simp
  show "load_room_on db' other = load_room_on db other" if "other \<noteq> code"
    by (rule other_rooms_load [OF inv p(2) so(1) p(3,7)]) (use p(4,6) so(2) that in auto)
qed

lemma insert_session_find:
  assumes "db_inv db" "insert_session db s now = (db', Inr ())"
    and "session_id_ok (sess_id s)" "display_name_parse raw = Inr (sess_display_name s)"
  shows "find_session db' (sess_id s) = Inr (Some s)" "other \<noteq> sess_id s \<Longrightarrow> find_session db' other = find_session db other"
proof -
  obtain row where row: "db' = db\<lparr>db_sessions := bt_insert (session_id_str (sess_id s)) row (db_sessions db)\<rparr>"
      "sw_id row = session_id_str (sess_id s)" "sw_display_name row = display_name_str (sess_display_name s)"
      "sw_state row = session_state_text (sess_state s)" "sw_expires_at_ms row = uint (sess_expires_at s)"
    by (rule insert_session_Inr [OF assms(2)])
  have m: "map_of (db_sessions db') = (map_of (db_sessions db))(session_id_str (sess_id s) \<mapsto> row)"
    using assms(1) by (simp add: row(1) map_of_bt_insert db_inv_def db_ok_def)
  have "decode_session row = Inr s"
    using assms(3) display_name_reparse [OF assms(4)]
    by (simp add: decode_session_def row session_id_ok_def parse_state_text unsigned_of_uint session_restore_def)
  then show "find_session db' (sess_id s) = Inr (Some s)" by (simp add: find_session_def m)
  show "find_session db' other = find_session db other" if "other \<noteq> sess_id s"
  proof -
    have "session_id_str other \<noteq> session_id_str (sess_id s)" using that session_id.expand by blast
    then show ?thesis by (simp add: find_session_def m)
  qed
qed

lemma inserted_room_load:
  assumes "db_inv db" "room_create i code owner now expires = Inr (r, out)"
    and "room_id_ok i" "room_code_wf code" "session_id_ok owner"
    and "insert_room db r create_request now' = (db', Inr ())"
  shows "db_inv db'" "load_room_on db' code = Inr (Some r)" "load_room_on db code = Inr None"
    "other \<noteq> code \<Longrightarrow> load_room_on db' other = load_room_on db other" "rm_code r = code"
proof -
  have r: "r = \<lparr>rm_id = i, rm_code = code, rm_owner = owner, rm_expires_at = expires, rm_state = RoomActive,
      rm_revision = 1, rm_memberships = [(owner, \<lparr>mem_role = Owner, mem_state = Offline\<rparr>)], rm_join_requests = []\<rparr>"
    using assms(2) by (auto simp: room_create_def split: if_splits)
  have ids: "room_ids_ok r" using assms(3-5) by (simp add: r room_ids_ok_def maps_ids_ok_def membership_ids_ok_def)
  have none: "rm_join_requests r = []" by (simp add: r)
  note p = insert_room_spec [OF assms(1) room_create_inv [OF assms(2)] ids none assms(6)]
  show "db_inv db'" by (rule p(1))
  show "rm_code r = code" by (simp add: r)
  show "load_room_on db' code = Inr (Some r)" using load_room_iff [OF p(1)] p(2) by (simp add: r)
  show "load_room_on db code = Inr None" using p(5) by (simp add: r)
  show "load_room_on db' other = load_room_on db other" if "other \<noteq> code"
  proof (rule load_room_cong [OF assms(1) p(1)])
    fix r2 :: room assume r2: "rm_code r2 = other"
    show "sound_room db' r2 \<longleftrightarrow> sound_room db r2"
    proof (cases "rm_id r2 = rm_id r")
      case True
      have "\<not> sound_room db' r2"
        using sound_room_code_unique [OF p(1) _ p(2), of r2] True r2 that by (auto simp: r)
      then show ?thesis using p(4) [OF True] by (simp add: sound_room_def)
    qed (simp add: sound_room_def p(3))
  qed
qed

end
