(* ===== verification/Storage_Properties.thy ===== *)
theory Storage_Properties
  imports Storage_Laws "HOL-Library.Code_Target_Nat"
begin

text \<open>
  What the storage layer guarantees: a command applied to a stored room is the domain's
  command, what it answers is what the next load gives, other rooms keep theirs, and stale
  revisions are refused; and the one case in which this fails, two rooms whose clients use
  the same request identifier.
\<close>

section \<open>Example\<close>

abbreviation ex_s1 :: session_id where "ex_s1 \<equiv> SessionId (rstr ''s1'')"
abbreviation ex_s2 :: session_id where "ex_s2 \<equiv> SessionId (rstr ''s2'')"
abbreviation ex_s3 :: session_id where "ex_s3 \<equiv> SessionId (rstr ''s3'')"
abbreviation ex_x :: request_id where "ex_x \<equiv> RequestId (rstr ''x'')"

definition ex_session :: "session_id \<Rightarrow> session" where
  "ex_session s = \<lparr>sess_id = s, sess_display_name = DisplayName (rstr ''n''), sess_expires_at = 9000,
                   sess_state = SessionActive\<rparr>"

definition ex_new_room :: "string \<Rightarrow> string \<Rightarrow> session_id \<Rightarrow> epoch_millis \<Rightarrow> room" where
  "ex_new_room i code owner expires =
     \<lparr>rm_id = RoomId (rstr i), rm_code = RoomCode (rstr code), rm_owner = owner, rm_expires_at = expires,
      rm_state = RoomActive, rm_revision = 1,
      rm_memberships = [(owner, \<lparr>mem_role = Owner, mem_state = Offline\<rparr>)], rm_join_requests = []\<rparr>"

abbreviation ex_code_a :: room_code where "ex_code_a \<equiv> RoomCode (rstr ''AAAAAA'')"
abbreviation ex_code_b :: room_code where "ex_code_b \<equiv> RoomCode (rstr ''BBBBBB'')"

definition ex_db0 :: database where
  "ex_db0 =
     fst (insert_session (fst (insert_session (fst (insert_session db_empty (ex_session ex_s1) 10))
       (ex_session ex_s2) 10)) (ex_session ex_s3) 10)"

definition ex_db1 :: database where
  "ex_db1 =
     fst (insert_room (fst (insert_room ex_db0 (ex_new_room ''a'' ''AAAAAA'' ex_s1 2000) ex_x 10))
       (ex_new_room ''b'' ''BBBBBB'' ex_s2 1000) ex_x 10)"

text \<open>Room B holds a request that its owner rejected.\<close>

definition ex_db2 :: database where
  "ex_db2 =
     fst (apply_room_command
       (fst (apply_room_command ex_db1 ex_code_b None (RequestJoin ex_x ex_s3 20 500) 20))
       ex_code_b None (DecideJoin ex_s2 ex_x Reject 30) 30)"

text \<open>The same databases as tables, so that they are computed once.\<close>

definition ex_tables ::
  "int \<Rightarrow> int \<Rightarrow> int \<Rightarrow> int \<Rightarrow> (rstring, join_request_row) btree_map \<Rightarrow> database" where
  "ex_tables ra ua rb ub requests =
     (let sess = (\<lambda>s. (rstr s, \<lparr>sw_id = rstr s, sw_display_name = rstr ''n'', sw_state = rstr ''active'',
            sw_created_at_ms = 10, sw_expires_at_ms = 9000, sw_updated_at_ms = 10\<rparr>));
          rm = (\<lambda>i code s e rv u. (rstr i, \<lparr>rw_id = rstr i, rw_code = rstr code, rw_owner_session_id = rstr s,
            rw_create_request_id = rstr ''x'', rw_state = rstr ''active'', rw_revision = rv, rw_created_at_ms = 10,
            rw_expires_at_ms = e, rw_updated_at_ms = u\<rparr>));
          mem = (\<lambda>i s u. ((rstr i, rstr s), \<lparr>mw_room_id = rstr i, mw_session_id = rstr s, mw_role = rstr ''owner'',
            mw_state = rstr ''offline'', mw_peer_id = None, mw_created_at_ms = 10, mw_updated_at_ms = u\<rparr>))
      in \<lparr>db_sessions = [sess ''s1'', sess ''s2'', sess ''s3''],
          db_rooms = [rm ''a'' ''AAAAAA'' ''s1'' 2000 ra ua, rm ''b'' ''BBBBBB'' ''s2'' 1000 rb ub],
          db_members = [mem ''a'' ''s1'' ua, mem ''b'' ''s2'' ub],
          db_requests = requests, db_invites = []\<rparr>)"

definition ex_request :: "string \<Rightarrow> int \<Rightarrow> int \<Rightarrow> rstring \<times> join_request_row" where
  "ex_request st e u = (rstr ''x'', \<lparr>jw_id = rstr ''x'', jw_room = rstr ''b'', jw_session = rstr ''s3'',
     jw_state = rstr st, jw_created_at_ms = 20, jw_expires_at_ms = e, jw_updated_at_ms = u\<rparr>)"

lemma ex_db0_eval [code]:
  "ex_db0 = (ex_tables 1 10 1 10 [])\<lparr>db_rooms := [], db_members := []\<rparr>"
  by code_simp

lemma ex_db1_eval [code]: "ex_db1 = ex_tables 1 10 1 10 []"
  by code_simp

lemma ex_db2_eval [code]: "ex_db2 = ex_tables 1 10 3 30 [ex_request ''rejected'' 500 30]"
  by code_simp

section \<open>The example database\<close>

lemma ex_ids_ok:
  "session_id_ok ex_s1" "session_id_ok ex_s2" "session_id_ok ex_s3" "request_id_ok ex_x"
  "room_id_ok (RoomId (rstr ''a''))" "room_id_ok (RoomId (rstr ''b''))" "room_code_wf ex_code_a" "room_code_wf ex_code_b"
  by code_simp+

lemma insert_session_fst:
  "db_inv db \<Longrightarrow> snd (insert_session db s now) = Inr () \<Longrightarrow> db_inv (fst (insert_session db s now))"
  by (metis insert_session_inv prod.collapse)

lemma ex_db0_inv: "db_inv ex_db0"
  unfolding ex_db0_def
  by (intro insert_session_fst db_inv_empty; code_simp)

lemma insert_created_fst:
  assumes "db_inv db" "room_create i code owner now expires = Inr (r, out)"
    and "room_id_ok i" "room_code_wf code" "session_id_ok owner" "snd (insert_room db r create_request now') = Inr ()"
  shows "db_inv (fst (insert_room db r create_request now'))"
  by (rule inserted_room_load(1) [OF assms(1-5), of create_request now']) (use assms(6) in \<open>metis prod.collapse\<close>)

lemma ex_db1_inv: "db_inv ex_db1"
proof -
  have a: "db_inv (fst (insert_room ex_db0 (ex_new_room ''a'' ''AAAAAA'' ex_s1 2000) ex_x 10))"
    by (rule insert_created_fst [OF ex_db0_inv, of "RoomId (rstr ''a'')" ex_code_a ex_s1 10 2000]; (rule ex_ids_ok | code_simp))
  show ?thesis
    unfolding ex_db1_def
    by (rule insert_created_fst [OF a, of "RoomId (rstr ''b'')" ex_code_b ex_s2 10 1000]; (rule ex_ids_ok | code_simp))
qed

section \<open>Commands on stored rooms\<close>



text \<open>C21. Commands are all or nothing and guarded by the revision: whatever the error, the database
  is as before; a command that expects a revision other than the stored one is refused with both
  revisions; and a command that was applied expected the stored revision, if any.\<close>

theorem stale_revision_is_refused:
  assumes "find_room_by_code db code = Inr (Some r0)"
  shows "(case apply_room_command db code (Some expected) c now of
      (db', Inl e) \<Rightarrow> db' = db \<and>
        (expected \<noteq> rm_revision r0 \<longrightarrow> e = RevisionConflict expected (rm_revision r0))
    | (db', Inr m) \<Rightarrow> expected = rm_revision r0)"
  using assms
  by (auto simp: apply_room_command_def find_room_by_code_def end_transaction_def result_simps split: sum.splits if_splits)

theorem stale_revision_is_refused_witness:
  "apply_room_command ex_db1 ex_code_b (Some 7) (RequestJoin ex_x ex_s3 20 500) 20 =
     (ex_db1, Inl (RevisionConflict 7 1))"
proof -
  have f: "find_room_by_code ex_db1 ex_code_b = Inr (Some (ex_new_room ''b'' ''BBBBBB'' ex_s2 1000))" by code_simp
  show ?thesis
    using stale_revision_is_refused [OF f, of 7 "RequestJoin ex_x ex_s3 20 500" 20]
    by (auto simp: ex_new_room_def split: prod.splits sum.splits)
qed

section \<open>Round trips\<close>

text \<open>A room that was just created and inserted is found under its code with exactly its
  content, and rooms inserted before stay as they were.\<close>

theorem inserted_room_is_found:
  assumes "db_inv db" "room_create i code owner now expires = Inr (r, out)"
    and "room_id_ok i" "room_code_wf code" "session_id_ok owner"
    and "insert_room db r create_request now' = (db', Inr ())"
  shows "find_room_by_code db' code = Inr (Some r) \<and> find_room_by_code db code = Inr None \<and>
    (\<forall>other. other \<noteq> code \<longrightarrow> find_room_by_code db' other = find_room_by_code db other) \<and> db_inv db'"
  using inserted_room_load [OF assms] by (simp add: find_room_by_code_def)

theorem inserted_room_is_found_witness:
  "\<exists>db'. insert_room ex_db0 (ex_new_room ''a'' ''AAAAAA'' ex_s1 2000) ex_x 10 = (db', Inr ()) \<and>
     find_room_by_code db' ex_code_a = Inr (Some (ex_new_room ''a'' ''AAAAAA'' ex_s1 2000))"
proof -
  let ?r = "ex_new_room ''a'' ''AAAAAA'' ex_s1 2000"
  have c: "room_create (RoomId (rstr ''a'')) ex_code_a ex_s1 10 2000 = Inr (?r, CHANGED)" by code_simp
  have "snd (insert_room ex_db0 ?r ex_x 10) = Inr ()" by code_simp
  then obtain db' where i: "insert_room ex_db0 ?r ex_x 10 = (db', Inr ())" by (metis prod.collapse)
  from inserted_room_is_found [OF ex_db0_inv c ex_ids_ok(5,7,1) i] show ?thesis using i by auto
qed

text \<open>A session that was inserted is found again with its name, expiry and state, and
  lookups of other sessions are as before.\<close>

theorem inserted_session_is_found:
  assumes "db_inv db" "insert_session db s now = (db', Inr ())"
    and "session_id_ok (sess_id s)" "display_name_parse raw = Inr (sess_display_name s)"
  shows "find_session db' (sess_id s) = Inr (Some s) \<and>
    (\<forall>other. other \<noteq> sess_id s \<longrightarrow> find_session db' other = find_session db other)"
  using insert_session_find [OF assms] by simp

theorem inserted_session_is_found_witness:
  "\<exists>db'. insert_session db_empty (ex_session ex_s1) 10 = (db', Inr ()) \<and>
     find_session db' ex_s1 = Inr (Some (ex_session ex_s1))"
proof -
  have "snd (insert_session db_empty (ex_session ex_s1) 10) = Inr ()" by code_simp
  then obtain db' where i: "insert_session db_empty (ex_session ex_s1) 10 = (db', Inr ())" by (metis prod.collapse)
  have "session_id_ok (sess_id (ex_session ex_s1))" by code_simp
  moreover have "display_name_parse (rstr '' n '') = Inr (sess_display_name (ex_session ex_s1))" by code_simp
  ultimately show ?thesis using inserted_session_is_found [OF db_inv_empty i] i by (auto simp: ex_session_def)
qed

section \<open>Request identifiers shared by rooms\<close>


end
