(* ===== verification/Server_Config.thy ===== *)
theory Server_Config
  imports Protocol_Http Domain_Ids Rate_Limit "HOL-Library.Code_Target_Nat"
begin

text \<open>
  The configuration of the server (\<open>rust/apps/server/src/config.rs\<close>): the defaults, what the
  process environment may change, the checks that reject an unsafe configuration, and the
  origin and authority allowlists used by the HTTP layer.

  The process environment is an argument: \<open>var\<close> gives a variable that is set and valid Unicode,
  \<open>var_os\<close> the text of a path variable.
\<close>

section \<open>String operations\<close>

fun split_on :: "rchar \<Rightarrow> rstring \<Rightarrow> rstring list" where
  "split_on sep [] = [[]]"
| "split_on sep (c # s) =
     (if c = sep then [] # split_on sep s
      else case split_on sep s of [] \<Rightarrow> [[c]] | part # parts \<Rightarrow> (c # part) # parts)"

fun split_once :: "rstring \<Rightarrow> rstring \<Rightarrow> (rstring \<times> rstring) option" where
  "split_once [] sep = (if sep = [] then Some ([], []) else None)"
| "split_once (c # s) sep =
     (if starts_with (c # s) sep then Some ([], drop (length sep) (c # s))
      else map_option (\<lambda>(a, b). (c # a, b)) (split_once s sep))"

definition comma_list :: "rstring \<Rightarrow> rstring list" where
  "comma_list s = filter (\<lambda>item. item \<noteq> []) (map trim (split_on 44 s))"

definition parse_u32 :: "rstring \<Rightarrow> u32 option" where
  "parse_u32 s =
     (let digits = (case s of c # rest \<Rightarrow> if c = 43 then rest else s | [] \<Rightarrow> s);
          n = foldl (\<lambda>a c. a * 10 + int (c - 48)) 0 digits
      in if digits = [] \<or> \<not> list_all is_ascii_digit digits \<or> 2 ^ 32 \<le> n then None
         else Some (of_int n))"

section \<open>Configuration\<close>

definition MINUTE_MS :: u64 where "MINUTE_MS = 60000"
definition HOUR_MS :: u64 where "HOUR_MS = 60 * MINUTE_MS"

type_synonym secret_bytes = "u8 list"

record turn_config =
  tc_urls :: "rstring list"
  tc_secret :: secret_bytes
  tc_ttl :: duration_millis

record app_config =
  cfg_database_path :: rstring
  cfg_allowed_origins :: "rstring list"
  cfg_secure_cookies :: bool
  cfg_session_ttl :: duration_millis
  cfg_room_ttl :: duration_millis
  cfg_join_request_ttl :: duration_millis
  cfg_invite_ttl :: duration_millis
  cfg_rtc_config_ttl :: duration_millis
  cfg_outbound_queue_capacity :: nat
  cfg_ice_servers :: "ice_server list"
  cfg_capability_secret :: secret_bytes
  cfg_turn :: "turn_config option"
  cfg_session_rate :: rate_policy
  cfg_room_rate :: rate_policy
  cfg_join_rate :: rate_policy
  cfg_signal_rate :: rate_policy

definition default_app_config :: app_config where
  "default_app_config =
     \<lparr>cfg_database_path = rstr ''data/p2p.sqlite3'',
      cfg_allowed_origins = [rstr ''http://127.0.0.1:3410'', rstr ''http://localhost:3410''],
      cfg_secure_cookies = False,
      cfg_session_ttl = 24 * HOUR_MS,
      cfg_room_ttl = 6 * HOUR_MS,
      cfg_join_request_ttl = 10 * MINUTE_MS,
      cfg_invite_ttl = HOUR_MS,
      cfg_rtc_config_ttl = 10 * MINUTE_MS,
      cfg_outbound_queue_capacity = 64,
      cfg_ice_servers = [\<lparr>is_urls = [rstr ''stun:stun.l.google.com:19302''], is_username = None, is_credential = None\<rparr>],
      cfg_capability_secret = as_bytes (rstr ''p2p-local-development-capability-secret''),
      cfg_turn = None,
      cfg_session_rate = \<lparr>rp_max_requests = 20, rp_window_ms = MINUTE_MS\<rparr>,
      cfg_room_rate = \<lparr>rp_max_requests = 30, rp_window_ms = MINUTE_MS\<rparr>,
      cfg_join_rate = \<lparr>rp_max_requests = 30, rp_window_ms = MINUTE_MS\<rparr>,
      cfg_signal_rate = \<lparr>rp_max_requests = 240, rp_window_ms = MINUTE_MS\<rparr>\<rparr>"

datatype config_error =
    EmptyOrigins
  | InvalidOrigin rstring
  | InvalidBoolean string rstring
  | InvalidPositiveInteger string rstring
  | EmptyIceServers
  | SecureCookiesRequired
  | CapabilitySecretRequired
  | SecretTooShort string
  | IncompleteTurnConfiguration
  | EmptyUrlList string

section \<open>Parsing\<close>

fun parse_origins_loop :: "rstring list \<Rightarrow> rstring list \<Rightarrow> config_error + rstring list" where
  "parse_origins_loop [] origins = Inr origins"
| "parse_origins_loop (origin # rest) origins =
     (case split_once origin (rstr ''://'') of
        None \<Rightarrow> Inl (InvalidOrigin origin)
      | Some (scheme, authority) \<Rightarrow>
          if scheme \<notin> {rstr ''http'', rstr ''https''} \<or> authority = [] \<or> 47 \<in> set authority
          then Inl (InvalidOrigin origin)
          else parse_origins_loop rest (List.insert origin origins))"

definition parse_origins :: "rstring \<Rightarrow> config_error + rstring list" where
  "parse_origins val =
     bind_result (parse_origins_loop (comma_list val) []) (\<lambda>origins.
       if origins = [] then Inl EmptyOrigins else Inr origins)"

definition parse_bool :: "string \<Rightarrow> rstring \<Rightarrow> config_error + bool" where
  "parse_bool name val =
     (if val \<in> {rstr ''1'', rstr ''true'', rstr ''TRUE''} then Inr True
      else if val \<in> {rstr ''0'', rstr ''false'', rstr ''FALSE''} then Inr False
      else Inl (InvalidBoolean name val))"

definition parse_positive_u32 :: "string \<Rightarrow> rstring \<Rightarrow> config_error + u32" where
  "parse_positive_u32 name val =
     (case parse_u32 val of
        Some n \<Rightarrow> if 0 < n then Inr n else Inl (InvalidPositiveInteger name val)
      | None \<Rightarrow> Inl (InvalidPositiveInteger name val))"

definition parse_urls :: "string \<Rightarrow> rstring \<Rightarrow> config_error + rstring list" where
  "parse_urls name val =
     (let urls = comma_list val in if urls = [] then Inl (EmptyUrlList name) else Inr urls)"

definition validate_security :: "app_config \<Rightarrow> bool \<Rightarrow> config_error + unit" where
  "validate_security config capability_secret_from_env =
     (let https_only = list_all (\<lambda>origin. starts_with origin (rstr ''https://'')) (cfg_allowed_origins config)
      in if https_only \<and> \<not> cfg_secure_cookies config then Inl SecureCookiesRequired
         else if https_only \<and> \<not> capability_secret_from_env then Inl CapabilitySecretRequired
         else Inr ())"

text \<open>\<open>if let Ok(value) = var(name)\<close>: an unset variable keeps what there is.\<close>

definition when_set :: "'v option \<Rightarrow> 'a \<Rightarrow> ('v \<Rightarrow> 'e + 'a) \<Rightarrow> 'e + 'a" where
  "when_set v keep f = (case v of None \<Rightarrow> Inr keep | Some x \<Rightarrow> f x)"

definition from_env ::
  "(string \<Rightarrow> rstring option) \<Rightarrow> (string \<Rightarrow> rstring option) \<Rightarrow> config_error + app_config" where
  "from_env var var_os =
     (let config = default_app_config;
          config = (case var_os ''P2P_DATABASE_PATH'' of
                      Some path \<Rightarrow> config\<lparr>cfg_database_path := path\<rparr> | None \<Rightarrow> config)
      in
      bind_result (when_set (var ''P2P_ALLOWED_ORIGINS'') config (\<lambda>v.
        bind_result (parse_origins v) (\<lambda>origins. Inr (config\<lparr>cfg_allowed_origins := origins\<rparr>)))) (\<lambda>config.
      bind_result (when_set (var ''P2P_SECURE_COOKIES'') config (\<lambda>v.
        bind_result (parse_bool ''P2P_SECURE_COOKIES'' v) (\<lambda>b. Inr (config\<lparr>cfg_secure_cookies := b\<rparr>)))) (\<lambda>config.
      bind_result (when_set (var ''P2P_CAPABILITY_SECRET'') (config, False) (\<lambda>v.
        if str_len v < 32 then Inl (SecretTooShort ''P2P_CAPABILITY_SECRET'')
        else Inr (config\<lparr>cfg_capability_secret := as_bytes v\<rparr>, True))) (\<lambda>(config, capability_secret_from_env).
      bind_result (when_set (var ''P2P_ICE_URLS'') config (\<lambda>v.
        let urls = comma_list v
        in if urls = [] then Inl EmptyIceServers
           else Inr (config\<lparr>cfg_ice_servers := [\<lparr>is_urls = urls, is_username = None, is_credential = None\<rparr>]\<rparr>))) (\<lambda>config.
      bind_result (when_set (var ''P2P_SESSION_RATE_MAX'') config (\<lambda>v.
        bind_result (parse_positive_u32 ''P2P_SESSION_RATE_MAX'' v) (\<lambda>n.
          Inr (config\<lparr>cfg_session_rate := (cfg_session_rate config)\<lparr>rp_max_requests := n\<rparr>\<rparr>)))) (\<lambda>config.
      bind_result (when_set (var ''P2P_ROOM_RATE_MAX'') config (\<lambda>v.
        bind_result (parse_positive_u32 ''P2P_ROOM_RATE_MAX'' v) (\<lambda>n.
          Inr (config\<lparr>cfg_room_rate := (cfg_room_rate config)\<lparr>rp_max_requests := n\<rparr>\<rparr>)))) (\<lambda>config.
      bind_result (when_set (var ''P2P_JOIN_RATE_MAX'') config (\<lambda>v.
        bind_result (parse_positive_u32 ''P2P_JOIN_RATE_MAX'' v) (\<lambda>n.
          Inr (config\<lparr>cfg_join_rate := (cfg_join_rate config)\<lparr>rp_max_requests := n\<rparr>\<rparr>)))) (\<lambda>config.
      bind_result (when_set (var ''P2P_SIGNAL_RATE_MAX'') config (\<lambda>v.
        bind_result (parse_positive_u32 ''P2P_SIGNAL_RATE_MAX'' v) (\<lambda>n.
          Inr (config\<lparr>cfg_signal_rate := (cfg_signal_rate config)\<lparr>rp_max_requests := n\<rparr>\<rparr>)))) (\<lambda>config.
      bind_result
        (case (var ''P2P_TURN_URLS'', var ''P2P_TURN_SECRET'') of
           (Some urls, Some secret) \<Rightarrow>
             bind_result (parse_urls ''P2P_TURN_URLS'' urls) (\<lambda>urls.
               if str_len secret < 16 then Inl (SecretTooShort ''P2P_TURN_SECRET'')
               else Inr (config\<lparr>cfg_turn := Some \<lparr>tc_urls = urls, tc_secret = as_bytes secret,
                                 tc_ttl = cfg_rtc_config_ttl config\<rparr>\<rparr>))
         | (None, None) \<Rightarrow> Inr config
         | _ \<Rightarrow> Inl IncompleteTurnConfiguration) (\<lambda>config.
      bind_result (validate_security config capability_secret_from_env) (\<lambda>_. Inr config)))))))))))"

definition allows_origin :: "app_config \<Rightarrow> rstring \<Rightarrow> bool" where
  "allows_origin config origin \<longleftrightarrow> origin \<in> set (cfg_allowed_origins config)"

definition allows_authority :: "app_config \<Rightarrow> rstring \<Rightarrow> bool" where
  "allows_authority config authority \<longleftrightarrow>
     list_ex (\<lambda>origin. case split_once origin (rstr ''://'') of
                Some (_, allowed) \<Rightarrow> eq_ignore_ascii_case allowed authority
              | None \<Rightarrow> False) (cfg_allowed_origins config)"

section \<open>Accepted configurations\<close>

definition origin_wf :: "rstring \<Rightarrow> bool" where
  "origin_wf origin \<longleftrightarrow>
     (case split_once origin (rstr ''://'') of
        None \<Rightarrow> False
      | Some (scheme, authority) \<Rightarrow>
          scheme \<in> {rstr ''http'', rstr ''https''} \<and> authority \<noteq> [] \<and> 47 \<notin> set authority)"

definition rate_usable :: "rate_policy \<Rightarrow> bool" where
  "rate_usable rate \<longleftrightarrow> 0 < rp_max_requests rate \<and> 0 < rp_window_ms rate"

definition config_safe :: "app_config \<Rightarrow> bool" where
  "config_safe c \<longleftrightarrow>
     cfg_allowed_origins c \<noteq> [] \<and> list_all origin_wf (cfg_allowed_origins c) \<and>
     32 \<le> length (cfg_capability_secret c) \<and>
     (case cfg_turn c of None \<Rightarrow> True | Some turn \<Rightarrow> tc_urls turn \<noteq> [] \<and> 16 \<le> length (tc_secret turn)) \<and>
     list_all rate_usable [cfg_session_rate c, cfg_room_rate c, cfg_join_rate c, cfg_signal_rate c]"

lemma parse_origins_loop_wf:
  "parse_origins_loop items acc = Inr origins \<Longrightarrow> list_all origin_wf acc \<Longrightarrow> list_all origin_wf origins"
proof (induction items arbitrary: acc)
  case (Cons origin rest)
  obtain scheme authority where so: "split_once origin (rstr ''://'') = Some (scheme, authority)"
    using Cons.prems(1) by (cases "split_once origin (rstr ''://'')") auto
  then have "origin_wf origin" "parse_origins_loop rest (List.insert origin acc) = Inr origins"
    using Cons.prems(1) by (auto simp: origin_wf_def split: if_splits)
  then show ?case using Cons.IH [of "List.insert origin acc"] Cons.prems(2) by (simp add: list_all_iff)
qed simp

lemma parse_origins_wf: "parse_origins v = Inr origins \<Longrightarrow> origins \<noteq> [] \<and> list_all origin_wf origins"
  using parse_origins_loop_wf [of "comma_list v" "[]"] by (auto simp: parse_origins_def result_simps split: if_splits)

lemma parse_positive_u32_Inr: "parse_positive_u32 name v = Inr n \<Longrightarrow> 0 < n"
  by (auto simp: parse_positive_u32_def split: option.splits if_splits)

lemma length_as_bytes: "length (as_bytes s) = str_len s"
proof (induction s)
  case (Cons c s)
  have "length (utf8_char c) = utf8_len c" by (simp add: utf8_char_def utf8_len_def)
  with Cons show ?case by (simp add: as_bytes_def)
qed (simp add: as_bytes_def)

lemma default_config_safe: "config_safe default_app_config"
  by (simp add: config_safe_def default_app_config_def origin_wf_def rate_usable_def rstr_def length_as_bytes
      utf8_len_def MINUTE_MS_def)

lemma when_set_keeps:
  assumes "when_set v keep f = Inr y" "P keep" "\<And>x. v = Some x \<Longrightarrow> f x = Inr y \<Longrightarrow> P y"
  shows "P y"
  using assms by (cases v) (auto simp: when_set_def)

text \<open>What is known after the variables up to the capability secret were read.\<close>

definition env_config :: "(string \<Rightarrow> rstring option) \<Rightarrow> app_config \<times> bool \<Rightarrow> bool" where
  "env_config var cs \<longleftrightarrow> config_safe (fst cs) \<and>
     (snd cs \<longrightarrow> (\<exists>v. var ''P2P_CAPABILITY_SECRET'' = Some v \<and> cfg_capability_secret (fst cs) = as_bytes v))"

lemma env_config_rate:
  assumes "env_config var (c, s)" "0 < n"
  shows "env_config var (c\<lparr>cfg_session_rate := (cfg_session_rate c)\<lparr>rp_max_requests := n\<rparr>\<rparr>, s)"
    "env_config var (c\<lparr>cfg_room_rate := (cfg_room_rate c)\<lparr>rp_max_requests := n\<rparr>\<rparr>, s)"
    "env_config var (c\<lparr>cfg_join_rate := (cfg_join_rate c)\<lparr>rp_max_requests := n\<rparr>\<rparr>, s)"
    "env_config var (c\<lparr>cfg_signal_rate := (cfg_signal_rate c)\<lparr>rp_max_requests := n\<rparr>\<rparr>, s)"
  using assms by (simp_all add: env_config_def config_safe_def rate_usable_def)

lemma from_env_safe:
  assumes "from_env var var_os = Inr config"
  shows "\<exists>s. env_config var (config, s) \<and> validate_security config s = Inr ()"
proof -
  define c0 where "c0 = (case var_os ''P2P_DATABASE_PATH'' of
    Some path \<Rightarrow> default_app_config\<lparr>cfg_database_path := path\<rparr> | None \<Rightarrow> default_app_config)"
  have s0: "config_safe c0" using default_config_safe by (simp add: c0_def config_safe_def split: option.splits)
  obtain c1 c2 c3 s c4 c5 c6 c7 c8 where
    b1: "when_set (var ''P2P_ALLOWED_ORIGINS'') c0 (\<lambda>v. bind_result (parse_origins v) (\<lambda>origins.
        Inr (c0\<lparr>cfg_allowed_origins := origins\<rparr>))) = Inr c1"
    and b2: "when_set (var ''P2P_SECURE_COOKIES'') c1 (\<lambda>v. bind_result (parse_bool ''P2P_SECURE_COOKIES'' v) (\<lambda>b.
        Inr (c1\<lparr>cfg_secure_cookies := b\<rparr>))) = Inr c2"
    and b3: "when_set (var ''P2P_CAPABILITY_SECRET'') (c2, False) (\<lambda>v.
        if str_len v < 32 then Inl (SecretTooShort ''P2P_CAPABILITY_SECRET'')
        else Inr (c2\<lparr>cfg_capability_secret := as_bytes v\<rparr>, True)) = Inr (c3, s)"
    and b4: "when_set (var ''P2P_ICE_URLS'') c3 (\<lambda>v. let urls = comma_list v in if urls = [] then Inl EmptyIceServers
           else Inr (c3\<lparr>cfg_ice_servers := [\<lparr>is_urls = urls, is_username = None, is_credential = None\<rparr>]\<rparr>)) = Inr c4"
    and b5: "when_set (var ''P2P_SESSION_RATE_MAX'') c4 (\<lambda>v. bind_result (parse_positive_u32 ''P2P_SESSION_RATE_MAX'' v) (\<lambda>n.
          Inr (c4\<lparr>cfg_session_rate := (cfg_session_rate c4)\<lparr>rp_max_requests := n\<rparr>\<rparr>))) = Inr c5"
    and b6: "when_set (var ''P2P_ROOM_RATE_MAX'') c5 (\<lambda>v. bind_result (parse_positive_u32 ''P2P_ROOM_RATE_MAX'' v) (\<lambda>n.
          Inr (c5\<lparr>cfg_room_rate := (cfg_room_rate c5)\<lparr>rp_max_requests := n\<rparr>\<rparr>))) = Inr c6"
    and b7: "when_set (var ''P2P_JOIN_RATE_MAX'') c6 (\<lambda>v. bind_result (parse_positive_u32 ''P2P_JOIN_RATE_MAX'' v) (\<lambda>n.
          Inr (c6\<lparr>cfg_join_rate := (cfg_join_rate c6)\<lparr>rp_max_requests := n\<rparr>\<rparr>))) = Inr c7"
    and b8: "when_set (var ''P2P_SIGNAL_RATE_MAX'') c7 (\<lambda>v. bind_result (parse_positive_u32 ''P2P_SIGNAL_RATE_MAX'' v) (\<lambda>n.
          Inr (c7\<lparr>cfg_signal_rate := (cfg_signal_rate c7)\<lparr>rp_max_requests := n\<rparr>\<rparr>))) = Inr c8"
    and b9: "(case (var ''P2P_TURN_URLS'', var ''P2P_TURN_SECRET'') of
           (Some urls, Some secret) \<Rightarrow>
             bind_result (parse_urls ''P2P_TURN_URLS'' urls) (\<lambda>urls.
               if str_len secret < 16 then Inl (SecretTooShort ''P2P_TURN_SECRET'')
               else Inr (c8\<lparr>cfg_turn := Some \<lparr>tc_urls = urls, tc_secret = as_bytes secret,
                                 tc_ttl = cfg_rtc_config_ttl c8\<rparr>\<rparr>))
         | (None, None) \<Rightarrow> Inr c8
         | _ \<Rightarrow> Inl IncompleteTurnConfiguration) = Inr config"
    and v: "validate_security config s = Inr ()"
    using assms unfolding from_env_def Let_def c0_def [symmetric] bind_result_Inr_iff
    by (elim exE conjE) (auto simp: bind_result_Inr_iff)
  have s1: "config_safe c1"
    by (rule when_set_keeps [where P = config_safe, OF b1 s0]) (use s0 parse_origins_wf in \<open>auto simp: config_safe_def result_simps\<close>)
  have s2: "config_safe c2"
    by (rule when_set_keeps [where P = config_safe, OF b2 s1]) (use s1 in \<open>auto simp: config_safe_def result_simps\<close>)
  have s3: "env_config var (c3, s)"
    by (rule when_set_keeps [where P = "env_config var", OF b3])
      (use s2 in \<open>auto simp: env_config_def config_safe_def length_as_bytes split: if_splits\<close>)
  have s4: "env_config var (c4, s)"
    by (rule when_set_keeps [where P = "\<lambda>c. env_config var (c, s)", OF b4 s3])
      (use s3 in \<open>auto simp: env_config_def config_safe_def Let_def split: if_splits\<close>)
  have s5: "env_config var (c5, s)"
    by (rule when_set_keeps [where P = "\<lambda>c. env_config var (c, s)", OF b5 s4])
      (auto simp: result_simps intro: env_config_rate [OF s4] parse_positive_u32_Inr)
  have s6: "env_config var (c6, s)"
    by (rule when_set_keeps [where P = "\<lambda>c. env_config var (c, s)", OF b6 s5])
      (auto simp: result_simps intro: env_config_rate [OF s5] parse_positive_u32_Inr)
  have s7: "env_config var (c7, s)"
    by (rule when_set_keeps [where P = "\<lambda>c. env_config var (c, s)", OF b7 s6])
      (auto simp: result_simps intro: env_config_rate [OF s6] parse_positive_u32_Inr)
  have s8: "env_config var (c8, s)"
    by (rule when_set_keeps [where P = "\<lambda>c. env_config var (c, s)", OF b8 s7])
      (auto simp: result_simps intro: env_config_rate [OF s7] parse_positive_u32_Inr)
  have "env_config var (config, s)"
    using b9 s8
    by (auto simp: env_config_def config_safe_def parse_urls_def Let_def length_as_bytes result_simps
        split: option.splits if_splits)
  with v show ?thesis by blast
qed

text \<open>C23. A configuration that is accepted from the environment is safe: at least one origin, each an
  HTTP or HTTPS scheme with an authority and no path; capability secrets of at least 32 bytes and
  TURN secrets of at least 16; rate limits that let requests through. And when every allowed
  origin uses HTTPS, session cookies are secure and the capability secret is the one that the
  environment provides, never the built-in one.\<close>

theorem accepted_config_is_safe:
  assumes "from_env var var_os = Inr config"
  shows "config_safe config \<and>
    (list_all (\<lambda>origin. starts_with origin (rstr ''https://'')) (cfg_allowed_origins config) \<longrightarrow>
       cfg_secure_cookies config \<and>
       (\<exists>secret. var ''P2P_CAPABILITY_SECRET'' = Some secret \<and> cfg_capability_secret config = as_bytes secret))"
  using from_env_safe [OF assms] by (auto simp: env_config_def validate_security_def Let_def split: if_splits)

definition ex_var :: "string \<Rightarrow> rstring option" where
  "ex_var name =
     map_of [(''P2P_ALLOWED_ORIGINS'', rstr ''https://a.example , https://b.example:8443''),
       (''P2P_SECURE_COOKIES'', rstr ''true''), (''P2P_JOIN_RATE_MAX'', rstr ''+12''),
       (''P2P_CAPABILITY_SECRET'', rstr ''0123456789abcdef0123456789abcdef'')] name"

theorem accepted_config_is_safe_witness:
  "\<exists>config. from_env ex_var (\<lambda>_. None) = Inr config \<and> config_safe config \<and> cfg_secure_cookies config \<and>
     cfg_allowed_origins config = [rstr ''https://b.example:8443'', rstr ''https://a.example'']"
proof -
  have "case from_env ex_var (\<lambda>_. None) of Inl _ \<Rightarrow> False
      | Inr c \<Rightarrow> cfg_allowed_origins c = [rstr ''https://b.example:8443'', rstr ''https://a.example'']"
    by code_simp
  then obtain c where c: "from_env ex_var (\<lambda>_. None) = Inr c"
      "cfg_allowed_origins c = [rstr ''https://b.example:8443'', rstr ''https://a.example'']"
    by (auto split: sum.splits)
  with accepted_config_is_safe [OF c(1)] show ?thesis by (auto simp: rstr_def)
qed

end
