(* ===== verification/App_Services.thy ===== *)
theory App_Services
  imports Server_Config Storage_Model Realtime_Hub
begin

text \<open>
  The application services of the server (\<open>rust/apps/server/src/services.rs\<close>) over the shared
  state of a request handler (\<open>AppState\<close> in \<open>http_api.rs\<close>): the database, the rate limiter and
  the realtime hub.

  What the process asks of its surroundings is an argument, collected in an environment: the
  readings of the system clock in milliseconds relative to the Unix epoch, the random version-4
  UUIDs, the keyed and plain hash functions, the Base64 encoding, the channels of the hub and
  the order in which the database scans rows with equal deadlines. The state counts how many
  readings and UUIDs were used, so that each use gets its own.
\<close>

section \<open>State and effects\<close>

record 'ch app_env =
  env_clock :: "nat \<Rightarrow> int"
  env_uuid :: "nat \<Rightarrow> u8 list"
  env_hmac_sha256 :: "u8 list \<Rightarrow> (u8 list \<Rightarrow> u8 list) option"
  env_hmac_sha1 :: "u8 list \<Rightarrow> (u8 list \<Rightarrow> u8 list) option"
  env_sha256 :: "u8 list \<Rightarrow> u8 list"
  env_base64 :: "u8 list \<Rightarrow> rstring"
  env_hub :: "'ch hub_env"
  env_scan_rooms :: "room_row list \<Rightarrow> room_row list"
  env_scan_requests :: "(join_request_row \<times> room_row) list \<Rightarrow> (join_request_row \<times> room_row) list"
  env_scan_sessions :: "session_row list \<Rightarrow> session_row list"

record 'ch app_state =
  app_db :: database
  app_limiter :: rate_entries
  app_hub :: "'ch hub_state"
  app_clock_reads :: nat
  app_uuids_drawn :: nat

definition app_state_new :: "'ch app_state" where
  "app_state_new = \<lparr>app_db = db_empty, app_limiter = [], app_hub = hub_empty, app_clock_reads = 0, app_uuids_drawn = 0\<rparr>"

type_synonym ('ch, 'e, 'a) app_op = "'ch app_state \<Rightarrow> 'ch app_state \<times> ('e + 'a)"

definition op_return :: "'a \<Rightarrow> ('ch, 'e, 'a) app_op" where
  "op_return x st = (st, Inr x)"

definition op_fail :: "'e \<Rightarrow> ('ch, 'e, 'a) app_op" where
  "op_fail e st = (st, Inl e)"

definition op_bind :: "('ch, 'e, 'a) app_op \<Rightarrow> ('a \<Rightarrow> ('ch, 'e, 'b) app_op) \<Rightarrow> ('ch, 'e, 'b) app_op" where
  "op_bind m f st = (case m st of (st', Inl e) \<Rightarrow> (st', Inl e) | (st', Inr x) \<Rightarrow> f x st')"

definition op_result :: "'e + 'a \<Rightarrow> ('ch, 'e, 'a) app_op" where
  "op_result r st = (st, r)"

definition op_map_err :: "('e \<Rightarrow> 'f) \<Rightarrow> ('ch, 'e, 'a) app_op \<Rightarrow> ('ch, 'f, 'a) app_op" where
  "op_map_err g m st = (case m st of (st', r) \<Rightarrow> (st', map_err g r))"

text \<open>Looks at the result of an operation instead of returning its error.\<close>

definition op_match :: "('ch, 'e, 'a) app_op \<Rightarrow> ('e + 'a \<Rightarrow> ('ch, 'f, 'b) app_op) \<Rightarrow> ('ch, 'f, 'b) app_op" where
  "op_match m f st = (case m st of (st', r) \<Rightarrow> f r st')"

definition on_db :: "(database \<Rightarrow> database \<times> 'r) \<Rightarrow> 'ch app_state \<Rightarrow> 'ch app_state \<times> 'r" where
  "on_db f st = (case f (app_db st) of (db, r) \<Rightarrow> (st\<lparr>app_db := db\<rparr>, r))"

definition on_hub :: "('ch hub_state \<Rightarrow> 'ch hub_state \<times> 'r) \<Rightarrow> 'ch app_state \<Rightarrow> 'ch app_state \<times> 'r" where
  "on_hub f st = (case f (app_hub st) of (hub, r) \<Rightarrow> (st\<lparr>app_hub := hub\<rparr>, r))"

definition on_limiter :: "(rate_entries \<Rightarrow> rate_entries \<times> bool) \<Rightarrow> ('ch, 'e, bool) app_op" where
  "on_limiter f st = (case f (app_limiter st) of (entries, b) \<Rightarrow> (st\<lparr>app_limiter := entries\<rparr>, Inr b))"

definition read_db :: "(database \<Rightarrow> 'e + 'a) \<Rightarrow> ('ch, 'e, 'a) app_op" where
  "read_db f st = (st, f (app_db st))"

definition draw_uuid :: "'ch app_env \<Rightarrow> ('ch, 'e, u8 list) app_op" where
  "draw_uuid env st = (st\<lparr>app_uuids_drawn := Suc (app_uuids_drawn st)\<rparr>, Inr (env_uuid env (app_uuids_drawn st)))"

section \<open>Errors and helpers\<close>

datatype service_error =
    SvcClock
  | SvcClockOverflow
  | SvcRoomCodeExhausted
  | SvcUnauthorized
  | SvcForbidden
  | SvcNotFound
  | SvcInvariant string
  | SvcId id_error
  | SvcRoomCode room_code_error
  | SvcDisplayName display_name_error
  | SvcTime time_error
  | SvcSession session_error
  | SvcRoom room_error
  | SvcStorage storage_error

definition svc_now :: "'ch app_env \<Rightarrow> ('ch, service_error, epoch_millis) app_op" where
  "svc_now env st =
     (let millis = env_clock env (app_clock_reads st)
      in (st\<lparr>app_clock_reads := Suc (app_clock_reads st)\<rparr>,
          if millis < 0 then Inl SvcClock
          else if 2 ^ 64 \<le> millis then Inl SvcClockOverflow
          else Inr (of_int millis)))"

definition hex_digit :: "u8 \<Rightarrow> rchar" where
  "hex_digit n = rstr ''0123456789abcdef'' ! unat n"

definition hex_lower :: "u8 list \<Rightarrow> rstring" where
  "hex_lower bytes = concat (map (\<lambda>byte. [hex_digit (drop_bit 4 byte), hex_digit (byte AND 0x0f)]) bytes)"

definition ROOM_CODE_ALPHABET :: rstring where
  "ROOM_CODE_ALPHABET = rstr ''ABCDEFGHJKLMNPQRSTUVWXYZ23456789''"

definition ROOM_CODE_ATTEMPTS :: nat where
  "ROOM_CODE_ATTEMPTS = 8"

definition random_room_code :: "'ch app_env \<Rightarrow> ('ch, service_error, room_code) app_op" where
  "random_room_code env =
     op_bind (draw_uuid env) (\<lambda>bytes.
       let code = map (\<lambda>byte. ROOM_CODE_ALPHABET ! (unat byte mod length ROOM_CODE_ALPHABET)) (take ROOM_CODE_LENGTH bytes)
       in op_result (map_err SvcRoomCode (room_code_parse code)))"

definition derive_capability :: "'ch app_env \<Rightarrow> u8 list \<Rightarrow> room_id \<Rightarrow> request_id \<Rightarrow> service_error + rstring" where
  "derive_capability env secret rid req =
     bind_result (ok_or (SvcInvariant ''capability HMAC secret is invalid'') (env_hmac_sha256 env secret)) (\<lambda>mac.
       Inr (hex_lower (mac (as_bytes (room_id_str rid) @ as_bytes (rstr '':'') @ as_bytes (request_id_str req)))))"

definition capability_hash :: "'ch app_env \<Rightarrow> rstring \<Rightarrow> u8 list" where
  "capability_hash env capability = env_sha256 env (as_bytes capability)"

definition svc_room_mutation_response :: "room_mutation \<Rightarrow> room_mutation_response" where
  "svc_room_mutation_response m =
     \<lparr>rmr_version = CURRENT_PROTOCOL, rmr_room_id = room_id_str (rm_id (mut_room m)),
      rmr_revision = rm_revision (mut_room m)\<rparr>"

definition svc_create_room_response :: "room \<Rightarrow> create_room_response" where
  "svc_create_room_response r =
     \<lparr>crr_version = CURRENT_PROTOCOL, crr_room_id = room_id_str (rm_id r), crr_room_code = room_code_str (rm_code r),
      crr_revision = rm_revision r, crr_expires_at_ms = rm_expires_at r\<rparr>"

fun svc_join_request_state_wire :: "join_request_state \<Rightarrow> join_request_state_wire" where
  "svc_join_request_state_wire Pending = WirePending"
| "svc_join_request_state_wire Approved = WireStateApproved"
| "svc_join_request_state_wire Rejected = WireStateRejected"
| "svc_join_request_state_wire Cancelled = WireCancelled"
| "svc_join_request_state_wire Expired = WireExpired"

definition svc_session_response :: "session \<Rightarrow> session_response" where
  "svc_session_response s =
     \<lparr>sr_version = CURRENT_PROTOCOL, sr_session_id = session_id_str (sess_id s),
      sr_display_name = display_name_str (sess_display_name s), sr_expires_at_ms = sess_expires_at s\<rparr>"

section \<open>Sessions\<close>

definition session_from_cookie ::
  "rstring option \<Rightarrow> epoch_millis \<Rightarrow> ('ch, service_error, session option) app_op" where
  "session_from_cookie cookie now =
     (case cookie of
        None \<Rightarrow> op_return None
      | Some v \<Rightarrow>
          (case session_id_parse v of
             Inl _ \<Rightarrow> op_return None
           | Inr sid \<Rightarrow>
               op_bind (op_map_err SvcStorage (read_db (\<lambda>db. find_session db sid))) (\<lambda>found.
                 case found of
                   None \<Rightarrow> op_return None
                 | Some s \<Rightarrow>
                     (case session_ensure_active s now of
                        Inl _ \<Rightarrow> op_return None
                      | Inr _ \<Rightarrow> op_return (Some s)))))"

definition create_or_restore_session ::
  "'ch app_env \<Rightarrow> app_config \<Rightarrow> rstring option \<Rightarrow> rstring \<Rightarrow> ('ch, service_error, session) app_op" where
  "create_or_restore_session env config existing name =
     op_bind (svc_now env) (\<lambda>now.
     op_bind (session_from_cookie existing now) (\<lambda>found.
       case found of
         Some s \<Rightarrow> op_return s
       | None \<Rightarrow>
           op_bind (op_result (map_err SvcDisplayName (display_name_parse name))) (\<lambda>display_name.
           op_bind (draw_uuid env) (\<lambda>uuid.
           op_bind (op_result (map_err SvcId (session_id_parse (rstr ''s_'' @ hex_lower uuid)))) (\<lambda>sid.
           op_bind (op_result (map_err SvcTime (epoch_checked_add now (cfg_session_ttl config)))) (\<lambda>expires.
           op_bind (op_result (map_err SvcSession (session_create sid display_name now expires))) (\<lambda>s.
           op_bind (op_map_err SvcStorage (on_db (\<lambda>db. insert_session db s now))) (\<lambda>_.
             op_return s))))))))"

definition svc_authenticate :: "'ch app_env \<Rightarrow> rstring option \<Rightarrow> ('ch, service_error, session) app_op" where
  "svc_authenticate env cookie =
     op_bind (svc_now env) (\<lambda>now.
     op_bind (session_from_cookie cookie now) (\<lambda>found.
       op_result (ok_or SvcUnauthorized found)))"

section \<open>Rooms\<close>

fun create_room_attempts ::
  "'ch app_env \<Rightarrow> app_config \<Rightarrow> session_id \<Rightarrow> request_id \<Rightarrow> epoch_millis \<Rightarrow> nat \<Rightarrow>
   ('ch, service_error, create_room_response) app_op" where
  "create_room_attempts env config owner rid now 0 = op_fail SvcRoomCodeExhausted"
| "create_room_attempts env config owner rid now (Suc n) =
     op_bind (draw_uuid env) (\<lambda>uuid.
     op_bind (op_result (map_err SvcId (room_id_parse (rstr ''r_'' @ hex_lower uuid)))) (\<lambda>i.
     op_bind (random_room_code env) (\<lambda>code.
     op_bind (op_result (map_err SvcTime (epoch_checked_add now (cfg_room_ttl config)))) (\<lambda>expires.
     op_bind (op_result (map_err SvcRoom (room_create i code owner now expires))) (\<lambda>(r, _).
       op_match (on_db (\<lambda>db. insert_room db r rid now)) (\<lambda>res.
         case res of
           Inr _ \<Rightarrow> op_return (svc_create_room_response r)
         | Inl e \<Rightarrow>
             if e = UniqueConflict
             then op_bind (op_map_err SvcStorage (read_db (\<lambda>db. find_room_by_create_request db owner rid))) (\<lambda>found.
                    case found of
                      Some existing \<Rightarrow> op_return (svc_create_room_response existing)
                    | None \<Rightarrow> create_room_attempts env config owner rid now n)
             else op_fail (SvcStorage e)))))))"

definition svc_create_room ::
  "'ch app_env \<Rightarrow> app_config \<Rightarrow> session \<Rightarrow> rstring \<Rightarrow> ('ch, service_error, create_room_response) app_op" where
  "svc_create_room env config owner request_id =
     op_bind (svc_now env) (\<lambda>now.
     op_bind (op_result (map_err SvcSession (session_ensure_active owner now))) (\<lambda>_.
     op_bind (op_result (map_err SvcId (request_id_parse request_id))) (\<lambda>rid.
     op_bind (op_map_err SvcStorage (read_db (\<lambda>db. find_room_by_create_request db (sess_id owner) rid))) (\<lambda>found.
       case found of
         Some existing \<Rightarrow> op_return (svc_create_room_response existing)
       | None \<Rightarrow> create_room_attempts env config (sess_id owner) rid now ROOM_CODE_ATTEMPTS))))"

text \<open>Active session, then the room that has to exist: the opening of most services.\<close>

definition svc_active_room ::
  "'ch app_env \<Rightarrow> session \<Rightarrow> room_code \<Rightarrow> ('ch, service_error, epoch_millis \<times> room) app_op" where
  "svc_active_room env s code =
     op_bind (svc_now env) (\<lambda>now.
     op_bind (op_result (map_err SvcSession (session_ensure_active s now))) (\<lambda>_.
     op_bind (op_map_err SvcStorage (read_db (\<lambda>db. find_room_by_code db code))) (\<lambda>found.
     op_bind (op_result (ok_or SvcNotFound found)) (\<lambda>r.
       op_return (now, r)))))"

definition svc_join_request_response :: "room \<Rightarrow> room_join_request_snapshot \<Rightarrow> join_request_response" where
  "svc_join_request_response r q =
     \<lparr>jrr_version = CURRENT_PROTOCOL, jrr_room_id = room_id_str (rm_id r),
      jrr_request_id = request_id_str (js_request_id q), jrr_state = svc_join_request_state_wire (js_state q),
      jrr_revision = rm_revision r, jrr_expires_at_ms = js_expires_at q\<rparr>"

definition svc_request_join ::
  "'ch app_env \<Rightarrow> app_config \<Rightarrow> session \<Rightarrow> room_code \<Rightarrow> request_id \<Rightarrow> revision option \<Rightarrow> rstring option \<Rightarrow>
   ('ch, service_error, join_request_response) app_op" where
  "svc_request_join env config s code rid expected capability =
     op_bind (svc_active_room env s code) (\<lambda>(now, r).
     op_bind
       (case capability of
          None \<Rightarrow> op_return ()
        | Some cap \<Rightarrow>
            op_bind (op_map_err SvcStorage (read_db (\<lambda>db.
                validate_invite_capability db (rm_id r) (capability_hash env cap) now))) (\<lambda>valid.
              if valid then op_return () else op_fail SvcForbidden)) (\<lambda>_.
     op_bind (op_result (map_err SvcTime (epoch_checked_add now (cfg_join_request_ttl config)))) (\<lambda>requested_expiry.
       let expires_at = min requested_expiry (rm_expires_at r)
       in op_bind (op_map_err SvcStorage (on_db (\<lambda>db.
            apply_room_command db code expected (RequestJoin rid (sess_id s) now expires_at) now))) (\<lambda>m.
          op_bind (op_result (ok_or (SvcInvariant ''join request missing after mutation'')
              (find (\<lambda>q. js_request_id q = rid) (join_request_snapshots (mut_room m))))) (\<lambda>q.
            op_return (svc_join_request_response (mut_room m) q))))))"

definition svc_join_request_status ::
  "'ch app_env \<Rightarrow> session \<Rightarrow> room_code \<Rightarrow> request_id \<Rightarrow> ('ch, service_error, join_request_response) app_op" where
  "svc_join_request_status env s code rid =
     op_bind (svc_active_room env s code) (\<lambda>(_, r).
     op_bind (op_result (ok_or SvcNotFound
         (find (\<lambda>q. js_request_id q = rid \<and> js_session_id q = sess_id s) (join_request_snapshots r)))) (\<lambda>q.
       op_return (svc_join_request_response r q)))"

definition svc_create_invite ::
  "'ch app_env \<Rightarrow> app_config \<Rightarrow> session \<Rightarrow> room_code \<Rightarrow> request_id \<Rightarrow> ('ch, service_error, create_invite_response) app_op" where
  "svc_create_invite env config owner code rid =
     op_bind (svc_active_room env owner code) (\<lambda>(now, r).
       if rm_owner r \<noteq> sess_id owner \<or> rm_state r \<noteq> RoomActive then op_fail SvcForbidden
       else
     op_bind (op_result (derive_capability env (cfg_capability_secret config) (rm_id r) rid)) (\<lambda>capability.
       let response = (\<lambda>expires. \<lparr>cir_version = CURRENT_PROTOCOL, cir_room_code = room_code_str (rm_code r),
                                  cir_capability = capability, cir_expires_at_ms = expires\<rparr>)
       in
     op_bind (op_map_err SvcStorage (read_db (\<lambda>db. find_invite_expiry db (rm_id r) rid))) (\<lambda>found.
       case found of
         Some expires_at \<Rightarrow> op_return (response expires_at)
       | None \<Rightarrow>
     op_bind (op_result (map_err SvcTime (epoch_checked_add now (cfg_invite_ttl config)))) (\<lambda>requested_expiry.
       let expires_at = min requested_expiry (rm_expires_at r)
       in if expires_at \<le> now then op_fail (SvcRoom Inactive)
          else
     op_bind (draw_uuid env) (\<lambda>uuid.
     op_match (on_db (\<lambda>db. insert_invite_capability db (rstr ''i_'' @ hex_lower uuid) (rm_id r) rid
         (capability_hash env capability) now expires_at)) (\<lambda>res.
       case res of
         Inr _ \<Rightarrow> op_return (response expires_at)
       | Inl e \<Rightarrow>
           if e = UniqueConflict
           then op_bind (op_map_err SvcStorage (read_db (\<lambda>db. find_invite_expiry db (rm_id r) rid))) (\<lambda>existing.
                  case existing of
                    None \<Rightarrow> op_fail (SvcStorage UniqueConflict)
                  | Some existing_expiry \<Rightarrow> op_return (response existing_expiry))
           else op_fail (SvcStorage e)))))))"

definition decimal :: "u64 \<Rightarrow> rstring" where
  "decimal n =
     (let digits = (\<lambda>k. unat (n div 10 ^ k mod 10))
      in dropWhile (\<lambda>c. c = 48) (map (\<lambda>k. 48 + digits k) (rev [1 ..< 20])) @ [48 + digits 0])"

definition svc_rtc_config ::
  "'ch app_env \<Rightarrow> app_config \<Rightarrow> session \<Rightarrow> ('ch, service_error, rtc_config_response) app_op" where
  "svc_rtc_config env config s =
     op_bind (svc_now env) (\<lambda>now.
     op_bind (op_result (map_err SvcSession (session_ensure_active s now))) (\<lambda>_.
     op_bind (op_result (map_err SvcTime (epoch_checked_add now (cfg_rtc_config_ttl config)))) (\<lambda>expires_at.
     op_bind
       (case cfg_turn config of
          None \<Rightarrow> op_return (cfg_ice_servers config, expires_at)
        | Some turn \<Rightarrow>
            op_bind (op_result (map_err SvcTime (epoch_checked_add now (tc_ttl turn)))) (\<lambda>turn_expiry.
              let expires_at = min expires_at turn_expiry;
                  username = decimal (turn_expiry div 1000) @ rstr '':'' @ session_id_str (sess_id s)
              in op_bind (op_result (ok_or (SvcInvariant ''TURN HMAC secret is invalid'')
                     (env_hmac_sha1 env (tc_secret turn)))) (\<lambda>mac.
                   op_return (cfg_ice_servers config @
                     [\<lparr>is_urls = tc_urls turn, is_username = Some username,
                       is_credential = Some (env_base64 env (mac (as_bytes username)))\<rparr>], expires_at)))) (\<lambda>(ice_servers, expires_at).
       op_return \<lparr>rcr_version = CURRENT_PROTOCOL, rcr_ice_servers = ice_servers, rcr_expires_at_ms = expires_at,
                  rcr_ttl_ms = saturating_sub expires_at now\<rparr>))))"

definition svc_decide_join ::
  "'ch app_env \<Rightarrow> session \<Rightarrow> room_code \<Rightarrow> request_id \<Rightarrow> join_decision \<Rightarrow> revision option \<Rightarrow>
   ('ch, service_error, room_mutation) app_op" where
  "svc_decide_join env actor code rid decision expected =
     op_bind (svc_now env) (\<lambda>now.
     op_bind (op_result (map_err SvcSession (session_ensure_active actor now))) (\<lambda>_.
       op_map_err SvcStorage (on_db (\<lambda>db.
         apply_room_command db code expected (DecideJoin (sess_id actor) rid decision now) now))))"

definition svc_leave_room ::
  "'ch app_env \<Rightarrow> session \<Rightarrow> room_code \<Rightarrow> revision option \<Rightarrow> ('ch, service_error, room_mutation) app_op" where
  "svc_leave_room env s code expected =
     op_bind (svc_now env) (\<lambda>now.
       op_map_err SvcStorage (on_db (\<lambda>db. apply_room_command db code expected (Leave (sess_id s)) now)))"

section \<open>Bootstrap\<close>

fun bootstrap_participants ::
  "database \<Rightarrow> room_membership_snapshot list \<Rightarrow> service_error + participant_snapshot list" where
  "bootstrap_participants db [] = Inr []"
| "bootstrap_participants db (m # ms) =
     (if ms_state m = Left then bootstrap_participants db ms
      else
        bind_result (map_err SvcStorage (find_session db (ms_session_id m))) (\<lambda>found.
        bind_result (ok_or (SvcInvariant ''room member session missing'') found) (\<lambda>member.
          let (online, peer) = (case ms_state m of Online p \<Rightarrow> (True, Some (peer_id_str p)) | _ \<Rightarrow> (False, None))
          in bind_result (bootstrap_participants db ms) (\<lambda>rest.
               Inr (\<lparr>ps_session_id = session_id_str (sess_id member),
                     ps_display_name = display_name_str (sess_display_name member),
                     ps_role = (case ms_role m of Owner \<Rightarrow> WireOwner | Receiver \<Rightarrow> WireReceiver),
                     ps_online = online, ps_peer_id = peer\<rparr> # rest)))))"

fun bootstrap_requests ::
  "database \<Rightarrow> room_join_request_snapshot list \<Rightarrow> service_error + join_request_snapshot list" where
  "bootstrap_requests db [] = Inr []"
| "bootstrap_requests db (q # qs) =
     bind_result (map_err SvcStorage (find_session db (js_session_id q))) (\<lambda>found.
     bind_result (ok_or (SvcInvariant ''join requester session missing'') found) (\<lambda>requester.
     bind_result (bootstrap_requests db qs) (\<lambda>rest.
       Inr (\<lparr>jq_request_id = request_id_str (js_request_id q), jq_session_id = session_id_str (js_session_id q),
             jq_display_name = display_name_str (sess_display_name requester),
             jq_expires_at_ms = js_expires_at q\<rparr> # rest))))"

definition svc_bootstrap_room ::
  "'ch app_env \<Rightarrow> session \<Rightarrow> room_code \<Rightarrow> ('ch, service_error, room_bootstrap_response) app_op" where
  "svc_bootstrap_room env s code =
     op_bind (svc_active_room env s code) (\<lambda>(_, r).
       let membership = membership_state_of r (sess_id s);
           own_request = find (\<lambda>q. js_session_id q = sess_id s) (join_request_snapshots r)
       in if (membership = None \<or> membership = Some Left) \<and> own_request = None then op_fail SvcForbidden
          else
            op_bind (read_db (\<lambda>db. bootstrap_participants db (membership_snapshots r))) (\<lambda>participants.
            let is_owner = (rm_owner r = sess_id s)
            in op_bind (read_db (\<lambda>db. bootstrap_requests db (filter (\<lambda>q. js_state q = Pending \<and>
                   (is_owner \<or> js_session_id q = sess_id s)) (join_request_snapshots r)))) (\<lambda>pending.
                 op_return \<lparr>rbr_version = CURRENT_PROTOCOL, rbr_room_id = room_id_str (rm_id r),
                   rbr_room_code = room_code_str (rm_code r), rbr_revision = rm_revision r,
                   rbr_expires_at_ms = rm_expires_at r, rbr_participants = participants,
                   rbr_pending_join_requests = pending\<rparr>)))"

end
