(* ===== verification/Realtime_Socket.thy ===== *)
theory Realtime_Socket
  imports App_Services
begin

text \<open>
  The websocket side of the server: \<open>rust/apps/server/src/realtime/socket.rs\<close> with its
  commands (\<open>socket/commands.rs\<close>, \<open>socket/commands/errors.rs\<close>). A connection is served one
  incoming frame at a time; the writer task that drains the outbound queue is the receiving
  end of the channel and is left to the environment.
\<close>

section \<open>Event identifiers and clean-up\<close>

definition event_id :: "'ch app_env \<Rightarrow> ('ch, 'e, rstring) app_op" where
  "event_id env = op_bind (draw_uuid env) (\<lambda>uuid. op_return (rstr ''e_'' @ hex_lower uuid))"

definition hub_op :: "('ch hub_state \<Rightarrow> 'ch hub_state \<times> 'a) \<Rightarrow> ('ch, 'e, 'a) app_op" where
  "hub_op f st = (case on_hub f st of (st', x) \<Rightarrow> (st', Inr x))"

definition cleanup_key :: "attachment \<Rightarrow> rstring" where
  "cleanup_key a = room_id_str (at_room_id a) @ rstr '':'' @ session_id_str (at_session_id a) @ rstr '':'' @
     peer_id_str (at_peer_id a)"

text \<open>One turn of the clean-up loop: detaches the member and returns what the notice evicted.\<close>

definition cleanup_one :: "'ch app_env \<Rightarrow> attachment \<Rightarrow> 'ch app_state \<Rightarrow> 'ch app_state \<times> attachment list" where
  "cleanup_one env a st =
     (case svc_now env st of
        (st, Inl _) \<Rightarrow> (st, [])
      | (st, Inr now) \<Rightarrow>
          (case on_db (\<lambda>db. apply_room_command db (at_room_code a) None (Detach (at_session_id a) (at_peer_id a)) now) st of
             (st, Inl _) \<Rightarrow> (st, [])
           | (st, Inr m) \<Rightarrow>
               if outcome_changed (mut_outcome m)
               then (case event_id env st of
                       (st, Inl (_ :: unit)) \<Rightarrow> (st, [])
                     | (st, Inr eid) \<Rightarrow>
                         on_hub (\<lambda>hub. hub_broadcast (env_hub env) hub (at_room_id a)
                           (SmPeerOffline CURRENT_PROTOCOL eid (rm_revision (mut_room m))
                             (session_id_str (at_session_id a)))) st)
               else (st, [])))"

lemma length_send_to:
  "length (hs_connections (fst (send_to env st c out))) = length (hs_connections st)"
  by (auto simp: send_to_def length_hm_update split: option.splits prod.splits)

lemma evict_shrinks:
  assumes "evict_connection_locked st c = (st', oa)"
  shows "length (hs_connections st') + (if oa = None then 0 else 1) \<le> length (hs_connections st)"
proof (cases "map_of (hs_connections st) c")
  case None
  then show ?thesis using assms by (auto simp: evict_connection_locked_def remove_connection_locked_def)
next
  case (Some entry)
  have "length (AList.delete c (hs_connections st)) < length (hs_connections st)"
    unfolding AList.delete_eq by (rule length_filter_less [OF map_of_SomeD [OF Some]]) simp
  moreover have "hs_connections st' = AList.delete c (hs_connections st)"
    using assms Some
    by (auto simp: evict_connection_locked_def remove_connection_locked_def detach_attachment_def detach_watch_def
        detach_mappings_def detach_watch_mappings_def Let_def split: option.splits)
  ultimately show ?thesis by simp
qed

lemma broadcast_to_shrinks:
  "broadcast_to env msg st cs evicted = (st', evicted') \<Longrightarrow>
     length evicted' + length (hs_connections st') \<le> length evicted + length (hs_connections st)"
proof (induction cs arbitrary: st evicted)
  case (Cons c cs)
  obtain st1 r where s: "send_to env st c (OutMessage msg) = (st1, r)" by (metis prod.exhaust)
  obtain st2 oa where e: "evict_connection_locked st1 c = (st2, oa)" by (metis prod.exhaust)
  have l: "length (hs_connections st1) = length (hs_connections st)"
    using length_send_to [of env st c "OutMessage msg"] s by simp
  note ev = evict_shrinks [OF e]
  consider "r = Some SendFull \<or> r = Some SendClosed" | "r = None \<or> r = Some SendOk"
    by (cases r) (metis option.exhaust try_send_result.exhaust)+
  then show ?case
  proof cases
    case 1
    then have "broadcast_to env msg st2 cs (case oa of None \<Rightarrow> evicted | Some a \<Rightarrow> evicted @ [a]) = (st', evicted')"
      using Cons.prems s e by (auto split: option.splits)
    from Cons.IH [OF this] show ?thesis using l ev by (cases oa) auto
  next
    case 2
    then have "broadcast_to env msg st1 cs evicted = (st', evicted')" using Cons.prems s by auto
    from Cons.IH [OF this] show ?thesis using l by simp
  qed
qed simp

lemma cleanup_one_shrinks:
  "cleanup_one env a st = (st', evicted) \<Longrightarrow>
     length evicted + length (hs_connections (app_hub st')) \<le> length (hs_connections (app_hub st))"
  by (auto simp: cleanup_one_def svc_now_def on_db_def on_hub_def event_id_def op_bind_def draw_uuid_def op_return_def
      hub_broadcast_def Let_def dest!: broadcast_to_shrinks split: prod.splits sum.splits if_splits)

text \<open>
  \<open>cleanup_attachments\<close>: the list of pending attachments is a stack. Every turn takes one
  attachment off it; each attachment the notices evict was a connection of the hub, which has
  one connection less afterwards, so the loop ends.
\<close>

function cleanup_loop ::
  "'ch app_env \<Rightarrow> attachment list \<Rightarrow> rstring list \<Rightarrow> 'ch app_state \<Rightarrow> 'ch app_state" where
  "cleanup_loop env pending seen st =
     (if pending = [] then st
      else
        let a = last pending; key = cleanup_key a
        in if key \<in> set seen then cleanup_loop env (butlast pending) seen st
           else case cleanup_one env a st of
                  (st', evicted) \<Rightarrow> cleanup_loop env (butlast pending @ evicted) (key # seen) st')"
  by pat_completeness auto
termination
  by (relation "measure (\<lambda>(env, pending, seen, st). length pending + length (hs_connections (app_hub st)))")
    (auto dest!: cleanup_one_shrinks [OF sym] simp flip: length_greater_0_conv)

declare cleanup_loop.simps [simp del]

definition cleanup_attachments :: "'ch app_env \<Rightarrow> attachment list \<Rightarrow> ('ch, 'e, unit) app_op" where
  "cleanup_attachments env initial st = (cleanup_loop env initial [] st, Inr ())"

section \<open>Command errors\<close>

record socket_command_error =
  sce_code :: string
  sce_message :: string
  sce_retryable :: bool
  sce_fatal :: bool

definition sce_invalid :: socket_command_error where
  "sce_invalid = \<lparr>sce_code = ''invalid_message'', sce_message = ''realtime message contains an invalid value'',
     sce_retryable = False, sce_fatal = False\<rparr>"

definition sce_forbidden :: socket_command_error where
  "sce_forbidden = \<lparr>sce_code = ''signal_forbidden'',
     sce_message = ''peer is not authorized for this realtime operation'', sce_retryable = False, sce_fatal = False\<rparr>"

definition sce_not_found :: socket_command_error where
  "sce_not_found = \<lparr>sce_code = ''room_not_found'', sce_message = ''room does not exist'',
     sce_retryable = False, sce_fatal = True\<rparr>"

definition sce_expired :: socket_command_error where
  "sce_expired = \<lparr>sce_code = ''room_expired'', sce_message = ''room has expired'',
     sce_retryable = False, sce_fatal = True\<rparr>"

definition sce_unavailable :: socket_command_error where
  "sce_unavailable = \<lparr>sce_code = ''realtime_unavailable'',
     sce_message = ''realtime service is temporarily unavailable'', sce_retryable = True, sce_fatal = False\<rparr>"

definition sce_attach_required :: socket_command_error where
  "sce_attach_required = \<lparr>sce_code = ''attach_required'', sce_message = ''connection must attach a room first'',
     sce_retryable = False, sce_fatal = False\<rparr>"

definition sce_join_resolved :: socket_command_error where
  "sce_join_resolved = \<lparr>sce_code = ''join_request_resolved'', sce_message = ''join request is no longer pending'',
     sce_retryable = False, sce_fatal = True\<rparr>"

definition sce_rate_limited :: socket_command_error where
  "sce_rate_limited = \<lparr>sce_code = ''rate_limited'', sce_message = ''signaling rate limit exceeded'',
     sce_retryable = True, sce_fatal = False\<rparr>"

definition map_storage_error :: "storage_error \<Rightarrow> socket_command_error" where
  "map_storage_error e =
     (case e of
        RoomNotFound \<Rightarrow> sce_not_found
      | RoomFailure re \<Rightarrow>
          if re \<in> {MembershipNotFound, MembershipLeft, Unauthorized} then sce_forbidden
          else if re \<in> {Inactive, RequestExpired} then sce_expired
          else sce_unavailable
      | _ \<Rightarrow> sce_unavailable)"

fun map_hub_error :: "hub_error \<Rightarrow> socket_command_error" where
  "map_hub_error NotAttached = sce_attach_required"
| "map_hub_error TargetNotFound = sce_forbidden"
| "map_hub_error CannotSignalSelf = sce_forbidden"
| "map_hub_error SlowConsumer = \<lparr>sce_code = ''slow_consumer'', sce_message = ''realtime outbound queue is full'',
     sce_retryable = True, sce_fatal = True\<rparr>"
| "map_hub_error ConnectionNotFound = \<lparr>sce_code = ''connection_closed'',
     sce_message = ''realtime connection is no longer active'', sce_retryable = True, sce_fatal = True\<rparr>"

section \<open>Commands\<close>

datatype socket_action = SaAttached | SaDetached | SaContinue

definition to_unavailable :: "('ch, 'e, 'a) app_op \<Rightarrow> ('ch, socket_command_error, 'a) app_op" where
  "to_unavailable m = op_map_err (\<lambda>_. sce_unavailable) m"

definition hub_call ::
  "('ch hub_state \<Rightarrow> 'ch hub_state \<times> (hub_error + 'a)) \<Rightarrow> ('ch, socket_command_error, 'a) app_op" where
  "hub_call f = op_map_err map_hub_error (on_hub f)"

definition send_message ::
  "'ch app_env \<Rightarrow> connection_id \<Rightarrow> (rstring \<Rightarrow> server_realtime_message) \<Rightarrow> ('ch, socket_command_error, unit) app_op" where
  "send_message env c msg =
     op_bind (event_id env) (\<lambda>eid. hub_call (\<lambda>hub. hub_send (env_hub env) hub c (OutMessage (msg eid))))"

definition snapshot_message :: "room_bootstrap_response \<Rightarrow> rstring \<Rightarrow> server_realtime_message" where
  "snapshot_message b eid =
     SmRoomSnapshot CURRENT_PROTOCOL eid (rbr_room_id b) (rbr_room_code b) (rbr_revision b) (rbr_expires_at_ms b)
       (rbr_participants b) (rbr_pending_join_requests b)"

definition broadcast_event ::
  "'ch app_env \<Rightarrow> room_id \<Rightarrow> (rstring \<Rightarrow> server_realtime_message) \<Rightarrow> ('ch, 'e, attachment list) app_op" where
  "broadcast_event env room msg =
     op_bind (event_id env) (\<lambda>eid. hub_op (\<lambda>hub. hub_broadcast (env_hub env) hub room (msg eid)))"

definition attach_room ::
  "'ch app_env \<Rightarrow> connection_id \<Rightarrow> session \<Rightarrow> rstring \<Rightarrow> rstring \<Rightarrow> u64 option \<Rightarrow>
   ('ch, socket_command_error, socket_action) app_op" where
  "attach_room env c s room_code peer_id last_revision =
     op_bind (op_result (map_err (\<lambda>_. sce_invalid) (room_code_parse room_code))) (\<lambda>code.
     op_bind (op_result (map_err (\<lambda>_. sce_invalid) (peer_id_parse peer_id))) (\<lambda>peer.
     op_bind (to_unavailable (svc_now env)) (\<lambda>now.
     op_bind (op_map_err map_storage_error (on_db (\<lambda>db.
         apply_room_command db code None (Attach (sess_id s) peer now) now))) (\<lambda>m.
     op_bind (hub_call (\<lambda>hub. hub_attach (env_hub env) hub c (rm_id (mut_room m)) code peer)) (\<lambda>replaced.
     op_bind (if replaced = [] then op_return () else cleanup_attachments env replaced) (\<lambda>_.
     op_bind (send_message env c (\<lambda>eid.
         SmAttached CURRENT_PROTOCOL eid (room_id_str (rm_id (mut_room m))) (rm_revision (mut_room m)))) (\<lambda>_.
     op_bind
       (if last_revision \<noteq> Some (rm_revision (mut_room m))
        then op_bind (to_unavailable (svc_bootstrap_room env s code)) (\<lambda>snapshot.
               send_message env c (snapshot_message snapshot))
        else op_return ()) (\<lambda>_.
     op_bind
       (if outcome_changed (mut_outcome m)
        then op_bind (broadcast_event env (rm_id (mut_room m)) (\<lambda>eid.
                 SmPeerOnline CURRENT_PROTOCOL eid (rm_revision (mut_room m)) (session_id_str (sess_id s)) (peer_id_str peer)))
               (cleanup_attachments env)
        else op_return ()) (\<lambda>_.
       op_return SaAttached)))))))))"

definition watch_join_request ::
  "'ch app_env \<Rightarrow> connection_id \<Rightarrow> session \<Rightarrow> rstring \<Rightarrow> rstring \<Rightarrow> u64 option \<Rightarrow>
   ('ch, socket_command_error, socket_action) app_op" where
  "watch_join_request env c s room_code request_id last_revision =
     op_bind (op_result (map_err (\<lambda>_. sce_invalid) (room_code_parse room_code))) (\<lambda>code.
     op_bind (op_result (map_err (\<lambda>_. sce_invalid) (request_id_parse request_id))) (\<lambda>rid.
     op_bind (op_map_err (\<lambda>_. sce_forbidden) (svc_join_request_status env s code rid)) (\<lambda>status.
       if jrr_state status \<noteq> WirePending then op_fail sce_join_resolved
       else
     op_bind (op_result (map_err (\<lambda>_. sce_unavailable) (room_id_parse (jrr_room_id status)))) (\<lambda>room.
     op_bind (to_unavailable (svc_bootstrap_room env s code)) (\<lambda>snapshot.
     op_bind (hub_call (\<lambda>hub. hub_watch_join hub c room)) (\<lambda>replaced.
     op_bind (if replaced = [] then op_return () else cleanup_attachments env replaced) (\<lambda>_.
     op_bind (send_message env c (\<lambda>eid.
         SmJoinWatching CURRENT_PROTOCOL eid (room_id_str room) (request_id_str rid) (jrr_revision status))) (\<lambda>_.
     op_bind
       (if last_revision \<noteq> Some (rbr_revision snapshot) then send_message env c (snapshot_message snapshot)
        else op_return ()) (\<lambda>_.
       op_return SaAttached)))))))))"

definition detach_room ::
  "'ch app_env \<Rightarrow> connection_id \<Rightarrow> rstring \<Rightarrow> ('ch, socket_command_error, socket_action) app_op" where
  "detach_room env c room_code =
     op_bind (op_result (map_err (\<lambda>_. sce_invalid) (room_code_parse room_code))) (\<lambda>code.
     op_bind (hub_call (\<lambda>hub. (hub, hub_attachment hub c))) (\<lambda>current.
       if at_room_code current \<noteq> code then op_fail sce_forbidden
       else
     op_bind (hub_call (\<lambda>hub. hub_detach hub c)) (\<lambda>detached.
     op_bind (case detached of None \<Rightarrow> op_return () | Some a \<Rightarrow> cleanup_attachments env [a]) (\<lambda>_.
       op_return SaDetached))))"

definition authorize_signal ::
  "connection_id \<Rightarrow> room_code \<Rightarrow> peer_id \<Rightarrow> ('ch, socket_command_error, attachment) app_op" where
  "authorize_signal c code to_peer =
     op_bind (hub_call (\<lambda>hub. (hub, hub_attachment hub c))) (\<lambda>a.
       if at_room_code a \<noteq> code \<or> at_peer_id a = to_peer then op_fail sce_forbidden
       else
     op_bind (to_unavailable (read_db (\<lambda>db. find_room_by_code db code))) (\<lambda>found.
     op_bind (op_result (ok_or sce_forbidden found)) (\<lambda>r.
       let sender_is_current = (membership_state_of r (at_session_id a) = Some (Online (at_peer_id a)));
           target_is_current = list_ex (\<lambda>m. ms_state m = Online to_peer) (membership_snapshots r)
       in if \<not> sender_is_current \<or> \<not> target_is_current then op_fail sce_forbidden
          else op_return a)))"

definition relay_signal ::
  "'ch app_env \<Rightarrow> app_config \<Rightarrow> connection_id \<Rightarrow> session \<Rightarrow> rstring \<Rightarrow> rstring \<Rightarrow> rstring \<Rightarrow> rtc_signal \<Rightarrow>
   ('ch, socket_command_error, socket_action) app_op" where
  "relay_signal env config c s room_code to_peer_id negotiation_id signal =
     op_bind (op_result (map_err (\<lambda>_. sce_invalid) (room_code_parse room_code))) (\<lambda>code.
     op_bind (op_result (map_err (\<lambda>_. sce_invalid) (peer_id_parse to_peer_id))) (\<lambda>to_peer.
     op_bind (authorize_signal c code to_peer) (\<lambda>a.
     op_bind (to_unavailable (svc_now env)) (\<lambda>now.
     op_bind (on_limiter (\<lambda>es. rate_check es (rstr ''signal'') (session_id_str (sess_id s)) (cfg_signal_rate config) now)) (\<lambda>allowed.
       if \<not> allowed then op_fail sce_rate_limited
       else
     op_bind (event_id env) (\<lambda>eid.
     op_bind (hub_call (\<lambda>hub. hub_send_to_peer (env_hub env) hub c to_peer
         (SmSignal CURRENT_PROTOCOL eid (peer_id_str (at_peer_id a)) negotiation_id signal))) (\<lambda>_.
       op_return SaContinue)))))))"

fun handle_client_message ::
  "'ch app_env \<Rightarrow> app_config \<Rightarrow> connection_id \<Rightarrow> session \<Rightarrow> client_realtime_message \<Rightarrow>
   ('ch, socket_command_error, socket_action) app_op" where
  "handle_client_message env config c s (AttachRoom _ room_code peer_id last_revision) =
     attach_room env c s room_code peer_id last_revision"
| "handle_client_message env config c s (WatchJoinRequest _ room_code request_id last_revision) =
     watch_join_request env c s room_code request_id last_revision"
| "handle_client_message env config c s (DetachRoom _ room_code) = detach_room env c room_code"
| "handle_client_message env config c s (ClientSignal _ room_code to_peer_id negotiation_id signal) =
     relay_signal env config c s room_code to_peer_id negotiation_id signal"
| "handle_client_message env config c s (Heartbeat _ _) = op_return SaContinue"
| "handle_client_message env config c s (AckEvent _ _) = op_return SaContinue"

section \<open>Serving a connection\<close>

definition MAX_PROTOCOL_VIOLATIONS :: u8 where
  "MAX_PROTOCOL_VIOLATIONS = 3"

datatype socket_input = TextFrame rstring | BinaryFrame | CloseFrame | PingPong | ReadFailed | StreamEnded | IdleTimeout

record socket_loop =
  sl_attached :: bool
  sl_violations :: u8

definition send_socket_error ::
  "'ch app_env \<Rightarrow> connection_id \<Rightarrow> string \<Rightarrow> string \<Rightarrow> bool \<Rightarrow> 'ch app_state \<Rightarrow> 'ch app_state" where
  "send_socket_error env c code message retryable st =
     fst (on_hub (\<lambda>hub. hub_send (env_hub env) hub c
       (OutMessage (SmError CURRENT_PROTOCOL (rstr code) (rstr message) retryable))) st)"

text \<open>A protocol violation is answered and counted; the third ends the loop.\<close>

definition socket_violation ::
  "'ch app_env \<Rightarrow> connection_id \<Rightarrow> string \<Rightarrow> string \<Rightarrow> socket_loop \<Rightarrow> 'ch app_state \<Rightarrow> 'ch app_state \<times> socket_loop option" where
  "socket_violation env c code message l st =
     (let violations = saturating_add (sl_violations l) 1;
          st = send_socket_error env c code message False st
      in (st, if MAX_PROTOCOL_VIOLATIONS \<le> violations then None else Some (l\<lparr>sl_violations := violations\<rparr>)))"

text \<open>One turn of the loop; no loop state means the loop was left.\<close>

definition socket_turn ::
  "'ch app_env \<Rightarrow> app_config \<Rightarrow> (rstring \<Rightarrow> string + client_realtime_message) \<Rightarrow> connection_id \<Rightarrow> session \<Rightarrow>
   socket_input \<Rightarrow> socket_loop \<Rightarrow> 'ch app_state \<Rightarrow> 'ch app_state \<times> socket_loop option" where
  "socket_turn env config from_str c s input l st =
     (case input of
        ReadFailed \<Rightarrow> (st, None)
      | StreamEnded \<Rightarrow> (st, None)
      | IdleTimeout \<Rightarrow> (st, None)
      | CloseFrame \<Rightarrow> (st, None)
      | PingPong \<Rightarrow> (st, Some l)
      | BinaryFrame \<Rightarrow>
          socket_violation env c ''binary_not_allowed'' ''realtime control messages must use JSON text frames'' l st
      | TextFrame text \<Rightarrow>
          (case parse_client_message from_str text of
             Inl _ \<Rightarrow> socket_violation env c ''invalid_message'' ''realtime message is invalid'' l st
           | Inr message \<Rightarrow>
               if \<not> sl_attached l \<and> \<not> (is_AttachRoom message \<or> is_WatchJoinRequest message)
               then (send_socket_error env c ''attach_required'' ''the first realtime message must attach a room'' False st, None)
               else case handle_client_message env config c s message st of
                      (st, Inr SaAttached) \<Rightarrow> (st, Some (l\<lparr>sl_attached := True\<rparr>))
                    | (st, Inr SaDetached) \<Rightarrow> (st, Some (l\<lparr>sl_attached := False\<rparr>))
                    | (st, Inr SaContinue) \<Rightarrow> (st, Some l)
                    | (st, Inl e) \<Rightarrow>
                        (send_socket_error env c (sce_code e) (sce_message e) (sce_retryable e) st,
                         if sce_fatal e then None else Some l)))"

definition socket_open :: "'ch app_env \<Rightarrow> app_config \<Rightarrow> session \<Rightarrow> 'ch app_state \<Rightarrow> 'ch app_state \<times> connection_id" where
  "socket_open env config s st =
     (let c = ConnectionId (rstr ''c_'' @ hex_lower (env_uuid env (app_uuids_drawn st)))
      in (st\<lparr>app_uuids_drawn := Suc (app_uuids_drawn st),
             app_hub := hub_register (env_hub env) (cfg_outbound_queue_capacity config) c (app_hub st) (sess_id s)\<rparr>, c))"

definition socket_close :: "'ch app_env \<Rightarrow> connection_id \<Rightarrow> 'ch app_state \<Rightarrow> 'ch app_state" where
  "socket_close env c st =
     (case on_hub (\<lambda>hub. hub_unregister hub c) st of
        (st, Some a) \<Rightarrow> cleanup_loop env [a] [] st
      | (st, None) \<Rightarrow> st)"

text \<open>The whole service of a connection for the frames that arrive until the loop is left.\<close>

fun socket_loop_run ::
  "'ch app_env \<Rightarrow> app_config \<Rightarrow> (rstring \<Rightarrow> string + client_realtime_message) \<Rightarrow> connection_id \<Rightarrow> session \<Rightarrow>
   socket_input list \<Rightarrow> socket_loop \<Rightarrow> 'ch app_state \<Rightarrow> 'ch app_state" where
  "socket_loop_run env config from_str c s [] l st = socket_close env c st"
| "socket_loop_run env config from_str c s (i # is) l st =
     (case socket_turn env config from_str c s i l st of
        (st, None) \<Rightarrow> socket_close env c st
      | (st, Some l) \<Rightarrow> socket_loop_run env config from_str c s is l st)"

definition serve_socket ::
  "'ch app_env \<Rightarrow> app_config \<Rightarrow> (rstring \<Rightarrow> string + client_realtime_message) \<Rightarrow> session \<Rightarrow> socket_input list \<Rightarrow>
   'ch app_state \<Rightarrow> 'ch app_state" where
  "serve_socket env config from_str s inputs st =
     (case socket_open env config s st of
        (st, c) \<Rightarrow> socket_loop_run env config from_str c s inputs \<lparr>sl_attached = False, sl_violations = 0\<rparr> st)"

end
