(* ===== verification/Http_Api.thy ===== *)
theory Http_Api
  imports Realtime_Socket
begin

text \<open>
  The HTTP handlers of the server (\<open>rust/apps/server/src/http_api.rs\<close>) and the maintenance
  batch (\<open>rust/apps/server/src/maintenance.rs\<close>). A handler maps the parts of a request that
  the framework extracts, headers, cookies, path and body, to a status with a body or to an
  error. The deserializers of the request bodies are arguments.
\<close>

section \<open>Requests\<close>

record request_headers =
  hd_origin :: "rstring option"
  hd_content_type :: "rstring option"
  hd_sec_fetch_site :: "rstring option"
  hd_sec_fetch_mode :: "rstring option"
  hd_sec_fetch_dest :: "rstring option"
  hd_host :: "rstring option"

type_synonym cookie_jar = "(rstring \<times> rstring) list"
type_synonym request_body = "unit + u8 list"

definition SESSION_COOKIE_NAME :: rstring where
  "SESSION_COOKIE_NAME = rstr ''p2p_session_v5''"

section \<open>Errors\<close>

record http_error =
  he_status :: nat
  he_code :: api_error_code
  he_message :: string
  he_request_id :: "rstring option"
  he_retryable :: bool

definition invalid_request :: "string \<Rightarrow> rstring option \<Rightarrow> http_error" where
  "invalid_request message rid =
     \<lparr>he_status = 400, he_code = CodeInvalidRequest, he_message = message, he_request_id = rid, he_retryable = False\<rparr>"

definition origin_forbidden :: http_error where
  "origin_forbidden = \<lparr>he_status = 403, he_code = CodeForbidden, he_message = ''request origin is not allowed'',
     he_request_id = None, he_retryable = False\<rparr>"

definition rate_limited :: "rstring option \<Rightarrow> http_error" where
  "rate_limited rid = \<lparr>he_status = 429, he_code = CodeRateLimited, he_message = ''request rate limit exceeded'',
     he_request_id = rid, he_retryable = True\<rparr>"

definition internal_error :: "string \<Rightarrow> http_error" where
  "internal_error message = \<lparr>he_status = 500, he_code = CodeInternal, he_message = message,
     he_request_id = None, he_retryable = False\<rparr>"

definition http_error_of_protocol :: "protocol_error \<Rightarrow> http_error" where
  "http_error_of_protocol e =
     (case e of
        UnsupportedVersion _ _ \<Rightarrow>
          \<lparr>he_status = 426, he_code = CodeUpgradeRequired, he_message = ''client protocol upgrade is required'',
           he_request_id = None, he_retryable = False\<rparr>
      | _ \<Rightarrow> invalid_request ''request body is invalid'' None)"

definition http_error_of_service :: "service_error \<Rightarrow> http_error" where
  "http_error_of_service e =
     (let answer = (\<lambda>status code message.
            \<lparr>he_status = status, he_code = code, he_message = message, he_request_id = None, he_retryable = False\<rparr>);
          forbidden = answer 403 CodeForbidden ''operation is not allowed'';
          not_found = answer 404 CodeNotFound ''resource does not exist'';
          conflict = answer 409 CodeConflict ''request conflicts with current room state'';
          lapsed = answer 409 CodeConflict ''session or room has expired'';
          invalid = invalid_request ''request contains an invalid value'' None;
          unavailable = internal_error ''service is temporarily unavailable''
      in case e of
           SvcUnauthorized \<Rightarrow> answer 401 CodeUnauthorized ''session is missing or expired''
         | SvcForbidden \<Rightarrow> forbidden
         | SvcNotFound \<Rightarrow> not_found
         | SvcStorage se \<Rightarrow>
             (case se of
                RoomNotFound \<Rightarrow> not_found
              | RevisionConflict _ _ \<Rightarrow> conflict
              | UniqueConflict \<Rightarrow> conflict
              | RoomFailure re \<Rightarrow>
                  if re = Unauthorized then forbidden
                  else if re = RequestNotFound then not_found
                  else if re \<in> {IdempotencyConflict, AlreadyMember, PendingRequestExists, TerminalRequest, MembershipLeft}
                  then conflict
                  else if re \<in> {Inactive, RequestExpired} then lapsed
                  else unavailable
              | _ \<Rightarrow> unavailable)
         | SvcSession SessExpired \<Rightarrow> lapsed
         | SvcId _ \<Rightarrow> invalid
         | SvcRoomCode _ \<Rightarrow> invalid
         | SvcDisplayName _ \<Rightarrow> invalid
         | SvcRoom re \<Rightarrow> if re \<in> {InvalidExpiry, InvalidRequestExpiry} then invalid else unavailable
         | _ \<Rightarrow> unavailable)"

definition with_request :: "rstring option \<Rightarrow> service_error \<Rightarrow> http_error" where
  "with_request rid e = (http_error_of_service e)\<lparr>he_request_id := rid\<rparr>"

definition http_error_envelope :: "http_error \<Rightarrow> nat \<times> error_envelope" where
  "http_error_envelope e = (he_status e, ErrorEnvelope \<lparr>ae_code = he_code e, ae_message = rstr (he_message e),
     ae_request_id = he_request_id e, ae_retryable = he_retryable e\<rparr>)"

section \<open>Guards\<close>

definition header_is :: "rstring option \<Rightarrow> string \<Rightarrow> bool" where
  "header_is header expected = (case header of Some v \<Rightarrow> eq_ignore_ascii_case v (rstr expected) | None \<Rightarrow> False)"

definition allows_null_same_origin :: "app_config \<Rightarrow> request_headers \<Rightarrow> rstring \<Rightarrow> bool" where
  "allows_null_same_origin config headers origin \<longleftrightarrow>
     origin = rstr ''null'' \<and>
     header_is (hd_sec_fetch_site headers) ''same-origin'' \<and>
     header_is (hd_sec_fetch_mode headers) ''same-origin'' \<and>
     header_is (hd_sec_fetch_dest headers) ''empty'' \<and>
     (case hd_host headers of Some authority \<Rightarrow> allows_authority config authority | None \<Rightarrow> False)"

definition require_origin :: "app_config \<Rightarrow> request_headers \<Rightarrow> http_error + unit" where
  "require_origin config headers =
     bind_result (ok_or origin_forbidden (hd_origin headers)) (\<lambda>origin.
       if allows_origin config origin \<or> allows_null_same_origin config headers origin then Inr ()
       else Inl origin_forbidden)"

definition require_mutation_headers :: "app_config \<Rightarrow> request_headers \<Rightarrow> http_error + unit" where
  "require_mutation_headers config headers =
     bind_result (require_origin config headers) (\<lambda>_.
       let content_type = (case hd_content_type headers of Some v \<Rightarrow> v | None \<Rightarrow> [])
       in if \<not> eq_ignore_ascii_case (trim (hd (split_on 59 content_type))) (rstr ''application/json'')
          then Inl (invalid_request ''content-type must be application/json'' None)
          else Inr ())"

definition limited_body :: "request_body \<Rightarrow> http_error + u8 list" where
  "limited_body body = map_err (\<lambda>_. invalid_request ''request body exceeds the allowed size'' None) body"

definition path_room_code :: "rstring \<Rightarrow> http_error + room_code" where
  "path_room_code v = map_err (\<lambda>_. invalid_request ''room code is invalid'' None) (room_code_parse v)"

definition path_request_id :: "rstring \<Rightarrow> http_error + request_id" where
  "path_request_id v = map_err (\<lambda>_. invalid_request ''request id is invalid'' (Some v)) (request_id_parse v)"

definition parse_generated_room_id :: "rstring \<Rightarrow> http_error + room_id" where
  "parse_generated_room_id v =
     map_err (\<lambda>_. internal_error ''service generated an invalid room identifier'') (room_id_parse v)"

record session_cookie =
  sk_name :: rstring
  sk_value :: rstring
  sk_path :: rstring
  sk_http_only :: bool
  sk_same_site_lax :: bool
  sk_secure :: bool
  sk_max_age_ms :: int

definition make_session_cookie :: "rstring \<Rightarrow> u64 \<Rightarrow> bool \<Rightarrow> http_error + session_cookie" where
  "make_session_cookie session_id max_age_ms secure =
     (if 2 ^ 63 \<le> uint max_age_ms
      then Inl (internal_error ''session cookie expiry is outside the supported range'')
      else Inr \<lparr>sk_name = SESSION_COOKIE_NAME, sk_value = session_id, sk_path = rstr ''/'', sk_http_only = True,
                sk_same_site_lax = True, sk_secure = secure, sk_max_age_ms = uint max_age_ms\<rparr>)"

definition http_authenticate :: "'ch app_env \<Rightarrow> cookie_jar \<Rightarrow> ('ch, http_error, session) app_op" where
  "http_authenticate env jar = op_map_err http_error_of_service (svc_authenticate env (map_of jar SESSION_COOKIE_NAME))"

definition http_now :: "'ch app_env \<Rightarrow> ('ch, http_error, epoch_millis) app_op" where
  "http_now env = op_map_err http_error_of_service (svc_now env)"

text \<open>Headers, body limit, deserialization and validation: how every mutation begins.\<close>

definition mutation_body ::
  "app_config \<Rightarrow> request_headers \<Rightarrow> request_body \<Rightarrow> ('q \<Rightarrow> protocol_error + unit) \<Rightarrow> (u8 list \<Rightarrow> string + 'q) \<Rightarrow>
   http_error + 'q" where
  "mutation_body config headers body validate from_slice =
     bind_result (require_mutation_headers config headers) (\<lambda>_.
     bind_result (limited_body body) (\<lambda>bytes.
       map_err http_error_of_protocol (parse_http_body validate from_slice bytes)))"

section \<open>Handlers\<close>

definition http_create_session ::
  "'ch app_env \<Rightarrow> app_config \<Rightarrow> (u8 list \<Rightarrow> string + create_session_request) \<Rightarrow> cookie_jar \<Rightarrow> rstring option \<Rightarrow>
   request_headers \<Rightarrow> request_body \<Rightarrow> ('ch, http_error, nat \<times> session_cookie \<times> session_response) app_op" where
  "http_create_session env config from_slice jar client_ip headers body =
     op_bind (op_result (require_mutation_headers config headers)) (\<lambda>_.
     op_bind (op_result (limited_body body)) (\<lambda>bytes.
     op_bind (http_now env) (\<lambda>now.
       let client_key = (case client_ip of Some ip \<Rightarrow> ip | None \<Rightarrow> rstr ''unknown'')
       in
     op_bind (on_limiter (\<lambda>es. rate_check es (rstr ''session'') client_key (cfg_session_rate config) now)) (\<lambda>allowed.
       if \<not> allowed then op_fail (rate_limited None)
       else
     op_bind (op_result (map_err http_error_of_protocol
         (parse_http_body create_session_request_validate from_slice bytes))) (\<lambda>request.
     op_bind (op_map_err http_error_of_service
         (create_or_restore_session env config (map_of jar SESSION_COOKIE_NAME) (csr_display_name request))) (\<lambda>s.
     op_bind (op_result (make_session_cookie (session_id_str (sess_id s)) (saturating_sub (sess_expires_at s) now)
         (cfg_secure_cookies config))) (\<lambda>cookie.
       op_return (201, cookie, svc_session_response s))))))))"

definition http_create_room ::
  "'ch app_env \<Rightarrow> app_config \<Rightarrow> (u8 list \<Rightarrow> string + create_room_request) \<Rightarrow> cookie_jar \<Rightarrow> request_headers \<Rightarrow>
   request_body \<Rightarrow> ('ch, http_error, nat \<times> create_room_response) app_op" where
  "http_create_room env config from_slice jar headers body =
     op_bind (op_result (mutation_body config headers body create_room_request_validate from_slice)) (\<lambda>request.
     op_bind (http_authenticate env jar) (\<lambda>s.
     op_bind (http_now env) (\<lambda>now.
     op_bind (on_limiter (\<lambda>es. rate_check es (rstr ''room'') (session_id_str (sess_id s)) (cfg_room_rate config) now)) (\<lambda>allowed.
       if \<not> allowed then op_fail (rate_limited (Some (crq_request_id request)))
       else
     op_bind (op_map_err (with_request (Some (crq_request_id request)))
         (svc_create_room env config s (crq_request_id request))) (\<lambda>response.
       op_return (201, response))))))"

definition http_bootstrap_room ::
  "'ch app_env \<Rightarrow> cookie_jar \<Rightarrow> rstring \<Rightarrow> ('ch, http_error, nat \<times> room_bootstrap_response) app_op" where
  "http_bootstrap_room env jar code =
     op_bind (http_authenticate env jar) (\<lambda>s.
     op_bind (op_result (path_room_code code)) (\<lambda>code.
     op_bind (op_map_err http_error_of_service (svc_bootstrap_room env s code)) (\<lambda>response.
       op_return (200, response))))"

definition http_request_join ::
  "'ch app_env \<Rightarrow> app_config \<Rightarrow> (u8 list \<Rightarrow> string + request_join_request) \<Rightarrow> cookie_jar \<Rightarrow> rstring \<Rightarrow>
   request_headers \<Rightarrow> request_body \<Rightarrow> ('ch, http_error, nat \<times> join_request_response) app_op" where
  "http_request_join env config from_slice jar code headers body =
     op_bind (op_result (mutation_body config headers body request_join_request_validate from_slice)) (\<lambda>request.
     op_bind (http_authenticate env jar) (\<lambda>s.
     op_bind (op_result (path_room_code code)) (\<lambda>code.
     op_bind (op_result (path_room_code (rjr_room_code request))) (\<lambda>body_code.
       if body_code \<noteq> code
       then op_fail (invalid_request ''room code in path and body must match'' (Some (rjr_request_id request)))
       else
     op_bind (op_result (path_request_id (rjr_request_id request))) (\<lambda>rid.
     op_bind (http_now env) (\<lambda>now.
     op_bind (on_limiter (\<lambda>es. rate_check es (rstr ''join'')
         (session_id_str (sess_id s) @ rstr '':'' @ room_code_str code) (cfg_join_rate config) now)) (\<lambda>allowed.
       if \<not> allowed then op_fail (rate_limited (Some (rjr_request_id request)))
       else
     op_bind (op_map_err (with_request (Some (rjr_request_id request)))
         (svc_request_join env config s code rid (rjr_expected_revision request) (rjr_invite_capability request))) (\<lambda>response.
     op_bind (op_result (parse_generated_room_id (jrr_room_id response))) (\<lambda>room.
     op_bind (broadcast_event env room (\<lambda>eid. SmJoinRequested CURRENT_PROTOCOL eid (jrr_revision response)
         \<lparr>jq_request_id = jrr_request_id response, jq_session_id = session_id_str (sess_id s),
          jq_display_name = display_name_str (sess_display_name s), jq_expires_at_ms = jrr_expires_at_ms response\<rparr>)) (\<lambda>evicted.
     op_bind (cleanup_attachments env evicted) (\<lambda>_.
       op_return (201, response))))))))))))"

definition http_create_invite ::
  "'ch app_env \<Rightarrow> app_config \<Rightarrow> (u8 list \<Rightarrow> string + create_invite_request) \<Rightarrow> cookie_jar \<Rightarrow> rstring \<Rightarrow>
   request_headers \<Rightarrow> request_body \<Rightarrow> ('ch, http_error, nat \<times> create_invite_response) app_op" where
  "http_create_invite env config from_slice jar code headers body =
     op_bind (op_result (mutation_body config headers body create_invite_request_validate from_slice)) (\<lambda>request.
     op_bind (http_authenticate env jar) (\<lambda>s.
     op_bind (op_result (path_room_code code)) (\<lambda>code.
     op_bind (op_result (path_request_id (ciq_request_id request))) (\<lambda>rid.
     op_bind (op_map_err (with_request (Some (ciq_request_id request))) (svc_create_invite env config s code rid)) (\<lambda>response.
       op_return (201, response))))))"

definition http_join_request_status ::
  "'ch app_env \<Rightarrow> cookie_jar \<Rightarrow> rstring \<Rightarrow> rstring \<Rightarrow> ('ch, http_error, nat \<times> join_request_response) app_op" where
  "http_join_request_status env jar code request_id =
     op_bind (http_authenticate env jar) (\<lambda>s.
     op_bind (op_result (path_room_code code)) (\<lambda>code.
     op_bind (op_result (path_request_id request_id)) (\<lambda>rid.
     op_bind (op_map_err http_error_of_service (svc_join_request_status env s code rid)) (\<lambda>response.
       op_return (200, response)))))"

definition http_decide_join ::
  "'ch app_env \<Rightarrow> app_config \<Rightarrow> (u8 list \<Rightarrow> string + decide_join_request) \<Rightarrow> cookie_jar \<Rightarrow> rstring \<Rightarrow> rstring \<Rightarrow>
   request_headers \<Rightarrow> request_body \<Rightarrow> ('ch, http_error, nat \<times> room_mutation_response) app_op" where
  "http_decide_join env config from_slice jar code path_rid headers body =
     op_bind (op_result (mutation_body config headers body decide_join_request_validate from_slice)) (\<lambda>request.
       if djr_request_id request \<noteq> path_rid
       then op_fail (invalid_request ''join request id in path and body must match'' (Some (djr_request_id request)))
       else
     op_bind (http_authenticate env jar) (\<lambda>s.
     op_bind (op_result (path_room_code code)) (\<lambda>code.
     op_bind (op_result (path_request_id (djr_request_id request))) (\<lambda>rid.
       let (decision, wire_decision) =
             (case djr_decision request of
                ApproveRequest \<Rightarrow> (Approve, WireApproved) | RejectRequest \<Rightarrow> (Reject, WireRejected))
       in
     op_bind (op_map_err (with_request (Some (djr_request_id request)))
         (svc_decide_join env s code rid decision (djr_expected_revision request))) (\<lambda>m.
     op_bind (broadcast_event env (rm_id (mut_room m)) (\<lambda>eid. SmJoinDecided CURRENT_PROTOCOL eid
         (rm_revision (mut_room m)) (request_id_str rid) wire_decision)) (\<lambda>evicted.
     op_bind (cleanup_attachments env evicted) (\<lambda>_.
       op_return (200, svc_room_mutation_response m))))))))"

definition http_leave_room ::
  "'ch app_env \<Rightarrow> app_config \<Rightarrow> (u8 list \<Rightarrow> string + leave_room_request) \<Rightarrow> cookie_jar \<Rightarrow> rstring \<Rightarrow>
   request_headers \<Rightarrow> request_body \<Rightarrow> ('ch, http_error, nat \<times> room_mutation_response) app_op" where
  "http_leave_room env config from_slice jar code headers body =
     op_bind (op_result (mutation_body config headers body leave_room_request_validate from_slice)) (\<lambda>request.
     op_bind (http_authenticate env jar) (\<lambda>s.
     op_bind (op_result (path_room_code code)) (\<lambda>code.
     op_bind (op_map_err (with_request (Some (lrr_request_id request)))
         (svc_leave_room env s code (lrr_expected_revision request))) (\<lambda>m.
       let r = mut_room m; closed = (rm_state r = RoomExpired)
       in
     op_bind (broadcast_event env (rm_id r) (\<lambda>eid.
         if closed then SmRoomExpired CURRENT_PROTOCOL eid (rm_revision r)
         else SmPeerOffline CURRENT_PROTOCOL eid (rm_revision r) (session_id_str (sess_id s)))) (\<lambda>evicted.
     op_bind (hub_op (\<lambda>hub.
         if closed then hub_disconnect_room (env_hub env) hub (rm_id r) 4002 ''room expired''
         else hub_disconnect_session (env_hub env) hub (rm_id r) (sess_id s) 4003 ''room membership ended'')) (\<lambda>disconnected.
     op_bind (cleanup_attachments env (evicted @ disconnected)) (\<lambda>_.
       op_return (200, svc_room_mutation_response m))))))))"

definition http_rtc_config ::
  "'ch app_env \<Rightarrow> app_config \<Rightarrow> cookie_jar \<Rightarrow> ('ch, http_error, nat \<times> rtc_config_response) app_op" where
  "http_rtc_config env config jar =
     op_bind (http_authenticate env jar) (\<lambda>s.
     op_bind (op_map_err http_error_of_service (svc_rtc_config env config s)) (\<lambda>response.
       op_return (200, response)))"

text \<open>The upgrade to a websocket: origin and session first, then the connection is served.\<close>

definition socket_upgrade ::
  "'ch app_env \<Rightarrow> app_config \<Rightarrow> (rstring \<Rightarrow> string + client_realtime_message) \<Rightarrow> cookie_jar \<Rightarrow> request_headers \<Rightarrow>
   socket_input list \<Rightarrow> ('ch, http_error, unit) app_op" where
  "socket_upgrade env config from_str jar headers inputs =
     op_bind (op_result (require_origin config headers)) (\<lambda>_.
     op_bind (http_authenticate env jar) (\<lambda>s st.
       (serve_socket env config from_str s inputs st, Inr ())))"

section \<open>Maintenance\<close>

definition MAINTENANCE_BATCH :: u32 where
  "MAINTENANCE_BATCH = 100"

fun announce_expired_rooms :: "'ch app_env \<Rightarrow> room_mutation list \<Rightarrow> ('ch, service_error, unit) app_op" where
  "announce_expired_rooms env [] = op_return ()"
| "announce_expired_rooms env (m # ms) =
     op_bind (broadcast_event env (rm_id (mut_room m)) (\<lambda>eid.
         SmRoomExpired CURRENT_PROTOCOL eid (rm_revision (mut_room m)))) (\<lambda>evicted.
     op_bind (hub_op (\<lambda>hub. hub_disconnect_room (env_hub env) hub (rm_id (mut_room m)) 4002 ''room expired'')) (\<lambda>disconnected.
     op_bind (cleanup_attachments env (evicted @ disconnected)) (\<lambda>_.
       announce_expired_rooms env ms)))"

fun announce_expired_requests :: "'ch app_env \<Rightarrow> room_mutation list \<Rightarrow> ('ch, service_error, unit) app_op" where
  "announce_expired_requests env [] = op_return ()"
| "announce_expired_requests env (m # ms) =
     op_bind (op_map_err SvcStorage (read_db (\<lambda>db. find_session db (rm_owner (mut_room m))))) (\<lambda>found.
       case found of
         None \<Rightarrow> announce_expired_requests env ms
       | Some owner \<Rightarrow>
           op_match (svc_bootstrap_room env owner (rm_code (mut_room m))) (\<lambda>res.
             case res of
               Inl _ \<Rightarrow> announce_expired_requests env ms
             | Inr snapshot \<Rightarrow>
                 op_bind (broadcast_event env (rm_id (mut_room m)) (snapshot_message snapshot)) (\<lambda>evicted.
                 op_bind (cleanup_attachments env evicted) (\<lambda>_.
                   announce_expired_requests env ms))))"

definition maintenance_run_once :: "'ch app_env \<Rightarrow> ('ch, service_error, unit) app_op" where
  "maintenance_run_once env =
     op_bind (svc_now env) (\<lambda>now.
     op_bind (op_map_err SvcStorage (on_db (\<lambda>db. expire_due_rooms (env_scan_rooms env) db now MAINTENANCE_BATCH))) (\<lambda>rooms.
     op_bind (announce_expired_rooms env rooms) (\<lambda>_.
     op_bind (op_map_err SvcStorage (on_db (\<lambda>db.
         expire_due_join_requests (env_scan_requests env) db now MAINTENANCE_BATCH))) (\<lambda>requests.
     op_bind (announce_expired_requests env requests) (\<lambda>_.
     op_bind (op_map_err SvcStorage (on_db (\<lambda>db.
         expire_due_sessions (env_scan_sessions env) db now MAINTENANCE_BATCH))) (\<lambda>_.
       op_return ()))))))"

end
