(* ===== verification/Server_Laws.thy ===== *)
theory Server_Laws
  imports Http_Api Storage_Laws Hub_Properties
begin

text \<open>
  The server as a whole. Its handlers run concurrently and meet only in calls of the storage
  layer, of the hub and of the rate limiter, each of which is atomic: a transaction or a
  critical section. \<open>app_call\<close> is the relation of one such call. Every handler is shown to be a
  sequence of calls, so that what all calls preserve holds under every interleaving of handlers.
\<close>

section \<open>The constraints of the tables\<close>

inductive db_call :: "database \<Rightarrow> database \<Rightarrow> bool" where
  command: "apply_room_command db code expected c now = (db', r) \<Longrightarrow> db_call db db'"
| session: "insert_session db s now = (db', r') \<Longrightarrow> db_call db db'"
| room: "insert_room db r rid now = (db', r') \<Longrightarrow> db_call db db'"
| invite: "insert_invite_capability db cap room_id rid hash now expires = (db', r') \<Longrightarrow> db_call db db'"
| sessions_due: "expire_due_sessions scan db now limit = (db', n) \<Longrightarrow> db_call db db'"

lemma insert_session_row_ok: "db_ok db \<Longrightarrow> sql_insert_session r db = Inr db' \<Longrightarrow> db_ok db'"
  by (auto simp: sql_insert_session_def intro: db_ok_sessions bt_wf_insert dest: db_ok_wf(4) split: if_splits)

lemma insert_room_row_ok:
  assumes ok: "db_ok db" and ins: "sql_insert_room row db = Inr db'"
  shows "db_ok db'"
proof -
  have d: "db_members db' = db_members db" "db_requests db' = db_requests db" "db_sessions db' = db_sessions db"
    "db_rooms db' = bt_insert (rw_id row) row (db_rooms db)"
    and new: "map_of (db_rooms db) (rw_id row) = None" "\<not> list_ex (\<lambda>(_, o'). rw_code o' = rw_code row) (db_rooms db)"
    using ins by (auto simp: sql_insert_room_def split: if_splits)
  have mo: "map_of (db_rooms db') = (map_of (db_rooms db))(rw_id row \<mapsto> row)"
    using db_ok_wf(1) [OF ok] by (simp add: d map_of_bt_insert)
  have codes: "rw_code row' \<noteq> rw_code row" if "map_of (db_rooms db) k = Some row'" for k row'
    using new(2) map_of_SomeD [OF that] by (auto simp: list_ex_iff)
  have "bt_wf (db_rooms db')" using db_ok_wf(1) [OF ok] by (simp add: d bt_wf_insert)
  moreover have "rw_id r' = k" if "map_of (db_rooms db') k = Some r'" for k r'
    using that db_ok_rows(1) [OF ok, of k] by (auto simp: mo split: if_splits)
  moreover have "k = k'" if "map_of (db_rooms db') k = Some a" "map_of (db_rooms db') k' = Some b" "rw_code a = rw_code b"
    for k k' a b
    using that db_ok_rows(2) [OF ok, of k a k' b] codes [of k a] codes [of k' b] by (auto simp: mo split: if_splits)
  moreover have "map_of (db_rooms db') k \<noteq> None" if "map_of (db_rooms db) k \<noteq> None" for k
    using that by (simp add: mo)
  ultimately show ?thesis using ok unfolding db_ok_def d(1-3) by blast
qed

lemma upsert_request_row_ok:
  assumes ok: "db_ok db" and ins: "sql_upsert_request r db = Inr db'"
  shows "db_ok db'"
proof -
  obtain row where db': "db' = db\<lparr>db_requests := bt_insert (jw_id r) row (db_requests db)\<rparr>"
    and row: "jw_id row = jw_id r" "map_of (db_rooms db) (jw_room row) \<noteq> None"
  proof (cases "map_of (db_requests db) (jw_id r)")
    case None
    then show ?thesis using ins that [of r] by (auto simp: sql_upsert_request_def split: if_splits)
  next
    case (Some old)
    then show ?thesis
      using ins db_ok_rows(5,6) [OF ok Some]
        that [of "old\<lparr>jw_state := jw_state r, jw_expires_at_ms := jw_expires_at_ms r, jw_updated_at_ms := jw_updated_at_ms r\<rparr>"]
      by (auto simp: sql_upsert_request_def Let_def split: if_splits)
  qed
  have mo: "map_of (db_requests db') = (map_of (db_requests db))(jw_id r \<mapsto> row)"
    using db_ok_wf(3) [OF ok] by (simp add: db' map_of_bt_insert)
  have "bt_wf (db_requests db')" using db_ok_wf(3) [OF ok] by (simp add: db' bt_wf_insert)
  moreover have same: "db_rooms db' = db_rooms db" "db_sessions db' = db_sessions db" "db_members db' = db_members db"
    by (simp_all add: db')
  moreover have "jw_id q = k \<and> map_of (db_rooms db) (jw_room q) \<noteq> None" if "map_of (db_requests db') k = Some q" for k q
    using that row db_ok_rows(5,6) [OF ok, of k q] by (simp add: mo split: if_splits)
  ultimately show ?thesis using ok unfolding db_ok_def same by blast
qed

lemma update_room_row_ok:
  assumes "db_ok db" "sql_update_room i prior st rv expires updated db = Inr (db', n)"
  shows "db_ok db'"
proof (cases "\<exists>old. map_of (db_rooms db) i = Some old \<and> rw_revision old = prior")
  case True
  then show ?thesis using update_room_spec(3) [OF assms(1) _ assms(2)] by blast
next
  case False
  then have "db' = db" using assms(2) by (auto simp: sql_update_room_def split: option.splits if_splits)
  then show ?thesis using assms(1) by simp
qed

lemma persist_members_ok: "persist_members R now ms db = Inr db' \<Longrightarrow> db_ok db \<Longrightarrow> db_ok db'"
proof (induction ms arbitrary: db)
  case (Cons m ms)
  obtain st peer where sp: "membership_state_parts (ms_state m) = (st, peer)" by (metis prod.exhaust)
  from Cons.prems(1) obtain row db1 where "sql_upsert_member row db = Inr db1" "persist_members R now ms db1 = Inr db'"
    by (auto simp: sp result_simps)
  then show ?case using Cons.IH upsert_member_spec(1) [OF Cons.prems(2)] by blast
qed simp

lemma persist_requests_ok: "persist_requests R now qs db = Inr db' \<Longrightarrow> db_ok db \<Longrightarrow> db_ok db'"
proof (induction qs arbitrary: db)
  case (Cons q qs)
  from Cons.prems(1) obtain row db1 where "sql_upsert_request row db = Inr db1" "persist_requests R now qs db1 = Inr db'"
    by (auto simp: result_simps Let_def)
  then show ?case using Cons.IH upsert_request_row_ok [OF Cons.prems(2)] by blast
qed simp

lemma persist_room_children_ok: "persist_room_children r now db = Inr db' \<Longrightarrow> db_ok db \<Longrightarrow> db_ok db'"
  by (auto simp: persist_room_children_def result_simps dest: persist_members_ok persist_requests_ok)

lemma end_transaction_keeps:
  "(\<And>db'' x. r = Inr (db'', x) \<Longrightarrow> db_ok db'') \<Longrightarrow> db_ok db \<Longrightarrow> end_transaction db r = (db', res) \<Longrightarrow> db_ok db'"
  by (auto simp: end_transaction_def split: sum.splits)

lemma apply_loaded_ok: "apply_loaded db r prior c now = Inr (db', m) \<Longrightarrow> db_ok db \<Longrightarrow> db_ok db'"
  by (auto simp: apply_loaded_def result_simps dest: update_room_row_ok persist_room_children_ok
      split: prod.splits sum.splits if_splits)

lemma db_ok_invites [simp]: "db_ok (db\<lparr>db_invites := x\<rparr>) \<longleftrightarrow> db_ok db"
  by (simp add: db_ok_def)

lemma expire_session_rows_ok: "expire_session_rows t rows db = Inr db' \<Longrightarrow> db_ok db \<Longrightarrow> db_ok db'"
  by (induction t rows db rule: expire_session_rows.induct)
    (auto simp: Let_def intro: db_ok_sessions bt_wf_insert dest: db_ok_wf(4) split: if_splits)

lemma db_call_ok:
  assumes "db_call db db'" and ok: "db_ok db"
  shows "db_ok db'"
  using assms(1)
proof (cases rule: db_call.cases)
  case (command code expected c now r)
  show ?thesis
    by (rule end_transaction_keeps [OF _ ok command [unfolded apply_room_command_def]])
      (auto simp: result_simps dest!: apply_loaded_ok [OF _ ok] split: option.splits if_splits)
next
  case (session s now r)
  then show ?thesis
    using ok by (auto simp: insert_session_def result_simps dest: insert_session_row_ok split: sum.splits)
next
  case (room r rid now res)
  show ?thesis
    by (rule end_transaction_keeps [OF _ ok room [unfolded insert_room_def]])
      (auto simp: result_simps dest!: insert_room_row_ok [OF ok] persist_room_children_ok)
next
  case (invite cap room rid hash now expires res)
  show ?thesis
    by (rule end_transaction_keeps [OF _ ok invite [unfolded insert_invite_capability_def]])
      (use ok in \<open>auto simp: result_simps sql_insert_invite_def split: if_splits\<close>)
next
  case (sessions_due scan now limit n)
  show ?thesis
    by (rule end_transaction_keeps [OF _ ok sessions_due [unfolded expire_due_sessions_def]])
      (auto simp: result_simps Let_def dest!: expire_session_rows_ok [OF _ ok])
qed

text \<open>A storage operation made of calls.\<close>

named_theorems runs_rules \<open>operations as sequences of calls\<close>

definition db_runs :: "(database \<Rightarrow> database \<times> 'r) \<Rightarrow> bool" where
  "db_runs f \<longleftrightarrow> (\<forall>db db' r. f db = (db', r) \<longrightarrow> db_call\<^sup>*\<^sup>* db db')"

lemma db_runs_calls [runs_rules]:
  "db_runs (\<lambda>db. apply_room_command db code expected c now)"
  "db_runs (\<lambda>db. insert_session db s now)"
  "db_runs (\<lambda>db. insert_room db r rid now)"
  "db_runs (\<lambda>db. insert_invite_capability db cap room_id rid hash now expires)"
  "db_runs (\<lambda>db. expire_due_sessions scan db now limit)"
  unfolding db_runs_def by (blast intro: r_into_rtranclp db_call.intros)+

lemma command_then:
  "apply_room_command db code expected c now = (db1, r) \<Longrightarrow> db_call\<^sup>*\<^sup>* db1 db' \<Longrightarrow> db_call\<^sup>*\<^sup>* db db'"
  by (blast intro: converse_rtranclp_into_rtranclp db_call.command)

lemma expire_rooms_loop_calls: "expire_rooms_loop now rows db ms = (db', res) \<Longrightarrow> db_call\<^sup>*\<^sup>* db db'"
proof (induction now rows db ms rule: expire_rooms_loop.induct)
  case (2 now row rows db ms)
  then show ?case
    by (auto split: sum.splits prod.splits intro: command_then)
qed simp

lemma expire_requests_loop_calls: "expire_requests_loop now rows db ms = (db', res) \<Longrightarrow> db_call\<^sup>*\<^sup>* db db'"
proof (induction now rows db ms rule: expire_requests_loop.induct)
  case (2 now q row rows db ms)
  then show ?case
    by (auto split: sum.splits prod.splits intro: command_then)
qed simp

lemma expire_due_runs [runs_rules]:
  "db_runs (\<lambda>db. expire_due_rooms scan db now limit)"
  "db_runs (\<lambda>db. expire_due_join_requests scan' db now limit)"
  unfolding db_runs_def expire_due_rooms_def expire_due_join_requests_def
  by (auto dest: expire_rooms_loop_calls expire_requests_loop_calls split: sum.splits)

section \<open>The connections of the hub\<close>

text \<open>The identifiers the hub knows: live connections and evicted ones not yet unregistered.\<close>

definition hub_known :: "'ch hub_state \<Rightarrow> connection_id set" where
  "hub_known st = dom (map_of (hs_connections st)) \<union> dom (map_of (hs_evicted_attachments st))"

lemma hub_known_cong:
  "hs_connections st' = hs_connections st \<Longrightarrow> hs_evicted_attachments st' = hs_evicted_attachments st \<Longrightarrow>
   hub_known st' = hub_known st"
  by (simp add: hub_known_def)

lemma send_to_known: "send_to env st c out = (st', r) \<Longrightarrow> hub_known st' = hub_known st"
  by (auto simp: send_to_def hub_known_def update_conv' split: option.splits prod.splits if_splits)

lemma remove_known:
  "remove_connection_locked st c = (st', oa) \<Longrightarrow>
   hub_known st' \<subseteq> hub_known st \<and> (oa \<noteq> None \<longrightarrow> c \<in> hub_known st)"
  by (auto simp: remove_connection_locked_def hub_known_def Let_def delete_conv' split: option.splits if_splits)

lemma evict_known:
  assumes "evict_connection_locked st c = (st', oa)"
  shows "hub_known st' \<subseteq> hub_known st"
proof -
  obtain st1 where r: "remove_connection_locked st c = (st1, oa)"
    and st': "st' = (case oa of None \<Rightarrow> st1
      | Some a \<Rightarrow> st1\<lparr>hs_evicted_attachments := AList.update c a (hs_evicted_attachments st1)\<rparr>)"
    using assms by (auto simp: evict_connection_locked_def split: prod.splits option.splits)
  have "hub_known st' \<subseteq> hub_known st1 \<union> (if oa = None then {} else {c})"
    unfolding st' by (cases oa) (auto simp: hub_known_def update_conv' split: if_splits)
  moreover have "hub_known st1 \<subseteq> hub_known st" "oa \<noteq> None \<Longrightarrow> c \<in> hub_known st"
    using remove_known [OF r] by blast+
  ultimately show ?thesis by (auto split: if_splits)
qed

lemma fst_evict_known: "hub_known (fst (evict_connection_locked st c)) \<subseteq> hub_known st"
  using evict_known by (metis prod.collapse)

lemma replace_known: "replace_connections env st cs acc = (st', acc') \<Longrightarrow> hub_known st' \<subseteq> hub_known st"
proof (induction cs arbitrary: st acc)
  case (Cons c cs)
  obtain st1 r1 where s1: "send_to env st c REPLACED_NOTICE = (st1, r1)" by (metis prod.exhaust)
  obtain st2 r2 where s2: "send_to env st1 c (OutClose 4001 ''connection replaced'') = (st2, r2)" by (metis prod.exhaust)
  obtain st3 oa where s3: "evict_connection_locked st2 c = (st3, oa)" by (metis prod.exhaust)
  have "hub_known st' \<subseteq> hub_known st3" using Cons by (simp add: s1 s2 s3)
  then show ?case using send_to_known [OF s1] send_to_known [OF s2] evict_known [OF s3] by blast
qed simp

lemma detach_previous_known: "hub_known (detach_previous st c) = hub_known st"
  by (rule hub_known_cong) (simp_all add: detach_previous_def Let_def)

lemma take_known:
  assumes "map_of (hs_connections st) c = Some e"
  shows "hub_known (st\<lparr>hs_connections := AList.update c e' (hs_connections st), hs_room_connections := a,
      hs_session_routes := b\<rparr>) = hub_known st"
    "hub_known (st\<lparr>hs_connections := AList.update c e' (hs_connections st), hs_room_connections := a,
      hs_session_routes := b, hs_peer_routes := p\<rparr>) = hub_known st"
  using assms by (auto simp: hub_known_def update_conv')

lemma hub_attach_known:
  assumes "hub_attach env st c rid code peer = (st', r)"
  shows "hub_known st' \<subseteq> hub_known st"
proof (cases "map_of (hs_connections st) c")
  case None
  then show ?thesis using assms by (simp add: hub_attach_def)
next
  case (Some e)
  let ?ids = "[map_of (hs_session_routes st) (rid, ce_session_id e), map_of (hs_peer_routes st) (rid, peer)]"
  obtain st1 rep where rep: "replace_connections env st (he_iter env (unique_existing c ?ids)) [] = (st1, rep)"
    by (metis prod.exhaust)
  let ?d = "detach_previous st1 c"
  have "st' = ?d \<or> (\<exists>e1 e' a b p. map_of (hs_connections ?d) c = Some e1 \<and>
      st' = ?d\<lparr>hs_connections := AList.update c e' (hs_connections ?d), hs_room_connections := a,
        hs_session_routes := b, hs_peer_routes := p\<rparr>)"
    using assms Some unfolding hub_attach_def by (auto simp: Let_def rep split: option.splits)
  then have "hub_known st' = hub_known ?d" using take_known(2) by blast
  then show ?thesis using replace_known [OF rep] by (simp add: detach_previous_known)
qed

lemma hub_watch_join_known:
  assumes "hub_watch_join st c rid = (st', r)"
  shows "hub_known st' \<subseteq> hub_known st"
proof (cases "map_of (hs_connections st) c")
  case None
  then show ?thesis using assms by (simp add: hub_watch_join_def)
next
  case (Some e)
  define pre where "pre = (case map_of (hs_session_routes st) (rid, ce_session_id e) of
      Some existing \<Rightarrow> if existing \<noteq> c
        then (case evict_connection_locked st existing of (st', Some a) \<Rightarrow> (st', [a]) | (st', None) \<Rightarrow> (st', []))
        else (st, [])
    | None \<Rightarrow> (st, []))"
  obtain st1 acc where p: "pre = (st1, acc)" by (metis prod.exhaust)
  then have "hub_known st1 \<subseteq> hub_known st"
    by (auto simp: pre_def dest!: evict_known split: option.splits prod.splits if_splits)
  moreover have "hub_known st' = hub_known (detach_previous st1 c)"
  proof -
    let ?d = "detach_previous st1 c"
    have "st' = ?d \<or> (\<exists>e1 e' a b. map_of (hs_connections ?d) c = Some e1 \<and>
        st' = ?d\<lparr>hs_connections := AList.update c e' (hs_connections ?d), hs_room_connections := a, hs_session_routes := b\<rparr>)"
      using assms Some unfolding hub_watch_join_def by (auto simp: Let_def p [unfolded pre_def] split: option.splits)
    then show ?thesis using take_known(1) by blast
  qed
  ultimately show ?thesis by (simp add: detach_previous_known)
qed

lemma hub_detach_known: "hub_detach st c = (st', r) \<Longrightarrow> hub_known st' \<subseteq> hub_known st"
  by (auto simp: hub_detach_def hub_known_def Let_def update_conv' split: option.splits if_splits)

lemma hub_unregister_known:
  assumes "hub_unregister st c = (st', r)"
  shows "hub_known st' \<subseteq> hub_known st"
proof -
  obtain st1 oa where rem: "remove_connection_locked st c = (st1, oa)" by (metis prod.exhaust)
  have "hub_known st1 \<subseteq> hub_known st" using remove_known [OF rem] by blast
  moreover have "hub_known st' \<subseteq> hub_known st1"
    using assms by (auto simp: hub_unregister_def rem hub_known_def delete_conv' split: option.splits if_splits)
  ultimately show ?thesis by blast
qed

lemma hub_send_known: "hub_send env st c out = (st', r) \<Longrightarrow> hub_known st' \<subseteq> hub_known st"
  using fst_evict_known
  by (fastforce simp: hub_send_def dest!: send_to_known split: prod.splits option.splits try_send_result.splits)

lemma hub_send_to_peer_known: "hub_send_to_peer env st c p msg = (st', r) \<Longrightarrow> hub_known st' \<subseteq> hub_known st"
  using fst_evict_known
  by (fastforce simp: hub_send_to_peer_def dest!: send_to_known
      split: prod.splits option.splits try_send_result.splits if_splits)

lemma broadcast_to_known: "broadcast_to env msg st cs acc = (st', acc') \<Longrightarrow> hub_known st' \<subseteq> hub_known st"
proof (induction cs arbitrary: st acc)
  case (Cons c cs)
  obtain st1 r where s: "send_to env st c (OutMessage msg) = (st1, r)" by (metis prod.exhaust)
  obtain st2 oa where e: "evict_connection_locked st1 c = (st2, oa)" by (metis prod.exhaust)
  have "\<exists>st3 acc3. broadcast_to env msg st3 cs acc3 = (st', acc') \<and> (st3 = st1 \<or> st3 = st2)"
    using Cons.prems by (auto simp: s e split: option.splits try_send_result.splits)
  then show ?case using Cons.IH send_to_known [OF s] evict_known [OF e] by blast
qed simp

lemma disconnect_all_known: "disconnect_all env code reason st cs acc = (st', acc') \<Longrightarrow> hub_known st' \<subseteq> hub_known st"
proof (induction cs arbitrary: st acc)
  case (Cons c cs)
  obtain st1 r where s: "send_to env st c (OutClose code reason) = (st1, r)" by (metis prod.exhaust)
  obtain st2 oa where e: "evict_connection_locked st1 c = (st2, oa)" by (metis prod.exhaust)
  have "hub_known st' \<subseteq> hub_known st2" using Cons by (simp add: s e)
  then show ?case using send_to_known [OF s] evict_known [OF e] by blast
qed simp

lemma disconnect_session_known:
  "hub_disconnect_session env st rid sid code reason = (st', gone) \<Longrightarrow> hub_known st' \<subseteq> hub_known st"
  by (auto simp: hub_disconnect_session_def Let_def dest!: send_to_known evict_known split: option.splits prod.splits)

definition hub_runs :: "'ch hub_env \<Rightarrow> nat \<Rightarrow> ('ch hub_state \<Rightarrow> 'ch hub_state \<times> 'r) \<Rightarrow> bool" where
  "hub_runs env q f \<longleftrightarrow>
     (\<forall>st st' r. f st = (st', r) \<longrightarrow> (st' = st \<or> hub_step env q st st') \<and> hub_known st' \<subseteq> hub_known st)"

lemma hub_runsI:
  "(\<And>st st' r. f st = (st', r) \<Longrightarrow> hub_step env q st st') \<Longrightarrow>
   (\<And>st st' r. f st = (st', r) \<Longrightarrow> hub_known st' \<subseteq> hub_known st) \<Longrightarrow> hub_runs env q f"
  by (simp add: hub_runs_def)

lemma hub_broadcast_known: "hub_broadcast env st room msg = (st', gone) \<Longrightarrow> hub_known st' \<subseteq> hub_known st"
  unfolding hub_broadcast_def by (rule broadcast_to_known)

lemma disconnect_room_known:
  "hub_disconnect_room env st room code reason = (st', gone) \<Longrightarrow> hub_known st' \<subseteq> hub_known st"
  unfolding hub_disconnect_room_def by (rule disconnect_all_known)

lemmas known_rules =
  hub_attach_known hub_watch_join_known hub_detach_known hub_unregister_known hub_send_known
  hub_send_to_peer_known hub_broadcast_known disconnect_session_known disconnect_room_known

lemma hub_runs_ops [runs_rules]:
  "hub_runs env q (\<lambda>hub. hub_attach env hub c room code peer)"
  "hub_runs env q (\<lambda>hub. hub_watch_join hub c room)"
  "hub_runs env q (\<lambda>hub. hub_detach hub c)"
  "hub_runs env q (\<lambda>hub. hub_unregister hub c)"
  "hub_runs env q (\<lambda>hub. hub_send env hub c out)"
  "hub_runs env q (\<lambda>hub. hub_send_to_peer env hub c to_peer msg)"
  "hub_runs env q (\<lambda>hub. hub_broadcast env hub room msg)"
  "hub_runs env q (\<lambda>hub. hub_disconnect_session env hub room sid n reason)"
  "hub_runs env q (\<lambda>hub. hub_disconnect_room env hub room n reason)"
  by (rule hub_runsI; erule hub_step.intros known_rules)+

lemma hub_runs_if [runs_rules]:
  "hub_runs env q f \<Longrightarrow> hub_runs env q g \<Longrightarrow> hub_runs env q (\<lambda>hub. if b then f hub else g hub)"
  by (cases b) simp_all

lemma hub_runs_read [runs_rules]: "hub_runs env q (\<lambda>hub. (hub, f hub))"
  by (simp add: hub_runs_def)

section \<open>Calls of the server\<close>

definition connection_of :: "'ch app_env \<Rightarrow> nat \<Rightarrow> connection_id" where
  "connection_of env k = ConnectionId (rstr ''c_'' @ hex_lower (env_uuid env k))"

text \<open>Reading the clock, drawing a UUID, one call of limiter, storage or hub, a new connection.\<close>

inductive app_call :: "'ch app_env \<Rightarrow> nat \<Rightarrow> 'ch app_state \<Rightarrow> 'ch app_state \<Rightarrow> bool"
  for env :: "'ch app_env" and q :: nat where
  clock: "app_call env q st (st\<lparr>app_clock_reads := Suc (app_clock_reads st)\<rparr>)"
| uuid: "app_call env q st (st\<lparr>app_uuids_drawn := Suc (app_uuids_drawn st)\<rparr>)"
| limiter: "rate_check (app_limiter st) bucket key policy now = (entries, b) \<Longrightarrow>
    app_call env q st (st\<lparr>app_limiter := entries\<rparr>)"
| storage: "db_call (app_db st) db \<Longrightarrow> app_call env q st (st\<lparr>app_db := db\<rparr>)"
| hub: "hub_step (env_hub env) q (app_hub st) hub \<Longrightarrow> hub_known hub \<subseteq> hub_known (app_hub st) \<Longrightarrow>
    app_call env q st (st\<lparr>app_hub := hub\<rparr>)"
| connect: "app_call env q st (st\<lparr>app_uuids_drawn := Suc (app_uuids_drawn st),
    app_hub := hub_register (env_hub env) q (connection_of env (app_uuids_drawn st)) (app_hub st) sid\<rparr>)"

abbreviation app_calls :: "'ch app_env \<Rightarrow> nat \<Rightarrow> 'ch app_state \<Rightarrow> 'ch app_state \<Rightarrow> bool" where
  "app_calls env q \<equiv> (app_call env q)\<^sup>*\<^sup>*"

definition runs :: "'ch app_env \<Rightarrow> nat \<Rightarrow> ('ch app_state \<Rightarrow> 'ch app_state \<times> 'r) \<Rightarrow> bool" where
  "runs env q f \<longleftrightarrow> (\<forall>st st' r. f st = (st', r) \<longrightarrow> app_calls env q st st')"

lemma runsI: "(\<And>st st' r. f st = (st', r) \<Longrightarrow> app_calls env q st st') \<Longrightarrow> runs env q f"
  by (simp add: runs_def)

lemma runsD: "runs env q f \<Longrightarrow> f st = (st', r) \<Longrightarrow> app_calls env q st st'"
  by (simp add: runs_def)

lemma runs_op [runs_rules]:
  "runs env q (op_return x)" "runs env q (op_fail e)" "runs env q (op_result r)" "runs env q (read_db f)"
  by (simp_all add: runs_def op_return_def op_fail_def op_result_def read_db_def)

lemma runs_bind [runs_rules]: "runs env q m \<Longrightarrow> (\<And>x. runs env q (f x)) \<Longrightarrow> runs env q (op_bind m f)"
  by (rule runsI) (auto simp: op_bind_def split: prod.splits sum.splits dest: runsD intro: rtranclp_trans)

lemma runs_match [runs_rules]: "runs env q m \<Longrightarrow> (\<And>r. runs env q (f r)) \<Longrightarrow> runs env q (op_match m f)"
  by (rule runsI) (auto simp: op_match_def split: prod.splits dest: runsD intro: rtranclp_trans)

lemma runs_map_err [runs_rules]: "runs env q m \<Longrightarrow> runs env q (op_map_err g m)"
  by (rule runsI) (auto simp: op_map_err_def split: prod.splits dest: runsD)

lemma runs_if [runs_rules]: "(b \<Longrightarrow> runs env q f) \<Longrightarrow> (\<not> b \<Longrightarrow> runs env q g) \<Longrightarrow> runs env q (if b then f else g)"
  by simp

lemma runs_case [runs_rules]:
  "runs env q n \<Longrightarrow> (\<And>x. runs env q (s x)) \<Longrightarrow> runs env q (case oa of None \<Rightarrow> n | Some x \<Rightarrow> s x)"
  "(\<And>a. runs env q (l a)) \<Longrightarrow> (\<And>b. runs env q (r b)) \<Longrightarrow> runs env q (case ab of Inl a \<Rightarrow> l a | Inr b \<Rightarrow> r b)"
  "(\<And>a b. runs env q (p a b)) \<Longrightarrow> runs env q (case xy of (a, b) \<Rightarrow> p a b)"
  "(\<And>y. runs env q (h y)) \<Longrightarrow> runs env q (Let z h)"
  by (simp_all add: Let_def split: option.splits sum.splits prod.splits)

lemma runs_now [runs_rules]: "runs env q (svc_now env')"
  by (auto simp: runs_def svc_now_def Let_def intro!: r_into_rtranclp app_call.clock)

lemma runs_uuid [runs_rules]: "runs env q (draw_uuid env')"
  by (auto simp: runs_def draw_uuid_def intro!: r_into_rtranclp app_call.uuid)

lemma runs_on_limiter [runs_rules]: "runs env q (on_limiter (\<lambda>es. rate_check es bucket key policy now))"
  by (rule runsI) (auto simp: on_limiter_def split: prod.splits intro!: r_into_rtranclp intro: app_call.limiter)

lemma db_calls_lift:
  assumes "db_call\<^sup>*\<^sup>* db db'"
  shows "app_calls env q (st\<lparr>app_db := db\<rparr>) (st\<lparr>app_db := db'\<rparr>)"
  using assms
proof (induction rule: rtranclp_induct)
  case (step y z)
  have "app_call env q (st\<lparr>app_db := y\<rparr>) (st\<lparr>app_db := z\<rparr>)"
    using app_call.storage [of "st\<lparr>app_db := y\<rparr>" z env q] step.hyps(2) by simp
  with step.IH show ?case by (rule rtranclp.rtrancl_into_rtrancl)
qed simp

lemma runs_on_db [runs_rules]: "db_runs f \<Longrightarrow> runs env q (on_db f)" for env :: "'ch app_env"
proof (rule runsI)
  fix st st' :: "'ch app_state" and r
  assume f: "db_runs f" and s: "on_db f st = (st', r)"
  then obtain db where db: "f (app_db st) = (db, r)" "st' = st\<lparr>app_db := db\<rparr>" by (auto simp: on_db_def split: prod.splits)
  then have "db_call\<^sup>*\<^sup>* (app_db st) db" using f by (auto simp: db_runs_def)
  from db_calls_lift [OF this, of env q st] show "app_calls env q st st'" by (simp add: db(2))
qed

lemma runs_on_hub [runs_rules]: "hub_runs (env_hub env) q f \<Longrightarrow> runs env q (on_hub f)"
proof (rule runsI)
  fix st st' r
  assume f: "hub_runs (env_hub env) q f" and s: "on_hub f st = (st', r)"
  then obtain hub where h: "f (app_hub st) = (hub, r)" "st' = st\<lparr>app_hub := hub\<rparr>" by (auto simp: on_hub_def split: prod.splits)
  then have "(hub = app_hub st \<or> hub_step (env_hub env) q (app_hub st) hub) \<and> hub_known hub \<subseteq> hub_known (app_hub st)"
    using f by (simp add: hub_runs_def)
  then show "app_calls env q st st'" unfolding h(2) using app_call.hub [of env q st hub] by auto
qed

lemma runs_hub_op [runs_rules]: "hub_runs (env_hub env) q f \<Longrightarrow> runs env q (hub_op f)"
  using runs_on_hub [of env q f] by (intro runsI) (auto simp: hub_op_def split: prod.splits dest: runsD)

lemma runs_hub_call [runs_rules]: "hub_runs (env_hub env) q f \<Longrightarrow> runs env q (hub_call f)"
  unfolding hub_call_def by (intro runs_rules)

lemma runs_event_id [runs_rules]: "runs env q (event_id env')"
  unfolding event_id_def by (intro runs_rules)

section \<open>Handlers as sequences of calls\<close>

lemma cleanup_one_runs: "runs env q (cleanup_one env a)"
proof (rule runsI)
  fix st st' evicted
  assume c: "cleanup_one env a st = (st', evicted)"
  let ?cmd = "\<lambda>now db. apply_room_command db (at_room_code a) None (Detach (at_session_id a) (at_peer_id a)) now"
  obtain st1 r1 where s1: "svc_now env st = (st1, r1)" by (metis prod.exhaust)
  note c1 = runsD [OF runs_now s1, of env q]
  show "app_calls env q st st'"
  proof (cases r1)
    case (Inl e)
    then show ?thesis using c c1 by (simp add: cleanup_one_def s1)
  next
    case (Inr now)
    obtain st2 r2 where s2: "on_db (?cmd now) st1 = (st2, r2)" by (metis prod.exhaust)
    note c2 = rtranclp_trans [OF c1 runsD [OF runs_on_db [OF db_runs_calls(1)] s2]]
    obtain st3 r3 where s3: "event_id env st2 = (st3, r3 :: unit + rstring)" by (metis prod.exhaust)
    note c3 = rtranclp_trans [OF c2 runsD [OF runs_event_id s3]]
    show ?thesis
      using c c2 c3 rtranclp_trans [OF c3 runsD [OF runs_on_hub [OF hub_runs_ops(7)]]]
      by (auto simp: cleanup_one_def s1 Inr s2 s3 split: sum.splits if_splits)
  qed
qed

lemma cleanup_loop_runs: "app_calls env q st (cleanup_loop env pending seen st)"
proof (induction env pending seen st rule: cleanup_loop.induct)
  case (1 env pending seen st)
  show ?case
  proof (cases "pending = [] \<or> cleanup_key (last pending) \<in> set seen")
    case True
    then show ?thesis using "1.IH"(1) by (subst cleanup_loop.simps) auto
  next
    case False
    obtain st' evicted where c: "cleanup_one env (last pending) st = (st', evicted)" by (metis prod.exhaust)
    then show ?thesis
      using False "1.IH"(2) [OF _ refl refl _ c [symmetric]] runsD [OF cleanup_one_runs c]
      by (subst cleanup_loop.simps) (auto simp: c intro: rtranclp_trans)
  qed
qed

lemma cleanup_attachments_runs [runs_rules]: "runs env q (cleanup_attachments env as)"
  by (auto simp: runs_def cleanup_attachments_def cleanup_loop_runs)

lemma session_services_run [runs_rules]:
  "runs env q (session_from_cookie cookie now)"
  "runs env q (create_or_restore_session env' config existing name)"
  "runs env q (svc_authenticate env' cookie)"
proof -
  show cookie: "runs env q (session_from_cookie cookie now)" for cookie now
    unfolding session_from_cookie_def by (intro runs_rules)
  show "runs env q (create_or_restore_session env' config existing name)"
    unfolding create_or_restore_session_def by (intro runs_rules cookie)
  show "runs env q (svc_authenticate env' cookie)"
    unfolding svc_authenticate_def by (intro runs_rules cookie)
qed

lemma random_room_code_runs [runs_rules]: "runs env q (random_room_code env')"
  unfolding random_room_code_def by (intro runs_rules)

lemma create_room_attempts_runs [runs_rules]: "runs env q (create_room_attempts env' config owner rid now n)"
  by (induction n) (simp_all, (intro runs_rules | assumption)+)

lemma svc_active_room_runs [runs_rules]: "runs env q (svc_active_room env' s code)"
  unfolding svc_active_room_def by (intro runs_rules)

lemma room_services_run [runs_rules]:
  "runs env q (svc_create_room env' config owner request_id)"
  "runs env q (svc_request_join env' config s code rid expected capability)"
  "runs env q (svc_join_request_status env' s code rid)"
  "runs env q (svc_create_invite env' config s code rid)"
  "runs env q (svc_rtc_config env' config s)"
  "runs env q (svc_decide_join env' s code rid decision expected)"
  "runs env q (svc_leave_room env' s code expected)"
  "runs env q (svc_bootstrap_room env' s code)"
  unfolding svc_create_room_def svc_request_join_def svc_join_request_status_def svc_create_invite_def
    svc_rtc_config_def svc_decide_join_def svc_leave_room_def svc_bootstrap_room_def
  by (intro runs_rules)+

lemma messaging_runs [runs_rules]: "runs env q (send_message env c msg)" "runs env q (broadcast_event env room msg)"
  unfolding send_message_def broadcast_event_def by (intro runs_rules)+

lemma to_unavailable_runs [runs_rules]: "runs env q m \<Longrightarrow> runs env q (to_unavailable m)"
  unfolding to_unavailable_def by (intro runs_rules)

lemma socket_commands_run: "runs env q (handle_client_message env config c s message)"
proof -
  have a: "runs env q (attach_room env c s code peer last)" for code peer last
    unfolding attach_room_def by (intro runs_rules)
  have w: "runs env q (watch_join_request env c s code rid last)" for code rid last
    unfolding watch_join_request_def by (intro runs_rules)
  have d: "runs env q (detach_room env c code)" for code
    unfolding detach_room_def by (intro runs_rules)
  have r: "runs env q (relay_signal env config c s code to_peer nid signal)" for code to_peer nid signal
    unfolding relay_signal_def authorize_signal_def by (intro runs_rules)
  show ?thesis by (cases message) (simp_all add: a w d r runs_op)
qed

lemma http_handlers_run:
  "runs env q (http_create_session env config fs1 jar ip headers body)"
  "runs env q (http_create_room env config fs2 jar headers body)"
  "runs env q (http_bootstrap_room env jar code)"
  "runs env q (http_request_join env config fs3 jar code headers body)"
  "runs env q (http_create_invite env config fs4 jar code headers body)"
  "runs env q (http_join_request_status env jar code request_id)"
  "runs env q (http_decide_join env config fs5 jar code path_rid headers body)"
  "runs env q (http_leave_room env config fs6 jar code headers body)"
  "runs env q (http_rtc_config env config jar)"
  unfolding http_create_session_def http_create_room_def http_bootstrap_room_def http_request_join_def
    http_create_invite_def http_join_request_status_def http_decide_join_def http_leave_room_def http_rtc_config_def
    http_authenticate_def http_now_def
  by (intro runs_rules)+

lemma announce_runs [runs_rules]:
  "runs env q (announce_expired_rooms env ms)" "runs env q (announce_expired_requests env ms)"
proof -
  show "runs env q (announce_expired_rooms env ms)"
    by (induction ms) (simp_all, (intro runs_rules | assumption)+)
  show "runs env q (announce_expired_requests env ms)"
    by (induction ms) (simp_all, (intro runs_rules | assumption)+)
qed

lemma maintenance_runs: "runs env q (maintenance_run_once env)"
  unfolding maintenance_run_once_def by (intro runs_rules)

end
