(* ===== verification/Server_Example.thy ===== *)
theory Server_Example
  imports Server_Laws Storage_Properties
begin

text \<open>
  A concrete environment on which the properties of the server are instantiated: a clock that
  advances by a millisecond per reading, UUIDs that count, short digests and unbounded channels.
\<close>

definition ex_app_env :: "nat app_env" where
  "ex_app_env =
     \<lparr>env_clock = (\<lambda>n. 1000 + int n), env_uuid = (\<lambda>n. replicate 15 0 @ [of_nat n]),
      env_hmac_sha256 = (\<lambda>key. Some (\<lambda>msg. take 8 (msg @ key))), env_hmac_sha1 = (\<lambda>key. Some (\<lambda>msg. take 8 (msg @ key))),
      env_sha256 = (\<lambda>msg. take 32 (msg @ replicate 32 0)), env_base64 = hex_lower, env_hub = ex_env,
      env_scan_rooms = (\<lambda>rows. rows), env_scan_requests = (\<lambda>rows. rows), env_scan_sessions = (\<lambda>rows. rows)\<rparr>"

definition ex_headers :: request_headers where
  "ex_headers = \<lparr>hd_origin = Some (rstr ''http://localhost:3410''), hd_content_type = Some (rstr ''application/json''),
     hd_sec_fetch_site = None, hd_sec_fetch_mode = None, hd_sec_fetch_dest = None, hd_host = None\<rparr>"

lemma ex_app_env_iter: "iter_ok (env_hub ex_app_env)"
  using ex_env_iter by (simp add: ex_app_env_def)

section \<open>Two members in a room\<close>

text \<open>In room A of the example database a second session is admitted and both members attach.\<close>

abbreviation ex_join :: request_id where "ex_join \<equiv> RequestId (rstr ''j'')"
abbreviation ex_p1 :: peer_id where "ex_p1 \<equiv> PeerId (rstr ''p1'')"
abbreviation ex_p3 :: peer_id where "ex_p3 \<equiv> PeerId (rstr ''p3'')"

definition ex_apply :: "room_command \<Rightarrow> epoch_millis \<Rightarrow> database \<Rightarrow> database" where
  "ex_apply command now db = fst (apply_room_command db ex_code_a None command now)"

definition ex_met :: database where
  "ex_met = ex_apply (Attach ex_s3 ex_p3 50) 50 (ex_apply (Attach ex_s1 ex_p1 40) 40
     (ex_apply (DecideJoin ex_s1 ex_join Approve 30) 30 (ex_apply (RequestJoin ex_join ex_s3 20 500) 20 ex_db1)))"

text \<open>The same database as tables, so that it is computed once.\<close>

lemma ex_met_eval [code]:
  "ex_met =
     (ex_tables 5 50 1 10
        [(rstr ''j'', \<lparr>jw_id = rstr ''j'', jw_room = rstr ''a'', jw_session = rstr ''s3'', jw_state = rstr ''approved'',
           jw_created_at_ms = 20, jw_expires_at_ms = 500, jw_updated_at_ms = 50\<rparr>)])\<lparr>db_members :=
     [((rstr ''a'', rstr ''s1''), \<lparr>mw_room_id = rstr ''a'', mw_session_id = rstr ''s1'', mw_role = rstr ''owner'',
         mw_state = rstr ''online'', mw_peer_id = Some (rstr ''p1''), mw_created_at_ms = 10, mw_updated_at_ms = 50\<rparr>),
      ((rstr ''a'', rstr ''s3''), \<lparr>mw_room_id = rstr ''a'', mw_session_id = rstr ''s3'', mw_role = rstr ''receiver'',
         mw_state = rstr ''online'', mw_peer_id = Some (rstr ''p3''), mw_created_at_ms = 30, mw_updated_at_ms = 50\<rparr>),
      ((rstr ''b'', rstr ''s2''), \<lparr>mw_room_id = rstr ''b'', mw_session_id = rstr ''s2'', mw_role = rstr ''owner'',
         mw_state = rstr ''offline'', mw_peer_id = None, mw_created_at_ms = 10, mw_updated_at_ms = 10\<rparr>)]\<rparr>"
  by code_simp

lemma ex_apply_inv:
  assumes "db_inv db" "command_ids_ok command" "\<And>R. request_id_free db R command"
  shows "db_inv (ex_apply command now db)"
proof (cases "apply_room_command db ex_code_a None command now")
  case (Pair db' res)
  show ?thesis
  proof (cases res)
    case (Inl e)
    then show ?thesis
      using Pair assms(1) by (auto simp: ex_apply_def apply_room_command_def end_transaction_def split: sum.splits)
  next
    case (Inr m)
    then have a: "apply_room_command db ex_code_a None command now = (db', Inr m)" using Pair by simp
    obtain r0 where "load_room_on db ex_code_a = Inr (Some r0)" by (rule apply_room_command_Inr [OF assms(1) a])
    from apply_room_command_spec(2) [OF assms(1) a assms(2) this assms(3)] show ?thesis by (simp add: ex_apply_def a)
  qed
qed

lemma ex_met_inv: "db_inv ex_met"
proof -
  have p: "peer_id_ok ex_p1" "peer_id_ok ex_p3" by code_simp+
  have 1: "db_inv (ex_apply (RequestJoin ex_join ex_s3 20 500) 20 ex_db1)"
    by (rule ex_apply_inv [OF ex_db1_inv]) (code_simp, simp add: ex_db1_eval ex_tables_def id_free_def)
  have 2: "db_inv (ex_apply (DecideJoin ex_s1 ex_join Approve 30) 30 (ex_apply (RequestJoin ex_join ex_s3 20 500) 20 ex_db1))"
    by (rule ex_apply_inv [OF 1]) simp_all
  show ?thesis unfolding ex_met_def by (intro ex_apply_inv 2) (simp_all add: p)
qed

definition ex_met_hub :: "nat hub_state" where
  "ex_met_hub =
     fst (hub_attach ex_env
       (hub_register ex_env 4 ex_c2
         (fst (hub_attach ex_env (hub_register ex_env 4 ex_c1 hub_empty ex_s1) ex_c1 (RoomId (rstr ''a'')) ex_code_a ex_p1)) ex_s3)
       ex_c2 (RoomId (rstr ''a'')) ex_code_a ex_p3)"

lemma ex_met_hub_inv: "hub_inv ex_met_hub"
proof -
  let ?h1 = "hub_register ex_env 4 ex_c1 hub_empty ex_s1"
  let ?h2 = "fst (hub_attach ex_env ?h1 ex_c1 (RoomId (rstr ''a'')) ex_code_a ex_p1)"
  let ?h3 = "hub_register ex_env 4 ex_c2 ?h2 ex_s3"
  have "hub_inv ?h1" by (rule hub_register_inv [OF hub_empty_inv]) (simp_all add: hub_empty_def)
  then have h2: "hub_inv ?h2" by (rule hub_step_inv [OF hub_attach_step _ ex_env_iter])
  have "hub_inv ?h3" by (rule hub_register_inv [OF h2]) code_simp+
  then show ?thesis unfolding ex_met_hub_def by (rule hub_step_inv [OF hub_attach_step _ ex_env_iter])
qed

definition ex_met_state :: "nat app_state" where
  "ex_met_state = \<lparr>app_db = ex_met, app_limiter = [], app_hub = ex_met_hub, app_clock_reads = 0, app_uuids_drawn = 0\<rparr>"

end
