(* ===== verification/Server_Properties.thy ===== *)
theory Server_Properties
  imports Server_Example
begin

text \<open>
  What the server guarantees as a whole: its tables stay consistent under every interleaving of
  handlers, and what its services promise to clients about sessions, rooms, invitations,
  signals and presence.
\<close>

section \<open>Events\<close>

lemma send_socket_error_calls: "app_calls env q st (send_socket_error env c code message retryable st)"
  unfolding send_socket_error_def
  by (metis prod.collapse runsD [OF runs_on_hub [OF hub_runs_ops(5)]])

lemma socket_turn_calls:
  assumes "socket_turn env config from_str c s input l st = (st', l')"
  shows "app_calls env q st st'"
proof -
  have v: "app_calls env q st st'" if "socket_violation env c code message l st = (st', l')" for code message
    using that send_socket_error_calls by (auto simp: socket_violation_def Let_def)
  have h: "app_calls env q st (fst (handle_client_message env config c s m st))" for m
    by (metis prod.collapse runsD [OF socket_commands_run])
  show ?thesis
  proof (cases input)
    case (TextFrame frame)
    show ?thesis
    proof (cases "parse_client_message from_str frame")
      case (Inr m)
      obtain st1 r where r: "handle_client_message env config c s m st = (st1, r)" by (metis prod.exhaust)
      then have "app_calls env q st st1" using h [of m] by simp
      then show ?thesis
        using assms send_socket_error_calls [of env q] TextFrame Inr r
        by (auto simp: socket_turn_def split: if_splits sum.splits socket_action.splits intro: rtranclp_trans)
    qed (use assms v TextFrame in \<open>auto simp: socket_turn_def\<close>)
  qed (use assms v in \<open>auto simp: socket_turn_def\<close>)
qed

lemma socket_open_call:
  assumes "socket_open env config s st = (st', c)"
  shows "app_call env (cfg_outbound_queue_capacity config) st st'"
  using assms app_call.connect [of env _ st "sess_id s"] by (auto simp: socket_open_def Let_def connection_of_def)

lemma socket_close_calls: "app_calls env q st (socket_close env c st)"
proof -
  obtain st1 r where u: "on_hub (\<lambda>hub. hub_unregister hub c) st = (st1, r)" by (metis prod.exhaust)
  then have "app_calls env q st st1" by (rule runsD [OF runs_on_hub [OF hub_runs_ops(4)]])
  then show ?thesis
    using cleanup_loop_runs [of env q st1] by (cases r) (auto simp: socket_close_def u intro: rtranclp_trans)
qed

text \<open>
  What happens to the state of the server: a handler, a turn of a connection or a maintenance
  batch as a whole, or, when several run at once, one call of any of them.
\<close>

inductive server_event :: "'ch app_env \<Rightarrow> app_config \<Rightarrow> 'ch app_state \<Rightarrow> 'ch app_state \<Rightarrow> bool"
  for env :: "'ch app_env" and config :: app_config where
  call: "app_call env (cfg_outbound_queue_capacity config) st st' \<Longrightarrow> server_event env config st st'"
| create_session: "http_create_session env config fs1 jar ip headers body st = (st', r1) \<Longrightarrow> server_event env config st st'"
| create_room: "http_create_room env config fs2 jar headers body st = (st', r2) \<Longrightarrow> server_event env config st st'"
| bootstrap_room: "http_bootstrap_room env jar code st = (st', r3) \<Longrightarrow> server_event env config st st'"
| request_join: "http_request_join env config fs4 jar code headers body st = (st', r4) \<Longrightarrow> server_event env config st st'"
| create_invite: "http_create_invite env config fs5 jar code headers body st = (st', r5) \<Longrightarrow> server_event env config st st'"
| join_request_status: "http_join_request_status env jar code rid st = (st', r6) \<Longrightarrow> server_event env config st st'"
| decide_join: "http_decide_join env config fs7 jar code rid headers body st = (st', r7) \<Longrightarrow> server_event env config st st'"
| leave_room: "http_leave_room env config fs8 jar code headers body st = (st', r8) \<Longrightarrow> server_event env config st st'"
| rtc_config: "http_rtc_config env config jar st = (st', r9) \<Longrightarrow> server_event env config st st'"
| socket_open: "socket_open env config s st = (st', c) \<Longrightarrow> server_event env config st st'"
| socket_turn: "socket_turn env config from_str c s input l st = (st', l') \<Longrightarrow> server_event env config st st'"
| socket_close: "server_event env config st (socket_close env c st)"
| maintenance: "maintenance_run_once env st = (st', r10) \<Longrightarrow> server_event env config st st'"

lemma server_event_calls:
  assumes "server_event env config st st'"
  shows "app_calls env (cfg_outbound_queue_capacity config) st st'"
  using assms
  by (cases rule: server_event.cases)
    (auto dest: runsD [OF http_handlers_run(1)] runsD [OF http_handlers_run(2)] runsD [OF http_handlers_run(3)]
      runsD [OF http_handlers_run(4)] runsD [OF http_handlers_run(5)] runsD [OF http_handlers_run(6)]
      runsD [OF http_handlers_run(7)] runsD [OF http_handlers_run(8)] runsD [OF http_handlers_run(9)]
      runsD [OF maintenance_runs] socket_open_call socket_turn_calls intro: socket_close_calls)

section \<open>Consistent tables\<close>

lemma hex_digit_inj: "unat a < 16 \<Longrightarrow> unat b < 16 \<Longrightarrow> hex_digit a = hex_digit b \<longleftrightarrow> a = b"
proof -
  assume ab: "unat a < 16" "unat b < 16"
  have d: "distinct (rstr ''0123456789abcdef'')" "length (rstr ''0123456789abcdef'') = 16" by (simp_all add: rstr_def)
  show ?thesis
    using nth_eq_iff_index_eq [OF d(1), of "unat a" "unat b"] ab d(2) by (simp add: hex_digit_def word_unat_eq_iff)
qed

lemma hex_byte_inj:
  fixes a b :: u8
  assumes "hex_digit (drop_bit 4 a) = hex_digit (drop_bit 4 b)" "hex_digit (a AND 0x0f) = hex_digit (b AND 0x0f)"
  shows "a = b"
proof -
  have lo: "x AND 0x0f = take_bit 4 x" for x :: u8 by (simp add: take_bit_eq_mask mask_eq_exp_minus_1)
  have hi: "unat (drop_bit 4 x) = unat x div 16" "unat (take_bit 4 x) = unat x mod 16" for x :: u8
    by (simp_all add: unsigned_drop_bit_eq unsigned_take_bit_eq drop_bit_eq_div take_bit_eq_mod unat_div_distrib unat_mod_distrib)
  have "unat x div 16 < 16" for x :: u8 using unat_lt2p_word [of x] by (simp add: less_mult_imp_div_less)
  then have "drop_bit 4 a = drop_bit 4 b" "take_bit 4 a = take_bit 4 b"
    using assms hex_digit_inj unfolding lo by (simp_all add: hi)
  then have "unat a div 16 = unat b div 16" "unat a mod 16 = unat b mod 16" using hi by metis+
  then have "unat a = unat b" by (metis div_mult_mod_eq)
  then show ?thesis by (simp add: word_unat_eq_iff)
qed

lemma hex_lower_inj: "hex_lower xs = hex_lower ys \<Longrightarrow> xs = ys"
proof (induction xs arbitrary: ys)
  case (Cons x xs)
  then obtain y ys' where "ys = y # ys'" by (cases ys) (auto simp: hex_lower_def)
  with Cons show ?case using hex_byte_inj [of x y] by (auto simp: hex_lower_def)
qed (auto simp: hex_lower_def split: list.splits)

lemma connection_of_inj:
  "inj_on (env_uuid env) {..< n} \<Longrightarrow> i < n \<Longrightarrow> j < n \<Longrightarrow> connection_of env i = connection_of env j \<longleftrightarrow> i = j"
  by (auto simp: connection_of_def dest: hex_lower_inj inj_onD)

text \<open>
  The tables satisfy their constraints, the limiter is bounded, the routes of the hub are the
  indexes of its connections, and connection identifiers come from UUIDs that were drawn.
\<close>

definition server_inv :: "'ch app_env \<Rightarrow> 'ch app_state \<Rightarrow> bool" where
  "server_inv env st \<longleftrightarrow> db_ok (app_db st) \<and> limiter_inv (app_limiter st) \<and> hub_inv (app_hub st) \<and>
     hub_known (app_hub st) \<subseteq> connection_of env ` {..< app_uuids_drawn st}"

lemma server_inv_new: "server_inv env app_state_new"
  using db_inv_empty hub_empty_inv
  by (simp add: server_inv_def app_state_new_def db_inv_def limiter_inv_def hub_known_def hm_wf_def) (simp add: hub_empty_def)

lemma app_call_inv:
  assumes "app_call env q st st'" "server_inv env st" "iter_ok (env_hub env)" "inj_on (env_uuid env) {..< app_uuids_drawn st'}"
  shows "server_inv env st'"
  using assms(1)
proof (cases rule: app_call.cases)
  case (connect sid)
  let ?c = "connection_of env (app_uuids_drawn st)"
  have "?c \<notin> hub_known (app_hub st)"
  proof
    assume "?c \<in> hub_known (app_hub st)"
    then obtain k where k: "k < app_uuids_drawn st" "?c = connection_of env k" using assms(2) by (auto simp: server_inv_def)
    then show False using connection_of_inj [OF assms(4), of "app_uuids_drawn st" k] by (simp add: connect)
  qed
  then have fresh: "map_of (hs_connections (app_hub st)) ?c = None" "map_of (hs_evicted_attachments (app_hub st)) ?c = None"
    by (auto simp: hub_known_def)
  have "hub_known (hub_register (env_hub env) q ?c (app_hub st) sid) \<subseteq> insert ?c (hub_known (app_hub st))"
    by (auto simp: hub_known_def hub_register_def update_conv' split: if_splits)
  then show ?thesis
    using assms(2) hub_register_inv(1) [OF _ fresh] by (fastforce simp: connect server_inv_def)
next
  case (hub hub)
  then show ?thesis using assms(2) hub_step_inv [OF hub(2) _ assms(3)] by (auto simp: server_inv_def)
next
  case (limiter bucket key policy now entries b)
  then show ?thesis
    using assms(2) rate_check_inv [of "app_limiter st" bucket key policy now] by (simp add: server_inv_def)
next
  case (storage db)
  then show ?thesis using assms(2) db_call_ok by (auto simp: server_inv_def)
qed (use assms(2) in \<open>auto simp: server_inv_def lessThan_Suc\<close>)

lemma app_calls_drawn: "app_calls env q st st' \<Longrightarrow> app_uuids_drawn st \<le> app_uuids_drawn st'"
  by (induction rule: rtranclp_induct) (auto elim!: app_call.cases)

lemma app_calls_inv:
  assumes "app_calls env q st st'" "server_inv env st" "iter_ok (env_hub env)" "inj_on (env_uuid env) {..< app_uuids_drawn st'}"
  shows "server_inv env st'"
  using assms
proof (induction rule: rtranclp_induct)
  case (step y z)
  have "app_uuids_drawn y \<le> app_uuids_drawn z" using step.hyps(2) by (auto elim: app_call.cases)
  then have "inj_on (env_uuid env) {..< app_uuids_drawn y}" using step.prems(3) by (auto intro: inj_on_subset)
  then show ?case using step app_call_inv by blast
qed simp

text \<open>C24. Whatever handlers run and however their calls interleave, the server stays consistent: the
  tables satisfy their constraints, with one row per key, unique room codes and no dangling
  reference; the rate limiter is bounded; and the routes of the hub are exactly the indexes of
  its connections. Every handler is nothing but a sequence of atomic calls. The random UUIDs
  drawn so far must not have repeated, and iterating a hash set must visit each element once.\<close>

theorem server_stays_consistent:
  assumes "(server_event env config)\<^sup>*\<^sup>* app_state_new st" "iter_ok (env_hub env)"
    and "inj_on (env_uuid env) {..< app_uuids_drawn st}"
  shows "server_inv env st \<and> app_calls env (cfg_outbound_queue_capacity config) app_state_new st"
proof -
  have "app_calls env (cfg_outbound_queue_capacity config) app_state_new st"
    using assms(1) by (induction rule: rtranclp_induct) (auto intro: rtranclp_trans server_event_calls)
  then show ?thesis using app_calls_inv [OF _ server_inv_new assms(2,3)] by blast
qed

text \<open>The first login of an empty server.\<close>

definition ex_login :: "nat app_state \<times> (http_error + nat \<times> session_cookie \<times> session_response)" where
  "ex_login = http_create_session ex_app_env default_app_config
     (\<lambda>_. Inr \<lparr>csr_version = CURRENT_PROTOCOL, csr_display_name = rstr ''Ann''\<rparr>) [] None ex_headers (Inr []) app_state_new"

theorem server_stays_consistent_witness:
  "server_inv ex_app_env (fst ex_login) \<and> length (db_sessions (app_db (fst ex_login))) = 1"
proof -
  have "server_event ex_app_env default_app_config app_state_new (fst ex_login)"
    unfolding ex_login_def by (rule server_event.create_session [OF surjective_pairing])
  then have r: "(server_event ex_app_env default_app_config)\<^sup>*\<^sup>* app_state_new (fst ex_login)" by (rule r_into_rtranclp)
  have i: "iter_ok (env_hub ex_app_env)" using ex_env_iter by (simp add: ex_app_env_def)
  have "app_uuids_drawn (fst ex_login) = 1 \<and> length (db_sessions (app_db (fst ex_login))) = 1" by code_simp
  then show ?thesis using server_stays_consistent [OF r i] by (simp add: lessThan_Suc)
qed

end
