(* ===== verification/Service_Properties.thy ===== *)
theory Service_Properties
  imports Server_Example
begin

text \<open>
  What the services promise to their clients: who is authenticated, that creating a room can be
  retried, which invitations are honoured, who may signal whom, that mutations need an allowed
  origin, and that a closed connection leaves its member offline.
\<close>

section \<open>Results of operations\<close>

named_theorems op_simps \<open>inverting successful operations\<close>

lemma op_bind_Inr [op_simps]:
  "op_bind m f st = (st', Inr y) \<longleftrightarrow> (\<exists>st1 x. m st = (st1, Inr x) \<and> f x st1 = (st', Inr y))"
  by (auto simp: op_bind_def split: prod.splits sum.splits)

lemma op_basic_Inr [op_simps]:
  "op_return x st = (st', Inr y) \<longleftrightarrow> st' = st \<and> y = x"
  "op_fail e st = (st', Inr y) \<longleftrightarrow> False"
  "op_result r st = (st', Inr y) \<longleftrightarrow> st' = st \<and> r = Inr y"
  "read_db g st = (st', Inr y) \<longleftrightarrow> st' = st \<and> g (app_db st) = Inr y"
  by (auto simp: op_return_def op_fail_def op_result_def read_db_def)

lemma op_map_err_Inr [op_simps]: "op_map_err g m st = (st', Inr y) \<longleftrightarrow> m st = (st', Inr y)"
  by (auto simp: op_map_err_def result_simps split: prod.splits)

lemma on_db_Inr [op_simps]:
  "on_db f st = (st', Inr y) \<longleftrightarrow> (\<exists>db. f (app_db st) = (db, Inr y) \<and> st' = st\<lparr>app_db := db\<rparr>)"
  by (auto simp: on_db_def split: prod.splits)

lemma hub_call_Inr [op_simps]:
  "hub_call f st = (st', Inr y) \<longleftrightarrow> (\<exists>hub. f (app_hub st) = (hub, Inr y) \<and> st' = st\<lparr>app_hub := hub\<rparr>)"
  by (auto simp: hub_call_def op_map_err_Inr on_hub_def split: prod.splits)

lemma on_limiter_Inr [op_simps]:
  "on_limiter f st = (st', Inr b) \<longleftrightarrow> (\<exists>es. f (app_limiter st) = (es, b) \<and> st' = st\<lparr>app_limiter := es\<rparr>)"
  by (auto simp: on_limiter_def split: prod.splits)

lemma to_unavailable_Inr [op_simps]: "to_unavailable m st = (st', Inr y) \<longleftrightarrow> m st = (st', Inr y)"
  by (simp add: to_unavailable_def op_map_err_Inr)

lemma svc_now_Inr [op_simps]:
  "svc_now env st = (st', Inr now) \<longleftrightarrow>
     st' = st\<lparr>app_clock_reads := Suc (app_clock_reads st)\<rparr> \<and> 0 \<le> env_clock env (app_clock_reads st) \<and>
     env_clock env (app_clock_reads st) < 2 ^ 64 \<and> now = of_int (env_clock env (app_clock_reads st))"
  by (auto simp: svc_now_def Let_def)

lemma draw_uuid_Inr [op_simps]:
  "draw_uuid env st = (st', Inr bytes) \<longleftrightarrow>
     st' = st\<lparr>app_uuids_drawn := Suc (app_uuids_drawn st)\<rparr> \<and> bytes = env_uuid env (app_uuids_drawn st)"
  by (auto simp: draw_uuid_def)

lemma op_guard_Inr [op_simps]:
  "(if b then op_fail e else m) st = (st', Inr y) \<longleftrightarrow> \<not> b \<and> m st = (st', Inr y)"
  by (simp add: op_fail_def)

lemma session_ensure_active_Inr [op_simps]:
  "session_ensure_active s now = Inr u \<longleftrightarrow> sess_state s = SessionActive \<and> now < sess_expires_at s"
  by (cases "sess_state s") (auto simp: session_ensure_active_def)

section \<open>Sessions\<close>

lemma session_from_cookie_Inr:
  "session_from_cookie cookie now st = (st', Inr (Some s)) \<longleftrightarrow> st' = st \<and>
     (\<exists>v sid. cookie = Some v \<and> session_id_parse v = Inr sid \<and> find_session (app_db st) sid = Inr (Some s) \<and>
        sess_state s = SessionActive \<and> now < sess_expires_at s)"
proof (cases "\<exists>v sid. cookie = Some v \<and> session_id_parse v = Inr sid")
  case True
  then obtain v sid where v: "cookie = Some v" "session_id_parse v = Inr sid" by blast
  show ?thesis
  proof (cases "find_session (app_db st) sid")
    case (Inr found)
    show ?thesis
    proof (cases found)
      case (Some s')
      then show ?thesis
        using session_ensure_active_Inr [of s' now]
        by (cases "session_ensure_active s' now")
          (auto simp: session_from_cookie_def v Inr op_bind_def op_map_err_def read_db_def op_return_def)
    qed (simp add: session_from_cookie_def v Inr op_bind_def op_map_err_def read_db_def op_return_def)
  qed (simp add: session_from_cookie_def v op_bind_def op_map_err_def read_db_def)
next
  case False
  then show ?thesis
    by (cases cookie) (auto simp: session_from_cookie_def op_simps split: sum.splits)
qed

lemma svc_authenticate_Inr:
  "svc_authenticate env cookie st = (st', Inr s) \<longleftrightarrow>
     (\<exists>now st1. svc_now env st = (st1, Inr now) \<and> session_from_cookie cookie now st1 = (st', Inr (Some s)))"
  by (auto simp: svc_authenticate_def op_bind_Inr op_basic_Inr result_simps)

lemma clock_bound:
  assumes "0 \<le> t" "t < 2 ^ 64"
  shows "(of_int t :: u64) < e \<longleftrightarrow> t < uint e"
  using assms by (simp add: word_less_def uint_word_of_int take_bit_int_eq_self)

text \<open>Authentication succeeds exactly when the cookie carries the identifier of a stored session
  that is active and, by the clock read for this request, not past its expiry; the answer is that
  stored session, and nothing but the clock reading changes.\<close>

theorem sessions_authenticate:
  "svc_authenticate env cookie st = (st', Inr s) \<longleftrightarrow>
     st' = st\<lparr>app_clock_reads := Suc (app_clock_reads st)\<rparr> \<and>
     (\<exists>v sid. cookie = Some v \<and> session_id_parse v = Inr sid \<and> find_session (app_db st) sid = Inr (Some s)) \<and>
     sess_state s = SessionActive \<and> 0 \<le> env_clock env (app_clock_reads st) \<and>
     env_clock env (app_clock_reads st) < uint (sess_expires_at s)"
proof -
  have "env_clock env (app_clock_reads st) < 2 ^ 64" if "env_clock env (app_clock_reads st) < uint (sess_expires_at s)"
    using that uint_lt2p [of "sess_expires_at s"] by simp
  then show ?thesis
    by (auto simp: svc_authenticate_Inr svc_now_Inr session_from_cookie_Inr clock_bound)
qed

lemma session_create_Inr:
  "session_create sid name now expires = Inr s \<longleftrightarrow> now < expires \<and>
     s = \<lparr>sess_id = sid, sess_display_name = name, sess_expires_at = expires, sess_state = SessionActive\<rparr>"
  by (auto simp: session_create_def)

lemma session_id_parse_ok: "session_id_parse v = Inr sid \<Longrightarrow> session_id_ok sid \<and> session_id_str sid = v"
  by (auto simp: session_id_ok_def result_simps)



section \<open>Origins\<close>

text \<open>What the server trusts: an allowed origin, or an opaque origin of a request that the browser
  marks as same-origin for an authority the server is configured for.\<close>

definition trusted_origin :: "app_config \<Rightarrow> request_headers \<Rightarrow> bool" where
  "trusted_origin config headers \<longleftrightarrow>
     (\<exists>origin. hd_origin headers = Some origin \<and>
       (origin \<in> set (cfg_allowed_origins config) \<or>
        origin = rstr ''null'' \<and> header_is (hd_sec_fetch_site headers) ''same-origin'' \<and>
        header_is (hd_sec_fetch_mode headers) ''same-origin'' \<and> header_is (hd_sec_fetch_dest headers) ''empty'' \<and>
        (\<exists>host. hd_host headers = Some host \<and> allows_authority config host)))"

lemma require_origin_result:
  "require_origin config headers = (if trusted_origin config headers then Inr () else Inl origin_forbidden)"
  by (auto simp: require_origin_def trusted_origin_def ok_or_def allows_origin_def allows_null_same_origin_def
      split: option.splits)

lemma untrusted_mutation:
  assumes "\<not> trusted_origin config headers"
  shows "require_mutation_headers config headers = Inl origin_forbidden"
    and "mutation_body config headers body validate from_slice = Inl origin_forbidden"
  using assms by (simp_all add: require_mutation_headers_def mutation_body_def require_origin_result)

lemma op_bind_refused: "op_bind (op_result (Inl e)) f st = (st, Inl e)"
  by (simp add: op_bind_def op_result_def)

text \<open>C26. A request from an origin the server does not trust changes nothing: every mutation and the
  upgrade to a websocket answer 403 and leave database, rate limiter, hub, clock and random source
  untouched. Requests from trusted origins pass this guard.\<close>

theorem mutations_need_trusted_origin:
  "(require_origin config headers = Inr () \<longleftrightarrow> trusted_origin config headers) \<and>
   (\<not> trusted_origin config headers \<longrightarrow>
     http_create_session env config parse1 jar ip headers body st = (st, Inl origin_forbidden) \<and>
     http_create_room env config parse2 jar headers body st = (st, Inl origin_forbidden) \<and>
     http_request_join env config parse3 jar code headers body st = (st, Inl origin_forbidden) \<and>
     http_create_invite env config parse4 jar code headers body st = (st, Inl origin_forbidden) \<and>
     http_decide_join env config parse5 jar code rid headers body st = (st, Inl origin_forbidden) \<and>
     http_leave_room env config parse6 jar code headers body st = (st, Inl origin_forbidden) \<and>
     socket_upgrade env config parse7 jar headers inputs st = (st, Inl origin_forbidden))"
  by (simp add: require_origin_result http_create_session_def http_create_room_def http_request_join_def
      http_create_invite_def http_decide_join_def http_leave_room_def socket_upgrade_def untrusted_mutation op_bind_refused)

theorem mutations_need_trusted_origin_witness:
  "socket_upgrade ex_app_env default_app_config (\<lambda>_. Inl []) [] (ex_headers\<lparr>hd_origin := Some (rstr ''http://evil.example'')\<rparr>)
     [] app_state_new = (app_state_new, Inl origin_forbidden)"
proof -
  have "\<not> trusted_origin default_app_config (ex_headers\<lparr>hd_origin := Some (rstr ''http://evil.example'')\<rparr>)"
    by (simp add: trusted_origin_def ex_headers_def default_app_config_def rstr_def header_is_def)
  with mutations_need_trusted_origin show ?thesis by blast
qed

section \<open>Signalling\<close>

lemma membership_snapshot_ex:
  "list_ex P (membership_snapshots r) \<longleftrightarrow>
     (\<exists>sid m. (sid, m) \<in> set (rm_memberships r) \<and> P \<lparr>ms_session_id = sid, ms_role = mem_role m, ms_state = mem_state m\<rparr>)"
  by (simp add: membership_snapshots_def list_ex_iff Bex_def)

lemma authorize_signal_Inr:
  "authorize_signal c code to_peer st = (st', Inr a) \<longleftrightarrow> st' = st \<and> hub_attachment (app_hub st) c = Inr a \<and>
     at_room_code a = code \<and> at_peer_id a \<noteq> to_peer \<and>
     (\<exists>r. find_room_by_code (app_db st) code = Inr (Some r) \<and>
        membership_state_of r (at_session_id a) = Some (Online (at_peer_id a)) \<and>
        (\<exists>sid m. (sid, m) \<in> set (rm_memberships r) \<and> mem_state m = Online to_peer))"
  by (auto simp: authorize_signal_def op_simps result_simps membership_snapshot_ex) blast+

text \<open>C27. A signal is relayed only inside a room: the sending connection is attached to the room named,
  the stored room has the sender online under the peer of that attachment and some member online
  under the peer addressed, who is not the sender itself. The database is only read.\<close>

theorem relayed_signal_is_authorized:
  assumes "relay_signal env config c s room_code to_peer_id negotiation_id signal st = (st', Inr action)"
  shows "\<exists>a r to_peer. peer_id_parse to_peer_id = Inr to_peer \<and> hub_attachment (app_hub st) c = Inr a \<and>
    room_code_parse room_code = Inr (at_room_code a) \<and> at_peer_id a \<noteq> to_peer \<and>
    find_room_by_code (app_db st) (at_room_code a) = Inr (Some r) \<and>
    membership_state_of r (at_session_id a) = Some (Online (at_peer_id a)) \<and>
    (\<exists>sid m. (sid, m) \<in> set (rm_memberships r) \<and> mem_state m = Online to_peer) \<and>
    app_db st' = app_db st \<and> action = SaContinue"
proof -
  obtain code to_peer a st1 where a: "room_code_parse room_code = Inr code" "peer_id_parse to_peer_id = Inr to_peer"
      "authorize_signal c code to_peer st = (st1, Inr a)" "app_db st' = app_db st1" "action = SaContinue"
    using assms
    by (auto simp: relay_signal_def op_simps result_simps event_id_def)
  then show ?thesis by (auto simp: authorize_signal_Inr)
qed

theorem relayed_signal_is_authorized_witness:
  "\<exists>a r. snd (relay_signal ex_app_env default_app_config ex_c1 (ex_session ex_s1) (rstr ''AAAAAA'') (rstr ''p3'') (rstr ''n'')
       (Offer (rstr ''sdp'')) ex_met_state) = Inr SaContinue \<and>
     hub_attachment ex_met_hub ex_c1 = Inr a \<and> find_room_by_code ex_met (at_room_code a) = Inr (Some r)"
proof -
  let ?relay = "relay_signal ex_app_env default_app_config ex_c1 (ex_session ex_s1) (rstr ''AAAAAA'') (rstr ''p3'') (rstr ''n'')
       (Offer (rstr ''sdp'')) ex_met_state"
  have ok: "snd ?relay = Inr SaContinue" by code_simp
  then have "?relay = (fst ?relay, Inr SaContinue)" by (metis prod.collapse)
  from relayed_signal_is_authorized [OF this] ok show ?thesis by (auto simp: ex_met_state_def)
qed

end
