(* ===== verification/Room_Services.thy ===== *)
theory Room_Services
  imports Service_Properties
begin

text \<open>
  Creating rooms and inviting to them: a room that was created is found again by a retry of the
  same request, and the capability of an invitation admits to the room it was made for.
\<close>

section \<open>The room of a creation request\<close>

lemma persist_members_rooms: "persist_members R now ms db = Inr db' \<Longrightarrow> db_rooms db' = db_rooms db"
proof (induction ms arbitrary: db)
  case (Cons m ms)
  then show ?case
    by (fastforce simp: sql_upsert_member_def Let_def result_simps split: prod.splits option.splits if_splits)
qed simp

lemma persist_requests_rooms: "persist_requests R now qs db = Inr db' \<Longrightarrow> db_rooms db' = db_rooms db"
proof (induction qs arbitrary: db)
  case (Cons q qs)
  then show ?case
    by (fastforce simp: sql_upsert_request_def Let_def result_simps split: option.splits if_splits)
qed simp

lemma inserted_room_row:
  assumes "db_ok db" "insert_room db r rid now = (db', Inr ())"
  shows "\<exists>row. db_rooms db' = bt_insert (room_id_str (rm_id r)) row (db_rooms db) \<and>
    rw_code row = room_code_str (rm_code r) \<and> rw_owner_session_id row = session_id_str (rm_owner r) \<and>
    rw_create_request_id row = request_id_str rid \<and>
    (\<forall>k row'. map_of (db_rooms db) k = Some row' \<longrightarrow>
       \<not> (rw_owner_session_id row' = session_id_str (rm_owner r) \<and> rw_create_request_id row' = request_id_str rid))"
proof -
  have "\<exists>row db1. rw_id row = room_id_str (rm_id r) \<and> rw_code row = room_code_str (rm_code r) \<and>
      rw_owner_session_id row = session_id_str (rm_owner r) \<and> rw_create_request_id row = request_id_str rid \<and>
      sql_insert_room row db = Inr db1 \<and> persist_room_children r now db1 = Inr db'"
    using assms(2)
    by (simp add: insert_room_def end_transaction_def result_simps split: sum.splits)
      (elim exE conjE, intro exI conjI; (assumption | auto))
  then obtain row db1 where row: "rw_id row = room_id_str (rm_id r)" "rw_code row = room_code_str (rm_code r)"
      "rw_owner_session_id row = session_id_str (rm_owner r)" "rw_create_request_id row = request_id_str rid"
    and ins: "sql_insert_room row db = Inr db1" and ch: "persist_room_children r now db1 = Inr db'"
    by blast
  have "db_rooms db' = db_rooms db1"
    using ch by (auto simp: persist_room_children_def result_simps dest!: persist_members_rooms persist_requests_rooms)
  moreover have "db_rooms db1 = bt_insert (room_id_str (rm_id r)) row (db_rooms db)"
    "\<not> list_ex (\<lambda>(_, o'). rw_owner_session_id o' = rw_owner_session_id row \<and>
         rw_create_request_id o' = rw_create_request_id row) (db_rooms db)"
    using ins row(1) by (auto simp: sql_insert_room_def split: if_splits)
  ultimately show ?thesis using row by (auto simp: list_ex_iff dest!: map_of_SomeD intro!: exI [of _ row])
qed

lemma inserted_room_by_request:
  assumes "db_inv db" "room_create i code owner now expires = Inr (r, out)"
    and "room_id_ok i" "room_code_wf code" "session_id_ok owner" "insert_room db r rid now' = (db', Inr ())"
  shows "db_inv db'" "find_room_by_create_request db' owner rid = Inr (Some r)"
proof -
  note l = inserted_room_load [OF assms]
  show "db_inv db'" by (rule l(1))
  have ok: "db_ok db" "db_ok db'" using assms(1) l(1) by (simp_all add: db_inv_def)
  obtain row where row: "db_rooms db' = bt_insert (room_id_str (rm_id r)) row (db_rooms db)"
      "rw_code row = room_code_str (rm_code r)" "rw_owner_session_id row = session_id_str (rm_owner r)"
      "rw_create_request_id row = request_id_str rid"
      "\<forall>k row'. map_of (db_rooms db) k = Some row' \<longrightarrow>
         \<not> (rw_owner_session_id row' = session_id_str (rm_owner r) \<and> rw_create_request_id row' = request_id_str rid)"
    using inserted_room_row [OF ok(1) assms(6)] by blast
  have owner: "rm_owner r = owner" using assms(2) by (auto simp: room_create_def split: if_splits)
  have "find (\<lambda>(_, x). rw_owner_session_id x = session_id_str owner \<and> rw_create_request_id x = request_id_str rid)
      (db_rooms db') = Some (room_id_str (rm_id r), row)"
    using row owner db_ok_wf(1) [OF ok(1)] bt_wf_distinct [OF db_ok_wf(1) [OF ok(2)]]
    by (intro find_unique) (auto simp: map_of_bt_insert split: if_splits)
  then show "find_room_by_create_request db' owner rid = Inr (Some r)"
    using l(2,5) assms(4) by (simp add: find_room_by_create_request_def find_room_by_code_def row(2) room_code_wf_parse)
qed

lemma random_room_code_Inr:
  "random_room_code env st = (st', Inr code) \<Longrightarrow> room_code_wf code \<and> app_db st' = app_db st"
  by (auto simp: random_room_code_def op_simps result_simps Let_def intro: room_code_parse_wf)

lemma insert_room_failed: "insert_room db r rid now = (db', Inl e) \<Longrightarrow> db' = db"
  by (auto simp: insert_room_def end_transaction_def split: sum.splits)

lemma create_room_attempts_found:
  assumes "db_inv (app_db st)" "session_id_ok owner"
    and "create_room_attempts env config owner rid now n st = (st', Inr resp)"
  shows "\<exists>r. find_room_by_create_request (app_db st') owner rid = Inr (Some r) \<and> resp = svc_create_room_response r \<and>
    db_inv (app_db st')"
  using assms
proof (induction n arbitrary: st)
  case (Suc n)
  have ih: "create_room_attempts env config owner rid now n (st1\<lparr>app_db := app_db st\<rparr>) = (st', Inr resp) \<Longrightarrow> ?case" for st1
    using Suc.IH [of "st1\<lparr>app_db := app_db st\<rparr>"] Suc.prems(1,2) by simp
  have ins: "\<exists>r. find_room_by_create_request db owner rid = Inr (Some r) \<and> svc_create_room_response a = svc_create_room_response r \<and>
      db_inv db"
    if "validate_id v ''room id'' = Inr ()" "insert_room (app_db st) a rid now = (db, Inr ())"
      "room_create (RoomId v) code owner now expires = Inr (a, out)" "room_code_wf code" for v a db code expires out
    using inserted_room_by_request [OF Suc.prems(1) that(3) _ that(4) Suc.prems(2) that(2)] that(1)
    by (auto simp: room_id_ok_def room_id_parse_def)
  show ?case
    using Suc.prems(1,3)
    by (auto simp: op_bind_Inr op_basic_Inr draw_uuid_Inr result_simps op_match_def on_db_def op_map_err_Inr
        split: prod.splits sum.splits if_splits option.splits dest!: random_room_code_Inr insert_room_failed
        intro: ih ins)
qed (simp add: op_basic_Inr)

lemma found_by_request:
  assumes "db_inv db" "find_room_by_create_request db owner rid = Inr (Some r)"
  shows "find_room_by_code db (rm_code r) = Inr (Some r)"
proof -
  obtain code where "find_room_by_code db code = Inr (Some r)"
    using assms(2) by (auto simp: find_room_by_create_request_def result_simps split: option.splits)
  then show ?thesis using load_room_iff [OF assms(1)] by (simp add: find_room_by_code_def)
qed

lemma svc_create_room_Inr:
  "svc_create_room env config owner q st = (st', Inr resp) \<longleftrightarrow>
     (\<exists>now st1 rid found. svc_now env st = (st1, Inr now) \<and> sess_state owner = SessionActive \<and> now < sess_expires_at owner \<and>
        request_id_parse q = Inr rid \<and> find_room_by_create_request (app_db st1) (sess_id owner) rid = Inr found \<and>
        (case found of
           Some existing \<Rightarrow> st' = st1 \<and> resp = svc_create_room_response existing
         | None \<Rightarrow> create_room_attempts env config (sess_id owner) rid now ROOM_CODE_ATTEMPTS st1 = (st', Inr resp)))"
  by (auto simp: svc_create_room_def op_bind_Inr op_basic_Inr op_map_err_Inr result_simps session_ensure_active_Inr
      split: option.splits; blast)

text \<open>Creating a room can be retried: when a request to create a room was answered, the answer
  describes a room that is found under its code, and repeating the request, at any later time while
  the session is active, gives the same answer and changes nothing but the clock reading.\<close>

theorem created_room_can_be_retried:
  assumes "db_inv (app_db st)" "session_id_ok (sess_id owner)" "svc_create_room env config owner q st = (st1, Inr resp)"
    and "app_db st2 = app_db st1" "0 \<le> env_clock env (app_clock_reads st2)"
    and "env_clock env (app_clock_reads st2) < uint (sess_expires_at owner)"
  shows "(\<exists>r. find_room_by_code (app_db st1) (rm_code r) = Inr (Some r) \<and> resp = svc_create_room_response r) \<and>
    svc_create_room env config owner q st2 = (st2\<lparr>app_clock_reads := Suc (app_clock_reads st2)\<rparr>, Inr resp)"
proof -
  obtain now sta rid found where c: "svc_now env st = (sta, Inr now)" "sess_state owner = SessionActive"
      "request_id_parse q = Inr rid" "find_room_by_create_request (app_db sta) (sess_id owner) rid = Inr found"
    and k: "case found of
           Some existing \<Rightarrow> st1 = sta \<and> resp = svc_create_room_response existing
         | None \<Rightarrow> create_room_attempts env config (sess_id owner) rid now ROOM_CODE_ATTEMPTS sta = (st1, Inr resp)"
    using assms(3) by (auto simp: svc_create_room_Inr)
  have sta: "db_inv (app_db sta)" using c(1) assms(1) by (auto simp: svc_now_Inr)
  have "\<exists>r. find_room_by_create_request (app_db st1) (sess_id owner) rid = Inr (Some r) \<and> resp = svc_create_room_response r \<and>
      db_inv (app_db st1)"
    using k c(4) sta create_room_attempts_found [OF sta assms(2)] by (cases found) auto
  then obtain r where r: "find_room_by_create_request (app_db st1) (sess_id owner) rid = Inr (Some r)"
      "resp = svc_create_room_response r" "db_inv (app_db st1)" by blast
  have "svc_create_room env config owner q st2 = (st2\<lparr>app_clock_reads := Suc (app_clock_reads st2)\<rparr>, Inr resp)"
    using assms(4-6) r(1,2) c uint_lt2p [of "sess_expires_at owner"]
    by (auto simp: svc_create_room_Inr svc_now_Inr clock_bound)
  then show ?thesis using r found_by_request [OF r(3,1)] by blast
qed

theorem created_room_can_be_retried_witness:
  "\<exists>st1 resp. svc_create_room ex_app_env default_app_config (ex_session ex_s1) (rstr ''q'') (app_state_new\<lparr>app_db := ex_db0\<rparr>) = (st1, Inr resp) \<and>
     svc_create_room ex_app_env default_app_config (ex_session ex_s1) (rstr ''q'') st1 =
       (st1\<lparr>app_clock_reads := Suc (app_clock_reads st1)\<rparr>, Inr resp)"
proof -
  let ?st = "app_state_new\<lparr>app_db := ex_db0\<rparr>"
  have "case svc_create_room ex_app_env default_app_config (ex_session ex_s1) (rstr ''q'') ?st of
      (st1, Inr _) \<Rightarrow> app_clock_reads st1 = 1 | (_, Inl _) \<Rightarrow> False"
    by code_simp
  then obtain st1 resp where c: "svc_create_room ex_app_env default_app_config (ex_session ex_s1) (rstr ''q'') ?st = (st1, Inr resp)"
      "app_clock_reads st1 = 1"
    by (auto split: prod.splits sum.splits)
  have "db_inv (app_db ?st)" "session_id_ok (sess_id (ex_session ex_s1))"
    using ex_db0_inv ex_ids_ok by (simp_all add: ex_session_def)
  from created_room_can_be_retried [OF this c(1) refl] c show ?thesis by (simp add: ex_app_env_def ex_session_def)
qed

section \<open>Invitations\<close>

text \<open>Every stored invitation carries the hash of the capability that the secret gives for its room and
  request, and is not consumed.\<close>

definition invites_match :: "'ch app_env \<Rightarrow> u8 list \<Rightarrow> database \<Rightarrow> bool" where
  "invites_match env secret db \<longleftrightarrow>
     (\<forall>(k, row) \<in> set (db_invites db). iw_consumed_at_ms row = None \<and> iw_expires_at_ms row < 2 ^ 63 \<and>
        (\<forall>room rid. iw_room_id row = room_id_str room \<and> iw_request_id row = request_id_str rid \<longrightarrow>
           (\<exists>capability. derive_capability env secret room rid = Inr capability \<and>
              iw_capability_hash row = capability_hash env capability)))"

lemma op_bind_cong:
  "(\<And>st' x. m st = (st', Inr x) \<Longrightarrow> f x st' = g x st') \<Longrightarrow> op_bind m f st = op_bind m g st"
  by (auto simp: op_bind_def split: prod.splits sum.splits)

lemma find_room_invites [simp]: "find_room_by_code (db\<lparr>db_invites := invites\<rparr>) code = find_room_by_code db code"
  by (auto simp: find_room_by_code_def load_room_on_def split: option.splits)

lemma svc_active_room_Inr:
  "svc_active_room env s code st = (st', Inr (now, r)) \<longleftrightarrow>
     svc_now env st = (st', Inr now) \<and> sess_state s = SessionActive \<and> now < sess_expires_at s \<and>
     find_room_by_code (app_db st') code = Inr (Some r)"
  by (auto simp: svc_active_room_def op_simps result_simps)

lemma set_bt_insert_fresh: "map_of m k = None \<Longrightarrow> set (bt_insert k v m) = insert (k, v) (set m)"
  by (induction k v m rule: bt_insert.induct) (auto split: if_splits)

lemma insert_invite_Inr:
  assumes "insert_invite_capability db i room rid hash now expires = (db', Inr ())"
  obtains row where "db' = db\<lparr>db_invites := bt_insert i row (db_invites db)\<rparr>" "map_of (db_invites db) i = None"
    "iw_room_id row = room_id_str room" "iw_request_id row = request_id_str rid" "iw_capability_hash row = hash"
    "iw_expires_at_ms row = uint expires" "iw_expires_at_ms row < 2 ^ 63" "iw_consumed_at_ms row = None"
proof -
  let ?row = "\<lparr>iw_id = i, iw_room_id = room_id_str room, iw_request_id = request_id_str rid, iw_capability_hash = hash,
     iw_created_at_ms = uint now, iw_expires_at_ms = uint expires, iw_consumed_at_ms = None\<rparr>"
  have "db' = db\<lparr>db_invites := bt_insert i ?row (db_invites db)\<rparr>" "map_of (db_invites db) i = None" "uint expires < 2 ^ 63"
    using assms
    by (auto simp: insert_invite_capability_def end_transaction_def sql_insert_invite_def result_simps sql_integer_def
        split: sum.splits if_splits)
  then show ?thesis using that [of ?row] by simp
qed

lemma stored_invite_valid:
  assumes "invites_match env secret db" "(k, row) \<in> set (db_invites db)"
    and "iw_room_id row = room_id_str room" "iw_request_id row = request_id_str rid"
    and "derive_capability env secret room rid = Inr capability" "uint now < iw_expires_at_ms row"
  shows "validate_invite_capability db room (capability_hash env capability) now = Inr True"
proof -
  have "iw_consumed_at_ms row = None" "iw_expires_at_ms row < 2 ^ 63" "iw_capability_hash row = capability_hash env capability"
    using assms(1-5) by (force simp: invites_match_def)+
  then show ?thesis
    using assms(2,3,6)
    by (auto simp: validate_invite_capability_def sql_integer_def list_ex_iff intro!: bexI [of _ "(k, row)"])
qed

lemma find_invite_expiry_Some:
  assumes "find_invite_expiry db room rid = Inr (Some expires)"
  obtains k row where "(k, row) \<in> set (db_invites db)" "iw_room_id row = room_id_str room"
    "iw_request_id row = request_id_str rid" "uint expires \<le> iw_expires_at_ms row"
proof -
  obtain k row where f: "find (\<lambda>(_, r). iw_room_id r = room_id_str room \<and> iw_request_id r = request_id_str rid) (db_invites db) = Some (k, row)"
      "0 \<le> iw_expires_at_ms row" "expires = word_of_int (iw_expires_at_ms row)"
    using assms by (auto simp: find_invite_expiry_def result_simps unsigned_sql_integer_def split: option.splits if_splits)
  moreover have "uint expires \<le> iw_expires_at_ms row"
    using f(2,3) by (simp add: uint_word_of_int zmod_le_nonneg_dividend)
  ultimately show ?thesis using that [of k row] find_Some_iff [of _ "db_invites db"] by (metis (mono_tags, lifting) case_prod_conv nth_mem)
qed

lemma svc_create_invite_Inr:
  assumes "svc_create_invite env config owner code rid st = (st', Inr invite)"
  shows "\<exists>now st1 r capability. svc_now env st = (st1, Inr now) \<and> find_room_by_code (app_db st) code = Inr (Some r) \<and>
    rm_owner r = sess_id owner \<and> rm_state r = RoomActive \<and>
    derive_capability env (cfg_capability_secret config) (rm_id r) rid = Inr capability \<and> cir_capability invite = capability \<and>
    (app_db st' = app_db st \<and> find_invite_expiry (app_db st) (rm_id r) rid = Inr (Some (cir_expires_at_ms invite)) \<or>
     (\<exists>i. insert_invite_capability (app_db st) i (rm_id r) rid (capability_hash env capability) now (cir_expires_at_ms invite) =
        (app_db st', Inr ())))"
proof -
  have failed: "db' = db" if "insert_invite_capability db i room rid hash now expires = (db', Inl e)"
    for db i room rid hash now expires db' e
    using that by (auto simp: insert_invite_capability_def end_transaction_def split: sum.splits)
  obtain now st1 r where a: "svc_active_room env owner code st = (st1, Inr (now, r))"
    using assms by (auto simp: svc_create_invite_def op_bind_Inr)
  then have r: "svc_now env st = (st1, Inr now)" "find_room_by_code (app_db st) code = Inr (Some r)" "app_db st1 = app_db st"
    by (auto simp: svc_active_room_Inr svc_now_Inr)
  show ?thesis
    using assms r
    by (auto simp: svc_create_invite_def op_bind_def [of "svc_active_room env owner code"] a op_bind_def op_fail_def op_result_def
        op_map_err_def read_db_def op_return_def draw_uuid_def op_match_def on_db_def Let_def result_simps
        split: prod.splits sum.splits option.splits if_splits dest!: failed)
qed



end
