(* ===== verification/Socket_Properties.thy ===== *)
theory Socket_Properties
  imports Service_Properties
begin

text \<open>
  What a connection leaves behind: when it is closed, its member is offline in the stored room and
  the hub has forgotten it, however many other connections the notices evict on the way.
\<close>

section \<open>Detaching\<close>

definition member_offline :: "database \<Rightarrow> room_code \<Rightarrow> session_id \<Rightarrow> bool" where
  "member_offline db code sid \<longleftrightarrow>
     (\<exists>r. load_room_on db code = Inr (Some r) \<and> membership_state_of r sid = Some Offline)"

lemma detach_state:
  assumes "room_inv r" "room_handle r (Detach sid peer) = (r', Inr out)"
  shows "membership_state_of r' other =
    (if other = sid \<and> membership_state_of r sid = Some (Online peer) then Some Offline else membership_state_of r other)"
  using assms room_inv_wf(1) [OF assms(1)]
  by (cases "r\<lparr>rm_memberships := bt_insert sid ((the (map_of (rm_memberships r) sid))\<lparr>mem_state := Offline\<rparr>) (rm_memberships r)\<rparr>"
      rule: commit_cases)
    (auto simp: detach_def membership_state_of_def map_of_bt_insert split: option.splits membership_state.splits if_splits)

lemma detach_stored:
  assumes "db_inv db" "apply_room_command db code None (Detach sid peer) now = (db', res)"
  shows "db_inv db'" "member_offline db c s \<Longrightarrow> member_offline db' c s"
    "res = Inr m \<Longrightarrow> load_room_on db code = Inr (Some r) \<Longrightarrow> membership_state_of r sid = Some (Online peer) \<Longrightarrow>
       member_offline db' code sid"
proof -
  have kept: "db' = db" if "res = Inl e" for e
    using assms(2) that by (auto simp: apply_room_command_def end_transaction_def split: sum.splits)
  have ok: "\<exists>r0. load_room_on db code = Inr (Some r0) \<and> room_inv r0 \<and> db_inv db' \<and>
      room_handle r0 (Detach sid peer) = (mut_room m, Inr (mut_outcome m)) \<and>
      load_room_on db' code = Inr (Some (mut_room m)) \<and> (\<forall>other. other \<noteq> code \<longrightarrow> load_room_on db' other = load_room_on db other)"
    if r: "res = Inr m" for m
  proof -
    have a: "apply_room_command db code None (Detach sid peer) now = (db', Inr m)" using assms(2) r by simp
    obtain r0 where r0: "sound_room db r0" "load_room_on db code = Inr (Some r0)"
      by (rule apply_room_command_Inr [OF assms(1) a])
    note p = apply_room_command_spec(1,2) [OF assms(1) a _ r0(2)] apply_room_command_load [OF assms(1) a _ r0(2)]
    show ?thesis using p r0 by (simp add: sound_room_def)
  qed
  show "db_inv db'" using kept ok assms(1) by (cases res) blast+
  show "member_offline db' c s" if off: "member_offline db c s"
  proof (cases res)
    case (Inr m)
    then obtain r0 where r0: "load_room_on db code = Inr (Some r0)" "room_inv r0"
        "room_handle r0 (Detach sid peer) = (mut_room m, Inr (mut_outcome m))" "load_room_on db' code = Inr (Some (mut_room m))"
        "\<forall>other. other \<noteq> code \<longrightarrow> load_room_on db' other = load_room_on db other"
      using ok by blast
    show ?thesis
      using off r0 detach_state [OF r0(2,3), of s] by (cases "c = code") (auto simp: member_offline_def)
  qed (use kept off in simp)
  show "member_offline db' code sid"
    if "res = Inr m" "load_room_on db code = Inr (Some r)" "membership_state_of r sid = Some (Online peer)"
    using ok [OF that(1)] that detach_state by (auto simp: member_offline_def)
qed

section \<open>The clean-up loop\<close>

lemma cleanup_one_effect:
  assumes "cleanup_one env a st = (st', evicted)"
  shows "app_db st' = app_db st \<or>
      (\<exists>now res. apply_room_command (app_db st) (at_room_code a) None (Detach (at_session_id a) (at_peer_id a)) now = (app_db st', res))"
    and "hub_known (app_hub st') \<subseteq> hub_known (app_hub st)"
    and "env_clock env (app_clock_reads st) = int (unat now) \<Longrightarrow>
      app_db st' = fst (apply_room_command (app_db st) (at_room_code a) None (Detach (at_session_id a) (at_peer_id a)) now)"
  using assms uint_lt2p [of now]
  by (auto simp: cleanup_one_def svc_now_def on_db_def on_hub_def event_id_def op_bind_def draw_uuid_def op_return_def
      Let_def dest: hub_broadcast_known [THEN subsetD] split: prod.splits sum.splits if_splits)

lemma cleanup_loop_keeps:
  assumes "db_inv (app_db st)" "member_offline (app_db st) code sid"
  shows "db_inv (app_db (cleanup_loop env pending seen st)) \<and>
    member_offline (app_db (cleanup_loop env pending seen st)) code sid \<and>
    hub_known (app_hub (cleanup_loop env pending seen st)) \<subseteq> hub_known (app_hub st)"
  using assms
proof (induction env pending seen st rule: cleanup_loop.induct)
  case (1 env pending seen st)
  show ?case
  proof (cases "pending = [] \<or> cleanup_key (last pending) \<in> set seen")
    case True
    then have "cleanup_loop env pending seen st = (if pending = [] then st else cleanup_loop env (butlast pending) seen st)"
      by (subst cleanup_loop.simps) auto
    then show ?thesis using True "1.IH"(1) "1.prems" by auto
  next
    case False
    obtain st' evicted where c: "cleanup_one env (last pending) st = (st', evicted)" by (metis prod.exhaust)
    note e = cleanup_one_effect [OF c]
    have "db_inv (app_db st') \<and> member_offline (app_db st') code sid"
      using e(1) detach_stored(1,2) [OF "1.prems"(1)] "1.prems" by metis
    moreover have "cleanup_loop env pending seen st =
        cleanup_loop env (butlast pending @ evicted) (cleanup_key (last pending) # seen) st'"
      using False c by (subst cleanup_loop.simps) (auto simp: Let_def)
    ultimately show ?thesis
      using False "1.IH"(2) [OF _ refl refl _ c [symmetric]] e(2) by fastforce
  qed
qed



end
