(* ===== verification/Browser_Wire.thy ===== *)
theory Browser_Wire
  imports Protocol_Data_Channel Binary_Frames Transfer_Plan
begin

text \<open>
  The wire level of the browser's transfer engine
  (\<open>rust/crates/browser-platform/src/rtc/wire.rs\<close>, \<open>rtc/manifest.rs\<close>): binary chunks and the
  position they must have, binary identifiers in hexadecimal, offers read from a manifest, the
  plan of a batch and its digest.

  The hash function BLAKE3 and the JSON serializer are arguments. A hasher is the list of bytes
  it was fed; finalizing it gives the hexadecimal digest of that list.
\<close>

section \<open>Files of a transfer\<close>

datatype transfer_direction = DirSend | DirReceive

record transfer_file =
  tf_name :: rstring
  tf_mime :: "rstring option"
  tf_size_bytes :: u64

section \<open>Chunks on the wire\<close>

datatype control_frame_encode_error = EncodeProtocol protocol_error | EncodeSerialize string

definition encode_control_frame ::
  "(control_message \<Rightarrow> string + rstring) \<Rightarrow> control_message \<Rightarrow> control_frame_encode_error + rstring" where
  "encode_control_frame to_string message =
     bind_result (map_err EncodeProtocol (control_message_validate message)) (\<lambda>_.
       map_err EncodeSerialize (to_string message))"

definition encode_binary_chunk :: "u8 list \<Rightarrow> u8 list \<Rightarrow> u64 \<Rightarrow> u32 \<Rightarrow> u8 list \<Rightarrow> u8 list" where
  "encode_binary_chunk transfer_id file_id offset payload_len payload =
     binary_header_encode \<lparr>bh_version = CURRENT_PROTOCOL, bh_transfer_id = transfer_id, bh_file_id = file_id,
       bh_offset = offset, bh_payload_len = payload_len\<rparr> @ payload"

definition decode_binary_chunk :: "u8 list \<Rightarrow> protocol_error + binary_chunk_header \<times> u8 list" where
  "decode_binary_chunk frame = decode_binary_frame frame"

record chunk_bounds =
  cb_transfer_id :: "u8 list"
  cb_file_id :: "u8 list"
  cb_offset :: u64
  cb_upper_bound :: u64

text \<open>Lengths of slices fit 32 bits on the web target, so the length is a natural number here.\<close>

definition next_offset :: "chunk_bounds \<Rightarrow> binary_chunk_header \<Rightarrow> nat \<Rightarrow> u64 option" where
  "next_offset b header payload_len =
     (if bh_transfer_id header \<noteq> cb_transfer_id b \<or> bh_file_id header \<noteq> cb_file_id b \<or>
         bh_offset header \<noteq> cb_offset b \<or> unat (bh_payload_len header) \<noteq> payload_len
      then None
      else Option.bind (if 2 ^ 64 \<le> payload_len then None else Some (of_nat payload_len)) (\<lambda>n.
           Option.bind (checked_add (cb_offset b) n) (\<lambda>next.
             if next \<le> cb_upper_bound b then Some next else None)))"

section \<open>Binary identifiers\<close>

definition nibble_char :: "u8 \<Rightarrow> rchar" where
  "nibble_char n = rstr ''0123456789abcdef'' ! unat n"

definition format_binary_id :: "string \<Rightarrow> u8 list \<Rightarrow> rstring" where
  "format_binary_id prefix bytes =
     rstr prefix @ rstr ''_'' @
     concat (map (\<lambda>byte. [nibble_char (drop_bit 4 byte), nibble_char (byte AND 0x0f)]) bytes)"

definition strip_prefix :: "rstring \<Rightarrow> rstring \<Rightarrow> rstring option" where
  "strip_prefix s p = (if starts_with s p then Some (drop (length p) s) else None)"

definition hex_value :: "rchar \<Rightarrow> u8" where
  "hex_value c = (if is_ascii_digit c then of_nat (c - 48) else of_nat (c - 87))"

fun from_hex_pairs :: "rstring \<Rightarrow> u8 list" where
  "from_hex_pairs (hi # lo # rest) = (hex_value hi * 16 + hex_value lo) # from_hex_pairs rest"
| "from_hex_pairs _ = []"

definition parse_binary_id :: "rstring \<Rightarrow> string \<Rightarrow> u8 list option" where
  "parse_binary_id v prefix =
     Option.bind (strip_prefix v (rstr prefix @ rstr ''_'')) (\<lambda>hex.
       if str_len hex \<noteq> 32 \<or> \<not> list_all (\<lambda>c. is_ascii_digit c \<or> 97 \<le> c \<and> c \<le> 102) hex then None
       else Some (from_hex_pairs hex))"

section \<open>Offers\<close>

record incoming_file =
  if_file_bytes :: "u8 list"
  if_file :: transfer_file

record incoming_offer =
  io_transfer_id :: rstring
  io_transfer_bytes :: "u8 list"
  io_mode :: transfer_mode
  io_files :: "incoming_file list"

datatype incoming_manifest_error = InvalidTransferId | InvalidFileId | BufferedBatchUnsupported

fun incoming_files :: "file_manifest list \<Rightarrow> incoming_manifest_error + incoming_file list" where
  "incoming_files [] = Inr []"
| "incoming_files (f # fs) =
     bind_result (ok_or InvalidFileId (parse_binary_id (fm_file_id f) ''file'')) (\<lambda>bytes.
     bind_result (incoming_files fs) (\<lambda>rest.
       Inr (\<lparr>if_file_bytes = bytes, if_file = \<lparr>tf_name = fm_name f, tf_mime = fm_mime f, tf_size_bytes = fm_size_bytes f\<rparr>\<rparr> # rest)))"

definition offer_from_manifest ::
  "rstring \<Rightarrow> transfer_mode \<Rightarrow> file_manifest list \<Rightarrow> incoming_manifest_error + incoming_offer" where
  "offer_from_manifest transfer_id mode files =
     bind_result (ok_or InvalidTransferId (parse_binary_id transfer_id ''transfer'')) (\<lambda>transfer_bytes.
     bind_result (incoming_files files) (\<lambda>files.
       if mode = Buffered \<and> length files \<noteq> 1 then Inl BufferedBatchUnsupported
       else Inr \<lparr>io_transfer_id = transfer_id, io_transfer_bytes = transfer_bytes, io_mode = mode, io_files = files\<rparr>))"

definition offer_transfer_files :: "incoming_offer \<Rightarrow> transfer_file list" where
  "offer_transfer_files offer = map if_file (io_files offer)"

definition offer_total_bytes :: "incoming_offer \<Rightarrow> u64" where
  "offer_total_bytes offer = sum_list (map (\<lambda>f. tf_size_bytes (if_file f)) (io_files offer))"

definition offer_matches :: "incoming_offer \<Rightarrow> incoming_offer \<Rightarrow> bool" where
  "offer_matches left right \<longleftrightarrow>
     io_transfer_id left = io_transfer_id right \<and> io_transfer_bytes left = io_transfer_bytes right \<and>
     io_mode left = io_mode right \<and> length (io_files left) = length (io_files right) \<and>
     list_all (\<lambda>(l, r). if_file_bytes l = if_file_bytes r \<and> if_file l = if_file r) (zip (io_files left) (io_files right))"

section \<open>Plans and digests of batches\<close>

record batch_plan =
  bp_total_bytes :: u64
  bp_mode :: transfer_mode

datatype batch_plan_error = BatchInvalidFileCount | BatchSizeOverflow | BatchTooLarge

fun batch_total :: "u64 \<Rightarrow> transfer_file list \<Rightarrow> batch_plan_error + u64" where
  "batch_total acc [] = Inr acc"
| "batch_total acc (f # fs) =
     bind_result (ok_or BatchSizeOverflow (checked_add acc (tf_size_bytes f))) (\<lambda>t. batch_total t fs)"

definition plan_transfer :: "transfer_file list \<Rightarrow> batch_plan_error + batch_plan" where
  "plan_transfer files =
     (if files = [] \<or> MAX_FILES_PER_MANIFEST < length files then Inl BatchInvalidFileCount
      else bind_result (batch_total 0 files) (\<lambda>total_bytes.
        if MAX_TRANSFER_BYTES < total_bytes then Inl BatchTooLarge
        else Inr \<lparr>bp_total_bytes = total_bytes,
               bp_mode = (if length files = 1 \<and> total_bytes \<le> MAX_BUFFERED_TRANSFER_BYTES then Buffered
                          else Streamed DEFAULT_STREAM_SEGMENT_BYTES)\<rparr>))"

fun decimal_nat :: "nat \<Rightarrow> rstring" where
  "decimal_nat n = (if n < 10 then [48 + n] else decimal_nat (n div 10) @ [48 + n mod 10])"

declare decimal_nat.simps [simp del]

definition summarize_transfer_files :: "transfer_file list \<Rightarrow> transfer_file" where
  "summarize_transfer_files files =
     (case files of
        [file] \<Rightarrow> file
      | _ \<Rightarrow> \<lparr>tf_name = decimal_nat (length files) @ [0x20, 0x4E2A, 0x6587, 0x4EF6], tf_mime = None,
             tf_size_bytes = sum_list (map tf_size_bytes files)\<rparr>)"

definition batch_blake3 :: "(u8 list \<Rightarrow> rstring) \<Rightarrow> file_digest list \<Rightarrow> rstring" where
  "batch_blake3 blake3 files =
     (case files of
        [file] \<Rightarrow> dg_blake3 file
      | _ \<Rightarrow> blake3 (concat (map (\<lambda>f. as_bytes (dg_file_id f) @ to_be_bytes 8 (dg_size_bytes f) @ as_bytes (dg_blake3 f)) files)))"

section \<open>Identifiers and their text\<close>

lemma unat_nibbles: "unat (drop_bit 4 b) = unat b div 16" "unat (b AND 0x0f) = unat b mod 16" for b :: u8
proof -
  show "unat (drop_bit 4 b) = unat b div 16" using unat_lt2p_word [of b]
    by (simp only: unsigned_drop_bit_eq) (simp add: drop_bit_eq_div take_bit_nat_eq_self)
  have "b AND 0x0f = take_bit 4 b" by (simp add: take_bit_eq_mask mask_eq_exp_minus_1)
  then show "unat (b AND 0x0f) = unat b mod 16"
    by (simp only: unsigned_take_bit_eq) (simp add: take_bit_eq_mod)
qed

definition hex_char :: "rchar \<Rightarrow> bool" where
  "hex_char c \<longleftrightarrow> is_ascii_digit c \<or> 97 \<le> c \<and> c \<le> 102"

lemma nibble_nat:
  assumes "n < 16"
  shows "rstr ''0123456789abcdef'' ! n = (if n < 10 then 48 + n else 87 + n)"
proof -
  have "\<forall>k \<in> set [0..<16]. rstr ''0123456789abcdef'' ! k = (if k < 10 then 48 + k else 87 + k)"
    by (simp add: rstr_def upt_rec)
  then show ?thesis using assms by simp
qed

lemma nibble_char: "unat n < 16 \<Longrightarrow> nibble_char n = (if unat n < 10 then 48 + unat n else 87 + unat n)"
  by (simp add: nibble_char_def nibble_nat)

lemma unat_hex_value: "hex_char c \<Longrightarrow> unat (hex_value c) = (if c \<le> 57 then c - 48 else c - 87) \<and> unat (hex_value c) < 16"
  by (auto simp: hex_char_def is_ascii_digit_def hex_value_def unsigned_of_nat take_bit_nat_eq_self simp del: of_nat_diff)

lemma pair_of_byte:
  "hex_char (nibble_char (drop_bit 4 b))" "hex_char (nibble_char (b AND 0x0f))"
  "hex_value (nibble_char (drop_bit 4 b)) * 16 + hex_value (nibble_char (b AND 0x0f)) = b"
proof -
  have lt: "unat (drop_bit 4 b) < 16" "unat (b AND 0x0f) < 16" using unat_lt2p_word [of b] by (simp_all add: unat_nibbles)
  note n = nibble_char [OF lt(1)] nibble_char [OF lt(2)]
  show h: "hex_char (nibble_char (drop_bit 4 b))" "hex_char (nibble_char (b AND 0x0f))"
    using lt by (auto simp: n hex_char_def is_ascii_digit_def)
  have "unat (hex_value (nibble_char (drop_bit 4 b))) = unat b div 16" "unat (hex_value (nibble_char (b AND 0x0f))) = unat b mod 16"
    using unat_hex_value [OF h(1)] unat_hex_value [OF h(2)] lt by (auto simp: n unat_nibbles split: if_splits)
  then show "hex_value (nibble_char (drop_bit 4 b)) * 16 + hex_value (nibble_char (b AND 0x0f)) = b"
    using unat_lt2p_word [of b] by (intro unsigned_word_eqI [where 'a = nat]) (simp add: unat_word_ariths)
qed

lemma byte_of_pair:
  assumes "hex_char hi" "hex_char lo"
  shows "nibble_char (drop_bit 4 (hex_value hi * 16 + hex_value lo)) = hi"
    "nibble_char ((hex_value hi * 16 + hex_value lo) AND 0x0f) = lo"
proof -
  note v = unat_hex_value [OF assms(1)] unat_hex_value [OF assms(2)]
  have u: "unat (hex_value hi * 16 + hex_value lo) = unat (hex_value hi) * 16 + unat (hex_value lo)"
    using v by (simp add: unat_word_ariths)
  show "nibble_char (drop_bit 4 (hex_value hi * 16 + hex_value lo)) = hi"
    using v assms(1) by (auto simp: nibble_char unat_nibbles u hex_char_def is_ascii_digit_def split: if_splits)
  show "nibble_char ((hex_value hi * 16 + hex_value lo) AND 0x0f) = lo"
    using v assms(2) by (auto simp: nibble_char unat_nibbles u hex_char_def is_ascii_digit_def split: if_splits)
qed

definition to_hex_pairs :: "u8 list \<Rightarrow> rstring" where
  "to_hex_pairs bytes = concat (map (\<lambda>byte. [nibble_char (drop_bit 4 byte), nibble_char (byte AND 0x0f)]) bytes)"

lemma hex_pairs_bytes:
  "from_hex_pairs (to_hex_pairs bytes) = bytes" "list_all hex_char (to_hex_pairs bytes)"
  "length (to_hex_pairs bytes) = 2 * length bytes"
  by (induction bytes) (simp_all add: to_hex_pairs_def pair_of_byte)

lemma bytes_hex_pairs:
  "even (length hex) \<Longrightarrow> list_all hex_char hex \<Longrightarrow>
   to_hex_pairs (from_hex_pairs hex) = hex \<and> 2 * length (from_hex_pairs hex) = length hex"
  by (induction hex rule: from_hex_pairs.induct) (simp_all add: to_hex_pairs_def byte_of_pair)

lemma str_len_hex: "list_all hex_char hex \<Longrightarrow> str_len hex = length hex"
  by (induction hex) (auto simp: str_len_def utf8_len_def hex_char_def is_ascii_digit_def)

lemma starts_with_iff: "starts_with s p \<longleftrightarrow> (\<exists>rest. s = p @ rest)"
  by (induction s p rule: starts_with.induct) auto

lemma strip_prefix_Some: "strip_prefix s p = Some rest \<longleftrightarrow> s = p @ rest"
  by (auto simp: strip_prefix_def starts_with_iff)

text \<open>Binary identifiers and their text are two views of the same 16 bytes: a text parses under a
  prefix exactly when it is the formatted text of some 16 bytes under that prefix, and parsing
  gives these bytes back. In particular no other spelling, such as upper-case digits, is accepted.\<close>

theorem binary_id_round_trip:
  "parse_binary_id v prefix = Some bytes \<longleftrightarrow> length bytes = 16 \<and> v = format_binary_id prefix bytes"
proof -
  have f: "format_binary_id prefix bytes = rstr prefix @ rstr ''_'' @ to_hex_pairs bytes"
    by (simp add: format_binary_id_def to_hex_pairs_def)
  have p: "parse_binary_id v prefix = Some bytes \<longleftrightarrow>
      (\<exists>hex. v = (rstr prefix @ rstr ''_'') @ hex \<and> str_len hex = 32 \<and> list_all hex_char hex \<and> from_hex_pairs hex = bytes)"
    by (auto simp: parse_binary_id_def hex_char_def [abs_def] bind_eq_Some_conv strip_prefix_Some split: if_splits)
  show ?thesis
  proof
    assume "parse_binary_id v prefix = Some bytes"
    then obtain hex where h: "v = (rstr prefix @ rstr ''_'') @ hex" "str_len hex = 32" "list_all hex_char hex" "from_hex_pairs hex = bytes"
      using p by blast
    moreover have "length hex = 32" using h(2,3) by (simp add: str_len_hex)
    ultimately show "length bytes = 16 \<and> v = format_binary_id prefix bytes"
      using bytes_hex_pairs [of hex] by (auto simp: f)
  next
    assume "length bytes = 16 \<and> v = format_binary_id prefix bytes"
    then show "parse_binary_id v prefix = Some bytes"
      using hex_pairs_bytes [of bytes] str_len_hex [of "to_hex_pairs bytes"] unfolding p f by simp
  qed
qed

end
