(* ===== verification/Browser_Checkpoint.thy ===== *)
theory Browser_Checkpoint
  imports Browser_Wire
begin

text \<open>
  The durable checkpoints of a streamed batch
  (\<open>rust/crates/browser-platform/src/rtc/checkpoint.rs\<close>, \<open>rtc/finalization.rs\<close>): which checkpoints
  are valid, how the cursors of a manifest and of a live resume are matched with them, and what
  follows the completion signal of a transfer.
\<close>

section \<open>Checkpoints\<close>

record manifest_file =
  mf_file_id :: rstring
  mf_size_bytes :: u64

record checkpoint =
  cp_file_id :: rstring
  cp_size_bytes :: u64
  cp_committed_bytes :: u64
  cp_last_segment_blake3 :: "rstring option"

record pending_checkpoint =
  pc_file_index :: nat
  pc_committed_bytes :: u64
  pc_blake3 :: rstring

record resolved_checkpoint =
  rv_committed_bytes :: u64
  rv_last_segment_blake3 :: "rstring option"

datatype resume_disposition = KeepCurrent | PromotePending (promoted_index: nat)

datatype checkpoint_error =
  ZeroSegmentBytes | FileCountMismatch | FileOrderMismatch | InvalidCheckpoint | StateMismatch

definition valid_blake3 :: "rstring \<Rightarrow> bool" where
  "valid_blake3 v \<longleftrightarrow> str_len v = 64 \<and> list_all is_ascii_hexdigit v"

definition checkpoint_aligned :: "u32 \<Rightarrow> checkpoint \<Rightarrow> bool" where
  "checkpoint_aligned segment_bytes f \<longleftrightarrow>
     cp_committed_bytes f \<le> cp_size_bytes f \<and>
     (cp_committed_bytes f = cp_size_bytes f \<or> cp_committed_bytes f mod ucast segment_bytes = 0)"

definition checkpoint_verified :: "checkpoint \<Rightarrow> bool" where
  "checkpoint_verified f \<longleftrightarrow>
     cp_committed_bytes f = 0 \<and> cp_last_segment_blake3 f = None \<or>
     0 < cp_committed_bytes f \<and> (case cp_last_segment_blake3 f of None \<Rightarrow> False | Some b \<Rightarrow> valid_blake3 b)"

fun checkpoint_prefix_loop :: "u32 \<Rightarrow> bool \<Rightarrow> checkpoint list \<Rightarrow> checkpoint_error + unit" where
  "checkpoint_prefix_loop segment_bytes incomplete_seen [] = Inr ()"
| "checkpoint_prefix_loop segment_bytes incomplete_seen (f # fs) =
     (if \<not> checkpoint_aligned segment_bytes f \<or> \<not> checkpoint_verified f \<or> incomplete_seen \<and> 0 < cp_committed_bytes f
      then Inl InvalidCheckpoint
      else checkpoint_prefix_loop segment_bytes (incomplete_seen \<or> cp_committed_bytes f < cp_size_bytes f) fs)"

definition validate_checkpoint_prefix :: "u32 \<Rightarrow> checkpoint list \<Rightarrow> checkpoint_error + unit" where
  "validate_checkpoint_prefix segment_bytes files =
     (if segment_bytes = 0 then Inl ZeroSegmentBytes else checkpoint_prefix_loop segment_bytes False files)"

section \<open>Resuming from the cursors of a manifest\<close>

fun resolve_manifest_loop ::
  "resume_cursor option list \<Rightarrow> manifest_file list \<Rightarrow> checkpoint_error + resolved_checkpoint list" where
  "resolve_manifest_loop (cursor # cursors) (f # fs) =
     (if (case cursor of None \<Rightarrow> False | Some c \<Rightarrow> rc_file_id c \<noteq> mf_file_id f) then Inl FileOrderMismatch
      else bind_result (resolve_manifest_loop cursors fs) (\<lambda>rest.
        Inr (\<lparr>rv_committed_bytes = case_option 0 rc_committed_bytes cursor,
              rv_last_segment_blake3 = Option.bind cursor rc_last_segment_blake3\<rparr> # rest)))"
| "resolve_manifest_loop _ _ = Inr []"

definition resolve_manifest_resume ::
  "u32 \<Rightarrow> manifest_file list \<Rightarrow> resume_cursor list \<Rightarrow> checkpoint_error + resolved_checkpoint list" where
  "resolve_manifest_resume segment_bytes files resume =
     (if resume \<noteq> [] \<and> length resume \<noteq> length files then Inl FileCountMismatch
      else bind_result
             (resolve_manifest_loop
                (map (\<lambda>index. if index < length resume then Some (resume ! index) else None) [0..<length files]) files)
             (\<lambda>resolved.
               bind_result (validate_checkpoint_prefix segment_bytes
                 (map (\<lambda>(f, r). \<lparr>cp_file_id = mf_file_id f, cp_size_bytes = mf_size_bytes f,
                    cp_committed_bytes = rv_committed_bytes r, cp_last_segment_blake3 = rv_last_segment_blake3 r\<rparr>)
                    (zip files resolved)))
                 (\<lambda>_. Inr resolved)))"

section \<open>Resuming a live transfer\<close>

fun resolve_live :: "resume_cursor list \<Rightarrow> checkpoint list \<Rightarrow> checkpoint_error + resolved_checkpoint list" where
  "resolve_live resume [] = Inr []"
| "resolve_live resume (f # fs) =
     bind_result
       (if resume = [] then Inr None
        else bind_result (ok_or StateMismatch (find (\<lambda>c. rc_file_id c = cp_file_id f) resume)) (\<lambda>c. Inr (Some c)))
       (\<lambda>cursor. bind_result (resolve_live resume fs) (\<lambda>rest.
         Inr (\<lparr>rv_committed_bytes = case_option 0 rc_committed_bytes cursor,
               rv_last_segment_blake3 = Option.bind cursor rc_last_segment_blake3\<rparr> # rest)))"

definition received_checkpoint :: "checkpoint \<times> resolved_checkpoint \<Rightarrow> checkpoint" where
  "received_checkpoint =
     (\<lambda>(f, r). f\<lparr>cp_committed_bytes := rv_committed_bytes r, cp_last_segment_blake3 := rv_last_segment_blake3 r\<rparr>)"

definition current_matches :: "checkpoint \<Rightarrow> resolved_checkpoint \<Rightarrow> bool" where
  "current_matches f r \<longleftrightarrow>
     rv_committed_bytes r = cp_committed_bytes f \<and>
     (if rv_committed_bytes r = 0 then rv_last_segment_blake3 r = None
      else rv_last_segment_blake3 r = cp_last_segment_blake3 f)"

definition pending_matches :: "pending_checkpoint option \<Rightarrow> nat \<Rightarrow> resolved_checkpoint \<Rightarrow> bool" where
  "pending_matches pending file_index r \<longleftrightarrow>
     (case pending of None \<Rightarrow> False
      | Some p \<Rightarrow> pc_file_index p = file_index \<and> pc_committed_bytes p = rv_committed_bytes r \<and>
          Some (pc_blake3 p) = rv_last_segment_blake3 r)"

fun match_live_loop ::
  "pending_checkpoint option \<Rightarrow> nat \<Rightarrow> nat option \<Rightarrow> (checkpoint \<times> resolved_checkpoint) list \<Rightarrow> checkpoint_error + nat option" where
  "match_live_loop pending file_index promotion [] = Inr promotion"
| "match_live_loop pending file_index promotion ((f, r) # rest) =
     (if \<not> current_matches f r \<and> \<not> pending_matches pending file_index r then Inl StateMismatch
      else if pending_matches pending file_index r \<and> rv_committed_bytes r \<noteq> cp_committed_bytes f
      then if promotion \<noteq> None then Inl StateMismatch
           else match_live_loop pending (file_index + 1) (Some file_index) rest
      else match_live_loop pending (file_index + 1) promotion rest)"

definition match_live_resume ::
  "u32 \<Rightarrow> checkpoint list \<Rightarrow> pending_checkpoint option \<Rightarrow> resume_cursor list \<Rightarrow> checkpoint_error + resume_disposition" where
  "match_live_resume segment_bytes current pending resume =
     (if resume \<noteq> [] \<and> length resume \<noteq> length current then Inl FileCountMismatch
      else bind_result (resolve_live resume current) (\<lambda>resolved.
           bind_result (validate_checkpoint_prefix segment_bytes (map received_checkpoint (zip current resolved))) (\<lambda>_.
           bind_result (match_live_loop pending 0 None (zip current resolved)) (\<lambda>promotion.
             Inr (case promotion of None \<Rightarrow> KeepCurrent | Some file_index \<Rightarrow> PromotePending file_index)))))"

section \<open>Finalization\<close>

datatype completion_signal_outcome = Enqueued | ReconnectableFailure | FatalFailure

datatype completion_action =
  AttemptRecoveryCleanupAndComplete | PreserveRecoveryAndReconnect | PreserveRecoveryAndFail

fun completion_action_of :: "completion_signal_outcome \<Rightarrow> completion_action" where
  "completion_action_of Enqueued = AttemptRecoveryCleanupAndComplete"
| "completion_action_of ReconnectableFailure = PreserveRecoveryAndReconnect"
| "completion_action_of FatalFailure = PreserveRecoveryAndFail"

definition recovery_cleanup_retry_delay_ms :: "u8 \<Rightarrow> u32 option" where
  "recovery_cleanup_retry_delay_ms failed_attempts =
     (if failed_attempts = 1 then Some 50 else if failed_attempts = 2 then Some 150 else None)"

section \<open>Accepted checkpoints are a prefix of the batch\<close>

lemma checkpoint_prefix_loop_ok:
  "checkpoint_prefix_loop s seen fs = Inr () \<longleftrightarrow>
     (\<forall>f\<in>set fs. checkpoint_aligned s f \<and> checkpoint_verified f \<and> (seen \<longrightarrow> cp_committed_bytes f = 0)) \<and>
     (\<forall>i j. i < j \<and> j < length fs \<and> cp_committed_bytes (fs ! i) < cp_size_bytes (fs ! i) \<longrightarrow> cp_committed_bytes (fs ! j) = 0)"
proof (induction fs arbitrary: seen)
  case (Cons f fs)
  let ?P = "\<lambda>gs. \<forall>i j. i < j \<and> j < length gs \<and> cp_committed_bytes (gs ! i) < cp_size_bytes (gs ! i) \<longrightarrow> cp_committed_bytes (gs ! j) = 0"
  have "?P (f # fs) \<longleftrightarrow> ?P fs \<and> (cp_committed_bytes f < cp_size_bytes f \<longrightarrow> (\<forall>g\<in>set fs. cp_committed_bytes g = 0))"
    (is "_ \<longleftrightarrow> _ \<and> ?Q")
  proof (intro iffI conjI impI allI ballI; (elim conjE)?)
    fix i j assume a: "?P (f # fs)" and "i < j" "j < length fs" "cp_committed_bytes (fs ! i) < cp_size_bytes (fs ! i)"
    then show "cp_committed_bytes (fs ! j) = 0" using a [THEN spec, of "Suc i", THEN spec, of "Suc j"] by simp
  next
    fix g assume a: "?P (f # fs)" and "cp_committed_bytes f < cp_size_bytes f" "g \<in> set fs"
    then show "cp_committed_bytes g = 0" using a [THEN spec, of 0] by (auto simp: in_set_conv_nth)
  next
    fix i j assume "?P fs" "?Q" "i < j" "j < length (f # fs)" "cp_committed_bytes ((f # fs) ! i) < cp_size_bytes ((f # fs) ! i)"
    then show "cp_committed_bytes ((f # fs) ! j) = 0"
      by (cases i; cases j) (auto dest: spec)
  qed
  then show ?case by (auto simp: Cons.IH word_gt_0)
qed simp

lemma validate_checkpoint_prefix_ok:
  "validate_checkpoint_prefix s fs = Inr () \<longleftrightarrow>
     s \<noteq> 0 \<and> (\<forall>f\<in>set fs. checkpoint_aligned s f \<and> checkpoint_verified f) \<and>
     (\<forall>i j. i < j \<and> j < length fs \<and> cp_committed_bytes (fs ! i) < cp_size_bytes (fs ! i) \<longrightarrow> cp_committed_bytes (fs ! j) = 0)"
  by (simp add: validate_checkpoint_prefix_def checkpoint_prefix_loop_ok)

lemma nothing_committed:
  assumes "checkpoint_prefix_loop s True fs = Inr ()"
  shows "concat (map2 (\<lambda>f content. take (unat (cp_committed_bytes f)) content) fs contents) = []"
    "sum_list (map (\<lambda>f. unat (cp_committed_bytes f)) fs) = 0"
  using assms by (auto simp: checkpoint_prefix_loop_ok dest: set_zip_leftD)

lemma prefix_of_batch:
  assumes "list_all2 (\<lambda>f content. length content = unat (cp_size_bytes f)) fs contents"
    and "checkpoint_prefix_loop s False fs = Inr ()"
  shows "concat (map2 (\<lambda>f content. take (unat (cp_committed_bytes f)) content) fs contents) =
    take (sum_list (map (\<lambda>f. unat (cp_committed_bytes f)) fs)) (concat contents)"
  using assms
proof (induction rule: list_all2_induct)
  case (Cons f fs c cs)
  show ?case
  proof (cases "cp_committed_bytes f < cp_size_bytes f")
    case True
    then have "checkpoint_prefix_loop s True fs = Inr ()" using Cons.prems by (simp split: if_splits)
    then show ?thesis using True Cons.hyps by (simp add: nothing_committed word_less_nat_alt)
  next
    case False
    then have "cp_committed_bytes f = cp_size_bytes f" "checkpoint_prefix_loop s False fs = Inr ()"
      using Cons.prems by (auto simp: checkpoint_aligned_def split: if_splits)
    then show ?thesis using Cons.IH Cons.hyps by simp
  qed
qed simp


definition sample_digest :: rstring where
  "sample_digest = replicate 64 97"

definition sample_checkpoints :: "checkpoint list" where
  "sample_checkpoints =
     [\<lparr>cp_file_id = rstr ''file_a'', cp_size_bytes = 3, cp_committed_bytes = 3, cp_last_segment_blake3 = Some sample_digest\<rparr>,
      \<lparr>cp_file_id = rstr ''file_b'', cp_size_bytes = 4, cp_committed_bytes = 2, cp_last_segment_blake3 = Some sample_digest\<rparr>,
      \<lparr>cp_file_id = rstr ''file_c'', cp_size_bytes = 1, cp_committed_bytes = 0, cp_last_segment_blake3 = None\<rparr>]"

lemma sample_checkpoints_valid: "validate_checkpoint_prefix 2 sample_checkpoints = Inr ()"
  by code_simp


section \<open>A live resume changes nothing but the pending checkpoint\<close>

fun resumed_checkpoints :: "resume_disposition \<Rightarrow> pending_checkpoint option \<Rightarrow> checkpoint list \<Rightarrow> checkpoint list" where
  "resumed_checkpoints (PromotePending i) (Some p) current =
     current[i := (current ! i)\<lparr>cp_committed_bytes := pc_committed_bytes p, cp_last_segment_blake3 := Some (pc_blake3 p)\<rparr>]"
| "resumed_checkpoints _ _ current = current"

lemma length_resolve_live: "resolve_live resume fs = Inr rs \<Longrightarrow> length rs = length fs"
  by (induction fs arbitrary: rs) (auto simp: result_simps)

lemma match_live_loop_keeps: "match_live_loop pending k (Some n) ps = Inr out \<Longrightarrow> out = Some n"
  by (induction ps arbitrary: k) (auto split: if_splits)

lemma match_live_loop_ok:
  assumes "match_live_loop pending k promotion ps = Inr out" and "i < length ps"
  shows "current_matches (fst (ps ! i)) (snd (ps ! i)) \<or> pending_matches pending (k + i) (snd (ps ! i))"
    and "pending_matches pending (k + i) (snd (ps ! i)) \<Longrightarrow>
      rv_committed_bytes (snd (ps ! i)) \<noteq> cp_committed_bytes (fst (ps ! i)) \<Longrightarrow> out = Some (k + i)"
proof -
  show "current_matches (fst (ps ! i)) (snd (ps ! i)) \<or> pending_matches pending (k + i) (snd (ps ! i))"
    using assms
  proof (induction pending k promotion ps arbitrary: i rule: match_live_loop.induct)
    case (2 pending k promotion f r rest)
    then show ?case by (cases i) (auto split: if_splits)
  qed simp
  show "out = Some (k + i)" if "pending_matches pending (k + i) (snd (ps ! i))"
    "rv_committed_bytes (snd (ps ! i)) \<noteq> cp_committed_bytes (fst (ps ! i))"
    using assms that
  proof (induction pending k promotion ps arbitrary: i rule: match_live_loop.induct)
    case (2 pending k promotion f r rest)
    show ?case
    proof (cases i)
      case 0
      then show ?thesis using 2 by (auto split: if_splits dest: match_live_loop_keeps)
    next
      case (Suc n)
      then show ?thesis using 2 by (auto split: if_splits)
    qed
  qed simp
qed

lemma match_live_loop_promotes:
  assumes "match_live_loop pending k None ps = Inr (Some n)"
  shows "k \<le> n \<and> n < k + length ps \<and> pending_matches pending n (snd (ps ! (n - k)))"
  using assms
proof (induction ps arbitrary: k)
  case (Cons p ps)
  obtain f r where p: "p = (f, r)" by (cases p)
  show ?case
  proof (cases "pending_matches pending k r \<and> rv_committed_bytes r \<noteq> cp_committed_bytes f")
    case True
    moreover have "n = k"
      using True Cons.prems by (auto simp: p split: if_splits dest: match_live_loop_keeps)
    ultimately show ?thesis by (simp add: p)
  next
    case False
    then have "match_live_loop pending (k + 1) None ps = Inr (Some n)" using Cons.prems by (auto simp: p split: if_splits)
    from Cons.IH [OF this] show ?thesis by (auto simp: nth_Cons')
  qed
qed simp

lemma received_checkpoint_current:
  assumes "current_matches f r" and "checkpoint_verified f"
  shows "received_checkpoint (f, r) = f"
  using assms by (auto simp: received_checkpoint_def current_matches_def checkpoint_verified_def split: if_splits)

text \<open>C31. A live resume is accepted only from a receiver whose durable state the sender knows: the
  checkpoints its cursors describe are the sender's own, except that the one pending checkpoint
  may have been reached, and then the sender promotes exactly that one. What the sender goes on
  from is again a valid prefix of the batch.\<close>

theorem live_resume_matches_state:
  assumes "match_live_resume segment_bytes current pending resume = Inr d"
    and "validate_checkpoint_prefix segment_bytes current = Inr ()"
    and "\<forall>p. pending = Some p \<longrightarrow> pc_committed_bytes p \<noteq> cp_committed_bytes (current ! pc_file_index p)"
  shows "(\<exists>resolved. resolve_live resume current = Inr resolved \<and>
      map received_checkpoint (zip current resolved) = resumed_checkpoints d pending current) \<and>
    validate_checkpoint_prefix segment_bytes (resumed_checkpoints d pending current) = Inr ()"
proof -
  obtain resolved promotion where r: "resolve_live resume current = Inr resolved"
    and v: "validate_checkpoint_prefix segment_bytes (map received_checkpoint (zip current resolved)) = Inr ()"
    and m: "match_live_loop pending 0 None (zip current resolved) = Inr promotion"
    and d: "d = (case promotion of None \<Rightarrow> KeepCurrent | Some file_index \<Rightarrow> PromotePending file_index)"
    using assms(1) by (auto simp: match_live_resume_def result_simps split: if_splits)
  have len: "length resolved = length current" using r by (rule length_resolve_live)
  have ver: "checkpoint_verified (current ! i)" if "i < length current" for i
    using that assms(2) by (simp add: validate_checkpoint_prefix_ok)
  have step: "received_checkpoint (current ! i, resolved ! i) = resumed_checkpoints d pending current ! i" if i: "i < length current" for i
  proof (cases "pending_matches pending i (resolved ! i)")
    case True
    then obtain p where p: "pending = Some p" "pc_file_index p = i" "pc_committed_bytes p = rv_committed_bytes (resolved ! i)"
      "rv_last_segment_blake3 (resolved ! i) = Some (pc_blake3 p)"
      by (auto simp: pending_matches_def split: option.splits)
    then have "promotion = Some i"
      using match_live_loop_ok(2) [OF m, of i] assms(3) True i len by auto
    then show ?thesis using p i by (simp add: d received_checkpoint_def)
  next
    case False
    then have "current_matches (current ! i) (resolved ! i)" using match_live_loop_ok(1) [OF m, of i] i len by simp
    moreover have "promotion \<noteq> Some i" using False match_live_loop_promotes [of pending 0 "zip current resolved" i] m i len by auto
    ultimately show ?thesis using received_checkpoint_current ver i
      by (cases pending; cases promotion) (simp_all add: d)
  qed
  have "map received_checkpoint (zip current resolved) = resumed_checkpoints d pending current"
  proof (rule nth_equalityI)
    show "length (map received_checkpoint (zip current resolved)) = length (resumed_checkpoints d pending current)"
      using len by (cases d; cases pending) simp_all
  qed (simp add: step len)
  then show ?thesis using r v by auto
qed

definition sample_pending :: pending_checkpoint where
  "sample_pending = \<lparr>pc_file_index = 1, pc_committed_bytes = 4, pc_blake3 = replicate 64 98\<rparr>"

definition sample_resume :: "resume_cursor list" where
  "sample_resume =
     [\<lparr>rc_file_id = rstr ''file_c'', rc_committed_bytes = 0, rc_last_segment_blake3 = None\<rparr>,
      \<lparr>rc_file_id = rstr ''file_b'', rc_committed_bytes = 4, rc_last_segment_blake3 = Some (replicate 64 98)\<rparr>,
      \<lparr>rc_file_id = rstr ''file_a'', rc_committed_bytes = 3, rc_last_segment_blake3 = Some sample_digest\<rparr>]"

lemma sample_live_resume:
  "match_live_resume 2 sample_checkpoints (Some sample_pending) sample_resume = Inr (PromotePending 1)"
  by code_simp

theorem live_resume_matches_state_witness:
  "match_live_resume 2 sample_checkpoints (Some sample_pending) sample_resume = Inr (PromotePending 1) \<and>
   validate_checkpoint_prefix 2 (resumed_checkpoints (PromotePending 1) (Some sample_pending) sample_checkpoints) = Inr ()"
  using live_resume_matches_state [OF sample_live_resume sample_checkpoints_valid] sample_live_resume
  by (simp add: sample_pending_def sample_checkpoints_def)

end
