(* ===== verification/Web_State.thy ===== *)
theory Web_State
  imports Browser_Wire Protocol_Http
begin

text \<open>
  The state of the web application (\<open>rust/apps/web/src/app_state.rs\<close>) with its plain reducer
  (\<open>app_transition.rs\<close>), and what the browser platform reports to it
  (\<open>rust/crates/browser-platform/src/rtc.rs\<close>): connection phases, transfer events, the lease of an
  RTC configuration and the registry of peers.

  \<open>Rc\<close> handles are compared by address, so a handle is an address, a natural number; a peer of the
  registry and a lease carry theirs. A \<open>BTreeMap\<close> is a key-sorted association list; an entry
  changed through \<open>get_mut\<close> is updated in place.
\<close>

section \<open>Maps keyed by strings\<close>

lemma map_of_insert [simp]: "map_of (bt_insert k v m) = (map_of m)(k \<mapsto> v)"
  by (induction k v m rule: bt_insert.induct) (auto simp: fun_eq_iff)

lemma map_of_update [simp]: "map_of (AList.update k v m) = (map_of m)(k \<mapsto> v)"
  by (rule update_conv')

lemma map_of_delete [simp]: "map_of (AList.delete k m) = (map_of m)(k := None)"
  by (rule delete_conv')

section \<open>Events of the browser platform\<close>

datatype rtc_connection_phase =
  ConnNew | ConnConnecting | ConnConnected | ConnDisconnected | ConnFailed | ConnClosed

datatype offer_start = OfferStarted | OfferAlreadyActive

datatype signal_acceptance = SignalScheduled | SignalDeferred | SignalIgnored

datatype rtc_event =
    OutboundSignal (ev_to_peer_id: rstring) (ev_negotiation_id: rstring) (ev_signal: rtc_signal)
  | ConnectionState (ev_phase: rtc_connection_phase)
  | DataChannelReady
  | NegotiationFailed (ev_message: rstring)
  | TextOutgoingOffered (ev_transfer_id: rstring) (ev_character_count: u32) (ev_byte_length: u32)
  | TextIncomingOffered (ev_transfer_id: rstring) (ev_character_count: u32) (ev_byte_length: u32)
  | TextTransferAccepted (ev_transfer_id: rstring) (ev_direction: transfer_direction)
  | TextTransferRejected (ev_transfer_id: rstring) (ev_direction: transfer_direction)
  | TextTransferReceived (ev_transfer_id: rstring) (ev_text: rstring)
  | TextTransferDelivered (ev_transfer_id: rstring)
  | TextTransferCancelled (ev_transfer_id: rstring)
  | TextTransferFailed (ev_failed_id: "rstring option") (ev_message: rstring)
  | OutgoingOffered (ev_transfer_id: rstring) (ev_file: transfer_file) (ev_files: "transfer_file list")
  | OutgoingRecoveryOffered (ev_transfer_id: rstring) (ev_file: transfer_file) (ev_files: "transfer_file list")
  | IncomingOffered (ev_transfer_id: rstring) (ev_mode: transfer_mode) (ev_file: transfer_file)
      (ev_files: "transfer_file list") (ev_recovery_available: bool)
  | TransferStarted (ev_transfer_id: rstring) (ev_direction: transfer_direction) (ev_mode: transfer_mode)
      (ev_file: transfer_file) (ev_files: "transfer_file list")
  | TransferProgress (ev_transfer_id: rstring) (ev_direction: transfer_direction)
      (ev_completed_bytes: u64) (ev_total_bytes: u64)
  | AwaitingVerification (ev_transfer_id: rstring) (ev_file: transfer_file) (ev_files: "transfer_file list")
  | TransferRejected (ev_transfer_id: rstring) (ev_direction: transfer_direction) (ev_file: transfer_file)
      (ev_files: "transfer_file list")
  | TransferCompleted (ev_transfer_id: rstring) (ev_direction: transfer_direction) (ev_file: transfer_file)
      (ev_files: "transfer_file list") (ev_blake3: rstring) (ev_download_url: "rstring option")
  | TransferCancelled (ev_transfer_id: rstring) (ev_reason: cancel_reason)
  | TransferPaused (ev_transfer_id: rstring) (ev_direction: transfer_direction) (ev_pause_reason: stream_pause_reason)
      (ev_completed_bytes: u64) (ev_total_bytes: u64)
  | TransferFailed (ev_failed_id: "rstring option") (ev_message: rstring)

section \<open>Configuration leases and the peer registry\<close>

record rtc_config_lease =
  lease_address :: nat
  lease_response :: rtc_config_response
  lease_valid_until_ms :: u64

definition rtc_config_deadline_ms :: "u64 \<Rightarrow> u64 \<Rightarrow> u64" where
  "rtc_config_deadline_ms received_at_ms valid_for_ms = saturating_add received_at_ms valid_for_ms"

definition lease_from_request_start :: "nat \<Rightarrow> rtc_config_response \<Rightarrow> u64 \<Rightarrow> rtc_config_lease" where
  "lease_from_request_start address response request_started_at_ms =
     \<lparr>lease_address = address, lease_response = response,
      lease_valid_until_ms = rtc_config_deadline_ms request_started_at_ms (rcr_ttl_ms response)\<rparr>"

definition lease_remaining_ms :: "u64 \<Rightarrow> rtc_config_lease \<Rightarrow> u64" where
  "lease_remaining_ms now lease = saturating_sub (lease_valid_until_ms lease) now"

definition lease_is_valid :: "u64 \<Rightarrow> rtc_config_lease \<Rightarrow> bool" where
  "lease_is_valid now lease \<longleftrightarrow> 0 < lease_remaining_ms now lease"

definition lease_ptr_eq :: "rtc_config_lease \<Rightarrow> rtc_config_lease \<Rightarrow> bool" where
  "lease_ptr_eq a b \<longleftrightarrow> lease_address a = lease_address b"

type_synonym peer_ref = nat
type_synonym rtc_peer_registry = "(rstring, peer_ref) btree_map"

definition registry_get :: "rtc_peer_registry \<Rightarrow> rstring \<Rightarrow> peer_ref option" where
  "registry_get r peer_id = map_of r peer_id"

definition registry_insert :: "rtc_peer_registry \<Rightarrow> rstring \<Rightarrow> peer_ref \<Rightarrow> rtc_peer_registry" where
  "registry_insert r peer_id peer = bt_insert peer_id peer r"

definition registry_remove :: "rtc_peer_registry \<Rightarrow> rstring \<Rightarrow> rtc_peer_registry \<times> peer_ref option" where
  "registry_remove r peer_id = (AList.delete peer_id r, map_of r peer_id)"

definition registry_peer_ids :: "rtc_peer_registry \<Rightarrow> rstring list" where
  "registry_peer_ids r = map fst r"

definition registry_take_all :: "rtc_peer_registry \<Rightarrow> rtc_peer_registry \<times> peer_ref list" where
  "registry_take_all r = ([], map snd r)"

definition registry_is_current :: "rtc_peer_registry \<Rightarrow> rstring \<Rightarrow> peer_ref \<Rightarrow> bool" where
  "registry_is_current r peer_id peer \<longleftrightarrow> map_of r peer_id = Some peer"

section \<open>Application state\<close>

datatype room_role = RoleOwner | RoleReceiver

record stored_room_session =
  srs_room_code :: rstring
  srs_role :: room_role
  srs_join_request_id :: "rstring option"
  srs_invite_request_id :: "rstring option"
  srs_peer_id :: rstring

datatype realtime_phase =
  RealtimeDisconnected | RealtimeConnecting | RealtimeConnected | RealtimeReconnecting | RealtimeSuperseded

datatype rtc_phase = RtcInactive | RtcWaitingPeer | RtcConnecting | RtcReady | RtcDisconnected | RtcFailed

datatype rtc_config_phase = ConfigInactive | ConfigLoading | ConfigReady | ConfigFailed

datatype outgoing_recovery_phase = RecoveryPending | RecoveryChecking | RecoveryComplete

datatype pending_rtc_work =
  OwnerOfferTimeout u8 | OwnerRetryDelay u8 | PassiveDeadline | DisconnectedDeadline

record peer_rtc_error =
  pre_peer_id :: rstring
  pre_message :: rstring

datatype lobby_action_error = LobbyJoin rstring | LobbyCreate rstring

record pending_rtc_signal =
  prs_from_peer_id :: rstring
  prs_negotiation_id :: rstring
  prs_signal :: rtc_signal

record peer_rtc_state =
  pst_phase :: rtc_phase
  pst_instance_generation :: u64
  pst_work_generation :: u64
  pst_pending_work :: "pending_rtc_work option"
  pst_outgoing_recovery :: outgoing_recovery_phase

definition peer_rtc_state_new :: "u64 \<Rightarrow> peer_rtc_state" where
  "peer_rtc_state_new instance_generation =
     \<lparr>pst_phase = RtcWaitingPeer, pst_instance_generation = instance_generation, pst_work_generation = 0,
      pst_pending_work = None, pst_outgoing_recovery = RecoveryPending\<rparr>"

definition peer_begin_outgoing_recovery :: "peer_rtc_state \<Rightarrow> peer_rtc_state \<times> u64 option" where
  "peer_begin_outgoing_recovery p =
     (if pst_outgoing_recovery p \<noteq> RecoveryPending then (p, None)
      else (p\<lparr>pst_outgoing_recovery := RecoveryChecking\<rparr>, Some (pst_instance_generation p)))"

definition peer_finish_outgoing_recovery :: "peer_rtc_state \<Rightarrow> u64 \<Rightarrow> peer_rtc_state \<times> bool" where
  "peer_finish_outgoing_recovery p instance_generation =
     (if pst_instance_generation p \<noteq> instance_generation \<or> pst_outgoing_recovery p \<noteq> RecoveryChecking then (p, False)
      else (p\<lparr>pst_outgoing_recovery := RecoveryComplete\<rparr>, True))"

definition peer_outgoing_recovery_is_checking :: "peer_rtc_state \<Rightarrow> bool" where
  "peer_outgoing_recovery_is_checking p \<longleftrightarrow> pst_outgoing_recovery p = RecoveryChecking"

datatype transfer_link_state = LinkReady | LinkWaiting | LinkPaused

datatype transfer_state =
    TransferIdle
  | TransferOffering rstring transfer_file "transfer_file list"
  | TransferOutgoingRecovery rstring transfer_file "transfer_file list"
  | TransferIncoming rstring transfer_mode transfer_file "transfer_file list" bool
  | TransferActive (ts_transfer_id: rstring) (ts_direction: transfer_direction) (ts_streamed: bool)
      (ts_file: transfer_file) (ts_files: "transfer_file list") (ts_completed_bytes: u64)
      (ts_awaiting_verification: bool) (ts_link_state: transfer_link_state)
      (ts_storage_pause: "stream_pause_reason option")
  | TransferWasRejected transfer_direction transfer_file "transfer_file list"
  | TransferWasCompleted transfer_direction transfer_file "transfer_file list" rstring "rstring option"
  | TransferWasCancelled "transfer_file option" cancel_reason
  | TransferHasFailed "transfer_file option" rstring

datatype text_transfer_state =
    TextIdle
  | TextOffering rstring u32 u32
  | TextIncoming rstring u32 u32
  | TextSending rstring u32 u32
  | TextReceiving rstring u32 u32
  | TextRejected transfer_direction
  | TextDelivered u32 u32
  | TextReceived rstring
  | TextCancelled
  | TextFailed rstring

datatype screen =
    Booting
  | Lobby (screen_room_code: rstring) (screen_invite_capability: "rstring option")
  | Waiting (screen_room_code: rstring) (screen_request_id: rstring) (screen_peer_id: rstring)
      (waiting_revision: u64) (screen_expires_at_ms: u64)
  | RoomScreen (screen_role: room_role) (screen_snapshot: room_bootstrap_response)
      (screen_invite: "create_invite_response option") (screen_invite_request_id: "rstring option")

record app_model =
  am_session :: "session_response option"
  am_screen :: screen
  am_realtime :: realtime_phase
  am_rtc_config_phase :: rtc_config_phase
  am_rtc_aggregate_phase :: rtc_phase
  am_transfer :: transfer_state
  am_text_transfer :: text_transfer_state
  am_busy :: bool
  am_lobby_action_error :: "lobby_action_error option"
  am_error :: "rstring option"
  am_notice :: "rstring option"
  am_about_open :: bool
  am_decision_request_id :: "rstring option"
  am_entering_receivers :: "rstring list"
  am_pending_signals :: "pending_rtc_signal list"
  am_rtc_peer_generation :: u64
  am_rtc_peer_states :: "(rstring, peer_rtc_state) btree_map"
  am_rtc_config_error :: "rstring option"
  am_rtc_error :: "peer_rtc_error option"
  am_transfers_by_peer :: "(rstring, transfer_state) btree_map"
  am_text_transfers_by_peer :: "(rstring, text_transfer_state) btree_map"

definition default_app_model :: app_model where
  "default_app_model =
     \<lparr>am_session = None, am_screen = Booting, am_realtime = RealtimeDisconnected, am_rtc_config_phase = ConfigInactive,
      am_rtc_aggregate_phase = RtcInactive, am_transfer = TransferIdle, am_text_transfer = TextIdle, am_busy = False,
      am_lobby_action_error = None, am_error = None, am_notice = None, am_about_open = False,
      am_decision_request_id = None, am_entering_receivers = [], am_pending_signals = [], am_rtc_peer_generation = 0,
      am_rtc_peer_states = [], am_rtc_config_error = None, am_rtc_error = None, am_transfers_by_peer = [],
      am_text_transfers_by_peer = []\<rparr>"

fun in_receiver_room :: "screen \<Rightarrow> bool" where
  "in_receiver_room (RoomScreen RoleReceiver _ _ _) = True"
| "in_receiver_room _ = False"

section \<open>The application reducer\<close>

datatype app_event =
    SessionReady session_response
  | Navigate screen
  | SetRealtime realtime_phase
  | SetBusy bool
  | SetNotice "rstring option"
  | SetError "rstring option"
  | SetAboutOpen bool
  | SetDecisionRequest "rstring option"
  | UpgradeRequired

datatype app_effect = ShowUpgradePrompt

fun reduce_app_event :: "app_model \<Rightarrow> app_event \<Rightarrow> app_model \<times> app_effect list" where
  "reduce_app_event model (SessionReady session) = (model\<lparr>am_session := Some session\<rparr>, [])"
| "reduce_app_event model (Navigate screen) = (model\<lparr>am_screen := screen\<rparr>, [])"
| "reduce_app_event model (SetRealtime phase) = (model\<lparr>am_realtime := phase\<rparr>, [])"
| "reduce_app_event model (SetBusy busy) = (model\<lparr>am_busy := busy\<rparr>, [])"
| "reduce_app_event model (SetNotice notice) = (model\<lparr>am_notice := notice\<rparr>, [])"
| "reduce_app_event model (SetError error) = (model\<lparr>am_error := error\<rparr>, [])"
| "reduce_app_event model (SetAboutOpen open) = (model\<lparr>am_about_open := open\<rparr>, [])"
| "reduce_app_event model (SetDecisionRequest request_id) = (model\<lparr>am_decision_request_id := request_id\<rparr>, [])"
| "reduce_app_event model UpgradeRequired = (model\<lparr>am_busy := False\<rparr>, [ShowUpgradePrompt])"

section \<open>The stored room session\<close>

definition ROOM_SESSION_SCHEMA_VERSION :: u8 where
  "ROOM_SESSION_SCHEMA_VERSION = 5"

record stored_room_session_envelope =
  env_schema_version :: u8
  env_session :: stored_room_session

text \<open>The JSON codec of the envelope is an argument.\<close>

definition decode_room_session ::
  "(rstring \<Rightarrow> stored_room_session_envelope option) \<Rightarrow> rstring \<Rightarrow> stored_room_session option" where
  "decode_room_session from_str v =
     Option.bind (from_str v) (\<lambda>envelope.
       if env_schema_version envelope = ROOM_SESSION_SCHEMA_VERSION then Some (env_session envelope) else None)"

definition encode_room_session ::
  "(stored_room_session_envelope \<Rightarrow> rstring option) \<Rightarrow> stored_room_session \<Rightarrow> rstring option" where
  "encode_room_session to_string v =
     to_string \<lparr>env_schema_version = ROOM_SESSION_SCHEMA_VERSION, env_session = v\<rparr>"

end
