(* ===== verification/Browser_Errors.thy ===== *)
theory Browser_Errors
  imports Web_State
begin

text \<open>
  The errors of the browser platform (\<open>rust/crates/browser-platform/src/error.rs\<close>), what they say,
  and how the web application presents them (\<open>rust/apps/web/src/browser_errors.rs\<close>).
\<close>

section \<open>Substrings\<close>

fun contains :: "rstring \<Rightarrow> rstring \<Rightarrow> bool" where
  "contains [] pattern = (pattern = [])"
| "contains (c # s) pattern = (starts_with (c # s) pattern \<or> contains s pattern)"

lemma contains_iff: "contains s pattern \<longleftrightarrow> (\<exists>before after. s = before @ pattern @ after)"
proof (induction s)
  case (Cons c s)
  have "(\<exists>before after. c # s = before @ pattern @ after) \<longleftrightarrow>
      (\<exists>after. c # s = pattern @ after) \<or> (\<exists>before after. s = before @ pattern @ after)"
    by (metis append_eq_Cons_conv append_Nil append_Cons)
  then show ?case using Cons.IH by (simp add: starts_with_iff)
qed auto

section \<open>Platform errors\<close>

datatype browser_storage_operation =
    ChooseSource | ChooseDestination | RequestPermission | ReadSource | ReadDestination | OpenDestination
  | WriteDestination | CommitDestination | ReopenDestination | CloseDestination | AbortDestination

fun storage_operation_text :: "browser_storage_operation \<Rightarrow> rstring" where
  "storage_operation_text ChooseSource = rstr ''choose source file''"
| "storage_operation_text ChooseDestination = rstr ''choose destination''"
| "storage_operation_text RequestPermission = rstr ''request file permission''"
| "storage_operation_text ReadSource = rstr ''read source file''"
| "storage_operation_text ReadDestination = rstr ''read destination checkpoint''"
| "storage_operation_text OpenDestination = rstr ''open destination''"
| "storage_operation_text WriteDestination = rstr ''write destination''"
| "storage_operation_text CommitDestination = rstr ''commit destination checkpoint''"
| "storage_operation_text ReopenDestination = rstr ''reopen destination''"
| "storage_operation_text CloseDestination = rstr ''close destination''"
| "storage_operation_text AbortDestination = rstr ''abort destination write''"

datatype browser_storage_error_kind = PermissionDenied | QuotaExceeded | StorageNotFound | StorageInvalidState | StorageUnknown

definition from_dom_exception_name :: "rstring option \<Rightarrow> browser_storage_error_kind" where
  "from_dom_exception_name name =
     (if name = Some (rstr ''NotAllowedError'') \<or> name = Some (rstr ''SecurityError'') then PermissionDenied
      else if name = Some (rstr ''QuotaExceededError'') then QuotaExceeded
      else if name = Some (rstr ''NotFoundError'') then StorageNotFound
      else if name = Some (rstr ''InvalidStateError'') \<or> name = Some (rstr ''NoModificationAllowedError'') then StorageInvalidState
      else StorageUnknown)"

fun storage_error_kind_text :: "browser_storage_error_kind \<Rightarrow> rstring" where
  "storage_error_kind_text PermissionDenied = rstr ''permission denied''"
| "storage_error_kind_text QuotaExceeded = rstr ''storage quota exceeded''"
| "storage_error_kind_text StorageNotFound = rstr ''file or directory not found''"
| "storage_error_kind_text StorageInvalidState = rstr ''invalid file system state''"
| "storage_error_kind_text StorageUnknown = rstr ''unknown storage failure''"

datatype browser_platform_error =
    UnsupportedTarget
  | MissingWindow
  | UserCancelled
  | StorageFailure browser_storage_operation browser_storage_error_kind rstring
  | BrowserFailure rstring
  | RequestFailure rstring
  | ApiFailure (api_status: u16) (api_code: api_error_code) (api_message: rstring) (api_retryable: bool)
  | PlatformUpgradeRequired (expected_major: u16) (expected_minor: u16) (received_major: u16) (received_minor: u16)
  | MissingCapabilities
  | DecodeFailure rstring
  | RtcConfigExpired
  | RealtimeEncodeFailure rstring

definition decimal_u16 :: "u16 \<Rightarrow> rstring" where
  "decimal_u16 n = decimal_nat (unat n)"

fun platform_error_text :: "browser_platform_error \<Rightarrow> rstring" where
  "platform_error_text UnsupportedTarget = rstr ''browser platform API is only available on wasm32''"
| "platform_error_text MissingWindow = rstr ''browser window is unavailable''"
| "platform_error_text UserCancelled = rstr ''browser operation was cancelled by the user''"
| "platform_error_text (StorageFailure operation kind message) =
     rstr ''browser storage failed while trying to '' @ storage_operation_text operation @ rstr '': '' @
     storage_error_kind_text kind @ rstr '': '' @ message"
| "platform_error_text (BrowserFailure message) = rstr ''browser API failed: '' @ message"
| "platform_error_text (RequestFailure message) = rstr ''request failed: '' @ message"
| "platform_error_text (ApiFailure status code message retryable) =
     rstr ''API returned HTTP '' @ decimal_u16 status @ rstr '': '' @ message"
| "platform_error_text (PlatformUpgradeRequired em en rm rn) =
     rstr ''client upgrade required: client protocol '' @ decimal_u16 em @ rstr ''.'' @ decimal_u16 en @
     rstr '', server protocol '' @ decimal_u16 rm @ rstr ''.'' @ decimal_u16 rn"
| "platform_error_text MissingCapabilities = rstr ''client upgrade required: server capability set is incomplete''"
| "platform_error_text (DecodeFailure message) = rstr ''response could not be decoded: '' @ message"
| "platform_error_text RtcConfigExpired = rstr ''RTC connection configuration has expired''"
| "platform_error_text (RealtimeEncodeFailure message) = rstr ''realtime message could not be encoded: '' @ message"

definition upgrade_required :: "protocol_version \<Rightarrow> protocol_version \<Rightarrow> browser_platform_error" where
  "upgrade_required expected received =
     PlatformUpgradeRequired (pv_major expected) (pv_minor expected) (pv_major received) (pv_minor received)"

fun requires_upgrade :: "browser_platform_error \<Rightarrow> bool" where
  "requires_upgrade (PlatformUpgradeRequired _ _ _ _) = True"
| "requires_upgrade MissingCapabilities = True"
| "requires_upgrade _ = False"

definition reconnectable_channel_error :: "browser_platform_error \<Rightarrow> bool" where
  "reconnectable_channel_error error =
     (let message = platform_error_text error
      in contains message (rstr ''RTCDataChannel'') \<or> contains message (rstr ''DataChannel is not open'') \<or>
         contains message (rstr ''DataChannel is not ready''))"

fun recoverable_stream_pause_reason :: "browser_platform_error \<Rightarrow> stream_pause_reason option" where
  "recoverable_stream_pause_reason (StorageFailure _ QuotaExceeded _) = Some DestinationQuotaExceeded"
| "recoverable_stream_pause_reason (StorageFailure _ PermissionDenied _) = Some DestinationPermissionDenied"
| "recoverable_stream_pause_reason _ = None"

section \<open>Responses of the HTTP API\<close>

text \<open>Decoding is generic in the response type: its parser and the version it carries are arguments.\<close>

definition decode_success_response ::
  "(rstring \<Rightarrow> rstring + 'r) \<Rightarrow> ('r \<Rightarrow> protocol_version) \<Rightarrow> rstring \<Rightarrow> browser_platform_error + 'r" where
  "decode_success_response from_str protocol_version_of body =
     bind_result (map_err DecodeFailure (from_str body)) (\<lambda>response.
       if protocol_version_of response \<noteq> CURRENT_PROTOCOL
       then Inl (upgrade_required CURRENT_PROTOCOL (protocol_version_of response))
       else Inr response)"

section \<open>Presentation\<close>

fun friendly_error :: "browser_platform_error \<Rightarrow> rstring" where
  "friendly_error (ApiFailure status _ _ _) =
     (if status = 401 then [0x5B89, 0x5168, 0x4F1A, 0x8BDD, 0x5DF2, 0x5931, 0x6548, 0xFF0C, 0x8BF7, 0x5237, 0x65B0, 0x9875, 0x9762, 0x540E, 0x91CD, 0x8BD5]
      else if status = 403 then [0x9080, 0x8BF7, 0x94FE, 0x63A5, 0x65E0, 0x6548, 0x3001, 0x5DF2, 0x8FC7, 0x671F, 0xFF0C, 0x6216, 0x5F53, 0x524D, 0x64CD, 0x4F5C, 0x6CA1, 0x6709, 0x6743, 0x9650]
      else if status = 404 then [0x6CA1, 0x6709, 0x627E, 0x5230, 0x8FD9, 0x4E2A, 0x623F, 0x95F4, 0xFF0C, 0x8BF7, 0x68C0, 0x67E5, 0x623F, 0x95F4, 0x7801]
      else if status = 409 then [0x623F, 0x95F4, 0x72B6, 0x6001, 0x521A, 0x521A, 0x53D1, 0x751F, 0x53D8, 0x5316, 0xFF0C, 0x8BF7, 0x91CD, 0x8BD5]
      else if status = 429 then [0x64CD, 0x4F5C, 0x8FC7, 0x4E8E, 0x9891, 0x7E41, 0xFF0C, 0x8BF7, 0x7A0D, 0x540E, 0x518D, 0x8BD5]
      else [0x6682, 0x65F6, 0x65E0, 0x6CD5, 0x5B8C, 0x6210, 0x64CD, 0x4F5C, 0xFF0C, 0x8BF7, 0x7A0D, 0x540E, 0x91CD, 0x8BD5])"
| "friendly_error (PlatformUpgradeRequired _ _ _ _) = [0x5E94, 0x7528, 0x5DF2, 0x7ECF, 0x66F4, 0x65B0, 0xFF0C, 0x8BF7, 0x5237, 0x65B0, 0x9875, 0x9762, 0x540E, 0x7EE7, 0x7EED]"
| "friendly_error MissingCapabilities = [0x5E94, 0x7528, 0x5DF2, 0x7ECF, 0x66F4, 0x65B0, 0xFF0C, 0x8BF7, 0x5237, 0x65B0, 0x9875, 0x9762, 0x540E, 0x7EE7, 0x7EED]"
| "friendly_error (RequestFailure _) = [0x7F51, 0x7EDC, 0x8FDE, 0x63A5, 0x5931, 0x8D25, 0xFF0C, 0x8BF7, 0x68C0, 0x67E5, 0x7F51, 0x7EDC, 0x540E, 0x91CD, 0x8BD5]"
| "friendly_error RtcConfigExpired = [0x70B9, 0x5BF9, 0x70B9, 0x8FDE, 0x63A5, 0x914D, 0x7F6E, 0x5DF2, 0x8FC7, 0x671F, 0xFF0C, 0x6B63, 0x5728, 0x91CD, 0x65B0, 0x83B7, 0x53D6]"
| "friendly_error _ = [0x6682, 0x65F6, 0x65E0, 0x6CD5, 0x5B8C, 0x6210, 0x64CD, 0x4F5C, 0xFF0C, 0x8BF7, 0x7A0D, 0x540E, 0x91CD, 0x8BD5]"

fun friendly_storage_error :: "browser_storage_error_kind \<Rightarrow> rstring" where
  "friendly_storage_error QuotaExceeded = [0x78C1, 0x76D8, 0x7A7A, 0x95F4, 0x4E0D, 0x8DB3, 0xFF0C, 0x8BF7, 0x91CA, 0x653E, 0x7A7A, 0x95F4, 0x540E, 0x91CD, 0x8BD5]"
| "friendly_storage_error PermissionDenied = [0x6587, 0x4EF6, 0x8BBF, 0x95EE, 0x6743, 0x9650, 0x5DF2, 0x5931, 0x6548, 0xFF0C, 0x8BF7, 0x91CD, 0x65B0, 0x6388, 0x6743]"
| "friendly_storage_error StorageNotFound = [0x6240, 0x9009, 0x6587, 0x4EF6, 0x6216, 0x4FDD, 0x5B58, 0x4F4D, 0x7F6E, 0x5DF2, 0x4E0D, 0x53EF, 0x7528, 0xFF0C, 0x8BF7, 0x91CD, 0x65B0, 0x9009, 0x62E9]"
| "friendly_storage_error StorageInvalidState = [0x6587, 0x4EF6, 0x5F53, 0x524D, 0x65E0, 0x6CD5, 0x8BFB, 0x5199, 0xFF0C, 0x8BF7, 0x5173, 0x95ED, 0x5360, 0x7528, 0x7A0B, 0x5E8F, 0x540E, 0x91CD, 0x8BD5]"
| "friendly_storage_error StorageUnknown = [0x65E0, 0x6CD5, 0x8BFB, 0x5199, 0x6240, 0x9009, 0x6587, 0x4EF6, 0xFF0C, 0x8BF7, 0x68C0, 0x67E5, 0x6587, 0x4EF6, 0x548C, 0x4FDD, 0x5B58, 0x4F4D, 0x7F6E, 0x540E, 0x91CD, 0x8BD5]"

definition friendly_browser_message :: "rstring \<Rightarrow> rstring" where
  "friendly_browser_message message =
     (if contains message (rstr ''between 1 and'') \<or> contains message (rstr ''file list is empty'') then [0x4E00, 0x6B21, 0x6700, 0x591A, 0x9009, 0x62E9, 0x20, 0x31, 0x30, 0x20, 0x4E2A, 0x6587, 0x4EF6]
      else if contains message (rstr ''files exceed'') then [0x672C, 0x6B21, 0x6587, 0x4EF6, 0x603B, 0x5927, 0x5C0F, 0x4E0D, 0x80FD, 0x8D85, 0x8FC7, 0x20, 0x35, 0x20, 0x47, 0x69, 0x42]
      else if contains message (rstr ''transfer limit'') \<or> contains message (rstr ''exceeds'') then [0x5355, 0x4E2A, 0x6587, 0x4EF6, 0x4E0D, 0x80FD, 0x8D85, 0x8FC7, 0x20, 0x35, 0x20, 0x47, 0x69, 0x42]
      else if contains message (rstr ''streaming file saving is unavailable'')
      then [0x5F53, 0x524D, 0x6D4F, 0x89C8, 0x5668, 0x4E0D, 0x652F, 0x6301, 0x5927, 0x6587, 0x4EF6, 0x76F4, 0x63A5, 0x4FDD, 0x5B58, 0xFF0C, 0x8BF7, 0x4F7F, 0x7528, 0x684C, 0x9762, 0x7248, 0x20, 0x43, 0x68, 0x72, 0x6F, 0x6D, 0x65, 0x20, 0x6216, 0x20, 0x45, 0x64, 0x67, 0x65]
      else if contains message (rstr ''streaming'') \<or> contains message (rstr ''storage'') then [0x65E0, 0x6CD5, 0x5199, 0x5165, 0x6240, 0x9009, 0x4F4D, 0x7F6E, 0xFF0C, 0x8BF7, 0x68C0, 0x67E5, 0x78C1, 0x76D8, 0x7A7A, 0x95F4, 0x540E, 0x91CD, 0x8BD5]
      else if contains message (rstr ''already active'') then [0x5DF2, 0x6709, 0x5185, 0x5BB9, 0x6B63, 0x5728, 0x4F20, 0x8F93, 0xFF0C, 0x8BF7, 0x7B49, 0x5F85, 0x5B8C, 0x6210, 0x540E, 0x518D, 0x8BD5]
      else if contains message (rstr ''DataChannel'') \<or> contains message (rstr ''PeerConnection'') then [0x70B9, 0x5BF9, 0x70B9, 0x8FDE, 0x63A5, 0x5C1A, 0x672A, 0x5C31, 0x7EEA, 0xFF0C, 0x8BF7, 0x7A0D, 0x540E, 0x518D, 0x8BD5]
      else if contains message (rstr ''incoming transfer'') then [0x8FD9, 0x6B21, 0x6587, 0x4EF6, 0x63A5, 0x6536, 0x7533, 0x8BF7, 0x5DF2, 0x7ECF, 0x5931, 0x6548]
      else if contains message (rstr ''incoming text'') then [0x8FD9, 0x6B21, 0x6587, 0x672C, 0x63A5, 0x6536, 0x7533, 0x8BF7, 0x5DF2, 0x7ECF, 0x5931, 0x6548]
      else [0x6587, 0x4EF6, 0x4F20, 0x8F93, 0x6682, 0x65F6, 0x5931, 0x8D25, 0xFF0C, 0x8BF7, 0x91CD, 0x8BD5])"

fun friendly_transfer_error :: "browser_platform_error \<Rightarrow> rstring" where
  "friendly_transfer_error (StorageFailure _ kind _) = friendly_storage_error kind"
| "friendly_transfer_error (BrowserFailure message) = friendly_browser_message message"
| "friendly_transfer_error UserCancelled = [0x5DF2, 0x53D6, 0x6D88, 0x9009, 0x62E9, 0x4FDD, 0x5B58, 0x4F4D, 0x7F6E]"
| "friendly_transfer_error error = friendly_error error"

definition platform_error_event :: "browser_platform_error \<Rightarrow> app_event" where
  "platform_error_event error = (if requires_upgrade error then UpgradeRequired else SetError (Some (friendly_error error)))"

definition transfer_error_event :: "browser_platform_error \<Rightarrow> app_event" where
  "transfer_error_event error =
     (if requires_upgrade error then UpgradeRequired else SetError (Some (friendly_transfer_error error)))"

end
