(* ===== verification/Peer_State.thy ===== *)
theory Peer_State
  imports Browser_Errors Browser_Checkpoint
begin

text \<open>
  A peer of the browser's transfer engine (\<open>rust/crates/browser-platform/src/rtc/browser/peer.rs\<close>,
  \<open>rtc/browser/lifecycle/\<close>, the records of \<open>stream_recovery.rs\<close> and the writer of
  \<open>stream_storage.rs\<close>): its state, what it sends and reports, and the operations that abandon,
  suspend or cancel a transfer.

  The state is the structure \<open>Inner\<close> without the closures it keeps for the browser. Beside it the
  model records, in order, the events given to the callback, the frames handed to data channels,
  the calls on connection objects and the answers of the asynchronous methods; the tasks that
  were spawned and wait for the browser are part of the state. An await ends a task: what follows
  it is a new task, which runs against whatever state there is then.

  Objects of the browser are references. Files are not modelled: a writer records the write
  commands its stream accepted, and a hasher the bytes it was fed.
\<close>

section \<open>Errors as text\<close>

fun protocol_error_text :: "protocol_error \<Rightarrow> rstring" where
  "protocol_error_text (FrameTooLarge actual limit) =
     rstr ''frame contains '' @ decimal_nat actual @ rstr '' bytes, maximum is '' @ decimal_nat limit"
| "protocol_error_text (UnsupportedVersion major minor) =
     rstr ''protocol version '' @ decimal_nat (unat major) @ rstr ''.'' @ decimal_nat (unat minor) @ rstr '' is unsupported''"
| "protocol_error_text (EmptyField field) = rstr ''field '' @ rstr field @ rstr '' must not be empty''"
| "protocol_error_text (FieldTooLong field actual limit) =
     rstr ''field '' @ rstr field @ rstr '' contains '' @ decimal_nat actual @ rstr '' bytes, maximum is '' @ decimal_nat limit"
| "protocol_error_text (InvalidField field) = rstr ''field '' @ rstr field @ rstr '' has an invalid value''"
| "protocol_error_text (InvalidJson message) = rstr ''JSON frame is invalid: '' @ rstr message"
| "protocol_error_text InvalidFileCount = rstr ''manifest file count is outside the supported range''"
| "protocol_error_text DuplicateFileId = rstr ''manifest contains duplicate file ids''"
| "protocol_error_text TransferTooLarge = rstr ''manifest total exceeds the transfer byte limit''"
| "protocol_error_text BinaryFrameTooShort = rstr ''binary frame is shorter than the fixed header''"
| "protocol_error_text InvalidMagic = rstr ''binary frame magic is invalid''"
| "protocol_error_text (UnsupportedFrameType t) = rstr ''binary frame type '' @ decimal_nat (unat t) @ rstr '' is unsupported''"
| "protocol_error_text ChunkTooLarge = rstr ''chunk payload exceeds the message limit''"
| "protocol_error_text BinaryLengthMismatch = rstr ''binary frame length does not match its header''"
| "protocol_error_text OffsetOverflow = rstr ''chunk offset plus payload length overflows''"

definition protocol_failure :: "protocol_error \<Rightarrow> browser_platform_error" where
  "protocol_failure error = DecodeFailure (protocol_error_text error)"

definition browser_text :: "string \<Rightarrow> browser_platform_error" where
  "browser_text message = BrowserFailure (rstr message)"

section \<open>Writers\<close>

type_synonym hasher = "u8 list"

text \<open>
  \<open>sw_writes\<close> lists the write commands the stream accepted, with their positions;
  \<open>sw_resumed\<close> are the bytes that were read back and verified when the file was reopened.
\<close>

record stream_writer =
  sw_handle :: nat
  sw_next_offset :: u64
  sw_closed :: bool
  sw_resumed :: "u8 list"
  sw_writes :: "(u64 \<times> u8 list) list"

text \<open>\<open>outcome\<close> is how the promise of the browser ended.\<close>

definition write_at ::
  "browser_platform_error option \<Rightarrow> u64 \<Rightarrow> u8 list \<Rightarrow> stream_writer \<Rightarrow> stream_writer \<times> (browser_platform_error + unit)" where
  "write_at outcome offset bytes w =
     (if sw_closed w then (w, Inl (browser_text ''streaming file writer is already closed''))
      else if offset \<noteq> sw_next_offset w
      then (w, Inl (BrowserFailure (rstr ''streaming write offset '' @ decimal_nat (unat offset) @
                     rstr '' does not match '' @ decimal_nat (unat (sw_next_offset w)))))
      else (case checked_add offset (of_nat (length bytes)) of
              None \<Rightarrow> (w, Inl (browser_text ''streaming offset overflow''))
            | Some end_offset \<Rightarrow>
                (case outcome of
                   Some error \<Rightarrow> (w, Inl error)
                 | None \<Rightarrow> (w\<lparr>sw_next_offset := end_offset, sw_writes := sw_writes w @ [(offset, bytes)]\<rparr>, Inr ()))))"

definition commit_checkpoint ::
  "browser_platform_error option \<Rightarrow> stream_writer \<Rightarrow> stream_writer \<times> (browser_platform_error + unit)" where
  "commit_checkpoint outcome w =
     (if sw_closed w then (w, Inl (browser_text ''streaming file writer is already closed''))
      else case outcome of
             Some error \<Rightarrow> (w, Inl error)
           | None \<Rightarrow> (w\<lparr>sw_closed := True\<rparr>, Inr ()))"

definition reopen_after_checkpoint ::
  "browser_platform_error option \<Rightarrow> stream_writer \<Rightarrow> stream_writer \<times> (browser_platform_error + unit)" where
  "reopen_after_checkpoint outcome w =
     (if \<not> sw_closed w then (w, Inl (browser_text ''streaming file writer must commit before reopening''))
      else case outcome of
             Some error \<Rightarrow> (w, Inl error)
           | None \<Rightarrow> (w\<lparr>sw_closed := False\<rparr>, Inr ()))"

definition close_writer :: "browser_platform_error option \<Rightarrow> stream_writer \<Rightarrow> browser_platform_error + unit" where
  "close_writer outcome w =
     (if sw_closed w then Inr () else case outcome of Some error \<Rightarrow> Inl error | None \<Rightarrow> Inr ())"

definition abort_writer :: "browser_platform_error option \<Rightarrow> stream_writer \<Rightarrow> browser_platform_error + unit" where
  "abort_writer outcome w =
     (if sw_closed w then Inr () else case outcome of Some error \<Rightarrow> Inl error | None \<Rightarrow> Inr ())"

section \<open>Recovery records\<close>

record stream_recovery_file =
  rf_file_id :: rstring
  rf_name :: rstring
  rf_mime :: "rstring option"
  rf_size_bytes :: u64
  rf_handle :: nat
  rf_committed_bytes :: u64
  rf_last_segment_blake3 :: "rstring option"

record stream_recovery_record =
  rr_transfer_id :: rstring
  rr_peer_id :: rstring
  rr_segment_bytes :: u32
  rr_files :: "stream_recovery_file list"

record outgoing_recovery_file =
  orf_file_id :: rstring
  orf_name :: rstring
  orf_mime :: "rstring option"
  orf_size_bytes :: u64
  orf_last_modified_ms :: u64
  orf_handle :: nat
  orf_committed_bytes :: u64
  orf_last_segment_blake3 :: "rstring option"

record outgoing_recovery_record =
  orr_transfer_id :: rstring
  orr_peer_id :: rstring
  orr_segment_bytes :: u32
  orr_files :: "outgoing_recovery_file list"

section \<open>Transfers of a peer\<close>

record stream_ready_plan =
  srp_max_chunk_bytes :: u32
  srp_ack_window_bytes :: u64

text \<open>\<open>pk_sender\<close> is the sending half of the channel the sending task waits on.\<close>

record pending_segment_ack =
  pk_file_index :: nat
  pk_segment_index :: u64
  pk_committed_bytes :: u64
  pk_blake3 :: rstring
  pk_file_hasher :: hasher
  pk_sender :: "nat option"

record outgoing_file_state =
  ogf_file_bytes :: "u8 list"
  ogf_file :: transfer_file
  ogf_browser_file :: nat
  ogf_source_handle :: "nat option"
  ogf_last_modified_ms :: u64
  ogf_expected_hash :: "rstring option"
  ogf_committed_bytes :: u64
  ogf_committed_hasher :: hasher
  ogf_last_segment_blake3 :: "rstring option"

record outgoing_state =
  og_transfer_id :: rstring
  og_transfer_bytes :: "u8 list"
  og_mode :: transfer_mode
  og_files :: "outgoing_file_state list"
  og_total_bytes :: u64
  og_sent_bytes :: u64
  og_expected_digests :: "file_digest list"
  og_accepted :: bool
  og_stream_ready :: "stream_ready_plan option"
  og_pending_ack :: "pending_segment_ack option"
  og_generation :: u64
  og_sending :: bool
  og_cancelled :: bool
  og_last_progress_ms :: int
  og_max_buffered_bytes :: u64
  og_recovery_peer_id :: "rstring option"
  og_restored_from_disk :: bool
  og_reconciling_resume :: bool

record outgoing_text_state =
  ot_transfer_id :: rstring
  ot_text :: rstring
  ot_accepted :: bool

record incoming_text_offer =
  it_transfer_id :: rstring
  it_character_count :: u32
  it_byte_length :: u32

record receive_file_state =
  fs_writer :: "stream_writer option"
  fs_active_abort :: "nat option"
  fs_received_bytes :: u64
  fs_hasher :: hasher
  fs_segment_index :: u64
  fs_segment_offset :: u64
  fs_chunks :: "u8 list list"
  fs_segment_hasher :: hasher
  fs_committed_hasher :: hasher
  fs_last_segment_blake3 :: "rstring option"
  fs_writing :: bool

datatype receive_payload =
    BufferedPayload (pl_chunks: "u8 list list")
  | StreamedPayload (pl_segment_bytes: u32) (pl_current_file_index: nat) (pl_files: "receive_file_state list")

record receive_state =
  rv_offer :: incoming_offer
  rv_started :: bool
  rv_received_bytes :: u64
  rv_payload :: receive_payload
  rv_hasher :: hasher
  rv_resume_requested :: bool
  rv_last_progress_ms :: int
  rv_recovery_persisted :: bool
  rv_generation :: u64


section \<open>Tasks that wait for the browser\<close>

text \<open>A segment whose commit was accepted, while its bytes are written.\<close>

record commit_job =
  cj_transfer_id :: rstring
  cj_file_id :: rstring
  cj_segment_index :: u64
  cj_offset :: u64
  cj_blake3 :: rstring
  cj_committed_bytes :: u64
  cj_file_index :: nat
  cj_recovery_persisted :: bool
  cj_generation :: u64

text \<open>A verified batch whose files are closed.\<close>

record finish_job =
  fj_transfer_id :: rstring
  fj_total_bytes :: u64
  fj_digests :: "file_digest list"
  fj_transfer_files :: "transfer_file list"
  fj_summary :: transfer_file
  fj_batch_hash :: rstring

text \<open>The loops that send a buffered file and a batch of streamed files, between two awaits.\<close>

record buffered_job =
  bj_transfer_id :: rstring
  bj_generation :: u64
  bj_channel :: nat
  bj_browser_file :: nat
  bj_file :: transfer_file
  bj_transfer_bytes :: "u8 list"
  bj_file_bytes :: "u8 list"
  bj_index :: u64
  bj_hasher :: hasher

record stream_job =
  sj_transfer_id :: rstring
  sj_generation :: u64
  sj_segment_bytes :: u32
  sj_channel :: nat
  sj_transfer_bytes :: "u8 list"
  sj_max_chunk_bytes :: u32
  sj_total_bytes :: u64
  sj_transfer_files :: "transfer_file list"
  sj_digests :: "file_digest list"
  sj_preceding_bytes :: u64
  sj_file_index :: nat
  sj_browser_file :: nat
  sj_file :: transfer_file
  sj_file_bytes :: "u8 list"
  sj_file_hasher :: hasher
  sj_segment_index :: u64
  sj_segment_hasher :: hasher
  sj_segment_sent :: u64

record negotiation =
  ng_connection :: nat
  ng_epoch :: u64
  ng_id :: rstring
  ng_peer :: rstring

datatype segment_task =
    SegmentWrite commit_job stream_writer "u8 list"
  | SegmentCheckpoint commit_job stream_writer
  | SegmentReopen commit_job stream_writer
  | SegmentSave commit_job bool stream_recovery_record
  | SegmentForget commit_job browser_platform_error
  | AbortStaleWriter stream_writer
  | PauseAbort rstring stream_writer u64 stream_pause_reason
  | PauseLoad rstring u64 stream_pause_reason
  | PauseIdleWriters rstring stream_pause_reason u64 u64 "stream_writer list"
  | FinishClose finish_job "stream_writer list"
  | FinishForget finish_job u8

datatype recovery_task =
    DeleteStreamRecovery rstring
  | DeleteOutgoingRecovery rstring
  | RecoverStart incoming_offer
  | RecoverLoad incoming_offer "rstring option"
  | RecoverForget incoming_offer
  | RecoverPermissions incoming_offer stream_recovery_record
  | RestoreFiles bool incoming_offer stream_recovery_record "receive_file_state list"
  | AcceptSave nat incoming_offer stream_recovery_record "stream_writer list"
  | AcceptForget nat incoming_offer "stream_writer list"
  | ResumePermissions incoming_offer stream_recovery_record
  | CancelCleanup rstring cancel_reason "browser_platform_error option" "stream_writer option list" bool "rstring option"

datatype send_task =
    SendStart rstring u64
  | BufferedNext buffered_job
  | BufferedWaited buffered_job
  | BufferedRead buffered_job chunk_descriptor
  | StreamBegin stream_job
  | StreamWaited stream_job
  | StreamRead stream_job
  | StreamAck stream_job nat
  | SaveOutgoingCheckpoint outgoing_recovery_record "nat option"

datatype source_task =
    OfferSave outgoing_recovery_record outgoing_state control_message "transfer_file list"
  | OfferForget rstring browser_platform_error
  | OutgoingLoad rstring
  | OutgoingForget rstring "browser_platform_error option"
  | OutgoingPermissions bool rstring outgoing_recovery_record
  | OutgoingRestore bool rstring outgoing_recovery_record "u8 list" "outgoing_file_state list"
  | ReconcileStart rstring u32 u64 "resume_cursor list"
  | Reconcile rstring u32 u64 "resume_cursor list" outgoing_recovery_record "(nat \<times> hasher \<times> rstring option) list"
  | ReconcileSave rstring u32 u64 "resume_cursor list" outgoing_recovery_record "(nat \<times> hasher \<times> rstring option) list"

datatype signal_task =
    OfferCreated negotiation
  | OfferLocalSet negotiation
  | RemoteOfferSet negotiation
  | RemoteAnswerSet negotiation
  | CandidatesAdded bool negotiation "rtc_signal list"
  | CandidateStart negotiation rtc_signal
  | CandidateAdded negotiation
  | AnswerCreated negotiation
  | AnswerLocalSet negotiation

datatype text_task = OutgoingTextTimeout rstring bool | IncomingTextTimeout rstring

datatype peer_task =
    SegmentTask segment_task | RecoveryTask recovery_task | SendTask send_task
  | SourceTask source_task | SignalTask signal_task | TextTask text_task

section \<open>The peer\<close>

datatype wire_frame = ControlFrame control_message | BinaryFrame "u8 list"

datatype browser_call =
    CloseChannel nat | CloseConnection nat | RevokeUrl rstring
  | CallCreateOffer nat | CallCreateAnswer nat | CallSetLocal nat | CallSetRemote nat rtc_signal | CallAddCandidate nat rtc_signal

text \<open>How an asynchronous method called by the application ended.\<close>

datatype peer_reply =
    AcceptReply "browser_platform_error + unit"
  | ResumeReply "browser_platform_error + unit"
  | CancelReply "browser_platform_error + unit"
  | OfferReply "browser_platform_error + rstring"
  | RestoreReply "browser_platform_error + bool"
  | ResumeOutgoingReply "browser_platform_error + unit"

record rtc_peer =
  ri_rtc_config :: rtc_config_lease
  ri_peer_connection :: "nat option"
  ri_data_channel :: "nat option"
  ri_target_peer :: "rstring option"
  ri_negotiation_id :: "rstring option"
  ri_connection_epoch :: u64
  ri_negotiating :: bool
  ri_local_description_announced :: bool
  ri_remote_description_pending :: bool
  ri_remote_description_set :: bool
  ri_pending_local_candidates :: "rtc_signal list"
  ri_pending_remote_candidates :: "(rstring \<times> rstring \<times> rtc_signal) list"
  ri_outgoing :: "outgoing_state option"
  ri_outgoing_text :: "outgoing_text_state option"
  ri_pending_outgoing_recovery :: "outgoing_recovery_record option"
  ri_restoring_outgoing :: bool
  ri_incoming :: "incoming_offer option"
  ri_incoming_text :: "incoming_text_offer option"
  ri_receiving_text :: "incoming_text_offer option"
  ri_pending_recovery :: "stream_recovery_record option"
  ri_paused_receive_reason :: "stream_pause_reason option"
  ri_restoring_transfer :: "rstring option"
  ri_receive :: "receive_state option"
  ri_object_url :: "rstring option"
  pr_events :: "rtc_event list"
  pr_sent :: "(nat \<times> wire_frame) list"
  pr_tasks :: "peer_task list"
  pr_calls :: "browser_call list"
  pr_replies :: "peer_reply list"
  pr_acks :: "(nat \<times> (rstring + unit)) list"
  pr_fresh :: nat

text \<open>A file object of the browser; \<open>bf_source_handle\<close> is there when it was chosen with a file handle.\<close>

record browser_file =
  bf_inner :: nat
  bf_name :: rstring
  bf_type :: rstring
  bf_size :: u64
  bf_last_modified :: u64
  bf_source_handle :: "nat option"

datatype file_permission = PermGranted | PermPrompt | PermDenied

datatype object_url_failure = BlobNotCreated | UrlNotCreated

text \<open>What the browser answers while a handler or a task runs.\<close>

record peer_env =
  pe_blake3 :: "u8 list \<Rightarrow> rstring"
  pe_to_json :: "control_message \<Rightarrow> string + rstring"
  pe_from_json :: "rstring \<Rightarrow> string + control_message"
  pe_open :: "nat \<Rightarrow> bool"
  pe_send :: "nat \<Rightarrow> rstring \<Rightarrow> rstring option"
  pe_send_bytes :: "nat \<Rightarrow> u8 list \<Rightarrow> rstring option"
  pe_buffered :: "nat \<Rightarrow> u64"
  pe_now_ms :: int
  pe_monotonic_ms :: u64
  pe_random :: "nat \<Rightarrow> u8 list"
  pe_promise :: "browser_platform_error option"
  pe_load_stream :: "browser_platform_error + stream_recovery_record option"
  pe_load_outgoing :: "browser_platform_error + outgoing_recovery_record option"
  pe_permissions :: "browser_platform_error + file_permission list"
  pe_get_file :: "nat \<Rightarrow> browser_platform_error + browser_file"
  pe_slice :: "nat \<Rightarrow> u64 \<Rightarrow> u64 \<Rightarrow> browser_platform_error + u8 list"
  pe_object_url :: "u8 list list \<Rightarrow> rstring \<Rightarrow> object_url_failure + rstring"
  pe_new_connection :: "rstring + nat"
  pe_new_channel :: nat
  pe_local_sdp :: "nat \<Rightarrow> rstring option"
  pe_candidate_valid :: "rtc_signal \<Rightarrow> rstring option"

section \<open>Reports and frames\<close>

definition emit :: "rtc_event \<Rightarrow> rtc_peer \<Rightarrow> rtc_peer" where
  "emit event p = p\<lparr>pr_events := pr_events p @ [event]\<rparr>"

definition fail :: "rstring option \<Rightarrow> rstring \<Rightarrow> rtc_peer \<Rightarrow> rtc_peer" where
  "fail transfer_id message p = emit (TransferFailed transfer_id message) p"

definition negotiation_failed :: "rstring \<Rightarrow> rtc_peer \<Rightarrow> rtc_peer" where
  "negotiation_failed message p = emit (NegotiationFailed message) p"

definition spawn_local :: "peer_task \<Rightarrow> rtc_peer \<Rightarrow> rtc_peer" where
  "spawn_local task p = p\<lparr>pr_tasks := pr_tasks p @ [task]\<rparr>"

definition reply :: "peer_reply \<Rightarrow> rtc_peer \<Rightarrow> rtc_peer" where
  "reply r p = p\<lparr>pr_replies := pr_replies p @ [r]\<rparr>"

definition data_channel_ready :: "peer_env \<Rightarrow> rtc_peer \<Rightarrow> bool" where
  "data_channel_ready e p \<longleftrightarrow> (case ri_data_channel p of None \<Rightarrow> False | Some channel \<Rightarrow> pe_open e channel)"

definition current_data_channel :: "peer_env \<Rightarrow> rtc_peer \<Rightarrow> browser_platform_error + nat" where
  "current_data_channel e p =
     bind_result (ok_or (browser_text ''DataChannel is not ready'') (ri_data_channel p)) (\<lambda>channel.
       if \<not> pe_open e channel then Inl (browser_text ''DataChannel is not open'') else Inr channel)"

definition send_control_on ::
  "peer_env \<Rightarrow> nat \<Rightarrow> control_message \<Rightarrow> rtc_peer \<Rightarrow> rtc_peer \<times> (browser_platform_error + unit)" where
  "send_control_on e channel message p =
     (case encode_control_frame (pe_to_json e) message of
        Inl (EncodeProtocol error) \<Rightarrow> (p, Inl (DecodeFailure (protocol_error_text error)))
      | Inl (EncodeSerialize error) \<Rightarrow> (p, Inl (DecodeFailure (rstr error)))
      | Inr json \<Rightarrow>
          (case pe_send e channel json of
             Some error \<Rightarrow> (p, Inl (BrowserFailure error))
           | None \<Rightarrow> (p\<lparr>pr_sent := pr_sent p @ [(channel, ControlFrame message)]\<rparr>, Inr ())))"

text \<open>\<open>if let Ok(channel) = self.current_data_channel() { let _ = send_control_on(..) }\<close>\<close>

definition try_send :: "peer_env \<Rightarrow> control_message \<Rightarrow> rtc_peer \<Rightarrow> rtc_peer" where
  "try_send e message p =
     (case current_data_channel e p of
        Inl _ \<Rightarrow> p
      | Inr channel \<Rightarrow> fst (send_control_on e channel message p))"

text \<open>\<open>self.current_data_channel().and_then(|channel| send_control_on(..))\<close>\<close>

definition send_current ::
  "peer_env \<Rightarrow> control_message \<Rightarrow> rtc_peer \<Rightarrow> rtc_peer \<times> (browser_platform_error + unit)" where
  "send_current e message p =
     (case current_data_channel e p of
        Inl error \<Rightarrow> (p, Inl error)
      | Inr channel \<Rightarrow> send_control_on e channel message p)"

definition send_transfer_error :: "peer_env \<Rightarrow> rstring \<Rightarrow> string \<Rightarrow> string \<Rightarrow> rtc_peer \<Rightarrow> rtc_peer" where
  "send_transfer_error e transfer_id code message p =
     try_send e (ControlError CURRENT_PROTOCOL transfer_id (rstr code) (rstr message)) p"

definition connection_epoch_is_current :: "rtc_peer \<Rightarrow> u64 \<Rightarrow> bool" where
  "connection_epoch_is_current p connection_epoch \<longleftrightarrow>
     ri_connection_epoch p = connection_epoch \<and> ri_peer_connection p \<noteq> None"

definition resumable_transfer_active :: "rtc_peer \<Rightarrow> bool" where
  "resumable_transfer_active p \<longleftrightarrow>
     (case ri_outgoing p of Some outgoing \<Rightarrow> og_mode outgoing \<noteq> Buffered | None \<Rightarrow> False) \<or>
     (case ri_receive p of Some receive \<Rightarrow> io_mode (rv_offer receive) \<noteq> Buffered | None \<Rightarrow> False)"

definition rtc_peer_new :: "peer_env \<Rightarrow> rtc_config_lease \<Rightarrow> browser_platform_error + rtc_peer" where
  "rtc_peer_new e rtc_config =
     bind_result (map_err protocol_failure (version_validate (rcr_version (lease_response rtc_config)))) (\<lambda>_.
       if \<not> lease_is_valid (pe_monotonic_ms e) rtc_config then Inl RtcConfigExpired
       else Inr \<lparr>ri_rtc_config = rtc_config, ri_peer_connection = None, ri_data_channel = None, ri_target_peer = None,
         ri_negotiation_id = None, ri_connection_epoch = 0, ri_negotiating = False, ri_local_description_announced = False,
         ri_remote_description_pending = False, ri_remote_description_set = False, ri_pending_local_candidates = [],
         ri_pending_remote_candidates = [], ri_outgoing = None, ri_outgoing_text = None, ri_pending_outgoing_recovery = None,
         ri_restoring_outgoing = False, ri_incoming = None, ri_incoming_text = None, ri_receiving_text = None,
         ri_pending_recovery = None, ri_paused_receive_reason = None, ri_restoring_transfer = None, ri_receive = None,
         ri_object_url = None, pr_events = [], pr_sent = [], pr_tasks = [], pr_calls = [], pr_replies = [], pr_acks = [],
         pr_fresh = 0\<rparr>)"

definition replace_reconnect_rtc_config ::
  "peer_env \<Rightarrow> rtc_config_lease \<Rightarrow> rtc_peer \<Rightarrow> rtc_peer \<times> (browser_platform_error + unit)" where
  "replace_reconnect_rtc_config e rtc_config p =
     (case version_validate (rcr_version (lease_response rtc_config)) of
        Inl error \<Rightarrow> (p, Inl (protocol_failure error))
      | Inr _ \<Rightarrow>
          if \<not> lease_is_valid (pe_monotonic_ms e) rtc_config then (p, Inl RtcConfigExpired)
          else (p\<lparr>ri_rtc_config := rtc_config\<rparr>, Inr ()))"

section \<open>Reading a file back\<close>

text \<open>
  The bytes of a file up to a checkpoint are read and hashed segment by segment, in
  \<open>reopen_stream_file\<close> for a destination and in \<open>recover_source_file\<close> for a source. With segments of
  no bytes the loop does not end, which is the value \<open>None\<close>.
\<close>

partial_function (option) verify_segments ::
  "(u64 \<Rightarrow> u64 \<Rightarrow> browser_platform_error + u8 list) \<Rightarrow> (u8 list \<Rightarrow> rstring) \<Rightarrow> string \<Rightarrow> u32 \<Rightarrow> u64 \<Rightarrow> u64 \<Rightarrow> hasher \<Rightarrow>
   rstring option \<Rightarrow> (browser_platform_error + hasher \<times> rstring option) option" where
  "verify_segments read blake3 changed segment_bytes committed_bytes offset hasher last_segment_blake3 =
     (if offset < committed_bytes
      then let end_offset = min (saturating_add offset (ucast segment_bytes)) committed_bytes
           in case read offset end_offset of
                Inl error \<Rightarrow> Some (Inl error)
              | Inr bytes \<Rightarrow>
                  if length bytes \<noteq> unat (end_offset - offset) then Some (Inl (browser_text changed))
                  else verify_segments read blake3 changed segment_bytes committed_bytes end_offset (hasher @ bytes)
                         (Some (blake3 bytes))
      else Some (Inr (hasher, last_segment_blake3)))"

declare verify_segments.simps [code]

text \<open>The sizes the browser reports as floating-point numbers are below \<open>2 ^ 53\<close>, so they compare as integers.\<close>

definition reopen_stream_file ::
  "peer_env \<Rightarrow> nat \<Rightarrow> u64 \<Rightarrow> u64 \<Rightarrow> u32 \<Rightarrow>
   (browser_platform_error + stream_writer \<times> hasher \<times> rstring option) option" where
  "reopen_stream_file e handle committed_bytes expected_size_bytes segment_bytes =
     (case pe_get_file e handle of
        Inl error \<Rightarrow> Some (Inl error)
      | Inr file \<Rightarrow>
          if bf_size file < committed_bytes \<or> expected_size_bytes < bf_size file
          then Some (Inl (browser_text ''saved file size is outside the recovery manifest''))
          else map_option (\<lambda>result. bind_result result (\<lambda>(hasher, last_segment_blake3).
                 case pe_promise e of
                   Some error \<Rightarrow> Inl error
                 | None \<Rightarrow> Inr (\<lparr>sw_handle = handle, sw_next_offset = committed_bytes, sw_closed = False,
                               sw_resumed = hasher, sw_writes = []\<rparr>, hasher, last_segment_blake3)))
               (verify_segments (pe_slice e (bf_inner file)) (pe_blake3 e)
                  ''saved file changed while validating the recovery checkpoint'' segment_bytes committed_bytes 0 [] None))"

definition recover_source_file ::
  "peer_env \<Rightarrow> nat \<Rightarrow> rstring \<Rightarrow> rstring option \<Rightarrow> u64 \<Rightarrow> u64 \<Rightarrow> u64 \<Rightarrow> u32 \<Rightarrow>
   (browser_platform_error + nat \<times> hasher \<times> rstring option) option" where
  "recover_source_file e handle expected_name expected_mime expected_size_bytes expected_last_modified_ms committed_bytes segment_bytes =
     (case pe_get_file e handle of
        Inl error \<Rightarrow> Some (Inl error)
      | Inr file \<Rightarrow>
          if bf_name file \<noteq> expected_name \<or> (if bf_type file = [] then None else Some (bf_type file)) \<noteq> expected_mime \<or>
             bf_size file \<noteq> expected_size_bytes \<or> bf_last_modified file \<noteq> expected_last_modified_ms \<or>
             expected_size_bytes < committed_bytes
          then Some (Inl (browser_text ''source file changed after the transfer checkpoint''))
          else map_option (map_sum id (\<lambda>(hasher, last_segment_blake3). (bf_inner file, hasher, last_segment_blake3)))
                 (verify_segments (pe_slice e (bf_inner file)) (pe_blake3 e)
                    ''source file changed while validating the checkpoint'' segment_bytes committed_bytes 0 [] None))"

end
