(* ===== verification/Peer_Lifecycle.thy ===== *)
theory Peer_Lifecycle
  imports Peer_State
begin

text \<open>
  The life of the transfers of a peer (\<open>rtc/browser/lifecycle/manifest.rs\<close>, \<open>commands.rs\<close>,
  \<open>events.rs\<close>, \<open>reconnect.rs\<close>, \<open>clear_peer_resources\<close> of \<open>peer.rs\<close> and
  \<open>prepare_receive_reconnect\<close> of \<open>recovery/incoming.rs\<close>): offers and decisions, what the other
  side reports about them, and how they are abandoned, suspended or cancelled.
\<close>

section \<open>Resources\<close>

definition clear_peer_resources :: "rtc_peer \<Rightarrow> rtc_peer" where
  "clear_peer_resources p =
     p\<lparr>pr_calls := pr_calls p @ (case ri_data_channel p of None \<Rightarrow> [] | Some c \<Rightarrow> [CloseChannel c]) @
                   (case ri_peer_connection p of None \<Rightarrow> [] | Some c \<Rightarrow> [CloseConnection c]),
       ri_connection_epoch := ri_connection_epoch p + 1, ri_data_channel := None, ri_peer_connection := None,
       ri_target_peer := None, ri_negotiation_id := None, ri_negotiating := False, ri_local_description_announced := False,
       ri_remote_description_pending := False, ri_remote_description_set := False, ri_pending_local_candidates := [],
       ri_pending_remote_candidates := []\<rparr>"

definition or_else :: "'a option \<Rightarrow> 'a option \<Rightarrow> 'a option" where
  "or_else a b = (case a of None \<Rightarrow> b | Some _ \<Rightarrow> a)"

definition active_transfer_id :: "rtc_peer \<Rightarrow> rstring option" where
  "active_transfer_id p =
     or_else (map_option og_transfer_id (ri_outgoing p))
     (or_else (map_option orr_transfer_id (ri_pending_outgoing_recovery p))
     (or_else (map_option (\<lambda>r. io_transfer_id (rv_offer r)) (ri_receive p))
     (or_else (map_option io_transfer_id (ri_incoming p))
     (or_else (map_option rr_transfer_id (ri_pending_recovery p)) (ri_restoring_transfer p)))))"

definition active_text_transfer_id :: "rtc_peer \<Rightarrow> rstring option" where
  "active_text_transfer_id p =
     or_else (map_option ot_transfer_id (ri_outgoing_text p))
     (or_else (map_option it_transfer_id (ri_incoming_text p)) (map_option it_transfer_id (ri_receiving_text p)))"

definition delete_stream_later :: "bool \<Rightarrow> rstring \<Rightarrow> rtc_peer \<Rightarrow> rtc_peer" where
  "delete_stream_later doit transfer_id p =
     (if doit then spawn_local (RecoveryTask (DeleteStreamRecovery transfer_id)) p else p)"

definition delete_outgoing_later :: "rstring option \<Rightarrow> rtc_peer \<Rightarrow> rtc_peer" where
  "delete_outgoing_later peer_id p =
     (case peer_id of None \<Rightarrow> p | Some peer_id \<Rightarrow> spawn_local (RecoveryTask (DeleteOutgoingRecovery peer_id)) p)"

section \<open>Abandoning a transfer\<close>

text \<open>What \<open>clear_transfer\<close> and \<open>cancel_transfer\<close> take from the state, and what is left to delete.\<close>

definition holds :: "('a \<Rightarrow> rstring) \<Rightarrow> rstring \<Rightarrow> 'a option \<Rightarrow> bool" where
  "holds id_of transfer_id x \<longleftrightarrow> (case x of None \<Rightarrow> False | Some v \<Rightarrow> id_of v = transfer_id)"

definition cleared_recovery_peer :: "rstring \<Rightarrow> rtc_peer \<Rightarrow> rstring option" where
  "cleared_recovery_peer transfer_id p =
     (if holds orr_transfer_id transfer_id (ri_pending_outgoing_recovery p)
      then map_option orr_peer_id (ri_pending_outgoing_recovery p)
      else if holds og_transfer_id transfer_id (ri_outgoing p)
      then Option.bind (ri_outgoing p) og_recovery_peer_id
      else None)"

definition deletes_recovery :: "rstring \<Rightarrow> rtc_peer \<Rightarrow> bool" where
  "deletes_recovery transfer_id p \<longleftrightarrow>
     holds io_transfer_id transfer_id (ri_incoming p) \<or> holds rr_transfer_id transfer_id (ri_pending_recovery p) \<or>
     ri_restoring_transfer p = Some transfer_id \<or> holds (\<lambda>r. io_transfer_id (rv_offer r)) transfer_id (ri_receive p)"

definition drop_transfer :: "rstring \<Rightarrow> rtc_peer \<Rightarrow> rtc_peer" where
  "drop_transfer transfer_id p =
     p\<lparr>ri_outgoing := (if holds og_transfer_id transfer_id (ri_outgoing p) then None else ri_outgoing p),
       ri_pending_outgoing_recovery :=
         (if holds orr_transfer_id transfer_id (ri_pending_outgoing_recovery p) then None else ri_pending_outgoing_recovery p),
       ri_incoming := (if holds io_transfer_id transfer_id (ri_incoming p) then None else ri_incoming p),
       ri_pending_recovery :=
         (if holds rr_transfer_id transfer_id (ri_pending_recovery p) then None else ri_pending_recovery p),
       ri_paused_receive_reason :=
         (if holds rr_transfer_id transfer_id (ri_pending_recovery p) then None else ri_paused_receive_reason p),
       ri_restoring_transfer :=
         (if ri_restoring_transfer p = Some transfer_id then None else ri_restoring_transfer p),
       ri_receive :=
         (if holds (\<lambda>r. io_transfer_id (rv_offer r)) transfer_id (ri_receive p) then None else ri_receive p)\<rparr>"

definition clear_transfer :: "rstring \<Rightarrow> rtc_peer \<Rightarrow> rtc_peer" where
  "clear_transfer transfer_id p =
     delete_outgoing_later (cleared_recovery_peer transfer_id p)
       (delete_stream_later (deletes_recovery transfer_id p) transfer_id (drop_transfer transfer_id p))"

fun receive_aborts :: "receive_file_state list \<Rightarrow> stream_writer option list" where
  "receive_aborts files =
     map (\<lambda>_. None) (filter (\<lambda>f. fs_active_abort f \<noteq> None) files) @
     map Some (List.map_filter fs_writer files)"

definition cancel_finish :: "rstring \<Rightarrow> cancel_reason \<Rightarrow> browser_platform_error option \<Rightarrow> rtc_peer \<Rightarrow> rtc_peer" where
  "cancel_finish transfer_id reason first_error p =
     reply (CancelReply (case first_error of None \<Rightarrow> Inr () | Some error \<Rightarrow> Inl error))
       (emit (TransferCancelled transfer_id reason) p)"

definition cancel_continue ::
  "rstring \<Rightarrow> cancel_reason \<Rightarrow> browser_platform_error option \<Rightarrow> stream_writer option list \<Rightarrow> bool \<Rightarrow> rstring option \<Rightarrow>
   rtc_peer \<Rightarrow> rtc_peer" where
  "cancel_continue transfer_id reason first_error aborts delete_recovery outgoing_peer p =
     (if aborts = [] \<and> \<not> delete_recovery \<and> outgoing_peer = None then cancel_finish transfer_id reason first_error p
      else spawn_local (RecoveryTask (CancelCleanup transfer_id reason first_error aborts delete_recovery outgoing_peer)) p)"

definition cancel_transfer :: "peer_env \<Rightarrow> cancel_reason \<Rightarrow> rtc_peer \<Rightarrow> rtc_peer" where
  "cancel_transfer e reason p =
     (case active_transfer_id p of
        None \<Rightarrow> reply (CancelReply (Inr ())) p
      | Some transfer_id \<Rightarrow>
          (let (p1, first_error) =
             (case current_data_channel e p of
                Inl _ \<Rightarrow> (p, None)
              | Inr channel \<Rightarrow>
                  (case send_control_on e channel (Cancel CURRENT_PROTOCOL transfer_id reason) p of
                     (p1, Inl error) \<Rightarrow> (p1, Some error)
                   | (p1, Inr _) \<Rightarrow> (p1, None)));
               aborts = (if holds (\<lambda>r. io_transfer_id (rv_offer r)) transfer_id (ri_receive p1)
                         then (case map_option rv_payload (ri_receive p1) of
                                 Some (StreamedPayload _ _ files) \<Rightarrow> receive_aborts files
                               | _ \<Rightarrow> [])
                         else [])
           in cancel_continue transfer_id reason first_error aborts (deletes_recovery transfer_id p1)
                (cleared_recovery_peer transfer_id p1) (drop_transfer transfer_id p1)))"

text \<open>The task that awaits the aborts one after the other and then the two deletions.\<close>

definition keep_first :: "browser_platform_error option \<Rightarrow> browser_platform_error option \<Rightarrow> browser_platform_error option" where
  "keep_first first next = (case first of None \<Rightarrow> next | Some _ \<Rightarrow> first)"

fun run_cancel_cleanup ::
  "peer_env \<Rightarrow> rstring \<Rightarrow> cancel_reason \<Rightarrow> browser_platform_error option \<Rightarrow> stream_writer option list \<Rightarrow> bool \<Rightarrow> rstring option \<Rightarrow>
   rtc_peer \<Rightarrow> rtc_peer" where
  "run_cancel_cleanup e transfer_id reason first_error (abort # aborts) delete_recovery outgoing_peer p =
     (let error = (case abort of
                     None \<Rightarrow> pe_promise e
                   | Some w \<Rightarrow> (case abort_writer (pe_promise e) w of Inl error \<Rightarrow> Some error | Inr _ \<Rightarrow> None))
      in cancel_continue transfer_id reason (keep_first first_error error) aborts delete_recovery outgoing_peer p)"
| "run_cancel_cleanup e transfer_id reason first_error [] delete_recovery outgoing_peer p =
     (if delete_recovery
      then cancel_continue transfer_id reason (keep_first first_error (pe_promise e)) [] False outgoing_peer p
      else cancel_finish transfer_id reason (keep_first first_error (pe_promise e)) p)"

section \<open>Losing the connection\<close>

definition suspend_outgoing :: "outgoing_state \<Rightarrow> outgoing_state" where
  "suspend_outgoing outgoing =
     outgoing\<lparr>og_generation := saturating_add (og_generation outgoing) 1, og_accepted := False, og_stream_ready := None,
       og_sending := False, og_sent_bytes := sum_list (map ogf_committed_bytes (og_files outgoing)),
       og_pending_ack := map_option (\<lambda>pending. pending\<lparr>pk_sender := None\<rparr>) (og_pending_ack outgoing)\<rparr>"

definition reset_receive_file :: "receive_file_state \<Rightarrow> receive_file_state" where
  "reset_receive_file file =
     (if fs_writing file then file
      else file\<lparr>fs_received_bytes := fs_segment_offset file, fs_hasher := fs_committed_hasher file, fs_chunks := [],
                fs_segment_hasher := []\<rparr>)"

fun position :: "('a \<Rightarrow> bool) \<Rightarrow> 'a list \<Rightarrow> nat option" where
  "position q [] = None"
| "position q (x # xs) = (if q x then Some 0 else map_option Suc (position q xs))"

definition prepare_receive_reconnect :: "receive_state \<Rightarrow> receive_state" where
  "prepare_receive_reconnect receive0 =
     (let receive = receive0\<lparr>rv_started := False\<rparr>
      in case rv_payload receive of
           BufferedPayload _ \<Rightarrow> receive
         | StreamedPayload segment_bytes _ files0 \<Rightarrow>
             (let files = map reset_receive_file files0;
                  current = (case or_else (position fs_writing files)
                                    (position (\<lambda>(state, offer). fs_received_bytes state < tf_size_bytes (if_file offer))
                                       (zip files (io_files (rv_offer receive)))) of
                               None \<Rightarrow> length files | Some i \<Rightarrow> i)
              in receive\<lparr>rv_received_bytes := sum_list (map fs_received_bytes files),
                         rv_payload := StreamedPayload segment_bytes current files\<rparr>))"

definition suspend_stream_for_reconnect :: "rtc_peer \<Rightarrow> rtc_peer" where
  "suspend_stream_for_reconnect p =
     p\<lparr>ri_outgoing := map_option (\<lambda>out. if og_mode out \<noteq> Buffered then suspend_outgoing out else out) (ri_outgoing p),
       ri_receive := map_option (\<lambda>r. case rv_payload r of
           StreamedPayload _ _ _ \<Rightarrow> prepare_receive_reconnect r | BufferedPayload _ \<Rightarrow> r) (ri_receive p)\<rparr>"

definition prepare_reconnect :: "rtc_peer \<Rightarrow> rtc_peer" where
  "prepare_reconnect p =
     (let cancelled_text = active_text_transfer_id p;
          p1 = (if ri_outgoing_text p \<noteq> None then p\<lparr>ri_outgoing_text := None\<rparr>
                else if ri_incoming_text p \<noteq> None then p\<lparr>ri_incoming_text := None\<rparr>
                else p\<lparr>ri_receiving_text := None\<rparr>);
          (p2, c2) = (case ri_outgoing p1 of
                        None \<Rightarrow> (p1, None)
                      | Some outgoing \<Rightarrow>
                          if og_mode outgoing \<noteq> Buffered then (p1\<lparr>ri_outgoing := Some (suspend_outgoing outgoing)\<rparr>, None)
                          else (p1\<lparr>ri_outgoing := None\<rparr>, Some (og_transfer_id outgoing)));
          (p3, c3) = (case ri_receive p2 of
                        None \<Rightarrow> (p2, c2)
                      | Some receive \<Rightarrow>
                          (case rv_payload receive of
                             StreamedPayload _ _ _ \<Rightarrow> (p2\<lparr>ri_receive := Some (prepare_receive_reconnect receive)\<rparr>, c2)
                           | BufferedPayload _ \<Rightarrow> (p2\<lparr>ri_receive := None\<rparr>, Some (io_transfer_id (rv_offer receive)))));
          c4 = or_else c3 (map_option io_transfer_id (ri_incoming p3));
          p4 = clear_peer_resources (p3\<lparr>ri_incoming := None\<rparr>);
          p5 = (case c4 of None \<Rightarrow> p4 | Some transfer_id \<Rightarrow> emit (TransferCancelled transfer_id PeerClosed) p4)
      in case cancelled_text of None \<Rightarrow> p5 | Some transfer_id \<Rightarrow> emit (TextTransferCancelled transfer_id) p5)"

definition reset_peer :: "rtc_peer \<Rightarrow> rtc_peer" where
  "reset_peer p =
     (let cancelled = active_transfer_id p;
          cancelled_text = active_text_transfer_id p;
          outgoing_recovery_peer = or_else (Option.bind (ri_outgoing p) og_recovery_peer_id)
                                     (map_option orr_peer_id (ri_pending_outgoing_recovery p));
          p1 = (clear_peer_resources p)\<lparr>ri_outgoing := None, ri_outgoing_text := None, ri_pending_outgoing_recovery := None,
                 ri_restoring_outgoing := False, ri_incoming := None, ri_incoming_text := None, ri_receiving_text := None,
                 ri_pending_recovery := None, ri_paused_receive_reason := None, ri_restoring_transfer := None, ri_receive := None\<rparr>;
          p2 = (case cancelled of
                  None \<Rightarrow> p1
                | Some transfer_id \<Rightarrow>
                    emit (TransferCancelled transfer_id PeerClosed)
                      (spawn_local (RecoveryTask (DeleteStreamRecovery transfer_id)) p1));
          p3 = (case cancelled_text of None \<Rightarrow> p2 | Some transfer_id \<Rightarrow> emit (TextTransferCancelled transfer_id) p2)
      in delete_outgoing_later outgoing_recovery_peer p3)"

section \<open>Offering files\<close>

definition browser_file_mime :: "browser_file \<Rightarrow> rstring option" where
  "browser_file_mime file = (if bf_type file = [] then None else Some (bf_type file))"

definition browser_file_metadata :: "browser_file \<Rightarrow> transfer_file" where
  "browser_file_metadata file =
     \<lparr>tf_name = bf_name file, tf_mime = browser_file_mime file, tf_size_bytes = bf_size file\<rparr>"

fun batch_plan_error_text :: "batch_plan_error \<Rightarrow> rstring" where
  "batch_plan_error_text BatchInvalidFileCount =
     rstr ''select between 1 and '' @ decimal_nat MAX_FILES_PER_MANIFEST @ rstr '' files''"
| "batch_plan_error_text BatchSizeOverflow = rstr ''transfer size overflow''"
| "batch_plan_error_text BatchTooLarge =
     rstr ''files exceed the '' @ decimal_nat (unat MAX_TRANSFER_BYTES) @ rstr '' byte transfer limit''"

definition outgoing_file_new :: "browser_file \<Rightarrow> u8 list \<Rightarrow> outgoing_file_state" where
  "outgoing_file_new file file_bytes =
     \<lparr>ogf_file_bytes = file_bytes, ogf_file = browser_file_metadata file, ogf_browser_file = bf_inner file,
      ogf_source_handle = bf_source_handle file, ogf_last_modified_ms = bf_last_modified file, ogf_expected_hash = None,
      ogf_committed_bytes = 0, ogf_committed_hasher = [], ogf_last_segment_blake3 = None\<rparr>"

definition file_manifest_of :: "outgoing_file_state \<Rightarrow> file_manifest" where
  "file_manifest_of file =
     \<lparr>fm_file_id = format_binary_id ''file'' (ogf_file_bytes file), fm_name = tf_name (ogf_file file),
      fm_mime = tf_mime (ogf_file file), fm_size_bytes = tf_size_bytes (ogf_file file)\<rparr>"

definition manifest_from_outgoing :: "outgoing_state \<Rightarrow> control_message" where
  "manifest_from_outgoing outgoing =
     Manifest CURRENT_PROTOCOL (og_transfer_id outgoing) (og_mode outgoing) (map file_manifest_of (og_files outgoing))"

text \<open>Draw \<open>0\<close> is the transfer's identifier, draw \<open>Suc i\<close> that of file \<open>i\<close>.\<close>

definition prepare_outgoing ::
  "peer_env \<Rightarrow> browser_file list \<Rightarrow> rstring option \<Rightarrow>
   browser_platform_error + outgoing_state \<times> control_message \<times> transfer_file list" where
  "prepare_outgoing e files recovery_peer_id =
     (let metadata = map browser_file_metadata files
      in bind_result (map_err (\<lambda>error. BrowserFailure (batch_plan_error_text error)) (plan_transfer metadata)) (\<lambda>plan.
           let outgoing =
                 \<lparr>og_transfer_id = format_binary_id ''transfer'' (pe_random e 0), og_transfer_bytes = pe_random e 0,
                  og_mode = bp_mode plan,
                  og_files = map (\<lambda>(i, file). outgoing_file_new file (pe_random e (Suc i))) (enumerate 0 files),
                  og_total_bytes = bp_total_bytes plan, og_sent_bytes = 0, og_expected_digests = [], og_accepted = False,
                  og_stream_ready = None, og_pending_ack = None, og_generation = 0, og_sending = False, og_cancelled = False,
                  og_last_progress_ms = 0, og_max_buffered_bytes = 0, og_recovery_peer_id = recovery_peer_id,
                  og_restored_from_disk = False, og_reconciling_resume = False\<rparr>;
               message = manifest_from_outgoing outgoing
           in bind_result (map_err protocol_failure (control_message_validate message)) (\<lambda>_.
                Inr (outgoing, message, metadata))))"

definition install_and_offer_outgoing ::
  "peer_env \<Rightarrow> outgoing_state \<times> control_message \<times> transfer_file list \<Rightarrow> rtc_peer \<Rightarrow> rtc_peer \<times> (browser_platform_error + rstring)" where
  "install_and_offer_outgoing e prepared p =
     (case current_data_channel e p of
        Inl error \<Rightarrow> (p, Inl error)
      | Inr channel \<Rightarrow>
          (let (outgoing, message, metadata) = prepared
           in if ri_outgoing p \<noteq> None \<or> ri_outgoing_text p \<noteq> None \<or> ri_incoming p \<noteq> None \<or> ri_incoming_text p \<noteq> None \<or>
                 ri_receiving_text p \<noteq> None \<or> ri_receive p \<noteq> None \<or> ri_restoring_outgoing p
              then (p, Inl (browser_text ''another transfer is already active''))
              else (case send_control_on e channel message (p\<lparr>ri_outgoing := Some outgoing\<rparr>) of
                      (p1, Inl error) \<Rightarrow> (p1\<lparr>ri_outgoing := None\<rparr>, Inl error)
                    | (p1, Inr _) \<Rightarrow>
                        (emit (OutgoingOffered (og_transfer_id outgoing) (summarize_transfer_files metadata) metadata) p1,
                         Inr (og_transfer_id outgoing)))))"

definition offer_files :: "peer_env \<Rightarrow> browser_file list \<Rightarrow> rtc_peer \<Rightarrow> rtc_peer \<times> (browser_platform_error + rstring)" where
  "offer_files e files p =
     (case prepare_outgoing e files None of
        Inl error \<Rightarrow> (p, Inl error)
      | Inr prepared \<Rightarrow> install_and_offer_outgoing e prepared p)"

section \<open>Deciding on an offer\<close>

definition buffered_receive :: "incoming_offer \<Rightarrow> receive_state" where
  "buffered_receive offer =
     \<lparr>rv_offer = offer, rv_started = False, rv_received_bytes = 0, rv_payload = BufferedPayload [], rv_hasher = [],
      rv_resume_requested = False, rv_last_progress_ms = 0, rv_recovery_persisted = False, rv_generation = 0\<rparr>"

definition decide_transfer :: "peer_env \<Rightarrow> rstring \<Rightarrow> bool \<Rightarrow> rtc_peer \<Rightarrow> rtc_peer \<times> (browser_platform_error + unit)" where
  "decide_transfer e transfer_id accepted p =
     (case current_data_channel e p of
        Inl error \<Rightarrow> (p, Inl error)
      | Inr channel \<Rightarrow>
          (case ri_incoming p of
             None \<Rightarrow> (p, Inl (browser_text ''incoming transfer is no longer available''))
           | Some offer \<Rightarrow>
               if io_transfer_id offer \<noteq> transfer_id then (p, Inl (browser_text ''incoming transfer id does not match''))
               else (let p1 = p\<lparr>ri_incoming := None, ri_pending_recovery := None, ri_paused_receive_reason := None\<rparr>
                     in if accepted \<and> io_mode offer \<noteq> Buffered
                        then (p1\<lparr>ri_incoming := Some offer\<rparr>, Inl (browser_text ''streaming transfer requires a save destination''))
                        else (case send_control_on e channel (Decision CURRENT_PROTOCOL transfer_id accepted) p1 of
                                (p2, Inl error) \<Rightarrow> (p2, Inl error)
                              | (p2, Inr _) \<Rightarrow>
                                  if accepted then (p2\<lparr>ri_receive := Some (buffered_receive offer)\<rparr>, Inr ())
                                  else (spawn_local (RecoveryTask (DeleteStreamRecovery transfer_id))
                                          (emit (TransferRejected transfer_id DirReceive
                                             (summarize_transfer_files (offer_transfer_files offer)) (offer_transfer_files offer)) p2),
                                        Inr ())))))"

end
