(* ===== verification/Peer_Text.thy ===== *)
theory Peer_Text
  imports Peer_Lifecycle
begin

text \<open>
  Sending short texts over the data channel (\<open>rtc/browser/text.rs\<close>): an offer with the length of
  the text, the receiver's decision, the text itself and its receipt, with timeouts on both sides.
\<close>

section \<open>Operations\<close>

definition TEXT_DECISION_TIMEOUT_MS :: u32 where "TEXT_DECISION_TIMEOUT_MS = 30000"
definition TEXT_PAYLOAD_TIMEOUT_MS :: u32 where "TEXT_PAYLOAD_TIMEOUT_MS = 15000"

definition file_or_text_transfer_active :: "rtc_peer \<Rightarrow> bool" where
  "file_or_text_transfer_active p \<longleftrightarrow>
     ri_outgoing p \<noteq> None \<or> ri_pending_outgoing_recovery p \<noteq> None \<or> ri_restoring_outgoing p \<or> ri_incoming p \<noteq> None \<or>
     ri_pending_recovery p \<noteq> None \<or> ri_restoring_transfer p \<noteq> None \<or> ri_receive p \<noteq> None \<or> active_text_transfer_id p \<noteq> None"

definition text_fail :: "rstring option \<Rightarrow> rstring \<Rightarrow> rtc_peer \<Rightarrow> rtc_peer" where
  "text_fail transfer_id message p = emit (TextTransferFailed transfer_id message) p"

definition clear_text_transfer :: "rstring \<Rightarrow> rtc_peer \<Rightarrow> rtc_peer \<times> bool" where
  "clear_text_transfer transfer_id p =
     (p\<lparr>ri_outgoing_text := (if holds ot_transfer_id transfer_id (ri_outgoing_text p) then None else ri_outgoing_text p),
        ri_incoming_text := (if holds it_transfer_id transfer_id (ri_incoming_text p) then None else ri_incoming_text p),
        ri_receiving_text := (if holds it_transfer_id transfer_id (ri_receiving_text p) then None else ri_receiving_text p)\<rparr>,
      holds ot_transfer_id transfer_id (ri_outgoing_text p) \<or> holds it_transfer_id transfer_id (ri_incoming_text p) \<or>
      holds it_transfer_id transfer_id (ri_receiving_text p))"

definition schedule_outgoing_text_timeout :: "rstring \<Rightarrow> bool \<Rightarrow> rtc_peer \<Rightarrow> rtc_peer" where
  "schedule_outgoing_text_timeout transfer_id accepted p = spawn_local (TextTask (OutgoingTextTimeout transfer_id accepted)) p"

definition schedule_incoming_text_timeout :: "rstring \<Rightarrow> rtc_peer \<Rightarrow> rtc_peer" where
  "schedule_incoming_text_timeout transfer_id p = spawn_local (TextTask (IncomingTextTimeout transfer_id)) p"

definition offer_text :: "peer_env \<Rightarrow> rstring \<Rightarrow> rtc_peer \<Rightarrow> rtc_peer \<times> (browser_platform_error + rstring)" where
  "offer_text e txt p =
     (if 2 ^ 32 \<le> length txt then (p, Inl (browser_text ''text contains too many characters''))
      else if 2 ^ 32 \<le> str_len txt then (p, Inl (browser_text ''text payload is too large''))
      else (let character_count = of_nat (length txt); byte_length = of_nat (str_len txt);
                transfer_id = format_binary_id ''text'' (pe_random e 0);
                payload = TextPayload CURRENT_PROTOCOL transfer_id txt;
                offer = TextOffer CURRENT_PROTOCOL transfer_id character_count byte_length
            in case bind_result (map_err protocol_failure (control_message_validate payload)) (\<lambda>_.
                    bind_result (map_err protocol_failure (control_message_validate offer)) (\<lambda>_. current_data_channel e p)) of
                 Inl error \<Rightarrow> (p, Inl error)
               | Inr channel \<Rightarrow>
                   if file_or_text_transfer_active p then (p, Inl (browser_text ''another transfer is already active''))
                   else (case send_control_on e channel offer
                                (p\<lparr>ri_outgoing_text := Some \<lparr>ot_transfer_id = transfer_id, ot_text = txt, ot_accepted = False\<rparr>\<rparr>) of
                           (p1, Inl error) \<Rightarrow> (p1\<lparr>ri_outgoing_text := None\<rparr>, Inl error)
                         | (p1, Inr _) \<Rightarrow>
                             (schedule_outgoing_text_timeout transfer_id False
                                (emit (TextOutgoingOffered transfer_id character_count byte_length) p1),
                              Inr transfer_id))))"

definition decide_text :: "peer_env \<Rightarrow> rstring \<Rightarrow> bool \<Rightarrow> rtc_peer \<Rightarrow> rtc_peer \<times> (browser_platform_error + unit)" where
  "decide_text e transfer_id accepted p =
     (case current_data_channel e p of
        Inl error \<Rightarrow> (p, Inl error)
      | Inr channel \<Rightarrow>
          (case ri_incoming_text p of
             None \<Rightarrow> (p, Inl (browser_text ''incoming text is no longer available''))
           | Some offer \<Rightarrow>
               if it_transfer_id offer \<noteq> transfer_id then (p, Inl (browser_text ''incoming text id does not match''))
               else (case send_control_on e channel (TextDecision CURRENT_PROTOCOL transfer_id accepted) p of
                       (p1, Inl error) \<Rightarrow> (p1, Inl error)
                     | (p1, Inr _) \<Rightarrow>
                         (let p2 = p1\<lparr>ri_incoming_text := None\<rparr>
                          in if accepted
                             then (schedule_incoming_text_timeout transfer_id
                                     (emit (TextTransferAccepted transfer_id DirReceive) (p2\<lparr>ri_receiving_text := Some offer\<rparr>)),
                                   Inr ())
                             else (emit (TextTransferRejected transfer_id DirReceive) p2, Inr ())))))"

definition cancel_text :: "peer_env \<Rightarrow> rtc_peer \<Rightarrow> rtc_peer \<times> (browser_platform_error + unit)" where
  "cancel_text e p =
     (case active_text_transfer_id p of
        None \<Rightarrow> (p, Inr ())
      | Some transfer_id \<Rightarrow>
          (let (p1, sent) = (case current_data_channel e p of
                               Inl _ \<Rightarrow> (p, Inr ())
                             | Inr channel \<Rightarrow> send_control_on e channel (TextCancel CURRENT_PROTOCOL transfer_id) p)
           in case sent of
                Inl error \<Rightarrow> (p1, Inl error)
              | Inr _ \<Rightarrow> (emit (TextTransferCancelled transfer_id) (fst (clear_text_transfer transfer_id p1)), Inr ())))"

section \<open>Messages of the other side\<close>

definition handle_text_offer :: "peer_env \<Rightarrow> rstring \<Rightarrow> u32 \<Rightarrow> u32 \<Rightarrow> rtc_peer \<Rightarrow> rtc_peer" where
  "handle_text_offer e transfer_id character_count byte_length p =
     (if file_or_text_transfer_active p then try_send e (TextDecision CURRENT_PROTOCOL transfer_id False) p
      else (let p1 = emit (TextIncomingOffered transfer_id character_count byte_length)
                       (p\<lparr>ri_incoming_text := Some \<lparr>it_transfer_id = transfer_id, it_character_count = character_count,
                                                    it_byte_length = byte_length\<rparr>\<rparr>)
            in case decide_text e transfer_id True p1 of
                 (p2, Inr _) \<Rightarrow> p2
               | (p2, Inl error) \<Rightarrow> text_fail (Some transfer_id) (platform_error_text error) (fst (clear_text_transfer transfer_id p2))))"

definition handle_text_decision :: "peer_env \<Rightarrow> rstring \<Rightarrow> bool \<Rightarrow> rtc_peer \<Rightarrow> rtc_peer" where
  "handle_text_decision e transfer_id accepted p =
     (case ri_outgoing_text p of
        None \<Rightarrow> text_fail (Some transfer_id) (rstr ''text decision arrived without an offer'') p
      | Some outgoing \<Rightarrow>
          if ot_transfer_id outgoing \<noteq> transfer_id then text_fail (Some transfer_id) (rstr ''text decision id does not match'') p
          else if ot_accepted outgoing then text_fail (Some transfer_id) (rstr ''duplicate text decision'') p
          else if \<not> accepted then emit (TextTransferRejected transfer_id DirSend) (p\<lparr>ri_outgoing_text := None\<rparr>)
          else (let p1 = p\<lparr>ri_outgoing_text := Some (outgoing\<lparr>ot_accepted := True\<rparr>)\<rparr>
                in case send_current e (TextPayload CURRENT_PROTOCOL transfer_id (ot_text outgoing)) p1 of
                     (p2, Inl error) \<Rightarrow>
                       text_fail (Some transfer_id) (platform_error_text error) (fst (clear_text_transfer transfer_id p2))
                   | (p2, Inr _) \<Rightarrow>
                       schedule_outgoing_text_timeout transfer_id True (emit (TextTransferAccepted transfer_id DirSend) p2)))"

definition handle_text_payload :: "peer_env \<Rightarrow> rstring \<Rightarrow> rstring \<Rightarrow> rtc_peer \<Rightarrow> rtc_peer" where
  "handle_text_payload e transfer_id txt p =
     (case ri_receiving_text p of
        None \<Rightarrow> text_fail (Some transfer_id) (rstr ''text payload arrived before acceptance'') p
      | Some offer \<Rightarrow>
          if it_transfer_id offer \<noteq> transfer_id then text_fail (Some transfer_id) (rstr ''text payload id does not match'') p
          else (let p1 = p\<lparr>ri_receiving_text := None\<rparr>
                in if length txt \<noteq> unat (it_character_count offer) \<or> str_len txt \<noteq> unat (it_byte_length offer)
                   then try_send e (TextCancel CURRENT_PROTOCOL transfer_id)
                          (text_fail (Some transfer_id) (rstr ''text payload metadata does not match'') p1)
                   else if MAX_TEXT_TRANSFER_CHARS < length txt \<or> MAX_TEXT_TRANSFER_BYTES < str_len txt
                   then text_fail (Some transfer_id) (rstr ''text payload exceeds the supported limit'') p1
                   else emit (TextTransferReceived transfer_id txt) (try_send e (TextReceipt CURRENT_PROTOCOL transfer_id) p1)))"

definition handle_text_receipt :: "rstring \<Rightarrow> rtc_peer \<Rightarrow> rtc_peer" where
  "handle_text_receipt transfer_id p =
     (case ri_outgoing_text p of
        Some outgoing \<Rightarrow>
          if ot_transfer_id outgoing = transfer_id \<and> ot_accepted outgoing
          then emit (TextTransferDelivered transfer_id) (p\<lparr>ri_outgoing_text := None\<rparr>)
          else text_fail (Some transfer_id) (rstr ''text receipt does not match an active transfer'') p
      | None \<Rightarrow> text_fail (Some transfer_id) (rstr ''text receipt does not match an active transfer'') p)"

definition handle_text_cancel :: "rstring \<Rightarrow> rtc_peer \<Rightarrow> rtc_peer" where
  "handle_text_cancel transfer_id p =
     (case clear_text_transfer transfer_id p of
        (p1, True) \<Rightarrow> emit (TextTransferCancelled transfer_id) p1
      | (p1, False) \<Rightarrow> p1)"

section \<open>Timeouts\<close>

definition timeout_text_transfer :: "peer_env \<Rightarrow> rstring \<Rightarrow> rtc_peer \<Rightarrow> rtc_peer" where
  "timeout_text_transfer e transfer_id p =
     (case clear_text_transfer transfer_id (try_send e (TextCancel CURRENT_PROTOCOL transfer_id) p) of
        (p1, True) \<Rightarrow> text_fail (Some transfer_id) (rstr ''text transfer timed out'') p1
      | (p1, False) \<Rightarrow> p1)"

fun run_text_task :: "peer_env \<Rightarrow> text_task \<Rightarrow> rtc_peer \<Rightarrow> rtc_peer" where
  "run_text_task e (OutgoingTextTimeout transfer_id accepted) p =
     (case ri_outgoing_text p of
        Some state \<Rightarrow> if ot_transfer_id state = transfer_id \<and> ot_accepted state = accepted
                     then timeout_text_transfer e transfer_id p else p
      | None \<Rightarrow> p)"
| "run_text_task e (IncomingTextTimeout transfer_id) p =
     (if holds it_transfer_id transfer_id (ri_receiving_text p) then timeout_text_transfer e transfer_id p else p)"

end
