(* ===== verification/Peer_Receive.thy ===== *)
theory Peer_Receive
  imports Peer_Lifecycle
begin

text \<open>
  Receiving files (\<open>rtc/browser/incoming.rs\<close>): chunks, segment commits with the tasks that write
  them, pauses of the storage, and the verification that ends a transfer.
\<close>

section \<open>Chunks\<close>

definition PROGRESS_INTERVAL_MS :: int where "PROGRESS_INTERVAL_MS = 50"

definition segment_end :: "u32 \<Rightarrow> u64 \<Rightarrow> receive_file_state \<Rightarrow> u64" where
  "segment_end segment_bytes size_bytes file = min (saturating_add (fs_segment_offset file) (ucast segment_bytes)) size_bytes"

definition accept_file_chunk ::
  "u8 list \<Rightarrow> incoming_file \<Rightarrow> u32 \<Rightarrow> binary_chunk_header \<Rightarrow> u8 list \<Rightarrow> receive_file_state \<Rightarrow> receive_file_state option" where
  "accept_file_chunk transfer_bytes offer_file segment_bytes header payload file =
     (if fs_writing file then None
      else map_option (\<lambda>next. file\<lparr>fs_hasher := fs_hasher file @ payload, fs_segment_hasher := fs_segment_hasher file @ payload,
                                   fs_received_bytes := next, fs_chunks := fs_chunks file @ [payload]\<rparr>)
             (next_offset \<lparr>cb_transfer_id = transfer_bytes, cb_file_id = if_file_bytes offer_file,
                           cb_offset = fs_received_bytes file,
                           cb_upper_bound = segment_end segment_bytes (tf_size_bytes (if_file offer_file)) file\<rparr>
                header (length payload)))"

definition accept_chunk :: "binary_chunk_header \<Rightarrow> u8 list \<Rightarrow> receive_state \<Rightarrow> receive_state option" where
  "accept_chunk header payload receive =
     (if \<not> rv_started receive \<or> bh_transfer_id header \<noteq> io_transfer_bytes (rv_offer receive) then None
      else case rv_payload receive of
        BufferedPayload chunks \<Rightarrow>
          (case io_files (rv_offer receive) of
             [] \<Rightarrow> None
           | offer_file # _ \<Rightarrow>
               map_option (\<lambda>next. receive\<lparr>rv_hasher := rv_hasher receive @ payload, rv_received_bytes := next,
                                          rv_payload := BufferedPayload (chunks @ [payload])\<rparr>)
                 (next_offset \<lparr>cb_transfer_id = io_transfer_bytes (rv_offer receive), cb_file_id = if_file_bytes offer_file,
                               cb_offset = rv_received_bytes receive, cb_upper_bound = tf_size_bytes (if_file offer_file)\<rparr>
                    header (length payload)))
      | StreamedPayload segment_bytes current files \<Rightarrow>
          if current < length (io_files (rv_offer receive)) \<and> current < length files
          then map_option (\<lambda>file. receive\<lparr>rv_received_bytes := rv_received_bytes receive + of_nat (length payload),
                                          rv_payload := StreamedPayload segment_bytes current (files[current := file])\<rparr>)
                 (accept_file_chunk (io_transfer_bytes (rv_offer receive)) (io_files (rv_offer receive) ! current)
                    segment_bytes header payload (files ! current))
          else None)"

definition INVALID_CHUNK_MESSAGE :: rstring where
  "INVALID_CHUNK_MESSAGE = [0x6587, 0x4EF6, 0x5206, 0x5757, 0x987A, 0x5E8F, 0x6216, 0x957F, 0x5EA6, 0x65E0, 0x6548]"

definition report_progress :: "peer_env \<Rightarrow> receive_state \<Rightarrow> receive_state \<times> rtc_event option" where
  "report_progress e receive =
     (let total_bytes = offer_total_bytes (rv_offer receive)
      in if PROGRESS_INTERVAL_MS \<le> pe_now_ms e - rv_last_progress_ms receive \<or> rv_received_bytes receive = total_bytes
         then (receive\<lparr>rv_last_progress_ms := pe_now_ms e\<rparr>,
               Some (TransferProgress (io_transfer_id (rv_offer receive)) DirReceive (rv_received_bytes receive) total_bytes))
         else (receive, None))"

definition handle_binary :: "peer_env \<Rightarrow> u8 list \<Rightarrow> rtc_peer \<Rightarrow> rtc_peer" where
  "handle_binary e frame p =
     (case decode_binary_chunk frame of
        Inl _ \<Rightarrow> fail None (rstr ''invalid binary transfer frame'') p
      | Inr (header, payload) \<Rightarrow>
          (case ri_receive p of
             None \<Rightarrow>
               if (case ri_incoming p of Some offer \<Rightarrow> io_transfer_bytes offer = bh_transfer_id header | None \<Rightarrow> False) \<and>
                  ri_pending_recovery p \<noteq> None
               then p
               else fail None (rstr ''binary frame arrived without an accepted transfer'') p
           | Some receive \<Rightarrow>
               (case accept_chunk header payload receive of
                  None \<Rightarrow>
                    (let transfer_id = io_transfer_id (rv_offer receive)
                     in fail (Some transfer_id) INVALID_CHUNK_MESSAGE
                          (send_transfer_error e transfer_id ''invalid_chunk'' ''binary chunk order or bounds are invalid''
                            (clear_transfer transfer_id p)))
                | Some receive1 \<Rightarrow>
                    (case report_progress e receive1 of
                       (receive2, None) \<Rightarrow> p\<lparr>ri_receive := Some receive2\<rparr>
                     | (receive2, Some event) \<Rightarrow> emit event (p\<lparr>ri_receive := Some receive2\<rparr>)))))"

section \<open>Committing a segment\<close>

definition receive_generation_matches :: "rtc_peer \<Rightarrow> rstring \<Rightarrow> u64 \<Rightarrow> bool" where
  "receive_generation_matches p transfer_id generation \<longleftrightarrow>
     (case ri_receive p of
        None \<Rightarrow> False
      | Some receive \<Rightarrow> io_transfer_id (rv_offer receive) = transfer_id \<and> rv_generation receive = generation)"

definition prepare_commit ::
  "peer_env \<Rightarrow> rstring \<Rightarrow> rstring \<Rightarrow> u64 \<Rightarrow> u64 \<Rightarrow> u32 \<Rightarrow> rstring \<Rightarrow> rtc_peer \<Rightarrow>
   string + receive_state \<times> commit_job \<times> stream_writer \<times> u8 list" where
  "prepare_commit e transfer_id file_id segment_index offset bytes blake3 p =
     bind_result (ok_or ''segment commit has no active receiver'' (ri_receive p)) (\<lambda>receive.
       if io_transfer_id (rv_offer receive) \<noteq> transfer_id then Inl ''segment commit id does not match''
       else case rv_payload receive of
         BufferedPayload _ \<Rightarrow> Inl ''segment commit was sent for a buffered transfer''
       | StreamedPayload segment_bytes file_index files \<Rightarrow>
           if length (io_files (rv_offer receive)) \<le> file_index then Inl ''segment commit file is unavailable''
           else if length files \<le> file_index then Inl ''segment receiver is unavailable''
           else (let offer_file = io_files (rv_offer receive) ! file_index; file = files ! file_index;
                     expected_end = segment_end segment_bytes (tf_size_bytes (if_file offer_file)) file
                 in if parse_binary_id file_id ''file'' \<noteq> Some (if_file_bytes offer_file) \<or> fs_writing file \<or>
                       fs_segment_index file \<noteq> segment_index \<or> fs_segment_offset file \<noteq> offset \<or>
                       fs_received_bytes file \<noteq> expected_end \<or>
                       ucast bytes \<noteq> fs_received_bytes file - fs_segment_offset file \<or>
                       pe_blake3 e (fs_segment_hasher file) \<noteq> blake3
                    then Inl ''segment commit bounds or hash do not match''
                    else bind_result (ok_or ''streaming writer is unavailable'' (fs_writer file)) (\<lambda>writer.
                      Inr (receive\<lparr>rv_payload := StreamedPayload segment_bytes file_index
                             (files[file_index := file\<lparr>fs_writer := None,
                                fs_active_abort := (if sw_closed writer then None else Some (sw_handle writer)),
                                fs_chunks := [], fs_segment_hasher := [], fs_writing := True\<rparr>])\<rparr>,
                           \<lparr>cj_transfer_id = transfer_id, cj_file_id = file_id, cj_segment_index = segment_index,
                            cj_offset = offset, cj_blake3 = blake3, cj_committed_bytes = expected_end,
                            cj_file_index = file_index, cj_recovery_persisted = rv_recovery_persisted receive,
                            cj_generation = rv_generation receive\<rparr>,
                           writer, concat (fs_chunks file)))))"

definition INVALID_SEGMENT_MESSAGE :: rstring where
  "INVALID_SEGMENT_MESSAGE = [0x6587, 0x4EF6, 0x5206, 0x6BB5, 0x6821, 0x9A8C, 0x5931, 0x8D25]"

definition handle_segment_commit ::
  "peer_env \<Rightarrow> rstring \<Rightarrow> rstring \<Rightarrow> u64 \<Rightarrow> u64 \<Rightarrow> u32 \<Rightarrow> rstring \<Rightarrow> rtc_peer \<Rightarrow> rtc_peer" where
  "handle_segment_commit e transfer_id file_id segment_index offset bytes blake3 p =
     (case prepare_commit e transfer_id file_id segment_index offset bytes blake3 p of
        Inl message \<Rightarrow>
          fail (Some transfer_id) INVALID_SEGMENT_MESSAGE
            (send_transfer_error e transfer_id ''invalid_segment'' message (clear_transfer transfer_id p))
      | Inr (receive, job, writer, segment_data) \<Rightarrow>
          spawn_local (SegmentTask (SegmentWrite job writer segment_data)) (p\<lparr>ri_receive := Some receive\<rparr>))"

section \<open>Writing the segment\<close>

definition pause_stream_receive :: "rstring \<Rightarrow> stream_writer \<Rightarrow> u64 \<Rightarrow> stream_pause_reason \<Rightarrow> rtc_peer \<Rightarrow> rtc_peer" where
  "pause_stream_receive transfer_id writer generation reason p =
     spawn_local (SegmentTask (PauseAbort transfer_id writer generation reason)) p"

definition storage_failure ::
  "peer_env \<Rightarrow> commit_job \<Rightarrow> stream_writer \<Rightarrow> browser_platform_error \<Rightarrow> string \<Rightarrow> string \<Rightarrow> rtc_peer \<Rightarrow> rtc_peer" where
  "storage_failure e job writer error code message p =
     (if \<not> receive_generation_matches p (cj_transfer_id job) (cj_generation job) then p
      else case recoverable_stream_pause_reason error of
        Some reason \<Rightarrow> pause_stream_receive (cj_transfer_id job) writer (cj_generation job) reason p
      | None \<Rightarrow>
          fail (Some (cj_transfer_id job)) (platform_error_text error)
            (send_transfer_error e (cj_transfer_id job) code message (clear_transfer (cj_transfer_id job) p)))"

definition stream_resume_cursors :: "incoming_offer \<Rightarrow> receive_file_state list \<Rightarrow> resume_cursor list" where
  "stream_resume_cursors offer files =
     map (\<lambda>(offer, state). \<lparr>rc_file_id = format_binary_id ''file'' (if_file_bytes offer),
            rc_committed_bytes = fs_segment_offset state, rc_last_segment_blake3 = fs_last_segment_blake3 state\<rparr>)
       (zip (io_files offer) files)"

definition send_stream_resume :: "peer_env \<Rightarrow> rstring \<Rightarrow> rtc_peer \<Rightarrow> rtc_peer \<times> (browser_platform_error + unit)" where
  "send_stream_resume e transfer_id p =
     (case ri_receive p of
        None \<Rightarrow> (p, Inl (browser_text ''streaming receiver is unavailable''))
      | Some receive \<Rightarrow>
          if io_transfer_id (rv_offer receive) \<noteq> transfer_id
          then (p, Inl (browser_text ''streaming receiver id does not match''))
          else (case rv_payload receive of
                  BufferedPayload _ \<Rightarrow> (p, Inl (browser_text ''streaming receiver mode does not match''))
                | StreamedPayload segment_bytes _ files \<Rightarrow>
                    (case current_data_channel e p of
                       Inl error \<Rightarrow> (p, Inl error)
                     | Inr channel \<Rightarrow>
                         (case send_control_on e channel (Decision CURRENT_PROTOCOL transfer_id True) p of
                            (p1, Inl error) \<Rightarrow> (p1, Inl error)
                          | (p1, Inr _) \<Rightarrow>
                              send_control_on e channel
                                (StreamReady CURRENT_PROTOCOL transfer_id (of_nat DEFAULT_STREAM_CHUNK_BYTES)
                                   (min DEFAULT_STREAM_ACK_WINDOW_BYTES (ucast segment_bytes))
                                   (stream_resume_cursors (rv_offer receive) files)) p1))))"

definition recovery_record_from_receive :: "receive_state \<Rightarrow> rstring \<Rightarrow> stream_recovery_record option" where
  "recovery_record_from_receive receive peer_id =
     (case rv_payload receive of
        BufferedPayload _ \<Rightarrow> None
      | StreamedPayload segment_bytes _ files \<Rightarrow>
          if list_ex (\<lambda>(_, state). fs_writer state = None) (zip (io_files (rv_offer receive)) files) then None
          else Some \<lparr>rr_transfer_id = io_transfer_id (rv_offer receive), rr_peer_id = peer_id, rr_segment_bytes = segment_bytes,
                 rr_files = map (\<lambda>(offer, state).
                   \<lparr>rf_file_id = format_binary_id ''file'' (if_file_bytes offer), rf_name = tf_name (if_file offer),
                    rf_mime = tf_mime (if_file offer), rf_size_bytes = tf_size_bytes (if_file offer),
                    rf_handle = (case fs_writer state of Some w \<Rightarrow> sw_handle w | None \<Rightarrow> 0),
                    rf_committed_bytes = fs_segment_offset state, rf_last_segment_blake3 = fs_last_segment_blake3 state\<rparr>)
                   (zip (io_files (rv_offer receive)) files)\<rparr>)"

text \<open>The next file with bytes after a finished one.\<close>

definition next_file_index :: "incoming_offer \<Rightarrow> nat \<Rightarrow> nat" where
  "next_file_index offer file_index =
     (case position (\<lambda>file. 0 < tf_size_bytes (if_file file)) (drop (file_index + 1) (io_files offer)) of
        None \<Rightarrow> length (io_files offer)
      | Some i \<Rightarrow> file_index + 1 + i)"

definition commit_file :: "commit_job \<Rightarrow> stream_writer \<Rightarrow> receive_file_state \<Rightarrow> receive_file_state" where
  "commit_file job writer file =
     file\<lparr>fs_writer := Some writer, fs_active_abort := None, fs_segment_index := fs_segment_index file + 1,
          fs_segment_offset := cj_committed_bytes job, fs_committed_hasher := fs_hasher file,
          fs_last_segment_blake3 := Some (cj_blake3 job), fs_writing := False\<rparr>"

text \<open>
  The file index of a job is inside the offer: the lists have one length from the start of a
  transfer, and the job was made for an existing file.
\<close>

definition restore_segment :: "commit_job \<Rightarrow> stream_writer \<Rightarrow> receive_state \<Rightarrow> receive_state option" where
  "restore_segment job writer receive =
     (case rv_payload receive of
        BufferedPayload _ \<Rightarrow> None
      | StreamedPayload segment_bytes current files \<Rightarrow>
          (let file = files ! cj_file_index job
           in if fs_segment_index file \<noteq> cj_segment_index job \<or> \<not> fs_writing file then None
              else Some (receive\<lparr>rv_payload := StreamedPayload segment_bytes
                           (if cj_committed_bytes job = tf_size_bytes (if_file (io_files (rv_offer receive) ! cj_file_index job))
                            then next_file_index (rv_offer receive) (cj_file_index job) else current)
                           (files[cj_file_index job := commit_file job writer file]),
                         rv_resume_requested := False\<rparr>)))"

definition acknowledge_segment :: "peer_env \<Rightarrow> commit_job \<Rightarrow> bool \<Rightarrow> rtc_peer \<Rightarrow> rtc_peer" where
  "acknowledge_segment e job resume_requested p =
     (if \<not> receive_generation_matches p (cj_transfer_id job) (cj_generation job) then p
      else if resume_requested
      then (case send_stream_resume e (cj_transfer_id job) p of
              (p1, Inr _) \<Rightarrow> p1
            | (p1, Inl error) \<Rightarrow> fail (Some (cj_transfer_id job)) (platform_error_text error) p1)
      else (case send_current e (SegmentAck CURRENT_PROTOCOL (cj_transfer_id job) (cj_file_id job) (cj_segment_index job)
                                   (cj_committed_bytes job) (cj_blake3 job)) p of
              (p1, Inr _) \<Rightarrow> p1
            | (p1, Inl error) \<Rightarrow>
                if reconnectable_channel_error error
                then emit (ConnectionState ConnClosed) (suspend_stream_for_reconnect p1)
                else fail (Some (cj_transfer_id job)) (platform_error_text error) p1))"

definition segment_written :: "peer_env \<Rightarrow> commit_job \<Rightarrow> stream_writer \<Rightarrow> rtc_peer \<Rightarrow> rtc_peer" where
  "segment_written e job writer p =
     (case ri_receive p of
        None \<Rightarrow> p
      | Some receive \<Rightarrow>
          if (case rv_payload receive of
                StreamedPayload _ _ files \<Rightarrow> length files \<le> cj_file_index job | BufferedPayload _ \<Rightarrow> False) \<and>
             io_transfer_id (rv_offer receive) = cj_transfer_id job \<and> rv_generation receive = cj_generation job
          then p
          else (case (if io_transfer_id (rv_offer receive) \<noteq> cj_transfer_id job \<or> rv_generation receive \<noteq> cj_generation job
                      then None else restore_segment job writer receive) of
                  None \<Rightarrow> fail (Some (cj_transfer_id job)) (rstr ''streaming receiver state changed while writing'')
                           (clear_transfer (cj_transfer_id job) p)
                | Some receive1 \<Rightarrow>
                    (let p1 = p\<lparr>ri_receive := Some receive1\<rparr>;
                         resume_requested = rv_resume_requested receive
                     in case (if rv_recovery_persisted receive
                              then Option.bind (ri_target_peer p) (recovery_record_from_receive receive1) else None) of
                          Some recovery \<Rightarrow> spawn_local (SegmentTask (SegmentSave job resume_requested recovery)) p1
                        | None \<Rightarrow> acknowledge_segment e job resume_requested p1)))"

section \<open>Pausing a receiver\<close>

definition stream_recovery_matches :: "incoming_offer \<Rightarrow> rstring \<Rightarrow> stream_recovery_record \<Rightarrow> bool" where
  "stream_recovery_matches offer peer_id recovery \<longleftrightarrow>
     (case io_mode offer of
        Buffered \<Rightarrow> False
      | Streamed segment_bytes \<Rightarrow>
          rr_transfer_id recovery = io_transfer_id offer \<and> rr_peer_id recovery = peer_id \<and>
          rr_segment_bytes recovery = segment_bytes \<and> length (rr_files recovery) = length (io_files offer) \<and>
          list_all (\<lambda>(offer, recovery). rf_file_id recovery = format_binary_id ''file'' (if_file_bytes offer) \<and>
              rf_name recovery = tf_name (if_file offer) \<and> rf_mime recovery = tf_mime (if_file offer) \<and>
              rf_size_bytes recovery = tf_size_bytes (if_file offer)) (zip (io_files offer) (rr_files recovery)) \<and>
          validate_checkpoint_prefix segment_bytes
            (map (\<lambda>file. \<lparr>cp_file_id = rf_file_id file, cp_size_bytes = rf_size_bytes file,
                          cp_committed_bytes = rf_committed_bytes file,
                          cp_last_segment_blake3 = rf_last_segment_blake3 file\<rparr>) (rr_files recovery)) = Inr ())"

definition CHECKPOINT_LOST_MESSAGE :: rstring where
  "CHECKPOINT_LOST_MESSAGE = [0x65E0, 0x6CD5, 0x4FDD, 0x7559, 0x5DF2, 0x6821, 0x9A8C, 0x7684, 0x78C1, 0x76D8, 0x68C0, 0x67E5, 0x70B9]"

definition finish_pause :: "peer_env \<Rightarrow> rstring \<Rightarrow> stream_pause_reason \<Rightarrow> u64 \<Rightarrow> u64 \<Rightarrow> rtc_peer \<Rightarrow> rtc_peer" where
  "finish_pause e transfer_id reason completed_bytes total_bytes p =
     (if \<not> (holds io_transfer_id transfer_id (ri_incoming p) \<and> holds rr_transfer_id transfer_id (ri_pending_recovery p)) then p
      else emit (TransferPaused transfer_id DirReceive reason completed_bytes total_bytes)
             (try_send e (StreamPaused CURRENT_PROTOCOL transfer_id reason) p))"

definition abort_idle_writers ::
  "peer_env \<Rightarrow> rstring \<Rightarrow> stream_pause_reason \<Rightarrow> u64 \<Rightarrow> u64 \<Rightarrow> stream_writer list \<Rightarrow> rtc_peer \<Rightarrow> rtc_peer" where
  "abort_idle_writers e transfer_id reason completed_bytes total_bytes writers p =
     (if writers = [] then finish_pause e transfer_id reason completed_bytes total_bytes p
      else spawn_local (SegmentTask (PauseIdleWriters transfer_id reason completed_bytes total_bytes writers)) p)"

definition pause_loaded :: "peer_env \<Rightarrow> rstring \<Rightarrow> u64 \<Rightarrow> stream_pause_reason \<Rightarrow> rtc_peer \<Rightarrow> rtc_peer" where
  "pause_loaded e transfer_id generation reason p =
     (case pe_load_stream e of
        Inr (Some recovery) \<Rightarrow>
          if \<not> receive_generation_matches p transfer_id generation then p
          else (case ri_receive p of
                  None \<Rightarrow> p
                | Some receive \<Rightarrow>
                    if io_transfer_id (rv_offer receive) \<noteq> transfer_id \<or> rv_generation receive \<noteq> generation \<or>
                       \<not> (case ri_target_peer p of
                            None \<Rightarrow> False
                          | Some peer_id \<Rightarrow> stream_recovery_matches (rv_offer receive) peer_id recovery)
                    then p
                    else abort_idle_writers e transfer_id reason (sum_list (map rf_committed_bytes (rr_files recovery)))
                           (offer_total_bytes (rv_offer receive))
                           (case rv_payload receive of
                              StreamedPayload _ _ files \<Rightarrow> List.map_filter fs_writer files
                            | BufferedPayload _ \<Rightarrow> [])
                           (p\<lparr>ri_receive := None, ri_incoming := Some (rv_offer receive), ri_pending_recovery := Some recovery,
                              ri_paused_receive_reason := Some reason\<rparr>))
      | _ \<Rightarrow>
          fail (Some transfer_id) CHECKPOINT_LOST_MESSAGE
            (send_transfer_error e transfer_id ''recovery_checkpoint_missing''
               ''receiver could not preserve the last durable checkpoint'' (clear_transfer transfer_id p)))"

section \<open>Finishing\<close>

definition INTEGRITY_MESSAGE :: rstring where
  "INTEGRITY_MESSAGE = [0x6587, 0x4EF6, 0x5B8C, 0x6574, 0x6027, 0x6821, 0x9A8C, 0x5931, 0x8D25]"

definition MISSING_FILE_MESSAGE :: rstring where
  "MISSING_FILE_MESSAGE = [0x63A5, 0x6536, 0x6587, 0x4EF6, 0x4FE1, 0x606F, 0x7F3A, 0x5931]"

definition MODE_MESSAGE :: rstring where
  "MODE_MESSAGE = [0x63A5, 0x6536, 0x6A21, 0x5F0F, 0x4E0D, 0x5339, 0x914D]"

definition BLOB_MESSAGE :: rstring where
  "BLOB_MESSAGE = [0x65E0, 0x6CD5, 0x521B, 0x5EFA, 0x63A5, 0x6536, 0x6587, 0x4EF6]"

definition URL_MESSAGE :: rstring where
  "URL_MESSAGE = [0x65E0, 0x6CD5, 0x521B, 0x5EFA, 0x6587, 0x4EF6, 0x4E0B, 0x8F7D, 0x5730, 0x5740]"

definition stream_file_verified :: "peer_env \<Rightarrow> incoming_file \<Rightarrow> receive_file_state \<Rightarrow> file_digest \<Rightarrow> bool" where
  "stream_file_verified e offer state digest \<longleftrightarrow>
     fs_received_bytes state = tf_size_bytes (if_file offer) \<and> fs_segment_offset state = tf_size_bytes (if_file offer) \<and>
     fs_chunks state = [] \<and> \<not> fs_writing state \<and> parse_binary_id (dg_file_id digest) ''file'' = Some (if_file_bytes offer) \<and>
     dg_size_bytes digest = tf_size_bytes (if_file offer) \<and> dg_blake3 digest = pe_blake3 e (fs_hasher state)"

definition stream_verified :: "peer_env \<Rightarrow> rstring \<Rightarrow> u64 \<Rightarrow> file_digest list \<Rightarrow> receive_state \<Rightarrow> bool" where
  "stream_verified e transfer_id total_bytes digests receive \<longleftrightarrow>
     io_transfer_id (rv_offer receive) = transfer_id \<and> io_mode (rv_offer receive) \<noteq> Buffered \<and>
     length digests = length (io_files (rv_offer receive)) \<and> total_bytes = offer_total_bytes (rv_offer receive) \<and>
     rv_received_bytes receive = total_bytes \<and> digests \<noteq> [] \<and>
     (case rv_payload receive of
        BufferedPayload _ \<Rightarrow> False
      | StreamedPayload _ _ files \<Rightarrow>
          list_all (\<lambda>((offer, state), digest). stream_file_verified e offer state digest)
            (zip (zip (io_files (rv_offer receive)) files) digests))"

definition finish_stream_receive :: "peer_env \<Rightarrow> rstring \<Rightarrow> u64 \<Rightarrow> file_digest list \<Rightarrow> rtc_peer \<Rightarrow> rtc_peer" where
  "finish_stream_receive e transfer_id total_bytes digests p =
     (case ri_receive p of
        None \<Rightarrow> p
      | Some receive \<Rightarrow>
          (let p1 = p\<lparr>ri_receive := None\<rparr>;
               writers = (case rv_payload receive of
                            StreamedPayload _ _ files \<Rightarrow> List.map_filter fs_writer files | BufferedPayload _ \<Rightarrow> []);
               transfer_files = offer_transfer_files (rv_offer receive)
           in if \<not> stream_verified e transfer_id total_bytes digests receive \<or>
                 length writers \<noteq> length (io_files (rv_offer receive))
              then fail (Some transfer_id) INTEGRITY_MESSAGE
                     (send_transfer_error e transfer_id ''integrity_mismatch'' ''streamed bytes failed integrity verification'' p1)
              else spawn_local (SegmentTask (FinishClose
                     \<lparr>fj_transfer_id = transfer_id, fj_total_bytes = total_bytes, fj_digests = digests,
                      fj_transfer_files = transfer_files, fj_summary = summarize_transfer_files transfer_files,
                      fj_batch_hash = batch_blake3 (pe_blake3 e) digests\<rparr> writers)) p1))"

definition finish_signal :: "peer_env \<Rightarrow> finish_job \<Rightarrow> rtc_peer \<Rightarrow> rtc_peer" where
  "finish_signal e job p =
     (let (p1, completion_signal) =
            send_current e (StreamComplete CURRENT_PROTOCOL (fj_transfer_id job) (fj_total_bytes job) (fj_digests job)) p;
          signal_outcome = (case completion_signal of
                              Inr _ \<Rightarrow> Enqueued
                            | Inl error \<Rightarrow> if reconnectable_channel_error error then ReconnectableFailure else FatalFailure)
      in case completion_action_of signal_outcome of
           AttemptRecoveryCleanupAndComplete \<Rightarrow> spawn_local (SegmentTask (FinishForget job 0)) p1
         | PreserveRecoveryAndReconnect \<Rightarrow> emit (ConnectionState ConnClosed) (suspend_stream_for_reconnect p1)
         | PreserveRecoveryAndFail \<Rightarrow>
             (case completion_signal of
                Inl error \<Rightarrow> fail (Some (fj_transfer_id job)) (platform_error_text error) p1
              | Inr _ \<Rightarrow> p1))"

text \<open>The deletion of the recovery record is tried again after the delays of \<open>finalization.rs\<close>; when
  it fails for good only a warning is written to the console.\<close>

definition finish_forget :: "peer_env \<Rightarrow> finish_job \<Rightarrow> u8 \<Rightarrow> rtc_peer \<Rightarrow> rtc_peer" where
  "finish_forget e job failed_attempts p =
     (let completed = emit (TransferCompleted (fj_transfer_id job) DirReceive (fj_summary job) (fj_transfer_files job)
                              (fj_batch_hash job) None) p
      in case pe_promise e of
           None \<Rightarrow> completed
         | Some _ \<Rightarrow>
             (case recovery_cleanup_retry_delay_ms (saturating_add failed_attempts 1) of
                None \<Rightarrow> completed
              | Some _ \<Rightarrow> spawn_local (SegmentTask (FinishForget job (saturating_add failed_attempts 1))) p))"

definition finish_receive :: "peer_env \<Rightarrow> rstring \<Rightarrow> u64 \<Rightarrow> rstring \<Rightarrow> rtc_peer \<Rightarrow> rtc_peer" where
  "finish_receive e transfer_id bytes blake3 p =
     (case ri_receive p of
        None \<Rightarrow> p
      | Some receive \<Rightarrow>
          (let p1 = p\<lparr>ri_receive := None\<rparr>
           in case io_files (rv_offer receive) of
                [] \<Rightarrow> fail (Some transfer_id) MISSING_FILE_MESSAGE p1
              | offer_file # rest \<Rightarrow>
                  if io_transfer_id (rv_offer receive) \<noteq> transfer_id \<or> io_mode (rv_offer receive) \<noteq> Buffered \<or>
                     rv_received_bytes receive \<noteq> bytes \<or> rest \<noteq> [] \<or> bytes \<noteq> tf_size_bytes (if_file offer_file) \<or>
                     pe_blake3 e (rv_hasher receive) \<noteq> blake3
                  then fail (Some transfer_id) INTEGRITY_MESSAGE
                         (send_transfer_error e transfer_id ''integrity_mismatch'' ''received bytes failed integrity verification'' p1)
                  else (case rv_payload receive of
                          StreamedPayload _ _ _ \<Rightarrow> fail (Some transfer_id) MODE_MESSAGE p1
                        | BufferedPayload chunks \<Rightarrow>
                            (case pe_object_url e chunks
                                    (case tf_mime (if_file offer_file) of
                                       Some mime \<Rightarrow> mime | None \<Rightarrow> rstr ''application/octet-stream'') of
                               Inl BlobNotCreated \<Rightarrow> fail (Some transfer_id) BLOB_MESSAGE p1
                             | Inl UrlNotCreated \<Rightarrow> fail (Some transfer_id) URL_MESSAGE p1
                             | Inr url \<Rightarrow>
                                 emit (TransferCompleted transfer_id DirReceive (if_file offer_file) [if_file offer_file]
                                         blake3 (Some url))
                                   (try_send e (Complete CURRENT_PROTOCOL transfer_id bytes blake3)
                                     (p1\<lparr>ri_object_url := Some url,
                                         pr_calls := pr_calls p1 @
                                           (case ri_object_url p1 of None \<Rightarrow> [] | Some previous \<Rightarrow> [RevokeUrl previous])\<rparr>))))))"

section \<open>The tasks\<close>

fun run_segment_task :: "peer_env \<Rightarrow> segment_task \<Rightarrow> rtc_peer \<Rightarrow> rtc_peer" where
  "run_segment_task e (SegmentWrite job writer segment_data) p =
     (case write_at (pe_promise e) (cj_offset job) segment_data writer of
        (writer1, Inl error) \<Rightarrow>
          storage_failure e job writer1 error ''storage_write_failed'' ''receiver could not write the streaming file'' p
      | (writer1, Inr _) \<Rightarrow>
          if \<not> receive_generation_matches p (cj_transfer_id job) (cj_generation job)
          then spawn_local (SegmentTask (AbortStaleWriter writer1)) p
          else if cj_recovery_persisted job then spawn_local (SegmentTask (SegmentCheckpoint job writer1)) p
          else segment_written e job writer1 p)"
| "run_segment_task e (SegmentCheckpoint job writer) p =
     (case commit_checkpoint (pe_promise e) writer of
        (writer1, Inl error) \<Rightarrow>
          storage_failure e job writer1 error ''storage_checkpoint_failed'' ''receiver could not commit the streaming checkpoint'' p
      | (writer1, Inr _) \<Rightarrow>
          if \<not> receive_generation_matches p (cj_transfer_id job) (cj_generation job)
          then spawn_local (SegmentTask (AbortStaleWriter writer1)) p
          else spawn_local (SegmentTask (SegmentReopen job writer1)) p)"
| "run_segment_task e (SegmentReopen job writer) p =
     (case reopen_after_checkpoint (pe_promise e) writer of
        (writer1, Inl error) \<Rightarrow>
          storage_failure e job writer1 error ''storage_reopen_failed'' ''receiver could not reopen the streaming destination'' p
      | (writer1, Inr _) \<Rightarrow>
          if \<not> receive_generation_matches p (cj_transfer_id job) (cj_generation job)
          then spawn_local (SegmentTask (AbortStaleWriter writer1)) p
          else segment_written e job writer1 p)"
| "run_segment_task e (SegmentSave job resume_requested recovery) p =
     (case pe_promise e of
        Some error \<Rightarrow>
          if \<not> receive_generation_matches p (cj_transfer_id job) (cj_generation job) then p
          else spawn_local (SegmentTask (SegmentForget job error)) p
      | None \<Rightarrow> acknowledge_segment e job resume_requested p)"
| "run_segment_task e (SegmentForget job error) p =
     fail (Some (cj_transfer_id job)) (platform_error_text error)
       (send_transfer_error e (cj_transfer_id job) ''recovery_checkpoint_failed''
          ''receiver could not persist the verified checkpoint'' (clear_transfer (cj_transfer_id job) p))"
| "run_segment_task e (AbortStaleWriter writer) p = p"
| "run_segment_task e (PauseAbort transfer_id writer generation reason) p =
     (if \<not> receive_generation_matches p transfer_id generation then p
      else spawn_local (SegmentTask (PauseLoad transfer_id generation reason)) p)"
| "run_segment_task e (PauseLoad transfer_id generation reason) p = pause_loaded e transfer_id generation reason p"
| "run_segment_task e (PauseIdleWriters transfer_id reason completed_bytes total_bytes writers) p =
     abort_idle_writers e transfer_id reason completed_bytes total_bytes (tl writers) p"
| "run_segment_task e (FinishClose job writers) p =
     (case writers of
        [] \<Rightarrow> finish_signal e job p
      | writer # rest \<Rightarrow>
          (case close_writer (pe_promise e) writer of
             Inl error \<Rightarrow>
               fail (Some (fj_transfer_id job)) (platform_error_text error)
                 (send_transfer_error e (fj_transfer_id job) ''storage_close_failed'' ''receiver could not finish the streaming files'' p)
           | Inr _ \<Rightarrow> if rest = [] then finish_signal e job p else spawn_local (SegmentTask (FinishClose job rest)) p))"
| "run_segment_task e (FinishForget job failed_attempts) p = finish_forget e job failed_attempts p"

end
