(* ===== verification/Peer_Restore.thy ===== *)
theory Peer_Restore
  imports Peer_Receive
begin

text \<open>
  Offers of the other side and the recovery of a receiver (\<open>rtc/browser/recovery/incoming.rs\<close>): a
  manifest starts a transfer, answers a resumed one or finds its saved checkpoint; a streamed
  offer is accepted with its destinations or resumed from the files on disk.
\<close>

section \<open>Reopening the destinations\<close>

definition div_ceil :: "u64 \<Rightarrow> u64 \<Rightarrow> u64" where
  "div_ceil a b = a div b + (if a mod b = 0 then 0 else 1)"

definition fresh_receive_file :: "stream_writer \<Rightarrow> receive_file_state" where
  "fresh_receive_file writer =
     \<lparr>fs_writer = Some writer, fs_active_abort = None, fs_received_bytes = 0, fs_hasher = [], fs_segment_index = 0,
      fs_segment_offset = 0, fs_chunks = [], fs_segment_hasher = [], fs_committed_hasher = [],
      fs_last_segment_blake3 = None, fs_writing = False\<rparr>"

definition restored_receive_file ::
  "u64 \<Rightarrow> u32 \<Rightarrow> stream_writer \<Rightarrow> hasher \<Rightarrow> rstring option \<Rightarrow> receive_file_state" where
  "restored_receive_file committed_bytes segment_bytes writer hasher last_segment_blake3 =
     \<lparr>fs_writer = Some writer, fs_active_abort = None, fs_received_bytes = committed_bytes, fs_hasher = hasher,
      fs_segment_index = (if committed_bytes = 0 then 0 else div_ceil committed_bytes (ucast segment_bytes)),
      fs_segment_offset = committed_bytes, fs_chunks = [], fs_segment_hasher = [], fs_committed_hasher = hasher,
      fs_last_segment_blake3 = last_segment_blake3, fs_writing = False\<rparr>"

definition streamed_receive :: "incoming_offer \<Rightarrow> u32 \<Rightarrow> nat \<Rightarrow> receive_file_state list \<Rightarrow> bool \<Rightarrow> receive_state" where
  "streamed_receive offer segment_bytes current files recovery_persisted =
     \<lparr>rv_offer = offer, rv_started = False, rv_received_bytes = sum_list (map fs_received_bytes files),
      rv_payload = StreamedPayload segment_bytes current files, rv_hasher = [], rv_resume_requested = False,
      rv_last_progress_ms = 0, rv_recovery_persisted = recovery_persisted, rv_generation = 0\<rparr>"

text \<open>\<open>manual\<close> tells the recovery the user asked for from the one that follows a manifest.\<close>

definition restore_failed ::
  "bool \<Rightarrow> incoming_offer \<Rightarrow> stream_recovery_record \<Rightarrow> browser_platform_error \<Rightarrow> rtc_peer \<Rightarrow> rtc_peer" where
  "restore_failed manual offer recovery error p =
     (if manual
      then reply (ResumeReply (Inl error))
             (p\<lparr>ri_restoring_transfer := None, ri_incoming := Some offer, ri_pending_recovery := Some recovery\<rparr>)
      else spawn_local (RecoveryTask (RecoverForget offer)) p)"

definition restore_install ::
  "peer_env \<Rightarrow> bool \<Rightarrow> incoming_offer \<Rightarrow> stream_recovery_record \<Rightarrow> u32 \<Rightarrow> receive_file_state list \<Rightarrow> rtc_peer \<Rightarrow> rtc_peer" where
  "restore_install e manual offer recovery segment_bytes files p =
     (if length files \<noteq> length (io_files offer)
      then restore_failed manual offer recovery (browser_text ''saved recovery file count does not match'') p
      else if ri_restoring_transfer p \<noteq> Some (io_transfer_id offer) \<or> ri_outgoing p \<noteq> None \<or> ri_receive p \<noteq> None
      then restore_failed manual offer recovery (browser_text ''streaming recovery is no longer active'') p
      else (let current = (case position (\<lambda>(offer, state). fs_segment_offset state < tf_size_bytes (if_file offer))
                                   (zip (io_files offer) files) of
                             None \<Rightarrow> length (io_files offer) | Some i \<Rightarrow> i);
                p1 = p\<lparr>ri_restoring_transfer := None, ri_incoming := None, ri_pending_recovery := None,
                       ri_paused_receive_reason := None,
                       ri_receive := Some (streamed_receive offer segment_bytes current files True)\<rparr>
            in case send_stream_resume e (io_transfer_id offer) p1 of
                 (p2, Inr _) \<Rightarrow> if manual then reply (ResumeReply (Inr ())) p2 else p2
               | (p2, Inl error) \<Rightarrow>
                   restore_failed manual offer recovery error
                     (if holds (\<lambda>r. io_transfer_id (rv_offer r)) (io_transfer_id offer) (ri_receive p2)
                      then p2\<lparr>ri_receive := None, ri_restoring_transfer := Some (io_transfer_id offer)\<rparr>
                      else p2)))"

text \<open>The loop of \<open>restore_stream_recovery\<close> up to the next file that has to be reopened.\<close>

definition restore_next ::
  "peer_env \<Rightarrow> bool \<Rightarrow> incoming_offer \<Rightarrow> stream_recovery_record \<Rightarrow> receive_file_state list \<Rightarrow> rtc_peer \<Rightarrow> rtc_peer" where
  "restore_next e manual offer recovery files p =
     (case io_mode offer of
        Buffered \<Rightarrow> restore_failed manual offer recovery (browser_text ''saved recovery does not use streaming mode'') p
      | Streamed segment_bytes \<Rightarrow>
          (let i = length files
           in if i < length (io_files offer) \<and> i < length (rr_files recovery)
              then (let size_bytes = tf_size_bytes (if_file (io_files offer ! i));
                        committed_bytes = rf_committed_bytes (rr_files recovery ! i)
                    in if size_bytes < committed_bytes \<or> committed_bytes < size_bytes \<and> committed_bytes mod ucast segment_bytes \<noteq> 0
                       then restore_failed manual offer recovery
                              (browser_text ''saved recovery checkpoint is outside a verified segment'') p
                       else spawn_local (RecoveryTask (RestoreFiles manual offer recovery files)) p)
              else restore_install e manual offer recovery segment_bytes files p))"

definition restore_file ::
  "peer_env \<Rightarrow> bool \<Rightarrow> incoming_offer \<Rightarrow> stream_recovery_record \<Rightarrow> receive_file_state list \<Rightarrow> rtc_peer \<Rightarrow> rtc_peer" where
  "restore_file e manual offer recovery files p =
     (case io_mode offer of
        Buffered \<Rightarrow> p
      | Streamed segment_bytes \<Rightarrow>
          (let file = rr_files recovery ! length files;
               size_bytes = tf_size_bytes (if_file (io_files offer ! length files))
           in case reopen_stream_file e (rf_handle file) (rf_committed_bytes file) size_bytes segment_bytes of
                None \<Rightarrow> p
              | Some (Inl error) \<Rightarrow> restore_failed manual offer recovery error p
              | Some (Inr (writer, hasher, last_segment_blake3)) \<Rightarrow>
                  if last_segment_blake3 \<noteq> rf_last_segment_blake3 file
                  then restore_failed manual offer recovery (browser_text ''saved file no longer matches the recovery checkpoint'') p
                  else restore_next e manual offer recovery
                         (files @ [restored_receive_file (rf_committed_bytes file) segment_bytes writer hasher last_segment_blake3]) p))"

section \<open>Manifests\<close>

definition publish_incoming_offer :: "incoming_offer \<Rightarrow> stream_recovery_record option \<Rightarrow> rtc_peer \<Rightarrow> rtc_peer" where
  "publish_incoming_offer offer recovery p =
     (if ri_restoring_transfer p \<noteq> Some (io_transfer_id offer) \<or> ri_outgoing p \<noteq> None \<or> ri_incoming p \<noteq> None \<or> ri_receive p \<noteq> None
      then p
      else emit (IncomingOffered (io_transfer_id offer) (io_mode offer) (summarize_transfer_files (offer_transfer_files offer))
                   (offer_transfer_files offer) (recovery \<noteq> None))
             (p\<lparr>ri_restoring_transfer := None, ri_pending_recovery := recovery, ri_paused_receive_reason := None,
                ri_incoming := Some offer\<rparr>))"

definition recover_loaded :: "peer_env \<Rightarrow> incoming_offer \<Rightarrow> rstring option \<Rightarrow> rtc_peer \<Rightarrow> rtc_peer" where
  "recover_loaded e offer peer_id p =
     (case pe_load_stream e of
        Inr (Some recovery) \<Rightarrow>
          if (case peer_id of None \<Rightarrow> False | Some peer_id \<Rightarrow> stream_recovery_matches offer peer_id recovery)
          then spawn_local (RecoveryTask (RecoverPermissions offer recovery)) p
          else spawn_local (RecoveryTask (RecoverForget offer)) p
      | Inl _ \<Rightarrow> spawn_local (RecoveryTask (RecoverForget offer)) p
      | Inr None \<Rightarrow> publish_incoming_offer offer None p)"

definition recover_permitted :: "peer_env \<Rightarrow> incoming_offer \<Rightarrow> stream_recovery_record \<Rightarrow> rtc_peer \<Rightarrow> rtc_peer" where
  "recover_permitted e offer recovery p =
     (case pe_permissions e of
        Inl _ \<Rightarrow> spawn_local (RecoveryTask (RecoverForget offer)) p
      | Inr permissions \<Rightarrow>
          if list_all (\<lambda>permission. permission = PermGranted) permissions then restore_next e False offer recovery [] p
          else if PermPrompt \<in> set permissions then publish_incoming_offer offer (Some recovery) p
          else spawn_local (RecoveryTask (RecoverForget offer)) p)"

definition resume_existing :: "peer_env \<Rightarrow> incoming_offer \<Rightarrow> receive_state \<Rightarrow> rtc_peer \<Rightarrow> rtc_peer" where
  "resume_existing e offer receive p =
     (if \<not> (offer_matches (rv_offer receive) offer \<and> io_mode (rv_offer receive) \<noteq> Buffered)
      then send_transfer_error e (io_transfer_id offer) ''resume_mismatch''
             ''streaming resume manifest does not match the active transfer'' p
      else case rv_payload receive of
        BufferedPayload _ \<Rightarrow> p
      | StreamedPayload _ _ files \<Rightarrow>
          if list_ex fs_writing files
          then p\<lparr>ri_receive := Some (receive\<lparr>rv_started := False, rv_resume_requested := True\<rparr>)\<rparr>
          else (case send_stream_resume e (io_transfer_id offer) (p\<lparr>ri_receive := Some (receive\<lparr>rv_started := False\<rparr>)\<rparr>) of
                  (p1, Inr _) \<Rightarrow> p1
                | (p1, Inl error) \<Rightarrow> fail (Some (io_transfer_id offer)) (platform_error_text error) p1))"

definition handle_manifest :: "peer_env \<Rightarrow> rstring \<Rightarrow> transfer_mode \<Rightarrow> file_manifest list \<Rightarrow> rtc_peer \<Rightarrow> rtc_peer" where
  "handle_manifest e transfer_id mode files p =
     (case offer_from_manifest transfer_id mode files of
        Inl InvalidTransferId \<Rightarrow> send_transfer_error e transfer_id ''invalid_id'' ''invalid transfer id'' p
      | Inl InvalidFileId \<Rightarrow> send_transfer_error e transfer_id ''invalid_id'' ''invalid file id'' p
      | Inl BufferedBatchUnsupported \<Rightarrow>
          send_transfer_error e transfer_id ''buffered_batch_unsupported'' ''batch manifests must use streaming mode'' p
      | Inr offer \<Rightarrow>
          (case ri_receive p of
             Some receive \<Rightarrow> resume_existing e offer receive p
           | None \<Rightarrow>
               (case (ri_incoming p, ri_pending_recovery p, ri_paused_receive_reason p) of
                  (Some existing, Some _, Some reason) \<Rightarrow>
                    if offer_matches existing offer then try_send e (StreamPaused CURRENT_PROTOCOL transfer_id reason) p
                    else send_transfer_error e transfer_id ''resume_mismatch''
                           ''streaming resume manifest does not match the active transfer'' p
                | _ \<Rightarrow>
                    if ri_outgoing p \<noteq> None \<or> ri_incoming p \<noteq> None \<or> ri_restoring_transfer p \<noteq> None
                    then send_transfer_error e transfer_id ''busy'' ''another transfer is active'' p
                    else spawn_local (RecoveryTask (RecoverStart offer)) (p\<lparr>ri_restoring_transfer := Some transfer_id\<rparr>))))"

section \<open>Accepting a streamed offer\<close>

definition recovery_record_from_writers :: "incoming_offer \<Rightarrow> u32 \<Rightarrow> rstring \<Rightarrow> stream_writer list \<Rightarrow> stream_recovery_record" where
  "recovery_record_from_writers offer segment_bytes peer_id writers =
     \<lparr>rr_transfer_id = io_transfer_id offer, rr_peer_id = peer_id, rr_segment_bytes = segment_bytes,
      rr_files = map (\<lambda>(offer, writer).
        \<lparr>rf_file_id = format_binary_id ''file'' (if_file_bytes offer), rf_name = tf_name (if_file offer),
         rf_mime = tf_mime (if_file offer), rf_size_bytes = tf_size_bytes (if_file offer), rf_handle = sw_handle writer,
         rf_committed_bytes = 0, rf_last_segment_blake3 = None\<rparr>) (zip (io_files offer) writers)\<rparr>"

definition accept_stream_transfer :: "peer_env \<Rightarrow> rstring \<Rightarrow> stream_writer list \<Rightarrow> rtc_peer \<Rightarrow> rtc_peer" where
  "accept_stream_transfer e transfer_id writers p =
     (case current_data_channel e p of
        Inl error \<Rightarrow> reply (AcceptReply (Inl error)) p
      | Inr channel \<Rightarrow>
          (case ri_incoming p of
             None \<Rightarrow> reply (AcceptReply (Inl (browser_text ''incoming transfer is no longer available''))) p
           | Some offer \<Rightarrow>
               if io_transfer_id offer \<noteq> transfer_id
               then reply (AcceptReply (Inl (browser_text ''incoming transfer id does not match''))) p
               else (case io_mode offer of
                       Buffered \<Rightarrow> reply (AcceptReply (Inl (browser_text ''incoming transfer does not use streaming mode''))) p
                     | Streamed segment_bytes \<Rightarrow>
                         (case ri_target_peer p of
                            None \<Rightarrow> reply (AcceptReply (Inl (browser_text ''receiver peer is unavailable''))) (p\<lparr>ri_incoming := None\<rparr>)
                          | Some peer_id \<Rightarrow>
                              if length writers \<noteq> length (io_files offer)
                              then reply (AcceptReply (Inl (browser_text ''streaming destination count does not match the manifest'')))
                                     (p\<lparr>ri_pending_recovery := None, ri_paused_receive_reason := None\<rparr>)
                              else spawn_local (RecoveryTask (AcceptSave channel offer
                                       (recovery_record_from_writers offer segment_bytes peer_id writers) writers))
                                     (p\<lparr>ri_incoming := None, ri_pending_recovery := None, ri_paused_receive_reason := None\<rparr>)))))"

definition accept_install ::
  "peer_env \<Rightarrow> nat \<Rightarrow> incoming_offer \<Rightarrow> stream_writer list \<Rightarrow> bool \<Rightarrow> rtc_peer \<Rightarrow> rtc_peer" where
  "accept_install e channel offer writers recovery_persisted p =
     (let transfer_id = io_transfer_id offer;
          segment_bytes = (case io_mode offer of Streamed segment_bytes \<Rightarrow> segment_bytes | Buffered \<Rightarrow> 0)
      in case send_control_on e channel (Decision CURRENT_PROTOCOL transfer_id True) p of
           (p1, Inl error) \<Rightarrow> reply (AcceptReply (Inl error)) p1
         | (p1, Inr _) \<Rightarrow>
             (case send_control_on e channel
                     (StreamReady CURRENT_PROTOCOL transfer_id (of_nat DEFAULT_STREAM_CHUNK_BYTES)
                        (min DEFAULT_STREAM_ACK_WINDOW_BYTES (ucast segment_bytes)) []) p1 of
                (p2, Inl error) \<Rightarrow> reply (AcceptReply (Inl error)) p2
              | (p2, Inr _) \<Rightarrow>
                  reply (AcceptReply (Inr ()))
                    (p2\<lparr>ri_receive := Some (streamed_receive offer segment_bytes
                          (case position (\<lambda>file. 0 < tf_size_bytes (if_file file)) (io_files offer) of
                             None \<Rightarrow> length (io_files offer) | Some i \<Rightarrow> i)
                          (map fresh_receive_file writers) recovery_persisted)\<rparr>)))"

section \<open>Resuming a saved receiver\<close>

definition DESTINATION_DENIED_MESSAGE :: rstring where
  "DESTINATION_DENIED_MESSAGE = [0x672A, 0x83B7, 0x5F97, 0x539F, 0x4FDD, 0x5B58, 0x4F4D, 0x7F6E, 0x7684, 0x5199, 0x5165, 0x6743, 0x9650]"

definition resume_stream_transfer :: "rstring \<Rightarrow> rtc_peer \<Rightarrow> rtc_peer" where
  "resume_stream_transfer transfer_id p =
     (if ri_restoring_transfer p = Some transfer_id then reply (ResumeReply (Inr ())) p
      else case ri_incoming p of
        None \<Rightarrow> reply (ResumeReply (Inl (browser_text ''incoming recovery offer is no longer available''))) p
      | Some offer \<Rightarrow>
          (case ri_pending_recovery p of
             None \<Rightarrow> reply (ResumeReply (Inl (browser_text ''saved streaming recovery is no longer available''))) p
           | Some recovery \<Rightarrow>
               if io_transfer_id offer \<noteq> transfer_id \<or> rr_transfer_id recovery \<noteq> transfer_id
               then reply (ResumeReply (Inl (browser_text ''streaming recovery id does not match''))) p
               else spawn_local (RecoveryTask (ResumePermissions offer recovery))
                      (p\<lparr>ri_incoming := None, ri_pending_recovery := None, ri_restoring_transfer := Some transfer_id\<rparr>)))"

definition resume_permitted :: "peer_env \<Rightarrow> incoming_offer \<Rightarrow> stream_recovery_record \<Rightarrow> rtc_peer \<Rightarrow> rtc_peer" where
  "resume_permitted e offer recovery p =
     (case pe_permissions e of
        Inl error \<Rightarrow> restore_failed True offer recovery error p
      | Inr permissions \<Rightarrow>
          if list_all (\<lambda>permission. permission = PermGranted) permissions then restore_next e True offer recovery [] p
          else restore_failed True offer recovery (BrowserFailure DESTINATION_DENIED_MESSAGE) p)"

section \<open>The tasks\<close>

fun run_recovery_task :: "peer_env \<Rightarrow> recovery_task \<Rightarrow> rtc_peer \<Rightarrow> rtc_peer" where
  "run_recovery_task e (DeleteStreamRecovery transfer_id) p = p"
| "run_recovery_task e (DeleteOutgoingRecovery peer_id) p = p"
| "run_recovery_task e (RecoverStart offer) p =
     (if io_mode offer = Buffered then publish_incoming_offer offer None p
      else spawn_local (RecoveryTask (RecoverLoad offer (ri_target_peer p))) p)"
| "run_recovery_task e (RecoverLoad offer peer_id) p = recover_loaded e offer peer_id p"
| "run_recovery_task e (RecoverForget offer) p = publish_incoming_offer offer None p"
| "run_recovery_task e (RecoverPermissions offer recovery) p = recover_permitted e offer recovery p"
| "run_recovery_task e (RestoreFiles manual offer recovery files) p = restore_file e manual offer recovery files p"
| "run_recovery_task e (AcceptSave channel offer recovery writers) p =
     (if pe_promise e = None then accept_install e channel offer writers True p
      else spawn_local (RecoveryTask (AcceptForget channel offer writers)) p)"
| "run_recovery_task e (AcceptForget channel offer writers) p = accept_install e channel offer writers False p"
| "run_recovery_task e (ResumePermissions offer recovery) p = resume_permitted e offer recovery p"
| "run_recovery_task e (CancelCleanup transfer_id reason first_error aborts delete_recovery outgoing_peer) p =
     run_cancel_cleanup e transfer_id reason first_error aborts delete_recovery outgoing_peer p"

end
