(* ===== verification/Peer_Send.thy ===== *)
theory Peer_Send
  imports Peer_Lifecycle
begin

text \<open>
  Sending files (\<open>rtc/browser/outgoing.rs\<close> and the acknowledgements and resume messages of
  \<open>rtc/browser/recovery/outgoing.rs\<close>): the loops that read, hash and send the chunks, run piecewise
  between two awaits, and the receiver's answers they depend on.
\<close>

section \<open>The state of the sender\<close>

definition outgoing_cancelled :: "rstring \<Rightarrow> rtc_peer \<Rightarrow> bool" where
  "outgoing_cancelled transfer_id p \<longleftrightarrow>
     (case ri_outgoing p of None \<Rightarrow> True | Some outgoing \<Rightarrow> og_transfer_id outgoing \<noteq> transfer_id \<or> og_cancelled outgoing)"

definition outgoing_generation_matches :: "rstring \<Rightarrow> u64 \<Rightarrow> rtc_peer \<Rightarrow> bool" where
  "outgoing_generation_matches transfer_id generation p \<longleftrightarrow>
     (case ri_outgoing p of
        None \<Rightarrow> False
      | Some outgoing \<Rightarrow> og_transfer_id outgoing = transfer_id \<and> og_generation outgoing = generation \<and> \<not> og_cancelled outgoing)"

text \<open>What \<open>spawn_outgoing\<close> does when the sending task ends with an error.\<close>

definition outgoing_failed :: "rstring \<Rightarrow> u64 \<Rightarrow> browser_platform_error \<Rightarrow> rtc_peer \<Rightarrow> rtc_peer" where
  "outgoing_failed transfer_id generation error p =
     (if \<not> outgoing_generation_matches transfer_id generation p then p
      else if reconnectable_channel_error error
      then emit (ConnectionState ConnClosed) (suspend_stream_for_reconnect p)
      else fail (Some transfer_id) (platform_error_text error) (clear_transfer transfer_id p))"

definition spawn_outgoing :: "rstring \<Rightarrow> u64 \<Rightarrow> rtc_peer \<Rightarrow> rtc_peer" where
  "spawn_outgoing transfer_id generation p = spawn_local (SendTask (SendStart transfer_id generation)) p"

definition transfer_disappeared :: browser_platform_error where
  "transfer_disappeared = browser_text ''outgoing transfer disappeared''"

definition file_disappeared :: browser_platform_error where
  "file_disappeared = browser_text ''outgoing file disappeared''"

fun plan_error_text :: "transfer_plan_error \<Rightarrow> rstring" where
  "plan_error_text ZeroChunkSize = rstr ''ZeroChunkSize''"
| "plan_error_text ZeroSegmentSize = rstr ''ZeroSegmentSize''"

definition SEND_PROGRESS_INTERVAL_MS :: int where "SEND_PROGRESS_INTERVAL_MS = 50"

text \<open>The frame of a chunk on the channel, and the progress that is recorded after it.\<close>

definition send_chunk ::
  "peer_env \<Rightarrow> nat \<Rightarrow> u8 list \<Rightarrow> rstring \<Rightarrow> u64 \<Rightarrow> u64 \<Rightarrow> rtc_peer \<Rightarrow> rtc_peer \<times> (browser_platform_error + unit)" where
  "send_chunk e channel frame transfer_id completed_bytes total_bytes p =
     (case pe_send_bytes e channel frame of
        Some error \<Rightarrow> (p, Inl (BrowserFailure error))
      | None \<Rightarrow>
          (let p1 = p\<lparr>pr_sent := pr_sent p @ [(channel, BinaryFrame frame)]\<rparr>
           in case ri_outgoing p1 of
                None \<Rightarrow> (p1, Inl transfer_disappeared)
              | Some outgoing \<Rightarrow>
                  (let report = SEND_PROGRESS_INTERVAL_MS \<le> pe_now_ms e - og_last_progress_ms outgoing \<or> completed_bytes = total_bytes;
                       p2 = p1\<lparr>ri_outgoing := Some (outgoing\<lparr>og_sent_bytes := completed_bytes,
                              og_max_buffered_bytes := max (og_max_buffered_bytes outgoing) (pe_buffered e channel),
                              og_last_progress_ms := (if report then pe_now_ms e else og_last_progress_ms outgoing)\<rparr>)\<rparr>
                   in (if report then emit (TransferProgress transfer_id DirSend completed_bytes total_bytes) p2 else p2, Inr ()))))"

definition set_expected_hash :: "nat \<Rightarrow> rstring \<Rightarrow> rtc_peer \<Rightarrow> rtc_peer \<times> (browser_platform_error + unit)" where
  "set_expected_hash file_index digest p =
     (case ri_outgoing p of
        None \<Rightarrow> (p, Inl transfer_disappeared)
      | Some outgoing \<Rightarrow>
          if length (og_files outgoing) \<le> file_index then (p, Inl file_disappeared)
          else (p\<lparr>ri_outgoing := Some (outgoing\<lparr>og_files :=
                  (og_files outgoing)[file_index := (og_files outgoing ! file_index)\<lparr>ogf_expected_hash := Some digest\<rparr>]\<rparr>)\<rparr>, Inr ()))"

section \<open>A buffered file\<close>

definition buffered_failed :: "buffered_job \<Rightarrow> browser_platform_error \<Rightarrow> rtc_peer \<Rightarrow> rtc_peer" where
  "buffered_failed job error p = outgoing_failed (bj_transfer_id job) (bj_generation job) error p"

definition buffered_plan :: "transfer_file \<Rightarrow> transfer_plan_error + chunk_plan" where
  "buffered_plan file = chunk_plan_new (tf_size_bytes file) (of_nat (bp_chunk_bytes default_backpressure_policy))"

definition send_buffered_outgoing :: "peer_env \<Rightarrow> rstring \<Rightarrow> u64 \<Rightarrow> rtc_peer \<Rightarrow> rtc_peer" where
  "send_buffered_outgoing e transfer_id generation p =
     (case ri_outgoing p of
        None \<Rightarrow> outgoing_failed transfer_id generation transfer_disappeared p
      | Some outgoing \<Rightarrow>
          (case og_files outgoing of
             [] \<Rightarrow> outgoing_failed transfer_id generation file_disappeared p
           | file # _ \<Rightarrow>
               (case current_data_channel e p of
                  Inl error \<Rightarrow> outgoing_failed transfer_id generation error p
                | Inr channel \<Rightarrow>
                    (case send_control_on e channel (Start CURRENT_PROTOCOL transfer_id) p of
                       (p1, Inl error) \<Rightarrow> outgoing_failed transfer_id generation error p1
                     | (p1, Inr _) \<Rightarrow>
                         spawn_local (SendTask (BufferedNext
                             \<lparr>bj_transfer_id = transfer_id, bj_generation = generation, bj_channel = channel,
                              bj_browser_file = ogf_browser_file file, bj_file = ogf_file file,
                              bj_transfer_bytes = og_transfer_bytes outgoing, bj_file_bytes = ogf_file_bytes file,
                              bj_index = 0, bj_hasher = []\<rparr>))
                           (emit (TransferStarted transfer_id DirSend Buffered (ogf_file file) [ogf_file file]) p1)))))"

definition buffered_finish :: "peer_env \<Rightarrow> buffered_job \<Rightarrow> rtc_peer \<Rightarrow> rtc_peer" where
  "buffered_finish e job p =
     (let digest = pe_blake3 e (bj_hasher job)
      in case set_expected_hash 0 digest p of
           (p1, Inl error) \<Rightarrow> buffered_failed job error p1
         | (p1, Inr _) \<Rightarrow>
             (case send_control_on e (bj_channel job)
                     (Complete CURRENT_PROTOCOL (bj_transfer_id job) (tf_size_bytes (bj_file job)) digest) p1 of
                (p2, Inl error) \<Rightarrow> buffered_failed job error p2
              | (p2, Inr _) \<Rightarrow> emit (AwaitingVerification (bj_transfer_id job) (bj_file job) [bj_file job]) p2))"

definition buffered_read :: "buffered_job \<Rightarrow> chunk_plan \<Rightarrow> rtc_peer \<Rightarrow> rtc_peer" where
  "buffered_read job plan p =
     (case chunk plan (bj_index job) of
        None \<Rightarrow> buffered_failed job (browser_text ''chunk plan ended early'') p
      | Some descriptor \<Rightarrow> spawn_local (SendTask (BufferedRead job descriptor)) p)"

text \<open>One turn of the loop over the chunks, from its head to the read of the chunk.\<close>

definition buffered_next :: "peer_env \<Rightarrow> buffered_job \<Rightarrow> rtc_peer \<Rightarrow> rtc_peer" where
  "buffered_next e job p =
     (case buffered_plan (bj_file job) of
        Inl error \<Rightarrow> buffered_failed job (BrowserFailure (plan_error_text error)) p
      | Inr plan \<Rightarrow>
          if chunk_count plan \<le> bj_index job then buffered_finish e job p
          else if outgoing_cancelled (bj_transfer_id job) p then p
          else if should_pause default_backpressure_policy (pe_buffered e (bj_channel job)) \<and>
                  \<not> can_resume default_backpressure_policy (pe_buffered e (bj_channel job))
          then spawn_local (SendTask (BufferedWaited job)) p
          else buffered_read job plan p)"

definition buffered_waited :: "peer_env \<Rightarrow> buffered_job \<Rightarrow> rtc_peer \<Rightarrow> rtc_peer" where
  "buffered_waited e job p =
     (if \<not> can_resume default_backpressure_policy (pe_buffered e (bj_channel job))
      then spawn_local (SendTask (BufferedWaited job)) p
      else if outgoing_cancelled (bj_transfer_id job) p then p
      else case buffered_plan (bj_file job) of
        Inl error \<Rightarrow> buffered_failed job (BrowserFailure (plan_error_text error)) p
      | Inr plan \<Rightarrow> buffered_read job plan p)"

definition buffered_chunk_read :: "peer_env \<Rightarrow> buffered_job \<Rightarrow> chunk_descriptor \<Rightarrow> rtc_peer \<Rightarrow> rtc_peer" where
  "buffered_chunk_read e job descriptor p =
     (let end_offset = cd_offset descriptor + ucast (cd_length descriptor)
      in case pe_slice e (bj_browser_file job) (cd_offset descriptor) end_offset of
           Inl error \<Rightarrow> buffered_failed job error p
         | Inr bytes \<Rightarrow>
             (let frame = encode_binary_chunk (bj_transfer_bytes job) (bj_file_bytes job) (cd_offset descriptor)
                            (cd_length descriptor) bytes
              in case send_chunk e (bj_channel job) frame (bj_transfer_id job) end_offset (tf_size_bytes (bj_file job)) p of
                   (p1, Inl error) \<Rightarrow> buffered_failed job error p1
                 | (p1, Inr _) \<Rightarrow> buffered_next e (job\<lparr>bj_index := bj_index job + 1, bj_hasher := bj_hasher job @ bytes\<rparr>) p1))"

section \<open>A batch of streamed files\<close>

definition stream_failed :: "stream_job \<Rightarrow> browser_platform_error \<Rightarrow> rtc_peer \<Rightarrow> rtc_peer" where
  "stream_failed job error p = outgoing_failed (sj_transfer_id job) (sj_generation job) error p"

definition send_streamed_outgoing :: "peer_env \<Rightarrow> rstring \<Rightarrow> u32 \<Rightarrow> u64 \<Rightarrow> rtc_peer \<Rightarrow> rtc_peer" where
  "send_streamed_outgoing e transfer_id segment_bytes generation p =
     (case ri_outgoing p of
        None \<Rightarrow> outgoing_failed transfer_id generation transfer_disappeared p
      | Some outgoing \<Rightarrow>
          if og_generation outgoing \<noteq> generation then p
          else (case og_stream_ready outgoing of
                  None \<Rightarrow> outgoing_failed transfer_id generation (browser_text ''streaming receiver is not ready'') p
                | Some ready \<Rightarrow>
                    if srp_ack_window_bytes ready < ucast segment_bytes
                    then outgoing_failed transfer_id generation
                           (browser_text ''streaming acknowledgement window is too small'') p
                    else (case current_data_channel e p of
                            Inl error \<Rightarrow> outgoing_failed transfer_id generation error p
                          | Inr channel \<Rightarrow>
                              (case send_control_on e channel (Start CURRENT_PROTOCOL transfer_id) p of
                                 (p1, Inl error) \<Rightarrow> outgoing_failed transfer_id generation error p1
                               | (p1, Inr _) \<Rightarrow>
                                   (let files = map ogf_file (og_files outgoing);
                                        p2 = emit (TransferStarted transfer_id DirSend (Streamed segment_bytes)
                                                     (summarize_transfer_files files) files) p1;
                                        p3 = (if 0 < og_sent_bytes outgoing
                                              then emit (TransferProgress transfer_id DirSend (og_sent_bytes outgoing)
                                                           (og_total_bytes outgoing)) p2
                                              else p2)
                                    in spawn_local (SendTask (StreamBegin
                                         \<lparr>sj_transfer_id = transfer_id, sj_generation = generation, sj_segment_bytes = segment_bytes,
                                          sj_channel = channel, sj_transfer_bytes = og_transfer_bytes outgoing,
                                          sj_max_chunk_bytes = srp_max_chunk_bytes ready, sj_total_bytes = og_total_bytes outgoing,
                                          sj_transfer_files = files, sj_digests = [], sj_preceding_bytes = 0, sj_file_index = 0,
                                          sj_browser_file = 0, sj_file = \<lparr>tf_name = [], tf_mime = None, tf_size_bytes = 0\<rparr>,
                                          sj_file_bytes = [], sj_file_hasher = [], sj_segment_index = 0, sj_segment_hasher = [],
                                          sj_segment_sent = 0\<rparr>)) p3)))))"

text \<open>The plan of the current file; its segments are not empty, which \<open>stream_file\<close> checks first.\<close>

definition job_segments :: "stream_job \<Rightarrow> segment_plan" where
  "job_segments job = \<lparr>sp_total_bytes = tf_size_bytes (sj_file job), sp_segment_bytes = sj_segment_bytes job\<rparr>"

definition stream_pauses :: "peer_env \<Rightarrow> stream_job \<Rightarrow> bool" where
  "stream_pauses e job \<longleftrightarrow>
     should_pause (default_backpressure_policy\<lparr>bp_chunk_bytes := unat (sj_max_chunk_bytes job)\<rparr>) (pe_buffered e (sj_channel job))"

definition stream_resumes :: "peer_env \<Rightarrow> stream_job \<Rightarrow> bool" where
  "stream_resumes e job \<longleftrightarrow>
     can_resume (default_backpressure_policy\<lparr>bp_chunk_bytes := unat (sj_max_chunk_bytes job)\<rparr>) (pe_buffered e (sj_channel job))"

definition stream_stopped :: "stream_job \<Rightarrow> rtc_peer \<Rightarrow> bool" where
  "stream_stopped job p \<longleftrightarrow>
     \<not> outgoing_generation_matches (sj_transfer_id job) (sj_generation job) p \<or> outgoing_cancelled (sj_transfer_id job) p"

text \<open>The end of a segment: its commit is announced and the acknowledgement awaited.\<close>

definition stream_commit :: "peer_env \<Rightarrow> stream_job \<Rightarrow> segment_descriptor \<Rightarrow> rtc_peer \<Rightarrow> rtc_peer" where
  "stream_commit e job seg p =
     (let digest = pe_blake3 e (sj_segment_hasher job); ack = pr_fresh p
      in case ri_outgoing p of
           None \<Rightarrow> stream_failed job transfer_disappeared p
         | Some outgoing \<Rightarrow>
             (case send_control_on e (sj_channel job)
                     (SegmentCommit CURRENT_PROTOCOL (sj_transfer_id job) (format_binary_id ''file'' (sj_file_bytes job))
                        (sj_segment_index job) (sd_offset seg) (sd_length seg) digest)
                     (p\<lparr>pr_fresh := pr_fresh p + 1, ri_outgoing := Some (outgoing\<lparr>og_pending_ack := Some
                         \<lparr>pk_file_index = sj_file_index job, pk_segment_index = sj_segment_index job,
                          pk_committed_bytes = sd_offset seg + ucast (sd_length seg), pk_blake3 = digest,
                          pk_file_hasher = sj_file_hasher job, pk_sender = Some ack\<rparr>\<rparr>)\<rparr>) of
                (p1, Inl error) \<Rightarrow> stream_failed job error p1
              | (p1, Inr _) \<Rightarrow> spawn_local (SendTask (StreamAck job ack)) p1))"

text \<open>The loop over the chunks of a segment, from its head to the next read.\<close>

definition stream_chunk :: "peer_env \<Rightarrow> stream_job \<Rightarrow> rtc_peer \<Rightarrow> rtc_peer" where
  "stream_chunk e job p =
     (case segment (job_segments job) (sj_segment_index job) of
        None \<Rightarrow> stream_failed job (browser_text ''segment plan ended early'') p
      | Some seg \<Rightarrow>
          if ucast (sd_length seg) \<le> sj_segment_sent job then stream_commit e job seg p
          else if stream_stopped job p then p
          else if stream_pauses e job \<and> \<not> stream_resumes e job then spawn_local (SendTask (StreamWaited job)) p
          else spawn_local (SendTask (StreamRead job)) p)"

definition stream_waited :: "peer_env \<Rightarrow> stream_job \<Rightarrow> rtc_peer \<Rightarrow> rtc_peer" where
  "stream_waited e job p =
     (if \<not> stream_resumes e job then spawn_local (SendTask (StreamWaited job)) p
      else if stream_stopped job p then p
      else spawn_local (SendTask (StreamRead job)) p)"

definition stream_chunk_read :: "peer_env \<Rightarrow> stream_job \<Rightarrow> rtc_peer \<Rightarrow> rtc_peer" where
  "stream_chunk_read e job p =
     (case segment (job_segments job) (sj_segment_index job) of
        None \<Rightarrow> stream_failed job (browser_text ''segment plan ended early'') p
      | Some seg \<Rightarrow>
          (let remaining = ucast (sd_length seg) - sj_segment_sent job;
               chunk_length = ucast (min remaining (ucast (sj_max_chunk_bytes job))) :: u32;
               offset = sd_offset seg + sj_segment_sent job;
               end_offset = offset + ucast chunk_length
           in case pe_slice e (sj_browser_file job) offset end_offset of
                Inl error \<Rightarrow> stream_failed job error p
              | Inr bytes \<Rightarrow>
                  (let frame = encode_binary_chunk (sj_transfer_bytes job) (sj_file_bytes job) offset chunk_length bytes
                   in case send_chunk e (sj_channel job) frame (sj_transfer_id job) (sj_preceding_bytes job + end_offset)
                             (sj_total_bytes job) p of
                        (p1, Inl error) \<Rightarrow> stream_failed job error p1
                      | (p1, Inr _) \<Rightarrow>
                          stream_chunk e (job\<lparr>sj_file_hasher := sj_file_hasher job @ bytes,
                              sj_segment_hasher := sj_segment_hasher job @ bytes,
                              sj_segment_sent := sj_segment_sent job + ucast chunk_length\<rparr>) p1)))"

text \<open>The end of a file and the end of the batch.\<close>

definition stream_file_done :: "peer_env \<Rightarrow> stream_job \<Rightarrow> rtc_peer \<Rightarrow> rtc_peer \<times> (browser_platform_error + stream_job)" where
  "stream_file_done e job p =
     (let digest = pe_blake3 e (sj_file_hasher job)
      in case set_expected_hash (sj_file_index job) digest p of
           (p1, Inl error) \<Rightarrow> (p1, Inl error)
         | (p1, Inr _) \<Rightarrow>
             (p1, Inr (job\<lparr>sj_digests := sj_digests job @
                          [\<lparr>dg_file_id = format_binary_id ''file'' (sj_file_bytes job), dg_size_bytes = tf_size_bytes (sj_file job),
                            dg_blake3 = digest\<rparr>],
                        sj_preceding_bytes := sj_preceding_bytes job + tf_size_bytes (sj_file job),
                        sj_file_index := sj_file_index job + 1\<rparr>)))"

definition stream_finish :: "peer_env \<Rightarrow> stream_job \<Rightarrow> rtc_peer \<Rightarrow> rtc_peer" where
  "stream_finish e job p =
     (if \<not> outgoing_generation_matches (sj_transfer_id job) (sj_generation job) p then p
      else case ri_outgoing p of
        None \<Rightarrow> stream_failed job transfer_disappeared p
      | Some outgoing \<Rightarrow>
          (case send_control_on e (sj_channel job)
                  (StreamComplete CURRENT_PROTOCOL (sj_transfer_id job) (sj_total_bytes job) (sj_digests job))
                  (p\<lparr>ri_outgoing := Some (outgoing\<lparr>og_expected_digests := sj_digests job, og_sent_bytes := sj_total_bytes job\<rparr>)\<rparr>) of
             (p1, Inl error) \<Rightarrow> stream_failed job error p1
           | (p1, Inr _) \<Rightarrow>
               emit (AwaitingVerification (sj_transfer_id job) (summarize_transfer_files (sj_transfer_files job))
                       (sj_transfer_files job)) p1))"

text \<open>
  The loop over the files, from the head of a turn to the next await; the number counts the files
  that are left. A file that is committed as a whole needs no await.
\<close>

fun stream_files :: "peer_env \<Rightarrow> nat \<Rightarrow> stream_job \<Rightarrow> rtc_peer \<Rightarrow> rtc_peer" where
  "stream_files e 0 job p = stream_finish e job p"
| "stream_files e (Suc n) job p =
     (case ri_outgoing p of
        None \<Rightarrow> stream_failed job transfer_disappeared p
      | Some outgoing \<Rightarrow>
          if og_generation outgoing \<noteq> sj_generation job then p
          else if length (og_files outgoing) \<le> sj_file_index job then stream_failed job file_disappeared p
          else (let file = og_files outgoing ! sj_file_index job;
                    size_bytes = tf_size_bytes (ogf_file file)
                in case segment_plan_new size_bytes (sj_segment_bytes job) of
                     Inl error \<Rightarrow> stream_failed job (BrowserFailure (plan_error_text error)) p
                   | Inr segments \<Rightarrow>
                       (let start_segment = (if ogf_committed_bytes file = size_bytes then segment_count segments
                                             else ogf_committed_bytes file div ucast (sj_segment_bytes job));
                            job1 = job\<lparr>sj_browser_file := ogf_browser_file file, sj_file := ogf_file file,
                                       sj_file_bytes := ogf_file_bytes file, sj_file_hasher := ogf_committed_hasher file,
                                       sj_segment_index := start_segment, sj_segment_hasher := [], sj_segment_sent := 0\<rparr>
                        in if start_segment < segment_count segments then stream_chunk e job1 p
                           else (case stream_file_done e job1 p of
                                   (p1, Inl error) \<Rightarrow> stream_failed job error p1
                                 | (p1, Inr job2) \<Rightarrow> stream_files e n job2 p1))))"

definition files_left :: "stream_job \<Rightarrow> nat" where
  "files_left job = length (sj_transfer_files job) - sj_file_index job"

text \<open>The sender of the acknowledgement is alive while the pending segment or a task holds it.\<close>

definition ack_sender_alive :: "nat \<Rightarrow> rtc_peer \<Rightarrow> bool" where
  "ack_sender_alive ack p \<longleftrightarrow>
     (case ri_outgoing p of
        Some outgoing \<Rightarrow> (case og_pending_ack outgoing of Some pending \<Rightarrow> pk_sender pending = Some ack | None \<Rightarrow> False)
      | None \<Rightarrow> False) \<or>
     list_ex (\<lambda>task. case task of SendTask (SaveOutgoingCheckpoint _ sender) \<Rightarrow> sender = Some ack | _ \<Rightarrow> False) (pr_tasks p)"

definition ack_result :: "nat \<Rightarrow> rtc_peer \<Rightarrow> rstring + unit" where
  "ack_result ack p =
     (case map_of (pr_acks p) ack of
        Some result \<Rightarrow> result
      | None \<Rightarrow> if ack_sender_alive ack p then Inl (rstr ''streaming acknowledgement timed out'')
               else Inl (rstr ''streaming acknowledgement was dropped''))"

definition stream_acknowledged :: "peer_env \<Rightarrow> stream_job \<Rightarrow> nat \<Rightarrow> rtc_peer \<Rightarrow> rtc_peer" where
  "stream_acknowledged e job ack p =
     (case ack_result ack p of
        Inl error \<Rightarrow> stream_failed job (BrowserFailure error) p
      | Inr _ \<Rightarrow>
          (let job1 = job\<lparr>sj_segment_index := sj_segment_index job + 1, sj_segment_hasher := [], sj_segment_sent := 0\<rparr>
           in if sj_segment_index job1 < segment_count (job_segments job1) then stream_chunk e job1 p
              else (case stream_file_done e job1 p of
                      (p1, Inl error) \<Rightarrow> stream_failed job error p1
                    | (p1, Inr job2) \<Rightarrow> stream_files e (files_left job2) job2 p1)))"

definition send_outgoing :: "peer_env \<Rightarrow> rstring \<Rightarrow> u64 \<Rightarrow> rtc_peer \<Rightarrow> rtc_peer" where
  "send_outgoing e transfer_id generation p =
     (case ri_outgoing p of
        None \<Rightarrow> outgoing_failed transfer_id generation transfer_disappeared p
      | Some outgoing \<Rightarrow>
          (case og_mode outgoing of
             Buffered \<Rightarrow> send_buffered_outgoing e transfer_id generation p
           | Streamed segment_bytes \<Rightarrow> send_streamed_outgoing e transfer_id segment_bytes generation p))"

definition save_checkpoint_done :: "peer_env \<Rightarrow> nat option \<Rightarrow> rtc_peer \<Rightarrow> rtc_peer" where
  "save_checkpoint_done e sender p =
     (case sender of
        None \<Rightarrow> p
      | Some ack \<Rightarrow>
          p\<lparr>pr_acks := pr_acks p @ [(ack, case pe_promise e of
              None \<Rightarrow> Inr ()
            | Some error \<Rightarrow> Inl (rstr ''failed to save the outgoing transfer checkpoint: '' @ platform_error_text error))]\<rparr>)"

fun run_send_task :: "peer_env \<Rightarrow> send_task \<Rightarrow> rtc_peer \<Rightarrow> rtc_peer" where
  "run_send_task e (SendStart transfer_id generation) p = send_outgoing e transfer_id generation p"
| "run_send_task e (BufferedNext job) p = buffered_next e job p"
| "run_send_task e (BufferedWaited job) p = buffered_waited e job p"
| "run_send_task e (BufferedRead job descriptor) p = buffered_chunk_read e job descriptor p"
| "run_send_task e (StreamBegin job) p = stream_files e (files_left job) job p"
| "run_send_task e (StreamWaited job) p = stream_waited e job p"
| "run_send_task e (StreamRead job) p = stream_chunk_read e job p"
| "run_send_task e (StreamAck job ack) p = stream_acknowledged e job ack p"
| "run_send_task e (SaveOutgoingCheckpoint recovery sender) p = save_checkpoint_done e sender p"

section \<open>Answers of the receiver\<close>

definition outgoing_recovery_record :: "outgoing_state \<Rightarrow> outgoing_recovery_record option" where
  "outgoing_recovery_record outgoing =
     (case (og_mode outgoing, og_recovery_peer_id outgoing) of
        (Streamed segment_bytes, Some peer_id) \<Rightarrow>
          if list_ex (\<lambda>file. ogf_source_handle file = None) (og_files outgoing) then None
          else Some \<lparr>orr_transfer_id = og_transfer_id outgoing, orr_peer_id = peer_id, orr_segment_bytes = segment_bytes,
                 orr_files = map (\<lambda>file.
                   \<lparr>orf_file_id = format_binary_id ''file'' (ogf_file_bytes file), orf_name = tf_name (ogf_file file),
                    orf_mime = tf_mime (ogf_file file), orf_size_bytes = tf_size_bytes (ogf_file file),
                    orf_last_modified_ms = ogf_last_modified_ms file,
                    orf_handle = (case ogf_source_handle file of Some handle \<Rightarrow> handle | None \<Rightarrow> 0),
                    orf_committed_bytes = ogf_committed_bytes file, orf_last_segment_blake3 = ogf_last_segment_blake3 file\<rparr>)
                   (og_files outgoing)\<rparr>
      | _ \<Rightarrow> None)"

definition commit_pending :: "pending_segment_ack \<Rightarrow> outgoing_state \<Rightarrow> outgoing_state" where
  "commit_pending pending outgoing =
     outgoing\<lparr>og_files := (og_files outgoing)[pk_file_index pending :=
       (og_files outgoing ! pk_file_index pending)\<lparr>ogf_committed_bytes := pk_committed_bytes pending,
          ogf_committed_hasher := pk_file_hasher pending, ogf_last_segment_blake3 := Some (pk_blake3 pending)\<rparr>]\<rparr>"

definition send_ack :: "nat option \<Rightarrow> (rstring + unit) \<Rightarrow> rtc_peer \<Rightarrow> rtc_peer" where
  "send_ack sender result p = (case sender of None \<Rightarrow> p | Some ack \<Rightarrow> p\<lparr>pr_acks := pr_acks p @ [(ack, result)]\<rparr>)"

definition handle_segment_ack :: "rstring \<Rightarrow> rstring \<Rightarrow> u64 \<Rightarrow> u64 \<Rightarrow> rstring \<Rightarrow> rtc_peer \<Rightarrow> rtc_peer" where
  "handle_segment_ack transfer_id file_id segment_index committed_bytes blake3 p =
     (case ri_outgoing p of
        None \<Rightarrow> fail (Some transfer_id) (rstr ''segment acknowledgement has no outgoing transfer'') p
      | Some outgoing \<Rightarrow>
          if og_transfer_id outgoing \<noteq> transfer_id
          then fail (Some transfer_id) (rstr ''segment acknowledgement id does not match'') p
          else (case og_pending_ack outgoing of
                  None \<Rightarrow> fail (Some transfer_id) (rstr ''segment acknowledgement was not expected'') p
                | Some pending \<Rightarrow>
                    (let outgoing1 = outgoing\<lparr>og_pending_ack := None\<rparr>
                     in if pk_file_index pending < length (og_files outgoing) \<and>
                           parse_binary_id file_id ''file'' = Some (ogf_file_bytes (og_files outgoing ! pk_file_index pending)) \<and>
                           pk_segment_index pending = segment_index \<and> pk_committed_bytes pending = committed_bytes \<and>
                           pk_blake3 pending = blake3
                        then (let outgoing2 = commit_pending pending outgoing1; p1 = p\<lparr>ri_outgoing := Some outgoing2\<rparr>
                              in case outgoing_recovery_record outgoing2 of
                                   Some recovery \<Rightarrow> spawn_local (SendTask (SaveOutgoingCheckpoint recovery (pk_sender pending))) p1
                                 | None \<Rightarrow> send_ack (pk_sender pending) (Inr ()) p1)
                        else send_ack (pk_sender pending) (Inl (rstr ''segment acknowledgement does not match''))
                               (p\<lparr>ri_outgoing := Some outgoing1\<rparr>))))"

definition outgoing_checkpoint :: "outgoing_file_state \<Rightarrow> checkpoint" where
  "outgoing_checkpoint file =
     \<lparr>cp_file_id = format_binary_id ''file'' (ogf_file_bytes file), cp_size_bytes = tf_size_bytes (ogf_file file),
      cp_committed_bytes = ogf_committed_bytes file, cp_last_segment_blake3 = ogf_last_segment_blake3 file\<rparr>"

definition pending_of :: "pending_segment_ack \<Rightarrow> pending_checkpoint" where
  "pending_of pending =
     \<lparr>pc_file_index = pk_file_index pending, pc_committed_bytes = pk_committed_bytes pending, pc_blake3 = pk_blake3 pending\<rparr>"

definition validate_resume_cursors :: "outgoing_state \<Rightarrow> u32 \<Rightarrow> resume_cursor list \<Rightarrow> checkpoint_error + bool" where
  "validate_resume_cursors outgoing segment_bytes resume =
     bind_result (match_live_resume segment_bytes (map outgoing_checkpoint (og_files outgoing))
                    (map_option pending_of (og_pending_ack outgoing)) resume)
       (\<lambda>disposition. Inr (case disposition of PromotePending _ \<Rightarrow> True | KeepCurrent \<Rightarrow> False))"

definition resume_outgoing :: "bool \<Rightarrow> u32 \<Rightarrow> u64 \<Rightarrow> outgoing_state \<Rightarrow> outgoing_state" where
  "resume_outgoing promote max_chunk_bytes ack_window_bytes outgoing =
     (let outgoing1 = (case og_pending_ack outgoing of
                         Some pending \<Rightarrow> (if promote then commit_pending pending outgoing else outgoing)\<lparr>og_pending_ack := None\<rparr>
                       | None \<Rightarrow> outgoing)
      in outgoing1\<lparr>og_sent_bytes := sum_list (map ogf_committed_bytes (og_files outgoing1)),
           og_stream_ready := Some \<lparr>srp_max_chunk_bytes = max_chunk_bytes, srp_ack_window_bytes = ack_window_bytes\<rparr>,
           og_sending := og_sending outgoing \<or> og_accepted outgoing\<rparr>)"

text \<open>The second half of \<open>handle_stream_ready\<close>, after the reconciliation with the source files.\<close>

definition start_stream_ready :: "peer_env \<Rightarrow> rstring \<Rightarrow> u32 \<Rightarrow> u64 \<Rightarrow> resume_cursor list \<Rightarrow> rtc_peer \<Rightarrow> rtc_peer" where
  "start_stream_ready e transfer_id max_chunk_bytes ack_window_bytes resume p =
     (case ri_outgoing p of
        None \<Rightarrow> fail (Some transfer_id) (rstr ''stream readiness has no outgoing transfer'') p
      | Some outgoing \<Rightarrow>
          (case og_mode outgoing of
             Buffered \<Rightarrow> fail (Some transfer_id) (rstr ''stream readiness was sent for a buffered transfer'') p
           | Streamed segment_bytes \<Rightarrow>
               if og_transfer_id outgoing \<noteq> transfer_id \<or> ack_window_bytes < ucast segment_bytes
               then fail (Some transfer_id) (rstr ''stream readiness does not match the transfer'') p
               else (case validate_resume_cursors outgoing segment_bytes resume of
                       Inl _ \<Rightarrow> send_transfer_error e transfer_id ''resume_mismatch''
                                 ''streaming resume cursor is not a verified batch checkpoint'' p
                     | Inr promote \<Rightarrow>
                         (let p1 = p\<lparr>ri_outgoing := Some (resume_outgoing promote max_chunk_bytes ack_window_bytes outgoing)\<rparr>
                          in if og_accepted outgoing \<and> \<not> og_sending outgoing
                             then spawn_outgoing transfer_id (og_generation outgoing) p1 else p1))))"

definition handle_stream_ready :: "peer_env \<Rightarrow> rstring \<Rightarrow> u32 \<Rightarrow> u64 \<Rightarrow> resume_cursor list \<Rightarrow> rtc_peer \<Rightarrow> rtc_peer" where
  "handle_stream_ready e transfer_id max_chunk_bytes ack_window_bytes resume p =
     (case ri_outgoing p of
        None \<Rightarrow> start_stream_ready e transfer_id max_chunk_bytes ack_window_bytes resume p
      | Some outgoing \<Rightarrow>
          (case og_mode outgoing of
             Streamed segment_bytes \<Rightarrow>
               if og_transfer_id outgoing = transfer_id \<and> ucast segment_bytes \<le> ack_window_bytes \<and> og_restored_from_disk outgoing
               then (if og_reconciling_resume outgoing then p
                     else case validate_resume_cursors outgoing segment_bytes resume of
                       Inr _ \<Rightarrow> start_stream_ready e transfer_id max_chunk_bytes ack_window_bytes resume
                                 (p\<lparr>ri_outgoing := Some (outgoing\<lparr>og_restored_from_disk := False\<rparr>)\<rparr>)
                     | Inl _ \<Rightarrow> spawn_local (SourceTask (ReconcileStart transfer_id max_chunk_bytes ack_window_bytes resume))
                                 (p\<lparr>ri_outgoing := Some (outgoing\<lparr>og_reconciling_resume := True\<rparr>)\<rparr>))
               else start_stream_ready e transfer_id max_chunk_bytes ack_window_bytes resume p
           | Buffered \<Rightarrow> start_stream_ready e transfer_id max_chunk_bytes ack_window_bytes resume p))"

definition handle_decision :: "rstring \<Rightarrow> bool \<Rightarrow> rtc_peer \<Rightarrow> rtc_peer" where
  "handle_decision transfer_id accepted p =
     (case ri_outgoing p of
        None \<Rightarrow> fail (Some transfer_id) (rstr ''decision has no outgoing transfer'') p
      | Some outgoing \<Rightarrow>
          if og_transfer_id outgoing \<noteq> transfer_id then fail (Some transfer_id) (rstr ''decision id does not match'') p
          else if \<not> accepted
          then delete_outgoing_later (og_recovery_peer_id outgoing)
                 (emit (TransferRejected transfer_id DirSend (summarize_transfer_files (map ogf_file (og_files outgoing)))
                          (map ogf_file (og_files outgoing))) (p\<lparr>ri_outgoing := None\<rparr>))
          else (let should_start = (og_mode outgoing = Buffered \<or> og_stream_ready outgoing \<noteq> None) \<and> \<not> og_sending outgoing;
                    p1 = p\<lparr>ri_outgoing := Some (outgoing\<lparr>og_accepted := True, og_sending := og_sending outgoing \<or> should_start\<rparr>)\<rparr>
                in if should_start then spawn_outgoing transfer_id (og_generation outgoing) p1 else p1))"

definition handle_stream_paused :: "rstring \<Rightarrow> stream_pause_reason \<Rightarrow> rtc_peer \<Rightarrow> rtc_peer" where
  "handle_stream_paused transfer_id reason p =
     (case ri_outgoing p of
        None \<Rightarrow> fail (Some transfer_id) (rstr ''stream pause has no outgoing transfer'') p
      | Some outgoing \<Rightarrow>
          if og_transfer_id outgoing \<noteq> transfer_id \<or> og_mode outgoing = Buffered
          then fail (Some transfer_id) (rstr ''stream pause does not match the outgoing transfer'') p
          else (let outgoing1 = (suspend_outgoing outgoing)\<lparr>og_accepted := True\<rparr>
                in emit (TransferPaused transfer_id DirSend reason (og_sent_bytes outgoing1) (og_total_bytes outgoing1))
                     (p\<lparr>ri_outgoing := Some outgoing1\<rparr>)))"

definition sent_stream_complete :: "peer_env \<Rightarrow> rstring \<Rightarrow> u64 \<Rightarrow> file_digest list \<Rightarrow> rtc_peer \<Rightarrow> rtc_peer" where
  "sent_stream_complete e transfer_id total_bytes digests p =
     (case ri_outgoing p of
        None \<Rightarrow> fail (Some transfer_id) (rstr ''stream completion has no active transfer'') p
      | Some outgoing \<Rightarrow>
          if og_transfer_id outgoing \<noteq> transfer_id \<or> og_mode outgoing = Buffered \<or> total_bytes \<noteq> og_total_bytes outgoing \<or>
             og_sent_bytes outgoing \<noteq> total_bytes \<or> digests \<noteq> og_expected_digests outgoing
          then fail (Some transfer_id) (rstr ''receiver stream verification does not match'') p
          else delete_outgoing_later (og_recovery_peer_id outgoing)
                 (emit (TransferCompleted (og_transfer_id outgoing) DirSend
                          (summarize_transfer_files (map ogf_file (og_files outgoing))) (map ogf_file (og_files outgoing))
                          (batch_blake3 (pe_blake3 e) digests) None) (p\<lparr>ri_outgoing := None\<rparr>)))"

definition sent_complete :: "rstring \<Rightarrow> u64 \<Rightarrow> rstring \<Rightarrow> rtc_peer \<Rightarrow> rtc_peer" where
  "sent_complete transfer_id bytes blake3 p =
     (case ri_outgoing p of
        None \<Rightarrow> fail (Some transfer_id) (rstr ''completion has no active transfer'') p
      | Some outgoing \<Rightarrow>
          (case og_files outgoing of
             [file] \<Rightarrow>
               if og_transfer_id outgoing \<noteq> transfer_id \<or> og_mode outgoing \<noteq> Buffered \<or> og_sent_bytes outgoing \<noteq> bytes \<or>
                  ogf_expected_hash file \<noteq> Some blake3
               then fail (Some transfer_id) (rstr ''receiver verification does not match'') p
               else emit (TransferCompleted (og_transfer_id outgoing) DirSend (ogf_file file) [ogf_file file] blake3 None)
                      (p\<lparr>ri_outgoing := None\<rparr>)
           | _ \<Rightarrow> fail (Some transfer_id) (rstr ''receiver verification does not match'') p))"

definition data_channel_opened :: "peer_env \<Rightarrow> rtc_peer \<Rightarrow> rtc_peer" where
  "data_channel_opened e p0 =
     (let p = emit DataChannelReady p0
      in case ri_outgoing p of
           None \<Rightarrow> p
         | Some outgoing \<Rightarrow>
             if og_mode outgoing \<noteq> Buffered \<and> \<not> og_accepted outgoing \<and> \<not> og_sending outgoing
             then (case send_current e (manifest_from_outgoing outgoing) p of
                     (p1, Inr _) \<Rightarrow> p1
                   | (p1, Inl error) \<Rightarrow> fail None (platform_error_text error) p1)
             else p)"

end
