(* ===== verification/Peer_Source.thy ===== *)
theory Peer_Source
  imports Peer_Send
begin

text \<open>
  Sending files that survive a reload of the page (\<open>rtc/browser/recovery/outgoing.rs\<close>): the record of
  an outgoing transfer is saved with the handles of its files, read back on the next visit, and
  reconciled with the checkpoint the receiver reports.
\<close>

section \<open>Offering files with handles\<close>

definition finish_offer ::
  "peer_env \<Rightarrow> rstring \<Rightarrow> outgoing_state \<times> control_message \<times> transfer_file list \<Rightarrow> rtc_peer \<Rightarrow> rtc_peer" where
  "finish_offer e peer_id prepared p =
     (case install_and_offer_outgoing e prepared p of
        (p1, Inr transfer_id) \<Rightarrow> reply (OfferReply (Inr transfer_id)) p1
      | (p1, Inl error) \<Rightarrow> spawn_local (SourceTask (OfferForget peer_id error)) p1)"

definition offer_persistent_files :: "peer_env \<Rightarrow> browser_file list \<Rightarrow> rtc_peer \<Rightarrow> rtc_peer" where
  "offer_persistent_files e files p =
     (case ri_target_peer p of
        None \<Rightarrow> reply (OfferReply (Inl (browser_text ''receiver peer is unavailable''))) p
      | Some peer_id \<Rightarrow>
          (case prepare_outgoing e files (Some peer_id) of
             Inl error \<Rightarrow> reply (OfferReply (Inl error)) p
           | Inr (outgoing, message, metadata) \<Rightarrow>
               if og_mode outgoing = Buffered
               then finish_offer e peer_id (outgoing\<lparr>og_recovery_peer_id := None\<rparr>, message, metadata) p
               else (case outgoing_recovery_record outgoing of
                       None \<Rightarrow> reply (OfferReply (Inl (browser_text ''selected files cannot be restored after a refresh''))) p
                     | Some recovery \<Rightarrow>
                         spawn_local (SourceTask (OfferSave recovery outgoing message metadata)) p)))"

section \<open>Restoring a saved transfer\<close>

definition recovery_transfer_files :: "outgoing_recovery_record \<Rightarrow> transfer_file list" where
  "recovery_transfer_files recovery =
     map (\<lambda>file. \<lparr>tf_name = orf_name file, tf_mime = orf_mime file, tf_size_bytes = orf_size_bytes file\<rparr>) (orr_files recovery)"

definition outgoing_restore_failed ::
  "bool \<Rightarrow> rstring \<Rightarrow> outgoing_recovery_record \<Rightarrow> browser_platform_error \<Rightarrow> rtc_peer \<Rightarrow> rtc_peer" where
  "outgoing_restore_failed manual peer_id recovery error p =
     (if manual
      then reply (ResumeOutgoingReply (Inl error)) (p\<lparr>ri_restoring_outgoing := False, ri_pending_outgoing_recovery := Some recovery\<rparr>)
      else spawn_local (SourceTask (OutgoingForget peer_id (Some error))) p)"

definition restored_outgoing_file :: "u8 list \<Rightarrow> outgoing_recovery_file \<Rightarrow> nat \<Rightarrow> hasher \<Rightarrow> rstring option \<Rightarrow> outgoing_file_state" where
  "restored_outgoing_file file_bytes saved browser_file hasher last_segment_blake3 =
     \<lparr>ogf_file_bytes = file_bytes,
      ogf_file = \<lparr>tf_name = orf_name saved, tf_mime = orf_mime saved, tf_size_bytes = orf_size_bytes saved\<rparr>,
      ogf_browser_file = browser_file, ogf_source_handle = Some (orf_handle saved),
      ogf_last_modified_ms = orf_last_modified_ms saved, ogf_expected_hash = None,
      ogf_committed_bytes = orf_committed_bytes saved, ogf_committed_hasher = hasher,
      ogf_last_segment_blake3 = last_segment_blake3\<rparr>"

fun restored_total :: "u64 \<Rightarrow> outgoing_file_state list \<Rightarrow> u64 option" where
  "restored_total acc [] = Some acc"
| "restored_total acc (file # files) =
     Option.bind (checked_add acc (tf_size_bytes (ogf_file file))) (\<lambda>acc. restored_total acc files)"

definition restored_outgoing ::
  "outgoing_recovery_record \<Rightarrow> u8 list \<Rightarrow> u64 \<Rightarrow> outgoing_file_state list \<Rightarrow> outgoing_state" where
  "restored_outgoing recovery transfer_bytes total_bytes files =
     \<lparr>og_transfer_id = orr_transfer_id recovery, og_transfer_bytes = transfer_bytes,
      og_mode = Streamed (orr_segment_bytes recovery), og_files = files, og_total_bytes = total_bytes,
      og_sent_bytes = sum_list (map ogf_committed_bytes files), og_expected_digests = [], og_accepted = False,
      og_stream_ready = None, og_pending_ack = None, og_generation = 0, og_sending = False, og_cancelled = False,
      og_last_progress_ms = 0, og_max_buffered_bytes = 0, og_recovery_peer_id = Some (orr_peer_id recovery),
      og_restored_from_disk = True, og_reconciling_resume = False\<rparr>"

definition outgoing_install ::
  "peer_env \<Rightarrow> bool \<Rightarrow> rstring \<Rightarrow> outgoing_recovery_record \<Rightarrow> u8 list \<Rightarrow> u64 \<Rightarrow> outgoing_file_state list \<Rightarrow> rtc_peer \<Rightarrow> rtc_peer" where
  "outgoing_install e manual peer_id recovery transfer_bytes total_bytes files p =
     (let outgoing = restored_outgoing recovery transfer_bytes total_bytes files
      in if MAX_TRANSFER_BYTES < total_bytes
         then outgoing_restore_failed manual peer_id recovery (browser_text ''saved transfer exceeds the transfer limit'') p
         else case control_message_validate (manifest_from_outgoing outgoing) of
           Inl error \<Rightarrow> outgoing_restore_failed manual peer_id recovery (protocol_failure error) p
         | Inr _ \<Rightarrow>
             if ri_outgoing p \<noteq> None \<or> ri_incoming p \<noteq> None \<or> ri_receive p \<noteq> None
             then outgoing_restore_failed manual peer_id recovery (browser_text ''another transfer is already active'') p
             else (let metadata = map ogf_file files;
                       p1 = emit (OutgoingOffered (orr_transfer_id recovery) (summarize_transfer_files metadata) metadata)
                              (p\<lparr>ri_restoring_outgoing := False, ri_pending_outgoing_recovery := None, ri_outgoing := Some outgoing\<rparr>);
                       p2 = (if data_channel_ready e p1 then data_channel_opened e p1 else p1)
                   in reply (if manual then ResumeOutgoingReply (Inr ()) else RestoreReply (Inr True)) p2))"

text \<open>The loop of \<open>restore_outgoing_recovery\<close> up to the next file that has to be read.\<close>

definition outgoing_restore_next ::
  "peer_env \<Rightarrow> bool \<Rightarrow> rstring \<Rightarrow> outgoing_recovery_record \<Rightarrow> u8 list \<Rightarrow> outgoing_file_state list \<Rightarrow> rtc_peer \<Rightarrow> rtc_peer" where
  "outgoing_restore_next e manual peer_id recovery transfer_bytes files p =
     (case restored_total 0 files of
        None \<Rightarrow> outgoing_restore_failed manual peer_id recovery (browser_text ''saved transfer size overflow'') p
      | Some total_bytes \<Rightarrow>
          if length files < length (orr_files recovery)
          then (if parse_binary_id (orf_file_id (orr_files recovery ! length files)) ''file'' = None
                then outgoing_restore_failed manual peer_id recovery (browser_text ''saved outgoing file id is invalid'') p
                else spawn_local (SourceTask (OutgoingRestore manual peer_id recovery transfer_bytes files)) p)
          else outgoing_install e manual peer_id recovery transfer_bytes total_bytes files p)"

definition outgoing_restore_file ::
  "peer_env \<Rightarrow> bool \<Rightarrow> rstring \<Rightarrow> outgoing_recovery_record \<Rightarrow> u8 list \<Rightarrow> outgoing_file_state list \<Rightarrow> rtc_peer \<Rightarrow> rtc_peer" where
  "outgoing_restore_file e manual peer_id recovery transfer_bytes files p =
     (let saved = orr_files recovery ! length files
      in case parse_binary_id (orf_file_id saved) ''file'' of
           None \<Rightarrow> outgoing_restore_failed manual peer_id recovery (browser_text ''saved outgoing file id is invalid'') p
         | Some file_bytes \<Rightarrow>
             (case recover_source_file e (orf_handle saved) (orf_name saved) (orf_mime saved) (orf_size_bytes saved)
                     (orf_last_modified_ms saved) (orf_committed_bytes saved) (orr_segment_bytes recovery) of
                None \<Rightarrow> p
              | Some (Inl error) \<Rightarrow> outgoing_restore_failed manual peer_id recovery error p
              | Some (Inr (browser_file, hasher, last_segment_blake3)) \<Rightarrow>
                  if last_segment_blake3 \<noteq> orf_last_segment_blake3 saved
                  then outgoing_restore_failed manual peer_id recovery
                         (browser_text ''source file no longer matches the saved checkpoint'') p
                  else outgoing_restore_next e manual peer_id recovery transfer_bytes
                         (files @ [restored_outgoing_file file_bytes saved browser_file hasher last_segment_blake3]) p))"

definition saved_checkpoint :: "outgoing_recovery_file \<Rightarrow> checkpoint" where
  "saved_checkpoint file =
     \<lparr>cp_file_id = orf_file_id file, cp_size_bytes = orf_size_bytes file, cp_committed_bytes = orf_committed_bytes file,
      cp_last_segment_blake3 = orf_last_segment_blake3 file\<rparr>"

definition restore_outgoing_recovery ::
  "peer_env \<Rightarrow> bool \<Rightarrow> rstring \<Rightarrow> outgoing_recovery_record \<Rightarrow> rtc_peer \<Rightarrow> rtc_peer" where
  "restore_outgoing_recovery e manual peer_id recovery p =
     (case parse_binary_id (orr_transfer_id recovery) ''transfer'' of
        None \<Rightarrow> outgoing_restore_failed manual peer_id recovery (browser_text ''saved outgoing transfer id is invalid'') p
      | Some transfer_bytes \<Rightarrow>
          if orr_segment_bytes recovery = 0 \<or> orr_files recovery = [] \<or> MAX_FILES_PER_MANIFEST < length (orr_files recovery)
          then outgoing_restore_failed manual peer_id recovery (browser_text ''saved outgoing manifest is invalid'') p
          else if validate_checkpoint_prefix (orr_segment_bytes recovery) (map saved_checkpoint (orr_files recovery)) \<noteq> Inr ()
          then outgoing_restore_failed manual peer_id recovery (browser_text ''saved outgoing checkpoint is invalid'') p
          else outgoing_restore_next e manual peer_id recovery transfer_bytes [] p)"

definition restore_outgoing_transfer :: "rstring \<Rightarrow> rtc_peer \<Rightarrow> rtc_peer" where
  "restore_outgoing_transfer peer_id p =
     (if ri_outgoing p \<noteq> None \<or> ri_pending_outgoing_recovery p \<noteq> None \<or> ri_restoring_outgoing p
      then reply (RestoreReply (Inr False)) p
      else spawn_local (SourceTask (OutgoingLoad peer_id)) (p\<lparr>ri_restoring_outgoing := True\<rparr>))"

definition outgoing_loaded :: "peer_env \<Rightarrow> rstring \<Rightarrow> rtc_peer \<Rightarrow> rtc_peer" where
  "outgoing_loaded e peer_id p =
     (case pe_load_outgoing e of
        Inl error \<Rightarrow> reply (RestoreReply (Inl error)) (p\<lparr>ri_restoring_outgoing := False\<rparr>)
      | Inr None \<Rightarrow> reply (RestoreReply (Inr False)) (p\<lparr>ri_restoring_outgoing := False\<rparr>)
      | Inr (Some recovery) \<Rightarrow>
          if orr_peer_id recovery = peer_id
          then spawn_local (SourceTask (OutgoingPermissions False peer_id recovery)) p
          else spawn_local (SourceTask (OutgoingForget peer_id None)) p)"

definition SOURCE_DENIED_MESSAGE :: rstring where
  "SOURCE_DENIED_MESSAGE = [0x672A, 0x83B7, 0x5F97, 0x539F, 0x6587, 0x4EF6, 0x7684, 0x8BFB, 0x53D6, 0x6743, 0x9650]"

definition outgoing_permitted :: "peer_env \<Rightarrow> bool \<Rightarrow> rstring \<Rightarrow> outgoing_recovery_record \<Rightarrow> rtc_peer \<Rightarrow> rtc_peer" where
  "outgoing_permitted e manual peer_id recovery p =
     (case pe_permissions e of
        Inl error \<Rightarrow>
          if manual then outgoing_restore_failed True peer_id recovery error p
          else spawn_local (SourceTask (OutgoingForget peer_id None)) p
      | Inr permissions \<Rightarrow>
          if list_all (\<lambda>permission. permission = PermGranted) permissions then restore_outgoing_recovery e manual peer_id recovery p
          else if manual then outgoing_restore_failed True peer_id recovery (BrowserFailure SOURCE_DENIED_MESSAGE) p
          else if PermPrompt \<in> set permissions
          then reply (RestoreReply (Inr True))
                 (emit (OutgoingRecoveryOffered (orr_transfer_id recovery)
                          (summarize_transfer_files (recovery_transfer_files recovery)) (recovery_transfer_files recovery))
                   (p\<lparr>ri_restoring_outgoing := False, ri_pending_outgoing_recovery := Some recovery\<rparr>))
          else spawn_local (SourceTask (OutgoingForget peer_id None)) p)"

definition resume_outgoing_transfer :: "rtc_peer \<Rightarrow> rtc_peer" where
  "resume_outgoing_transfer p =
     (if ri_restoring_outgoing p
      then reply (ResumeOutgoingReply (Inl (browser_text ''source file recovery is already running''))) p
      else case ri_pending_outgoing_recovery p of
        None \<Rightarrow> reply (ResumeOutgoingReply (Inl (browser_text ''saved source files are no longer available''))) p
      | Some recovery \<Rightarrow>
          spawn_local (SourceTask (OutgoingPermissions True (orr_peer_id recovery) recovery))
            (p\<lparr>ri_pending_outgoing_recovery := None, ri_restoring_outgoing := True\<rparr>))"

section \<open>Reconciling with the receiver\<close>

fun resume_error_text :: "checkpoint_error \<Rightarrow> string" where
  "resume_error_text FileCountMismatch = ''receiver checkpoint file count does not match''"
| "resume_error_text FileOrderMismatch = ''receiver checkpoint file order does not match''"
| "resume_error_text _ = ''receiver checkpoint is not a verified segment boundary''"

definition apply_resume_to_recovery ::
  "outgoing_recovery_record \<Rightarrow> resume_cursor list \<Rightarrow> browser_platform_error + outgoing_recovery_record" where
  "apply_resume_to_recovery recovery resume =
     bind_result (map_err (\<lambda>error. browser_text (resume_error_text error))
        (resolve_manifest_resume (orr_segment_bytes recovery)
           (map (\<lambda>file. \<lparr>mf_file_id = orf_file_id file, mf_size_bytes = orf_size_bytes file\<rparr>) (orr_files recovery)) resume))
       (\<lambda>resolved. Inr (recovery\<lparr>orr_files := map (\<lambda>(file, checkpoint).
            file\<lparr>orf_committed_bytes := rv_committed_bytes checkpoint,
                 orf_last_segment_blake3 := rv_last_segment_blake3 checkpoint\<rparr>) (zip (orr_files recovery) resolved)\<rparr>))"

definition reconcile_failed :: "peer_env \<Rightarrow> rstring \<Rightarrow> browser_platform_error \<Rightarrow> rtc_peer \<Rightarrow> rtc_peer" where
  "reconcile_failed e transfer_id error p =
     fail (Some transfer_id) (platform_error_text error)
       (clear_transfer transfer_id
         (send_transfer_error e transfer_id ''resume_mismatch'' ''streaming resume cursor does not match the source files'' p))"

definition reconcile_next ::
  "rstring \<Rightarrow> u32 \<Rightarrow> u64 \<Rightarrow> resume_cursor list \<Rightarrow> outgoing_recovery_record \<Rightarrow> (nat \<times> hasher \<times> rstring option) list \<Rightarrow>
   rtc_peer \<Rightarrow> rtc_peer" where
  "reconcile_next transfer_id max_chunk_bytes ack_window_bytes resume recovery recovered p =
     (if length recovered < length (orr_files recovery)
      then spawn_local (SourceTask (Reconcile transfer_id max_chunk_bytes ack_window_bytes resume recovery recovered)) p
      else spawn_local (SourceTask (ReconcileSave transfer_id max_chunk_bytes ack_window_bytes resume recovery recovered)) p)"

definition reconcile_start :: "peer_env \<Rightarrow> rstring \<Rightarrow> u32 \<Rightarrow> u64 \<Rightarrow> resume_cursor list \<Rightarrow> rtc_peer \<Rightarrow> rtc_peer" where
  "reconcile_start e transfer_id max_chunk_bytes ack_window_bytes resume p =
     (case ri_outgoing p of
        None \<Rightarrow> reconcile_failed e transfer_id (browser_text ''outgoing recovery disappeared'') p
      | Some outgoing \<Rightarrow>
          if og_transfer_id outgoing \<noteq> transfer_id \<or> \<not> og_restored_from_disk outgoing \<or> \<not> og_reconciling_resume outgoing
          then reconcile_failed e transfer_id (browser_text ''outgoing recovery is no longer active'') p
          else (case outgoing_recovery_record outgoing of
                  None \<Rightarrow> reconcile_failed e transfer_id (browser_text ''outgoing source handles are unavailable'') p
                | Some recovery \<Rightarrow>
                    (case apply_resume_to_recovery recovery resume of
                       Inl error \<Rightarrow> reconcile_failed e transfer_id error p
                     | Inr recovery1 \<Rightarrow> reconcile_next transfer_id max_chunk_bytes ack_window_bytes resume recovery1 [] p)))"

definition reconcile_file ::
  "peer_env \<Rightarrow> rstring \<Rightarrow> u32 \<Rightarrow> u64 \<Rightarrow> resume_cursor list \<Rightarrow> outgoing_recovery_record \<Rightarrow> (nat \<times> hasher \<times> rstring option) list \<Rightarrow>
   rtc_peer \<Rightarrow> rtc_peer" where
  "reconcile_file e transfer_id max_chunk_bytes ack_window_bytes resume recovery recovered p =
     (let file = orr_files recovery ! length recovered
      in case recover_source_file e (orf_handle file) (orf_name file) (orf_mime file) (orf_size_bytes file)
                (orf_last_modified_ms file) (orf_committed_bytes file) (orr_segment_bytes recovery) of
           None \<Rightarrow> p
         | Some (Inl error) \<Rightarrow> reconcile_failed e transfer_id error p
         | Some (Inr (browser_file, hasher, last_segment_blake3)) \<Rightarrow>
             if last_segment_blake3 \<noteq> orf_last_segment_blake3 file
             then reconcile_failed e transfer_id (browser_text ''receiver checkpoint does not match the source file'') p
             else reconcile_next transfer_id max_chunk_bytes ack_window_bytes resume recovery
                    (recovered @ [(browser_file, hasher, last_segment_blake3)]) p)"

definition reconciled_file ::
  "outgoing_file_state \<Rightarrow> outgoing_recovery_file \<Rightarrow> nat \<times> hasher \<times> rstring option \<Rightarrow> outgoing_file_state" where
  "reconciled_file state saved recovered =
     (case recovered of (browser_file, hasher, last_segment_blake3) \<Rightarrow>
        state\<lparr>ogf_browser_file := browser_file, ogf_committed_bytes := orf_committed_bytes saved,
              ogf_committed_hasher := hasher, ogf_last_segment_blake3 := last_segment_blake3\<rparr>)"

definition reconcile_saved ::
  "peer_env \<Rightarrow> rstring \<Rightarrow> u32 \<Rightarrow> u64 \<Rightarrow> resume_cursor list \<Rightarrow> outgoing_recovery_record \<Rightarrow> (nat \<times> hasher \<times> rstring option) list \<Rightarrow>
   rtc_peer \<Rightarrow> rtc_peer" where
  "reconcile_saved e transfer_id max_chunk_bytes ack_window_bytes resume recovery recovered p =
     (case pe_promise e of
        Some error \<Rightarrow> reconcile_failed e transfer_id error p
      | None \<Rightarrow>
          (case ri_outgoing p of
             None \<Rightarrow> reconcile_failed e transfer_id (browser_text ''outgoing recovery disappeared'') p
           | Some outgoing \<Rightarrow>
               if og_transfer_id outgoing \<noteq> transfer_id \<or> \<not> og_restored_from_disk outgoing \<or> \<not> og_reconciling_resume outgoing \<or>
                  length (og_files outgoing) \<noteq> length recovered
               then reconcile_failed e transfer_id (browser_text ''outgoing recovery changed while validating files'') p
               else (let files = map (\<lambda>((state, saved), recovered). reconciled_file state saved recovered)
                                   (zip (zip (og_files outgoing) (orr_files recovery)) recovered)
                     in handle_stream_ready e transfer_id max_chunk_bytes ack_window_bytes resume
                          (p\<lparr>ri_outgoing := Some (outgoing\<lparr>og_files := files,
                               og_sent_bytes := sum_list (map ogf_committed_bytes files), og_restored_from_disk := False,
                               og_reconciling_resume := False\<rparr>)\<rparr>))))"

section \<open>The tasks\<close>

fun run_source_task :: "peer_env \<Rightarrow> source_task \<Rightarrow> rtc_peer \<Rightarrow> rtc_peer" where
  "run_source_task e (OfferSave recovery outgoing message metadata) p =
     (case pe_promise e of
        Some error \<Rightarrow> reply (OfferReply (Inl error)) p
      | None \<Rightarrow> finish_offer e (orr_peer_id recovery) (outgoing, message, metadata) p)"
| "run_source_task e (OfferForget peer_id error) p = reply (OfferReply (Inl error)) p"
| "run_source_task e (OutgoingLoad peer_id) p = outgoing_loaded e peer_id p"
| "run_source_task e (OutgoingForget peer_id error) p =
     reply (RestoreReply (case error of None \<Rightarrow> Inr False | Some error \<Rightarrow> Inl error)) (p\<lparr>ri_restoring_outgoing := False\<rparr>)"
| "run_source_task e (OutgoingPermissions manual peer_id recovery) p = outgoing_permitted e manual peer_id recovery p"
| "run_source_task e (OutgoingRestore manual peer_id recovery transfer_bytes files) p =
     outgoing_restore_file e manual peer_id recovery transfer_bytes files p"
| "run_source_task e (ReconcileStart transfer_id max_chunk_bytes ack_window_bytes resume) p =
     reconcile_start e transfer_id max_chunk_bytes ack_window_bytes resume p"
| "run_source_task e (Reconcile transfer_id max_chunk_bytes ack_window_bytes resume recovery recovered) p =
     reconcile_file e transfer_id max_chunk_bytes ack_window_bytes resume recovery recovered p"
| "run_source_task e (ReconcileSave transfer_id max_chunk_bytes ack_window_bytes resume recovery recovered) p =
     reconcile_saved e transfer_id max_chunk_bytes ack_window_bytes resume recovery recovered p"

end
