(* ===== verification/Peer_Signal.thy ===== *)
theory Peer_Signal
  imports Peer_Send
begin

text \<open>
  The negotiation of a connection (\<open>rtc/browser/signaling.rs\<close>, \<open>rtc/browser/connection.rs\<close>): offers,
  answers and candidates, queued until the descriptions are known, with the connection objects and
  their data channels. A task carries the epoch and the identifier of its negotiation.
\<close>

section \<open>Connections\<close>

definition NEGOTIATION_SIGNAL_LIMIT :: nat where "NEGOTIATION_SIGNAL_LIMIT = 64"

datatype peer_connection_state = PcNew | PcConnecting | PcConnected | PcDisconnected | PcFailed | PcClosed | PcUnknown

fun map_connection_state :: "peer_connection_state \<Rightarrow> rtc_connection_phase" where
  "map_connection_state PcNew = ConnNew"
| "map_connection_state PcConnecting = ConnConnecting"
| "map_connection_state PcConnected = ConnConnected"
| "map_connection_state PcDisconnected = ConnDisconnected"
| "map_connection_state PcFailed = ConnFailed"
| "map_connection_state PcClosed = ConnClosed"
| "map_connection_state PcUnknown = ConnFailed"

definition local_description_sdp :: "peer_env \<Rightarrow> nat \<Rightarrow> browser_platform_error + rstring" where
  "local_description_sdp e connection =
     (case pe_local_sdp e connection of
        None \<Rightarrow> Inl (DecodeFailure (rstr ''RTC local description is unavailable''))
      | Some sdp \<Rightarrow> if sdp = [] then Inl (DecodeFailure (rstr ''RTC local description has no SDP'')) else Inr sdp)"

definition generate_negotiation_id :: "u8 list \<Rightarrow> rstring" where
  "generate_negotiation_id bytes =
     rstr ''n_'' @ concat (map (\<lambda>byte. [nibble_char (drop_bit 4 byte), nibble_char (byte AND 0x0f)]) bytes)"

definition browser_call :: "browser_call \<Rightarrow> rtc_peer \<Rightarrow> rtc_peer" where
  "browser_call call p = p\<lparr>pr_calls := pr_calls p @ [call]\<rparr>"

definition negotiation_is_current :: "rtc_peer \<Rightarrow> u64 \<Rightarrow> rstring \<Rightarrow> bool" where
  "negotiation_is_current p connection_epoch negotiation_id \<longleftrightarrow>
     ri_connection_epoch p = connection_epoch \<and> ri_negotiation_id p = Some negotiation_id \<and> ri_peer_connection p \<noteq> None"

definition finish_negotiating :: "u64 \<Rightarrow> rtc_peer \<Rightarrow> rtc_peer" where
  "finish_negotiating connection_epoch p =
     (if connection_epoch_is_current p connection_epoch then p\<lparr>ri_negotiating := False\<rparr> else p)"

definition mark_remote_description_set :: "u64 \<Rightarrow> rtc_peer \<Rightarrow> rtc_peer \<times> bool" where
  "mark_remote_description_set connection_epoch p =
     (if connection_epoch_is_current p connection_epoch
      then (p\<lparr>ri_remote_description_pending := False, ri_remote_description_set := True\<rparr>, True) else (p, False))"

definition clear_remote_description_pending :: "u64 \<Rightarrow> rstring \<Rightarrow> rtc_peer \<Rightarrow> rtc_peer" where
  "clear_remote_description_pending connection_epoch negotiation_id p =
     (if negotiation_is_current p connection_epoch negotiation_id then p\<lparr>ri_remote_description_pending := False\<rparr> else p)"

definition new_peer_connection ::
  "peer_env \<Rightarrow> rstring \<Rightarrow> rstring \<Rightarrow> rtc_peer \<Rightarrow> rtc_peer \<times> (browser_platform_error + nat \<times> u64)" where
  "new_peer_connection e target_peer negotiation_id p =
     (case pe_new_connection e of
        Inl error \<Rightarrow> (p, Inl (BrowserFailure error))
      | Inr connection \<Rightarrow>
          (p\<lparr>ri_connection_epoch := ri_connection_epoch p + 1, ri_target_peer := Some target_peer,
             ri_negotiation_id := Some negotiation_id, ri_local_description_announced := False,
             ri_remote_description_pending := False, ri_remote_description_set := False, ri_pending_local_candidates := [],
             ri_pending_remote_candidates := filter (\<lambda>(from_peer, candidate_negotiation_id, _).
                 from_peer = target_peer \<and> candidate_negotiation_id = negotiation_id) (ri_pending_remote_candidates p),
             ri_peer_connection := Some connection\<rparr>,
           Inr (connection, ri_connection_epoch p + 1)))"

definition ensure_peer_connection ::
  "peer_env \<Rightarrow> rstring \<Rightarrow> rstring \<Rightarrow> rtc_peer \<Rightarrow> rtc_peer \<times> (browser_platform_error + nat \<times> u64)" where
  "ensure_peer_connection e target_peer negotiation_id p =
     (let existing = (case (ri_peer_connection p, ri_target_peer p, ri_negotiation_id p) of
                        (Some connection, Some target, Some negotiation) \<Rightarrow> Some (connection, target, negotiation)
                      | _ \<Rightarrow> None)
      in case existing of
           Some (connection, target, negotiation) \<Rightarrow>
             if target = target_peer \<and> negotiation = negotiation_id then (p, Inr (connection, ri_connection_epoch p))
             else if \<not> lease_is_valid (pe_monotonic_ms e) (ri_rtc_config p) then (p, Inl RtcConfigExpired)
             else new_peer_connection e target_peer negotiation_id (reset_peer p)
         | None \<Rightarrow>
             if \<not> lease_is_valid (pe_monotonic_ms e) (ri_rtc_config p) then (p, Inl RtcConfigExpired)
             else new_peer_connection e target_peer negotiation_id p)"

definition install_data_channel :: "peer_env \<Rightarrow> nat \<Rightarrow> u64 \<Rightarrow> rtc_peer \<Rightarrow> rtc_peer" where
  "install_data_channel e channel connection_epoch p =
     (if \<not> connection_epoch_is_current p connection_epoch then browser_call (CloseChannel channel) p
      else (let p1 = (case ri_data_channel p of None \<Rightarrow> p | Some previous \<Rightarrow> browser_call (CloseChannel previous) p)\<lparr>ri_data_channel := Some channel\<rparr>
            in if pe_open e channel then data_channel_opened e p1 else p1))"

section \<open>Local candidates and descriptions\<close>

definition queue_or_emit_local_candidate :: "u64 \<Rightarrow> rstring \<Rightarrow> rtc_signal \<Rightarrow> rtc_peer \<Rightarrow> rtc_peer" where
  "queue_or_emit_local_candidate connection_epoch negotiation_id signal p =
     (if \<not> negotiation_is_current p connection_epoch negotiation_id then p
      else case ri_target_peer p of
        None \<Rightarrow> p
      | Some target_peer \<Rightarrow>
          if ri_local_description_announced p then emit (OutboundSignal target_peer negotiation_id signal) p
          else if length (ri_pending_local_candidates p) < NEGOTIATION_SIGNAL_LIMIT
          then p\<lparr>ri_pending_local_candidates := ri_pending_local_candidates p @ [signal]\<rparr>
          else negotiation_failed (rstr ''too many queued local ICE candidates'') p)"

definition announce_local_description :: "u64 \<Rightarrow> rstring \<Rightarrow> rstring \<Rightarrow> rtc_signal \<Rightarrow> rtc_peer \<Rightarrow> rtc_peer" where
  "announce_local_description connection_epoch negotiation_id to_peer_id signal p =
     (if \<not> negotiation_is_current p connection_epoch negotiation_id then p
      else fold (\<lambda>signal. emit (OutboundSignal to_peer_id negotiation_id signal)) (signal # ri_pending_local_candidates p)
             (p\<lparr>ri_local_description_announced := True, ri_pending_local_candidates := []\<rparr>))"

section \<open>Starting a connection\<close>

definition start_offer :: "peer_env \<Rightarrow> rstring \<Rightarrow> rtc_peer \<Rightarrow> rtc_peer \<times> (browser_platform_error + offer_start)" where
  "start_offer e target_peer p =
     (if ri_negotiating p \<or> ri_target_peer p = Some target_peer \<and> ri_peer_connection p \<noteq> None then (p, Inr OfferAlreadyActive)
      else (let negotiation_id = generate_negotiation_id (pe_random e 0)
            in case ensure_peer_connection e target_peer negotiation_id p of
                 (p1, Inl error) \<Rightarrow> (p1, Inl error)
               | (p1, Inr (connection, connection_epoch)) \<Rightarrow>
                   (spawn_local (SignalTask (OfferCreated
                       \<lparr>ng_connection = connection, ng_epoch = connection_epoch, ng_id = negotiation_id, ng_peer = target_peer\<rparr>))
                      (browser_call (CallCreateOffer connection)
                        (install_data_channel e (pe_new_channel e) connection_epoch (p1\<lparr>ri_negotiating := True\<rparr>))),
                    Inr OfferStarted)))"

definition offer_failed :: "negotiation \<Rightarrow> browser_platform_error \<Rightarrow> rtc_peer \<Rightarrow> rtc_peer" where
  "offer_failed n error p =
     (if \<not> negotiation_is_current p (ng_epoch n) (ng_id n) then p
      else negotiation_failed (platform_error_text error) (finish_negotiating (ng_epoch n) p))"

definition offer_created :: "peer_env \<Rightarrow> negotiation \<Rightarrow> rtc_peer \<Rightarrow> rtc_peer" where
  "offer_created e n p =
     (if \<not> connection_epoch_is_current p (ng_epoch n) then p
      else case pe_promise e of
        Some error \<Rightarrow> offer_failed n error p
      | None \<Rightarrow> spawn_local (SignalTask (OfferLocalSet n)) (browser_call (CallSetLocal (ng_connection n)) p))"

definition offer_local_set :: "peer_env \<Rightarrow> negotiation \<Rightarrow> rtc_peer \<Rightarrow> rtc_peer" where
  "offer_local_set e n p =
     (if \<not> connection_epoch_is_current p (ng_epoch n) then p
      else case pe_promise e of
        Some error \<Rightarrow> offer_failed n error p
      | None \<Rightarrow>
          (case local_description_sdp e (ng_connection n) of
             Inl error \<Rightarrow> offer_failed n error p
           | Inr sdp \<Rightarrow>
               announce_local_description (ng_epoch n) (ng_id n) (ng_peer n) (Offer sdp) (finish_negotiating (ng_epoch n) p)))"

section \<open>Signals of the other side\<close>

datatype prepared_signal = PreparedTask signal_task | PreparedDeferred | PreparedIgnored

definition prepare_signal_task ::
  "peer_env \<Rightarrow> rstring \<Rightarrow> rstring \<Rightarrow> rtc_signal \<Rightarrow> rtc_peer \<Rightarrow> rtc_peer \<times> (browser_platform_error + prepared_signal)" where
  "prepare_signal_task e from_peer negotiation_id signal p =
     (case signal of
        Offer sdp \<Rightarrow>
          if ri_peer_connection p \<noteq> None \<and> ri_target_peer p = Some from_peer \<and> ri_negotiation_id p = Some negotiation_id
          then (p, Inr PreparedIgnored)
          else (case ensure_peer_connection e from_peer negotiation_id
                       (if ri_peer_connection p \<noteq> None then prepare_reconnect p else p) of
                  (p1, Inl error) \<Rightarrow> (p1, Inl error)
                | (p1, Inr (connection, connection_epoch)) \<Rightarrow>
                    (browser_call (CallSetRemote connection signal) p1,
                     Inr (PreparedTask (RemoteOfferSet \<lparr>ng_connection = connection, ng_epoch = connection_epoch,
                                                         ng_id = negotiation_id, ng_peer = from_peer\<rparr>))))
      | Answer sdp \<Rightarrow>
          if ri_target_peer p \<noteq> Some from_peer \<or> ri_negotiation_id p \<noteq> Some negotiation_id then (p, Inr PreparedIgnored)
          else (case ri_peer_connection p of
                  None \<Rightarrow> (p, Inr PreparedIgnored)
                | Some connection \<Rightarrow>
                    if \<not> ri_local_description_announced p \<or> ri_remote_description_pending p \<or> ri_remote_description_set p
                    then (p, Inr PreparedIgnored)
                    else (browser_call (CallSetRemote connection signal) (p\<lparr>ri_remote_description_pending := True\<rparr>),
                          Inr (PreparedTask (RemoteAnswerSet \<lparr>ng_connection = connection, ng_epoch = ri_connection_epoch p,
                                                               ng_id = negotiation_id, ng_peer = from_peer\<rparr>))))
      | IceCandidate _ _ _ \<Rightarrow>
          if (case ri_target_peer p of None \<Rightarrow> False | Some target \<Rightarrow> target \<noteq> from_peer) \<or>
             (case ri_negotiation_id p of None \<Rightarrow> False | Some current \<Rightarrow> current \<noteq> negotiation_id)
          then (p, Inr PreparedIgnored)
          else (case (ri_remote_description_set p, ri_peer_connection p) of
                  (True, Some connection) \<Rightarrow>
                    (p, Inr (PreparedTask (CandidateStart \<lparr>ng_connection = connection, ng_epoch = ri_connection_epoch p,
                                                            ng_id = negotiation_id, ng_peer = from_peer\<rparr> signal)))
                | _ \<Rightarrow>
                    if NEGOTIATION_SIGNAL_LIMIT \<le> length (ri_pending_remote_candidates p)
                    then (p, Inl (browser_text ''too many queued ICE candidates''))
                    else (p\<lparr>ri_pending_remote_candidates := ri_pending_remote_candidates p @ [(from_peer, negotiation_id, signal)]\<rparr>,
                          Inr PreparedDeferred)))"

definition accept_signal ::
  "peer_env \<Rightarrow> rstring \<Rightarrow> rstring \<Rightarrow> rtc_signal \<Rightarrow> rtc_peer \<Rightarrow> rtc_peer \<times> (browser_platform_error + signal_acceptance)" where
  "accept_signal e from_peer negotiation_id signal p =
     (case prepare_signal_task e from_peer negotiation_id signal p of
        (p1, Inl error) \<Rightarrow> (p1, Inl error)
      | (p1, Inr PreparedIgnored) \<Rightarrow> (p1, Inr SignalIgnored)
      | (p1, Inr PreparedDeferred) \<Rightarrow> (p1, Inr SignalDeferred)
      | (p1, Inr (PreparedTask task)) \<Rightarrow> (spawn_local (SignalTask task) p1, Inr SignalScheduled))"

definition signal_failed :: "negotiation \<Rightarrow> browser_platform_error \<Rightarrow> rtc_peer \<Rightarrow> rtc_peer" where
  "signal_failed n error p =
     (if \<not> negotiation_is_current p (ng_epoch n) (ng_id n) then p
      else negotiation_failed (platform_error_text error) (clear_remote_description_pending (ng_epoch n) (ng_id n) p))"

text \<open>What follows the queued candidates: the answer to an offer, or nothing.\<close>

definition candidates_done :: "bool \<Rightarrow> negotiation \<Rightarrow> rtc_peer \<Rightarrow> rtc_peer" where
  "candidates_done answering n p =
     (if answering then spawn_local (SignalTask (AnswerCreated n)) (browser_call (CallCreateAnswer (ng_connection n)) p) else p)"

fun candidates_next :: "peer_env \<Rightarrow> bool \<Rightarrow> negotiation \<Rightarrow> rtc_signal list \<Rightarrow> rtc_peer \<Rightarrow> rtc_peer" where
  "candidates_next e answering n [] p = candidates_done answering n p"
| "candidates_next e answering n (signal # signals) p =
     (case signal of
        IceCandidate _ _ _ \<Rightarrow>
          (case pe_candidate_valid e signal of
             Some error \<Rightarrow> signal_failed n (BrowserFailure error) p
           | None \<Rightarrow>
               if \<not> negotiation_is_current p (ng_epoch n) (ng_id n) then candidates_done answering n p
               else spawn_local (SignalTask (CandidatesAdded answering n signals))
                      (browser_call (CallAddCandidate (ng_connection n) signal) p))
      | _ \<Rightarrow>
          if \<not> negotiation_is_current p (ng_epoch n) (ng_id n) then candidates_done answering n p
          else candidates_next e answering n signals p)"

definition apply_pending_candidates :: "peer_env \<Rightarrow> bool \<Rightarrow> negotiation \<Rightarrow> rtc_peer \<Rightarrow> rtc_peer" where
  "apply_pending_candidates e answering n p =
     (if \<not> negotiation_is_current p (ng_epoch n) (ng_id n) then candidates_done answering n p
      else candidates_next e answering n
             (map (\<lambda>(_, _, signal). signal)
               (filter (\<lambda>(from_peer, negotiation_id, _). ri_target_peer p = Some from_peer \<and> negotiation_id = ng_id n)
                  (ri_pending_remote_candidates p)))
             (p\<lparr>ri_pending_remote_candidates := []\<rparr>))"

definition remote_description_set :: "peer_env \<Rightarrow> bool \<Rightarrow> negotiation \<Rightarrow> rtc_peer \<Rightarrow> rtc_peer" where
  "remote_description_set e answering n p =
     (if \<not> connection_epoch_is_current p (ng_epoch n) then p
      else case pe_promise e of
        Some error \<Rightarrow> signal_failed n error p
      | None \<Rightarrow>
          (case mark_remote_description_set (ng_epoch n) p of
             (p1, True) \<Rightarrow> apply_pending_candidates e answering n p1
           | (p1, False) \<Rightarrow> p1))"

definition candidates_added :: "peer_env \<Rightarrow> bool \<Rightarrow> negotiation \<Rightarrow> rtc_signal list \<Rightarrow> rtc_peer \<Rightarrow> rtc_peer" where
  "candidates_added e answering n signals p =
     (if \<not> connection_epoch_is_current p (ng_epoch n) then candidates_done answering n p
      else case pe_promise e of
        Some error \<Rightarrow> signal_failed n error p
      | None \<Rightarrow>
          if \<not> negotiation_is_current p (ng_epoch n) (ng_id n) then candidates_done answering n p
          else candidates_next e answering n signals p)"

definition candidate_start :: "peer_env \<Rightarrow> negotiation \<Rightarrow> rtc_signal \<Rightarrow> rtc_peer \<Rightarrow> rtc_peer" where
  "candidate_start e n signal p =
     (case pe_candidate_valid e signal of
        Some error \<Rightarrow> signal_failed n (BrowserFailure error) p
      | None \<Rightarrow>
          if \<not> negotiation_is_current p (ng_epoch n) (ng_id n) then p
          else spawn_local (SignalTask (CandidateAdded n)) (browser_call (CallAddCandidate (ng_connection n) signal) p))"

definition candidate_added :: "peer_env \<Rightarrow> negotiation \<Rightarrow> rtc_peer \<Rightarrow> rtc_peer" where
  "candidate_added e n p =
     (if \<not> connection_epoch_is_current p (ng_epoch n) then p
      else case pe_promise e of Some error \<Rightarrow> signal_failed n error p | None \<Rightarrow> p)"

definition answer_created :: "peer_env \<Rightarrow> negotiation \<Rightarrow> rtc_peer \<Rightarrow> rtc_peer" where
  "answer_created e n p =
     (if \<not> connection_epoch_is_current p (ng_epoch n) then p
      else case pe_promise e of
        Some error \<Rightarrow> signal_failed n error p
      | None \<Rightarrow> spawn_local (SignalTask (AnswerLocalSet n)) (browser_call (CallSetLocal (ng_connection n)) p))"

definition answer_local_set :: "peer_env \<Rightarrow> negotiation \<Rightarrow> rtc_peer \<Rightarrow> rtc_peer" where
  "answer_local_set e n p =
     (if \<not> connection_epoch_is_current p (ng_epoch n) then p
      else case pe_promise e of
        Some error \<Rightarrow> signal_failed n error p
      | None \<Rightarrow>
          (case local_description_sdp e (ng_connection n) of
             Inl error \<Rightarrow> signal_failed n error p
           | Inr sdp \<Rightarrow> announce_local_description (ng_epoch n) (ng_id n) (ng_peer n) (Answer sdp) p))"

fun run_signal_task :: "peer_env \<Rightarrow> signal_task \<Rightarrow> rtc_peer \<Rightarrow> rtc_peer" where
  "run_signal_task e (OfferCreated n) p = offer_created e n p"
| "run_signal_task e (OfferLocalSet n) p = offer_local_set e n p"
| "run_signal_task e (RemoteOfferSet n) p = remote_description_set e True n p"
| "run_signal_task e (RemoteAnswerSet n) p = remote_description_set e False n p"
| "run_signal_task e (CandidatesAdded answering n signals) p = candidates_added e answering n signals p"
| "run_signal_task e (CandidateStart n signal) p = candidate_start e n signal p"
| "run_signal_task e (CandidateAdded n) p = candidate_added e n p"
| "run_signal_task e (AnswerCreated n) p = answer_created e n p"
| "run_signal_task e (AnswerLocalSet n) p = answer_local_set e n p"

section \<open>Events of the connection\<close>

definition on_ice_candidate :: "u64 \<Rightarrow> rstring \<Rightarrow> rtc_signal option \<Rightarrow> rtc_peer \<Rightarrow> rtc_peer" where
  "on_ice_candidate connection_epoch negotiation_id candidate p =
     (if \<not> negotiation_is_current p connection_epoch negotiation_id then p
      else case candidate of
        None \<Rightarrow> p
      | Some signal \<Rightarrow> queue_or_emit_local_candidate connection_epoch negotiation_id signal p)"

definition on_connection_state :: "u64 \<Rightarrow> peer_connection_state \<Rightarrow> rtc_peer \<Rightarrow> rtc_peer" where
  "on_connection_state connection_epoch state p =
     (if \<not> connection_epoch_is_current p connection_epoch then p
      else (let phase = map_connection_state state
            in emit (ConnectionState phase)
                 (if phase = ConnFailed \<or> phase = ConnClosed then suspend_stream_for_reconnect p else p)))"

definition on_data_channel :: "peer_env \<Rightarrow> u64 \<Rightarrow> nat \<Rightarrow> rtc_peer \<Rightarrow> rtc_peer" where
  "on_data_channel e connection_epoch channel p =
     (if connection_epoch_is_current p connection_epoch then install_data_channel e channel connection_epoch p else p)"

definition on_channel_open :: "peer_env \<Rightarrow> u64 \<Rightarrow> rtc_peer \<Rightarrow> rtc_peer" where
  "on_channel_open e connection_epoch p =
     (if connection_epoch_is_current p connection_epoch then data_channel_opened e p else p)"

definition on_channel_closed :: "u64 \<Rightarrow> rtc_connection_phase \<Rightarrow> rtc_peer \<Rightarrow> rtc_peer" where
  "on_channel_closed connection_epoch phase p =
     (if \<not> connection_epoch_is_current p connection_epoch then p
      else emit (ConnectionState phase) (suspend_stream_for_reconnect p))"

end
