(* ===== verification/Peer_Engine.thy ===== *)
theory Peer_Engine
  imports Peer_Text Peer_Restore Peer_Source Peer_Signal
begin

text \<open>
  The peer as a whole (\<open>rtc/browser/control.rs\<close>, the message handler of \<open>signaling.rs\<close>): the dispatch
  of the messages of a data channel, and one step of a peer, which is a method called by the
  application, an event of the browser, or the continuation of a task that was waiting.
\<close>

section \<open>Messages of the data channel\<close>

definition handle_start :: "rstring \<Rightarrow> rtc_peer \<Rightarrow> rtc_peer" where
  "handle_start transfer_id p =
     (case ri_receive p of
        None \<Rightarrow> fail (Some transfer_id) (rstr ''transfer started before acceptance'') p
      | Some receive \<Rightarrow>
          if io_transfer_id (rv_offer receive) \<noteq> transfer_id
          then fail (Some transfer_id) (rstr ''transfer start id does not match'') p
          else (let files = offer_transfer_files (rv_offer receive);
                    p1 = emit (TransferStarted transfer_id DirReceive (io_mode (rv_offer receive)) (summarize_transfer_files files) files)
                           (p\<lparr>ri_receive := Some (receive\<lparr>rv_started := True\<rparr>)\<rparr>)
                in if 0 < rv_received_bytes receive
                   then emit (TransferProgress transfer_id DirReceive (rv_received_bytes receive)
                                (offer_total_bytes (rv_offer receive))) p1
                   else p1))"

definition handle_stream_complete :: "peer_env \<Rightarrow> rstring \<Rightarrow> u64 \<Rightarrow> file_digest list \<Rightarrow> rtc_peer \<Rightarrow> rtc_peer" where
  "handle_stream_complete e transfer_id total_bytes digests p =
     (if ri_receive p \<noteq> None then finish_stream_receive e transfer_id total_bytes digests p
      else sent_stream_complete e transfer_id total_bytes digests p)"

definition handle_complete :: "peer_env \<Rightarrow> rstring \<Rightarrow> u64 \<Rightarrow> rstring \<Rightarrow> rtc_peer \<Rightarrow> rtc_peer" where
  "handle_complete e transfer_id bytes blake3 p =
     (if ri_receive p \<noteq> None then finish_receive e transfer_id bytes blake3 p else sent_complete transfer_id bytes blake3 p)"

fun handle_control :: "peer_env \<Rightarrow> control_message \<Rightarrow> rtc_peer \<Rightarrow> rtc_peer" where
  "handle_control e (TextOffer _ transfer_id character_count byte_length) p =
     handle_text_offer e transfer_id character_count byte_length p"
| "handle_control e (TextDecision _ transfer_id accepted) p = handle_text_decision e transfer_id accepted p"
| "handle_control e (TextPayload _ transfer_id txt) p = handle_text_payload e transfer_id txt p"
| "handle_control e (TextReceipt _ transfer_id) p = handle_text_receipt transfer_id p"
| "handle_control e (TextCancel _ transfer_id) p = handle_text_cancel transfer_id p"
| "handle_control e (Manifest _ transfer_id mode files) p = handle_manifest e transfer_id mode files p"
| "handle_control e (Decision _ transfer_id accepted) p = handle_decision transfer_id accepted p"
| "handle_control e (Start _ transfer_id) p = handle_start transfer_id p"
| "handle_control e (StreamReady _ transfer_id max_chunk_bytes ack_window_bytes resume) p =
     handle_stream_ready e transfer_id max_chunk_bytes ack_window_bytes resume p"
| "handle_control e (SegmentCommit _ transfer_id file_id segment_index offset bytes blake3) p =
     handle_segment_commit e transfer_id file_id segment_index offset bytes blake3 p"
| "handle_control e (SegmentAck _ transfer_id file_id segment_index committed_bytes blake3) p =
     handle_segment_ack transfer_id file_id segment_index committed_bytes blake3 p"
| "handle_control e (StreamPaused _ transfer_id reason) p = handle_stream_paused transfer_id reason p"
| "handle_control e (StreamComplete _ transfer_id total_bytes digests) p =
     handle_stream_complete e transfer_id total_bytes digests p"
| "handle_control e (Cancel _ transfer_id reason) p = emit (TransferCancelled transfer_id reason) (clear_transfer transfer_id p)"
| "handle_control e (Complete _ transfer_id bytes blake3) p = handle_complete e transfer_id bytes blake3 p"
| "handle_control e (ControlError _ transfer_id _ message) p = fail (Some transfer_id) message (clear_transfer transfer_id p)"

datatype channel_data = TextData rstring | BinaryData "u8 list" | OtherData

definition on_channel_message :: "peer_env \<Rightarrow> u64 \<Rightarrow> channel_data \<Rightarrow> rtc_peer \<Rightarrow> rtc_peer" where
  "on_channel_message e connection_epoch data p =
     (if \<not> connection_epoch_is_current p connection_epoch then p
      else case data of
        TextData text \<Rightarrow>
          (case parse_control_message (pe_from_json e) text of
             Inr message \<Rightarrow> handle_control e message p
           | Inl error \<Rightarrow> fail None (protocol_error_text error) p)
      | BinaryData frame \<Rightarrow> handle_binary e frame p
      | OtherData \<Rightarrow> fail None (rstr ''unsupported DataChannel frame'') p)"

section \<open>Steps\<close>

text \<open>The writers the application opens for the destinations the user chose.\<close>

definition open_writer :: "nat \<Rightarrow> stream_writer" where
  "open_writer handle = \<lparr>sw_handle = handle, sw_next_offset = 0, sw_closed = False, sw_resumed = [], sw_writes = []\<rparr>"

datatype transfer_call =
    CallOfferFiles "browser_file list"
  | CallOfferPersistent "browser_file list"
  | CallDecide rstring bool
  | CallAcceptStream rstring "nat list"
  | CallResumeStream rstring
  | CallCancel cancel_reason
  | CallRestoreOutgoing rstring
  | CallResumeOutgoing

datatype peer_call =
    CallTransfer transfer_call
  | CallOfferText rstring
  | CallDecideText rstring bool
  | CallCancelText
  | CallStartOffer rstring
  | CallAcceptSignal rstring rstring rtc_signal
  | CallPrepareReconnect
  | CallReset
  | CallReplaceConfig rtc_config_lease

datatype browser_event =
    IceEvent u64 rstring "rtc_signal option"
  | StateEvent u64 peer_connection_state
  | DataChannelEvent u64 nat
  | OpenEvent u64
  | MessageEvent u64 channel_data
  | CloseEvent u64
  | ErrorEvent u64

datatype peer_input = PeerCall peer_call | BrowserEvent browser_event | TaskRun nat

fun run_transfer_call :: "peer_env \<Rightarrow> transfer_call \<Rightarrow> rtc_peer \<Rightarrow> rtc_peer" where
  "run_transfer_call e (CallOfferFiles files) p = fst (offer_files e files p)"
| "run_transfer_call e (CallOfferPersistent files) p = offer_persistent_files e files p"
| "run_transfer_call e (CallDecide transfer_id accepted) p = fst (decide_transfer e transfer_id accepted p)"
| "run_transfer_call e (CallAcceptStream transfer_id handles) p =
     accept_stream_transfer e transfer_id (map open_writer handles) p"
| "run_transfer_call e (CallResumeStream transfer_id) p = resume_stream_transfer transfer_id p"
| "run_transfer_call e (CallCancel reason) p = cancel_transfer e reason p"
| "run_transfer_call e (CallRestoreOutgoing peer_id) p = restore_outgoing_transfer peer_id p"
| "run_transfer_call e CallResumeOutgoing p = resume_outgoing_transfer p"

fun run_peer_call :: "peer_env \<Rightarrow> peer_call \<Rightarrow> rtc_peer \<Rightarrow> rtc_peer" where
  "run_peer_call e (CallTransfer call) p = run_transfer_call e call p"
| "run_peer_call e (CallOfferText txt) p = fst (offer_text e txt p)"
| "run_peer_call e (CallDecideText transfer_id accepted) p = fst (decide_text e transfer_id accepted p)"
| "run_peer_call e CallCancelText p = fst (cancel_text e p)"
| "run_peer_call e (CallStartOffer target_peer) p = fst (start_offer e target_peer p)"
| "run_peer_call e (CallAcceptSignal from_peer negotiation_id signal) p =
     fst (accept_signal e from_peer negotiation_id signal p)"
| "run_peer_call e CallPrepareReconnect p = prepare_reconnect p"
| "run_peer_call e CallReset p = reset_peer p"
| "run_peer_call e (CallReplaceConfig lease) p = fst (replace_reconnect_rtc_config e lease p)"

fun run_browser_event :: "peer_env \<Rightarrow> browser_event \<Rightarrow> rtc_peer \<Rightarrow> rtc_peer" where
  "run_browser_event e (IceEvent connection_epoch negotiation_id candidate) p =
     on_ice_candidate connection_epoch negotiation_id candidate p"
| "run_browser_event e (StateEvent connection_epoch state) p = on_connection_state connection_epoch state p"
| "run_browser_event e (DataChannelEvent connection_epoch channel) p = on_data_channel e connection_epoch channel p"
| "run_browser_event e (OpenEvent connection_epoch) p = on_channel_open e connection_epoch p"
| "run_browser_event e (MessageEvent connection_epoch data) p = on_channel_message e connection_epoch data p"
| "run_browser_event e (CloseEvent connection_epoch) p = on_channel_closed connection_epoch ConnClosed p"
| "run_browser_event e (ErrorEvent connection_epoch) p = on_channel_closed connection_epoch ConnFailed p"

fun run_task :: "peer_env \<Rightarrow> peer_task \<Rightarrow> rtc_peer \<Rightarrow> rtc_peer" where
  "run_task e (SegmentTask task) p = run_segment_task e task p"
| "run_task e (RecoveryTask task) p = run_recovery_task e task p"
| "run_task e (SendTask task) p = run_send_task e task p"
| "run_task e (SourceTask task) p = run_source_task e task p"
| "run_task e (SignalTask task) p = run_signal_task e task p"
| "run_task e (TextTask task) p = run_text_task e task p"

definition remove_task :: "nat \<Rightarrow> rtc_peer \<Rightarrow> rtc_peer" where
  "remove_task i p = p\<lparr>pr_tasks := take i (pr_tasks p) @ drop (Suc i) (pr_tasks p)\<rparr>"

fun peer_step :: "peer_env \<Rightarrow> peer_input \<Rightarrow> rtc_peer \<Rightarrow> rtc_peer" where
  "peer_step e (PeerCall call) p = run_peer_call e call p"
| "peer_step e (BrowserEvent event) p = run_browser_event e event p"
| "peer_step e (TaskRun i) p = (if i < length (pr_tasks p) then run_task e (pr_tasks p ! i) (remove_task i p) else p)"

end
