(* ===== verification/Peer_Frame.thy ===== *)
theory Peer_Frame
  imports Peer_Engine
begin

text \<open>
  What most operations of a peer leave alone. A step is quiet when the transfer that is being
  received is dropped, cut back to its last checkpoint or kept, and the tasks that write, restore
  or accept a receiver are the same; only the operations of the receiver itself are not quiet.
\<close>

section \<open>Quiet steps\<close>

fun receiver_task :: "peer_task \<Rightarrow> bool" where
  "receiver_task (SegmentTask (SegmentWrite _ _ _)) = True"
| "receiver_task (SegmentTask (SegmentCheckpoint _ _)) = True"
| "receiver_task (SegmentTask (SegmentReopen _ _)) = True"
| "receiver_task (RecoveryTask (RestoreFiles _ _ _ _)) = True"
| "receiver_task (RecoveryTask (AcceptSave _ _ _ _)) = True"
| "receiver_task (RecoveryTask (AcceptForget _ _ _)) = True"
| "receiver_task _ = False"

definition calm_file :: "receive_file_state \<Rightarrow> receive_file_state \<Rightarrow> bool" where
  "calm_file f g \<longleftrightarrow> g = f \<or> g = reset_receive_file f"

fun calm_payload :: "receive_payload \<Rightarrow> receive_payload \<Rightarrow> bool" where
  "calm_payload (BufferedPayload c) (BufferedPayload d) \<longleftrightarrow> c = d"
| "calm_payload (StreamedPayload s _ fs) (StreamedPayload t _ gs) \<longleftrightarrow> s = t \<and> list_all2 calm_file fs gs"
| "calm_payload _ _ \<longleftrightarrow> False"

fun is_buffered :: "receive_payload \<Rightarrow> bool" where
  "is_buffered (BufferedPayload _) \<longleftrightarrow> True"
| "is_buffered (StreamedPayload _ _ _) \<longleftrightarrow> False"

fun calm :: "receive_state option \<Rightarrow> receive_state option \<Rightarrow> bool" where
  "calm _ None \<longleftrightarrow> True"
| "calm None (Some _) \<longleftrightarrow> False"
| "calm (Some r) (Some q) \<longleftrightarrow> rv_offer q = rv_offer r \<and> calm_payload (rv_payload r) (rv_payload q) \<and>
     (is_buffered (rv_payload r) \<longrightarrow> rv_hasher q = rv_hasher r \<and> rv_received_bytes q = rv_received_bytes r)"

definition quiet :: "rtc_peer \<Rightarrow> rtc_peer \<Rightarrow> bool" where
  "quiet p q \<longleftrightarrow> calm (ri_receive p) (ri_receive q) \<and> filter receiver_task (pr_tasks q) = filter receiver_task (pr_tasks p)"

lemma reset_receive_file_idem [simp]: "reset_receive_file (reset_receive_file f) = reset_receive_file f"
  by (simp add: reset_receive_file_def)

lemma calm_file_refl [simp]: "calm_file f f"
  by (simp add: calm_file_def)

lemma calm_file_trans: "calm_file f g \<Longrightarrow> calm_file g h \<Longrightarrow> calm_file f h"
  by (auto simp: calm_file_def)

lemma calm_payload_refl [simp]: "calm_payload x x"
  by (cases x) (simp_all add: list.rel_refl)

lemma calm_payload_trans: "calm_payload x y \<Longrightarrow> calm_payload y z \<Longrightarrow> calm_payload x z"
  by (cases x; cases y; cases z) (auto elim: list_all2_trans [rotated 1] intro: calm_file_trans)

lemma calm_payload_kind: "calm_payload x y \<Longrightarrow> is_buffered y = is_buffered x"
  by (cases x; cases y) simp_all

lemma calm_refl [simp]: "calm x x"
  by (cases x) simp_all

lemma calm_trans: "calm x y \<Longrightarrow> calm y z \<Longrightarrow> calm x z"
  by (cases x; cases y; cases z) (auto intro: calm_payload_trans simp: calm_payload_kind)

lemma quiet_refl [simp]: "quiet p p"
  by (simp add: quiet_def)

lemma quiet_trans: "quiet p q \<Longrightarrow> quiet q r \<Longrightarrow> quiet p r"
  by (auto simp: quiet_def intro: calm_trans)

named_theorems quiet_simps
named_theorems quiet_intros

lemma quiet_fields [quiet_simps]:
  "quiet p (q\<lparr>ri_rtc_config := a\<rparr>) = quiet p q"
  "quiet p (q\<lparr>ri_peer_connection := b\<rparr>) = quiet p q"
  "quiet p (q\<lparr>ri_data_channel := c\<rparr>) = quiet p q"
  "quiet p (q\<lparr>ri_target_peer := d\<rparr>) = quiet p q"
  "quiet p (q\<lparr>ri_negotiation_id := f\<rparr>) = quiet p q"
  "quiet p (q\<lparr>ri_connection_epoch := g\<rparr>) = quiet p q"
  "quiet p (q\<lparr>ri_negotiating := h\<rparr>) = quiet p q"
  "quiet p (q\<lparr>ri_local_description_announced := h\<rparr>) = quiet p q"
  "quiet p (q\<lparr>ri_remote_description_pending := h\<rparr>) = quiet p q"
  "quiet p (q\<lparr>ri_remote_description_set := h\<rparr>) = quiet p q"
  "quiet p (q\<lparr>ri_pending_local_candidates := i\<rparr>) = quiet p q"
  "quiet p (q\<lparr>ri_pending_remote_candidates := j\<rparr>) = quiet p q"
  by (simp_all add: quiet_def)

lemma quiet_transfers [quiet_simps]:
  "quiet p (q\<lparr>ri_outgoing := a\<rparr>) = quiet p q"
  "quiet p (q\<lparr>ri_outgoing_text := b\<rparr>) = quiet p q"
  "quiet p (q\<lparr>ri_pending_outgoing_recovery := c\<rparr>) = quiet p q"
  "quiet p (q\<lparr>ri_restoring_outgoing := d\<rparr>) = quiet p q"
  "quiet p (q\<lparr>ri_incoming := f\<rparr>) = quiet p q"
  "quiet p (q\<lparr>ri_incoming_text := g\<rparr>) = quiet p q"
  "quiet p (q\<lparr>ri_receiving_text := g\<rparr>) = quiet p q"
  "quiet p (q\<lparr>ri_pending_recovery := h\<rparr>) = quiet p q"
  "quiet p (q\<lparr>ri_paused_receive_reason := i\<rparr>) = quiet p q"
  "quiet p (q\<lparr>ri_restoring_transfer := j\<rparr>) = quiet p q"
  "quiet p (q\<lparr>ri_object_url := k\<rparr>) = quiet p q"
  by (simp_all add: quiet_def)

lemma quiet_reports [quiet_simps]:
  "quiet p (q\<lparr>pr_events := a\<rparr>) = quiet p q"
  "quiet p (q\<lparr>pr_sent := b\<rparr>) = quiet p q"
  "quiet p (q\<lparr>pr_calls := c\<rparr>) = quiet p q"
  "quiet p (q\<lparr>pr_replies := d\<rparr>) = quiet p q"
  "quiet p (q\<lparr>pr_acks := f\<rparr>) = quiet p q"
  "quiet p (q\<lparr>pr_fresh := g\<rparr>) = quiet p q"
  "quiet p (emit ev q) = quiet p q"
  "quiet p (fail t m q) = quiet p q"
  "quiet p (text_fail t m q) = quiet p q"
  "quiet p (negotiation_failed m q) = quiet p q"
  "quiet p (reply r q) = quiet p q"
  "quiet p (browser_call x q) = quiet p q"
  "\<not> receiver_task task \<Longrightarrow> quiet p (spawn_local task q) = quiet p q"
  by (simp_all add: quiet_def emit_def fail_def text_fail_def negotiation_failed_def reply_def browser_call_def spawn_local_def)

lemma quiet_receive:
  "quiet p q \<Longrightarrow> quiet p (q\<lparr>ri_receive := None\<rparr>)"
  "quiet p q \<Longrightarrow> ri_receive q = Some r \<Longrightarrow> calm (Some r) (Some s) \<Longrightarrow> quiet p (q\<lparr>ri_receive := Some s\<rparr>)"
  by (auto simp: quiet_def intro: calm_trans)

text \<open>What sending changes is only the record of what was sent.\<close>

lemma send_control_on_sent:
  assumes "send_control_on e c m q = (q1, x)"
  obtains s where "q1 = q\<lparr>pr_sent := s\<rparr>"
proof -
  have "q1 = q\<lparr>pr_sent := pr_sent q1\<rparr>"
    using assms by (auto simp: send_control_on_def split: sum.splits control_frame_encode_error.splits option.splits)
  then show thesis by (rule that)
qed

lemma send_current_sent:
  assumes "send_current e m q = (q1, x)"
  obtains s where "q1 = q\<lparr>pr_sent := s\<rparr>"
proof -
  have "q1 = q\<lparr>pr_sent := pr_sent q1\<rparr>"
    using assms by (auto simp: send_current_def split: sum.splits elim: send_control_on_sent)
  then show thesis by (rule that)
qed

lemma send_stream_resume_sent:
  assumes "send_stream_resume e t q = (q1, x)"
  obtains s where "q1 = q\<lparr>pr_sent := s\<rparr>"
proof -
  have "q1 = q\<lparr>pr_sent := pr_sent q1\<rparr>"
    using assms
    by (auto simp: send_stream_resume_def split: sum.splits option.splits if_splits receive_payload.splits prod.splits
        elim!: send_control_on_sent)
  then show thesis by (rule that)
qed

lemmas sent_elims = send_control_on_sent send_current_sent send_stream_resume_sent

lemma try_send_sent: "try_send e m q = q\<lparr>pr_sent := pr_sent (try_send e m q)\<rparr>"
proof (cases "current_data_channel e q")
  case (Inr c)
  obtain q1 x where "send_control_on e c m q = (q1, x)" by fastforce
  then show ?thesis using Inr by (auto simp: try_send_def elim: send_control_on_sent)
qed (simp add: try_send_def)

lemma quiet_try_send [quiet_simps]: "quiet p (try_send e m q) = quiet p q"
  by (subst try_send_sent) (simp only: quiet_reports)

lemma quiet_transfer_error [quiet_simps]: "quiet p (send_transfer_error e t c m q) = quiet p q"
  by (simp add: send_transfer_error_def quiet_simps)

section \<open>Abandoning and suspending\<close>

lemma quiet_later [quiet_simps]:
  "quiet p (delete_stream_later b t q) = quiet p q"
  "quiet p (delete_outgoing_later x q) = quiet p q"
  by (auto simp: delete_stream_later_def delete_outgoing_later_def quiet_simps split: option.splits)

lemma quiet_drop_transfer [quiet_intros]: "quiet p q \<Longrightarrow> quiet p (drop_transfer t q)"
  by (auto simp: drop_transfer_def quiet_simps intro: quiet_receive)

lemma quiet_clear_transfer [quiet_intros]: "quiet p q \<Longrightarrow> quiet p (clear_transfer t q)"
  by (simp add: clear_transfer_def quiet_simps quiet_intros)

lemma quiet_cancel_continue [quiet_simps]: "quiet p (cancel_continue t r x a d o1 q) = quiet p q"
  by (simp add: cancel_continue_def cancel_finish_def quiet_simps)

lemma quiet_cancel_transfer [quiet_intros]: "quiet p q \<Longrightarrow> quiet p (cancel_transfer e r q)"
  by (auto simp: cancel_transfer_def quiet_simps Let_def intro!: quiet_intros
      split: option.splits sum.splits prod.splits elim!: sent_elims)

lemma quiet_cancel_cleanup [quiet_simps]: "quiet p (run_cancel_cleanup e t r x a d o1 q) = quiet p q"
  by (cases a) (simp_all add: quiet_simps cancel_finish_def)

lemma calm_prepare_receive_reconnect [simp]: "calm (Some r) (Some (prepare_receive_reconnect r))"
  by (cases "rv_payload r")
    (simp_all add: prepare_receive_reconnect_def Let_def calm_file_def list_all2_conv_all_nth)

lemma quiet_suspend [quiet_intros]: "quiet p q \<Longrightarrow> quiet p (suspend_stream_for_reconnect q)"
proof -
  assume "quiet p q"
  moreover have "calm (ri_receive q) (map_option (\<lambda>r. case rv_payload r of
      StreamedPayload _ _ _ \<Rightarrow> prepare_receive_reconnect r | BufferedPayload _ \<Rightarrow> r) (ri_receive q))"
    by (cases "ri_receive q") (simp_all del: calm.simps(3) split: receive_payload.splits)
  ultimately show ?thesis by (auto simp: suspend_stream_for_reconnect_def quiet_def intro: calm_trans)
qed

lemma quiet_clear_resources [quiet_simps]: "quiet p (clear_peer_resources q) = quiet p q"
  by (simp add: clear_peer_resources_def quiet_simps)

lemma quiet_optional_emit [quiet_simps]: "quiet p (case c of None \<Rightarrow> q | Some t \<Rightarrow> emit (ev t) q) = quiet p q"
  by (simp add: quiet_simps split: option.splits)

lemma quiet_suspend_outgoing:
  assumes "quiet p q"
  shows "quiet p (fst (case ri_outgoing q of
      None \<Rightarrow> (q, None)
    | Some out \<Rightarrow> if og_mode out \<noteq> Buffered then (q\<lparr>ri_outgoing := Some (suspend_outgoing out)\<rparr>, None)
                  else (q\<lparr>ri_outgoing := None\<rparr>, Some (og_transfer_id out))))"
  using assms by (auto simp: quiet_simps split: option.splits)

lemma quiet_suspend_receive:
  assumes "quiet p q"
  shows "quiet p (fst (case ri_receive q of
      None \<Rightarrow> (q, c)
    | Some r \<Rightarrow> (case rv_payload r of
         StreamedPayload _ _ _ \<Rightarrow> (q\<lparr>ri_receive := Some (prepare_receive_reconnect r)\<rparr>, c)
       | BufferedPayload _ \<Rightarrow> (q\<lparr>ri_receive := None\<rparr>, Some (io_transfer_id (rv_offer r))))))"
  using assms by (auto simp del: calm.simps(3) split: option.splits receive_payload.splits intro!: quiet_receive)

lemma quiet_prepare_reconnect [quiet_intros]: "quiet p q \<Longrightarrow> quiet p (prepare_reconnect q)"
  unfolding prepare_reconnect_def Let_def case_prod_unfold quiet_simps
  by (intro quiet_suspend_receive quiet_suspend_outgoing) (simp add: quiet_simps)

lemma quiet_reset_peer [quiet_intros]: "quiet p q \<Longrightarrow> quiet p (reset_peer q)"
  by (auto simp: reset_peer_def Let_def quiet_simps split: option.splits intro!: quiet_receive)

section \<open>Texts and offers\<close>

lemma quiet_clear_text [quiet_simps]: "quiet p (fst (clear_text_transfer t q)) = quiet p q"
  by (simp add: clear_text_transfer_def quiet_simps)

lemma quiet_text_timeouts [quiet_simps]:
  "quiet p (schedule_outgoing_text_timeout t a q) = quiet p q"
  "quiet p (schedule_incoming_text_timeout t q) = quiet p q"
  by (simp_all add: schedule_outgoing_text_timeout_def schedule_incoming_text_timeout_def quiet_simps)

lemma quiet_offer_text [quiet_intros]: "quiet p q \<Longrightarrow> quiet p (fst (offer_text e txt q))"
  by (auto simp: offer_text_def quiet_simps Let_def split: sum.splits prod.splits elim!: sent_elims)

lemma quiet_decide_text: "quiet p q \<Longrightarrow> decide_text e t a q = (q1, x) \<Longrightarrow> quiet p q1"
  by (auto simp: decide_text_def quiet_simps Let_def split: sum.splits prod.splits option.splits if_splits elim!: sent_elims)

lemma quiet_cancel_text [quiet_intros]: "quiet p q \<Longrightarrow> quiet p (fst (cancel_text e q))"
  by (auto simp: cancel_text_def quiet_simps Let_def split: sum.splits prod.splits option.splits elim!: sent_elims)

lemma quiet_text_offer [quiet_intros]: "quiet p q \<Longrightarrow> quiet p (handle_text_offer e t c b q)"
  by (auto simp: handle_text_offer_def quiet_simps Let_def split: sum.splits prod.splits elim!: quiet_decide_text [rotated])

lemma quiet_text_decision [quiet_intros]: "quiet p q \<Longrightarrow> quiet p (handle_text_decision e t a q)"
  by (auto simp: handle_text_decision_def quiet_simps Let_def split: sum.splits prod.splits option.splits elim!: sent_elims)

lemma quiet_text_payload [quiet_intros]: "quiet p q \<Longrightarrow> quiet p (handle_text_payload e t txt q)"
  by (auto simp: handle_text_payload_def quiet_simps Let_def split: option.splits)

lemma quiet_text_receipt [quiet_intros]: "quiet p q \<Longrightarrow> quiet p (handle_text_receipt t q)"
  by (auto simp: handle_text_receipt_def quiet_simps split: option.splits)

lemma quiet_cleared_text: "clear_text_transfer t q = (q1, b) \<Longrightarrow> quiet p q1 = quiet p q"
  using quiet_clear_text [of p t q] by simp

lemma quiet_text_cancel [quiet_intros]: "quiet p q \<Longrightarrow> quiet p (handle_text_cancel t q)"
  by (auto simp: handle_text_cancel_def quiet_simps split: prod.splits bool.splits dest: quiet_cleared_text [of _ _ _ _ p])

lemma quiet_text_task [quiet_intros]: "quiet p q \<Longrightarrow> quiet p (run_text_task e task q)"
  by (cases task)
    (auto simp: timeout_text_transfer_def quiet_simps split: prod.splits bool.splits option.splits
      dest: quiet_cleared_text [of _ _ _ _ p])

lemma quiet_install_outgoing: "quiet p q \<Longrightarrow> install_and_offer_outgoing e x q = (q1, y) \<Longrightarrow> quiet p q1"
  by (auto simp: install_and_offer_outgoing_def quiet_simps split: sum.splits prod.splits if_splits elim!: sent_elims)

lemma quiet_offer_files [quiet_intros]: "quiet p q \<Longrightarrow> quiet p (fst (offer_files e files q))"
  by (auto simp: offer_files_def split: sum.splits dest: quiet_install_outgoing [OF _ prod.collapse [symmetric]])

lemma quiet_replace_config [quiet_intros]: "quiet p q \<Longrightarrow> quiet p (fst (replace_reconnect_rtc_config e lease q))"
  by (auto simp: replace_reconnect_rtc_config_def quiet_simps split: sum.splits)

section \<open>Sending\<close>

lemma quiet_outgoing_failed [quiet_intros]: "quiet p q \<Longrightarrow> quiet p (outgoing_failed t g x q)"
  by (simp add: outgoing_failed_def quiet_simps quiet_intros)

lemma quiet_job_failed [quiet_intros]:
  "quiet p q \<Longrightarrow> quiet p (buffered_failed b x q)" "quiet p q \<Longrightarrow> quiet p (stream_failed s x q)"
  by (simp_all add: buffered_failed_def stream_failed_def quiet_intros)

lemma quiet_spawn_outgoing [quiet_simps]: "quiet p (spawn_outgoing t g q) = quiet p q"
  by (simp add: spawn_outgoing_def quiet_simps)

lemma quiet_send_chunk: "quiet p q \<Longrightarrow> send_chunk e c f t a b q = (q1, x) \<Longrightarrow> quiet p q1"
  by (auto simp: send_chunk_def quiet_simps Let_def split: option.splits if_splits)

lemma quiet_set_expected_hash: "quiet p q \<Longrightarrow> set_expected_hash i d q = (q1, x) \<Longrightarrow> quiet p q1"
  by (auto simp: set_expected_hash_def quiet_simps split: option.splits if_splits)

lemma quiet_send_buffered [quiet_intros]: "quiet p q \<Longrightarrow> quiet p (send_buffered_outgoing e t g q)"
  by (auto simp: send_buffered_outgoing_def quiet_simps split: option.splits list.splits sum.splits prod.splits
      intro!: quiet_intros elim!: sent_elims)

lemma quiet_buffered_finish [quiet_intros]: "quiet p q \<Longrightarrow> quiet p (buffered_finish e job q)"
  by (auto simp: buffered_finish_def quiet_simps Let_def split: sum.splits prod.splits
      intro!: quiet_intros elim!: sent_elims dest: quiet_set_expected_hash)

lemma quiet_buffered_read [quiet_intros]: "quiet p q \<Longrightarrow> quiet p (buffered_read job plan q)"
  by (auto simp: buffered_read_def quiet_simps split: option.splits intro!: quiet_intros)

lemma quiet_buffered_next [quiet_intros]:
  "quiet p q \<Longrightarrow> quiet p (buffered_next e job q)" "quiet p q \<Longrightarrow> quiet p (buffered_waited e job q)"
  by (auto simp: buffered_next_def buffered_waited_def quiet_simps split: sum.splits intro!: quiet_intros)

lemma quiet_buffered_chunk [quiet_intros]: "quiet p q \<Longrightarrow> quiet p (buffered_chunk_read e job d q)"
  by (auto simp: buffered_chunk_read_def Let_def split: sum.splits prod.splits intro!: quiet_intros dest: quiet_send_chunk)

lemma quiet_send_streamed [quiet_intros]: "quiet p q \<Longrightarrow> quiet p (send_streamed_outgoing e t s g q)"
  by (auto simp: send_streamed_outgoing_def quiet_simps Let_def split: option.splits sum.splits prod.splits
      intro!: quiet_intros elim!: sent_elims)

lemma quiet_stream_commit [quiet_intros]: "quiet p q \<Longrightarrow> quiet p (stream_commit e job seg q)"
  by (auto simp: stream_commit_def quiet_simps Let_def split: option.splits sum.splits prod.splits
      intro!: quiet_intros elim!: sent_elims)

lemma quiet_stream_chunk [quiet_intros]:
  "quiet p q \<Longrightarrow> quiet p (stream_chunk e job q)" "quiet p q \<Longrightarrow> quiet p (stream_waited e job q)"
  by (auto simp: stream_chunk_def stream_waited_def quiet_simps split: option.splits intro!: quiet_intros)

lemma quiet_stream_chunk_read [quiet_intros]: "quiet p q \<Longrightarrow> quiet p (stream_chunk_read e job q)"
  by (auto simp: stream_chunk_read_def Let_def split: option.splits sum.splits prod.splits intro!: quiet_intros dest: quiet_send_chunk)

lemma quiet_stream_file_done: "quiet p q \<Longrightarrow> stream_file_done e job q = (q1, x) \<Longrightarrow> quiet p q1"
  by (auto simp: stream_file_done_def Let_def split: sum.splits prod.splits dest: quiet_set_expected_hash)

lemma quiet_stream_finish [quiet_intros]: "quiet p q \<Longrightarrow> quiet p (stream_finish e job q)"
  by (auto simp: stream_finish_def quiet_simps split: option.splits sum.splits prod.splits intro!: quiet_intros elim!: sent_elims)

lemma quiet_stream_files [quiet_intros]: "quiet p q \<Longrightarrow> quiet p (stream_files e n job q)"
proof (induction n arbitrary: job q)
  case (Suc n)
  then show ?case
    by (auto simp: Let_def split: option.splits sum.splits prod.splits intro!: quiet_intros dest: quiet_stream_file_done)
qed (simp add: quiet_intros)

lemma quiet_stream_acknowledged [quiet_intros]: "quiet p q \<Longrightarrow> quiet p (stream_acknowledged e job a q)"
  by (auto simp: stream_acknowledged_def Let_def split: option.splits sum.splits prod.splits
      intro!: quiet_intros dest: quiet_stream_file_done)

lemma quiet_send_task [quiet_intros]: "quiet p q \<Longrightarrow> quiet p (run_send_task e task q)"
  by (cases task) (auto simp: send_outgoing_def save_checkpoint_done_def quiet_simps
      split: option.splits transfer_mode.splits intro!: quiet_intros)

section \<open>Answers of the receiver\<close>

lemma quiet_segment_ack [quiet_intros]: "quiet p q \<Longrightarrow> quiet p (handle_segment_ack t f i c b q)"
  by (auto simp: handle_segment_ack_def send_ack_def quiet_simps Let_def split: option.splits)

lemma quiet_start_stream_ready [quiet_intros]: "quiet p q \<Longrightarrow> quiet p (start_stream_ready e t m a r q)"
  by (auto simp: start_stream_ready_def quiet_simps Let_def split: option.splits transfer_mode.splits sum.splits)

lemma quiet_stream_ready [quiet_intros]: "quiet p q \<Longrightarrow> quiet p (handle_stream_ready e t m a r q)"
  by (auto simp: handle_stream_ready_def quiet_simps split: option.splits transfer_mode.splits sum.splits intro!: quiet_intros)

lemma quiet_decision [quiet_intros]: "quiet p q \<Longrightarrow> quiet p (handle_decision t a q)"
  by (auto simp: handle_decision_def quiet_simps Let_def split: option.splits)

lemma quiet_stream_paused [quiet_intros]: "quiet p q \<Longrightarrow> quiet p (handle_stream_paused t r q)"
  by (auto simp: handle_stream_paused_def quiet_simps Let_def split: option.splits)

lemma quiet_sent_complete [quiet_intros]:
  "quiet p q \<Longrightarrow> quiet p (sent_stream_complete e t n ds q)" "quiet p q \<Longrightarrow> quiet p (sent_complete t n b q)"
  by (auto simp: sent_stream_complete_def sent_complete_def quiet_simps split: option.splits list.splits)

lemma quiet_data_channel_opened [quiet_intros]: "quiet p q \<Longrightarrow> quiet p (data_channel_opened e q)"
  by (auto simp: data_channel_opened_def quiet_simps Let_def split: option.splits sum.splits prod.splits elim!: sent_elims)

section \<open>Saved transfers\<close>

lemma quiet_finish_offer [quiet_intros]: "quiet p q \<Longrightarrow> quiet p (finish_offer e x y q)"
  by (auto simp: finish_offer_def quiet_simps split: sum.splits prod.splits dest: quiet_install_outgoing)

lemma quiet_offer_persistent [quiet_intros]: "quiet p q \<Longrightarrow> quiet p (offer_persistent_files e files q)"
  by (auto simp: offer_persistent_files_def quiet_simps split: sum.splits prod.splits option.splits intro!: quiet_intros)

lemma quiet_outgoing_restore_failed [quiet_simps]: "quiet p (outgoing_restore_failed m x r er q) = quiet p q"
  by (simp add: outgoing_restore_failed_def quiet_simps)

lemma quiet_outgoing_install [quiet_intros]: "quiet p q \<Longrightarrow> quiet p (outgoing_install e m x r b n fs q)"
  by (auto simp: outgoing_install_def quiet_simps Let_def split: sum.splits intro!: quiet_intros)

lemma quiet_outgoing_restore_next [quiet_intros]: "quiet p q \<Longrightarrow> quiet p (outgoing_restore_next e m x r b fs q)"
  by (auto simp: outgoing_restore_next_def quiet_simps split: option.splits intro!: quiet_intros)

lemma quiet_outgoing_restore_file [quiet_intros]: "quiet p q \<Longrightarrow> quiet p (outgoing_restore_file e m x r b fs q)"
  by (auto simp: outgoing_restore_file_def quiet_simps Let_def split: option.splits sum.splits prod.splits intro!: quiet_intros)

lemma quiet_restore_outgoing_recovery [quiet_intros]: "quiet p q \<Longrightarrow> quiet p (restore_outgoing_recovery e m x r q)"
  by (auto simp: restore_outgoing_recovery_def quiet_simps split: option.splits intro!: quiet_intros)

lemma quiet_outgoing_permitted [quiet_intros]: "quiet p q \<Longrightarrow> quiet p (outgoing_permitted e m x r q)"
  by (auto simp: outgoing_permitted_def quiet_simps split: sum.splits intro!: quiet_intros)

lemma quiet_outgoing_calls [quiet_intros]:
  "quiet p q \<Longrightarrow> quiet p (restore_outgoing_transfer x q)" "quiet p q \<Longrightarrow> quiet p (resume_outgoing_transfer q)"
  "quiet p q \<Longrightarrow> quiet p (outgoing_loaded e x q)"
  by (auto simp: restore_outgoing_transfer_def resume_outgoing_transfer_def outgoing_loaded_def quiet_simps
      split: option.splits sum.splits)

lemma quiet_reconcile_failed [quiet_intros]: "quiet p q \<Longrightarrow> quiet p (reconcile_failed e t x q)"
  by (simp add: reconcile_failed_def quiet_simps quiet_intros)

lemma quiet_reconcile_next [quiet_simps]: "quiet p (reconcile_next t m a r rec rs q) = quiet p q"
  by (simp add: reconcile_next_def quiet_simps)

lemma quiet_reconcile [quiet_intros]:
  "quiet p q \<Longrightarrow> quiet p (reconcile_start e t m a r q)"
  "quiet p q \<Longrightarrow> quiet p (reconcile_file e t m a r rec rs q)"
  "quiet p q \<Longrightarrow> quiet p (reconcile_saved e t m a r rec rs q)"
  by (auto simp: reconcile_start_def reconcile_file_def reconcile_saved_def quiet_simps Let_def
      split: option.splits sum.splits prod.splits intro!: quiet_intros)

lemma quiet_source_task [quiet_intros]: "quiet p q \<Longrightarrow> quiet p (run_source_task e task q)"
  by (cases task) (auto simp: quiet_simps split: option.splits intro!: quiet_intros)

section \<open>Signals\<close>

lemma quiet_small_signals [quiet_simps]:
  "quiet p (finish_negotiating x q) = quiet p q"
  "quiet p (clear_remote_description_pending x y q) = quiet p q"
  "quiet p (offer_failed n er q) = quiet p q"
  "quiet p (signal_failed n er q) = quiet p q"
  "quiet p (candidates_done b n q) = quiet p q"
  by (simp_all add: finish_negotiating_def clear_remote_description_pending_def offer_failed_def signal_failed_def
      candidates_done_def quiet_simps)

lemma quiet_install_data_channel [quiet_intros]: "quiet p q \<Longrightarrow> quiet p (install_data_channel e c x q)"
  by (auto simp: install_data_channel_def quiet_simps Let_def split: option.splits intro!: quiet_intros)

lemma quiet_new_connection: "quiet p q \<Longrightarrow> new_peer_connection e t n q = (q1, x) \<Longrightarrow> quiet p q1"
  by (auto simp: new_peer_connection_def quiet_simps split: sum.splits)

lemma quiet_ensure_connection: "quiet p q \<Longrightarrow> ensure_peer_connection e t n q = (q1, x) \<Longrightarrow> quiet p q1"
  by (auto simp: ensure_peer_connection_def Let_def split: option.splits prod.splits if_splits
      dest: quiet_new_connection quiet_new_connection [OF quiet_reset_peer])

lemma quiet_start_offer [quiet_intros]: "quiet p q \<Longrightarrow> quiet p (fst (start_offer e t q))"
  by (auto simp: start_offer_def quiet_simps Let_def split: sum.splits prod.splits intro!: quiet_intros dest: quiet_ensure_connection)

lemma quiet_announce [quiet_simps]: "quiet p (announce_local_description x n t s q) = quiet p q"
proof -
  have emits: "quiet p (fold (\<lambda>s. emit (ev s)) ss q) = quiet p q" for ev ss q
    by (induction ss arbitrary: q) (simp_all add: quiet_simps)
  show ?thesis by (simp add: announce_local_description_def emits quiet_simps del: fold_simps)
qed

lemma quiet_candidates_next [quiet_simps]: "quiet p (candidates_next e b n ss q) = quiet p q"
  by (induction ss) (simp_all add: quiet_simps split: rtc_signal.splits option.splits)

lemma quiet_apply_pending [quiet_simps]: "quiet p (apply_pending_candidates e b n q) = quiet p q"
  by (simp add: apply_pending_candidates_def quiet_simps)

lemma quiet_prepare_signal: "quiet p q \<Longrightarrow> prepare_signal_task e f n s q = (q1, x) \<Longrightarrow> quiet p q1"
  by (cases s) (auto simp: prepare_signal_task_def quiet_simps
      split: sum.splits prod.splits if_splits option.splits bool.splits
      dest: quiet_ensure_connection quiet_ensure_connection [OF quiet_prepare_reconnect])

lemma quiet_accept_signal [quiet_intros]: "quiet p q \<Longrightarrow> quiet p (fst (accept_signal e f n s q))"
  by (auto simp: accept_signal_def quiet_simps split: sum.splits prod.splits prepared_signal.splits dest: quiet_prepare_signal)

lemma quiet_signal_task [quiet_simps]: "quiet p (run_signal_task e task q) = quiet p q"
  by (cases task) (auto simp: offer_created_def offer_local_set_def remote_description_set_def mark_remote_description_set_def
      candidates_added_def candidate_start_def candidate_added_def answer_created_def answer_local_set_def quiet_simps
      split: option.splits sum.splits)

lemma quiet_local_candidate [quiet_simps]: "quiet p (queue_or_emit_local_candidate x n s q) = quiet p q"
  by (auto simp: queue_or_emit_local_candidate_def quiet_simps split: option.splits)

lemma quiet_connection_events [quiet_intros]:
  "quiet p q \<Longrightarrow> quiet p (on_ice_candidate x n c q)"
  "quiet p q \<Longrightarrow> quiet p (on_connection_state x s q)"
  "quiet p q \<Longrightarrow> quiet p (on_data_channel e x ch q)"
  "quiet p q \<Longrightarrow> quiet p (on_channel_open e x q)"
  "quiet p q \<Longrightarrow> quiet p (on_channel_closed x ph q)"
  by (auto simp: on_ice_candidate_def on_connection_state_def on_data_channel_def on_channel_open_def on_channel_closed_def
      Let_def quiet_simps split: option.splits intro!: quiet_intros)

section \<open>The receiver\<close>

lemma quiet_handle_start [quiet_intros]: "quiet p q \<Longrightarrow> quiet p (handle_start t q)"
  by (auto simp: handle_start_def quiet_simps Let_def split: option.splits intro!: quiet_receive)

lemma quiet_acknowledge [quiet_intros]: "quiet p q \<Longrightarrow> quiet p (acknowledge_segment e job b q)"
  by (auto simp: acknowledge_segment_def quiet_simps split: sum.splits prod.splits intro!: quiet_intros elim!: sent_elims)

lemma quiet_storage_failure [quiet_intros]: "quiet p q \<Longrightarrow> quiet p (storage_failure e job w x c m q)"
  by (auto simp: storage_failure_def pause_stream_receive_def quiet_simps split: option.splits intro!: quiet_intros)

lemma quiet_finish_pause [quiet_simps]:
  "quiet p (finish_pause e t r a b q) = quiet p q"
  "quiet p (abort_idle_writers e t r a b ws q) = quiet p q"
  by (simp_all add: finish_pause_def abort_idle_writers_def quiet_simps)

lemma quiet_pause_loaded [quiet_intros]: "quiet p q \<Longrightarrow> quiet p (pause_loaded e t g r q)"
  by (auto simp: pause_loaded_def quiet_simps split: option.splits sum.splits intro!: quiet_receive quiet_intros)

lemma quiet_finish_stream [quiet_intros]: "quiet p q \<Longrightarrow> quiet p (finish_stream_receive e t n ds q)"
  by (auto simp: finish_stream_receive_def quiet_simps Let_def split: option.splits intro!: quiet_receive)

lemma quiet_finish_signal [quiet_intros]: "quiet p q \<Longrightarrow> quiet p (finish_signal e job q)"
  by (auto simp: finish_signal_def quiet_simps Let_def split: prod.splits sum.splits completion_action.splits
      intro!: quiet_intros elim!: sent_elims)

lemma quiet_finish_forget [quiet_simps]: "quiet p (finish_forget e job n q) = quiet p q"
  by (simp add: finish_forget_def quiet_simps Let_def split: option.splits)

lemma quiet_finish_receive [quiet_intros]: "quiet p q \<Longrightarrow> quiet p (finish_receive e t n b q)"
  by (auto simp: finish_receive_def quiet_simps Let_def
      split: option.splits list.splits receive_payload.splits sum.splits object_url_failure.splits intro!: quiet_receive)

lemma quiet_segment_task [quiet_intros]:
  "quiet p q \<Longrightarrow> \<not> receiver_task (SegmentTask task) \<Longrightarrow> quiet p (run_segment_task e task q)"
  by (cases task) (auto simp: quiet_simps split: option.splits list.splits sum.splits intro!: quiet_intros)

section \<open>Manifests\<close>

lemma quiet_publish [quiet_simps]: "quiet p (publish_incoming_offer x r q) = quiet p q"
  by (simp add: publish_incoming_offer_def quiet_simps)

lemma quiet_resume_existing [quiet_intros]:
  "quiet p q \<Longrightarrow> ri_receive q = Some r \<Longrightarrow> quiet p (resume_existing e x r q)"
  by (auto simp: resume_existing_def quiet_simps split: receive_payload.splits sum.splits prod.splits
      elim!: sent_elims intro!: quiet_receive list.rel_refl)

lemma quiet_manifest [quiet_intros]: "quiet p q \<Longrightarrow> quiet p (handle_manifest e t m fs q)"
  by (auto simp: handle_manifest_def quiet_simps split: sum.splits incoming_manifest_error.splits option.splits intro!: quiet_intros)

lemma quiet_restore_failed [quiet_simps]: "quiet p (restore_failed m x r er q) = quiet p q"
  by (simp add: restore_failed_def quiet_simps)

lemma quiet_resume_stream [quiet_simps]: "quiet p (resume_stream_transfer t q) = quiet p q"
  by (simp add: resume_stream_transfer_def quiet_simps split: option.splits)

lemma quiet_recover_loaded [quiet_simps]: "quiet p (recover_loaded e x y q) = quiet p q"
  by (simp add: recover_loaded_def quiet_simps split: sum.splits option.splits)

end
