(* ===== verification/Peer_Invariant.thy ===== *)
theory Peer_Invariant
  imports Peer_Frame
begin

text \<open>
  The bytes of a receiver. For every file of a streamed transfer the hasher, the chunks in memory
  and the write commands on disk describe the same bytes, also while a segment is being written
  and the writer is in the hands of a task. The invariant is shown for every operation of a peer.
\<close>

section \<open>Writers and files\<close>

definition writer_bytes :: "stream_writer \<Rightarrow> u8 list" where
  "writer_bytes w = sw_resumed w @ concat (map snd (sw_writes w))"

text \<open>Every write command continues where the one before it ended.\<close>

fun contiguous :: "nat \<Rightarrow> (u64 \<times> u8 list) list \<Rightarrow> bool" where
  "contiguous n [] \<longleftrightarrow> True"
| "contiguous n ((offset, bytes) # writes) \<longleftrightarrow> unat offset = n \<and> contiguous (n + length bytes) writes"

definition writer_ok :: "stream_writer \<Rightarrow> bool" where
  "writer_ok w \<longleftrightarrow> contiguous (length (sw_resumed w)) (sw_writes w) \<and> unat (sw_next_offset w) = length (writer_bytes w)"

lemma contiguous_append:
  "contiguous n (ws @ [(offset, bytes)]) \<longleftrightarrow> contiguous n ws \<and> unat offset = n + length (concat (map snd ws))"
  by (induction n ws rule: contiguous.induct) auto

lemma write_at_ok:
  assumes "write_at out offset bytes w = (w1, Inr ())" and "writer_ok w" and "length bytes < 2 ^ 64"
  shows "writer_ok w1" "writer_bytes w1 = writer_bytes w @ bytes" "sw_closed w1 = sw_closed w" "\<not> sw_closed w"
  using assms
  by (auto simp: write_at_def writer_ok_def writer_bytes_def contiguous_append checked_add_Some_iff unat_of_nat take_bit_nat_eq_self
      split: if_splits option.splits)

definition file_ok :: "u64 \<Rightarrow> receive_file_state \<Rightarrow> bool" where
  "file_ok size_bytes f \<longleftrightarrow>
     unat (fs_received_bytes f) = length (fs_hasher f) \<and> fs_received_bytes f \<le> size_bytes \<and>
     unat (fs_segment_offset f) = length (fs_committed_hasher f) \<and>
     (if fs_writing f then fs_chunks f = [] \<and> fs_segment_hasher f = [] \<and> fs_writer f = None \<and>
        (\<exists>bytes. fs_hasher f = fs_committed_hasher f @ bytes)
      else fs_hasher f = fs_committed_hasher f @ concat (fs_chunks f) \<and> fs_segment_hasher f = concat (fs_chunks f) \<and>
        (\<exists>w. fs_writer f = Some w \<and> \<not> sw_closed w \<and> writer_ok w \<and> writer_bytes w = fs_committed_hasher f))"

definition file_size :: "incoming_offer \<Rightarrow> nat \<Rightarrow> u64" where
  "file_size offer i = tf_size_bytes (if_file (io_files offer ! i))"

definition receive_ok :: "receive_state \<Rightarrow> bool" where
  "receive_ok r \<longleftrightarrow>
     (case rv_payload r of
        BufferedPayload chunks \<Rightarrow> rv_hasher r = concat chunks \<and> unat (rv_received_bytes r) = length (rv_hasher r)
      | StreamedPayload _ _ files \<Rightarrow>
          length files = length (io_files (rv_offer r)) \<and> (\<forall>i<length files. file_ok (file_size (rv_offer r) i) (files ! i)))"

lemma file_ok_reset: "file_ok n f \<Longrightarrow> file_ok n (reset_receive_file f)"
  by (auto simp: file_ok_def reset_receive_file_def word_le_nat_alt)

lemma file_ok_calm: "file_ok n f \<Longrightarrow> calm_file f g \<Longrightarrow> file_ok n g"
  by (auto simp: calm_file_def intro: file_ok_reset)

lemma receive_ok_calm: "receive_ok r \<Longrightarrow> calm (Some r) (Some q) \<Longrightarrow> receive_ok q"
  by (cases "rv_payload r"; cases "rv_payload q")
    (auto simp: receive_ok_def list_all2_conv_all_nth dest!: spec intro: file_ok_calm)

section \<open>Tasks\<close>

text \<open>
  A task that writes a segment: its commit, the bytes its writer will hold when the segment is
  written, and whether the writer is in the state the task expects.
\<close>

fun segment_job :: "peer_task \<Rightarrow> (commit_job \<times> u8 list \<times> bool) option" where
  "segment_job (SegmentTask (SegmentWrite job w data)) = Some (job, writer_bytes w @ data, writer_ok w \<and> \<not> sw_closed w)"
| "segment_job (SegmentTask (SegmentCheckpoint job w)) = Some (job, writer_bytes w, writer_ok w \<and> \<not> sw_closed w)"
| "segment_job (SegmentTask (SegmentReopen job w)) = Some (job, writer_bytes w, writer_ok w \<and> sw_closed w)"
| "segment_job _ = None"

definition segment_jobs :: "rstring \<Rightarrow> peer_task list \<Rightarrow> (commit_job \<times> u8 list \<times> bool) list" where
  "segment_jobs transfer_id tasks = filter (\<lambda>(job, _). cj_transfer_id job = transfer_id) (List.map_filter segment_job tasks)"

definition job_ok :: "receive_file_state list \<Rightarrow> commit_job \<times> u8 list \<times> bool \<Rightarrow> bool" where
  "job_ok files = (\<lambda>(job, bytes, ready).
     cj_file_index job < length files \<and> fs_writing (files ! cj_file_index job) \<and>
     bytes = fs_hasher (files ! cj_file_index job) \<and> ready \<and>
     cj_committed_bytes job = fs_received_bytes (files ! cj_file_index job))"

definition jobs_ok :: "receive_state \<Rightarrow> (commit_job \<times> u8 list \<times> bool) list \<Rightarrow> bool" where
  "jobs_ok r jobs \<longleftrightarrow>
     (case rv_payload r of
        BufferedPayload _ \<Rightarrow> True
      | StreamedPayload _ _ files \<Rightarrow>
          distinct (map (cj_file_index \<circ> fst) jobs) \<and> (\<forall>job\<in>set jobs. job_ok files job))"

text \<open>The tasks that lead to a new receiver hold fresh or verified files.\<close>

fun install_ok :: "peer_task \<Rightarrow> bool" where
  "install_ok (RecoveryTask (RestoreFiles _ offer recovery files)) \<longleftrightarrow>
     length files < length (io_files offer) \<and>
     rf_committed_bytes (rr_files recovery ! length files) \<le> file_size offer (length files) \<and>
     (\<forall>i<length files. file_ok (file_size offer i) (files ! i))"
| "install_ok (RecoveryTask (AcceptSave _ offer _ writers)) \<longleftrightarrow>
     length writers = length (io_files offer) \<and> (\<forall>w\<in>set writers. \<exists>handle. w = open_writer handle)"
| "install_ok (RecoveryTask (AcceptForget _ offer writers)) \<longleftrightarrow>
     length writers = length (io_files offer) \<and> (\<forall>w\<in>set writers. \<exists>handle. w = open_writer handle)"
| "install_ok _ \<longleftrightarrow> True"

definition peer_inv :: "rtc_peer \<Rightarrow> bool" where
  "peer_inv p \<longleftrightarrow>
     (\<forall>r. ri_receive p = Some r \<longrightarrow> receive_ok r \<and> jobs_ok r (segment_jobs (io_transfer_id (rv_offer r)) (pr_tasks p))) \<and>
     (\<forall>task\<in>set (pr_tasks p). install_ok task)"

lemma segment_job_receiver: "\<not> receiver_task task \<Longrightarrow> segment_job task = None"
  by (cases task rule: receiver_task.cases) auto

lemma segment_jobs_Nil [simp]: "segment_jobs t [] = []"
  by (simp add: segment_jobs_def List.map_filter_simps)

lemma segment_jobs_Cons:
  "segment_jobs t (task # tasks) =
     (case segment_job task of
        Some (job, x) \<Rightarrow> if cj_transfer_id job = t then (job, x) # segment_jobs t tasks else segment_jobs t tasks
      | None \<Rightarrow> segment_jobs t tasks)"
  by (auto simp: segment_jobs_def List.map_filter_simps split: option.splits)

lemma segment_jobs_append: "segment_jobs t (xs @ ys) = segment_jobs t xs @ segment_jobs t ys"
  by (simp add: segment_jobs_def List.map_filter_def)

lemma segment_jobs_filter: "segment_jobs t (filter receiver_task tasks) = segment_jobs t tasks"
  by (induction tasks) (auto simp: segment_jobs_def List.map_filter_simps segment_job_receiver split: option.splits)

lemma install_ok_filter: "(\<forall>task\<in>set (filter receiver_task tasks). install_ok task) \<longleftrightarrow> (\<forall>task\<in>set tasks. install_ok task)"
  by (auto, metis install_ok.simps(4-) receiver_task.cases receiver_task.simps)

lemma calm_file_writing: "calm_file f g \<Longrightarrow> fs_writing f \<Longrightarrow> g = f"
  by (auto simp: calm_file_def reset_receive_file_def)

lemma job_ok_calm:
  assumes "list_all2 calm_file fs gs" and "job_ok fs x"
  shows "job_ok gs x"
proof -
  obtain j b ready where x: "x = (j, b, ready)" by (cases x)
  have len: "length gs = length fs" using assms(1) by (simp add: list_all2_lengthD)
  have "gs ! cj_file_index j = fs ! cj_file_index j"
    using assms by (auto simp: job_ok_def x list_all2_conv_all_nth intro: calm_file_writing)
  then show ?thesis using assms(2) len by (simp add: job_ok_def x)
qed

lemma jobs_ok_calm: "jobs_ok r jobs \<Longrightarrow> calm (Some r) (Some q) \<Longrightarrow> jobs_ok q jobs"
  by (cases "rv_payload r"; cases "rv_payload q") (auto simp: jobs_ok_def intro: job_ok_calm)

lemma peer_inv_quiet:
  assumes "peer_inv p" and "quiet p q"
  shows "peer_inv q"
proof -
  have tasks: "filter receiver_task (pr_tasks q) = filter receiver_task (pr_tasks p)" using assms by (simp add: quiet_def)
  have "\<forall>task\<in>set (pr_tasks q). install_ok task"
    using assms(1) tasks install_ok_filter [of "pr_tasks q"] install_ok_filter [of "pr_tasks p"] by (simp add: peer_inv_def)
  moreover have "receive_ok s \<and> jobs_ok s (segment_jobs (io_transfer_id (rv_offer s)) (pr_tasks q))" if s: "ri_receive q = Some s" for s
  proof -
    obtain r where r: "ri_receive p = Some r" "calm (Some r) (Some s)"
      using assms(2) s by (cases "ri_receive p") (auto simp: quiet_def)
    then have "segment_jobs (io_transfer_id (rv_offer s)) (pr_tasks q) = segment_jobs (io_transfer_id (rv_offer r)) (pr_tasks p)"
      using tasks segment_jobs_filter by (metis calm.simps(3))
    moreover have "receive_ok r" "jobs_ok r (segment_jobs (io_transfer_id (rv_offer r)) (pr_tasks p))"
      using assms(1) r(1) by (simp_all add: peer_inv_def)
    ultimately show ?thesis using r(2) receive_ok_calm jobs_ok_calm by metis
  qed
  ultimately show ?thesis by (simp add: peer_inv_def)
qed

section \<open>Chunks\<close>

lemma next_offset_Some:
  assumes "next_offset b header n = Some nxt"
  shows "unat nxt = unat (cb_offset b) + n \<and> nxt \<le> cb_upper_bound b"
  using assms
  by (auto simp: next_offset_def checked_add_Some_iff unat_of_nat take_bit_nat_eq_self Option.bind_eq_Some_conv split: if_splits)

lemma segment_end_le: "segment_end s n f \<le> n"
  by (simp add: segment_end_def)

lemma accept_file_chunk_ok:
  assumes "accept_file_chunk tb x s header payload f = Some g" and "file_ok (tf_size_bytes (if_file x)) f"
  shows "file_ok (tf_size_bytes (if_file x)) g" "\<not> fs_writing f"
proof -
  obtain nxt where "\<not> fs_writing f" and g: "g = f\<lparr>fs_hasher := fs_hasher f @ payload, fs_segment_hasher := fs_segment_hasher f @ payload,
      fs_received_bytes := nxt, fs_chunks := fs_chunks f @ [payload]\<rparr>"
    and n: "unat nxt = unat (fs_received_bytes f) + length payload" "nxt \<le> segment_end s (tf_size_bytes (if_file x)) f"
    using assms(1) by (fastforce simp: accept_file_chunk_def dest: next_offset_Some split: if_splits)
  then show "file_ok (tf_size_bytes (if_file x)) g" "\<not> fs_writing f"
    using assms(2) order.trans [OF n(2) segment_end_le] by (auto simp: file_ok_def)
qed

lemma job_ok_update: "\<not> fs_writing (files ! i) \<Longrightarrow> job_ok files x \<Longrightarrow> job_ok (files[i := f]) x"
  by (cases "i = cj_file_index (fst x)") (auto simp: job_ok_def)

lemma files_ok_update:
  assumes "\<And>i. i < length files \<Longrightarrow> file_ok (n i) (files ! i)" and "file_ok (n c) f" and "i < length files"
  shows "file_ok (n i) (files[c := f] ! i)"
  using assms by (cases "i = c") simp_all

lemma accept_chunk_ok:
  assumes "accept_chunk header payload r = Some q" and "receive_ok r"
  shows "receive_ok q" "rv_offer q = rv_offer r" "jobs_ok r jobs \<Longrightarrow> jobs_ok q jobs"
proof -
  have "receive_ok q \<and> rv_offer q = rv_offer r \<and> (jobs_ok r jobs \<longrightarrow> jobs_ok q jobs)"
  proof (cases "rv_payload r")
    case (BufferedPayload chunks)
    then show ?thesis using assms
      by (auto simp: accept_chunk_def receive_ok_def jobs_ok_def dest!: next_offset_Some split: if_splits list.splits)
  next
    case (StreamedPayload s c files)
    then obtain f where c: "c < length files" "c < length (io_files (rv_offer r))"
      and f: "accept_file_chunk (io_transfer_bytes (rv_offer r)) (io_files (rv_offer r) ! c) s header payload (files ! c) = Some f"
      and q: "q = r\<lparr>rv_received_bytes := rv_received_bytes r + of_nat (length payload),
        rv_payload := StreamedPayload s c (files[c := f])\<rparr>"
      using assms(1) by (auto simp: accept_chunk_def split: if_splits)
    have ok: "file_ok (file_size (rv_offer r) i) (files ! i)" if "i < length files" for i
      using that assms(2) StreamedPayload by (simp add: receive_ok_def)
    have "file_ok (file_size (rv_offer r) c) f" "\<not> fs_writing (files ! c)"
      using accept_file_chunk_ok [OF f] ok [OF c(1)] by (simp_all add: file_size_def)
    then show ?thesis using assms(2) StreamedPayload ok
      by (auto simp: receive_ok_def jobs_ok_def q intro: job_ok_update files_ok_update [of files])
  qed
  then show "receive_ok q" "rv_offer q = rv_offer r" "jobs_ok r jobs \<Longrightarrow> jobs_ok q jobs" by auto
qed

lemma peer_inv_receive:
  assumes "peer_inv p" and "ri_receive p = Some r" and "rv_offer q = rv_offer r" and "receive_ok q"
    and "\<And>jobs. jobs_ok r jobs \<Longrightarrow> jobs_ok q jobs"
  shows "peer_inv (p\<lparr>ri_receive := Some q\<rparr>)"
  using assms by (simp add: peer_inv_def)

lemma receive_ok_progress [simp]:
  "receive_ok (r\<lparr>rv_last_progress_ms := n\<rparr>) = receive_ok r" "jobs_ok (r\<lparr>rv_last_progress_ms := n\<rparr>) jobs = jobs_ok r jobs"
  by (simp_all add: receive_ok_def jobs_ok_def split: receive_payload.splits)

lemma report_progress_ok:
  assumes "report_progress e r = (q, ev)"
  shows "rv_offer q = rv_offer r" "receive_ok q = receive_ok r" "jobs_ok q jobs = jobs_ok r jobs"
  using assms by (auto simp: report_progress_def Let_def split: if_splits)

lemma quiet_emit_refl [simp]: "quiet p (emit ev p)"
  by (simp add: quiet_simps)

lemma handle_binary_inv:
  assumes "peer_inv p"
  shows "peer_inv (handle_binary e frame p)"
proof (cases "\<exists>header payload r q. decode_binary_chunk frame = Inr (header, payload) \<and> ri_receive p = Some r \<and>
    accept_chunk header payload r = Some q")
  case True
  then obtain header payload r q where d: "decode_binary_chunk frame = Inr (header, payload)"
    and r: "ri_receive p = Some r" and a: "accept_chunk header payload r = Some q" by blast
  obtain q1 ev where q1: "report_progress e q = (q1, ev)" by fastforce
  have "receive_ok r" using assms r by (simp add: peer_inv_def)
  then have "peer_inv (p\<lparr>ri_receive := Some q1\<rparr>)"
    using accept_chunk_ok [OF a] report_progress_ok [OF q1] by (intro peer_inv_receive [OF assms r]) simp_all
  then show ?thesis
    by (auto simp: handle_binary_def d r a q1 split: option.splits intro: peer_inv_quiet)
next
  case False
  then have "quiet p (handle_binary e frame p)"
    by (auto simp: handle_binary_def quiet_simps Let_def split: sum.splits option.splits intro!: quiet_intros)
  then show ?thesis by (rule peer_inv_quiet [OF assms])
qed

section \<open>Segments\<close>

text \<open>A job that no task of the list stands for, but that may be given to a new one.\<close>

definition owns_job :: "rtc_peer \<Rightarrow> commit_job \<times> u8 list \<times> bool \<Rightarrow> bool" where
  "owns_job p job \<longleftrightarrow>
     (\<forall>r s c files. ri_receive p = Some r \<longrightarrow> io_transfer_id (rv_offer r) = cj_transfer_id (fst job) \<longrightarrow>
        rv_payload r = StreamedPayload s c files \<longrightarrow>
        job_ok files job \<and>
        (\<forall>other\<in>set (segment_jobs (cj_transfer_id (fst job)) (pr_tasks p)). cj_file_index (fst other) \<noteq> cj_file_index (fst job)))"

lemma spawn_job_inv:
  assumes "peer_inv p" and "segment_job task = Some job" and "owns_job p job"
  shows "peer_inv (spawn_local task p)"
proof -
  have "install_ok task" using assms(2) by (cases task rule: segment_job.cases) auto
  moreover have "jobs_ok r (segment_jobs (io_transfer_id (rv_offer r)) (pr_tasks (spawn_local task p)))"
    if r: "ri_receive p = Some r" for r
    using assms r
    by (cases "rv_payload r"; cases job)
      (fastforce simp: peer_inv_def jobs_ok_def spawn_local_def segment_jobs_append segment_jobs_Cons segment_jobs_Nil
        owns_job_def)+
  ultimately show ?thesis using assms(1) by (auto simp: peer_inv_def spawn_local_def)
qed

lemma spawn_other_inv:
  assumes "peer_inv p" and "segment_job task = None" and "install_ok task"
  shows "peer_inv (spawn_local task p)"
  using assms by (auto simp: peer_inv_def spawn_local_def segment_jobs_append segment_jobs_Cons segment_jobs_Nil)

lemma job_ok_other: "job_ok files x \<Longrightarrow> cj_file_index (fst x) \<noteq> i \<Longrightarrow> job_ok (files[i := f]) x"
  by (cases x) (simp add: job_ok_def)

lemma prepare_commit_ok:
  assumes "prepare_commit e t file_id i offset bytes b p = Inr (q, job, w, data)" and "peer_inv p"
  shows "peer_inv (p\<lparr>ri_receive := Some q\<rparr>) \<and> owns_job (p\<lparr>ri_receive := Some q\<rparr>) (job, writer_bytes w @ data, writer_ok w \<and> \<not> sw_closed w)"
proof -
  obtain r where r: "ri_receive p = Some r" using assms(1) by (auto simp: prepare_commit_def result_simps)
  obtain s c files where pl: "rv_payload r = StreamedPayload s c files"
    using assms(1) r by (cases "rv_payload r") (auto simp: prepare_commit_def result_simps split: if_splits)
  let ?f = "files ! c"
  obtain t: "io_transfer_id (rv_offer r) = t" and c: "c < length files" and "fs_writer ?f = Some w" "\<not> fs_writing ?f"
    and e: "fs_received_bytes ?f = segment_end s (tf_size_bytes (if_file (io_files (rv_offer r) ! c))) ?f"
    and q: "q = r\<lparr>rv_payload := StreamedPayload s c (files[c := ?f\<lparr>fs_writer := None,
        fs_active_abort := (if sw_closed w then None else Some (sw_handle w)), fs_chunks := [], fs_segment_hasher := [], fs_writing := True\<rparr>])\<rparr>"
    and job: "cj_transfer_id job = t" "cj_file_index job = c"
      "cj_committed_bytes job = segment_end s (tf_size_bytes (if_file (io_files (rv_offer r) ! c))) ?f"
    and data: "data = concat (fs_chunks ?f)"
    using assms(1) r pl by (auto simp: prepare_commit_def result_simps Let_def split: if_splits)
  have ok: "receive_ok r" and jobs: "jobs_ok r (segment_jobs t (pr_tasks p))"
    using assms(2) r t by (auto simp: peer_inv_def)
  have f: "file_ok (file_size (rv_offer r) c) ?f" using ok pl c by (simp add: receive_ok_def)
  then have w: "writer_ok w" "\<not> sw_closed w" "writer_bytes w @ data = fs_hasher ?f"
    using \<open>fs_writer ?f = Some w\<close> \<open>\<not> fs_writing ?f\<close> by (auto simp: file_ok_def data)
  have free: "cj_file_index (fst x) \<noteq> c" if "x \<in> set (segment_jobs t (pr_tasks p))" for x
    using jobs that pl \<open>\<not> fs_writing ?f\<close> by (auto simp: jobs_ok_def job_ok_def)
  have "file_ok (file_size (rv_offer r) c) (?f\<lparr>fs_writer := None, fs_active_abort := a, fs_chunks := [], fs_segment_hasher := [],
      fs_writing := True\<rparr>)" for a
    using f \<open>\<not> fs_writing ?f\<close> by (simp add: file_ok_def)
  then have "receive_ok q" using ok pl by (auto simp: receive_ok_def q intro: files_ok_update [of files])
  moreover have "jobs_ok q (segment_jobs t (pr_tasks p))"
    using jobs pl free by (simp add: jobs_ok_def q job_ok_other)
  moreover have "rv_offer q = rv_offer r" by (simp add: q)
  ultimately have "peer_inv (p\<lparr>ri_receive := Some q\<rparr>)" using assms(2) t by (simp add: peer_inv_def)
  moreover have "owns_job (p\<lparr>ri_receive := Some q\<rparr>) (job, writer_bytes w @ data, writer_ok w \<and> \<not> sw_closed w)"
    using w c e free t by (simp add: owns_job_def q job job_ok_def)
  ultimately show ?thesis ..
qed

lemma segment_commit_inv:
  assumes "peer_inv p"
  shows "peer_inv (handle_segment_commit e t f i offset n b p)"
proof (cases "prepare_commit e t f i offset n b p")
  case (Inl m)
  then have "quiet p (handle_segment_commit e t f i offset n b p)"
    by (simp add: handle_segment_commit_def quiet_simps quiet_intros)
  then show ?thesis by (rule peer_inv_quiet [OF assms])
next
  case (Inr x)
  then obtain q job w data where "prepare_commit e t f i offset n b p = Inr (q, job, w, data)" by (cases x) auto
  then show ?thesis using prepare_commit_ok [OF _ assms]
    by (auto simp: handle_segment_commit_def intro: spawn_job_inv)
qed

lemma commit_file_ok:
  assumes "file_ok n f" and "fs_writing f" and "writer_bytes w = fs_hasher f" and "writer_ok w" and "\<not> sw_closed w"
    and "cj_committed_bytes job = fs_received_bytes f"
  shows "file_ok n (commit_file job w f)"
  using assms by (auto simp: file_ok_def commit_file_def)

lemma segment_written_inv:
  assumes inv: "peer_inv p" and own: "owns_job p (job, writer_bytes w, writer_ok w \<and> \<not> sw_closed w)"
  shows "peer_inv (segment_written e job w p)"
proof (cases "\<exists>r r1. ri_receive p = Some r \<and> io_transfer_id (rv_offer r) = cj_transfer_id job \<and>
    rv_generation r = cj_generation job \<and> restore_segment job w r = Some r1")
  case True
  then obtain r r1 where r: "ri_receive p = Some r" "io_transfer_id (rv_offer r) = cj_transfer_id job"
      "rv_generation r = cj_generation job"
    and r1: "restore_segment job w r = Some r1" by blast
  obtain s c files where pl: "rv_payload r = StreamedPayload s c files"
    using r1 by (cases "rv_payload r") (auto simp: restore_segment_def)
  let ?i = "cj_file_index job"
  obtain c1 where q: "r1 = r\<lparr>rv_payload := StreamedPayload s c1 (files[?i := commit_file job w (files ! ?i)]), rv_resume_requested := False\<rparr>"
    using r1 pl by (auto simp: restore_segment_def Let_def split: if_splits)
  have job: "job_ok files (job, writer_bytes w, writer_ok w \<and> \<not> sw_closed w)"
    and free: "\<forall>x\<in>set (segment_jobs (cj_transfer_id job) (pr_tasks p)). cj_file_index (fst x) \<noteq> ?i"
    using own r pl by (auto simp: owns_job_def)
  have ok: "receive_ok r" "jobs_ok r (segment_jobs (cj_transfer_id job) (pr_tasks p))"
    using inv r by (auto simp: peer_inv_def)
  have "file_ok (file_size (rv_offer r) ?i) (commit_file job w (files ! ?i))"
    using ok(1) pl job by (intro commit_file_ok) (auto simp: receive_ok_def job_ok_def)
  then have "receive_ok r1" using ok(1) pl by (auto simp: receive_ok_def q intro!: files_ok_update [of files])
  moreover have "jobs_ok r1 (segment_jobs (cj_transfer_id job) (pr_tasks p))"
    using ok(2) pl free by (simp add: jobs_ok_def q job_ok_other)
  ultimately have "peer_inv (p\<lparr>ri_receive := Some r1\<rparr>)" using inv r by (simp add: peer_inv_def q)
  then show ?thesis using r r1 inv
    by (auto simp: segment_written_def quiet_simps Let_def split: option.splits
        intro: peer_inv_quiet intro!: quiet_intros)
next
  case False
  then have "quiet p (segment_written e job w p)"
    by (auto simp: segment_written_def quiet_simps split: option.splits if_splits intro!: quiet_intros)
  then show ?thesis by (rule peer_inv_quiet [OF inv])
qed

section \<open>Running a task\<close>

lemma remove_task_tasks:
  assumes "i < length (pr_tasks p)"
  obtains xs task ys where "pr_tasks p = xs @ task # ys" "pr_tasks p ! i = task" "pr_tasks (remove_task i p) = xs @ ys"
  by (rule that [OF id_take_nth_drop [OF assms] refl]) (simp add: remove_task_def)

lemma ri_receive_remove_task [simp]: "ri_receive (remove_task i p) = ri_receive p"
  by (simp add: remove_task_def)

lemma jobs_ok_subset: "jobs_ok r (xs @ x @ ys) \<Longrightarrow> jobs_ok r (xs @ ys)"
  by (auto simp: jobs_ok_def split: receive_payload.splits)

lemma remove_task_inv:
  assumes "peer_inv p" and "i < length (pr_tasks p)"
  shows "peer_inv (remove_task i p)"
proof -
  obtain xs task ys where t: "pr_tasks p = xs @ task # ys" "pr_tasks (remove_task i p) = xs @ ys"
    using assms(2) by (rule remove_task_tasks)
  have "jobs_ok r (segment_jobs n (xs @ ys))" if "jobs_ok r (segment_jobs n (xs @ [task] @ ys))" for r n
    using that jobs_ok_subset [of r "segment_jobs n xs" "segment_jobs n [task]" "segment_jobs n ys"]
    by (simp only: segment_jobs_append)
  then show ?thesis using assms(1) by (simp add: peer_inv_def t)
qed

lemma run_job_owned:
  assumes "peer_inv p" and "i < length (pr_tasks p)" and "segment_job (pr_tasks p ! i) = Some job"
  shows "owns_job (remove_task i p) job"
proof -
  obtain xs task ys where t: "pr_tasks p = xs @ task # ys" "pr_tasks p ! i = task" "pr_tasks (remove_task i p) = xs @ ys"
    using assms(2) by (rule remove_task_tasks)
  let ?id = "cj_transfer_id (fst job)"
  have jobs: "segment_jobs ?id (pr_tasks p) = segment_jobs ?id xs @ job # segment_jobs ?id ys"
    using assms(3) t(2) by (simp add: t(1) segment_jobs_append segment_jobs_Cons split: prod.splits)
  show ?thesis unfolding owns_job_def
  proof (intro allI impI)
    fix r s c files
    assume r: "ri_receive (remove_task i p) = Some r" "io_transfer_id (rv_offer r) = ?id" "rv_payload r = StreamedPayload s c files"
    have "jobs_ok r (segment_jobs ?id xs @ job # segment_jobs ?id ys)"
      using assms(1) r(1,2) jobs by (simp add: peer_inv_def)
    then show "job_ok files job \<and> (\<forall>other\<in>set (segment_jobs ?id (pr_tasks (remove_task i p))).
        cj_file_index (fst other) \<noteq> cj_file_index (fst job))"
      using r(3) by (simp add: t(3) segment_jobs_append jobs_ok_def) (metis UnE image_eqI)
  qed
qed

lemma owns_write:
  assumes "owns_job p (job, writer_bytes w @ data, writer_ok w \<and> \<not> sw_closed w)" and "peer_inv p"
    and "write_at out offset data w = (w1, Inr ())"
  shows "owns_job p (job, writer_bytes w1, writer_ok w1 \<and> \<not> sw_closed w1)"
  unfolding owns_job_def
proof (intro allI impI)
  fix r s c files
  assume r: "ri_receive p = Some r" "io_transfer_id (rv_offer r) = cj_transfer_id (fst (job, writer_bytes w1, writer_ok w1 \<and> \<not> sw_closed w1))"
    "rv_payload r = StreamedPayload s c files"
  then have ok: "job_ok files (job, writer_bytes w @ data, writer_ok w \<and> \<not> sw_closed w)"
    and free: "\<forall>other\<in>set (segment_jobs (cj_transfer_id job) (pr_tasks p)). cj_file_index (fst other) \<noteq> cj_file_index job"
    using assms(1) by (auto simp: owns_job_def)
  let ?f = "files ! cj_file_index job"
  have "unat (fs_received_bytes ?f) = length (fs_hasher ?f)"
    using assms(2) r ok by (auto simp: peer_inv_def receive_ok_def job_ok_def file_ok_def)
  moreover have "fs_hasher ?f = writer_bytes w @ data" using ok by (simp add: job_ok_def)
  ultimately have "length data < 2 ^ 64"
    using unat_lt2p_word [of "fs_received_bytes ?f"] by simp
  then show "job_ok files (job, writer_bytes w1, writer_ok w1 \<and> \<not> sw_closed w1) \<and>
      (\<forall>other\<in>set (segment_jobs (cj_transfer_id (fst (job, writer_bytes w1, writer_ok w1 \<and> \<not> sw_closed w1))) (pr_tasks p)).
         cj_file_index (fst other) \<noteq> cj_file_index (fst (job, writer_bytes w1, writer_ok w1 \<and> \<not> sw_closed w1)))"
    using ok free write_at_ok [OF assms(3)] by (simp add: job_ok_def)
qed

lemma checkpoint_ok:
  assumes "commit_checkpoint out w = (w1, Inr ())"
  shows "writer_bytes w1 = writer_bytes w" "writer_ok w1 = writer_ok w" "sw_closed w1"
  using assms by (auto simp: commit_checkpoint_def writer_bytes_def writer_ok_def split: if_splits option.splits)

lemma reopen_ok:
  assumes "reopen_after_checkpoint out w = (w1, Inr ())"
  shows "writer_bytes w1 = writer_bytes w" "writer_ok w1 = writer_ok w" "sw_closed w" "\<not> sw_closed w1"
  using assms by (auto simp: reopen_after_checkpoint_def writer_bytes_def writer_ok_def split: if_splits option.splits)

lemma owns_ready: "owns_job p (job, bytes, a) \<Longrightarrow> (a \<Longrightarrow> b) \<Longrightarrow> owns_job p (job, bytes, b)"
  by (auto simp: owns_job_def job_ok_def)

lemma abort_stale_inv: "peer_inv p \<Longrightarrow> peer_inv (spawn_local (SegmentTask (AbortStaleWriter w)) p)"
  by (rule spawn_other_inv) simp_all

lemma run_segment_inv:
  assumes "peer_inv p" and "segment_job (SegmentTask task) = Some job" and "owns_job p job"
  shows "peer_inv (run_segment_task e task p)"
proof (cases task)
  case (SegmentWrite j w data)
  obtain w1 out where w1: "write_at (pe_promise e) (cj_offset j) data w = (w1, out)" by fastforce
  show ?thesis
  proof (cases out)
    case (Inr u)
    then have own: "owns_job p (j, writer_bytes w1, writer_ok w1 \<and> \<not> sw_closed w1)"
      using owns_write [OF _ assms(1)] assms w1 SegmentWrite by auto
    show ?thesis
      by (simp add: SegmentWrite w1 Inr abort_stale_inv segment_written_inv assms(1) own spawn_job_inv [OF assms(1) segment_job.simps(2)])
  qed (auto simp: SegmentWrite w1 intro!: peer_inv_quiet [OF assms(1)] quiet_intros)
next
  case (SegmentCheckpoint j w)
  obtain w1 out where w1: "commit_checkpoint (pe_promise e) w = (w1, out)" by fastforce
  show ?thesis
  proof (cases out)
    case (Inr u)
    then have own: "owns_job p (j, writer_bytes w1, writer_ok w1 \<and> sw_closed w1)"
      using checkpoint_ok w1 assms SegmentCheckpoint by (auto intro: owns_ready)
    show ?thesis
      by (simp add: SegmentCheckpoint w1 Inr abort_stale_inv assms(1) own spawn_job_inv [OF assms(1) segment_job.simps(3)])
  qed (auto simp: SegmentCheckpoint w1 intro!: peer_inv_quiet [OF assms(1)] quiet_intros)
next
  case (SegmentReopen j w)
  obtain w1 out where w1: "reopen_after_checkpoint (pe_promise e) w = (w1, out)" by fastforce
  show ?thesis
  proof (cases out)
    case (Inr u)
    then have "owns_job p (j, writer_bytes w1, writer_ok w1 \<and> \<not> sw_closed w1)"
      using reopen_ok w1 assms SegmentReopen by (auto intro: owns_ready)
    then show ?thesis
      by (simp add: SegmentReopen w1 Inr abort_stale_inv segment_written_inv assms(1))
  qed (auto simp: SegmentReopen w1 intro!: peer_inv_quiet [OF assms(1)] quiet_intros)
qed (use assms in simp_all)

section \<open>Installing a receiver\<close>

lemma verify_segments_length:
  assumes "verify_segments read h m s committed offset hasher seen = Some out"
  shows "out = Inr (hasher1, digest) \<and> unat offset = length hasher \<and> offset \<le> committed \<longrightarrow> length hasher1 = unat committed"
proof (rule verify_segments.raw_induct [where P = "\<lambda>read h m s committed offset hasher seen out.
    out = Inr (hasher1, digest) \<and> unat offset = length hasher \<and> offset \<le> committed \<longrightarrow> length hasher1 = unat committed",
    OF _ assms], goal_cases)
  case (1 f read h m s committed offset hasher seen out)
  show ?case
  proof
    assume a: "out = Inr (hasher1, digest) \<and> unat offset = length hasher \<and> offset \<le> committed"
    let ?stop = "min (saturating_add offset (ucast s)) committed"
    have "unat offset \<le> unat (saturating_add offset (ucast s))"
      using unat_lt2p_word [of offset] by (simp add: unat_saturating_add)
    then have "offset \<le> saturating_add offset (ucast s)" by (simp add: word_le_nat_alt)
    then have le: "offset \<le> ?stop" using a by simp
    show "length hasher1 = unat committed"
    proof (cases "offset < committed")
      case True
      then obtain bytes where b: "length bytes = unat (?stop - offset)"
        and rec: "f read h m s committed ?stop (hasher @ bytes) (Some (h bytes)) = Some out"
        using 1(2) a by (auto simp: Let_def split: sum.splits if_splits)
      have "unat ?stop = length (hasher @ bytes)" using b a le by (simp add: unat_sub word_le_nat_alt)
      then show ?thesis using 1(1) [OF rec] a by simp
    next
      case False
      then show ?thesis using 1(2) a by auto
    qed
  qed
qed

lemma reopened_file_ok:
  assumes "reopen_stream_file e handle committed n s = Some (Inr (w, hasher, digest))" and "committed \<le> n"
  shows "file_ok n (restored_receive_file committed s w hasher digest)"
proof -
  have "length hasher = unat committed" and w: "w = \<lparr>sw_handle = handle, sw_next_offset = committed, sw_closed = False,
      sw_resumed = hasher, sw_writes = []\<rparr>"
    using assms(1) by (auto simp: reopen_stream_file_def result_simps dest!: verify_segments_length
        split: sum.splits if_splits option.splits)
  then show ?thesis using assms(2) by (auto simp: file_ok_def restored_receive_file_def writer_ok_def writer_bytes_def)
qed

lemma open_writer_ok: "file_ok n (fresh_receive_file (open_writer handle))"
  by (simp add: file_ok_def fresh_receive_file_def open_writer_def writer_ok_def writer_bytes_def)

lemma install_receive_inv:
  assumes "peer_inv p" and "segment_jobs (io_transfer_id offer) (pr_tasks p) = []"
    and "length files = length (io_files offer)" and "\<forall>i<length files. file_ok (file_size offer i) (files ! i)"
    and "ri_receive q = Some (streamed_receive offer s c files b)" and "pr_tasks q = pr_tasks p"
  shows "peer_inv q"
  using assms by (simp add: peer_inv_def streamed_receive_def receive_ok_def jobs_ok_def)

lemma peer_inv_tasks:
  assumes "peer_inv p" and "ri_receive q = ri_receive p" and "pr_tasks q = pr_tasks p"
  shows "peer_inv q"
  using assms by (simp add: peer_inv_def)

lemma peer_inv_reports [simp]:
  "peer_inv (reply r p) = peer_inv p" "peer_inv (emit ev p) = peer_inv p" "peer_inv (p\<lparr>pr_sent := x\<rparr>) = peer_inv p"
  by (simp_all add: peer_inv_def reply_def emit_def)

lemma restore_install_inv:
  assumes inv: "peer_inv p" and jobs: "segment_jobs (io_transfer_id offer) (pr_tasks p) = []"
    and files: "\<forall>i<length files. file_ok (file_size offer i) (files ! i)"
  shows "peer_inv (restore_install e manual offer recovery s files p)"
proof (cases "length files = length (io_files offer) \<and> ri_restoring_transfer p = Some (io_transfer_id offer) \<and>
    ri_outgoing p = None \<and> ri_receive p = None")
  case True
  let ?c = "case position (\<lambda>(offer, state). fs_segment_offset state < tf_size_bytes (if_file offer)) (zip (io_files offer) files) of
      None \<Rightarrow> length (io_files offer) | Some i \<Rightarrow> i"
  let ?p = "p\<lparr>ri_restoring_transfer := None, ri_incoming := None, ri_pending_recovery := None,
      ri_paused_receive_reason := None, ri_receive := Some (streamed_receive offer s ?c files True)\<rparr>"
  have p1: "peer_inv ?p"
    using True by (intro install_receive_inv [OF inv jobs _ files]) simp_all
  obtain p2 out where p2: "send_stream_resume e (io_transfer_id offer) ?p = (p2, out)" by fastforce
  then have "quiet ?p (restore_install e manual offer recovery s files p)"
    using True by (auto simp: restore_install_def Let_def quiet_simps split: sum.splits elim!: sent_elims intro!: quiet_receive)
  then show ?thesis by (rule peer_inv_quiet [OF p1])
next
  case False
  then have "quiet p (restore_install e manual offer recovery s files p)"
    by (auto simp: restore_install_def quiet_simps)
  then show ?thesis by (rule peer_inv_quiet [OF inv])
qed

lemma restore_next_inv:
  assumes "peer_inv p" and "segment_jobs (io_transfer_id offer) (pr_tasks p) = []"
    and "\<forall>i<length files. file_ok (file_size offer i) (files ! i)"
  shows "peer_inv (restore_next e manual offer recovery files p)"
proof (cases "io_mode offer")
  case Buffered
  then show ?thesis using assms(1) by (auto simp: restore_next_def quiet_simps intro: peer_inv_quiet)
next
  case (Streamed s)
  let ?n = "tf_size_bytes (if_file (io_files offer ! length files))"
  let ?k = "rf_committed_bytes (rr_files recovery ! length files)"
  consider (reopen) "length files < length (io_files offer)" "length files < length (rr_files recovery)"
      "\<not> (?n < ?k \<or> ?k < ?n \<and> ?k mod ucast s \<noteq> 0)"
    | (failed) "length files < length (io_files offer)" "length files < length (rr_files recovery)"
      "?n < ?k \<or> ?k < ?n \<and> ?k mod ucast s \<noteq> 0"
    | (rest) "\<not> (length files < length (io_files offer) \<and> length files < length (rr_files recovery))" by blast
  then show ?thesis
  proof cases
    case reopen
    then have "restore_next e manual offer recovery files p = spawn_local (RecoveryTask (RestoreFiles manual offer recovery files)) p"
      by (auto simp: restore_next_def Streamed Let_def)
    then show ?thesis using reopen assms(3) by (auto simp: file_size_def intro!: spawn_other_inv assms(1))
  next
    case failed
    then have "quiet p (restore_next e manual offer recovery files p)"
      by (simp add: restore_next_def Streamed Let_def quiet_simps)
    then show ?thesis by (rule peer_inv_quiet [OF assms(1)])
  next
    case rest
    then show ?thesis using restore_install_inv [OF assms] by (auto simp: restore_next_def Streamed Let_def)
  qed
qed

lemma restore_file_inv:
  assumes "peer_inv p" and "segment_jobs (io_transfer_id offer) (pr_tasks p) = []"
    and "install_ok (RecoveryTask (RestoreFiles manual offer recovery files))"
  shows "peer_inv (restore_file e manual offer recovery files p)"
proof (cases "\<exists>s w hasher digest. io_mode offer = Streamed s \<and>
    reopen_stream_file e (rf_handle (rr_files recovery ! length files)) (rf_committed_bytes (rr_files recovery ! length files))
      (file_size offer (length files)) s = Some (Inr (w, hasher, digest))")
  case True
  then obtain s w hasher digest where m: "io_mode offer = Streamed s"
    and r: "reopen_stream_file e (rf_handle (rr_files recovery ! length files)) (rf_committed_bytes (rr_files recovery ! length files))
      (file_size offer (length files)) s = Some (Inr (w, hasher, digest))" by blast
  have "file_ok (file_size offer i) ((files @ [restored_receive_file (rf_committed_bytes (rr_files recovery ! length files)) s w hasher digest]) ! i)"
    if "i < Suc (length files)" for i
    using that assms(3) reopened_file_ok [OF r] by (cases "i = length files") (auto simp: nth_append)
  then show ?thesis using r assms(1,2)
    by (auto simp: restore_file_def m Let_def file_size_def quiet_simps intro!: restore_next_inv intro: peer_inv_quiet)
next
  case False
  then have "quiet p (restore_file e manual offer recovery files p)"
    by (auto simp: restore_file_def Let_def file_size_def quiet_simps split: transfer_mode.splits option.splits sum.splits)
  then show ?thesis by (rule peer_inv_quiet [OF assms(1)])
qed

lemma accept_install_inv:
  assumes inv: "peer_inv p" and jobs: "segment_jobs (io_transfer_id offer) (pr_tasks p) = []"
    and w: "length writers = length (io_files offer)" "\<forall>w\<in>set writers. \<exists>handle. w = open_writer handle"
  shows "peer_inv (accept_install e channel offer writers b p)"
proof -
  have files: "\<forall>i<length (map fresh_receive_file writers). file_ok (file_size offer i) (map fresh_receive_file writers ! i)"
    using w(2) open_writer_ok by (metis length_map nth_map nth_mem)
  have "peer_inv (p\<lparr>pr_sent := x, ri_receive := Some (streamed_receive offer s c (map fresh_receive_file writers) b)\<rparr>)" for x s c
    using w(1) by (intro install_receive_inv [OF inv jobs _ files]) simp_all
  then show ?thesis using inv
    by (auto simp: accept_install_def Let_def split: prod.splits sum.splits elim!: sent_elims)
qed

section \<open>Steps\<close>

text \<open>
  The tasks that put a new receiver in place. The code tells a receiver from an earlier one of the
  same transfer by a generation that it never counts up, so a segment that is still being written
  for the earlier one would be taken for a segment of the new one; the steps that are considered
  here run such a task only when no segment of its transfer is being written.
\<close>

fun installs :: "peer_task \<Rightarrow> rstring option" where
  "installs (RecoveryTask (RestoreFiles _ offer _ _)) = Some (io_transfer_id offer)"
| "installs (RecoveryTask (RecoverPermissions offer _)) = Some (io_transfer_id offer)"
| "installs (RecoveryTask (ResumePermissions offer _)) = Some (io_transfer_id offer)"
| "installs (RecoveryTask (AcceptSave _ offer _ _)) = Some (io_transfer_id offer)"
| "installs (RecoveryTask (AcceptForget _ offer _)) = Some (io_transfer_id offer)"
| "installs _ = None"

fun orderly :: "rtc_peer \<Rightarrow> peer_input \<Rightarrow> bool" where
  "orderly p (TaskRun i) \<longleftrightarrow>
     (i < length (pr_tasks p) \<longrightarrow> (case installs (pr_tasks p ! i) of
        None \<Rightarrow> True | Some transfer_id \<Rightarrow> segment_jobs transfer_id (pr_tasks p) = []))"
| "orderly p _ \<longleftrightarrow> True"

lemma decide_transfer_inv: "peer_inv p \<Longrightarrow> peer_inv (fst (decide_transfer e t a p))"
proof -
  assume inv: "peer_inv p"
  have "peer_inv (p\<lparr>ri_incoming := x, ri_pending_recovery := y, ri_paused_receive_reason := z, pr_sent := s,
      ri_receive := Some (buffered_receive offer)\<rparr>)" for x y z s offer
    using inv by (simp add: peer_inv_def buffered_receive_def receive_ok_def jobs_ok_def)
  then show ?thesis using inv
    by (auto simp: decide_transfer_def Let_def quiet_simps split: sum.splits option.splits prod.splits elim!: sent_elims
        intro: peer_inv_quiet)
qed

lemma accept_stream_inv:
  assumes "peer_inv p"
  shows "peer_inv (accept_stream_transfer e t (map open_writer handles) p)"
proof -
  have "peer_inv (spawn_local (RecoveryTask (AcceptSave c offer rec (map open_writer handles)))
      (p\<lparr>ri_incoming := x, ri_pending_recovery := y, ri_paused_receive_reason := z\<rparr>))"
    if "length handles = length (io_files offer)" for c offer rec x y z
    using assms that by (intro spawn_other_inv) (auto intro: peer_inv_tasks)
  then show ?thesis using assms
    by (auto simp: accept_stream_transfer_def quiet_simps split: sum.splits option.splits transfer_mode.splits intro: peer_inv_quiet)
qed

lemma run_recovery_inv:
  assumes inv: "peer_inv p" and task: "install_ok (RecoveryTask task)"
    and jobs: "\<forall>t. installs (RecoveryTask task) = Some t \<longrightarrow> segment_jobs t (pr_tasks p) = []"
  shows "peer_inv (run_recovery_task e task p)"
proof (cases task)
  case (RestoreFiles manual offer recovery files)
  then show ?thesis using restore_file_inv [OF inv, of offer manual recovery files e] task jobs by simp
next
  case (AcceptSave c offer rec writers)
  then show ?thesis using task jobs accept_install_inv [OF inv] spawn_other_inv [OF inv] by simp
next
  case (AcceptForget c offer writers)
  then show ?thesis using task jobs accept_install_inv [OF inv] by simp
next
  case (RecoverPermissions offer recovery)
  then show ?thesis using jobs restore_next_inv [OF inv] inv
    by (auto simp: recover_permitted_def quiet_simps split: sum.splits intro: peer_inv_quiet)
next
  case (ResumePermissions offer recovery)
  then show ?thesis using jobs restore_next_inv [OF inv] inv
    by (auto simp: resume_permitted_def quiet_simps split: sum.splits intro: peer_inv_quiet)
qed (auto simp: quiet_simps intro!: peer_inv_quiet [OF inv] quiet_intros)

lemma handle_control_inv:
  assumes "peer_inv p"
  shows "peer_inv (handle_control e m p)"
proof (cases m)
  case (SegmentCommit v t f i offset n b)
  then show ?thesis using assms by (simp add: segment_commit_inv)
qed (auto simp: quiet_simps handle_stream_complete_def handle_complete_def intro!: peer_inv_quiet [OF assms] quiet_intros)

lemma transfer_call_inv:
  assumes "peer_inv p"
  shows "peer_inv (run_transfer_call e call p)"
proof (cases call)
  case (CallDecide t a)
  then show ?thesis using assms by (simp add: decide_transfer_inv)
next
  case (CallAcceptStream t handles)
  then show ?thesis using assms by (simp add: accept_stream_inv)
qed (auto simp: quiet_simps intro!: peer_inv_quiet [OF assms] quiet_intros)

lemma browser_event_inv:
  assumes "peer_inv p"
  shows "peer_inv (run_browser_event e event p)"
proof (cases event)
  case (MessageEvent x data)
  then show ?thesis using assms
    by (auto simp: on_channel_message_def quiet_simps handle_control_inv handle_binary_inv
        split: channel_data.splits sum.splits intro: peer_inv_quiet)
qed (auto intro!: peer_inv_quiet [OF assms] quiet_intros)

lemma run_task_inv:
  assumes "peer_inv p" and "orderly p (TaskRun i)" and i: "i < length (pr_tasks p)"
  shows "peer_inv (run_task e (pr_tasks p ! i) (remove_task i p))"
proof -
  obtain xs task ys where t: "pr_tasks p = xs @ task # ys" "pr_tasks p ! i = task" "pr_tasks (remove_task i p) = xs @ ys"
    using i by (rule remove_task_tasks)
  have inv: "peer_inv (remove_task i p)" using assms by (simp add: remove_task_inv)
  have jobs: "segment_jobs n (pr_tasks (remove_task i p)) = []" if "segment_jobs n (pr_tasks p) = []" for n
    using that by (auto simp: t(1,3) segment_jobs_append segment_jobs_Cons split: option.splits prod.splits if_splits)
  have ok: "install_ok task" using assms(1) by (simp add: peer_inv_def t(1))
  show ?thesis
  proof (cases task)
    case (SegmentTask s)
    show ?thesis
    proof (cases "segment_job task")
      case None
      then have "\<not> receiver_task task" using SegmentTask by (cases s) auto
      then show ?thesis using SegmentTask by (auto simp: t(2) intro!: peer_inv_quiet [OF inv] quiet_intros)
    next
      case (Some job)
      then show ?thesis using run_segment_inv [OF inv] run_job_owned [OF assms(1) i] SegmentTask by (simp add: t(2))
    qed
  next
    case (RecoveryTask s)
    have "segment_jobs n (pr_tasks (remove_task i p)) = []" if "installs task = Some n" for n
      using that assms(2) i jobs by (simp add: t(2))
    then show ?thesis using run_recovery_inv [OF inv] ok RecoveryTask by (simp add: t(2))
  qed (auto simp: t(2) quiet_simps intro!: peer_inv_quiet [OF inv] quiet_intros)
qed

lemma peer_step_inv:
  assumes "peer_inv p" and "orderly p input"
  shows "peer_inv (peer_step e input p)"
proof (cases input)
  case (PeerCall call)
  show ?thesis
  proof (cases call)
    case (CallTransfer c)
    then show ?thesis using assms(1) PeerCall by (simp add: transfer_call_inv)
  next
    case (CallDecideText t a)
    then show ?thesis using assms(1) PeerCall quiet_decide_text [OF quiet_refl prod.collapse [symmetric]]
      by (auto intro: peer_inv_quiet)
  qed (use PeerCall in \<open>auto intro!: peer_inv_quiet [OF assms(1)] quiet_intros\<close>)
next
  case (BrowserEvent event)
  then show ?thesis using assms(1) by (simp add: browser_event_inv)
next
  case (TaskRun i)
  then show ?thesis using assms run_task_inv by simp
qed

end
