(* ===== verification/Peer_Runs.thy ===== *)
theory Peer_Runs
  imports Peer_Invariant
begin

text \<open>
  Runs of a peer: the states that a new peer reaches, the invariant along a run, and two short runs
  that receive a file of three bytes, one buffered and one streamed.
\<close>

section \<open>Runs\<close>

inductive peer_run :: "rtc_peer \<Rightarrow> bool" where
  new_peer: "rtc_peer_new e lease = Inr p \<Longrightarrow> peer_run p"
| next_step: "peer_run p \<Longrightarrow> orderly p input \<Longrightarrow> peer_run (peer_step e input p)"

lemma new_peer_inv: "rtc_peer_new e lease = Inr p \<Longrightarrow> peer_inv p"
  by (auto simp: rtc_peer_new_def result_simps peer_inv_def split: if_splits)

lemma peer_run_inv: "peer_run p \<Longrightarrow> peer_inv p"
  by (induction rule: peer_run.induct) (auto intro: new_peer_inv peer_step_inv)

section \<open>A run\<close>

fun run_inputs :: "(peer_env \<times> peer_input) list \<Rightarrow> rtc_peer \<Rightarrow> rtc_peer" where
  "run_inputs [] p = p"
| "run_inputs ((e, input) # inputs) p = run_inputs inputs (peer_step e input p)"

fun orderly_inputs :: "(peer_env \<times> peer_input) list \<Rightarrow> rtc_peer \<Rightarrow> bool" where
  "orderly_inputs [] p \<longleftrightarrow> True"
| "orderly_inputs ((e, input) # inputs) p \<longleftrightarrow> orderly p input \<and> orderly_inputs inputs (peer_step e input p)"

lemma run_inputs_run: "peer_run p \<Longrightarrow> orderly_inputs inputs p \<Longrightarrow> peer_run (run_inputs inputs p)"
proof (induction inputs arbitrary: p)
  case (Cons a inputs)
  obtain e input where a: "a = (e, input)" by (cases a)
  have "peer_run (peer_step e input p)" using Cons.prems by (intro next_step) (simp_all add: a)
  then show ?case using Cons by (simp add: a)
qed simp

definition sample_peer_env :: "control_message \<Rightarrow> browser_platform_error option \<Rightarrow> peer_env" where
  "sample_peer_env message outcome =
     \<lparr>pe_blake3 = (\<lambda>_. sample_digest), pe_to_json = (\<lambda>_. Inr []), pe_from_json = (\<lambda>_. Inr message), pe_open = (\<lambda>_. True),
      pe_send = (\<lambda>_ _. None), pe_send_bytes = (\<lambda>_ _. None), pe_buffered = (\<lambda>_. 0), pe_now_ms = 0, pe_monotonic_ms = 0,
      pe_random = (\<lambda>_. replicate 16 0), pe_promise = outcome, pe_load_stream = Inr None, pe_load_outgoing = Inr None,
      pe_permissions = Inr [], pe_get_file = (\<lambda>_. Inl MissingWindow), pe_slice = (\<lambda>_ _ _. Inr []),
      pe_object_url = (\<lambda>_ _. Inr (rstr ''blob:1'')), pe_new_connection = Inr 1, pe_new_channel = 2, pe_local_sdp = (\<lambda>_. None),
      pe_candidate_valid = (\<lambda>_. None)\<rparr>"

definition sample_transfer :: rstring where
  "sample_transfer = format_binary_id ''transfer'' (replicate 16 0)"

definition sample_file :: rstring where
  "sample_file = format_binary_id ''file'' (replicate 16 1)"

definition sample_receipt :: control_message where
  "sample_receipt = TextReceipt CURRENT_PROTOCOL (rstr ''text_1'')"

definition sample_message :: "control_message \<Rightarrow> peer_env \<times> peer_input" where
  "sample_message message = (sample_peer_env message None, BrowserEvent (MessageEvent 1 (TextData [])))"

definition sample_task :: "nat \<Rightarrow> peer_env \<times> peer_input" where
  "sample_task i = (sample_peer_env sample_receipt None, TaskRun i)"

definition sample_call :: "peer_call \<Rightarrow> peer_env \<times> peer_input" where
  "sample_call call = (sample_peer_env sample_receipt None, PeerCall call)"

definition sample_manifest :: "transfer_mode \<Rightarrow> control_message" where
  "sample_manifest mode = Manifest CURRENT_PROTOCOL sample_transfer mode
     [\<lparr>fm_file_id = sample_file, fm_name = rstr ''a.bin'', fm_mime = None, fm_size_bytes = 3\<rparr>]"

definition sample_chunk :: "peer_env \<times> peer_input" where
  "sample_chunk = (sample_peer_env sample_receipt None, BrowserEvent (MessageEvent 1
     (BinaryData (encode_binary_chunk (replicate 16 0) (replicate 16 1) 0 3 [7, 8, 9]))))"

definition sample_lease :: rtc_config_lease where
  "sample_lease = \<lparr>lease_address = 0, lease_response = \<lparr>rcr_version = CURRENT_PROTOCOL, rcr_ice_servers = [], rcr_expires_at_ms = 9, rcr_ttl_ms = 9\<rparr>,
     lease_valid_until_ms = 9\<rparr>"

definition sample_rtc_peer :: rtc_peer where
  "sample_rtc_peer = (case rtc_peer_new (sample_peer_env sample_receipt None) sample_lease of Inr p \<Rightarrow> p)"

lemma sample_env_simps [simp]:
  "pe_blake3 (sample_peer_env m out) x = sample_digest" "pe_to_json (sample_peer_env m out) y = Inr []"
  "pe_from_json (sample_peer_env m out) z = Inr m" "pe_open (sample_peer_env m out) c"
  "pe_send (sample_peer_env m out) c z = None" "pe_send_bytes (sample_peer_env m out) c b = None"
  "pe_now_ms (sample_peer_env m out) = 0" "pe_monotonic_ms (sample_peer_env m out) = 0"
  "pe_random (sample_peer_env m out) i = replicate 16 0" "pe_promise (sample_peer_env m out) = out"
  "pe_load_stream (sample_peer_env m out) = Inr None" "pe_object_url (sample_peer_env m out) cs w = Inr (rstr ''blob:1'')"
  "pe_new_connection (sample_peer_env m out) = Inr 1" "pe_new_channel (sample_peer_env m out) = 2"
  by (simp_all add: sample_peer_env_def)

lemma sample_ids [simp]:
  "parse_binary_id sample_transfer ''transfer'' = Some (replicate 16 0)"
  "parse_binary_id sample_file ''file'' = Some (replicate 16 1)"
  by (simp_all add: sample_transfer_def sample_file_def binary_id_round_trip)

lemma hex_char_token: "hex_char c \<Longrightarrow> ascii_token_char c"
  by (auto simp: hex_char_def ascii_token_char_def ascii_defs)

lemma format_binary_id_token:
  assumes "list_all ascii_token_char (rstr prefix)" and "length prefix \<le> 31" and "length bytes = 16"
  shows "validate_token (format_binary_id prefix bytes) field = Inr ()"
proof -
  have "list_all hex_char (to_hex_pairs bytes)" "length (to_hex_pairs bytes) = 32"
    using hex_pairs_bytes [of bytes] assms(3) by simp_all
  moreover have "format_binary_id prefix bytes = rstr prefix @ rstr ''_'' @ to_hex_pairs bytes"
    by (simp add: format_binary_id_def to_hex_pairs_def)
  moreover have "ascii_token_char 95" by (simp add: ascii_token_char_def ascii_defs)
  ultimately show ?thesis using assms(1,2)
    by (auto simp: validate_token_Inr_iff rstr_def list_all_iff intro: hex_char_token)
qed

lemma sample_tokens [simp]: "validate_token sample_transfer f = Inr ()" "validate_token sample_file f = Inr ()"
  by (auto simp: sample_transfer_def sample_file_def rstr_def ascii_token_char_def ascii_defs intro!: format_binary_id_token)

lemma checked_small: "checked_add 0 3 = Some (3 :: u64)"
  by (simp add: checked_add_Some_iff)

lemma sample_valid_buffered [simp]:
  "control_message_validate (sample_manifest Buffered) = Inr ()"
  apply (simp add: sample_manifest_def control_message_validate_def result_simps limit_defs manifest_files_loop_eq
        unique_files_loop_Inr_iff file_manifest_validate_Inr_iff)
  apply (simp add: rstr_def utf8_len_def is_control_def checked_small)
  apply (rule exI [of _ 3])
  apply simp
  done

lemma sample_valid_start [simp]:
  "control_message_validate (Start CURRENT_PROTOCOL sample_transfer) = Inr ()"
  by (simp add: control_message_validate_def result_simps)

lemma sample_peer_new: "sample_rtc_peer = \<lparr>ri_rtc_config = sample_lease, ri_peer_connection = None, ri_data_channel = None, ri_target_peer = None,
         ri_negotiation_id = None, ri_connection_epoch = 0, ri_negotiating = False, ri_local_description_announced = False,
         ri_remote_description_pending = False, ri_remote_description_set = False, ri_pending_local_candidates = [],
         ri_pending_remote_candidates = [], ri_outgoing = None, ri_outgoing_text = None, ri_pending_outgoing_recovery = None,
         ri_restoring_outgoing = False, ri_incoming = None, ri_incoming_text = None, ri_receiving_text = None,
         ri_pending_recovery = None, ri_paused_receive_reason = None, ri_restoring_transfer = None, ri_receive = None,
         ri_object_url = None, pr_events = [], pr_sent = [], pr_tasks = [], pr_calls = [], pr_replies = [], pr_acks = [],
         pr_fresh = 0\<rparr>"
  by (simp add: sample_rtc_peer_def version_validate_def rtc_peer_new_def sample_lease_def lease_is_valid_def lease_remaining_ms_def saturating_sub_def result_simps)

lemma parse_sample: "control_message_validate m = Inr () \<Longrightarrow> parse_control_message (pe_from_json (sample_peer_env m out)) [] = Inr m"
  by (simp add: parse_control_message_def limit_defs)

lemma sample_lease_valid: "lease_is_valid 0 sample_lease"
  by (simp add: sample_lease_def lease_is_valid_def lease_remaining_ms_def saturating_sub_def)

lemma sample_offer: "offer_from_manifest sample_transfer mode [\<lparr>fm_file_id = sample_file, fm_name = rstr ''a.bin'', fm_mime = None, fm_size_bytes = 3\<rparr>] =
  Inr \<lparr>io_transfer_id = sample_transfer, io_transfer_bytes = replicate 16 0, io_mode = mode, io_files =
    [\<lparr>if_file_bytes = replicate 16 1, if_file = \<lparr>tf_name = rstr ''a.bin'', tf_mime = None, tf_size_bytes = 3\<rparr>\<rparr>]\<rparr>"
  by (simp add: offer_from_manifest_def result_simps)

definition sample_connected :: rtc_peer where
  "sample_connected = peer_step (sample_peer_env sample_receipt None) (PeerCall (CallStartOffer (rstr ''peer''))) sample_rtc_peer"

lemma sample_connected_eq: "sample_connected = sample_rtc_peer
  \<lparr>ri_peer_connection := Some 1, ri_data_channel := Some 2, ri_target_peer := Some (rstr ''peer''),
     ri_negotiation_id := Some (generate_negotiation_id (replicate 16 0)), ri_connection_epoch := 1, ri_negotiating := True,
     pr_events := [DataChannelReady], pr_calls := [CallCreateOffer 1], pr_tasks := [SignalTask (OfferCreated
       \<lparr>ng_connection = 1, ng_epoch = 1, ng_id = generate_negotiation_id (replicate 16 0), ng_peer = rstr ''peer''\<rparr>)]\<rparr>"
  by (simp add: sample_connected_def sample_peer_new start_offer_def
     ensure_peer_connection_def new_peer_connection_def Let_def sample_lease_valid install_data_channel_def
     connection_epoch_is_current_def data_channel_opened_def emit_def browser_call_def spawn_local_def)

definition sample_incoming :: "transfer_mode \<Rightarrow> incoming_offer" where
  "sample_incoming mode = \<lparr>io_transfer_id = sample_transfer, io_transfer_bytes = replicate 16 0, io_mode = mode, io_files =
    [\<lparr>if_file_bytes = replicate 16 1, if_file = \<lparr>tf_name = rstr ''a.bin'', tf_mime = None, tf_size_bytes = 3\<rparr>\<rparr>]\<rparr>"

lemma sample_incoming_fields [simp]: "io_transfer_id (sample_incoming mode) = sample_transfer" "io_transfer_bytes (sample_incoming mode) = replicate 16 0"
  "io_mode (sample_incoming mode) = mode" "io_files (sample_incoming mode) = [\<lparr>if_file_bytes = replicate 16 1, if_file = \<lparr>tf_name = rstr ''a.bin'', tf_mime = None, tf_size_bytes = 3\<rparr>\<rparr>]"
  by (simp_all add: sample_incoming_def)

lemmas run_defs = sample_call_def sample_message_def sample_task_def sample_chunk_def on_channel_message_def connection_epoch_is_current_def parse_sample
  spawn_local_def remove_task_def emit_def Let_def offer_total_bytes_def offer_transfer_files_def summarize_transfer_files_def
  current_data_channel_def ok_or_def send_control_on_def encode_control_frame_def

definition sample_transfer_file :: transfer_file where
  "sample_transfer_file = \<lparr>tf_name = rstr ''a.bin'', tf_mime = None, tf_size_bytes = 3\<rparr>"

definition sample_offered :: "transfer_mode \<Rightarrow> rtc_peer" where
  "sample_offered mode = sample_connected\<lparr>ri_incoming := Some (sample_incoming mode), pr_events := [DataChannelReady,
    IncomingOffered sample_transfer mode sample_transfer_file [sample_transfer_file] False]\<rparr>"

lemma sample_decision [simp]: "control_message_validate (Decision CURRENT_PROTOCOL sample_transfer True) = Inr ()"
  by (simp add: control_message_validate_def result_simps)

lemma sample_offered_buffered: "run_inputs [sample_message (sample_manifest Buffered), sample_task 1] sample_connected = sample_offered Buffered"
  apply (simp add: run_defs sample_connected_eq sample_peer_new)
  apply (simp add: sample_manifest_def handle_manifest_def sample_offer run_defs sample_incoming_def [symmetric] publish_incoming_offer_def)
  apply (simp add: sample_offered_def sample_connected_eq sample_peer_new sample_transfer_file_def)
  done

definition sample_header :: "binary_chunk_header" where
  "sample_header = \<lparr>bh_version = CURRENT_PROTOCOL, bh_transfer_id = replicate 16 0, bh_file_id = replicate 16 1, bh_offset = 0, bh_payload_len = 3\<rparr>"

lemma sample_chunk_decodes: "decode_binary_chunk (encode_binary_chunk (replicate 16 0) (replicate 16 1) 0 3 [7, 8, 9]) = Inr (sample_header, [7, 8, 9])"
  unfolding decode_binary_chunk_def
  by (rule sendable_decodes) (simp_all add: sample_header_def encode_binary_chunk_def sendable_def header_wf_def)

lemma sample_header_transfer [simp]: "bh_transfer_id sample_header = replicate 16 0" by (simp add: sample_header_def)

lemma sample_next_offset: "n = 3 \<Longrightarrow> next_offset \<lparr>cb_transfer_id = replicate 16 0, cb_file_id = replicate 16 1, cb_offset = 0, cb_upper_bound = 3\<rparr> sample_header n = Some 3"
  by (simp add: next_offset_def sample_header_def checked_small)


definition sample_received :: rtc_peer where
  "sample_received = (let p = sample_offered Buffered in p\<lparr>ri_incoming := None, ri_receive := Some ((buffered_receive (sample_incoming Buffered))
     \<lparr>rv_started := True, rv_received_bytes := 3, rv_payload := BufferedPayload [[7, 8, 9]], rv_hasher := [7, 8, 9]\<rparr>),
     pr_events := pr_events p @ [TransferStarted sample_transfer DirReceive Buffered sample_transfer_file [sample_transfer_file],
       TransferProgress sample_transfer DirReceive 3 3],
     pr_sent := [(2, ControlFrame (Decision CURRENT_PROTOCOL sample_transfer True))]\<rparr>)"

lemma sample_buffered_end: "run_inputs [sample_call (CallTransfer (CallDecide sample_transfer True)), sample_message (Start CURRENT_PROTOCOL sample_transfer), sample_chunk] (sample_offered Buffered) = sample_received"
  apply (simp add: run_defs sample_offered_def sample_connected_eq sample_peer_new decide_transfer_def handle_start_def buffered_receive_def sample_received_def)
  apply (simp add: handle_binary_def sample_chunk_decodes accept_chunk_def sample_next_offset report_progress_def run_defs sample_transfer_file_def)
  done

lemma sample_ready [simp]: "control_message_validate (StreamReady CURRENT_PROTOCOL sample_transfer 32768 1048576 []) = Inr ()"
  by (simp add: control_message_validate_def result_simps limit_defs) (rule exI [of _ 0], simp)

lemma sample_valid_streamed [simp]:
  "control_message_validate (sample_manifest (Streamed 1048576)) = Inr ()"
  apply (simp add: sample_manifest_def control_message_validate_def result_simps limit_defs manifest_files_loop_eq
        unique_files_loop_Inr_iff file_manifest_validate_Inr_iff)
  apply (simp add: rstr_def utf8_len_def is_control_def checked_small)
  apply (rule exI [of _ 3])
  apply simp
  done

lemma sample_offered_streamed: "run_inputs [sample_message (sample_manifest (Streamed 1048576)), sample_task 1, sample_task 1] sample_connected = sample_offered (Streamed 1048576)"
  apply (simp add: run_defs sample_connected_eq sample_peer_new)
  apply (simp add: sample_manifest_def handle_manifest_def sample_offer run_defs sample_incoming_def [symmetric] publish_incoming_offer_def recover_loaded_def)
  apply (simp add: sample_offered_def sample_connected_eq sample_peer_new sample_transfer_file_def)
  done

lemma sample_window: "(of_nat DEFAULT_STREAM_CHUNK_BYTES :: u32) = 32768" "min DEFAULT_STREAM_ACK_WINDOW_BYTES 1048576 = 1048576"
  by (simp_all add: limit_defs DEFAULT_STREAM_CHUNK_BYTES_def DEFAULT_STREAM_ACK_WINDOW_BYTES_def)

lemma sample_segment_end: "fs_segment_offset f = 0 \<Longrightarrow> segment_end 1048576 3 f = 3"
  by (simp add: segment_end_def saturating_add_def checked_add_def)

lemma sample_send [simp]: "control_message_validate m = Inr () \<Longrightarrow> send_control_on (sample_peer_env x out) c m p =
   (p\<lparr>pr_sent := pr_sent p @ [(c, ControlFrame m)]\<rparr>, Inr ())"
  by (simp add: send_control_on_def encode_control_frame_def)

lemmas run2_defs = sample_call_def sample_message_def sample_task_def sample_chunk_def on_channel_message_def connection_epoch_is_current_def parse_sample
  spawn_local_def remove_task_def emit_def Let_def offer_total_bytes_def offer_transfer_files_def summarize_transfer_files_def
  current_data_channel_def ok_or_def


definition sample_receiver :: "u64 \<Rightarrow> nat \<Rightarrow> receive_file_state \<Rightarrow> receive_state" where
  "sample_receiver received current state = \<lparr>rv_offer = sample_incoming (Streamed 1048576), rv_started = True, rv_received_bytes = received,
     rv_payload = StreamedPayload 1048576 current [state], rv_hasher = [], rv_resume_requested = False, rv_last_progress_ms = 0,
     rv_recovery_persisted = True, rv_generation = 0\<rparr>"

definition sample_streaming :: "receive_state \<Rightarrow> rtc_event list \<Rightarrow> segment_task list \<Rightarrow> rtc_peer" where
  "sample_streaming receive events tasks = (let p = sample_offered (Streamed 1048576) in p\<lparr>ri_incoming := None, ri_receive := Some receive,
     pr_events := pr_events p @ [TransferStarted sample_transfer DirReceive (Streamed 1048576) sample_transfer_file [sample_transfer_file]] @ events,
     pr_sent := [(2, ControlFrame (Decision CURRENT_PROTOCOL sample_transfer True)),
       (2, ControlFrame (StreamReady CURRENT_PROTOCOL sample_transfer 32768 1048576 []))],
     pr_tasks := pr_tasks p @ map SegmentTask tasks,
     pr_replies := [AcceptReply (Inr ())]\<rparr>)"

definition sample_state :: "u64 \<Rightarrow> u8 list \<Rightarrow> receive_file_state" where
  "sample_state received bytes = (fresh_receive_file (open_writer 5))\<lparr>fs_received_bytes := received, fs_hasher := bytes,
     fs_segment_hasher := bytes, fs_chunks := (if bytes = [] then [] else [bytes])\<rparr>"

lemma sample_str1: "run_inputs [sample_call (CallTransfer (CallAcceptStream sample_transfer [5])), sample_task 1,
      sample_message (Start CURRENT_PROTOCOL sample_transfer)] (sample_offered (Streamed 1048576)) =
   sample_streaming (sample_receiver 0 0 (sample_state 0 [])) [] []"
  by (simp add: run2_defs sample_offered_def sample_connected_eq sample_peer_new accept_stream_transfer_def accept_install_def
     sample_window reply_def handle_start_def streamed_receive_def sample_streaming_def sample_receiver_def sample_transfer_file_def
     fresh_receive_file_def sample_state_def)

lemma sample_str2: "run_inputs [sample_chunk] (sample_streaming (sample_receiver 0 0 (sample_state 0 [])) [] []) =
   sample_streaming (sample_receiver 3 0 (sample_state 3 [7, 8, 9])) [TransferProgress sample_transfer DirReceive 3 3] []"
  apply (simp add: run2_defs sample_streaming_def sample_offered_def sample_connected_eq sample_peer_new sample_receiver_def sample_state_def)
  apply (simp add: handle_binary_def sample_chunk_decodes accept_chunk_def accept_file_chunk_def sample_segment_end sample_next_offset report_progress_def run2_defs fresh_receive_file_def open_writer_def)
  done

lemma sample_valid_commit [simp]: "control_message_validate (SegmentCommit CURRENT_PROTOCOL sample_transfer sample_file 0 0 3 sample_digest) = Inr ()"
  apply (simp add: control_message_validate_def result_simps limit_defs checked_small)
  apply (simp add: sample_digest_def is_ascii_hexdigit_def ascii_defs)
  done

definition sample_job :: commit_job where
  "sample_job = \<lparr>cj_transfer_id = sample_transfer, cj_file_id = sample_file, cj_segment_index = 0, cj_offset = 0, cj_blake3 = sample_digest,
     cj_committed_bytes = 3, cj_file_index = 0, cj_recovery_persisted = True, cj_generation = 0\<rparr>"

definition sample_writing :: receive_file_state where
  "sample_writing = (sample_state 3 [7, 8, 9])\<lparr>fs_writer := None, fs_active_abort := Some 5, fs_chunks := [], fs_segment_hasher := [], fs_writing := True\<rparr>"

definition sample_written :: stream_writer where
  "sample_written = \<lparr>sw_handle = 5, sw_next_offset = 3, sw_closed = False, sw_resumed = [], sw_writes = [(0, [7, 8, 9])]\<rparr>"

lemma sample_str3: "run_inputs [sample_message (SegmentCommit CURRENT_PROTOCOL sample_transfer sample_file 0 0 3 sample_digest)]
  (sample_streaming (sample_receiver 3 0 (sample_state 3 [7, 8, 9])) [TransferProgress sample_transfer DirReceive 3 3] []) =
  sample_streaming (sample_receiver 3 0 sample_writing) [TransferProgress sample_transfer DirReceive 3 3]
    [SegmentWrite sample_job (open_writer 5) [7, 8, 9]]"
  apply (simp add: run2_defs sample_streaming_def sample_offered_def sample_connected_eq sample_peer_new sample_receiver_def sample_state_def)
  apply (simp add: handle_segment_commit_def prepare_commit_def sample_segment_end fresh_receive_file_def open_writer_def run2_defs
    sample_writing_def sample_job_def sample_state_def)
  done

lemma sample_job_fields: "cj_transfer_id sample_job = sample_transfer" "cj_segment_index sample_job = 0" "cj_offset sample_job = 0"
  "cj_committed_bytes sample_job = 3" "cj_file_index sample_job = 0" "cj_recovery_persisted sample_job" "cj_generation sample_job = 0"
  "cj_blake3 sample_job = sample_digest"
  by (simp_all add: sample_job_def)

lemma sample_matches: "receive_generation_matches (sample_streaming (sample_receiver n c f) ev tasks) sample_transfer 0"
  by (simp add: receive_generation_matches_def sample_streaming_def Let_def sample_receiver_def)

lemma sample_run_segment: "run_inputs [sample_task 1] (sample_streaming r ev [task]) =
   run_segment_task (sample_peer_env sample_receipt None) task (sample_streaming r ev [])"
  by (simp add: sample_task_def sample_streaming_def remove_task_def Let_def sample_offered_def sample_connected_eq sample_peer_new)

lemma sample_spawn: "spawn_local (SegmentTask task) (sample_streaming r ev []) = sample_streaming r ev [task]"
  by (simp add: sample_streaming_def spawn_local_def Let_def)

lemma sample_str4: "run_inputs [sample_task 1] (sample_streaming (sample_receiver n c f) ev [SegmentWrite sample_job (open_writer 5) [7, 8, 9]]) =
  sample_streaming (sample_receiver n c f) ev [SegmentCheckpoint sample_job sample_written]"
  unfolding sample_run_segment
  by (simp add: sample_job_fields write_at_def open_writer_def checked_small sample_matches sample_spawn sample_written_def)

lemma sample_str5: "run_inputs [sample_task 1] (sample_streaming (sample_receiver n c f) ev [SegmentCheckpoint sample_job sample_written]) =
  sample_streaming (sample_receiver n c f) ev [SegmentReopen sample_job (sample_written\<lparr>sw_closed := True\<rparr>)]"
  unfolding sample_run_segment
  by (simp add: sample_job_fields commit_checkpoint_def sample_matches sample_spawn sample_written_def)

definition sample_committed :: receive_file_state where
  "sample_committed = commit_file sample_job sample_written sample_writing"

lemma sample_restore: "restore_segment sample_job (sample_written\<lparr>sw_closed := False\<rparr>) (sample_receiver 3 0 sample_writing) = Some (sample_receiver 3 1 sample_committed)"
  by (simp add: restore_segment_def sample_receiver_def Let_def sample_job_fields next_file_index_def sample_committed_def)
    (simp add: sample_writing_def sample_written_def sample_state_def fresh_receive_file_def)

lemma sample_record: "\<exists>save. recovery_record_from_receive (sample_receiver 3 1 sample_committed) peer = Some save"
  by (simp add: recovery_record_from_receive_def sample_receiver_def sample_committed_def commit_file_def)

lemma sample_streaming_fields: "ri_receive (sample_streaming r ev tasks) = Some r" "(sample_streaming r ev tasks)\<lparr>ri_receive := Some r'\<rparr> = sample_streaming r' ev tasks"
  "ri_target_peer (sample_streaming r ev tasks) = Some (rstr ''peer'')"
  by (simp_all add: sample_streaming_def Let_def sample_offered_def sample_connected_eq)

lemma sample_receiver_fields: "rv_offer (sample_receiver n c f) = sample_incoming (Streamed 1048576)" "rv_generation (sample_receiver n c f) = 0"
  "rv_recovery_persisted (sample_receiver n c f)" "rv_resume_requested (sample_receiver n c f) = False" "rv_payload (sample_receiver n c f) = StreamedPayload 1048576 c [f]"
  by (simp_all add: sample_receiver_def)

lemma sample_str6: "\<exists>save. run_inputs [sample_task 1] (sample_streaming (sample_receiver 3 0 sample_writing) ev [SegmentReopen sample_job (sample_written\<lparr>sw_closed := True\<rparr>)]) =
  sample_streaming (sample_receiver 3 1 sample_committed) ev [SegmentSave sample_job False save]"
proof -
  obtain save where "recovery_record_from_receive (sample_receiver 3 1 sample_committed) (rstr ''peer'') = Some save" using sample_record by blast
  then show ?thesis
  unfolding sample_run_segment
  by (simp add: sample_job_fields reopen_after_checkpoint_def sample_matches segment_written_def sample_streaming_fields sample_receiver_fields sample_restore sample_spawn) blast
qed

lemma orderly_buffered: "orderly_inputs [sample_message (sample_manifest Buffered), sample_task 1] sample_connected"
  apply (simp add: run_defs sample_connected_eq sample_peer_new)
  apply (simp add: sample_manifest_def handle_manifest_def sample_offer run_defs)
  done

lemma orderly_streamed: "orderly_inputs [sample_message (sample_manifest (Streamed 1048576)), sample_task 1, sample_task 1] sample_connected"
  apply (simp add: run_defs sample_connected_eq sample_peer_new)
  apply (simp add: sample_manifest_def handle_manifest_def sample_offer run_defs)
  done

lemma orderly_accept: "orderly_inputs [sample_call (CallTransfer (CallAcceptStream sample_transfer [5])), sample_task 1,
      sample_message (Start CURRENT_PROTOCOL sample_transfer)] (sample_offered (Streamed 1048576))"
  by (simp add: run2_defs sample_offered_def sample_connected_eq sample_peer_new accept_stream_transfer_def segment_jobs_def)


lemma peer_run_inputs: "peer_run p \<Longrightarrow> orderly_inputs inputs p \<Longrightarrow> run_inputs inputs p = q \<Longrightarrow> peer_run q"
  using run_inputs_run by blast

lemma sample_connected_run: "peer_run sample_connected"
proof -
  have "rtc_peer_new (sample_peer_env sample_receipt None) sample_lease = Inr sample_rtc_peer"
    by (simp add: sample_rtc_peer_def rtc_peer_new_def sample_lease_def lease_is_valid_def lease_remaining_ms_def
        saturating_sub_def version_validate_def)
  then have "peer_run sample_rtc_peer" by (rule new_peer)
  then show ?thesis unfolding sample_connected_def by (rule next_step) simp
qed

lemma sample_received_run: "peer_run sample_received"
proof -
  have "peer_run (sample_offered Buffered)"
    by (rule peer_run_inputs [OF sample_connected_run orderly_buffered sample_offered_buffered])
  then show ?thesis by (rule peer_run_inputs [OF _ _ sample_buffered_end]) (simp add: sample_call_def sample_message_def sample_chunk_def)
qed

lemma orderly_segment: "orderly_inputs [sample_task 1] (sample_streaming r ev [task])"
  by (simp add: sample_task_def sample_streaming_def Let_def sample_offered_def sample_connected_eq sample_peer_new)

lemma sample_committed_run: "\<exists>save. peer_run (sample_streaming (sample_receiver 3 1 sample_committed) [TransferProgress sample_transfer DirReceive 3 3]
     [SegmentSave sample_job False save])"
proof -
  let ?ev = "[TransferProgress sample_transfer DirReceive 3 3]"
  have "peer_run (sample_offered (Streamed 1048576))"
    by (rule peer_run_inputs [OF sample_connected_run orderly_streamed sample_offered_streamed])
  then have "peer_run (sample_streaming (sample_receiver 0 0 (sample_state 0 [])) [] [])"
    by (rule peer_run_inputs [OF _ orderly_accept sample_str1])
  then have "peer_run (sample_streaming (sample_receiver 3 0 (sample_state 3 [7, 8, 9])) ?ev [])"
    by (rule peer_run_inputs [OF _ _ sample_str2]) (simp add: sample_chunk_def)
  then have "peer_run (sample_streaming (sample_receiver 3 0 sample_writing) ?ev [SegmentWrite sample_job (open_writer 5) [7, 8, 9]])"
    by (rule peer_run_inputs [OF _ _ sample_str3]) (simp add: sample_message_def)
  then have "peer_run (sample_streaming (sample_receiver 3 0 sample_writing) ?ev [SegmentCheckpoint sample_job sample_written])"
    by (rule peer_run_inputs [OF _ orderly_segment sample_str4])
  then have "peer_run (sample_streaming (sample_receiver 3 0 sample_writing) ?ev [SegmentReopen sample_job (sample_written\<lparr>sw_closed := True\<rparr>)])"
    by (rule peer_run_inputs [OF _ orderly_segment sample_str5])
  then show ?thesis using sample_str6 [of ?ev] by (metis peer_run_inputs orderly_segment)
qed

end
