(* ===== verification/Peer_Properties.thy ===== *)
theory Peer_Properties
  imports Peer_Runs
begin

text \<open>
  What a peer guarantees about the files it receives, in every state that a run of steps reaches
  from a new peer.
\<close>

section \<open>Streamed files\<close>

lemma try_send_fields [simp]:
  "pr_tasks (try_send e m p) = pr_tasks p" "pr_events (try_send e m p) = pr_events p" "ri_receive (try_send e m p) = ri_receive p"
  by (subst try_send_sent; simp)+

lemma transfer_error_fields [simp]:
  "pr_tasks (send_transfer_error e t c m p) = pr_tasks p" "pr_events (send_transfer_error e t c m p) = pr_events p"
  by (simp_all add: send_transfer_error_def)

lemma report_fields [simp]:
  "pr_tasks (fail t m p) = pr_tasks p" "pr_tasks (emit ev p) = pr_tasks p" "pr_tasks (spawn_local task p) = pr_tasks p @ [task]"
  "pr_events (fail t m p) = pr_events p @ [TransferFailed t m]" "pr_events (emit ev p) = pr_events p @ [ev]"
  "pr_events (spawn_local task p) = pr_events p"
  by (simp_all add: fail_def emit_def spawn_local_def)

lemma finish_closes:
  assumes "SegmentTask (FinishClose job writers) \<in> set (pr_tasks (finish_stream_receive e t n digests p))"
    and "SegmentTask (FinishClose job writers) \<notin> set (pr_tasks p)"
  obtains r s c files where "ri_receive p = Some r" "rv_payload r = StreamedPayload s c files"
    "stream_verified e t n digests r" "writers = List.map_filter fs_writer files" "fj_digests job = digests"
proof -
  obtain r where r: "ri_receive p = Some r" and v: "stream_verified e t n digests r"
    and w: "fj_digests job = digests" "writers = (case rv_payload r of
      StreamedPayload _ _ files \<Rightarrow> List.map_filter fs_writer files | BufferedPayload _ \<Rightarrow> [])"
    using assms by (auto simp: finish_stream_receive_def Let_def split: option.splits if_splits)
  moreover obtain s c files where "rv_payload r = StreamedPayload s c files"
    using v by (cases "rv_payload r") (simp_all add: stream_verified_def)
  ultimately show thesis by (intro that) simp_all
qed

lemma verified_file_written:
  assumes "file_ok n f" and "stream_file_verified e x f d" and "tf_size_bytes (if_file x) = n"
  obtains w where "fs_writer f = Some w" "\<not> sw_closed w" "writer_ok w" "length (writer_bytes w) = unat n"
    "pe_blake3 e (writer_bytes w) = dg_blake3 d" "dg_size_bytes d = n"
  using assms by (auto simp: file_ok_def stream_file_verified_def)

lemma map_filter_all: "(\<And>x. x \<in> set xs \<Longrightarrow> f x = Some (g x)) \<Longrightarrow> List.map_filter f xs = map g xs"
  by (induction xs) (auto simp: List.map_filter_simps)

text \<open>C7. A batch of streamed files is closed only when what was written is what was verified: in any
  state that a peer reaches by a run (\<open>peer_run\<close>: inputs and answers in any order, except that no receiver is
  installed while a segment task of an earlier receiver of the same transfer is under way), when the sender's completion makes it close the files, there is one open
  writer per offered file, in order, whose write commands follow each other without a gap, and the
  bytes written have the declared size and exactly the announced digest. Chunks that were received
  but not written, or written but not received, cannot slip through, whatever was resumed,
  paused or reconnected before.\<close>

theorem closed_files_are_verified:
  assumes "peer_run p"
    and "SegmentTask (FinishClose job writers) \<in> set (pr_tasks (finish_stream_receive e transfer_id total_bytes digests p))"
    and "SegmentTask (FinishClose job writers) \<notin> set (pr_tasks p)"
  shows "\<exists>r. ri_receive p = Some r \<and> fj_digests job = digests \<and>
    map dg_size_bytes digests = map (tf_size_bytes \<circ> if_file) (io_files (rv_offer r)) \<and>
    list_all2 (\<lambda>w digest. \<not> sw_closed w \<and> contiguous (length (sw_resumed w)) (sw_writes w) \<and>
      length (writer_bytes w) = unat (dg_size_bytes digest) \<and> pe_blake3 e (writer_bytes w) = dg_blake3 digest) writers digests"
proof -
  obtain r s c files where r: "ri_receive p = Some r" "rv_payload r = StreamedPayload s c files"
    "stream_verified e transfer_id total_bytes digests r" "writers = List.map_filter fs_writer files" "fj_digests job = digests"
    using assms(2,3) by (rule finish_closes)
  have len: "length files = length (io_files (rv_offer r))" "length digests = length (io_files (rv_offer r))"
    and ok: "\<And>i. i < length files \<Longrightarrow> file_ok (file_size (rv_offer r) i) (files ! i)"
    using peer_run_inv [OF assms(1)] r by (auto simp: peer_inv_def receive_ok_def stream_verified_def)
  have v: "stream_file_verified e (io_files (rv_offer r) ! i) (files ! i) (digests ! i)" if "i < length files" for i
    using r(2,3) that len by (auto simp: stream_verified_def list_all_length)
  have w: "fs_writer (files ! i) = Some (the (fs_writer (files ! i))) \<and> dg_size_bytes (digests ! i) = file_size (rv_offer r) i \<and>
      (let w = the (fs_writer (files ! i)) in \<not> sw_closed w \<and> writer_ok w \<and> length (writer_bytes w) = unat (file_size (rv_offer r) i) \<and>
        pe_blake3 e (writer_bytes w) = dg_blake3 (digests ! i))"
    if "i < length files" for i
    by (rule verified_file_written [OF ok [OF that] v [OF that]]) (simp_all add: file_size_def Let_def)
  have "writers = map (the \<circ> fs_writer) files"
    unfolding r(4) using w by (intro map_filter_all) (auto simp: in_set_conv_nth)
  moreover have "map dg_size_bytes digests = map (tf_size_bytes \<circ> if_file) (io_files (rv_offer r))"
    using w len by (auto simp: list_eq_iff_nth_eq file_size_def)
  ultimately show ?thesis using r(1,5) w len by (simp add: list_all2_conv_all_nth writer_ok_def Let_def)
qed

section \<open>Buffered files\<close>

text \<open>C8. A buffered file is handed to the user only when it is complete and intact: in any state that a
  peer reaches by such a run, when a completion produces a download, the address was made from chunks whose bytes
  together have the offered size and the digest that is reported.\<close>

theorem downloads_are_verified:
  assumes "peer_run p"
    and "TransferCompleted t DirReceive file files digest (Some url) \<in> set (pr_events (finish_receive e transfer_id bytes blake3 p))"
    and "TransferCompleted t DirReceive file files digest (Some url) \<notin> set (pr_events p)"
  shows "\<exists>r chunks mime. ri_receive p = Some r \<and> map if_file (io_files (rv_offer r)) = [file] \<and>
    pe_object_url e chunks mime = Inr url \<and> length (concat chunks) = unat (tf_size_bytes file) \<and>
    pe_blake3 e (concat chunks) = digest \<and> digest = blake3"
proof -
  have "peer_inv p" using assms(1) by (rule peer_run_inv)
  then show ?thesis using assms(2,3)
    by (auto simp: finish_receive_def Let_def peer_inv_def receive_ok_def
        split: option.splits list.splits if_splits receive_payload.splits sum.splits object_url_failure.splits)
qed

section \<open>Two runs\<close>

theorem downloads_are_verified_witness:
  "peer_run sample_received \<and> (\<exists>r chunks mime. ri_receive sample_received = Some r \<and> map if_file (io_files (rv_offer r)) = [sample_transfer_file] \<and>
    pe_object_url (sample_peer_env sample_receipt None) chunks mime = Inr (rstr ''blob:1'') \<and>
    length (concat chunks) = unat (tf_size_bytes sample_transfer_file) \<and> pe_blake3 (sample_peer_env sample_receipt None) (concat chunks) = sample_digest)"
proof -
  let ?event = "TransferCompleted sample_transfer DirReceive sample_transfer_file [sample_transfer_file] sample_digest (Some (rstr ''blob:1''))"
  have e: "?event \<in> set (pr_events (finish_receive (sample_peer_env sample_receipt None) sample_transfer 3 sample_digest sample_received))"
    by (simp add: finish_receive_def sample_received_def Let_def buffered_receive_def sample_transfer_file_def)
  have n: "?event \<notin> set (pr_events sample_received)"
    by (simp add: sample_received_def Let_def sample_offered_def)
  show ?thesis using downloads_are_verified [OF sample_received_run e n] sample_received_run by simp
qed

theorem closed_files_are_verified_witness:
  "\<exists>p job writers r. peer_run p \<and>
    SegmentTask (FinishClose job writers) \<in> set (pr_tasks (finish_stream_receive (sample_peer_env sample_receipt None) sample_transfer 3
       [\<lparr>dg_file_id = sample_file, dg_size_bytes = 3, dg_blake3 = sample_digest\<rparr>] p)) \<and>
    SegmentTask (FinishClose job writers) \<notin> set (pr_tasks p) \<and> ri_receive p = Some r \<and>
    list_all2 (\<lambda>w digest. \<not> sw_closed w \<and> contiguous (length (sw_resumed w)) (sw_writes w) \<and>
      length (writer_bytes w) = unat (dg_size_bytes digest) \<and> pe_blake3 (sample_peer_env sample_receipt None) (writer_bytes w) = dg_blake3 digest)
      writers [\<lparr>dg_file_id = sample_file, dg_size_bytes = 3, dg_blake3 = sample_digest\<rparr>]"
proof -
  obtain save where run: "peer_run (sample_streaming (sample_receiver 3 1 sample_committed) [TransferProgress sample_transfer DirReceive 3 3]
     [SegmentSave sample_job False save])" (is "peer_run ?p") using sample_committed_run by blast
  let ?e = "sample_peer_env sample_receipt None" and ?d = "[\<lparr>dg_file_id = sample_file, dg_size_bytes = 3, dg_blake3 = sample_digest\<rparr>]"
  let ?job = "\<lparr>fj_transfer_id = sample_transfer, fj_total_bytes = 3, fj_digests = ?d, fj_transfer_files = [sample_transfer_file],
     fj_summary = sample_transfer_file, fj_batch_hash = sample_digest\<rparr>"
  have v: "stream_verified ?e sample_transfer 3 ?d (sample_receiver 3 1 sample_committed)"
    by (simp add: stream_verified_def stream_file_verified_def sample_receiver_def offer_total_bytes_def sample_committed_def commit_file_def
       sample_job_fields sample_writing_def sample_state_def)
  have w: "fs_writer sample_committed = Some sample_written" by (simp add: sample_committed_def commit_file_def)
  have t: "SegmentTask (FinishClose ?job [sample_written]) \<in> set (pr_tasks (finish_stream_receive ?e sample_transfer 3 ?d ?p))"
    using v by (simp add: finish_stream_receive_def sample_streaming_fields sample_receiver_fields Let_def w spawn_local_def
       offer_transfer_files_def summarize_transfer_files_def sample_transfer_file_def batch_blake3_def)
  have n: "SegmentTask (FinishClose ?job [sample_written]) \<notin> set (pr_tasks ?p)"
    by (simp add: sample_streaming_def Let_def sample_offered_def sample_connected_eq)
  show ?thesis using closed_files_are_verified [OF run t n] run t n by blast
qed

end
