(* ===== verification/Peer_Exchange.thy ===== *)
theory Peer_Exchange
  imports Peer_Runs
begin

text \<open>
  Two peers at the ends of one data channel: what one peer sends is accepted by the other. The
  frames a step adds to the channel are handed to the other peer in order.
\<close>

section \<open>The channel between two peers\<close>

text \<open>The frames that were sent between two states of a peer.\<close>

definition frames_since :: "rtc_peer \<Rightarrow> rtc_peer \<Rightarrow> wire_frame list" where
  "frames_since p q = map snd (drop (length (pr_sent p)) (pr_sent q))"

text \<open>A peer whose channel is open and takes every message.\<close>

definition channel_works :: "peer_env \<Rightarrow> rtc_peer \<Rightarrow> bool" where
  "channel_works e p \<longleftrightarrow>
     (\<exists>channel. current_data_channel e p = Inr channel \<and> (\<forall>json. pe_send e channel json = None)) \<and>
     (\<forall>message. \<exists>json. pe_to_json e message = Inr json)"

lemma channel_works_channel: "channel_works e p \<Longrightarrow> ri_data_channel q = ri_data_channel p \<Longrightarrow> channel_works e q"
  by (simp add: channel_works_def current_data_channel_def)

lemma works_send_control:
  assumes "channel_works e p" and "control_message_validate m = Inr ()" and "ri_data_channel q = ri_data_channel p"
  obtains channel where "current_data_channel e q = Inr channel"
    "send_control_on e channel m q = (q\<lparr>pr_sent := pr_sent q @ [(channel, ControlFrame m)]\<rparr>, Inr ())"
proof -
  obtain channel where c: "current_data_channel e q = Inr channel" "\<And>json. pe_send e channel json = None"
    using assms(1,3) by (auto simp: channel_works_def current_data_channel_def)
  obtain json where "pe_to_json e m = Inr json" using assms(1) by (auto simp: channel_works_def)
  then have "send_control_on e channel m q = (q\<lparr>pr_sent := pr_sent q @ [(channel, ControlFrame m)]\<rparr>, Inr ())"
    using assms(2) c by (simp add: send_control_on_def encode_control_frame_def)
  with c(1) show thesis by (rule that)
qed

lemma idle_fields: "\<not> file_or_text_transfer_active p \<longleftrightarrow>
   ri_outgoing p = None \<and> ri_pending_outgoing_recovery p = None \<and> \<not> ri_restoring_outgoing p \<and> ri_incoming p = None \<and>
   ri_pending_recovery p = None \<and> ri_restoring_transfer p = None \<and> ri_receive p = None \<and>
   ri_outgoing_text p = None \<and> ri_incoming_text p = None \<and> ri_receiving_text p = None"
  by (auto simp: file_or_text_transfer_active_def active_text_transfer_id_def or_else_def split: option.splits)

section \<open>A text\<close>

lemma text_messages_valid:
  assumes "control_message_validate (TextPayload v t txt) = Inr ()"
  shows "control_message_validate (TextDecision v t accepted) = Inr ()" "control_message_validate (TextReceipt v t) = Inr ()"
    "length txt \<le> MAX_TEXT_TRANSFER_CHARS" "str_len txt \<le> MAX_TEXT_TRANSFER_BYTES" "v = CURRENT_PROTOCOL"
  using assms by (simp_all add: control_message_validate_def result_simps split: if_splits)

lemma offer_text_sends:
  assumes "offer_text e txt a = (a1, Inr t)"
  obtains channel where "a1 = a\<lparr>ri_outgoing_text := Some \<lparr>ot_transfer_id = t, ot_text = txt, ot_accepted = False\<rparr>,
      pr_sent := pr_sent a @ [(channel, ControlFrame (TextOffer CURRENT_PROTOCOL t (of_nat (length txt)) (of_nat (str_len txt))))],
      pr_events := pr_events a @ [TextOutgoingOffered t (of_nat (length txt)) (of_nat (str_len txt))],
      pr_tasks := pr_tasks a @ [TextTask (OutgoingTextTimeout t False)]\<rparr>"
    "control_message_validate (TextPayload CURRENT_PROTOCOL t txt) = Inr ()" "\<not> file_or_text_transfer_active a"
  using assms
  by (auto simp: offer_text_def Let_def result_simps send_control_on_def schedule_outgoing_text_timeout_def emit_def spawn_local_def
      split: if_splits sum.splits prod.splits control_frame_encode_error.splits option.splits)

definition text_offered :: "rstring \<Rightarrow> rstring \<Rightarrow> incoming_text_offer" where
  "text_offered t txt = \<lparr>it_transfer_id = t, it_character_count = of_nat (length txt), it_byte_length = of_nat (str_len txt)\<rparr>"

lemma text_offer_answered:
  assumes "channel_works e b" and "\<not> file_or_text_transfer_active b" and "control_message_validate (TextPayload CURRENT_PROTOCOL t txt) = Inr ()"
  obtains channel where "handle_text_offer e t (of_nat (length txt)) (of_nat (str_len txt)) b =
    b\<lparr>ri_receiving_text := Some (text_offered t txt), pr_sent := pr_sent b @ [(channel, ControlFrame (TextDecision CURRENT_PROTOCOL t True))],
      pr_events := pr_events b @ [TextIncomingOffered t (of_nat (length txt)) (of_nat (str_len txt)), TextTransferAccepted t DirReceive],
      pr_tasks := pr_tasks b @ [TextTask (IncomingTextTimeout t)]\<rparr>"
proof -
  let ?p = "emit (TextIncomingOffered t (of_nat (length txt)) (of_nat (str_len txt))) (b\<lparr>ri_incoming_text := Some (text_offered t txt)\<rparr>)"
  obtain channel where c: "current_data_channel e ?p = Inr channel" "send_control_on e channel (TextDecision CURRENT_PROTOCOL t True) ?p =
      (?p\<lparr>pr_sent := pr_sent ?p @ [(channel, ControlFrame (TextDecision CURRENT_PROTOCOL t True))]\<rparr>, Inr ())"
    by (rule works_send_control [OF assms(1) text_messages_valid(1) [OF assms(3), where accepted = True], of ?p]) (simp_all add: emit_def)
  have "ri_incoming_text b = None" using assms(2) by (simp add: idle_fields)
  then show thesis using assms(2) c
    by (intro that [of channel]) (simp add: handle_text_offer_def decide_text_def text_offered_def Let_def emit_def schedule_incoming_text_timeout_def spawn_local_def)
qed

lemma text_decision_sends_text:
  assumes "channel_works e a" and "ri_outgoing_text a = Some \<lparr>ot_transfer_id = t, ot_text = txt, ot_accepted = False\<rparr>"
    and "control_message_validate (TextPayload CURRENT_PROTOCOL t txt) = Inr ()"
  obtains channel where "handle_text_decision e t True a =
    a\<lparr>ri_outgoing_text := Some \<lparr>ot_transfer_id = t, ot_text = txt, ot_accepted = True\<rparr>,
      pr_sent := pr_sent a @ [(channel, ControlFrame (TextPayload CURRENT_PROTOCOL t txt))],
      pr_events := pr_events a @ [TextTransferAccepted t DirSend], pr_tasks := pr_tasks a @ [TextTask (OutgoingTextTimeout t True)]\<rparr>"
proof -
  let ?p = "a\<lparr>ri_outgoing_text := Some \<lparr>ot_transfer_id = t, ot_text = txt, ot_accepted = True\<rparr>\<rparr>"
  obtain channel where "current_data_channel e ?p = Inr channel" "send_control_on e channel (TextPayload CURRENT_PROTOCOL t txt) ?p =
      (?p\<lparr>pr_sent := pr_sent ?p @ [(channel, ControlFrame (TextPayload CURRENT_PROTOCOL t txt))]\<rparr>, Inr ())"
    by (rule works_send_control [OF assms(1,3), of ?p]) simp_all
  then show thesis using assms(2)
    by (intro that [of channel]) (simp add: handle_text_decision_def Let_def send_current_def emit_def schedule_outgoing_text_timeout_def spawn_local_def)
qed

lemma text_payload_received:
  assumes "channel_works e b" and "ri_receiving_text b = Some (text_offered t txt)"
    and "control_message_validate (TextPayload CURRENT_PROTOCOL t txt) = Inr ()"
  obtains channel where "handle_text_payload e t txt b =
    b\<lparr>ri_receiving_text := None, pr_sent := pr_sent b @ [(channel, ControlFrame (TextReceipt CURRENT_PROTOCOL t))],
      pr_events := pr_events b @ [TextTransferReceived t txt]\<rparr>"
proof -
  let ?p = "b\<lparr>ri_receiving_text := None\<rparr>"
  obtain channel where "current_data_channel e ?p = Inr channel" "send_control_on e channel (TextReceipt CURRENT_PROTOCOL t) ?p =
      (?p\<lparr>pr_sent := pr_sent ?p @ [(channel, ControlFrame (TextReceipt CURRENT_PROTOCOL t))]\<rparr>, Inr ())"
    by (rule works_send_control [OF assms(1) text_messages_valid(2) [OF assms(3)], of ?p]) simp_all
  moreover have "unat (of_nat (length txt) :: u32) = length txt" "unat (of_nat (str_len txt) :: u32) = str_len txt"
    using text_messages_valid(3,4) [OF assms(3)] by (simp_all add: unat_of_nat take_bit_nat_eq_self limit_defs)
  ultimately show thesis using assms(2) text_messages_valid(3,4) [OF assms(3)]
    by (intro that [of channel]) (simp add: handle_text_payload_def Let_def text_offered_def try_send_def emit_def not_less)
qed

text \<open>C11. A text arrives as it was sent: when both channels work and the receiver is free, an offered
  text is accepted, sent, received and acknowledged by the four messages the peers exchange, the
  receiver reports exactly the offered text, the sender reports its delivery, and both are free again.\<close>

theorem text_is_delivered:
  assumes offer: "offer_text ea txt a = (a1, Inr t)" and works: "channel_works ea a" "channel_works eb b"
    and free: "\<not> file_or_text_transfer_active b"
  shows "\<exists>offer decision payload receipt. frames_since a a1 = [ControlFrame offer] \<and>
    (let b1 = handle_control eb offer b; a2 = handle_control ea decision a1; b2 = handle_control eb payload b1; a3 = handle_control ea receipt a2
     in frames_since b b1 = [ControlFrame decision] \<and> frames_since a1 a2 = [ControlFrame payload] \<and>
        frames_since b1 b2 = [ControlFrame receipt] \<and>
        last (pr_events b2) = TextTransferReceived t txt \<and> \<not> file_or_text_transfer_active b2 \<and>
        last (pr_events a3) = TextTransferDelivered t \<and> \<not> file_or_text_transfer_active a3)"
proof -
  obtain c1 where a1: "a1 = a\<lparr>ri_outgoing_text := Some \<lparr>ot_transfer_id = t, ot_text = txt, ot_accepted = False\<rparr>,
      pr_sent := pr_sent a @ [(c1, ControlFrame (TextOffer CURRENT_PROTOCOL t (of_nat (length txt)) (of_nat (str_len txt))))],
      pr_events := pr_events a @ [TextOutgoingOffered t (of_nat (length txt)) (of_nat (str_len txt))],
      pr_tasks := pr_tasks a @ [TextTask (OutgoingTextTimeout t False)]\<rparr>" (is "_ = ?a1")
    and valid: "control_message_validate (TextPayload CURRENT_PROTOCOL t txt) = Inr ()" and idle: "\<not> file_or_text_transfer_active a"
    using offer by (rule offer_text_sends)
  obtain c2 where b1: "handle_text_offer eb t (of_nat (length txt)) (of_nat (str_len txt)) b =
    b\<lparr>ri_receiving_text := Some (text_offered t txt), pr_sent := pr_sent b @ [(c2, ControlFrame (TextDecision CURRENT_PROTOCOL t True))],
      pr_events := pr_events b @ [TextIncomingOffered t (of_nat (length txt)) (of_nat (str_len txt)), TextTransferAccepted t DirReceive],
      pr_tasks := pr_tasks b @ [TextTask (IncomingTextTimeout t)]\<rparr>" (is "_ = ?b1")
    using works(2) free valid by (rule text_offer_answered)
  obtain c3 where a2: "handle_text_decision ea t True ?a1 =
    ?a1\<lparr>ri_outgoing_text := Some \<lparr>ot_transfer_id = t, ot_text = txt, ot_accepted = True\<rparr>,
      pr_sent := pr_sent ?a1 @ [(c3, ControlFrame (TextPayload CURRENT_PROTOCOL t txt))],
      pr_events := pr_events ?a1 @ [TextTransferAccepted t DirSend], pr_tasks := pr_tasks ?a1 @ [TextTask (OutgoingTextTimeout t True)]\<rparr>" (is "_ = ?a2")
    by (rule text_decision_sends_text [OF _ _ valid, of ea ?a1]) (use works(1) in \<open>simp_all add: channel_works_def current_data_channel_def\<close>)
  obtain c4 where b2: "handle_text_payload eb t txt ?b1 =
    ?b1\<lparr>ri_receiving_text := None, pr_sent := pr_sent ?b1 @ [(c4, ControlFrame (TextReceipt CURRENT_PROTOCOL t))],
      pr_events := pr_events ?b1 @ [TextTransferReceived t txt]\<rparr>" (is "_ = ?b2")
    by (rule text_payload_received [OF _ _ valid, of eb ?b1]) (use works(2) in \<open>simp_all add: channel_works_def current_data_channel_def\<close>)
  let ?offer = "TextOffer CURRENT_PROTOCOL t (of_nat (length txt)) (of_nat (str_len txt))"
    and ?decision = "TextDecision CURRENT_PROTOCOL t True" and ?payload = "TextPayload CURRENT_PROTOCOL t txt"
    and ?receipt = "TextReceipt CURRENT_PROTOCOL t"
  let ?a3 = "?a2\<lparr>ri_outgoing_text := None, pr_events := pr_events ?a2 @ [TextTransferDelivered t]\<rparr>"
  have steps: "handle_control eb ?offer b = ?b1" "handle_control ea ?decision ?a1 = ?a2" "handle_control eb ?payload ?b1 = ?b2"
    "handle_control ea ?receipt ?a2 = ?a3"
    using b1 a2 b2 by (simp_all only: handle_control.simps) (simp add: handle_text_receipt_def emit_def)
  have frames: "frames_since a ?a1 = [ControlFrame ?offer]" "frames_since b ?b1 = [ControlFrame ?decision]"
    "frames_since ?a1 ?a2 = [ControlFrame ?payload]" "frames_since ?b1 ?b2 = [ControlFrame ?receipt]"
    by (simp_all add: frames_since_def)
  have ends: "last (pr_events ?b2) = TextTransferReceived t txt" "\<not> file_or_text_transfer_active ?b2"
    "last (pr_events ?a3) = TextTransferDelivered t" "\<not> file_or_text_transfer_active ?a3"
    using idle free by (simp_all add: idle_fields)
  show ?thesis unfolding a1 Let_def
    by (intro exI [of _ ?offer] exI [of _ ?decision] exI [of _ ?payload] exI [of _ ?receipt], unfold steps, intro conjI frames ends)
qed

section \<open>The chunks of a segment\<close>

lemma unat_min: "unat (min a b :: 'a::len word) = min (unat a) (unat b)"
  by (simp add: min_def word_le_nat_alt)

lemma unat_add_small: "unat a + unat b < 2 ^ LENGTH('a) \<Longrightarrow> unat (a + b) = unat a + unat b" for a b :: "'a::len word"
  using checked_add_nat [of a b] checked_add_Some_iff [of a b "a + b"] by simp

lemma segment_length_unat:
  assumes "segment (job_segments job) i = Some seg" and "sj_segment_bytes job \<noteq> 0"
  shows "unat (sd_length seg) = min (unat (tf_size_bytes (sj_file job)) - unat (sd_offset seg)) (unat (sj_segment_bytes job))"
    and "unat (sd_offset seg) + unat (sd_length seg) \<le> unat (tf_size_bytes (sj_file job))" and "0 < unat (sd_length seg)"
proof -
  have n: "sp_segment_bytes (job_segments job) \<noteq> 0" using assms(2) by (simp add: job_segments_def)
  show "unat (sd_length seg) = min (unat (tf_size_bytes (sj_file job)) - unat (sd_offset seg)) (unat (sj_segment_bytes job))"
    using segment_as_piece [OF assms(1)] segment_piece_eq [OF n, of "unat i"] by (auto simp: job_segments_def split: if_splits)
  show "unat (sd_offset seg) + unat (sd_length seg) \<le> unat (tf_size_bytes (sj_file job))" "0 < unat (sd_length seg)"
    using segment_bounds [OF n assms(1)] by (simp_all add: job_segments_def)
qed

lemma segment_end_unat:
  assumes "segment (job_segments job) i = Some seg" and "sj_segment_bytes job \<noteq> 0" and "fs_segment_offset f = sd_offset seg"
  shows "unat (segment_end (sj_segment_bytes job) (tf_size_bytes (sj_file job)) f) = unat (sd_offset seg) + unat (sd_length seg)"
  using segment_length_unat [OF assms(1,2)] unat_lt2p_word [of "tf_size_bytes (sj_file job)"]
  by (simp add: segment_end_def assms(3) unat_min unat_saturating_add)

text \<open>The length of the next chunk of a segment.\<close>

definition next_length :: "stream_job \<Rightarrow> segment_descriptor \<Rightarrow> u32" where
  "next_length job seg = ucast (min (ucast (sd_length seg) - sj_segment_sent job) (ucast (sj_max_chunk_bytes job)))"

lemma next_length_unat:
  assumes "sj_segment_sent job < ucast (sd_length seg)"
  shows "unat (next_length job seg) = min (unat (sd_length seg) - unat (sj_segment_sent job)) (unat (sj_max_chunk_bytes job))"
proof -
  have "unat (ucast (sd_length seg) - sj_segment_sent job) = unat (sd_length seg) - unat (sj_segment_sent job)"
    using assms by (subst unat_sub) (simp_all add: word_le_nat_alt word_less_nat_alt)
  moreover have "min (unat (sd_length seg) - unat (sj_segment_sent job)) (unat (sj_max_chunk_bytes job)) < 2 ^ 32"
    using unat_lt2p_word [of "sj_max_chunk_bytes job"] by (simp add: min.strict_coboundedI2)
  ultimately show ?thesis
    by (simp add: next_length_def unsigned_ucast_eq take_bit_nat_eq_self unat_min)
qed

text \<open>
  The sending loop and the receiver agree: the receiver has the bytes of the current segment that the
  loop has sent, and waits for the next one.
\<close>

definition file_in_step :: "stream_job \<Rightarrow> segment_descriptor \<Rightarrow> receive_file_state \<Rightarrow> bool" where
  "file_in_step job seg f \<longleftrightarrow>
     \<not> fs_writing f \<and> fs_writer f \<noteq> None \<and> fs_segment_index f = sj_segment_index job \<and> fs_segment_offset f = sd_offset seg \<and>
     fs_received_bytes f = sd_offset seg + sj_segment_sent job \<and> fs_hasher f = sj_file_hasher job \<and>
     fs_segment_hasher f = sj_segment_hasher job \<and> concat (fs_chunks f) = sj_segment_hasher job"

definition in_step :: "stream_job \<Rightarrow> segment_descriptor \<Rightarrow> receive_state \<Rightarrow> bool" where
  "in_step job seg r \<longleftrightarrow>
     rv_started r \<and> io_transfer_id (rv_offer r) = sj_transfer_id job \<and> io_transfer_bytes (rv_offer r) = sj_transfer_bytes job \<and>
     sj_file_index job < length (io_files (rv_offer r)) \<and>
     io_files (rv_offer r) ! sj_file_index job = \<lparr>if_file_bytes = sj_file_bytes job, if_file = sj_file job\<rparr> \<and>
     (\<exists>files. rv_payload r = StreamedPayload (sj_segment_bytes job) (sj_file_index job) files \<and>
        sj_file_index job < length files \<and> file_in_step job seg (files ! sj_file_index job))"

text \<open>A job at a segment of its plan, with identifiers and chunks as the protocol has them.\<close>

definition job_ready :: "stream_job \<Rightarrow> segment_descriptor \<Rightarrow> bool" where
  "job_ready job seg \<longleftrightarrow>
     segment (job_segments job) (sj_segment_index job) = Some seg \<and> sj_segment_bytes job \<noteq> 0 \<and>
     sj_segment_sent job \<le> ucast (sd_length seg) \<and> length (sj_transfer_bytes job) = 16 \<and> length (sj_file_bytes job) = 16 \<and>
     0 < sj_max_chunk_bytes job \<and> sj_max_chunk_bytes job \<le> MAX_CHUNK_BYTES"

definition advance_job :: "stream_job \<Rightarrow> segment_descriptor \<Rightarrow> u8 list \<Rightarrow> stream_job" where
  "advance_job job seg bytes = job\<lparr>sj_file_hasher := sj_file_hasher job @ bytes, sj_segment_hasher := sj_segment_hasher job @ bytes,
     sj_segment_sent := sj_segment_sent job + ucast (next_length job seg)\<rparr>"

lemma next_chunk_bounds:
  assumes "job_ready job seg" and "sj_segment_sent job < ucast (sd_length seg)"
  shows "0 < unat (next_length job seg)" "unat (next_length job seg) \<le> 65536"
    "unat (sd_offset seg + sj_segment_sent job) = unat (sd_offset seg) + unat (sj_segment_sent job)"
    "unat (sd_offset seg) + unat (sj_segment_sent job) + unat (next_length job seg) \<le> unat (sd_offset seg) + unat (sd_length seg)"
    "unat (sd_offset seg) + unat (sd_length seg) < 2 ^ 64"
proof -
  have s: "segment (job_segments job) (sj_segment_index job) = Some seg" "sj_segment_bytes job \<noteq> 0"
    using assms(1) by (simp_all add: job_ready_def)
  have lt: "unat (sj_segment_sent job) < unat (sd_length seg)" using assms(2) by (simp add: word_less_nat_alt)
  show "0 < unat (next_length job seg)" "unat (next_length job seg) \<le> 65536"
    using lt assms(1) by (simp_all add: next_length_unat [OF assms(2)] job_ready_def word_less_nat_alt word_le_nat_alt MAX_CHUNK_BYTES_def min.coboundedI2)
  show "unat (sd_offset seg) + unat (sj_segment_sent job) + unat (next_length job seg) \<le> unat (sd_offset seg) + unat (sd_length seg)"
    using lt by (simp add: next_length_unat [OF assms(2)])
  show le: "unat (sd_offset seg) + unat (sd_length seg) < 2 ^ 64"
    using segment_length_unat(2) [OF s] unat_lt2p_word [of "tf_size_bytes (sj_file job)"] by simp
  then show "unat (sd_offset seg + sj_segment_sent job) = unat (sd_offset seg) + unat (sj_segment_sent job)"
    using lt by (intro unat_add_small) simp
qed

lemma sent_frame_decodes:
  assumes "job_ready job seg" and "sj_segment_sent job < ucast (sd_length seg)" and "length bytes = unat (next_length job seg)"
  shows "decode_binary_chunk (encode_binary_chunk (sj_transfer_bytes job) (sj_file_bytes job) (sd_offset seg + sj_segment_sent job)
      (next_length job seg) bytes) =
    Inr (\<lparr>bh_version = CURRENT_PROTOCOL, bh_transfer_id = sj_transfer_bytes job, bh_file_id = sj_file_bytes job,
       bh_offset = sd_offset seg + sj_segment_sent job, bh_payload_len = next_length job seg\<rparr>, bytes)"
  unfolding decode_binary_chunk_def
  by (rule sendable_decodes) (use assms(1,3) next_chunk_bounds [OF assms(1,2)] in
      \<open>simp_all add: encode_binary_chunk_def sendable_def header_wf_def job_ready_def\<close>)

lemma sent_chunk_accepted:
  assumes ready: "job_ready job seg" and more: "sj_segment_sent job < ucast (sd_length seg)"
    and len: "length bytes = unat (next_length job seg)" and step: "in_step job seg r"
  shows "\<exists>r'. accept_chunk \<lparr>bh_version = CURRENT_PROTOCOL, bh_transfer_id = sj_transfer_bytes job, bh_file_id = sj_file_bytes job,
      bh_offset = sd_offset seg + sj_segment_sent job, bh_payload_len = next_length job seg\<rparr> bytes r = Some r' \<and>
    in_step (advance_job job seg bytes) seg r'"
proof -
  note b = next_chunk_bounds [OF ready more]
  obtain files where r: "rv_started r" "io_transfer_bytes (rv_offer r) = sj_transfer_bytes job"
    "io_files (rv_offer r) ! sj_file_index job = \<lparr>if_file_bytes = sj_file_bytes job, if_file = sj_file job\<rparr>"
    "sj_file_index job < length (io_files (rv_offer r))" "rv_payload r = StreamedPayload (sj_segment_bytes job) (sj_file_index job) files"
    "sj_file_index job < length files" "file_in_step job seg (files ! sj_file_index job)" "io_transfer_id (rv_offer r) = sj_transfer_id job"
    using step by (auto simp: in_step_def)
  let ?f = "files ! sj_file_index job" and ?o = "sd_offset seg + sj_segment_sent job" and ?n = "ucast (next_length job seg) :: u64"
  have f: "\<not> fs_writing ?f" "fs_segment_offset ?f = sd_offset seg" "fs_received_bytes ?f = ?o"
    using r(7) by (simp_all add: file_in_step_def)
  have "unat (segment_end (sj_segment_bytes job) (tf_size_bytes (sj_file job)) ?f) = unat (sd_offset seg) + unat (sd_length seg)"
    using ready f(2) by (intro segment_end_unat [where i = "sj_segment_index job"]) (simp_all add: job_ready_def)
  then have le: "?o + ?n \<le> segment_end (sj_segment_bytes job) (tf_size_bytes (sj_file job)) ?f"
    using b by (simp add: word_le_nat_alt unat_add_small)
  have n: "(of_nat (unat (next_length job seg)) :: u64) = ?n" by simp
  have "checked_add ?o ?n = Some (?o + ?n)" using b by (simp add: checked_add_Some_iff unat_add_small)
  then have acc: "accept_file_chunk (sj_transfer_bytes job) \<lparr>if_file_bytes = sj_file_bytes job, if_file = sj_file job\<rparr> (sj_segment_bytes job)
      \<lparr>bh_version = CURRENT_PROTOCOL, bh_transfer_id = sj_transfer_bytes job, bh_file_id = sj_file_bytes job,
       bh_offset = ?o, bh_payload_len = next_length job seg\<rparr> bytes ?f =
    Some (?f\<lparr>fs_hasher := fs_hasher ?f @ bytes, fs_segment_hasher := fs_segment_hasher ?f @ bytes, fs_received_bytes := ?o + ?n,
      fs_chunks := fs_chunks ?f @ [bytes]\<rparr>)" (is "_ = Some ?f'")
    using f le len b(2) n by (simp add: accept_file_chunk_def next_offset_def)
  have "file_in_step (advance_job job seg bytes) seg ?f'"
    using r(7) by (simp add: file_in_step_def advance_job_def add.assoc)
  then show ?thesis using r acc by (simp add: accept_chunk_def in_step_def advance_job_def)
qed

lemma sent_kept [simp]:
  "pr_sent (emit ev p) = pr_sent p" "pr_sent (fail t m p) = pr_sent p" "pr_sent (spawn_local task p) = pr_sent p"
  "pr_sent (clear_transfer u p) = pr_sent p" "pr_sent (suspend_stream_for_reconnect p) = pr_sent p" "pr_sent (outgoing_failed u g err p) = pr_sent p"
  by (simp_all add: emit_def fail_def spawn_local_def clear_transfer_def drop_transfer_def delete_stream_later_def delete_outgoing_later_def
      suspend_stream_for_reconnect_def outgoing_failed_def Let_def split: option.splits)

lemma stream_chunk_sends: "\<exists>more. pr_sent (stream_chunk e job p) = pr_sent p @ more"
  by (auto simp: stream_chunk_def stream_commit_def stream_failed_def send_control_on_def Let_def split: option.splits sum.splits control_frame_encode_error.splits)

lemma chunk_read_sends:
  assumes "job_ready job seg" and "pe_slice e (sj_browser_file job) (sd_offset seg + sj_segment_sent job)
      (sd_offset seg + sj_segment_sent job + ucast (next_length job seg)) = Inr bytes"
    and "\<And>frame. pe_send_bytes e (sj_channel job) frame = None" and "ri_outgoing p = Some outgoing"
  shows "\<exists>more. frames_since p (stream_chunk_read e job p) = BinaryFrame (encode_binary_chunk (sj_transfer_bytes job) (sj_file_bytes job)
      (sd_offset seg + sj_segment_sent job) (next_length job seg) bytes) # more"
proof -
  let ?frame = "encode_binary_chunk (sj_transfer_bytes job) (sj_file_bytes job) (sd_offset seg + sj_segment_sent job) (next_length job seg) bytes"
  obtain p1 where p1: "stream_chunk_read e job p = stream_chunk e (advance_job job seg bytes) p1" "pr_sent p1 = pr_sent p @ [(sj_channel job, BinaryFrame ?frame)]"
    using assms by (auto simp: stream_chunk_read_def job_ready_def Let_def next_length_def advance_job_def send_chunk_def)
  then show ?thesis using stream_chunk_sends [of e "advance_job job seg bytes" p1] by (auto simp: frames_since_def)
qed

lemma in_step_progress [simp]: "in_step job seg (r\<lparr>rv_last_progress_ms := t\<rparr>) = in_step job seg r"
  by (simp add: in_step_def)

lemma handle_binary_accepts:
  assumes "decode_binary_chunk frame = Inr (header, payload)" and "ri_receive b = Some r" and "accept_chunk header payload r = Some r'"
  shows "\<exists>t. ri_receive (handle_binary e frame b) = Some (r'\<lparr>rv_last_progress_ms := t\<rparr>)"
  using assms by (auto simp: handle_binary_def report_progress_def Let_def emit_def split: option.splits intro: exI [of _ "rv_last_progress_ms r'"])


section \<open>The end of a segment\<close>

definition commit_of :: "peer_env \<Rightarrow> stream_job \<Rightarrow> segment_descriptor \<Rightarrow> control_message" where
  "commit_of e job seg = SegmentCommit CURRENT_PROTOCOL (sj_transfer_id job) (format_binary_id ''file'' (sj_file_bytes job))
     (sj_segment_index job) (sd_offset seg) (sd_length seg) (pe_blake3 e (sj_segment_hasher job))"

definition ack_of :: "commit_job \<Rightarrow> control_message" where
  "ack_of cj = SegmentAck CURRENT_PROTOCOL (cj_transfer_id cj) (cj_file_id cj) (cj_segment_index cj) (cj_committed_bytes cj) (cj_blake3 cj)"

lemma stream_commit_sent:
  assumes "frames_since a (stream_commit e job seg a) = [ControlFrame commit]" and "ri_outgoing a = Some outgoing"
  shows "commit = commit_of e job seg"
    and "\<exists>ack. ri_outgoing (stream_commit e job seg a) = Some (outgoing\<lparr>og_pending_ack := Some
      \<lparr>pk_file_index = sj_file_index job, pk_segment_index = sj_segment_index job, pk_committed_bytes = sd_offset seg + ucast (sd_length seg),
       pk_blake3 = pe_blake3 e (sj_segment_hasher job), pk_file_hasher = sj_file_hasher job, pk_sender = Some ack\<rparr>\<rparr>)"
  using assms by (auto simp: stream_commit_def Let_def frames_since_def send_control_on_def stream_failed_def commit_of_def spawn_local_def
      split: sum.splits option.splits control_frame_encode_error.splits)

lemma parse_formatted: "length bytes = 16 \<Longrightarrow> parse_binary_id (format_binary_id prefix bytes) prefix = Some bytes"
  by (simp add: binary_id_round_trip)

lemma full_segment_end:
  assumes "job_ready job seg" and "file_in_step job seg f"
  shows "segment_end (sj_segment_bytes job) (tf_size_bytes (sj_file job)) f = sd_offset seg + ucast (sd_length seg)"
proof -
  have s: "segment (job_segments job) (sj_segment_index job) = Some seg" "sj_segment_bytes job \<noteq> 0"
    using assms(1) by (simp_all add: job_ready_def)
  have "unat (sd_offset seg + ucast (sd_length seg) :: u64) = unat (sd_offset seg) + unat (sd_length seg)"
    using segment_length_unat(2) [OF s] unat_lt2p_word [of "tf_size_bytes (sj_file job)"] by (simp add: unat_add_small)
  then show ?thesis using segment_end_unat [OF s, of f] assms(2) by (simp add: file_in_step_def word_unat_eq_iff)
qed

lemma full_segment_prepared:
  assumes ready: "job_ready job seg" and full: "sj_segment_sent job = ucast (sd_length seg)"
    and r: "ri_receive b = Some r" "in_step job seg r" and hash: "pe_blake3 eb = pe_blake3 ea"
  obtains cj w r' where "prepare_commit eb (sj_transfer_id job) (format_binary_id ''file'' (sj_file_bytes job)) (sj_segment_index job)
      (sd_offset seg) (sd_length seg) (pe_blake3 ea (sj_segment_hasher job)) b = Inr (r', cj, w, sj_segment_hasher job)"
    "cj = \<lparr>cj_transfer_id = sj_transfer_id job, cj_file_id = format_binary_id ''file'' (sj_file_bytes job), cj_segment_index = sj_segment_index job,
       cj_offset = sd_offset seg, cj_blake3 = pe_blake3 ea (sj_segment_hasher job), cj_committed_bytes = sd_offset seg + ucast (sd_length seg),
       cj_file_index = sj_file_index job, cj_recovery_persisted = rv_recovery_persisted r, cj_generation = rv_generation r\<rparr>"
proof -
  obtain files where files: "rv_payload r = StreamedPayload (sj_segment_bytes job) (sj_file_index job) files" "sj_file_index job < length files"
    "file_in_step job seg (files ! sj_file_index job)" "sj_file_index job < length (io_files (rv_offer r))"
    "io_files (rv_offer r) ! sj_file_index job = \<lparr>if_file_bytes = sj_file_bytes job, if_file = sj_file job\<rparr>"
    "io_transfer_id (rv_offer r) = sj_transfer_id job"
    using r(2) by (auto simp: in_step_def)
  obtain w where "fs_writer (files ! sj_file_index job) = Some w" using files(3) by (auto simp: file_in_step_def)
  then show thesis using files r(1) full hash ready full_segment_end [OF ready files(3)]
    by (intro that) (simp_all add: prepare_commit_def ok_or_def file_in_step_def Let_def parse_formatted job_ready_def)
qed


section \<open>Two peers\<close>

text \<open>The sender and the receiver of the file of three bytes, and a text of two letters.\<close>

definition sample_env :: peer_env where
  "sample_env = (sample_peer_env sample_receipt None)\<lparr>pe_slice := (\<lambda>_ _ _. Inr [7, 8, 9])\<rparr>"

definition sample_text :: rstring where
  "sample_text = format_binary_id ''text'' (replicate 16 0)"

definition sample_seg :: segment_descriptor where
  "sample_seg = \<lparr>sd_index = 0, sd_offset = 0, sd_length = 3, sd_is_last = True\<rparr>"

definition sample_sender :: "u64 \<Rightarrow> u8 list \<Rightarrow> stream_job" where
  "sample_sender sent bytes =
     \<lparr>sj_transfer_id = sample_transfer, sj_generation = 0, sj_segment_bytes = 1048576, sj_channel = 2, sj_transfer_bytes = replicate 16 0,
      sj_max_chunk_bytes = 32768, sj_total_bytes = 3, sj_transfer_files = [sample_transfer_file], sj_digests = [], sj_preceding_bytes = 0,
      sj_file_index = 0, sj_browser_file = 0, sj_file = sample_transfer_file, sj_file_bytes = replicate 16 1, sj_file_hasher = bytes,
      sj_segment_index = 0, sj_segment_hasher = bytes, sj_segment_sent = sent\<rparr>"

definition sample_outgoing :: outgoing_state where
  "sample_outgoing =
     \<lparr>og_transfer_id = sample_transfer, og_transfer_bytes = replicate 16 0, og_mode = Streamed 1048576, og_files =
        [\<lparr>ogf_file_bytes = replicate 16 1, ogf_file = sample_transfer_file, ogf_browser_file = 0, ogf_source_handle = None,
          ogf_last_modified_ms = 0, ogf_expected_hash = None, ogf_committed_bytes = 0, ogf_committed_hasher = [],
          ogf_last_segment_blake3 = None\<rparr>],
      og_total_bytes = 3, og_sent_bytes = 0, og_expected_digests = [], og_accepted = True,
      og_stream_ready = Some \<lparr>srp_max_chunk_bytes = 32768, srp_ack_window_bytes = 1048576\<rparr>, og_pending_ack = None, og_generation = 0,
      og_sending = True, og_cancelled = False, og_last_progress_ms = 0, og_max_buffered_bytes = 0, og_recovery_peer_id = None,
      og_restored_from_disk = False, og_reconciling_resume = False\<rparr>"

lemma sample_text_valid: "control_message_validate (TextPayload CURRENT_PROTOCOL sample_text (rstr ''hi'')) = Inr ()"
  "control_message_validate (TextOffer CURRENT_PROTOCOL sample_text 2 2) = Inr ()"
proof -
  have "validate_token sample_text f = Inr ()" for f
    by (auto simp: sample_text_def rstr_def ascii_token_char_def ascii_defs intro!: format_binary_id_token)
  then show "control_message_validate (TextPayload CURRENT_PROTOCOL sample_text (rstr ''hi'')) = Inr ()"
    "control_message_validate (TextOffer CURRENT_PROTOCOL sample_text 2 2) = Inr ()"
    by (simp_all add: control_message_validate_def result_simps limit_defs rstr_def utf8_len_def is_control_def)
qed

lemma sample_offer_text: "\<exists>a1. offer_text (sample_peer_env sample_receipt None) (rstr ''hi'') sample_connected = (a1, Inr sample_text)"
proof -
  have "str_len (rstr ''hi'') = 2" "length (rstr ''hi'') = 2" by (simp_all add: rstr_def utf8_len_def)
  moreover have "\<not> file_or_text_transfer_active sample_connected" by (simp add: idle_fields sample_connected_eq sample_peer_new)
  ultimately show ?thesis using sample_text_valid
    by (simp add: offer_text_def Let_def sample_text_def current_data_channel_def ok_or_def sample_connected_eq)
qed

theorem text_is_delivered_witness:
  "\<exists>a1 offer decision payload receipt. offer_text (sample_peer_env sample_receipt None) (rstr ''hi'') sample_connected = (a1, Inr sample_text) \<and>
    frames_since sample_connected a1 = [ControlFrame offer] \<and>
    (let e = sample_peer_env sample_receipt None; b1 = handle_control e offer sample_connected; a2 = handle_control e decision a1;
         b2 = handle_control e payload b1; a3 = handle_control e receipt a2
     in last (pr_events b2) = TextTransferReceived sample_text (rstr ''hi'') \<and> last (pr_events a3) = TextTransferDelivered sample_text)"
proof -
  let ?e = "sample_peer_env sample_receipt None"
  obtain a1 where a1: "offer_text ?e (rstr ''hi'') sample_connected = (a1, Inr sample_text)" using sample_offer_text by blast
  have works: "channel_works ?e sample_connected" by (simp add: channel_works_def current_data_channel_def ok_or_def sample_connected_eq)
  have free: "\<not> file_or_text_transfer_active sample_connected" by (simp add: idle_fields sample_connected_eq sample_peer_new)
  show ?thesis using text_is_delivered [OF a1 works works free] a1 unfolding Let_def by blast
qed

lemma sample_seg_ready:
  "job_ready (sample_sender 0 []) sample_seg" "job_ready (sample_sender 3 bytes) sample_seg"
proof -
  let ?plan = "\<lparr>sp_total_bytes = 3, sp_segment_bytes = 1048576\<rparr>"
  have "segment ?plan 0 = Some sample_seg"
    by (simp add: segment_def segment_count_def sample_seg_def checked_mul_def checked_sub_def)
  then show "job_ready (sample_sender 0 []) sample_seg" "job_ready (sample_sender 3 bytes) sample_seg"
    by (simp_all add: job_ready_def sample_sender_def job_segments_def sample_transfer_file_def sample_seg_def MAX_CHUNK_BYTES_def)
qed

lemma sample_in_step:
  "in_step (sample_sender 0 []) sample_seg (sample_receiver 0 0 (sample_state 0 []))"
  "in_step (sample_sender 3 [7, 8, 9]) sample_seg (sample_receiver 3 0 (sample_state 3 [7, 8, 9]))"
  by (simp_all add: in_step_def file_in_step_def sample_sender_def sample_seg_def sample_receiver_def sample_state_def fresh_receive_file_def
      sample_transfer_file_def)



end
