(* ===== verification/Peer_Reread.thy ===== *)
theory Peer_Reread
  imports Peer_Exchange
begin

text \<open>
  Reading a file back up to a checkpoint: the loop ends for every answer of the browser, and for a
  file that does not change it computes the hash of all committed bytes and of the last segment.
\<close>

section \<open>The loop over the segments\<close>

definition reread_end :: "u32 \<Rightarrow> u64 \<Rightarrow> u64 \<Rightarrow> u64" where
  "reread_end segment_bytes committed offset = min (saturating_add offset (ucast segment_bytes)) committed"

lemma reread_end_unat:
  "unat (reread_end s c off) = min (unat off + unat s) (unat c)"
  using unat_lt2p_word [of c] by (simp add: reread_end_def unat_min unat_saturating_add)

lemma verify_segments_step:
  "off < c \<Longrightarrow> verify_segments read h m s c off hs seen =
     (case read off (reread_end s c off) of
        Inl error \<Rightarrow> Some (Inl error)
      | Inr bytes \<Rightarrow> if length bytes \<noteq> unat (reread_end s c off - off) then Some (Inl (browser_text m))
          else verify_segments read h m s c (reread_end s c off) (hs @ bytes) (Some (h bytes)))"
  unfolding reread_end_def by (subst verify_segments.simps) (simp add: Let_def)

lemma verify_segments_ends:
  assumes "s \<noteq> 0"
  shows "\<exists>result. verify_segments read h m s c off hs seen = Some result"
proof (induction "unat c - unat off" arbitrary: off hs seen rule: less_induct)
  case less
  show ?case
  proof (cases "off < c")
    case True
    have "unat c - unat (reread_end s c off) < unat c - unat off"
      using True assms unat_gt_0 [of s] by (simp add: reread_end_unat word_less_nat_alt)
    from less [OF this] show ?thesis
      by (simp add: verify_segments_step [OF True] split: sum.splits)
  qed (subst verify_segments.simps, simp)
qed

text \<open>A file whose bytes do not change while it is read.\<close>

definition reads_from :: "u8 list \<Rightarrow> (u64 \<Rightarrow> u64 \<Rightarrow> browser_platform_error + u8 list) \<Rightarrow> bool" where
  "reads_from content read \<longleftrightarrow> (\<forall>a b. read a b = Inr (take (unat b - unat a) (drop (unat a) content)))"

text \<open>The last segment of the committed bytes starts at the last multiple of the segment size before them.\<close>

definition last_segment :: "u32 \<Rightarrow> u8 list \<Rightarrow> u8 list" where
  "last_segment s bytes = drop ((length bytes - 1) div unat s * unat s) bytes"

lemma last_segment_start:
  assumes "k * s < c" and "c \<le> k * s + s" and "0 < s"
  shows "(c - 1) div s * s = k * (s :: nat)"
proof -
  have "(c - 1) div s = k" using assms by (intro div_nat_eqI) (simp_all add: algebra_simps)
  then show ?thesis by simp
qed

lemma verify_segments_content:
  assumes "s \<noteq> 0" and "reads_from content read" and "unat c \<le> length content" and "unat off = k * unat s" and "off < c"
  shows "verify_segments read h m s c off hs seen =
    Some (Inr (hs @ drop (unat off) (take (unat c) content), Some (h (last_segment s (take (unat c) content)))))"
  using assms(4,5)
proof (induction "unat c - unat off" arbitrary: off hs seen k rule: less_induct)
  case less
  let ?stop = "reread_end s c off" and ?bytes = "take (unat (reread_end s c off) - unat off) (drop (unat off) content)"
  have lt: "unat off < unat c" "0 < unat s" using less.prems(2) assms(1) by (simp_all add: word_less_nat_alt unat_gt_0)
  have le: "off \<le> ?stop" using lt by (simp add: word_le_nat_alt reread_end_unat)
  then have "length ?bytes = unat (?stop - off)" using assms(3) lt by (simp add: unat_sub reread_end_unat)
  then have step: "verify_segments read h m s c off hs seen = verify_segments read h m s c ?stop (hs @ ?bytes) (Some (h ?bytes))"
    using assms(2) by (simp add: verify_segments_step [OF less.prems(2)] reads_from_def)
  show ?case
  proof (cases "?stop < c")
    case True
    then have e: "unat ?stop = unat off + unat s" "unat off + unat s \<le> unat c" by (simp_all add: word_less_nat_alt reread_end_unat)
    have "verify_segments read h m s c ?stop (hs @ ?bytes) (Some (h ?bytes)) =
      Some (Inr ((hs @ ?bytes) @ drop (unat ?stop) (take (unat c) content), Some (h (last_segment s (take (unat c) content)))))"
      using e lt less.prems(1) True by (intro less.hyps [where k = "Suc k"]) simp_all
    moreover have "?bytes @ drop (unat ?stop) (take (unat c) content) = drop (unat off) (take (unat c) content)"
    proof -
      have "unat c - unat off = unat s + (unat c - (unat off + unat s))" using e(2) by simp
      then show ?thesis using e(1) by (simp add: drop_take take_add add.commute)
    qed
    ultimately show ?thesis by (simp add: step)
  next
    case False
    then have e: "unat ?stop = unat c" by (simp add: word_less_nat_alt reread_end_unat)
    then have end_eq: "?stop = c" by (simp add: word_unat_eq_iff)
    have "(unat c - 1) div unat s * unat s = unat off"
      using lt e less.prems(1) last_segment_start [of k "unat s" "unat c"] by (simp add: reread_end_unat min_def split: if_splits)
    then have "last_segment s (take (unat c) content) = ?bytes" using assms(3) e by (simp add: last_segment_def drop_take min_absorb2)
    then show ?thesis using e unfolding step end_eq by (subst verify_segments.simps) (simp add: drop_take)
  qed
qed

section \<open>Properties\<close>

text \<open>C32. Reopening a partly received file always ends and trusts nothing it has not read: with segments of at
  least one byte the loop ends whatever the browser answers, and for a file that holds at least the
  committed bytes and does not change it gives a writer that continues at the checkpoint, the hash
  state of exactly the committed bytes, and the digest of their last segment, which is compared with
  the saved one.\<close>

theorem reopened_file_is_reread:
  assumes "segment_bytes \<noteq> 0"
  shows "(\<exists>result. reopen_stream_file e handle committed expected segment_bytes = Some result) \<and>
    (\<forall>file content. pe_get_file e handle = Inr file \<and> reads_from content (pe_slice e (bf_inner file)) \<and> pe_promise e = None \<and>
       unat (bf_size file) = length content \<and> committed \<le> bf_size file \<and> bf_size file \<le> expected \<longrightarrow>
       reopen_stream_file e handle committed expected segment_bytes =
         Some (Inr (\<lparr>sw_handle = handle, sw_next_offset = committed, sw_closed = False, sw_resumed = take (unat committed) content, sw_writes = []\<rparr>,
           take (unat committed) content,
           if committed = 0 then None else Some (pe_blake3 e (last_segment segment_bytes (take (unat committed) content))))))"
proof (intro conjI allI impI)
  show "\<exists>result. reopen_stream_file e handle committed expected segment_bytes = Some result"
    using verify_segments_ends [OF assms] by (auto simp: reopen_stream_file_def split: sum.splits)
next
  fix f content
  assume a: "pe_get_file e handle = Inr f \<and> reads_from content (pe_slice e (bf_inner f)) \<and> pe_promise e = None \<and>
       unat (bf_size f) = length content \<and> committed \<le> bf_size f \<and> bf_size f \<le> expected"
  let ?v = "verify_segments (pe_slice e (bf_inner f)) (pe_blake3 e) ''saved file changed while validating the recovery checkpoint''
    segment_bytes committed 0 [] None"
  have "?v = Some (Inr (take (unat committed) content,
      if committed = 0 then None else Some (pe_blake3 e (last_segment segment_bytes (take (unat committed) content)))))"
  proof (cases "committed = 0")
    case True
    then show ?thesis by (subst verify_segments.simps) simp
  next
    case False
    have lt: "0 < committed" and le: "unat committed \<le> length content"
      using False a by (simp_all add: word_gt_0 word_le_nat_alt)
    have r: "reads_from content (pe_slice e (bf_inner f))" using a by simp
    show ?thesis using False verify_segments_content [OF assms r le, of 0 0] lt by simp
  qed
  then show "reopen_stream_file e handle committed expected segment_bytes =
         Some (Inr (\<lparr>sw_handle = handle, sw_next_offset = committed, sw_closed = False, sw_resumed = take (unat committed) content, sw_writes = []\<rparr>,
           take (unat committed) content,
           if committed = 0 then None else Some (pe_blake3 e (last_segment segment_bytes (take (unat committed) content)))))"
    using a by (simp add: reopen_stream_file_def not_less)
qed

definition sample_reader :: peer_env where
  "sample_reader = (sample_peer_env sample_receipt None)\<lparr>
     pe_get_file := (\<lambda>handle. Inr \<lparr>bf_inner = handle, bf_name = rstr ''a.bin'', bf_type = [], bf_size = 3, bf_last_modified = 0, bf_source_handle = None\<rparr>),
     pe_slice := (\<lambda>_ a b. Inr (take (unat b - unat a) (drop (unat a) [7, 8, 9])))\<rparr>"

theorem reopened_file_is_reread_witness:
  "reopen_stream_file sample_reader 5 2 3 1048576 =
     Some (Inr (\<lparr>sw_handle = 5, sw_next_offset = 2, sw_closed = False, sw_resumed = [7, 8], sw_writes = []\<rparr>, [7, 8], Some sample_digest))"
proof -
  let ?f = "\<lparr>bf_inner = 5, bf_name = rstr ''a.bin'', bf_type = [], bf_size = 3, bf_last_modified = 0, bf_source_handle = None\<rparr>"
  have "pe_get_file sample_reader 5 = Inr ?f" "reads_from [7, 8, 9] (pe_slice sample_reader (bf_inner ?f))" "pe_promise sample_reader = None"
    "pe_blake3 sample_reader bytes = sample_digest" for bytes
    by (simp_all add: sample_reader_def sample_peer_env_def reads_from_def)
  then show ?thesis
    using reopened_file_is_reread [of 1048576 sample_reader 5 2 3, THEN conjunct2, THEN spec [of _ ?f], THEN spec [of _ "[7, 8, 9]"]] by simp
qed

end
