(* ===== verification/Stream_Names.thy ===== *)
theory Stream_Names
  imports Browser_Wire
begin

text \<open>
  The names of the files of a batch in the chosen folder (\<open>stream_storage.rs\<close>): a name that was used
  before gets the first free number.
\<close>

section \<open>Names\<close>

text \<open>\<open>name.rsplit_once('.')\<close>: the parts before and after the last dot.\<close>

definition rsplit_dot :: "rstring \<Rightarrow> (rstring \<times> rstring) option" where
  "rsplit_dot name =
     (case dropWhile (\<lambda>c. c \<noteq> 46) (rev name) of
        [] \<Rightarrow> None
      | _ # stem \<Rightarrow> Some (rev stem, rev (takeWhile (\<lambda>c. c \<noteq> 46) (rev name))))"

definition split_name :: "rstring \<Rightarrow> rstring \<times> rstring" where
  "split_name name =
     (case rsplit_dot name of
        None \<Rightarrow> (name, [])
      | Some (stem, extension) \<Rightarrow> if stem = [] then (name, []) else (stem, extension))"

definition numbered_name :: "rstring \<Rightarrow> rstring \<Rightarrow> u32 \<Rightarrow> rstring" where
  "numbered_name stem extension suffix =
     (if extension = [] then stem @ rstr '' ('' @ decimal_nat (unat suffix) @ rstr '')''
      else stem @ rstr '' ('' @ decimal_nat (unat suffix) @ rstr '').'' @ extension)"

text \<open>The search for a free number; the counter of 32 bits wraps, and the search does not end when
  every number is taken.\<close>

partial_function (option) free_name :: "rstring set \<Rightarrow> rstring \<Rightarrow> rstring \<Rightarrow> u32 \<Rightarrow> rstring option" where
  [code]: "free_name used stem extension suffix =
     (let candidate = numbered_name stem extension suffix
      in if candidate \<notin> used then Some candidate else free_name used stem extension (suffix + 1))"

fun unique_names :: "rstring set \<Rightarrow> rstring list \<Rightarrow> rstring list option" where
  "unique_names used [] = Some []"
| "unique_names used (name # names) =
     (case (if name \<notin> used then Some name else free_name used (fst (split_name name)) (snd (split_name name)) 2) of
        None \<Rightarrow> None
      | Some chosen \<Rightarrow> map_option ((#) chosen) (unique_names (insert chosen used) names))"

definition unique_destination_names :: "rstring list \<Rightarrow> rstring list option" where
  "unique_destination_names names = unique_names {} names"

section \<open>Numbers\<close>

lemma decimal_nat_inj: "decimal_nat m = decimal_nat n \<Longrightarrow> m = n"
proof (induction m arbitrary: n rule: decimal_nat.induct)
  case (1 m)
  have step: "decimal_nat k = (if k < 10 then [48 + k] else decimal_nat (k div 10) @ [48 + k mod 10])" for k by (rule decimal_nat.simps)
  have ne: "decimal_nat k \<noteq> []" for k by (subst step) simp
  show ?case
  proof (cases "m < 10 \<or> n < 10")
    case True
    then show ?thesis using 1(2) ne [of "m div 10"] ne [of "n div 10"] by (subst (asm) step, subst (asm) (2) step) (auto split: if_splits)
  next
    case False
    then have "decimal_nat (m div 10) = decimal_nat (n div 10)" "m mod 10 = n mod 10"
      using 1(2) by (subst (asm) step, subst (asm) (2) step, simp)+
    then show ?thesis using 1(1) False div_mult_mod_eq by (metis)
  qed
qed

lemma numbered_name_inj: "numbered_name stem extension a = numbered_name stem extension b \<Longrightarrow> a = b"
proof -
  assume e: "numbered_name stem extension a = numbered_name stem extension b"
  then have "decimal_nat (unat a) = decimal_nat (unat b)"
    by (auto simp: numbered_name_def split: if_splits)
  then show "a = b" using decimal_nat_inj by (simp add: word_unat_eq_iff)
qed

section \<open>The search ends\<close>

lemma free_name_fresh: "free_name used stem extension suffix = Some name \<Longrightarrow> name \<notin> used"
  by (rule free_name.raw_induct [where P = "\<lambda>used _ _ _ name. name \<notin> used"]) (auto simp: Let_def split: if_splits)

definition taken :: "rstring set \<Rightarrow> rstring \<Rightarrow> rstring \<Rightarrow> u32 \<Rightarrow> u32 set" where
  "taken used stem extension suffix = {k. suffix \<le> k \<and> numbered_name stem extension k \<in> used}"

lemma free_name_ends:
  assumes "card (taken used stem extension suffix) + unat suffix < 2 ^ 32"
  shows "\<exists>name. free_name used stem extension suffix = Some name"
  using assms
proof (induction "card (taken used stem extension suffix)" arbitrary: suffix)
  case 0
  then have "suffix \<notin> taken used stem extension suffix" by auto
  then show ?case by (subst free_name.simps) (simp add: taken_def Let_def)
next
  case (Suc n)
  show ?case
  proof (cases "numbered_name stem extension suffix \<in> used")
    case True
    have s: "unat (suffix + 1) = unat suffix + 1" using Suc.prems Suc.hyps(2) checked_add_Some_iff [of suffix 1 "suffix + 1"]
      by (simp add: checked_add_nat)
    have "taken used stem extension suffix = insert suffix (taken used stem extension (suffix + 1))"
      using True s by (auto simp: taken_def word_le_nat_alt word_unat_eq_iff)
    moreover have "suffix \<notin> taken used stem extension (suffix + 1)" using s by (auto simp: taken_def word_le_nat_alt)
    ultimately have "card (taken used stem extension (suffix + 1)) = n" using Suc.hyps(2) by simp
    then have "\<exists>name. free_name used stem extension (suffix + 1) = Some name"
      using Suc.hyps(1) [of "suffix + 1"] Suc.prems Suc.hyps(2) s by simp
    then show ?thesis using True by (subst free_name.simps) (simp add: Let_def)
  qed (subst free_name.simps, simp add: Let_def)
qed

lemma taken_card: "finite used \<Longrightarrow> card (taken used stem extension suffix) \<le> card used"
  by (rule card_inj_on_le [where f = "numbered_name stem extension"]) (auto simp: inj_on_def taken_def dest: numbered_name_inj)

lemma unique_names_ok:
  assumes "finite used" and "card used + length names < 2 ^ 32 - 2"
  shows "\<exists>result. unique_names used names = Some result \<and> length result = length names \<and> distinct result \<and> set result \<inter> used = {} \<and>
    (\<forall>i < length names. names ! i \<notin> used \<and> names ! i \<notin> set (take i result) \<longrightarrow> result ! i = names ! i)"
  using assms
proof (induction names arbitrary: used)
  case (Cons name names)
  obtain chosen where c: "(if name \<notin> used then Some name else free_name used (fst (split_name name)) (snd (split_name name)) 2) = Some chosen"
    using free_name_ends [of used "fst (split_name name)" "snd (split_name name)" 2]
      taken_card [OF Cons.prems(1), of "fst (split_name name)" "snd (split_name name)" 2] Cons.prems(2) by fastforce
  then have fresh: "chosen \<notin> used" by (auto split: if_splits dest: free_name_fresh)
  obtain result where r: "unique_names (insert chosen used) names = Some result" "length result = length names" "distinct result"
    "set result \<inter> insert chosen used = {}"
    "\<And>i. i < length names \<Longrightarrow> names ! i \<notin> insert chosen used \<Longrightarrow> names ! i \<notin> set (take i result) \<Longrightarrow> result ! i = names ! i"
    using Cons.IH [of "insert chosen used"] Cons.prems fresh by auto
  have "(chosen # result) ! i = (name # names) ! i"
    if "i < Suc (length names)" "(name # names) ! i \<notin> used" "(name # names) ! i \<notin> set (take i (chosen # result))" for i
    using that c r(5) by (cases i) (auto split: if_splits)
  then show ?case using c r fresh by auto
qed simp

section \<open>Properties\<close>

text \<open>C33. The files of a batch are saved under different names: for fewer than four billion files the choice of
  names ends, gives every file a name of its own, and keeps the announced name of a file whenever no
  earlier file has it.\<close>

theorem destination_names_are_unique:
  assumes "length names < 2 ^ 32 - 2"
  shows "\<exists>result. unique_destination_names names = Some result \<and> length result = length names \<and> distinct result \<and>
    (\<forall>i < length names. names ! i \<notin> set (take i result) \<longrightarrow> result ! i = names ! i)"
  using unique_names_ok [of "{}" names] assms by (simp add: unique_destination_names_def)

theorem destination_names_are_unique_witness:
  "unique_destination_names [rstr ''a.b'', rstr ''a.b'', rstr ''c''] = Some [rstr ''a.b'', rstr ''a (2).b'', rstr ''c''] \<and>
   distinct (the (unique_destination_names [rstr ''a.b'', rstr ''a.b'', rstr ''c'']))"
proof -
  have "unique_destination_names [rstr ''a.b'', rstr ''a.b'', rstr ''c''] = Some [rstr ''a.b'', rstr ''a (2).b'', rstr ''c'']"
    by (simp add: unique_destination_names_def rstr_def free_name.simps numbered_name_def split_name_def rsplit_dot_def decimal_nat.simps Let_def)
  then show ?thesis using destination_names_are_unique [of "[rstr ''a.b'', rstr ''a.b'', rstr ''c'']"] by auto
qed

end
