(* ===== verification/Web_Rtc.thy ===== *)
theory Web_Rtc
  imports Browser_Errors
begin

text \<open>
  The life of the peer connections in the web application: the transitions of a peer's state
  (\<open>rust/apps/web/src/rtc_transition.rs\<close>), the offers, timeouts and retries that drive them
  (\<open>rtc_orchestration.rs\<close>), peer generations (\<open>rtc_session.rs\<close>) and the refresh delays of the RTC
  configuration (\<open>rtc_config.rs\<close>).

  A spawned task that sleeps and then acts is a timer of the state \<open>rtc_world\<close>; it fires at any
  later moment, in any order, so every interleaving of timers and events is covered. What a peer
  object answers when it is asked is an argument (\<open>peer_answers\<close>), as its code runs in the browser.
\<close>

section \<open>Transitions of a peer\<close>

record rtc_work_token =
  tok_instance_generation :: u64
  tok_work_generation :: u64

datatype owner_timeout_step =
    OwnerIgnore
  | OwnerRetry (retry_token: rtc_work_token) (retry_next_attempt: u8) (retry_delay: u32)
  | OwnerFailed (owner_transfer_paused: bool)

datatype passive_deadline_step = PassiveIgnore | PassiveFailed (passive_transfer_paused: bool)

datatype rtc_recovery_action =
  NoRecovery | RestartOffer | ArmPassiveDeadline | WaitForReconnect (wait_token: rtc_work_token)

definition arm_work :: "peer_rtc_state \<Rightarrow> pending_rtc_work \<Rightarrow> peer_rtc_state \<times> rtc_work_token" where
  "arm_work peer_state pending_work =
     (let peer_state' = peer_state\<lparr>pst_work_generation := pst_work_generation peer_state + 1, pst_pending_work := Some pending_work\<rparr>
      in (peer_state', \<lparr>tok_instance_generation = pst_instance_generation peer_state',
                        tok_work_generation = pst_work_generation peer_state'\<rparr>))"

definition invalidate_work :: "peer_rtc_state \<Rightarrow> peer_rtc_state" where
  "invalidate_work peer_state =
     peer_state\<lparr>pst_work_generation := pst_work_generation peer_state + 1, pst_pending_work := None\<rparr>"

definition work_is_current :: "peer_rtc_state \<Rightarrow> rtc_work_token \<Rightarrow> pending_rtc_work \<Rightarrow> bool" where
  "work_is_current peer_state token expected \<longleftrightarrow>
     pst_instance_generation peer_state = tok_instance_generation token \<and>
     pst_work_generation peer_state = tok_work_generation token \<and> pst_pending_work peer_state = Some expected"

definition set_peer_state :: "app_model \<Rightarrow> rstring \<Rightarrow> peer_rtc_state \<Rightarrow> app_model" where
  "set_peer_state model peer_id peer_state =
     model\<lparr>am_rtc_peer_states := AList.update peer_id peer_state (am_rtc_peer_states model)\<rparr>"

definition any_peer_in :: "app_model \<Rightarrow> rtc_phase \<Rightarrow> bool" where
  "any_peer_in model phase \<longleftrightarrow> list_ex (\<lambda>(_, peer_state). pst_phase peer_state = phase) (am_rtc_peer_states model)"

definition aggregate_rtc :: "app_model \<Rightarrow> rtc_phase" where
  "aggregate_rtc model =
     (if am_rtc_peer_states model = []
      then (case am_screen model of RoomScreen _ _ _ _ \<Rightarrow> RtcWaitingPeer | _ \<Rightarrow> RtcInactive)
      else if any_peer_in model RtcReady then RtcReady
      else if any_peer_in model RtcConnecting then RtcConnecting
      else if any_peer_in model RtcDisconnected then RtcDisconnected
      else if any_peer_in model RtcFailed then RtcFailed
      else RtcWaitingPeer)"

definition refresh_aggregate_rtc :: "app_model \<Rightarrow> app_model" where
  "refresh_aggregate_rtc model = model\<lparr>am_rtc_aggregate_phase := aggregate_rtc model\<rparr>"

definition set_peer_rtc_error :: "app_model \<Rightarrow> rstring \<Rightarrow> rstring \<Rightarrow> app_model" where
  "set_peer_rtc_error model peer_id message =
     model\<lparr>am_error := Some message, am_rtc_error := Some \<lparr>pre_peer_id = peer_id, pre_message = message\<rparr>\<rparr>"

definition clear_peer_rtc_error :: "app_model \<Rightarrow> rstring \<Rightarrow> app_model" where
  "clear_peer_rtc_error model peer_id =
     (case am_rtc_error model of
        None \<Rightarrow> model
      | Some rtc_error \<Rightarrow>
          if pre_peer_id rtc_error \<noteq> peer_id then model
          else (let model' = model\<lparr>am_rtc_error := None\<rparr>
                in if am_error model' = Some (pre_message rtc_error) then model'\<lparr>am_error := None\<rparr> else model'))"

definition clear_rtc_config_error :: "app_model \<Rightarrow> app_model" where
  "clear_rtc_config_error model =
     (case am_rtc_config_error model of
        None \<Rightarrow> model
      | Some message \<Rightarrow>
          (let model' = model\<lparr>am_rtc_config_error := None\<rparr>
           in if am_error model' = Some message then model'\<lparr>am_error := None\<rparr> else model'))"

definition begin_rtc_config_loading :: "app_model \<Rightarrow> app_model" where
  "begin_rtc_config_loading model = (clear_rtc_config_error model)\<lparr>am_rtc_config_phase := ConfigLoading\<rparr>"

definition mark_rtc_config_ready :: "app_model \<Rightarrow> app_model" where
  "mark_rtc_config_ready model = (clear_rtc_config_error model)\<lparr>am_rtc_config_phase := ConfigReady\<rparr>"

definition mark_rtc_config_failed :: "app_model \<Rightarrow> rstring \<Rightarrow> app_model" where
  "mark_rtc_config_failed model message =
     model\<lparr>am_rtc_config_phase := ConfigFailed, am_error := Some message, am_rtc_config_error := Some message\<rparr>"

definition deactivate_rtc_config :: "app_model \<Rightarrow> app_model" where
  "deactivate_rtc_config model = (clear_rtc_config_error model)\<lparr>am_rtc_config_phase := ConfigInactive\<rparr>"

definition set_peer_transfer_link_state :: "app_model \<Rightarrow> rstring \<Rightarrow> transfer_link_state \<Rightarrow> app_model \<times> bool" where
  "set_peer_transfer_link_state model peer_id link_state =
     (case map_of (am_transfers_by_peer model) peer_id of
        Some (TransferActive i d True f fs c a _ p) \<Rightarrow>
          (let transfer = TransferActive i d True f fs c a link_state p;
               model' = model\<lparr>am_transfers_by_peer := AList.update peer_id transfer (am_transfers_by_peer model)\<rparr>
           in (if in_receiver_room (am_screen model') then model'\<lparr>am_transfer := transfer\<rparr> else model', True))
      | _ \<Rightarrow> (model, False))"

fun mark_waiting_loop :: "rstring list \<Rightarrow> app_model \<Rightarrow> bool \<Rightarrow> app_model \<times> bool" where
  "mark_waiting_loop [] model updated = (model, updated)"
| "mark_waiting_loop (peer_id # peer_ids) model updated =
     (let (model', changed) = set_peer_transfer_link_state model peer_id LinkWaiting
      in mark_waiting_loop peer_ids model' (updated \<or> changed))"

definition mark_streamed_transfers_waiting :: "app_model \<Rightarrow> app_model \<times> bool" where
  "mark_streamed_transfers_waiting model = mark_waiting_loop (map fst (am_transfers_by_peer model)) model False"

definition begin_outgoing_recovery :: "app_model \<Rightarrow> rstring \<Rightarrow> app_model \<times> u64 option" where
  "begin_outgoing_recovery model peer_id =
     (case map_of (am_rtc_peer_states model) peer_id of
        None \<Rightarrow> (model, None)
      | Some peer_state \<Rightarrow>
          (let (peer_state', generation) = peer_begin_outgoing_recovery peer_state
           in (set_peer_state model peer_id peer_state', generation)))"

definition finish_outgoing_recovery :: "app_model \<Rightarrow> rstring \<Rightarrow> u64 \<Rightarrow> app_model \<times> bool" where
  "finish_outgoing_recovery model peer_id instance_generation =
     (case map_of (am_rtc_peer_states model) peer_id of
        None \<Rightarrow> (model, False)
      | Some peer_state \<Rightarrow>
          (let (peer_state', finished) = peer_finish_outgoing_recovery peer_state instance_generation
           in (set_peer_state model peer_id peer_state', finished)))"

definition begin_owner_offer :: "app_model \<Rightarrow> rstring \<Rightarrow> u64 \<Rightarrow> u8 \<Rightarrow> app_model \<times> rtc_work_token option" where
  "begin_owner_offer model peer_id instance_generation attempt =
     (case map_of (am_rtc_peer_states model) peer_id of
        None \<Rightarrow> (model, None)
      | Some peer_state \<Rightarrow>
          if pst_instance_generation peer_state \<noteq> instance_generation then (model, None)
          else (let (peer_state', token) = arm_work peer_state (OwnerOfferTimeout attempt);
                    model1 = set_peer_state model peer_id (peer_state'\<lparr>pst_phase := RtcConnecting\<rparr>);
                    model2 = clear_peer_rtc_error model1 peer_id;
                    model3 = fst (set_peer_transfer_link_state model2 peer_id LinkWaiting)
                in (refresh_aggregate_rtc model3, Some token)))"

definition fail_peer :: "app_model \<Rightarrow> rstring \<Rightarrow> peer_rtc_state \<Rightarrow> app_model \<times> bool" where
  "fail_peer model peer_id peer_state =
     (let model1 = set_peer_state model peer_id ((invalidate_work peer_state)\<lparr>pst_phase := RtcFailed\<rparr>);
          (model2, transfer_paused) = set_peer_transfer_link_state model1 peer_id LinkPaused
      in (refresh_aggregate_rtc model2, transfer_paused))"

definition advance_owner_timeout ::
  "app_model \<Rightarrow> rstring \<Rightarrow> rtc_work_token \<Rightarrow> u8 \<Rightarrow> u32 option \<Rightarrow> app_model \<times> owner_timeout_step" where
  "advance_owner_timeout model peer_id token attempt retry_delay_ms =
     (case map_of (am_rtc_peer_states model) peer_id of
        None \<Rightarrow> (model, OwnerIgnore)
      | Some peer_state \<Rightarrow>
          if \<not> work_is_current peer_state token (OwnerOfferTimeout attempt) then (model, OwnerIgnore)
          else (case retry_delay_ms of
                  None \<Rightarrow> (let (model', transfer_paused) = fail_peer model peer_id peer_state
                          in (model', OwnerFailed transfer_paused))
                | Some delay_ms \<Rightarrow>
                    (let next_attempt = saturating_add attempt 1;
                         (peer_state', token) = arm_work peer_state (OwnerRetryDelay next_attempt)
                     in (set_peer_state model peer_id peer_state', OwnerRetry token next_attempt delay_ms))))"

definition claim_owner_retry :: "app_model \<Rightarrow> rstring \<Rightarrow> rtc_work_token \<Rightarrow> u8 \<Rightarrow> app_model \<times> bool" where
  "claim_owner_retry model peer_id token next_attempt =
     (case map_of (am_rtc_peer_states model) peer_id of
        None \<Rightarrow> (model, False)
      | Some peer_state \<Rightarrow>
          if \<not> work_is_current peer_state token (OwnerRetryDelay next_attempt) then (model, False)
          else (set_peer_state model peer_id (peer_state\<lparr>pst_pending_work := None\<rparr>), True))"

definition mark_peer_start_failed :: "app_model \<Rightarrow> rstring \<Rightarrow> u64 \<Rightarrow> app_model \<times> bool option" where
  "mark_peer_start_failed model peer_id instance_generation =
     (case map_of (am_rtc_peer_states model) peer_id of
        None \<Rightarrow> (model, None)
      | Some peer_state \<Rightarrow>
          if pst_instance_generation peer_state \<noteq> instance_generation then (model, None)
          else (let (model', transfer_paused) = fail_peer model peer_id peer_state
                in (model', Some transfer_paused)))"

definition begin_passive_deadline :: "app_model \<Rightarrow> rstring \<Rightarrow> app_model \<times> rtc_work_token option" where
  "begin_passive_deadline model peer_id =
     (case map_of (am_rtc_peer_states model) peer_id of
        None \<Rightarrow> (model, None)
      | Some peer_state \<Rightarrow>
          (let (peer_state', token) = arm_work peer_state PassiveDeadline;
               model1 = set_peer_state model peer_id (peer_state'\<lparr>pst_phase := RtcConnecting\<rparr>)
           in (refresh_aggregate_rtc (clear_peer_rtc_error model1 peer_id), Some token)))"

definition claim_disconnected_deadline :: "app_model \<Rightarrow> rstring \<Rightarrow> rtc_work_token \<Rightarrow> app_model \<times> bool" where
  "claim_disconnected_deadline model peer_id token =
     (case map_of (am_rtc_peer_states model) peer_id of
        None \<Rightarrow> (model, False)
      | Some peer_state \<Rightarrow>
          if \<not> work_is_current peer_state token DisconnectedDeadline then (model, False)
          else (set_peer_state model peer_id (invalidate_work peer_state), True))"

definition claim_passive_deadline :: "app_model \<Rightarrow> rstring \<Rightarrow> rtc_work_token \<Rightarrow> app_model \<times> passive_deadline_step" where
  "claim_passive_deadline model peer_id token =
     (case map_of (am_rtc_peer_states model) peer_id of
        None \<Rightarrow> (model, PassiveIgnore)
      | Some peer_state \<Rightarrow>
          if \<not> work_is_current peer_state token PassiveDeadline then (model, PassiveIgnore)
          else (let (model', transfer_paused) = fail_peer model peer_id peer_state
                in (model', PassiveFailed transfer_paused)))"

definition mark_data_channel_ready :: "app_model \<Rightarrow> rstring \<Rightarrow> app_model \<times> bool" where
  "mark_data_channel_ready model peer_id =
     (let recovered_stream =
        (case map_of (am_transfers_by_peer model) peer_id of
           Some (TransferActive _ _ True _ _ _ _ link_state None) \<Rightarrow> link_state \<noteq> LinkReady
         | _ \<Rightarrow> False)
      in case map_of (am_rtc_peer_states model) peer_id of
           None \<Rightarrow> (model, False)
         | Some peer_state \<Rightarrow>
             (let model1 = set_peer_state model peer_id ((invalidate_work peer_state)\<lparr>pst_phase := RtcReady\<rparr>)
              in (refresh_aggregate_rtc (clear_peer_rtc_error model1 peer_id), recovered_stream)))"

definition reset_peer_waiting :: "app_model \<Rightarrow> rstring \<Rightarrow> app_model \<times> bool" where
  "reset_peer_waiting model peer_id =
     (case map_of (am_rtc_peer_states model) peer_id of
        None \<Rightarrow> (model, False)
      | Some peer_state \<Rightarrow>
          (let model1 = set_peer_state model peer_id ((invalidate_work peer_state)\<lparr>pst_phase := RtcWaitingPeer\<rparr>)
           in (refresh_aggregate_rtc (clear_peer_rtc_error model1 peer_id), True)))"

definition reduce_connection_state ::
  "app_model \<Rightarrow> rstring \<Rightarrow> room_role \<Rightarrow> rtc_connection_phase \<Rightarrow> app_model \<times> rtc_recovery_action" where
  "reduce_connection_state model peer_id role connection_phase =
     (case map_of (am_rtc_peer_states model) peer_id of
        None \<Rightarrow> (model, NoRecovery)
      | Some peer_state \<Rightarrow>
          if role = RoleReceiver \<and> pst_phase peer_state = RtcFailed then (model, NoRecovery)
          else if connection_phase = ConnFailed \<or> connection_phase = ConnClosed
          then (let model1 = set_peer_state model peer_id ((invalidate_work peer_state)\<lparr>pst_phase := RtcDisconnected\<rparr>);
                    model2 = fst (set_peer_transfer_link_state model1 peer_id LinkWaiting)
                in (refresh_aggregate_rtc model2, if role = RoleOwner then RestartOffer else ArmPassiveDeadline))
          else if connection_phase = ConnDisconnected
          then (let peer_state1 = peer_state\<lparr>pst_phase := RtcDisconnected\<rparr>
                in if pst_pending_work peer_state1 = None
                   then (let (peer_state2, token) = arm_work peer_state1 DisconnectedDeadline
                         in (refresh_aggregate_rtc (set_peer_state model peer_id peer_state2), WaitForReconnect token))
                   else (refresh_aggregate_rtc (set_peer_state model peer_id peer_state1), NoRecovery))
          else (let phase = (if pst_phase peer_state = RtcReady then RtcReady else RtcConnecting)
                in (refresh_aggregate_rtc (set_peer_state model peer_id (peer_state\<lparr>pst_phase := phase\<rparr>)), NoRecovery)))"

section \<open>Generations of peers\<close>

definition allocate_rtc_peer_generation :: "app_model \<Rightarrow> rstring \<Rightarrow> app_model \<times> u64" where
  "allocate_rtc_peer_generation model peer_id =
     (let generation = am_rtc_peer_generation model + 1
      in (model\<lparr>am_rtc_peer_generation := generation,
                am_rtc_peer_states := bt_insert peer_id (peer_rtc_state_new generation) (am_rtc_peer_states model)\<rparr>,
          generation))"

definition rtc_peer_generation_is_current :: "app_model \<Rightarrow> rstring \<Rightarrow> u64 \<Rightarrow> bool" where
  "rtc_peer_generation_is_current model peer_id generation \<longleftrightarrow>
     (case map_of (am_rtc_peer_states model) peer_id of
        None \<Rightarrow> False | Some peer_state \<Rightarrow> pst_instance_generation peer_state = generation)"

section \<open>Delays of the configuration lease\<close>

definition RTC_CONFIG_REFRESH_EARLY_MS :: u64 where "RTC_CONFIG_REFRESH_EARLY_MS = 60000"
definition RTC_CONFIG_REFRESH_MAX_MS :: u64 where "RTC_CONFIG_REFRESH_MAX_MS = 8 * 60000"
definition RTC_CONFIG_REFRESH_MIN_MS :: u64 where "RTC_CONFIG_REFRESH_MIN_MS = 1000"
definition RTC_CONFIG_RETRY_MS :: u32 where "RTC_CONFIG_RETRY_MS = 15000"

definition clamp :: "'a::linorder \<Rightarrow> 'a \<Rightarrow> 'a \<Rightarrow> 'a" where
  "clamp v lo hi = (if v < lo then lo else if hi < v then hi else v)"

definition rtc_config_refresh_delay_ms :: "u64 \<Rightarrow> u32" where
  "rtc_config_refresh_delay_ms remaining_ms =
     (let before_expiry_ms = saturating_sub remaining_ms RTC_CONFIG_REFRESH_EARLY_MS;
          half_life_ms = remaining_ms div 2
      in ucast (clamp (max before_expiry_ms half_life_ms) RTC_CONFIG_REFRESH_MIN_MS RTC_CONFIG_REFRESH_MAX_MS))"

definition rtc_config_sleep_ms :: "u64 \<Rightarrow> u32" where
  "rtc_config_sleep_ms delay_ms = ucast (clamp delay_ms 1 0xFFFFFFFF)"

end
