(* ===== verification/Web_Transfers.thy ===== *)
theory Web_Transfers
  imports Browser_Errors
begin

text \<open>
  How the web application follows a transfer (\<open>rust/apps/web/src/rtc_transfer_events.rs\<close>,
  \<open>rtc_transfer_events/transition/\<close>, \<open>rtc_transfer_events/text_transition.rs\<close>, with the accessors of
  \<open>transfer_presentation.rs\<close>): every event of a peer is planned against the current model and the
  plan is then applied. Notices are lists of Unicode scalar values, as all strings of the model.
\<close>

section \<open>Accessors\<close>

fun transfer_is_active :: "transfer_state \<Rightarrow> bool" where
  "transfer_is_active (TransferOffering _ _ _) = True"
| "transfer_is_active (TransferOutgoingRecovery _ _ _) = True"
| "transfer_is_active (TransferActive _ _ _ _ _ _ _ _ _) = True"
| "transfer_is_active _ = False"

fun transfer_file_of :: "transfer_state \<Rightarrow> transfer_file option" where
  "transfer_file_of (TransferOffering _ file _) = Some file"
| "transfer_file_of (TransferOutgoingRecovery _ file _) = Some file"
| "transfer_file_of (TransferIncoming _ _ file _ _) = Some file"
| "transfer_file_of (TransferActive _ _ _ file _ _ _ _ _) = Some file"
| "transfer_file_of (TransferWasRejected _ file _) = Some file"
| "transfer_file_of (TransferWasCompleted _ file _ _ _) = Some file"
| "transfer_file_of (TransferWasCancelled file _) = file"
| "transfer_file_of (TransferHasFailed file _) = file"
| "transfer_file_of TransferIdle = None"

fun transfer_files_of :: "transfer_state \<Rightarrow> transfer_file list option" where
  "transfer_files_of (TransferOffering _ _ files) = Some files"
| "transfer_files_of (TransferOutgoingRecovery _ _ files) = Some files"
| "transfer_files_of (TransferIncoming _ _ _ files _) = Some files"
| "transfer_files_of (TransferActive _ _ _ _ files _ _ _ _) = Some files"
| "transfer_files_of (TransferWasRejected _ _ files) = Some files"
| "transfer_files_of (TransferWasCompleted _ _ files _ _) = Some files"
| "transfer_files_of _ = None"

fun transfer_is_streamed :: "transfer_state \<Rightarrow> bool" where
  "transfer_is_streamed (TransferOutgoingRecovery _ _ _) = True"
| "transfer_is_streamed (TransferIncoming _ mode _ _ _) = (mode \<noteq> Buffered)"
| "transfer_is_streamed (TransferActive _ _ streamed _ _ _ _ _ _) = streamed"
| "transfer_is_streamed (TransferWasCompleted DirReceive _ _ _ download_url) = (download_url = None)"
| "transfer_is_streamed _ = False"

section \<open>Planned events\<close>

record notification_effect =
  nf_title :: rstring
  nf_body :: rstring
  nf_tag :: rstring

datatype transfer_mutation =
    SetPeerTransfer (mut_peer_id: rstring) (mut_transfer: transfer_state) (mut_notice: "rstring option") (mut_clear_error: bool)
  | Progress (mut_peer_id: rstring) (mut_transfer_id: rstring) (mut_direction: transfer_direction) (mut_completed_bytes: u64)

record planned_transfer_event =
  pl_mutation :: "transfer_mutation option"
  pl_notification :: "notification_effect option"

definition planned_none :: planned_transfer_event where
  "planned_none = \<lparr>pl_mutation = None, pl_notification = None\<rparr>"

definition planned_set_peer_transfer :: "rstring \<Rightarrow> transfer_state \<Rightarrow> planned_transfer_event" where
  "planned_set_peer_transfer peer_id transfer =
     \<lparr>pl_mutation = Some (SetPeerTransfer peer_id transfer None False), pl_notification = None\<rparr>"

subsection \<open>Offers\<close>

definition offer_outgoing :: "rstring \<Rightarrow> rstring \<Rightarrow> transfer_file \<Rightarrow> transfer_file list \<Rightarrow> planned_transfer_event" where
  "offer_outgoing peer_id transfer_id file files = planned_set_peer_transfer peer_id (TransferOffering transfer_id file files)"

definition offer_outgoing_recovery :: "rstring \<Rightarrow> rstring \<Rightarrow> transfer_file \<Rightarrow> transfer_file list \<Rightarrow> planned_transfer_event" where
  "offer_outgoing_recovery peer_id transfer_id file files =
     planned_set_peer_transfer peer_id (TransferOutgoingRecovery transfer_id file files)"

definition offer_incoming ::
  "rstring \<Rightarrow> rstring \<Rightarrow> transfer_mode \<Rightarrow> transfer_file \<Rightarrow> transfer_file list \<Rightarrow> bool \<Rightarrow> planned_transfer_event" where
  "offer_incoming peer_id transfer_id mode file files recovery_available =
     (let file_count = max (length files) 1;
          body = (if file_count = 1 then [0x6536, 0x5230, 0x6587, 0x4EF6, 0xFF1A] @ tf_name file
                  else [0x6536, 0x5230, 0x20] @ tf_name file @ [0x20, 0x7B49, 0x20] @ decimal_nat file_count @ [0x20, 0x4E2A, 0x6587, 0x4EF6])
      in (planned_set_peer_transfer peer_id (TransferIncoming transfer_id mode file files recovery_available))
           \<lparr>pl_notification := Some \<lparr>nf_title = [0x6536, 0x5230, 0x6587, 0x4EF6, 0x8BF7, 0x6C42], nf_body = body, nf_tag = rstr ''file-'' @ transfer_id\<rparr>\<rparr>)"

definition offer_started ::
  "app_model \<Rightarrow> rstring \<Rightarrow> rstring \<Rightarrow> transfer_direction \<Rightarrow> transfer_mode \<Rightarrow> transfer_file \<Rightarrow> transfer_file list \<Rightarrow> planned_transfer_event" where
  "offer_started model peer_id transfer_id direction mode file files =
     (let completed_bytes =
        (case map_of (am_transfers_by_peer model) peer_id of
           Some (TransferActive current_id _ _ _ _ completed_bytes _ _ _) \<Rightarrow>
             if current_id = transfer_id then completed_bytes else 0
         | _ \<Rightarrow> 0)
      in planned_set_peer_transfer peer_id
           (TransferActive transfer_id direction (mode \<noteq> Buffered) file files completed_bytes False LinkReady None))"

definition offer_awaiting_verification ::
  "app_model \<Rightarrow> rstring \<Rightarrow> rstring \<Rightarrow> transfer_file \<Rightarrow> transfer_file list \<Rightarrow> planned_transfer_event" where
  "offer_awaiting_verification model peer_id transfer_id file files =
     (let streamed = (case map_of (am_transfers_by_peer model) peer_id of None \<Rightarrow> False | Some t \<Rightarrow> transfer_is_streamed t)
      in planned_set_peer_transfer peer_id
           (TransferActive transfer_id DirSend streamed file files (tf_size_bytes file) True LinkReady None))"

subsection \<open>Progress\<close>

fun transfer_progress_is_valid :: "transfer_state \<Rightarrow> rstring \<Rightarrow> transfer_direction \<Rightarrow> u64 \<Rightarrow> bool" where
  "transfer_progress_is_valid
     (TransferActive current_id current_direction streamed file files current_bytes awaiting_verification link_state storage_pause)
     transfer_id direction completed_bytes \<longleftrightarrow>
       current_id = transfer_id \<and> current_direction = direction \<and> \<not> awaiting_verification \<and> link_state = LinkReady \<and>
       storage_pause = None \<and> current_bytes \<le> completed_bytes \<and> completed_bytes \<le> tf_size_bytes file"
| "transfer_progress_is_valid _ transfer_id direction completed_bytes \<longleftrightarrow> False"

definition plan_progress :: "app_model \<Rightarrow> rstring \<Rightarrow> rstring \<Rightarrow> transfer_direction \<Rightarrow> u64 \<Rightarrow> planned_transfer_event" where
  "plan_progress model peer_id transfer_id direction completed_bytes =
     (case map_of (am_transfers_by_peer model) peer_id of
        None \<Rightarrow> planned_none
      | Some current \<Rightarrow>
          if \<not> transfer_progress_is_valid current transfer_id direction completed_bytes then planned_none
          else \<lparr>pl_mutation = Some (Progress peer_id transfer_id direction completed_bytes), pl_notification = None\<rparr>)"

fun set_completed_bytes :: "u64 \<Rightarrow> transfer_state \<Rightarrow> transfer_state" where
  "set_completed_bytes completed_bytes (TransferActive i d s f fs _ a l p) = TransferActive i d s f fs completed_bytes a l p"
| "set_completed_bytes completed_bytes t = t"

definition apply_transfer_progress ::
  "transfer_state \<Rightarrow> rstring \<Rightarrow> transfer_direction \<Rightarrow> u64 \<Rightarrow> transfer_state \<times> bool" where
  "apply_transfer_progress current transfer_id direction completed_bytes =
     (if \<not> transfer_progress_is_valid current transfer_id direction completed_bytes then (current, False)
      else (set_completed_bytes completed_bytes current, True))"

definition apply_peer_transfer_progress ::
  "app_model \<Rightarrow> rstring \<Rightarrow> rstring \<Rightarrow> transfer_direction \<Rightarrow> u64 \<Rightarrow> app_model \<times> bool" where
  "apply_peer_transfer_progress model peer_id transfer_id direction completed_bytes =
     (case map_of (am_transfers_by_peer model) peer_id of
        None \<Rightarrow> (model, False)
      | Some current \<Rightarrow>
          (case apply_transfer_progress current transfer_id direction completed_bytes of
             (_, False) \<Rightarrow> (model, False)
           | (updated, True) \<Rightarrow>
               (let model' = model\<lparr>am_transfers_by_peer := AList.update peer_id updated (am_transfers_by_peer model)\<rparr>
                in if in_receiver_room (am_screen model)
                   then (case apply_transfer_progress (am_transfer model') transfer_id direction completed_bytes of
                           (mirrored, True) \<Rightarrow> (model'\<lparr>am_transfer := mirrored\<rparr>, True)
                         | (_, False) \<Rightarrow> (model'\<lparr>am_transfer := updated\<rparr>, True))
                   else (model', True))))"

subsection \<open>Pauses and ends\<close>

definition PAUSED_RECEIVE_NOTICE :: rstring where
  "PAUSED_RECEIVE_NOTICE = [0x4F20, 0x8F93, 0x5DF2, 0x6682, 0x505C, 0xFF0C, 0x6700, 0x540E, 0x4E00, 0x4E2A, 0x6821, 0x9A8C, 0x68C0, 0x67E5, 0x70B9, 0x5DF2, 0x4FDD, 0x7559]"

definition PAUSED_SEND_NOTICE :: rstring where
  "PAUSED_SEND_NOTICE = [0x63A5, 0x6536, 0x65B9, 0x5DF2, 0x6682, 0x505C, 0x4F20, 0x8F93, 0xFF0C, 0x5F53, 0x524D, 0x8FDB, 0x5EA6, 0x5DF2, 0x4FDD, 0x7559]"

definition plan_pause ::
  "app_model \<Rightarrow> rstring \<Rightarrow> rstring \<Rightarrow> transfer_direction \<Rightarrow> stream_pause_reason \<Rightarrow> u64 \<Rightarrow> planned_transfer_event" where
  "plan_pause model peer_id transfer_id direction reason completed_bytes =
     (case map_of (am_transfers_by_peer model) peer_id of
        Some (TransferActive current_id current_direction streamed file files current_bytes awaiting link_state storage_pause) \<Rightarrow>
          if current_id \<noteq> transfer_id then planned_none
          else \<lparr>pl_mutation = Some (SetPeerTransfer peer_id
                   (TransferActive current_id direction streamed file files completed_bytes False LinkReady (Some reason))
                   (Some (if direction = DirReceive then PAUSED_RECEIVE_NOTICE else PAUSED_SEND_NOTICE)) True),
                pl_notification = None\<rparr>
      | _ \<Rightarrow> planned_none)"

definition terminal_rejected :: "rstring \<Rightarrow> transfer_direction \<Rightarrow> transfer_file \<Rightarrow> transfer_file list \<Rightarrow> planned_transfer_event" where
  "terminal_rejected peer_id direction file files =
     planned_set_peer_transfer peer_id (TransferWasRejected direction file files)"

definition terminal_completed ::
  "rstring \<Rightarrow> transfer_direction \<Rightarrow> transfer_file \<Rightarrow> transfer_file list \<Rightarrow> rstring \<Rightarrow> rstring option \<Rightarrow> planned_transfer_event" where
  "terminal_completed peer_id direction file files blake3 download_url =
     (let notification =
        (if direction = DirReceive
         then (let file_count = max (length files) 1;
                   body = (if file_count = 1 then tf_name file @ [0x20, 0x5DF2, 0x901A, 0x8FC7, 0x5B8C, 0x6574, 0x6027, 0x6821, 0x9A8C]
                           else decimal_nat file_count @ [0x20, 0x4E2A, 0x6587, 0x4EF6, 0x5DF2, 0x901A, 0x8FC7, 0x5B8C, 0x6574, 0x6027, 0x6821, 0x9A8C])
               in Some \<lparr>nf_title = [0x6587, 0x4EF6, 0x63A5, 0x6536, 0x5B8C, 0x6210], nf_body = body, nf_tag = rstr ''file-received-'' @ peer_id\<rparr>)
         else None);
        notice = (if direction = DirSend then [0x6587, 0x4EF6, 0x5DF2, 0x53D1, 0x9001, 0x5E76, 0x901A, 0x8FC7, 0x63A5, 0x6536, 0x7AEF, 0x6821, 0x9A8C]
                  else if download_url = None then [0x6587, 0x4EF6, 0x5DF2, 0x4FDD, 0x5B58, 0x5E76, 0x901A, 0x8FC7, 0x5B8C, 0x6574, 0x6027, 0x6821, 0x9A8C]
                  else [0x6587, 0x4EF6, 0x5DF2, 0x63A5, 0x6536, 0x5E76, 0x901A, 0x8FC7, 0x5B8C, 0x6574, 0x6027, 0x6821, 0x9A8C])
      in \<lparr>pl_mutation = Some (SetPeerTransfer peer_id
             (TransferWasCompleted direction file files blake3 download_url) (Some notice) False),
          pl_notification = notification\<rparr>)"

definition terminal_cancelled :: "app_model \<Rightarrow> rstring \<Rightarrow> cancel_reason \<Rightarrow> planned_transfer_event" where
  "terminal_cancelled model peer_id reason =
     planned_set_peer_transfer peer_id
       (TransferWasCancelled (Option.bind (map_of (am_transfers_by_peer model) peer_id) transfer_file_of) reason)"

definition terminal_failed :: "app_model \<Rightarrow> rstring \<Rightarrow> rstring \<Rightarrow> planned_transfer_event" where
  "terminal_failed model peer_id message =
     planned_set_peer_transfer peer_id
       (TransferHasFailed (Option.bind (map_of (am_transfers_by_peer model) peer_id) transfer_file_of) message)"

subsection \<open>Planning and applying\<close>

text \<open>Control and text events never reach the planner; the model gives them the empty plan.\<close>

fun plan_transfer_event :: "app_model \<Rightarrow> rstring \<Rightarrow> rtc_event \<Rightarrow> planned_transfer_event" where
  "plan_transfer_event model peer_id (OutgoingOffered transfer_id file files) =
     offer_outgoing peer_id transfer_id file files"
| "plan_transfer_event model peer_id (OutgoingRecoveryOffered transfer_id file files) =
     offer_outgoing_recovery peer_id transfer_id file files"
| "plan_transfer_event model peer_id (IncomingOffered transfer_id mode file files recovery_available) =
     offer_incoming peer_id transfer_id mode file files recovery_available"
| "plan_transfer_event model peer_id (TransferStarted transfer_id direction mode file files) =
     offer_started model peer_id transfer_id direction mode file files"
| "plan_transfer_event model peer_id (AwaitingVerification transfer_id file files) =
     offer_awaiting_verification model peer_id transfer_id file files"
| "plan_transfer_event model peer_id (TransferProgress transfer_id direction completed_bytes _) =
     plan_progress model peer_id transfer_id direction completed_bytes"
| "plan_transfer_event model peer_id (TransferPaused transfer_id direction reason completed_bytes _) =
     plan_pause model peer_id transfer_id direction reason completed_bytes"
| "plan_transfer_event model peer_id (TransferRejected _ direction file files) =
     terminal_rejected peer_id direction file files"
| "plan_transfer_event model peer_id (TransferCompleted _ direction file files blake3 download_url) =
     terminal_completed peer_id direction file files blake3 download_url"
| "plan_transfer_event model peer_id (TransferCancelled _ reason) = terminal_cancelled model peer_id reason"
| "plan_transfer_event model peer_id (TransferFailed _ message) = terminal_failed model peer_id message"
| "plan_transfer_event model peer_id _ = planned_none"

definition set_peer_transfer :: "app_model \<Rightarrow> rstring \<Rightarrow> transfer_state \<Rightarrow> app_model" where
  "set_peer_transfer model peer_id transfer =
     (let model' = model\<lparr>am_transfers_by_peer := bt_insert peer_id transfer (am_transfers_by_peer model)\<rparr>
      in if in_receiver_room (am_screen model') then model'\<lparr>am_transfer := transfer\<rparr> else model')"

definition apply_planned :: "planned_transfer_event \<Rightarrow> app_model \<Rightarrow> app_model" where
  "apply_planned plan model =
     (case pl_mutation plan of
        None \<Rightarrow> model
      | Some (SetPeerTransfer peer_id transfer notice clear_error) \<Rightarrow>
          (let model1 = (if clear_error then model\<lparr>am_error := None\<rparr> else model);
               model2 = (case notice of None \<Rightarrow> model1 | Some n \<Rightarrow> model1\<lparr>am_notice := Some n\<rparr>)
           in set_peer_transfer model2 peer_id transfer)
      | Some (Progress peer_id transfer_id direction completed_bytes) \<Rightarrow>
          fst (apply_peer_transfer_progress model peer_id transfer_id direction completed_bytes))"

section \<open>Text transfers\<close>

fun is_text_event :: "rtc_event \<Rightarrow> bool" where
  "is_text_event (TextOutgoingOffered _ _ _) = True"
| "is_text_event (TextIncomingOffered _ _ _) = True"
| "is_text_event (TextTransferAccepted _ _) = True"
| "is_text_event (TextTransferRejected _ _) = True"
| "is_text_event (TextTransferReceived _ _) = True"
| "is_text_event (TextTransferDelivered _) = True"
| "is_text_event (TextTransferCancelled _) = True"
| "is_text_event (TextTransferFailed _ _) = True"
| "is_text_event _ = False"

fun text_metadata_for :: "text_transfer_state option \<Rightarrow> rstring \<Rightarrow> (u32 \<times> u32) option" where
  "text_metadata_for (Some (TextOffering current character_count byte_length)) transfer_id =
     (if current = transfer_id then Some (character_count, byte_length) else None)"
| "text_metadata_for (Some (TextIncoming current character_count byte_length)) transfer_id =
     (if current = transfer_id then Some (character_count, byte_length) else None)"
| "text_metadata_for (Some (TextSending current character_count byte_length)) transfer_id =
     (if current = transfer_id then Some (character_count, byte_length) else None)"
| "text_metadata_for (Some (TextReceiving current character_count byte_length)) transfer_id =
     (if current = transfer_id then Some (character_count, byte_length) else None)"
| "text_metadata_for _ transfer_id = None"

definition friendly_text_error :: "rstring \<Rightarrow> rstring" where
  "friendly_text_error message =
     (if contains message (rstr ''timed out'') then [0x6587, 0x672C, 0x9001, 0x8FBE, 0x8D85, 0x65F6, 0xFF0C, 0x8BF7, 0x91CD, 0x65B0, 0x53D1, 0x9001]
      else if contains message (rstr ''metadata does not match'') \<or> contains message (rstr ''exceeds the supported limit'')
      then [0x6587, 0x672C, 0x6821, 0x9A8C, 0x5931, 0x8D25, 0xFF0C, 0x6B63, 0x6587, 0x672A, 0x88AB, 0x63A5, 0x6536]
      else if contains message (rstr ''DataChannel'') \<or> contains message (rstr ''channel'')
      then [0x70B9, 0x5BF9, 0x70B9, 0x8FDE, 0x63A5, 0x5DF2, 0x65AD, 0x5F00, 0xFF0C, 0x8BF7, 0x91CD, 0x65B0, 0x53D1, 0x9001]
      else [0x6587, 0x672C, 0x4F20, 0x8F93, 0x5931, 0x8D25, 0xFF0C, 0x8BF7, 0x91CD, 0x8BD5])"

text \<open>The next state of the peer's text, the notice and the notification; \<open>None\<close> when the event is
  dropped because its transfer is not the current one.\<close>

fun text_step ::
  "text_transfer_state option \<Rightarrow> rstring \<Rightarrow> rtc_event \<Rightarrow>
   (text_transfer_state \<times> rstring option \<times> notification_effect option) option" where
  "text_step current peer_id (TextOutgoingOffered transfer_id character_count byte_length) =
     Some (TextOffering transfer_id character_count byte_length, None, None)"
| "text_step current peer_id (TextIncomingOffered transfer_id character_count byte_length) =
     Some (TextIncoming transfer_id character_count byte_length, None, None)"
| "text_step current peer_id (TextTransferAccepted transfer_id direction) =
     Option.bind (text_metadata_for current transfer_id) (\<lambda>(character_count, byte_length).
       Some (if direction = DirSend then TextSending transfer_id character_count byte_length
             else TextReceiving transfer_id character_count byte_length, None, None))"
| "text_step current peer_id (TextTransferRejected _ direction) =
     Some (TextRejected direction,
       Some (if direction = DirSend then [0x63A5, 0x6536, 0x65B9, 0x5DF2, 0x62D2, 0x7EDD, 0x6587, 0x672C] else [0x5DF2, 0x62D2, 0x7EDD, 0x63A5, 0x6536, 0x6587, 0x672C]), None)"
| "text_step current peer_id (TextTransferReceived _ body) =
     Some (TextReceived body, Some [0x6587, 0x672C, 0x5DF2, 0x901A, 0x8FC7, 0x52A0, 0x5BC6, 0x901A, 0x9053, 0x63A5, 0x6536],
       Some \<lparr>nf_title = [0x6587, 0x672C, 0x63A5, 0x6536, 0x5B8C, 0x6210], nf_body = [0x6587, 0x672C, 0x5DF2, 0x901A, 0x8FC7, 0x70B9, 0x5BF9, 0x70B9, 0x52A0, 0x5BC6, 0x901A, 0x9053, 0x9001, 0x8FBE],
             nf_tag = rstr ''text-received-'' @ peer_id\<rparr>)"
| "text_step current peer_id (TextTransferDelivered transfer_id) =
     Option.bind (text_metadata_for current transfer_id) (\<lambda>(character_count, byte_length).
       Some (TextDelivered character_count byte_length, Some [0x6587, 0x672C, 0x5DF2, 0x9001, 0x8FBE, 0x63A5, 0x6536, 0x65B9], None))"
| "text_step current peer_id (TextTransferCancelled _) = Some (TextCancelled, Some [0x6587, 0x672C, 0x4F20, 0x8F93, 0x5DF2, 0x53D6, 0x6D88], None)"
| "text_step current peer_id (TextTransferFailed _ message) = Some (TextFailed (friendly_text_error message), None, None)"
| "text_step current peer_id _ = None"

definition apply_text_event :: "app_model \<Rightarrow> rstring \<Rightarrow> rtc_event \<Rightarrow> app_model \<times> notification_effect option" where
  "apply_text_event model peer_id event =
     (case text_step (map_of (am_text_transfers_by_peer model) peer_id) peer_id event of
        None \<Rightarrow> (model, None)
      | Some (next, notice, notification) \<Rightarrow>
          (let model1 = (case notice of None \<Rightarrow> model | Some n \<Rightarrow> model\<lparr>am_notice := Some n\<rparr>);
               model2 = model1\<lparr>am_text_transfers_by_peer := bt_insert peer_id next (am_text_transfers_by_peer model1)\<rparr>
           in (if in_receiver_room (am_screen model2) then model2\<lparr>am_text_transfer := next\<rparr> else model2, notification)))"

section \<open>The transfer event handler\<close>

definition handle_transfer_event :: "app_model \<Rightarrow> rstring \<times> rtc_event \<Rightarrow> app_model \<times> notification_effect option" where
  "handle_transfer_event model = (\<lambda>(peer_id, event).
     if is_text_event event then apply_text_event model peer_id event
     else (let plan = plan_transfer_event model peer_id event
           in (apply_planned plan model, pl_notification plan)))"

section \<open>Progress only moves forward\<close>

lemmas planning_defs =
  planned_none_def planned_set_peer_transfer_def offer_outgoing_def offer_outgoing_recovery_def offer_incoming_def
  offer_started_def offer_awaiting_verification_def plan_progress_def plan_pause_def terminal_rejected_def
  terminal_completed_def terminal_cancelled_def terminal_failed_def Let_def

lemma transfer_progress_is_valid_iff:
  "transfer_progress_is_valid t transfer_id direction completed_bytes \<longleftrightarrow>
     (\<exists>streamed file files current_bytes.
        t = TransferActive transfer_id direction streamed file files current_bytes False LinkReady None \<and>
        current_bytes \<le> completed_bytes \<and> completed_bytes \<le> tf_size_bytes file)"
  by (cases t) auto

lemma apply_peer_progress_transfers:
  assumes "map_of (am_transfers_by_peer m) p = Some t" and "transfer_progress_is_valid t i d c"
  shows "snd (apply_peer_transfer_progress m p i d c)"
    and "map_of (am_transfers_by_peer (fst (apply_peer_transfer_progress m p i d c))) =
      (map_of (am_transfers_by_peer m))(p \<mapsto> set_completed_bytes c t)"
    and "in_receiver_room (am_screen m) \<Longrightarrow>
      \<exists>t'. am_transfer (fst (apply_peer_transfer_progress m p i d c)) = set_completed_bytes c t' \<and> transfer_progress_is_valid t' i d c"
  using assms by (auto simp: apply_peer_transfer_progress_def apply_transfer_progress_def Let_def)


section \<open>Results are shown only when they were reported\<close>

lemma set_completed_bytes_completed [simp]:
  "set_completed_bytes c t = TransferWasCompleted d f fs h u \<longleftrightarrow> t = TransferWasCompleted d f fs h u"
  by (cases t) auto

lemma progress_keeps_completed:
  "map_of (am_transfers_by_peer (fst (apply_peer_transfer_progress m p i dir c))) q = Some (TransferWasCompleted d f fs h u) \<Longrightarrow>
   map_of (am_transfers_by_peer m) q = Some (TransferWasCompleted d f fs h u)"
  by (auto simp: apply_peer_transfer_progress_def apply_transfer_progress_def Let_def split: option.splits if_splits)

lemma plan_completed:
  "pl_mutation (plan_transfer_event m p e) = Some (SetPeerTransfer q (TransferWasCompleted d f fs h u) n clear) \<Longrightarrow>
   q = p \<and> (\<exists>i. e = TransferCompleted i d f fs h u)"
  by (cases e) (auto simp: planning_defs split: option.splits transfer_state.splits if_splits)

lemma text_event_keeps_transfers:
  "am_transfers_by_peer (fst (apply_text_event m p e)) = am_transfers_by_peer m"
  by (simp add: apply_text_event_def Let_def split: option.split prod.split)

lemma transfer_event_keeps_texts:
  "am_text_transfers_by_peer (apply_planned plan m) = am_text_transfers_by_peer m"
  by (simp add: apply_planned_def set_peer_transfer_def apply_peer_transfer_progress_def apply_transfer_progress_def Let_def
      split: option.split transfer_mutation.split)

lemma completed_step:
  assumes "map_of (am_transfers_by_peer (fst (handle_transfer_event m (p, e)))) q = Some (TransferWasCompleted d f fs h u)"
  shows "map_of (am_transfers_by_peer m) q = Some (TransferWasCompleted d f fs h u) \<or>
    q = p \<and> (\<exists>i. e = TransferCompleted i d f fs h u)"
proof (cases "is_text_event e")
  case True
  then show ?thesis using assms by (simp add: handle_transfer_event_def text_event_keeps_transfers)
next
  case False
  then have applied: "map_of (am_transfers_by_peer (apply_planned (plan_transfer_event m p e) m)) q = Some (TransferWasCompleted d f fs h u)"
    using assms by (simp add: handle_transfer_event_def Let_def)
  show ?thesis
  proof (cases "pl_mutation (plan_transfer_event m p e)")
    case None
    then show ?thesis using applied by (simp add: apply_planned_def)
  next
    case (Some mutation)
    then show ?thesis using applied
      by (cases mutation)
         (auto simp: apply_planned_def set_peer_transfer_def Let_def dest: plan_completed progress_keeps_completed
           split: if_splits option.splits)
  qed
qed

lemma text_step_received:
  "text_step current p e = Some (TextReceived body, n, nf) \<Longrightarrow> \<exists>i. e = TextTransferReceived i body"
  by (cases e) (auto simp: bind_eq_Some_conv split: if_splits)

lemma received_step:
  assumes "map_of (am_text_transfers_by_peer (fst (handle_transfer_event m (p, e)))) q = Some (TextReceived body)"
  shows "map_of (am_text_transfers_by_peer m) q = Some (TextReceived body) \<or> q = p \<and> (\<exists>i. e = TextTransferReceived i body)"
  using assms
  by (auto simp: handle_transfer_event_def Let_def transfer_event_keeps_texts apply_text_event_def
      dest: text_step_received split: if_splits option.splits prod.splits)

text \<open>C35. Whatever events the peers deliver, in whatever order, the model calls a peer's transfer
  completed with a digest only when that peer reported this completion, with this digest, files and
  direction, and it holds a received text only when that peer delivered this text.\<close>

theorem results_only_when_reported:
  assumes "map_of (am_transfers_by_peer m) p = None" and "map_of (am_text_transfers_by_peer m) p = None"
  shows "(\<forall>d f fs h u.
      map_of (am_transfers_by_peer (run_commands handle_transfer_event m events)) p = Some (TransferWasCompleted d f fs h u) \<longrightarrow>
      (\<exists>i. (p, TransferCompleted i d f fs h u) \<in> set events)) \<and>
    (\<forall>body. map_of (am_text_transfers_by_peer (run_commands handle_transfer_event m events)) p = Some (TextReceived body) \<longrightarrow>
      (\<exists>i. (p, TextTransferReceived i body) \<in> set events))"
proof -
  have transfers: "map_of (am_transfers_by_peer (run_commands handle_transfer_event m events)) p = Some (TransferWasCompleted d f fs h u) \<Longrightarrow>
      map_of (am_transfers_by_peer m) p = Some (TransferWasCompleted d f fs h u) \<or> (\<exists>i. (p, TransferCompleted i d f fs h u) \<in> set events)"
    for d f fs h u
  proof (induction events arbitrary: m)
    case (Cons ev events)
    obtain q e where ev: "ev = (q, e)" by (cases ev)
    from Cons.IH [of "fst (handle_transfer_event m ev)"] Cons.prems completed_step [of m q e p d f fs h u]
    show ?case by (auto simp: ev)
  qed simp
  have texts: "map_of (am_text_transfers_by_peer (run_commands handle_transfer_event m events)) p = Some (TextReceived body) \<Longrightarrow>
      map_of (am_text_transfers_by_peer m) p = Some (TextReceived body) \<or> (\<exists>i. (p, TextTransferReceived i body) \<in> set events)"
    for body
  proof (induction events arbitrary: m)
    case (Cons ev events)
    obtain q e where ev: "ev = (q, e)" by (cases ev)
    from Cons.IH [of "fst (handle_transfer_event m ev)"] Cons.prems received_step [of m q e p body]
    show ?case by (auto simp: ev)
  qed simp
  show ?thesis using transfers texts assms by auto
qed

definition sample_transfer_file :: transfer_file where
  "sample_transfer_file = \<lparr>tf_name = rstr ''report.pdf'', tf_mime = None, tf_size_bytes = 5\<rparr>"

definition sample_events :: "(rstring \<times> rtc_event) list" where
  "sample_events =
     [(rstr ''peer-1'', TransferStarted (rstr ''t1'') DirReceive Buffered sample_transfer_file [sample_transfer_file]),
      (rstr ''peer-1'', TransferProgress (rstr ''t1'') DirReceive 5 5),
      (rstr ''peer-1'', TransferCompleted (rstr ''t1'') DirReceive sample_transfer_file [sample_transfer_file] (rstr ''digest'') None)]"

lemma sample_run:
  "map_of (am_transfers_by_peer (run_commands handle_transfer_event default_app_model sample_events)) (rstr ''peer-1'') =
     Some (TransferWasCompleted DirReceive sample_transfer_file [sample_transfer_file] (rstr ''digest'') None)"
  by (simp add: sample_events_def handle_transfer_event_def apply_planned_def planning_defs set_peer_transfer_def)

theorem results_only_when_reported_witness:
  "map_of (am_transfers_by_peer (run_commands handle_transfer_event default_app_model sample_events)) (rstr ''peer-1'') =
     Some (TransferWasCompleted DirReceive sample_transfer_file [sample_transfer_file] (rstr ''digest'') None) \<and>
   (\<exists>i. (rstr ''peer-1'', TransferCompleted i DirReceive sample_transfer_file [sample_transfer_file] (rstr ''digest'') None)
      \<in> set sample_events)"
  using results_only_when_reported [of default_app_model "rstr ''peer-1''" sample_events] sample_run
  by (simp add: default_app_model_def)

end
