(* ===== verification/Web_Session.thy ===== *)
theory Web_Session
  imports Web_Rtc Web_Transfers
begin

text \<open>
  The peers of a room session: offers with their timeouts and bounded retries
  (\<open>rust/apps/web/src/rtc_orchestration.rs\<close>), the registry of peers, their events and the signals
  they get (\<open>rtc_session.rs\<close>), and the configuration that is valid for one realtime target
  (\<open>realtime_runtime.rs\<close>).

  The state \<open>rtc_world\<close> holds the application model, the registry, the scoped configuration, whether
  a realtime connection is present, the sleeping tasks and the calls made to peer objects. A task
  is removed from the list when it fires and may add another. The peer objects and the socket run
  in the browser: what they answer when asked is the argument \<open>peer_answers\<close>.
\<close>

section \<open>The world of a session\<close>

record scoped_rtc_config =
  sc_target :: nat
  sc_lease :: rtc_config_lease

definition config_for_scope :: "u64 \<Rightarrow> scoped_rtc_config \<Rightarrow> nat \<Rightarrow> rtc_config_lease option" where
  "config_for_scope now config target_scope =
     (if sc_target config = target_scope \<and> lease_is_valid now (sc_lease config) then Some (sc_lease config) else None)"

definition config_matches :: "scoped_rtc_config \<Rightarrow> nat \<Rightarrow> rtc_config_lease \<Rightarrow> bool" where
  "config_matches config target_scope lease \<longleftrightarrow> sc_target config = target_scope \<and> lease_ptr_eq (sc_lease config) lease"

datatype rtc_timer =
    NegotiationTimer (tm_peer: peer_ref) (tm_peer_id: rstring) (tm_token: rtc_work_token) (tm_attempt: u8)
  | RetryTimer (tm_peer: peer_ref) (tm_peer_id: rstring) (tm_token: rtc_work_token) (tm_attempt: u8)
  | PassiveTimer (tm_peer: peer_ref) (tm_peer_id: rstring) (tm_token: rtc_work_token)
  | DisconnectedTimer (tm_peer: peer_ref) (tm_peer_id: rstring) (tm_role: room_role) (tm_token: rtc_work_token)
  | RestartTimer (tm_peer: peer_ref) (tm_peer_id: rstring) (tm_generation: u64)
  | RestoreTask (tm_peer: peer_ref) (tm_peer_id: rstring) (tm_generation: u64)

datatype peer_call =
    StartOffer peer_ref rstring
  | PrepareReconnect peer_ref
  | ResetPeer peer_ref
  | AcceptSignal peer_ref rstring rstring rtc_signal
  | ReplaceReconnectConfig peer_ref rtc_config_lease

record rtc_world =
  rw_model :: app_model
  rw_connected :: bool
  rw_peers :: rtc_peer_registry
  rw_config :: "scoped_rtc_config option"
  rw_timers :: "(u32 \<times> rtc_timer) list"
  rw_calls :: "peer_call list"

record peer_answers =
  pa_now_ms :: u64
  pa_new_peer :: "browser_platform_error + peer_ref"
  pa_start_offer :: "peer_ref \<Rightarrow> rstring \<Rightarrow> browser_platform_error + offer_start"
  pa_channel_ready :: "peer_ref \<Rightarrow> bool"
  pa_resumable :: "peer_ref \<Rightarrow> bool"
  pa_accept_signal :: "peer_ref \<Rightarrow> rstring \<Rightarrow> rstring \<Rightarrow> rtc_signal \<Rightarrow> browser_platform_error + signal_acceptance"
  pa_restore :: "peer_ref \<Rightarrow> rstring \<Rightarrow> browser_platform_error + bool"
  pa_send :: "client_realtime_message \<Rightarrow> browser_platform_error + unit"

definition with_model :: "(app_model \<Rightarrow> app_model) \<Rightarrow> rtc_world \<Rightarrow> rtc_world" where
  "with_model f w = w\<lparr>rw_model := f (rw_model w)\<rparr>"

definition call_peer :: "peer_call \<Rightarrow> rtc_world \<Rightarrow> rtc_world" where
  "call_peer c w = w\<lparr>rw_calls := rw_calls w @ [c]\<rparr>"

definition spawn_timer :: "u32 \<Rightarrow> rtc_timer \<Rightarrow> rtc_world \<Rightarrow> rtc_world" where
  "spawn_timer delay timer w = w\<lparr>rw_timers := rw_timers w @ [(delay, timer)]\<rparr>"

section \<open>Offers, timeouts and retries\<close>

definition RTC_NEGOTIATION_TIMEOUT_MS :: u32 where "RTC_NEGOTIATION_TIMEOUT_MS = 8000"
definition RTC_DISCONNECTED_GRACE_MS :: u32 where "RTC_DISCONNECTED_GRACE_MS = 5000"
definition RTC_PASSIVE_RECOVERY_TIMEOUT_MS :: u32 where "RTC_PASSIVE_RECOVERY_TIMEOUT_MS = 30000"
definition RTC_RETRY_DELAYS_MS :: "u32 list" where "RTC_RETRY_DELAYS_MS = [500, 1000, 2000, 4000]"

definition rtc_retry_delay_ms :: "u8 \<Rightarrow> u32 option" where
  "rtc_retry_delay_ms attempt =
     (if unat attempt < length RTC_RETRY_DELAYS_MS then Some (RTC_RETRY_DELAYS_MS ! unat attempt) else None)"

definition RETRY_STATE_MESSAGE :: rstring where
  "RETRY_STATE_MESSAGE = [0x70B9, 0x5BF9, 0x70B9, 0x8FDE, 0x63A5, 0x91CD, 0x8BD5, 0x72B6, 0x6001, 0x5F02, 0x5E38, 0xFF0C, 0x8BF7, 0x7A0D, 0x540E, 0x91CD, 0x8BD5]"

definition OWNER_FAILED_MESSAGE :: rstring where
  "OWNER_FAILED_MESSAGE = [0x6709, 0x63A5, 0x6536, 0x8005, 0x7684, 0x70B9, 0x5BF9, 0x70B9, 0x8FDE, 0x63A5, 0x5931, 0x8D25, 0xFF0C, 0x53EF, 0x4EE5, 0x7B49, 0x5F85, 0x5176, 0x91CD, 0x65B0, 0x8FDE, 0x63A5]"

definition PASSIVE_FAILED_MESSAGE :: rstring where
  "PASSIVE_FAILED_MESSAGE = [0x70B9, 0x5BF9, 0x70B9, 0x8FDE, 0x63A5, 0x8D85, 0x65F6, 0xFF0C, 0x8BF7, 0x68C0, 0x67E5, 0x53CC, 0x65B9, 0x7F51, 0x7EDC, 0x540E, 0x91CD, 0x65B0, 0x8FDB, 0x5165, 0x623F, 0x95F4]"

definition RECOVERED_NOTICE :: rstring where
  "RECOVERED_NOTICE = [0x8FDE, 0x63A5, 0x5DF2, 0x6062, 0x590D, 0xFF0C, 0x4F20, 0x8F93, 0x5C06, 0x4ECE, 0x6700, 0x540E, 0x68C0, 0x67E5, 0x70B9, 0x7EE7, 0x7EED]"

definition runtime_peer_is_current :: "rtc_world \<Rightarrow> rstring \<Rightarrow> peer_ref \<Rightarrow> bool" where
  "runtime_peer_is_current w peer_id peer \<longleftrightarrow> registry_is_current (rw_peers w) peer_id peer"

definition mark_ready_from_runtime :: "app_model \<Rightarrow> rstring \<Rightarrow> app_model" where
  "mark_ready_from_runtime model peer_id =
     (let (model', recovered_stream) = mark_data_channel_ready model peer_id
      in if recovered_stream then fst (reduce_app_event model' (SetNotice (Some RECOVERED_NOTICE))) else model')"

definition fail_offer_start :: "app_model \<Rightarrow> rstring \<Rightarrow> u64 \<Rightarrow> rstring \<Rightarrow> app_model" where
  "fail_offer_start model peer_id instance_generation message =
     (case mark_peer_start_failed model peer_id instance_generation of
        (model', Some _) \<Rightarrow> set_peer_rtc_error model' peer_id message
      | (model', None) \<Rightarrow> model')"

definition start_owner_offer_attempt ::
  "peer_answers \<Rightarrow> peer_ref \<Rightarrow> rstring \<Rightarrow> u64 \<Rightarrow> u8 \<Rightarrow> bool \<Rightarrow> rtc_world \<Rightarrow> rtc_world" where
  "start_owner_offer_attempt a peer target_peer instance_generation attempt already_active_is_failure w0 =
     (let w = call_peer (StartOffer peer target_peer) w0
      in case pa_start_offer a peer target_peer of
           Inr OfferAlreadyActive \<Rightarrow>
             if \<not> already_active_is_failure then w
             else with_model (\<lambda>m. fail_offer_start m target_peer instance_generation RETRY_STATE_MESSAGE) w
         | Inl error \<Rightarrow> with_model (\<lambda>m. fail_offer_start m target_peer instance_generation (friendly_transfer_error error)) w
         | Inr OfferStarted \<Rightarrow>
             (case begin_owner_offer (rw_model w) target_peer instance_generation attempt of
                (model, None) \<Rightarrow> call_peer (PrepareReconnect peer) (w\<lparr>rw_model := model\<rparr>)
              | (model, Some token) \<Rightarrow>
                  spawn_timer RTC_NEGOTIATION_TIMEOUT_MS (NegotiationTimer peer target_peer token attempt) (w\<lparr>rw_model := model\<rparr>)))"

definition start_rtc_offer :: "peer_answers \<Rightarrow> peer_ref \<Rightarrow> rstring \<Rightarrow> rtc_world \<Rightarrow> rtc_world" where
  "start_rtc_offer a peer target_peer w =
     (case map_of (am_rtc_peer_states (rw_model w)) target_peer of
        None \<Rightarrow> w
      | Some peer_state \<Rightarrow> start_owner_offer_attempt a peer target_peer (pst_instance_generation peer_state) 0 False w)"

definition schedule_passive_recovery_timeout :: "peer_ref \<Rightarrow> rstring \<Rightarrow> rtc_world \<Rightarrow> rtc_world" where
  "schedule_passive_recovery_timeout peer peer_id w =
     (case begin_passive_deadline (rw_model w) peer_id of
        (model, None) \<Rightarrow> w\<lparr>rw_model := model\<rparr>
      | (model, Some token) \<Rightarrow>
          spawn_timer RTC_PASSIVE_RECOVERY_TIMEOUT_MS (PassiveTimer peer peer_id token) (w\<lparr>rw_model := model\<rparr>))"

definition schedule_disconnected_recovery :: "peer_ref \<Rightarrow> rstring \<Rightarrow> room_role \<Rightarrow> rtc_work_token \<Rightarrow> rtc_world \<Rightarrow> rtc_world" where
  "schedule_disconnected_recovery peer peer_id role token w =
     spawn_timer RTC_DISCONNECTED_GRACE_MS (DisconnectedTimer peer peer_id role token) w"

definition reconnect_paused_transfer :: "peer_answers \<Rightarrow> peer_ref \<Rightarrow> rstring \<Rightarrow> rtc_world \<Rightarrow> rtc_world" where
  "reconnect_paused_transfer a peer peer_id w =
     start_rtc_offer a peer peer_id
       (with_model (\<lambda>m. clear_peer_rtc_error (fst (set_peer_transfer_link_state m peer_id LinkWaiting)) peer_id)
         (call_peer (PrepareReconnect peer) w))"

text \<open>What a sleeping task does when it wakes up.\<close>

fun fire_timer :: "peer_answers \<Rightarrow> rtc_timer \<Rightarrow> rtc_world \<Rightarrow> rtc_world" where
  "fire_timer a (NegotiationTimer peer target_peer token attempt) w =
     (if \<not> runtime_peer_is_current w target_peer peer then w
      else if pa_channel_ready a peer then with_model (\<lambda>m. mark_ready_from_runtime m target_peer) w
      else (case advance_owner_timeout (rw_model w) target_peer token attempt (rtc_retry_delay_ms attempt) of
              (model, OwnerIgnore) \<Rightarrow> w\<lparr>rw_model := model\<rparr>
            | (model, OwnerFailed transfer_paused) \<Rightarrow>
                w\<lparr>rw_model := (if \<not> transfer_paused then set_peer_rtc_error model target_peer OWNER_FAILED_MESSAGE else model)\<rparr>
            | (model, OwnerRetry token' next_attempt delay_ms) \<Rightarrow>
                spawn_timer delay_ms (RetryTimer peer target_peer token' next_attempt) (w\<lparr>rw_model := model\<rparr>)))"
| "fire_timer a (RetryTimer peer target_peer token next_attempt) w =
     (if \<not> runtime_peer_is_current w target_peer peer then w
      else if pa_channel_ready a peer then with_model (\<lambda>m. mark_ready_from_runtime m target_peer) w
      else (case claim_owner_retry (rw_model w) target_peer token next_attempt of
              (model, False) \<Rightarrow> w\<lparr>rw_model := model\<rparr>
            | (model, True) \<Rightarrow>
                start_owner_offer_attempt a peer target_peer (tok_instance_generation token) next_attempt True
                  (call_peer (PrepareReconnect peer) (w\<lparr>rw_model := model\<rparr>))))"
| "fire_timer a (PassiveTimer peer peer_id token) w =
     (if \<not> runtime_peer_is_current w peer_id peer then w
      else if pa_channel_ready a peer then with_model (\<lambda>m. mark_ready_from_runtime m peer_id) w
      else (case claim_passive_deadline (rw_model w) peer_id token of
              (model, PassiveFailed transfer_paused) \<Rightarrow>
                w\<lparr>rw_model := (if \<not> transfer_paused then set_peer_rtc_error model peer_id PASSIVE_FAILED_MESSAGE else model)\<rparr>
            | (model, PassiveIgnore) \<Rightarrow> w\<lparr>rw_model := model\<rparr>))"
| "fire_timer a (DisconnectedTimer peer peer_id role token) w =
     (if \<not> runtime_peer_is_current w peer_id peer then w
      else if pa_channel_ready a peer then with_model (\<lambda>m. mark_ready_from_runtime m peer_id) w
      else (case claim_disconnected_deadline (rw_model w) peer_id token of
              (model, False) \<Rightarrow> w\<lparr>rw_model := model\<rparr>
            | (model, True) \<Rightarrow>
                if role = RoleOwner
                then start_rtc_offer a peer peer_id (call_peer (PrepareReconnect peer) (w\<lparr>rw_model := model\<rparr>))
                else schedule_passive_recovery_timeout peer peer_id (w\<lparr>rw_model := model\<rparr>)))"
| "fire_timer a (RestartTimer peer peer_id generation) w =
     (if \<not> runtime_peer_is_current w peer_id peer \<or> \<not> rtc_peer_generation_is_current (rw_model w) peer_id generation \<or>
         (case map_of (am_rtc_peer_states (rw_model w)) peer_id of
            None \<Rightarrow> False | Some peer_state \<Rightarrow> pst_phase peer_state = RtcConnecting \<or> pst_phase peer_state = RtcReady)
      then w
      else start_rtc_offer a peer peer_id (call_peer (PrepareReconnect peer) w))"
| "fire_timer a (RestoreTask peer peer_id generation) w =
     (if runtime_peer_is_current w peer_id peer \<and> rtc_peer_generation_is_current (rw_model w) peer_id generation
      then (case finish_outgoing_recovery (rw_model w) peer_id generation of
              (model, finished) \<Rightarrow>
                (case pa_restore a peer peer_id of
                   Inl error \<Rightarrow>
                     w\<lparr>rw_model := (if finished then fst (reduce_app_event model (SetError (Some (friendly_transfer_error error)))) else model)\<rparr>
                 | Inr _ \<Rightarrow> w\<lparr>rw_model := model\<rparr>))
      else w)"

section \<open>The registry of peers\<close>

definition reset_all_rtc_peers :: "rtc_world \<Rightarrow> rtc_world" where
  "reset_all_rtc_peers w =
     (let (registry, peers) = registry_take_all (rw_peers w);
          model0 = rw_model w;
          model1 = (case am_rtc_error model0 of
                      None \<Rightarrow> model0 | Some rtc_error \<Rightarrow> clear_peer_rtc_error model0 (pre_peer_id rtc_error));
          model2 = refresh_aggregate_rtc (model1\<lparr>am_rtc_peer_states := []\<rparr>)
      in fold (\<lambda>peer. call_peer (ResetPeer peer)) peers (w\<lparr>rw_peers := registry, rw_model := model2\<rparr>))"

definition remote_peer_ids :: "app_model \<Rightarrow> (room_role \<times> rstring list) option" where
  "remote_peer_ids model =
     (case am_screen model of
        RoomScreen role snapshot _ _ \<Rightarrow>
          (let remote_role = (if role = RoleOwner then WireReceiver else WireOwner)
           in Some (role, List.map_filter ps_peer_id
                (filter (\<lambda>p. ps_role p = remote_role \<and> ps_online p) (rbr_participants snapshot))))
      | _ \<Rightarrow> None)"

definition remove_rtc_peer :: "rstring \<Rightarrow> rtc_world \<Rightarrow> rtc_world" where
  "remove_rtc_peer peer_id w =
     (let (registry, peer) = registry_remove (rw_peers w) peer_id;
          model1 = clear_peer_rtc_error (rw_model w) peer_id;
          model2 = model1\<lparr>am_rtc_peer_states := AList.delete peer_id (am_rtc_peer_states model1),
                          am_transfers_by_peer := AList.delete peer_id (am_transfers_by_peer model1),
                          am_text_transfers_by_peer := AList.delete peer_id (am_text_transfers_by_peer model1)\<rparr>;
          model3 = (if in_receiver_room (am_screen model2)
                    then model2\<lparr>am_transfer := TransferIdle, am_text_transfer := TextIdle\<rparr> else model2);
          w' = w\<lparr>rw_peers := registry, rw_model := refresh_aggregate_rtc model3\<rparr>
      in case peer of None \<Rightarrow> w' | Some p \<Rightarrow> call_peer (ResetPeer p) w')"

definition ensure_rtc_peer :: "peer_answers \<Rightarrow> rstring \<Rightarrow> rtc_world \<Rightarrow> rtc_world \<times> peer_ref option" where
  "ensure_rtc_peer a peer_id w =
     (case registry_get (rw_peers w) peer_id of
        Some peer \<Rightarrow> (w, Some peer)
      | None \<Rightarrow>
          (let (model, peer_generation) = allocate_rtc_peer_generation (rw_model w) peer_id
           in case pa_new_peer a of
                Inr peer \<Rightarrow>
                  (w\<lparr>rw_model := refresh_aggregate_rtc model, rw_peers := registry_insert (rw_peers w) peer_id peer\<rparr>, Some peer)
              | Inl error \<Rightarrow>
                  (w\<lparr>rw_model := set_peer_rtc_error (fst (mark_peer_start_failed model peer_id peer_generation)) peer_id (friendly_error error)\<rparr>,
                   None)))"

fun remove_stale_peers :: "peer_answers \<Rightarrow> rstring list \<Rightarrow> rtc_world \<Rightarrow> rtc_world" where
  "remove_stale_peers a [] w = w"
| "remove_stale_peers a (peer_id # stale) w =
     (if (case registry_get (rw_peers w) peer_id of None \<Rightarrow> False | Some peer \<Rightarrow> pa_channel_ready a peer \<or> pa_resumable a peer)
      then remove_stale_peers a stale w
      else remove_stale_peers a stale (remove_rtc_peer peer_id w))"

definition sync_one_peer :: "peer_answers \<Rightarrow> room_role \<Rightarrow> rstring \<Rightarrow> rtc_world \<Rightarrow> rtc_world" where
  "sync_one_peer a role peer_id w0 =
     (case ensure_rtc_peer a peer_id w0 of
        (w, None) \<Rightarrow> w
      | (w, Some peer) \<Rightarrow>
          (let phase = map_option pst_phase (map_of (am_rtc_peer_states (rw_model w)) peer_id)
           in if role = RoleOwner
              then if phase = Some RtcWaitingPeer
                   then (let (model, restore_generation) = begin_outgoing_recovery (rw_model w) peer_id;
                             w1 = start_rtc_offer a peer peer_id (w\<lparr>rw_model := model\<rparr>)
                         in case restore_generation of
                              None \<Rightarrow> w1
                            | Some generation \<Rightarrow> spawn_timer 0 (RestoreTask peer peer_id generation) w1)
                   else if phase \<noteq> Some RtcReady \<and>
                     \<not> (case map_of (am_transfers_by_peer (rw_model w)) peer_id of
                          Some (TransferActive _ _ _ _ _ _ _ LinkPaused _) \<Rightarrow> True | _ \<Rightarrow> False)
                   then start_rtc_offer a peer peer_id w
                   else w
              else if phase = Some RtcWaitingPeer then schedule_passive_recovery_timeout peer peer_id w
              else w))"

definition sync_rtc_peers :: "peer_answers \<Rightarrow> nat \<Rightarrow> rtc_world \<Rightarrow> rtc_world" where
  "sync_rtc_peers a target_scope w =
     (case Option.bind (rw_config w) (\<lambda>config. config_for_scope (pa_now_ms a) config target_scope) of
        None \<Rightarrow> w
      | Some config \<Rightarrow>
          (case remote_peer_ids (rw_model w) of
             None \<Rightarrow> w
           | Some (role, desired) \<Rightarrow>
               (let stale = filter (\<lambda>peer_id. peer_id \<notin> set desired) (registry_peer_ids (rw_peers w));
                    w1 = remove_stale_peers a stale w;
                    w2 = fold (sync_one_peer a role) desired w1
                in with_model refresh_aggregate_rtc w2)))"

section \<open>Signals and events\<close>

definition TOO_MANY_SIGNALS_MESSAGE :: rstring where
  "TOO_MANY_SIGNALS_MESSAGE = [0x70B9, 0x5BF9, 0x70B9, 0x534F, 0x5546, 0x6D88, 0x606F, 0x8FC7, 0x591A, 0xFF0C, 0x8BF7, 0x91CD, 0x65B0, 0x8FDB, 0x5165, 0x623F, 0x95F4]"

definition accept_rtc_signal :: "peer_answers \<Rightarrow> nat \<Rightarrow> rstring \<Rightarrow> rstring \<Rightarrow> rtc_signal \<Rightarrow> rtc_world \<Rightarrow> rtc_world" where
  "accept_rtc_signal a target_scope from_peer_id negotiation_id signal w =
     (case Option.bind (rw_config w) (\<lambda>config. config_for_scope (pa_now_ms a) config target_scope) of
        None \<Rightarrow>
          with_model (\<lambda>m. if length (am_pending_signals m) < 64
                          then m\<lparr>am_pending_signals := am_pending_signals m @
                                 [\<lparr>prs_from_peer_id = from_peer_id, prs_negotiation_id = negotiation_id, prs_signal = signal\<rparr>]\<rparr>
                          else fst (reduce_app_event m (SetError (Some TOO_MANY_SIGNALS_MESSAGE)))) w
      | Some config \<Rightarrow>
          (case remote_peer_ids (rw_model w) of
             None \<Rightarrow> w
           | Some (role, remote) \<Rightarrow>
               if from_peer_id \<notin> set remote then w
               else (case ensure_rtc_peer a from_peer_id w of
                       (w1, None) \<Rightarrow> w1
                     | (w1, Some peer) \<Rightarrow>
                         (let w2 = call_peer (AcceptSignal peer from_peer_id negotiation_id signal) w1
                          in case pa_accept_signal a peer from_peer_id negotiation_id signal of
                               Inl error \<Rightarrow>
                                 with_model (\<lambda>m.
                                   set_peer_rtc_error
                                     (case map_of (am_rtc_peer_states m) from_peer_id of
                                        None \<Rightarrow> m
                                      | Some peer_state \<Rightarrow> fst (mark_peer_start_failed m from_peer_id (pst_instance_generation peer_state)))
                                     from_peer_id (friendly_transfer_error error)) w2
                             | Inr accepted \<Rightarrow>
                                 if role = RoleReceiver \<and> is_Offer signal \<and> accepted = SignalScheduled
                                 then schedule_passive_recovery_timeout peer from_peer_id w2
                                 else w2))))"

definition handle_connection_state :: "peer_answers \<Rightarrow> rstring \<Rightarrow> u64 \<Rightarrow> rtc_connection_phase \<Rightarrow> rtc_world \<Rightarrow> rtc_world" where
  "handle_connection_state a peer_id peer_generation phase w =
     (case am_screen (rw_model w) of
        RoomScreen role _ _ _ \<Rightarrow>
          (case registry_get (rw_peers w) peer_id of
             None \<Rightarrow> w
           | Some peer \<Rightarrow>
               (let (model1, recovery1) = reduce_connection_state (rw_model w) peer_id role phase;
                    channel_ready = (phase = ConnConnected \<and> pa_channel_ready a peer);
                    (model, recovery) =
                      (if channel_ready then (mark_ready_from_runtime model1 peer_id, NoRecovery) else (model1, recovery1));
                    w' = w\<lparr>rw_model := model\<rparr>
                in case recovery of
                     NoRecovery \<Rightarrow> w'
                   | ArmPassiveDeadline \<Rightarrow> schedule_passive_recovery_timeout peer peer_id w'
                   | WaitForReconnect token \<Rightarrow> schedule_disconnected_recovery peer peer_id role token w'
                   | RestartOffer \<Rightarrow> spawn_timer 0 (RestartTimer peer peer_id peer_generation) w'))
      | _ \<Rightarrow> w)"

definition NO_CONNECTION_ERROR :: browser_platform_error where
  "NO_CONNECTION_ERROR = BrowserFailure (rstr ''realtime connection is unavailable'')"

definition handle_rtc_event :: "peer_answers \<Rightarrow> rstring \<Rightarrow> u64 \<Rightarrow> rtc_event \<Rightarrow> rtc_world \<Rightarrow> rtc_world" where
  "handle_rtc_event a peer_id peer_generation event w =
     (if \<not> rtc_peer_generation_is_current (rw_model w) peer_id peer_generation then w
      else case event of
        OutboundSignal to_peer_id negotiation_id signal \<Rightarrow>
          (case am_screen (rw_model w) of
             RoomScreen _ snapshot _ _ \<Rightarrow>
               (case (if rw_connected w
                      then pa_send a (ClientSignal CURRENT_PROTOCOL (rbr_room_code snapshot) to_peer_id negotiation_id signal)
                      else Inl NO_CONNECTION_ERROR) of
                  Inl error \<Rightarrow> with_model (\<lambda>m. set_peer_rtc_error m peer_id (friendly_transfer_error error)) w
                | Inr _ \<Rightarrow> w)
           | _ \<Rightarrow> w)
      | ConnectionState phase \<Rightarrow> handle_connection_state a peer_id peer_generation phase w
      | DataChannelReady \<Rightarrow> with_model (\<lambda>m. mark_ready_from_runtime m peer_id) w
      | NegotiationFailed message \<Rightarrow> with_model (\<lambda>m. set_peer_rtc_error m peer_id message) w
      | event \<Rightarrow> with_model (\<lambda>m. fst (handle_transfer_event m (peer_id, event))) w)"

end
