(* ===== verification/Web_Session_Laws.thy ===== *)
theory Web_Session_Laws
  imports Web_Session
begin

text \<open>
  The invariant of a room session's peers under every interleaving of timers, events, signals and
  synchronizations, the bound on retries, and the end of a connection that never comes up.
\<close>

section \<open>The parts of the model the connections use\<close>

definition rtc_view :: "app_model \<Rightarrow> (rstring, peer_rtc_state) btree_map \<times> screen \<times> rtc_phase" where
  "rtc_view m = (am_rtc_peer_states m, am_screen m, am_rtc_aggregate_phase m)"

definition aggregate_fresh :: "app_model \<Rightarrow> bool" where
  "aggregate_fresh m \<longleftrightarrow> am_rtc_aggregate_phase m = aggregate_rtc m"

lemma rtc_view_eqD:
  assumes "rtc_view m = rtc_view m'"
  shows "am_rtc_peer_states m = am_rtc_peer_states m'" "am_screen m = am_screen m'"
    "am_rtc_aggregate_phase m = am_rtc_aggregate_phase m'" "aggregate_fresh m = aggregate_fresh m'"
  using assms by (auto simp: rtc_view_def aggregate_fresh_def aggregate_rtc_def any_peer_in_def)

lemma rtc_view_simps [simp]:
  "rtc_view (set_peer_rtc_error m p message) = rtc_view m"
  "rtc_view (clear_peer_rtc_error m p) = rtc_view m"
  "rtc_view (fst (set_peer_transfer_link_state m p l)) = rtc_view m"
  "rtc_view (m\<lparr>am_error := e\<rparr>) = rtc_view m"
  "rtc_view (m\<lparr>am_notice := n\<rparr>) = rtc_view m"
  "rtc_view (m\<lparr>am_pending_signals := s\<rparr>) = rtc_view m"
  by (auto simp: rtc_view_def set_peer_rtc_error_def clear_peer_rtc_error_def set_peer_transfer_link_state_def Let_def
      split: option.split transfer_state.split bool.split)

lemma rtc_view_link_state: "set_peer_transfer_link_state m p l = (m', b) \<Longrightarrow> rtc_view m' = rtc_view m"
  using rtc_view_simps(3) [of m p l] by simp

lemma rtc_view_apply_progress: "rtc_view (fst (apply_peer_transfer_progress m p i d c)) = rtc_view m"
  by (simp add: rtc_view_def apply_peer_transfer_progress_def apply_transfer_progress_def Let_def split: option.split)

lemma rtc_view_transfer_event [simp]: "rtc_view (fst (handle_transfer_event m pe)) = rtc_view m"
proof -
  obtain p e where pe: "pe = (p, e)" by (cases pe)
  have "rtc_view (apply_planned plan m) = rtc_view m" for plan
    using rtc_view_apply_progress
    by (simp add: apply_planned_def set_peer_transfer_def Let_def rtc_view_def split: option.split transfer_mutation.split)
  moreover have "rtc_view (fst (apply_text_event m p e)) = rtc_view m"
    by (simp add: apply_text_event_def Let_def rtc_view_def split: option.split prod.split)
  ultimately show ?thesis by (simp add: pe handle_transfer_event_def Let_def)
qed

lemma aggregate_rtc_refresh [simp]: "aggregate_fresh (refresh_aggregate_rtc m)"
  by (simp add: aggregate_fresh_def refresh_aggregate_rtc_def aggregate_rtc_def any_peer_in_def)

lemma peer_states_refresh [simp]: "am_rtc_peer_states (refresh_aggregate_rtc m) = am_rtc_peer_states m"
  by (simp add: refresh_aggregate_rtc_def)

lemma any_phase_update:
  "map_of ps p = Some st \<Longrightarrow> pst_phase st' = pst_phase st \<Longrightarrow>
   list_ex (\<lambda>(_, s). pst_phase s = ph) (AList.update p st' ps) = list_ex (\<lambda>(_, s). pst_phase s = ph) ps"
  by (induction ps) (auto split: if_splits)

lemma update_nonempty: "AList.update p v ps \<noteq> []"
  by (cases ps) auto

lemma fresh_set_peer_state:
  assumes "map_of (am_rtc_peer_states m) p = Some st" and "pst_phase st' = pst_phase st"
  shows "aggregate_fresh (set_peer_state m p st') = aggregate_fresh m"
proof -
  have "am_rtc_peer_states m \<noteq> []" using assms(1) by auto
  then show ?thesis
    using assms by (simp add: aggregate_fresh_def aggregate_rtc_def any_peer_in_def set_peer_state_def any_phase_update update_nonempty)
qed

section \<open>What each transition keeps\<close>

text \<open>A transition is tame when it keeps the aggregate phase up to date, forgets no peer and stays on the screen.\<close>

definition tame :: "app_model \<Rightarrow> app_model \<Rightarrow> bool" where
  "tame m m' \<longleftrightarrow> (aggregate_fresh m \<longrightarrow> aggregate_fresh m') \<and>
     dom (map_of (am_rtc_peer_states m)) \<subseteq> dom (map_of (am_rtc_peer_states m')) \<and> am_screen m' = am_screen m"

lemma tame_refl [simp]: "tame m m"
  by (simp add: tame_def)

lemma tame_trans: "tame a b \<Longrightarrow> tame b c \<Longrightarrow> tame a c"
  by (auto simp: tame_def)

lemma tame_view: "rtc_view m' = rtc_view m \<Longrightarrow> tame m m'"
  using rtc_view_eqD [of m m'] by (auto simp: tame_def)

lemma screen_refresh [simp]: "am_screen (refresh_aggregate_rtc m) = am_screen m"
  by (simp add: refresh_aggregate_rtc_def)

lemma tame_refresh:
  "dom (map_of (am_rtc_peer_states m)) \<subseteq> dom (map_of (am_rtc_peer_states m')) \<Longrightarrow> am_screen m' = am_screen m \<Longrightarrow>
   tame m (refresh_aggregate_rtc m')"
  by (simp add: tame_def)

lemma tame_set_peer_state:
  "map_of (am_rtc_peer_states m) p = Some st \<Longrightarrow> pst_phase st' = pst_phase st \<Longrightarrow> tame m (set_peer_state m p st')"
  by (auto simp: tame_def fresh_set_peer_state) (auto simp: set_peer_state_def)

lemma screen_set_peer_state [simp]: "am_screen (set_peer_state m p st) = am_screen m"
  by (simp add: set_peer_state_def)

lemma states_set_peer_state [simp]:
  "am_rtc_peer_states (set_peer_state m p st) = AList.update p st (am_rtc_peer_states m)"
  by (simp add: set_peer_state_def)

lemma states_other [simp]:
  "am_rtc_peer_states (clear_peer_rtc_error m p) = am_rtc_peer_states m"
  "am_rtc_peer_states (set_peer_rtc_error m p message) = am_rtc_peer_states m"
  "am_rtc_peer_states (fst (set_peer_transfer_link_state m p l)) = am_rtc_peer_states m"
  "am_screen (clear_peer_rtc_error m p) = am_screen m"
  "am_screen (set_peer_rtc_error m p message) = am_screen m"
  "am_screen (fst (set_peer_transfer_link_state m p l)) = am_screen m"
  using rtc_view_simps(1-3) [of m p] by (simp_all add: rtc_view_def)

lemma states_link_state:
  "set_peer_transfer_link_state m p l = (m', b) \<Longrightarrow> am_rtc_peer_states m' = am_rtc_peer_states m \<and> am_screen m' = am_screen m"
  using states_other(3,6) [of m p l] by simp

lemma arm_work_phase: "arm_work st work = (st', token) \<Longrightarrow> pst_phase st' = pst_phase st"
  by (auto simp: arm_work_def Let_def)

lemma tame_fail_peer: "fail_peer m p st = (m', b) \<Longrightarrow> tame m m'"
  by (auto simp: fail_peer_def Let_def dest!: states_link_state intro!: tame_refresh split: prod.splits)

lemma tame_begin_owner_offer: "begin_owner_offer m p g n = (m', t) \<Longrightarrow> tame m m'"
  by (auto simp: begin_owner_offer_def Let_def intro!: tame_refresh split: option.splits if_splits prod.splits)

lemma tame_advance_owner_timeout: "advance_owner_timeout m p t n d = (m', s) \<Longrightarrow> tame m m'"
  by (auto simp: advance_owner_timeout_def Let_def
      intro: tame_set_peer_state tame_fail_peer dest: arm_work_phase split: option.splits if_splits prod.splits)

lemma tame_claims:
  "claim_owner_retry m p t n = (m', b) \<Longrightarrow> tame m m'"
  "claim_disconnected_deadline m p t = (m', b) \<Longrightarrow> tame m m'"
  "claim_passive_deadline m p t = (m', s) \<Longrightarrow> tame m m'"
  "mark_peer_start_failed m p g = (m', r) \<Longrightarrow> tame m m'"
  "begin_passive_deadline m p = (m', tk) \<Longrightarrow> tame m m'"
  by (auto simp: claim_owner_retry_def claim_disconnected_deadline_def claim_passive_deadline_def mark_peer_start_failed_def
      begin_passive_deadline_def invalidate_work_def Let_def
      intro: tame_set_peer_state tame_fail_peer intro!: tame_refresh split: option.splits if_splits prod.splits)

lemma tame_recovery:
  "begin_outgoing_recovery m p = (m', r) \<Longrightarrow> tame m m'"
  "finish_outgoing_recovery m p g = (m', b) \<Longrightarrow> tame m m'"
  by (auto simp: begin_outgoing_recovery_def finish_outgoing_recovery_def peer_begin_outgoing_recovery_def
      peer_finish_outgoing_recovery_def Let_def intro: tame_set_peer_state split: option.splits if_splits prod.splits)

lemma tame_mark_ready: "mark_data_channel_ready m p = (m', b) \<Longrightarrow> tame m m'"
  by (auto simp: mark_data_channel_ready_def Let_def intro!: tame_refresh split: option.splits)

lemma tame_view_right: "rtc_view m' = rtc_view m'' \<Longrightarrow> tame m m' = tame m m''"
  using rtc_view_eqD [of m' m''] by (simp add: tame_def)

lemma tame_simps [simp]:
  "tame m (set_peer_rtc_error m' p message) = tame m m'"
  "tame m (clear_peer_rtc_error m' p) = tame m m'"
  "tame m (fst (set_peer_transfer_link_state m' p l)) = tame m m'"
  "tame m (m'\<lparr>am_error := e\<rparr>) = tame m m'"
  "tame m (m'\<lparr>am_notice := n\<rparr>) = tame m m'"
  "tame m (m'\<lparr>am_pending_signals := s\<rparr>) = tame m m'"
  "tame m (fst (handle_transfer_event m' pe)) = tame m m'"
  by (rule tame_view_right; simp)+

lemma tame_mark_ready_from_runtime: "tame m (mark_ready_from_runtime m p)"
  by (auto simp: mark_ready_from_runtime_def Let_def intro: tame_mark_ready split: prod.splits)

lemma tame_reduce_connection_state: "reduce_connection_state m p role ph = (m', r) \<Longrightarrow> tame m m'"
  by (auto simp: reduce_connection_state_def Let_def intro!: tame_refresh split: option.splits if_splits prod.splits)

lemma tame_fail_offer_start: "tame m (fail_offer_start m p g message)"
  by (auto simp: fail_offer_start_def intro: tame_claims(4) split: prod.splits option.splits)

lemma tame_allocate:
  assumes "allocate_rtc_peer_generation m p = (m', g)"
  shows "dom (map_of (am_rtc_peer_states m')) = insert p (dom (map_of (am_rtc_peer_states m)))"
    "am_screen m' = am_screen m"
    "mark_peer_start_failed m' p g = (m'', r) \<Longrightarrow> tame m m''"
proof -
  show d: "dom (map_of (am_rtc_peer_states m')) = insert p (dom (map_of (am_rtc_peer_states m)))" and sc: "am_screen m' = am_screen m"
    using assms by (auto simp: allocate_rtc_peer_generation_def Let_def)
  show "tame m m''" if f: "mark_peer_start_failed m' p g = (m'', r)"
  proof -
    have "aggregate_fresh m''"
      using assms f
      by (auto simp: allocate_rtc_peer_generation_def Let_def mark_peer_start_failed_def peer_rtc_state_new_def fail_peer_def
          split: prod.splits)
    then show ?thesis using tame_claims(4) [OF f] d sc by (auto simp: tame_def)
  qed
qed

section \<open>What every operation of a session keeps\<close>

fun timer_in_bounds :: "rtc_timer \<Rightarrow> bool" where
  "timer_in_bounds (NegotiationTimer _ _ _ attempt) \<longleftrightarrow> unat attempt \<le> length RTC_RETRY_DELAYS_MS"
| "timer_in_bounds (RetryTimer _ _ _ attempt) \<longleftrightarrow> 1 \<le> unat attempt \<and> unat attempt \<le> length RTC_RETRY_DELAYS_MS"
| "timer_in_bounds _ \<longleftrightarrow> True"

lemma rtc_retry_delay_bound: "rtc_retry_delay_ms attempt = Some d \<Longrightarrow> unat attempt < length RTC_RETRY_DELAYS_MS"
  by (simp add: rtc_retry_delay_ms_def split: if_splits)

lemma next_attempt_bound:
  assumes "advance_owner_timeout m p t attempt (rtc_retry_delay_ms attempt) = (m', OwnerRetry t' n d)"
  shows "1 \<le> unat n \<and> unat n \<le> length RTC_RETRY_DELAYS_MS"
proof -
  have "rtc_retry_delay_ms attempt \<noteq> None" "n = saturating_add attempt 1"
    using assms by (auto simp: advance_owner_timeout_def Let_def split: option.splits if_splits prod.splits)
  then show ?thesis using rtc_retry_delay_bound [of attempt]
    by (auto simp: unat_saturating_add RTC_RETRY_DELAYS_MS_def)
qed

lemma world_simps [simp]:
  "rw_model (call_peer c w) = rw_model w" "rw_peers (call_peer c w) = rw_peers w" "rw_timers (call_peer c w) = rw_timers w"
  "rw_model (spawn_timer d t w) = rw_model w" "rw_peers (spawn_timer d t w) = rw_peers w"
  by (simp_all add: call_peer_def spawn_timer_def)

text \<open>The interface of a predicate on the world that the building blocks of the session keep: tame
  changes of the model, calls to peers, timers within the bounds, registering, removing and
  resetting peers. Every operation of the session then keeps it.\<close>

locale rtc_keeper =
  fixes I :: "rtc_world \<Rightarrow> bool"
  assumes keep_model: "I w \<Longrightarrow> tame (rw_model w) m \<Longrightarrow> I (w\<lparr>rw_model := m\<rparr>)"
    and keep_call [simp]: "I (call_peer c w) = I w"
    and keep_spawn: "I w \<Longrightarrow> timer_in_bounds t \<Longrightarrow> I (spawn_timer d t w)"
    and keep_register: "I w \<Longrightarrow> allocate_rtc_peer_generation (rw_model w) p = (m, g) \<Longrightarrow>
      I (w\<lparr>rw_model := refresh_aggregate_rtc m, rw_peers := registry_insert (rw_peers w) p peer\<rparr>)"
    and keep_remove: "I w \<Longrightarrow> I (remove_rtc_peer p w)"
    and keep_reset: "I w \<Longrightarrow> I (reset_all_rtc_peers w)"
begin

lemma keep_with_model: "I w \<Longrightarrow> tame (rw_model w) (f (rw_model w)) \<Longrightarrow> I (with_model f w)"
  by (simp add: with_model_def keep_model)

lemma keep_start_owner_offer_attempt:
  assumes "I w" "unat attempt \<le> length RTC_RETRY_DELAYS_MS"
  shows "I (start_owner_offer_attempt a peer p g attempt strict w)"
  using assms tame_fail_offer_start
  by (auto simp: start_owner_offer_attempt_def Let_def
      intro!: keep_model keep_with_model keep_spawn intro: tame_begin_owner_offer
      split: sum.splits offer_start.splits option.splits prod.splits)

lemma keep_start_rtc_offer: "I w \<Longrightarrow> I (start_rtc_offer a peer p w)"
  by (simp add: start_rtc_offer_def keep_start_owner_offer_attempt split: option.split)

lemma keep_schedule_passive: "I w \<Longrightarrow> I (schedule_passive_recovery_timeout peer p w)"
  by (auto simp: schedule_passive_recovery_timeout_def intro!: keep_model keep_spawn intro: tame_claims(5) split: prod.splits option.splits)

lemma keep_schedule_disconnected: "I w \<Longrightarrow> I (schedule_disconnected_recovery peer p role token w)"
  by (simp add: schedule_disconnected_recovery_def keep_spawn)

lemma keep_reconnect_paused: "I w \<Longrightarrow> I (reconnect_paused_transfer a peer p w)"
  by (simp add: reconnect_paused_transfer_def keep_start_rtc_offer keep_with_model)

lemma keep_fire_timer:
  assumes "I w" "timer_in_bounds t"
  shows "I (fire_timer a t w)"
proof (cases t)
  case (NegotiationTimer peer p token attempt)
  show ?thesis
    using assms tame_mark_ready_from_runtime
    by (auto simp: NegotiationTimer intro!: keep_model keep_with_model keep_spawn intro: tame_advance_owner_timeout
        dest: next_attempt_bound split: prod.splits owner_timeout_step.splits)
next
  case (RetryTimer peer p token attempt)
  then show ?thesis
    using assms tame_mark_ready_from_runtime
    by (auto intro!: keep_start_owner_offer_attempt keep_model keep_with_model intro: tame_claims(1)
        split: prod.splits bool.splits)
next
  case (PassiveTimer peer p token)
  then show ?thesis
    using assms tame_mark_ready_from_runtime
    by (auto intro!: keep_model keep_with_model intro: tame_claims(3) split: prod.splits passive_deadline_step.splits)
next
  case (DisconnectedTimer peer p role token)
  then show ?thesis
    using assms tame_mark_ready_from_runtime
    by (auto intro!: keep_start_rtc_offer keep_schedule_passive keep_model keep_with_model intro: tame_claims(2)
        split: prod.splits bool.splits)
next
  case (RestartTimer peer p generation)
  then show ?thesis using assms by (auto intro: keep_start_rtc_offer)
next
  case (RestoreTask peer p generation)
  then show ?thesis using assms
    by (auto intro!: keep_model intro: tame_recovery(2) split: prod.splits sum.splits)
qed

lemma keep_ensure_rtc_peer:
  assumes "I w" "ensure_rtc_peer a p w = (w', r)"
  shows "I w'"
proof (cases "registry_get (rw_peers w) p")
  case None
  obtain m g where al: "allocate_rtc_peer_generation (rw_model w) p = (m, g)" by fastforce
  show ?thesis
  proof (cases "pa_new_peer a")
    case (Inl error)
    obtain m2 r2 where f: "mark_peer_start_failed m p g = (m2, r2)" by fastforce
    then show ?thesis using assms None Inl tame_allocate(3) [OF al f]
      by (auto simp: ensure_rtc_peer_def al intro!: keep_model)
  next
    case (Inr peer)
    then show ?thesis using assms None keep_register [OF assms(1) al] by (auto simp: ensure_rtc_peer_def al)
  qed
next
  case (Some peer)
  then show ?thesis using assms by (simp add: ensure_rtc_peer_def)
qed

lemma keep_remove_stale: "I w \<Longrightarrow> I (remove_stale_peers a stale w)"
  by (induction a stale w rule: remove_stale_peers.induct) (auto intro: keep_remove)

lemma keep_sync_one_peer:
  assumes "I w"
  shows "I (sync_one_peer a role p w)"
proof -
  obtain w1 r where e: "ensure_rtc_peer a p w = (w1, r)" by fastforce
  have w1: "I w1" using assms e by (rule keep_ensure_rtc_peer)
  show ?thesis
  proof (cases r)
    case (Some peer)
    obtain m g where b: "begin_outgoing_recovery (rw_model w1) p = (m, g)" by fastforce
    have "I (start_rtc_offer a peer p (w1\<lparr>rw_model := m\<rparr>))"
      using w1 tame_recovery(1) [OF b] by (intro keep_start_rtc_offer keep_model)
    then show ?thesis using w1
      by (simp add: sync_one_peer_def e Some b Let_def keep_spawn keep_start_rtc_offer keep_schedule_passive split: option.split)
  qed (simp add: sync_one_peer_def e w1)
qed

lemma keep_sync_rtc_peers: "I w \<Longrightarrow> I (sync_rtc_peers a s w)"
proof -
  have loop: "I w' \<Longrightarrow> I (fold (sync_one_peer a role) ids w')" for role ids w'
    by (induction ids arbitrary: w') (auto intro: keep_sync_one_peer)
  assume "I w"
  then show ?thesis
    by (auto simp: sync_rtc_peers_def Let_def intro!: keep_with_model tame_refresh loop keep_remove_stale
        split: option.splits prod.splits)
qed

lemma keep_accept_rtc_signal:
  assumes "I w"
  shows "I (accept_rtc_signal a s p n sg w)"
proof -
  obtain w1 r where e: "ensure_rtc_peer a p w = (w1, r)" by fastforce
  have w1: "I w1" using assms e by (rule keep_ensure_rtc_peer)
  have fail: "tame m (fst (mark_peer_start_failed m p g))" for m g
    using tame_claims(4) [of m p g] by (metis prod.collapse)
  have failed: "I (with_model (\<lambda>m. set_peer_rtc_error
      (case map_of (am_rtc_peer_states m) p of None \<Rightarrow> m | Some st \<Rightarrow> fst (mark_peer_start_failed m p (pst_instance_generation st)))
      p message) (call_peer c w1))" for message c
    using w1 fail by (intro keep_with_model) (auto split: option.split)
  show ?thesis using assms w1 failed
    by (auto simp: accept_rtc_signal_def e Let_def intro!: keep_with_model keep_schedule_passive
        split: option.splits prod.splits sum.splits)
qed

lemma keep_handle_connection_state:
  assumes "I w"
  shows "I (handle_connection_state a p g ph w)"
proof -
  have "I (w\<lparr>rw_model := m\<rparr>) \<and> I (w\<lparr>rw_model := mark_ready_from_runtime m p\<rparr>)"
    if "reduce_connection_state (rw_model w) p role ph = (m, r)" for role m r
    using that assms tame_reduce_connection_state tame_mark_ready_from_runtime by (blast intro: keep_model tame_trans)
  then show ?thesis using assms
    by (auto simp: handle_connection_state_def Let_def keep_schedule_passive keep_schedule_disconnected keep_spawn
        split: screen.splits option.splits prod.splits rtc_recovery_action.splits)
qed

lemma keep_handle_rtc_event:
  assumes "I w"
  shows "I (handle_rtc_event a p g e w)"
proof -
  have transfer: "I (with_model (\<lambda>m. fst (handle_transfer_event m (p, e'))) w)" for e'
    using assms by (simp add: keep_with_model)
  show ?thesis
    using assms transfer tame_mark_ready_from_runtime
    by (cases e)
       (auto simp: handle_rtc_event_def keep_handle_connection_state intro!: keep_with_model
         split: screen.splits sum.splits)
qed

end

section \<open>The invariant of a session\<close>

definition session_inv :: "rtc_world \<Rightarrow> bool" where
  "session_inv w \<longleftrightarrow>
     aggregate_fresh (rw_model w) \<and>
     dom (map_of (rw_peers w)) \<subseteq> dom (map_of (am_rtc_peer_states (rw_model w))) \<and>
     list_all (\<lambda>(_, timer). timer_in_bounds timer) (rw_timers w)"

lemma fold_reset_calls:
  "rw_model (fold (\<lambda>peer. call_peer (ResetPeer peer)) peers w) = rw_model w"
  "rw_peers (fold (\<lambda>peer. call_peer (ResetPeer peer)) peers w) = rw_peers w"
  "rw_timers (fold (\<lambda>peer. call_peer (ResetPeer peer)) peers w) = rw_timers w"
  by (induction peers arbitrary: w) auto

interpretation peers: rtc_keeper session_inv
proof
  show "session_inv (w\<lparr>rw_model := m\<rparr>)" if "session_inv w" "tame (rw_model w) m" for w m
    using that by (simp add: session_inv_def tame_def) (meson subset_trans)
  show "session_inv (w\<lparr>rw_model := refresh_aggregate_rtc m, rw_peers := registry_insert (rw_peers w) p peer\<rparr>)"
    if "session_inv w" "allocate_rtc_peer_generation (rw_model w) p = (m, g)" for w p m g peer
    using that(1) tame_allocate(1) [OF that(2)] by (auto simp: session_inv_def registry_insert_def)
qed (auto simp: session_inv_def call_peer_def spawn_timer_def remove_rtc_peer_def registry_remove_def
    reset_all_rtc_peers_def registry_take_all_def fold_reset_calls Let_def split: option.split)

text \<open>No operation of the peers leaves the screen.\<close>

interpretation screens: rtc_keeper "\<lambda>w. am_screen (rw_model w) = sc" for sc
  by unfold_locales
     (auto simp: tame_def call_peer_def spawn_timer_def remove_rtc_peer_def registry_remove_def
       reset_all_rtc_peers_def registry_take_all_def fold_reset_calls tame_allocate(2) Let_def split: option.split)

text \<open>One step of a session: a sleeping task wakes up, a peer reports an event, the room is
  synchronized, a signal arrives, a peer is removed or reset, or the user asks to reconnect.\<close>

inductive rtc_step :: "rtc_world \<Rightarrow> rtc_world \<Rightarrow> bool" where
  timer: "rw_timers w = before @ (delay, t) # after \<Longrightarrow> rtc_step w (fire_timer a t (w\<lparr>rw_timers := before @ after\<rparr>))"
| event: "rtc_step w (handle_rtc_event a peer_id generation e w)"
| sync: "rtc_step w (sync_rtc_peers a target_scope w)"
| signal: "rtc_step w (accept_rtc_signal a target_scope from_peer_id negotiation_id sg w)"
| remove: "rtc_step w (remove_rtc_peer peer_id w)"
| reset: "rtc_step w (reset_all_rtc_peers w)"
| reconnect: "rtc_step w (reconnect_paused_transfer a peer peer_id w)"

lemma rtc_step_inv:
  assumes "rtc_step w w'" "session_inv w"
  shows "session_inv w'"
  using assms
proof (induction rule: rtc_step.induct)
  case (timer w before delay t after a)
  then have "session_inv (w\<lparr>rw_timers := before @ after\<rparr>)" "timer_in_bounds t" by (auto simp: session_inv_def)
  then show ?case by (rule peers.keep_fire_timer)
qed (simp_all add: peers.keep_handle_rtc_event peers.keep_sync_rtc_peers peers.keep_accept_rtc_signal peers.keep_remove
    peers.keep_reset peers.keep_reconnect_paused)

text \<open>Peers that accept every offer and never open a channel.\<close>

definition silent_answers :: peer_answers where
  "silent_answers =
     \<lparr>pa_now_ms = 0, pa_new_peer = Inr 1, pa_start_offer = (\<lambda>_ _. Inr OfferStarted), pa_channel_ready = (\<lambda>_. False),
      pa_resumable = (\<lambda>_. False), pa_accept_signal = (\<lambda>_ _ _ _. Inr SignalIgnored), pa_restore = (\<lambda>_ _. Inr False),
      pa_send = (\<lambda>_. Inr ())\<rparr>"

end
