(* ===== verification/Web_Realtime.thy ===== *)
theory Web_Realtime
  imports Web_State Protocol_Realtime
begin

text \<open>
  The realtime connection of the web application: revision cursors of a target
  (\<open>rust/apps/web/src/realtime_target.rs\<close>), the reducer of server events
  (\<open>realtime_event_reducer.rs\<close>) and the state machine of connection leases and retries
  (\<open>realtime_connection.rs\<close>, \<open>realtime_runtime.rs\<close>).

  An \<open>Rc\<close> created to be compared by address is a natural number taken from a counter: as long as a
  handle exists, its address is not given out again.
\<close>

section \<open>Revision cursors and targets\<close>

record revision_cursor =
  cu_last_revision :: u64
  cu_applied_revision :: u64
  cu_awaiting_snapshot :: bool

definition cursor_new :: "u64 \<Rightarrow> revision_cursor" where
  "cursor_new revision = \<lparr>cu_last_revision = revision, cu_applied_revision = revision, cu_awaiting_snapshot = False\<rparr>"

definition cursor_observe :: "u64 \<Rightarrow> revision_cursor \<Rightarrow> revision_cursor" where
  "cursor_observe revision c = c\<lparr>cu_last_revision := max (cu_last_revision c) revision\<rparr>"

definition cursor_mark_applied :: "u64 \<Rightarrow> revision_cursor \<Rightarrow> revision_cursor" where
  "cursor_mark_applied revision c =
     (let c' = cursor_observe revision c
      in c'\<lparr>cu_applied_revision := max (cu_applied_revision c') revision, cu_awaiting_snapshot := False\<rparr>)"

definition cursor_reconcile_applied :: "u64 \<Rightarrow> revision_cursor \<Rightarrow> revision_cursor" where
  "cursor_reconcile_applied revision c =
     (let c' = cursor_observe revision c in c'\<lparr>cu_applied_revision := max (cu_applied_revision c') revision\<rparr>)"

definition cursor_mark_snapshot_pending :: "u64 \<Rightarrow> revision_cursor \<Rightarrow> revision_cursor" where
  "cursor_mark_snapshot_pending revision c = (cursor_observe revision c)\<lparr>cu_awaiting_snapshot := True\<rparr>"

type_synonym target_ref = nat

datatype realtime_target =
    MemberTarget (tg_room_code: rstring) (tg_peer_id: rstring) (tg_cursor: revision_cursor)
  | JoinWatchTarget (tg_room_code: rstring) (tg_request_id: rstring) (tg_cursor: revision_cursor)

fun target_is_member :: "realtime_target \<Rightarrow> bool" where
  "target_is_member (MemberTarget _ _ _) = True"
| "target_is_member (JoinWatchTarget _ _ _) = False"

fun initial_message :: "realtime_target \<Rightarrow> client_realtime_message" where
  "initial_message (MemberTarget room_code peer_id c) =
     AttachRoom CURRENT_PROTOCOL room_code peer_id (Some (cu_applied_revision c))"
| "initial_message (JoinWatchTarget room_code request_id c) =
     WatchJoinRequest CURRENT_PROTOCOL room_code request_id (Some (cu_applied_revision c))"

fun update_revision :: "(revision_cursor \<Rightarrow> revision_cursor) \<Rightarrow> realtime_target \<Rightarrow> realtime_target" where
  "update_revision f (MemberTarget room_code peer_id c) = MemberTarget room_code peer_id (f c)"
| "update_revision f (JoinWatchTarget room_code request_id c) = JoinWatchTarget room_code request_id (f c)"

definition same_optional_target_instance :: "target_ref option \<Rightarrow> target_ref option \<Rightarrow> bool" where
  "same_optional_target_instance left right \<longleftrightarrow> left = right"

definition member_target :: "rstring \<Rightarrow> u64 \<Rightarrow> rstring \<Rightarrow> realtime_target" where
  "member_target room_code last_revision peer_id = MemberTarget room_code peer_id (cursor_new last_revision)"

definition join_watch_target :: "rstring \<Rightarrow> rstring \<Rightarrow> u64 \<Rightarrow> realtime_target" where
  "join_watch_target room_code request_id last_revision = JoinWatchTarget room_code request_id (cursor_new last_revision)"

section \<open>The event reducer\<close>

definition JOIN_REJECTED_NOTICE :: rstring where
  "JOIN_REJECTED_NOTICE = [0x53D1, 0x9001, 0x8005, 0x672A, 0x5141, 0x8BB8, 0x672C, 0x6B21, 0x52A0, 0x5165, 0x7533, 0x8BF7]"

definition ROOM_EXPIRED_NOTICE :: rstring where
  "ROOM_EXPIRED_NOTICE = [0x623F, 0x95F4, 0x5DF2, 0x8FC7, 0x671F, 0xFF0C, 0x8BF7, 0x521B, 0x5EFA, 0x6216, 0x52A0, 0x5165, 0x65B0, 0x7684, 0x623F, 0x95F4]"

datatype revision_step_outcome = StepIgnore | StepApply | StepRefreshSnapshot

definition revision_step :: "u64 \<Rightarrow> u64 \<Rightarrow> revision_step_outcome" where
  "revision_step current incoming =
     (if incoming \<le> current then StepIgnore
      else if checked_add current 1 = Some incoming then StepApply
      else StepRefreshSnapshot)"

fun screen_revision :: "screen \<Rightarrow> u64 option" where
  "screen_revision (Waiting _ _ _ revision _) = Some revision"
| "screen_revision (RoomScreen _ snapshot _ _) = Some (rbr_revision snapshot)"
| "screen_revision _ = None"

datatype attachment_decision =
    AttachmentIgnore
  | AttachmentReady u64 u64 bool
  | AttachmentAwaitSnapshot u64 u64

definition reduce_attachment :: "app_model \<Rightarrow> u64 \<Rightarrow> bool \<Rightarrow> attachment_decision" where
  "reduce_attachment model incoming_revision member =
     (case screen_revision (am_screen model) of
        None \<Rightarrow> AttachmentIgnore
      | Some local_revision \<Rightarrow>
          if local_revision = incoming_revision then AttachmentReady local_revision incoming_revision member
          else AttachmentAwaitSnapshot local_revision incoming_revision)"

definition snapshot_revision_allowed :: "u64 \<Rightarrow> u64 \<Rightarrow> u64 \<Rightarrow> bool" where
  "snapshot_revision_allowed local_revision observed_revision incoming_revision \<longleftrightarrow>
     local_revision \<le> incoming_revision \<and> observed_revision \<le> incoming_revision"

datatype revisioned_model_event =
    EvJoinRequested join_request_snapshot
  | EvJoinDecided rstring join_decision_wire
  | EvPeerOnline rstring rstring
  | EvPeerOffline rstring

datatype realtime_effect =
    SetRealtimePhase realtime_phase
  | EffSetError rstring
  | MarkTargetRevisionApplied u64
  | ResolveWaiting
  | ReturnToLobby rstring
  | SyncRtcPeers
  | RefreshRoomSnapshot
  | RemoveRtcPeer rstring
  | SuppressRealtimeConnection
  | ReconnectSocket
  | AcceptRtcSignal rstring rstring rtc_signal

text \<open>The first participant with the given session is changed, as \<open>iter_mut().find()\<close> does.\<close>

fun update_participant ::
  "rstring \<Rightarrow> (participant_snapshot \<Rightarrow> participant_snapshot) \<Rightarrow> participant_snapshot list \<Rightarrow> participant_snapshot list" where
  "update_participant session_id f [] = []"
| "update_participant session_id f (p # ps) =
     (if ps_session_id p = session_id then f p # ps else p # update_participant session_id f ps)"

definition reduce_join_requested :: "app_model \<Rightarrow> u64 \<Rightarrow> join_request_snapshot \<Rightarrow> app_model \<times> realtime_effect list" where
  "reduce_join_requested model revision request =
     (case am_screen model of
        RoomScreen RoleOwner snapshot invite invite_request_id \<Rightarrow>
          (let pending = rbr_pending_join_requests snapshot;
               pending' = (if list_ex (\<lambda>r. jq_request_id r = jq_request_id request) pending then pending else pending @ [request])
           in (model\<lparr>am_screen := RoomScreen RoleOwner
                  (snapshot\<lparr>rbr_revision := revision, rbr_pending_join_requests := pending'\<rparr>) invite invite_request_id\<rparr>,
               [MarkTargetRevisionApplied revision]))
      | _ \<Rightarrow> (model, []))"

definition reduce_join_decided :: "app_model \<Rightarrow> u64 \<Rightarrow> rstring \<Rightarrow> join_decision_wire \<Rightarrow> app_model \<times> realtime_effect list" where
  "reduce_join_decided model0 revision request_id decision =
     (let model = (if am_decision_request_id model0 = Some request_id then model0\<lparr>am_decision_request_id := None\<rparr> else model0)
      in case am_screen model of
           Waiting room_code current peer_id _ expires_at_ms \<Rightarrow>
             if current = request_id
             then (model\<lparr>am_screen := Waiting room_code current peer_id revision expires_at_ms\<rparr>,
                   [MarkTargetRevisionApplied revision,
                    case decision of WireApproved \<Rightarrow> ResolveWaiting | WireRejected \<Rightarrow> ReturnToLobby JOIN_REJECTED_NOTICE])
             else (model, [])
         | RoomScreen role snapshot invite invite_request_id \<Rightarrow>
             (model\<lparr>am_screen := RoomScreen role
                (snapshot\<lparr>rbr_revision := revision,
                          rbr_pending_join_requests := filter (\<lambda>r. jq_request_id r \<noteq> request_id) (rbr_pending_join_requests snapshot)\<rparr>)
                invite invite_request_id\<rparr>,
              [MarkTargetRevisionApplied revision])
         | _ \<Rightarrow> (model, []))"

definition reduce_peer_online :: "app_model \<Rightarrow> u64 \<Rightarrow> rstring \<Rightarrow> rstring \<Rightarrow> app_model \<times> realtime_effect list" where
  "reduce_peer_online model revision session_id peer_id =
     (case am_screen model of
        RoomScreen role snapshot invite invite_request_id \<Rightarrow>
          (model\<lparr>am_screen := RoomScreen role
             (snapshot\<lparr>rbr_revision := revision,
                       rbr_participants := update_participant session_id (\<lambda>p. p\<lparr>ps_online := True, ps_peer_id := Some peer_id\<rparr>)
                                             (rbr_participants snapshot)\<rparr>)
             invite invite_request_id\<rparr>,
           [MarkTargetRevisionApplied revision, SyncRtcPeers, RefreshRoomSnapshot])
      | _ \<Rightarrow> (model, [SyncRtcPeers]))"

definition reduce_peer_offline :: "app_model \<Rightarrow> u64 \<Rightarrow> rstring \<Rightarrow> app_model \<times> realtime_effect list" where
  "reduce_peer_offline model revision session_id =
     (case am_screen model of
        RoomScreen role snapshot invite invite_request_id \<Rightarrow>
          (let own_session_id = map_option sr_session_id (am_session model);
               remote_peer_id =
                 (if own_session_id \<noteq> Some session_id
                  then Option.bind (find (\<lambda>p. ps_session_id p = session_id) (rbr_participants snapshot)) ps_peer_id
                  else None);
               snapshot' = snapshot\<lparr>rbr_revision := revision,
                 rbr_participants := update_participant session_id (\<lambda>p. p\<lparr>ps_online := False, ps_peer_id := None\<rparr>)
                                       (rbr_participants snapshot)\<rparr>
           in (model\<lparr>am_screen := RoomScreen role snapshot' invite invite_request_id\<rparr>,
               [MarkTargetRevisionApplied revision] @
               (case remote_peer_id of None \<Rightarrow> [] | Some peer_id \<Rightarrow> [RemoveRtcPeer peer_id]) @ [RefreshRoomSnapshot]))
      | _ \<Rightarrow> (model, []))"

fun reduce_revisioned_model_event ::
  "app_model \<Rightarrow> u64 \<Rightarrow> revisioned_model_event \<Rightarrow> app_model \<times> realtime_effect list" where
  "reduce_revisioned_model_event model revision (EvJoinRequested request) = reduce_join_requested model revision request"
| "reduce_revisioned_model_event model revision (EvJoinDecided request_id decision) =
     reduce_join_decided model revision request_id decision"
| "reduce_revisioned_model_event model revision (EvPeerOnline session_id peer_id) =
     reduce_peer_online model revision session_id peer_id"
| "reduce_revisioned_model_event model revision (EvPeerOffline session_id) = reduce_peer_offline model revision session_id"

definition reduce_room_expired :: "app_model \<Rightarrow> u64 \<Rightarrow> realtime_effect list" where
  "reduce_room_expired model revision =
     (if (case screen_revision (am_screen model) of None \<Rightarrow> False | Some current \<Rightarrow> current \<le> revision)
      then [MarkTargetRevisionApplied revision, ReturnToLobby ROOM_EXPIRED_NOTICE]
      else [])"

definition reduce_server_error :: "rstring \<Rightarrow> rstring \<Rightarrow> realtime_effect list" where
  "reduce_server_error code message =
     (if code = rstr ''join_request_resolved'' then [ResolveWaiting]
      else if code = rstr ''connection_replaced'' then [SuppressRealtimeConnection]
      else [EffSetError message])"

definition reduce_signal :: "rstring \<Rightarrow> rstring \<Rightarrow> rtc_signal \<Rightarrow> realtime_effect list" where
  "reduce_signal from_peer_id negotiation_id signal = [AcceptRtcSignal from_peer_id negotiation_id signal]"

definition reduce_socket_opened :: "realtime_effect list" where
  "reduce_socket_opened = [SetRealtimePhase RealtimeConnecting]"

definition reduce_socket_error :: "rstring \<Rightarrow> realtime_effect list" where
  "reduce_socket_error error = [SetRealtimePhase RealtimeReconnecting, EffSetError error]"

definition reduce_socket_closed :: "u16 \<Rightarrow> bool \<Rightarrow> realtime_effect list" where
  "reduce_socket_closed code has_target =
     (if code = 4001 then [SuppressRealtimeConnection] else if has_target then [ReconnectSocket] else [])"

fun waiting_request_missing :: "screen \<Rightarrow> room_bootstrap_response \<Rightarrow> bool" where
  "waiting_request_missing (Waiting _ request_id _ _ _) snapshot =
     (\<not> list_ex (\<lambda>r. jq_request_id r = request_id) (rbr_pending_join_requests snapshot))"
| "waiting_request_missing _ snapshot = False"

definition online_receivers :: "room_bootstrap_response \<Rightarrow> rstring list" where
  "online_receivers snapshot =
     map ps_session_id (filter (\<lambda>p. ps_role p = WireReceiver \<and> ps_online p) (rbr_participants snapshot))"

definition push_missing :: "rstring \<Rightarrow> rstring list \<Rightarrow> rstring list" where
  "push_missing x xs = (if x \<in> set xs then xs else xs @ [x])"

definition reduce_authoritative_snapshot ::
  "app_model \<Rightarrow> room_bootstrap_response \<Rightarrow> app_model \<times> rstring list option" where
  "reduce_authoritative_snapshot model new_snapshot =
     (case am_screen model of
        RoomScreen role snapshot invite invite_request_id \<Rightarrow>
          if rbr_revision new_snapshot < rbr_revision snapshot then (model, None)
          else if snapshot = new_snapshot then (model, Some [])
          else (let previous_online = online_receivers snapshot;
                    entering = (if role = RoleOwner
                                then filter (\<lambda>s. s \<notin> set previous_online) (online_receivers new_snapshot) else [])
                in (model\<lparr>am_screen := RoomScreen role new_snapshot invite invite_request_id,
                          am_entering_receivers := fold push_missing entering (am_entering_receivers model)\<rparr>,
                    Some entering))
      | Waiting room_code request_id peer_id revision expires_at_ms \<Rightarrow>
          if rbr_revision new_snapshot < revision then (model, None)
          else (model\<lparr>am_screen := Waiting room_code request_id peer_id (rbr_revision new_snapshot) expires_at_ms\<rparr>, Some [])
      | _ \<Rightarrow> (model, Some []))"

section \<open>Leases and retries\<close>

record realtime_lease =
  ls_generation :: nat
  ls_target :: target_ref

record retry_ticket =
  tk_generation :: nat
  tk_retry_token :: nat
  tk_attempt :: u32
  tk_target :: target_ref

record connection_state =
  cs_generation :: nat
  cs_backoff_attempt :: u32
  cs_retry_token :: nat
  cs_active_target :: "target_ref option"
  cs_suppressed :: "(nat \<times> target_ref) option"
  cs_fresh :: nat

definition default_connection_state :: connection_state where
  "default_connection_state =
     \<lparr>cs_generation = 0, cs_backoff_attempt = 0, cs_retry_token = 1, cs_active_target = None, cs_suppressed = None, cs_fresh = 2\<rparr>"

datatype begin_connection = BeginDisconnected | BeginSuppressed | BeginConnect realtime_lease u32

definition new_generation :: "connection_state \<Rightarrow> connection_state" where
  "new_generation c = c\<lparr>cs_generation := cs_fresh c, cs_fresh := cs_fresh c + 1\<rparr>"

definition new_retry_token :: "connection_state \<Rightarrow> connection_state" where
  "new_retry_token c = c\<lparr>cs_retry_token := cs_fresh c, cs_fresh := cs_fresh c + 1\<rparr>"

definition target_is_suppressed :: "connection_state \<Rightarrow> target_ref \<Rightarrow> bool" where
  "target_is_suppressed c target \<longleftrightarrow> (case cs_suppressed c of None \<Rightarrow> False | Some (_, t) \<Rightarrow> t = target)"

definition conn_begin :: "target_ref option \<Rightarrow> connection_state \<Rightarrow> connection_state \<times> begin_connection" where
  "conn_begin target c0 =
     (let c1 = new_generation c0;
          c2 = (if \<not> same_optional_target_instance (cs_active_target c1) target
                then (new_retry_token (c1\<lparr>cs_backoff_attempt := 0\<rparr>))\<lparr>cs_suppressed := None\<rparr> else c1);
          c3 = c2\<lparr>cs_active_target := target\<rparr>
      in case target of
           None \<Rightarrow> (c3, BeginDisconnected)
         | Some t \<Rightarrow>
             if target_is_suppressed c3 t then (c3, BeginSuppressed)
             else (c3, BeginConnect \<lparr>ls_generation = cs_generation c3, ls_target = t\<rparr> (cs_backoff_attempt c3)))"

definition current_lease :: "connection_state \<Rightarrow> target_ref \<Rightarrow> realtime_lease option" where
  "current_lease c target =
     (if cs_active_target c \<noteq> Some target \<or> target_is_suppressed c target then None
      else Some \<lparr>ls_generation = cs_generation c, ls_target = target\<rparr>)"

definition lease_is_current :: "connection_state \<Rightarrow> realtime_lease \<Rightarrow> bool" where
  "lease_is_current c lease \<longleftrightarrow>
     cs_generation c = ls_generation lease \<and> cs_active_target c = Some (ls_target lease) \<and>
     \<not> target_is_suppressed c (ls_target lease)"

definition conn_invalidate :: "connection_state \<Rightarrow> connection_state" where
  "conn_invalidate c = new_generation c"

definition conn_mark_connected :: "realtime_lease \<Rightarrow> connection_state \<Rightarrow> connection_state \<times> bool" where
  "conn_mark_connected lease c =
     (if \<not> lease_is_current c lease then (c, False)
      else (new_retry_token (c\<lparr>cs_backoff_attempt := 0\<rparr>), True))"

definition conn_retry_ticket :: "connection_state \<Rightarrow> realtime_lease \<Rightarrow> retry_ticket option" where
  "conn_retry_ticket c lease =
     (if lease_is_current c lease
      then Some \<lparr>tk_generation = ls_generation lease, tk_retry_token = cs_retry_token c,
                 tk_attempt = cs_backoff_attempt c, tk_target = ls_target lease\<rparr>
      else None)"

definition conn_claim_reconnect_timer ::
  "retry_ticket \<Rightarrow> realtime_phase \<Rightarrow> connection_state \<Rightarrow> connection_state \<times> bool" where
  "conn_claim_reconnect_timer ticket phase c =
     (if phase \<noteq> RealtimeReconnecting \<or> cs_generation c \<noteq> tk_generation ticket \<or> cs_retry_token c \<noteq> tk_retry_token ticket \<or>
         cs_backoff_attempt c \<noteq> tk_attempt ticket \<or> cs_active_target c \<noteq> Some (tk_target ticket) \<or>
         target_is_suppressed c (tk_target ticket)
      then (c, False)
      else (new_retry_token (c\<lparr>cs_backoff_attempt := saturating_add (cs_backoff_attempt c) 1\<rparr>), True))"

definition conn_suppress :: "realtime_lease \<Rightarrow> connection_state \<Rightarrow> connection_state \<times> bool" where
  "conn_suppress lease c =
     (if \<not> lease_is_current c lease then (c, False)
      else (c\<lparr>cs_suppressed := Some (ls_generation lease, ls_target lease)\<rparr>, True))"

definition suppression_is_current :: "connection_state \<Rightarrow> realtime_lease \<Rightarrow> bool" where
  "suppression_is_current c lease \<longleftrightarrow>
     cs_generation c = ls_generation lease \<and> cs_suppressed c = Some (ls_generation lease, ls_target lease)"

definition saturating_mul :: "'a::len word \<Rightarrow> 'a word \<Rightarrow> 'a word" where
  "saturating_mul a b = (case checked_mul a b of None \<Rightarrow> - 1 | Some c \<Rightarrow> c)"

definition ticket_delay_ms :: "retry_ticket \<Rightarrow> u32" where
  "ticket_delay_ms ticket = saturating_mul 500 (push_bit (unat (min (tk_attempt ticket) 4)) 1)"

definition next_trigger :: "u64 \<Rightarrow> u64" where
  "next_trigger current = current + 1"

end
