(* ===== verification/Web_Realtime_Session.thy ===== *)
theory Web_Realtime_Session
  imports Web_Realtime Web_Session
begin

text \<open>
  The realtime session of the web application (\<open>rust/apps/web/src/realtime_session.rs\<close>,
  \<open>realtime_connection.rs\<close>, \<open>browser_lifecycle.rs\<close>, \<open>app_runtime.rs\<close>, the effect and expiry of
  \<open>rtc_config.rs\<close>): what a socket event, a server message, a finished request, a timer or a
  lifecycle event of the browser does to the whole session.

  The state \<open>realtime_world\<close> holds the peers' world, the current target and the heap of targets, the
  connection state machine, the trigger of the connection effect, the lifecycle state, the stored
  room session, whether the upgrade prompt is shown, and the spawned tasks. A task fires at any later
  moment; the answer of an HTTP request is an argument of the step that resumes after it.
\<close>

section \<open>The world of a realtime session\<close>

datatype lifecycle_event = LifeHidden | LifeVisible u64 | LifeOffline | LifeOnline | LifeResumed u64 | LifeAppUpdate

record lifecycle_recovery =
  lr_target :: target_ref
  lr_rebuild :: bool

record lifecycle_state =
  lc_hidden :: bool
  lc_network_recovery_pending :: bool
  lc_recovery :: "lifecycle_recovery option"

datatype realtime_task =
    ReconnectTask retry_ticket
  | SocketClearTask realtime_lease
  | SuppressedClearTask realtime_lease
  | JoinStatusTask realtime_lease rstring rstring rstring
  | ApprovedBootstrapTask realtime_lease rstring rstring rstring
  | RefreshSnapshotTask realtime_lease rstring
  | LifecycleRefreshTask "realtime_lease option" rstring
  | AvatarCleanupTask rstring
  | ConfigExpiryTask target_ref rtc_config_lease

record realtime_world =
  rs_rtc :: rtc_world
  rs_target :: "target_ref option"
  rs_targets :: "(target_ref, realtime_target) hash_map"
  rs_next_target :: target_ref
  rs_conn :: connection_state
  rs_trigger :: u64
  rs_lifecycle :: lifecycle_state
  rs_stored :: "stored_room_session option"
  rs_upgrade_prompt :: bool
  rs_tasks :: "realtime_task list"

definition rs_model :: "realtime_world \<Rightarrow> app_model" where
  "rs_model w = rw_model (rs_rtc w)"

definition on_rtc :: "(rtc_world \<Rightarrow> rtc_world) \<Rightarrow> realtime_world \<Rightarrow> realtime_world" where
  "on_rtc f w = w\<lparr>rs_rtc := f (rs_rtc w)\<rparr>"

definition on_model :: "(app_model \<Rightarrow> app_model) \<Rightarrow> realtime_world \<Rightarrow> realtime_world" where
  "on_model f w = on_rtc (with_model f) w"

definition spawn_task :: "realtime_task \<Rightarrow> realtime_world \<Rightarrow> realtime_world" where
  "spawn_task t w = w\<lparr>rs_tasks := rs_tasks w @ [t]\<rparr>"

definition dispatch_app_event :: "app_event \<Rightarrow> realtime_world \<Rightarrow> realtime_world" where
  "dispatch_app_event event w =
     (let (model, effects) = reduce_app_event (rs_model w) event
      in (on_model (\<lambda>_. model) w)\<lparr>rs_upgrade_prompt := (rs_upgrade_prompt w \<or> ShowUpgradePrompt \<in> set effects)\<rparr>)"

text \<open>The revision cell of the current target is changed through its shared allocation.\<close>

definition update_target :: "(revision_cursor \<Rightarrow> revision_cursor) \<Rightarrow> realtime_world \<Rightarrow> realtime_world" where
  "update_target f w =
     (case rs_target w of
        None \<Rightarrow> w
      | Some t \<Rightarrow> w\<lparr>rs_targets := map (\<lambda>(k, v). (k, if k = t then update_revision f v else v)) (rs_targets w)\<rparr>)"

definition current_target :: "realtime_world \<Rightarrow> realtime_target option" where
  "current_target w = Option.bind (rs_target w) (map_of (rs_targets w))"

definition set_new_target :: "realtime_target \<Rightarrow> realtime_world \<Rightarrow> realtime_world" where
  "set_new_target target w =
     w\<lparr>rs_target := Some (rs_next_target w), rs_targets := (rs_next_target w, target) # rs_targets w,
        rs_next_target := rs_next_target w + 1\<rparr>"

definition realtime_lease_is_current :: "realtime_world \<Rightarrow> realtime_lease \<Rightarrow> bool" where
  "realtime_lease_is_current w lease \<longleftrightarrow> rs_target w = Some (ls_target lease) \<and> lease_is_current (rs_conn w) lease"

definition realtime_target_is_suppressed :: "realtime_world \<Rightarrow> bool" where
  "realtime_target_is_suppressed w \<longleftrightarrow> (case rs_target w of None \<Rightarrow> False | Some t \<Rightarrow> target_is_suppressed (rs_conn w) t)"

definition mark_realtime_connected :: "realtime_lease \<Rightarrow> realtime_world \<Rightarrow> realtime_world \<times> bool" where
  "mark_realtime_connected lease w =
     (let (conn, connected) = conn_mark_connected lease (rs_conn w) in (w\<lparr>rs_conn := conn\<rparr>, connected))"

definition schedule_reconnect :: "realtime_lease \<Rightarrow> realtime_world \<Rightarrow> realtime_world" where
  "schedule_reconnect lease w =
     (case conn_retry_ticket (rs_conn w) lease of None \<Rightarrow> w | Some ticket \<Rightarrow> spawn_task (ReconnectTask ticket) w)"

section \<open>Lifecycle recovery\<close>

definition lifecycle_sync_target :: "target_ref option \<Rightarrow> lifecycle_state \<Rightarrow> lifecycle_state" where
  "lifecycle_sync_target target s =
     (case lc_recovery s of
        None \<Rightarrow> s | Some recovery \<Rightarrow> if target = Some (lr_target recovery) then s else s\<lparr>lc_recovery := None\<rparr>)"

definition lifecycle_begin_recovery :: "target_ref \<Rightarrow> bool \<Rightarrow> lifecycle_state \<Rightarrow> lifecycle_state" where
  "lifecycle_begin_recovery target rebuild_peers s0 =
     (let s = lifecycle_sync_target (Some target) s0
      in case lc_recovery s of
           Some recovery \<Rightarrow> s\<lparr>lc_recovery := Some (recovery\<lparr>lr_rebuild := lr_rebuild recovery \<or> rebuild_peers\<rparr>)\<rparr>
         | None \<Rightarrow> s\<lparr>lc_recovery := Some \<lparr>lr_target = target, lr_rebuild = rebuild_peers\<rparr>\<rparr>)"

definition lifecycle_take_recovery :: "target_ref \<Rightarrow> lifecycle_state \<Rightarrow> lifecycle_state \<times> bool option" where
  "lifecycle_take_recovery target s =
     (case lc_recovery s of
        None \<Rightarrow> (s, None)
      | Some recovery \<Rightarrow> (s\<lparr>lc_recovery := None\<rparr>, if lr_target recovery = target then Some (lr_rebuild recovery) else None))"

datatype lifecycle_recovery_action = LifeNone | LifeControlPlane | LifeRebuildResumablePeers

definition BACKGROUND_CONTROL_RECOVERY_MS :: u64 where "BACKGROUND_CONTROL_RECOVERY_MS = 15000"
definition SLEEP_RESUME_GAP_MS :: u64 where "SLEEP_RESUME_GAP_MS = 15000"

fun lifecycle_recovery_action_of :: "lifecycle_event \<Rightarrow> lifecycle_state \<Rightarrow> lifecycle_recovery_action" where
  "lifecycle_recovery_action_of LifeOnline s = LifeRebuildResumablePeers"
| "lifecycle_recovery_action_of (LifeVisible hidden_ms) s =
     (if lc_network_recovery_pending s then LifeRebuildResumablePeers
      else if BACKGROUND_CONTROL_RECOVERY_MS \<le> hidden_ms then LifeControlPlane
      else LifeNone)"
| "lifecycle_recovery_action_of (LifeResumed gap_ms) s =
     (if \<not> lc_hidden s \<and> SLEEP_RESUME_GAP_MS \<le> gap_ms then LifeRebuildResumablePeers else LifeNone)"
| "lifecycle_recovery_action_of _ s = LifeNone"

fun lifecycle_note_event :: "lifecycle_event \<Rightarrow> lifecycle_recovery_action \<Rightarrow> lifecycle_state \<Rightarrow> lifecycle_state" where
  "lifecycle_note_event LifeHidden action s = s\<lparr>lc_hidden := True\<rparr>"
| "lifecycle_note_event (LifeVisible _) action s =
     (let s' = s\<lparr>lc_hidden := False\<rparr> in if action \<noteq> LifeNone then s'\<lparr>lc_network_recovery_pending := False\<rparr> else s')"
| "lifecycle_note_event LifeOffline action s = s\<lparr>lc_network_recovery_pending := True\<rparr>"
| "lifecycle_note_event LifeOnline action s =
     (if action \<noteq> LifeNone then s\<lparr>lc_network_recovery_pending := False\<rparr> else s)"
| "lifecycle_note_event _ action s = s"

definition complete_lifecycle_recovery ::
  "peer_answers \<Rightarrow> target_ref \<Rightarrow> bool \<Rightarrow> realtime_world \<Rightarrow> realtime_world \<times> bool" where
  "complete_lifecycle_recovery a target allow_peer_rebuild w0 =
     (let (lifecycle, recovery) = lifecycle_take_recovery target (rs_lifecycle w0);
          w = w0\<lparr>rs_lifecycle := lifecycle\<rparr>
      in case recovery of
           None \<Rightarrow> (w, False)
         | Some should_rebuild \<Rightarrow>
             if \<not> allow_peer_rebuild \<or> \<not> should_rebuild then (w, True)
             else (let peers = filter (\<lambda>(_, peer). pa_resumable a peer \<or> \<not> pa_channel_ready a peer) (rw_peers (rs_rtc w));
                       w1 = on_model (\<lambda>m. fold (\<lambda>(peer_id, _) m. fst (reset_peer_waiting m peer_id)) peers m) w
                   in (on_rtc (fold (\<lambda>(_, peer). call_peer (PrepareReconnect peer)) peers) w1, True)))"

section \<open>Snapshots and attachments\<close>

definition CONNECTION_RESTORED_NOTICE :: rstring where
  "CONNECTION_RESTORED_NOTICE = [0x8FDE, 0x63A5, 0x5DF2, 0x6062, 0x590D]"

definition complete_attachment :: "peer_answers \<Rightarrow> realtime_lease \<Rightarrow> bool \<Rightarrow> realtime_world \<Rightarrow> realtime_world" where
  "complete_attachment a lease member w0 =
     (let (w1, lifecycle_recovered) = complete_lifecycle_recovery a (ls_target lease) member w0;
          w2 = on_model (\<lambda>m. fst (reduce_app_event m (SetRealtime RealtimeConnected))) w1;
          w3 = (if lifecycle_recovered
                then on_model (\<lambda>m. fst (reduce_app_event m (SetNotice (Some CONNECTION_RESTORED_NOTICE)))) w2 else w2)
      in if member then on_rtc (sync_rtc_peers a (ls_target lease)) w3 else w3)"

definition apply_authoritative_snapshot ::
  "peer_answers \<Rightarrow> realtime_lease \<Rightarrow> room_bootstrap_response \<Rightarrow> realtime_world \<Rightarrow> realtime_world \<times> rstring list option" where
  "apply_authoritative_snapshot a lease snapshot w =
     (if \<not> realtime_lease_is_current w lease then (w, None)
      else (let local_revision = (case screen_revision (am_screen (rs_model w)) of None \<Rightarrow> 0 | Some r \<Rightarrow> r);
                target_floor = (case current_target w of None \<Rightarrow> 0 | Some t \<Rightarrow> cu_last_revision (tg_cursor t))
            in if \<not> snapshot_revision_allowed local_revision target_floor (rbr_revision snapshot) then (w, None)
               else (let attachment_waiting =
                           (case current_target w of
                              None \<Rightarrow> None
                            | Some t \<Rightarrow> if \<not> cu_awaiting_snapshot (tg_cursor t) then None else Some (target_is_member t));
                         (model, entering) = reduce_authoritative_snapshot (rs_model w) snapshot;
                         w1 = on_model (\<lambda>_. model) w
                     in case entering of
                          None \<Rightarrow> (w1, None)
                        | Some ids \<Rightarrow>
                            (let w2 = update_target (cursor_mark_applied (rbr_revision snapshot)) w1
                             in case attachment_waiting of
                                  Some member \<Rightarrow>
                                    (let (w3, connected) = mark_realtime_connected lease w2
                                     in if connected then (complete_attachment a lease member w3, Some ids)
                                        else (on_rtc (sync_rtc_peers a (ls_target lease)) w3, Some ids))
                                | None \<Rightarrow> (on_rtc (sync_rtc_peers a (ls_target lease)) w2, Some ids)))))"

definition schedule_avatar_cleanup :: "rstring list \<Rightarrow> realtime_world \<Rightarrow> realtime_world" where
  "schedule_avatar_cleanup session_ids w = fold (\<lambda>s. spawn_task (AvatarCleanupTask s)) session_ids w"

definition resolve_waiting :: "realtime_lease \<Rightarrow> realtime_world \<Rightarrow> realtime_world" where
  "resolve_waiting lease w =
     (case am_screen (rs_model w) of
        Waiting room_code request_id peer_id _ _ \<Rightarrow> spawn_task (JoinStatusTask lease room_code request_id peer_id) w
      | _ \<Rightarrow> w)"

definition refresh_room_snapshot :: "realtime_lease \<Rightarrow> realtime_world \<Rightarrow> realtime_world" where
  "refresh_room_snapshot lease w =
     (case am_screen (rs_model w) of
        Waiting room_code _ _ _ _ \<Rightarrow> spawn_task (RefreshSnapshotTask lease room_code) w
      | RoomScreen _ snapshot _ _ \<Rightarrow> spawn_task (RefreshSnapshotTask lease (rbr_room_code snapshot)) w
      | _ \<Rightarrow> w)"

definition handle_room_snapshot ::
  "peer_answers \<Rightarrow> realtime_lease \<Rightarrow> room_bootstrap_response \<Rightarrow> realtime_world \<Rightarrow> realtime_world" where
  "handle_room_snapshot a lease snapshot w =
     (let waiting_missing = waiting_request_missing (am_screen (rs_model w)) snapshot
      in case apply_authoritative_snapshot a lease snapshot w of
           (w1, None) \<Rightarrow> w1
         | (w1, Some entering) \<Rightarrow>
             (let w2 = schedule_avatar_cleanup entering w1
              in if waiting_missing then resolve_waiting lease w2 else w2))"

definition handle_attachment :: "peer_answers \<Rightarrow> realtime_lease \<Rightarrow> u64 \<Rightarrow> bool \<Rightarrow> realtime_world \<Rightarrow> realtime_world" where
  "handle_attachment a lease revision member w =
     (case reduce_attachment (rs_model w) revision member of
        AttachmentIgnore \<Rightarrow> w
      | AttachmentReady local_revision incoming_revision member \<Rightarrow>
          (let w1 = update_target (\<lambda>c. cursor_mark_applied incoming_revision (cursor_reconcile_applied local_revision c)) w;
               (w2, connected) = mark_realtime_connected lease w1
           in if connected then complete_attachment a lease member w2 else w2)
      | AttachmentAwaitSnapshot local_revision incoming_revision \<Rightarrow>
          update_target (\<lambda>c. cursor_mark_snapshot_pending incoming_revision (cursor_reconcile_applied local_revision c)) w)"

section \<open>Leaving and entering rooms\<close>

definition return_to_lobby :: "rstring option \<Rightarrow> realtime_world \<Rightarrow> realtime_world" where
  "return_to_lobby notice w =
     on_model (\<lambda>m. refresh_aggregate_rtc
       ((deactivate_rtc_config (m\<lparr>am_screen := Lobby [] None, am_realtime := RealtimeDisconnected\<rparr>))
          \<lparr>am_transfer := TransferIdle, am_text_transfer := TextIdle, am_pending_signals := [], am_rtc_peer_states := [],
           am_rtc_error := None, am_transfers_by_peer := [], am_text_transfers_by_peer := [],
           am_decision_request_id := None, am_busy := False, am_lobby_action_error := None, am_error := None,
           am_notice := notice, am_entering_receivers := []\<rparr>))
       (w\<lparr>rs_target := None, rs_stored := None\<rparr>)"

definition enter_receiver_room :: "room_bootstrap_response \<Rightarrow> rstring \<Rightarrow> rstring \<Rightarrow> realtime_world \<Rightarrow> realtime_world" where
  "enter_receiver_room snapshot request_id peer_id w =
     (let w1 = w\<lparr>rs_stored := Some \<lparr>srs_room_code = rbr_room_code snapshot, srs_role = RoleReceiver,
                   srs_join_request_id = Some request_id, srs_invite_request_id = None, srs_peer_id = peer_id\<rparr>\<rparr>;
          w2 = on_model (\<lambda>m. fst (reduce_app_event m (Navigate (RoomScreen RoleReceiver snapshot None None)))) w1;
          w3 = dispatch_app_event (SetError None) w2
      in set_new_target (member_target (rbr_room_code snapshot) (rbr_revision snapshot) peer_id) w3)"

definition SUPERSEDED_NOTICE :: rstring where
  "SUPERSEDED_NOTICE = [0x6B64, 0x623F, 0x95F4, 0x5DF2, 0x5728, 0x53E6, 0x4E00, 0x4E2A, 0x6807, 0x7B7E, 0x9875, 0x4E2D, 0x6253, 0x5F00, 0xFF0C, 0x672C, 0x9875, 0x9762, 0x5DF2, 0x505C, 0x6B62, 0x91CD, 0x8FDE]"

definition suppress_realtime_connection :: "realtime_lease \<Rightarrow> realtime_world \<Rightarrow> realtime_world" where
  "suppress_realtime_connection lease w =
     (case conn_suppress lease (rs_conn w) of
        (conn, False) \<Rightarrow> w\<lparr>rs_conn := conn\<rparr>
      | (conn, True) \<Rightarrow>
          (let w1 = on_rtc reset_all_rtc_peers (w\<lparr>rs_conn := conn\<rparr>);
               w2 = on_rtc (\<lambda>r. r\<lparr>rw_config := None\<rparr>) w1;
               w3 = on_model (\<lambda>m. (deactivate_rtc_config (m\<lparr>am_realtime := RealtimeSuperseded\<rparr>))
                      \<lparr>am_pending_signals := [], am_notice := Some SUPERSEDED_NOTICE, am_error := None\<rparr>) w2
           in spawn_task (SuppressedClearTask lease) w3))"

section \<open>Server messages\<close>

definition begin_revisioned_event :: "u64 \<Rightarrow> realtime_world \<Rightarrow> realtime_world \<times> revision_step_outcome option" where
  "begin_revisioned_event revision w =
     (case screen_revision (am_screen (rs_model w)) of
        None \<Rightarrow> (w, None)
      | Some current \<Rightarrow>
          (let step = revision_step current revision
           in (update_target (\<lambda>c.
                 (if step = StepRefreshSnapshot then cursor_mark_snapshot_pending revision else cursor_observe revision)
                 (cursor_reconcile_applied current c)) w, Some step)))"

definition should_apply_revisioned_event :: "realtime_lease \<Rightarrow> u64 \<Rightarrow> realtime_world \<Rightarrow> realtime_world \<times> bool" where
  "should_apply_revisioned_event lease revision w =
     (case begin_revisioned_event revision w of
        (w', Some StepApply) \<Rightarrow> (w', True)
      | (w', Some StepRefreshSnapshot) \<Rightarrow> (refresh_room_snapshot lease w', False)
      | (w', _) \<Rightarrow> (w', False))"

fun apply_realtime_effects :: "peer_answers \<Rightarrow> realtime_lease \<Rightarrow> realtime_effect list \<Rightarrow> realtime_world \<Rightarrow> realtime_world" where
  "apply_realtime_effects a lease [] w = w"
| "apply_realtime_effects a lease (effect # effects) w =
     (case effect of
        SetRealtimePhase phase \<Rightarrow> apply_realtime_effects a lease effects (dispatch_app_event (SetRealtime phase) w)
      | EffSetError error \<Rightarrow> apply_realtime_effects a lease effects (dispatch_app_event (SetError (Some error)) w)
      | MarkTargetRevisionApplied revision \<Rightarrow>
          apply_realtime_effects a lease effects (update_target (cursor_reconcile_applied revision) w)
      | ResolveWaiting \<Rightarrow> apply_realtime_effects a lease effects (resolve_waiting lease w)
      | ReturnToLobby notice \<Rightarrow> return_to_lobby (Some notice) w
      | SyncRtcPeers \<Rightarrow> apply_realtime_effects a lease effects (on_rtc (sync_rtc_peers a (ls_target lease)) w)
      | RefreshRoomSnapshot \<Rightarrow> apply_realtime_effects a lease effects (refresh_room_snapshot lease w)
      | RemoveRtcPeer peer_id \<Rightarrow>
          apply_realtime_effects a lease effects
            (if (case registry_get (rw_peers (rs_rtc w)) peer_id of
                   None \<Rightarrow> False | Some peer \<Rightarrow> pa_channel_ready a peer \<or> pa_resumable a peer)
             then w else on_rtc (remove_rtc_peer peer_id) w)
      | SuppressRealtimeConnection \<Rightarrow> suppress_realtime_connection lease w
      | ReconnectSocket \<Rightarrow>
          apply_realtime_effects a lease effects
            (schedule_reconnect lease (spawn_task (SocketClearTask lease) (dispatch_app_event (SetRealtime RealtimeReconnecting) w)))
      | AcceptRtcSignal from_peer_id negotiation_id signal \<Rightarrow>
          apply_realtime_effects a lease effects
            (on_rtc (accept_rtc_signal a (ls_target lease) from_peer_id negotiation_id signal) w))"

definition handle_revisioned_model_event ::
  "peer_answers \<Rightarrow> realtime_lease \<Rightarrow> u64 \<Rightarrow> revisioned_model_event \<Rightarrow> realtime_world \<Rightarrow> realtime_world" where
  "handle_revisioned_model_event a lease revision event w0 =
     (case should_apply_revisioned_event lease revision w0 of
        (w, False) \<Rightarrow> w
      | (w, True) \<Rightarrow>
          (let (model, effects) = reduce_revisioned_model_event (rs_model w) revision event
           in apply_realtime_effects a lease effects (on_model (\<lambda>_. model) w)))"

fun handle_server_message ::
  "peer_answers \<Rightarrow> realtime_lease \<Rightarrow> server_realtime_message \<Rightarrow> realtime_world \<Rightarrow> realtime_world" where
  "handle_server_message a lease (SmAttached _ _ _ revision) w = handle_attachment a lease revision True w"
| "handle_server_message a lease (SmJoinWatching _ _ _ _ revision) w = handle_attachment a lease revision False w"
| "handle_server_message a lease (SmRoomSnapshot _ _ room_id room_code revision expires_at_ms participants pending) w =
     handle_room_snapshot a lease
       \<lparr>rbr_version = CURRENT_PROTOCOL, rbr_room_id = room_id, rbr_room_code = room_code, rbr_revision = revision,
        rbr_expires_at_ms = expires_at_ms, rbr_participants = participants, rbr_pending_join_requests = pending\<rparr> w"
| "handle_server_message a lease (SmJoinRequested _ _ revision request) w =
     handle_revisioned_model_event a lease revision (EvJoinRequested request) w"
| "handle_server_message a lease (SmJoinDecided _ _ revision request_id decision) w =
     handle_revisioned_model_event a lease revision (EvJoinDecided request_id decision) w"
| "handle_server_message a lease (SmPeerOnline _ _ revision session_id peer_id) w =
     handle_revisioned_model_event a lease revision (EvPeerOnline session_id peer_id) w"
| "handle_server_message a lease (SmPeerOffline _ _ revision session_id) w =
     handle_revisioned_model_event a lease revision (EvPeerOffline session_id) w"
| "handle_server_message a lease (SmRoomExpired _ _ revision) w =
     apply_realtime_effects a lease (reduce_room_expired (rs_model w) revision) w"
| "handle_server_message a lease (SmError _ code message _) w =
     apply_realtime_effects a lease (reduce_server_error code message) w"
| "handle_server_message a lease (SmSignal _ _ from_peer_id negotiation_id signal) w =
     apply_realtime_effects a lease (reduce_signal from_peer_id negotiation_id signal) w"

datatype realtime_event =
    SocketOpen
  | SocketMessage server_realtime_message
  | SocketUpgradeRequired
  | SocketError rstring
  | SocketClosed u16

definition handle_realtime_event :: "peer_answers \<Rightarrow> realtime_lease \<Rightarrow> realtime_event \<Rightarrow> realtime_world \<Rightarrow> realtime_world" where
  "handle_realtime_event a lease event w =
     (if \<not> realtime_lease_is_current w lease then w
      else case event of
        SocketOpen \<Rightarrow> apply_realtime_effects a lease reduce_socket_opened w
      | SocketMessage message \<Rightarrow> handle_server_message a lease message w
      | SocketUpgradeRequired \<Rightarrow> dispatch_app_event UpgradeRequired w
      | SocketError error \<Rightarrow> apply_realtime_effects a lease (reduce_socket_error error) w
      | SocketClosed code \<Rightarrow> apply_realtime_effects a lease (reduce_socket_closed code (rs_target w \<noteq> None)) w)"

section \<open>The connection effect and resumed tasks\<close>

text \<open>Runs whenever the target or the trigger changed. Opening the socket answers an error or success.\<close>

definition realtime_connection_effect ::
  "(client_realtime_message \<Rightarrow> browser_platform_error + unit) \<Rightarrow> realtime_world \<Rightarrow> realtime_world" where
  "realtime_connection_effect connect w0 =
     (let w1 = w0\<lparr>rs_lifecycle := lifecycle_sync_target (rs_target w0) (rs_lifecycle w0)\<rparr>;
          (conn, outcome) = conn_begin (rs_target w1) (rs_conn w1);
          w2 = on_rtc (\<lambda>r. r\<lparr>rw_connected := False\<rparr>) (w1\<lparr>rs_conn := conn\<rparr>)
      in case outcome of
           BeginDisconnected \<Rightarrow> dispatch_app_event (SetRealtime RealtimeDisconnected) w2
         | BeginSuppressed \<Rightarrow> dispatch_app_event (SetRealtime RealtimeSuperseded) w2
         | BeginConnect lease attempt \<Rightarrow>
             (let w3 = dispatch_app_event (SetRealtime (if attempt = 0 then RealtimeConnecting else RealtimeReconnecting)) w2
              in case current_target w3 of
                   None \<Rightarrow> w3
                 | Some target \<Rightarrow>
                     (case connect (initial_message target) of
                        Inr _ \<Rightarrow> if realtime_lease_is_current w3 lease then on_rtc (\<lambda>r. r\<lparr>rw_connected := True\<rparr>) w3 else w3
                      | Inl error \<Rightarrow>
                          if \<not> realtime_lease_is_current w3 lease then w3
                          else schedule_reconnect lease
                                 (dispatch_app_event (platform_error_event error)
                                   (on_model (\<lambda>m. m\<lparr>am_realtime := RealtimeReconnecting\<rparr>) w3)))))"

text \<open>The effect of the RTC configuration when the target changed, and what follows a fetched lease.\<close>

definition rtc_config_effect :: "realtime_world \<Rightarrow> realtime_world" where
  "rtc_config_effect w =
     (let member = (case current_target w of None \<Rightarrow> False | Some t \<Rightarrow> target_is_member t);
          w1 = on_rtc (\<lambda>r. (reset_all_rtc_peers r)\<lparr>rw_config := None\<rparr>) w
      in on_model (\<lambda>m.
           (let m1 = m\<lparr>am_transfer := TransferIdle, am_text_transfer := TextIdle, am_transfers_by_peer := [],
                       am_text_transfers_by_peer := [], am_pending_signals := []\<rparr>
            in if member then begin_rtc_config_loading m1 else deactivate_rtc_config m1)) w1)"

definition rtc_config_scope_is_current :: "realtime_world \<Rightarrow> target_ref \<Rightarrow> bool" where
  "rtc_config_scope_is_current w scope \<longleftrightarrow> rs_target w = Some scope \<and> \<not> realtime_target_is_suppressed w"

definition RTC_CONFIG_EXPIRED_MESSAGE :: rstring where
  "RTC_CONFIG_EXPIRED_MESSAGE = [0x70B9, 0x5BF9, 0x70B9, 0x8FDE, 0x63A5, 0x914D, 0x7F6E, 0x5DF2, 0x8FC7, 0x671F, 0xFF0C, 0x6B63, 0x5728, 0x91CD, 0x65B0, 0x83B7, 0x53D6]"

definition RTC_CONFIG_INVALID_TTL_MESSAGE :: rstring where
  "RTC_CONFIG_INVALID_TTL_MESSAGE = [0x70B9, 0x5BF9, 0x70B9, 0x8FDE, 0x63A5, 0x914D, 0x7F6E, 0x6709, 0x6548, 0x671F, 0x4E0D, 0x8DB3, 0xFF0C, 0x6B63, 0x5728, 0x91CD, 0x8BD5]"

definition retry_delay_for_current_config ::
  "peer_answers \<Rightarrow> target_ref \<Rightarrow> rstring \<Rightarrow> realtime_world \<Rightarrow> realtime_world \<times> u32" where
  "retry_delay_for_current_config a scope failure_message w =
     (case Option.bind (rw_config (rs_rtc w)) (\<lambda>c. config_for_scope (pa_now_ms a) c scope) of
        Some lease \<Rightarrow> (w, rtc_config_sleep_ms (min (lease_remaining_ms (pa_now_ms a) lease) (ucast RTC_CONFIG_RETRY_MS)))
      | None \<Rightarrow>
          (on_model (\<lambda>m. mark_rtc_config_failed m failure_message) (on_rtc (\<lambda>r. r\<lparr>rw_config := None\<rparr>) w), RTC_CONFIG_RETRY_MS))"

definition apply_rtc_config :: "peer_answers \<Rightarrow> target_ref \<Rightarrow> rtc_config_lease \<Rightarrow> realtime_world \<Rightarrow> realtime_world" where
  "apply_rtc_config a scope lease w =
     on_rtc (sync_rtc_peers a scope)
       (on_model mark_rtc_config_ready
         (on_rtc (\<lambda>r. (fold (\<lambda>(_, peer). call_peer (ReplaceReconnectConfig peer lease)) (rw_peers r) r)
                      \<lparr>rw_config := Some \<lparr>sc_target = scope, sc_lease = lease\<rparr>\<rparr>) w))"

definition replay_pending_signals :: "peer_answers \<Rightarrow> target_ref \<Rightarrow> realtime_world \<Rightarrow> realtime_world" where
  "replay_pending_signals a scope w =
     (let pending = am_pending_signals (rs_model w)
      in fold (\<lambda>s. on_rtc (accept_rtc_signal a scope (prs_from_peer_id s) (prs_negotiation_id s) (prs_signal s))) pending
           (on_model (\<lambda>m. m\<lparr>am_pending_signals := []\<rparr>) w))"

text \<open>One round of the configuration loop after the request returned: the next delay, or \<open>None\<close>
  when the loop ends.\<close>

definition rtc_config_round ::
  "peer_answers \<Rightarrow> target_ref \<Rightarrow> nat \<Rightarrow> u64 \<Rightarrow> browser_platform_error + rtc_config_response \<Rightarrow> realtime_world \<Rightarrow> realtime_world \<times> u32 option" where
  "rtc_config_round a scope address request_started_at_ms config_result w =
     (if \<not> rtc_config_scope_is_current w scope then (w, None)
      else case config_result of
        Inr config \<Rightarrow>
          (let lease = lease_from_request_start address config request_started_at_ms
           in if \<not> lease_is_valid (pa_now_ms a) lease
              then (let (w1, delay) = retry_delay_for_current_config a scope RTC_CONFIG_INVALID_TTL_MESSAGE w in (w1, Some delay))
              else (spawn_task (ConfigExpiryTask scope lease) (replay_pending_signals a scope (apply_rtc_config a scope lease w)),
                    Some (rtc_config_refresh_delay_ms (lease_remaining_ms (pa_now_ms a) lease))))
      | Inl error \<Rightarrow>
          if requires_upgrade error then (dispatch_app_event (platform_error_event error) w, None)
          else (let (w1, delay) = retry_delay_for_current_config a scope (friendly_error error) w in (w1, Some delay)))"

record http_answers =
  ha_join_status :: "rstring \<Rightarrow> rstring \<Rightarrow> browser_platform_error + join_request_response"
  ha_bootstrap :: "rstring \<Rightarrow> browser_platform_error + room_bootstrap_response"

definition JOIN_STATUS_UNKNOWN_MESSAGE :: rstring where
  "JOIN_STATUS_UNKNOWN_MESSAGE = [0x6682, 0x65F6, 0x65E0, 0x6CD5, 0x786E, 0x8BA4, 0x7533, 0x8BF7, 0x72B6, 0x6001, 0xFF0C, 0x6B63, 0x5728, 0x7B49, 0x5F85, 0x91CD, 0x8FDE]"

definition JOIN_CANCELLED_NOTICE :: rstring where
  "JOIN_CANCELLED_NOTICE = [0x52A0, 0x5165, 0x7533, 0x8BF7, 0x5DF2, 0x5931, 0x6548, 0xFF0C, 0x8BF7, 0x91CD, 0x65B0, 0x7533, 0x8BF7]"

definition handle_join_status ::
  "realtime_lease \<Rightarrow> rstring \<Rightarrow> rstring \<Rightarrow> rstring \<Rightarrow> browser_platform_error + join_request_response \<Rightarrow> realtime_world \<Rightarrow> realtime_world" where
  "handle_join_status lease room_code request_id peer_id status w =
     (if \<not> realtime_lease_is_current w lease then w
      else case status of
        Inl error \<Rightarrow>
          if requires_upgrade error then dispatch_app_event (platform_error_event error) w
          else dispatch_app_event (SetError (Some JOIN_STATUS_UNKNOWN_MESSAGE)) w
      | Inr response \<Rightarrow>
          (case jrr_state response of
             WirePending \<Rightarrow> w
           | WireStateApproved \<Rightarrow> spawn_task (ApprovedBootstrapTask lease room_code request_id peer_id) w
           | WireStateRejected \<Rightarrow> return_to_lobby (Some JOIN_REJECTED_NOTICE) w
           | WireCancelled \<Rightarrow> return_to_lobby (Some JOIN_CANCELLED_NOTICE) w
           | WireExpired \<Rightarrow> return_to_lobby (Some JOIN_CANCELLED_NOTICE) w))"

fun run_task :: "peer_answers \<Rightarrow> http_answers \<Rightarrow> realtime_task \<Rightarrow> realtime_world \<Rightarrow> realtime_world" where
  "run_task a h (ReconnectTask ticket) w =
     (if rs_target w \<noteq> Some (tk_target ticket) then w
      else (let (conn, claimed) = conn_claim_reconnect_timer ticket (am_realtime (rs_model w)) (rs_conn w);
                w' = w\<lparr>rs_conn := conn\<rparr>
            in if claimed then w'\<lparr>rs_trigger := next_trigger (rs_trigger w')\<rparr> else w'))"
| "run_task a h (SocketClearTask lease) w =
     (if realtime_lease_is_current w lease then on_rtc (\<lambda>r. r\<lparr>rw_connected := False\<rparr>) w else w)"
| "run_task a h (SuppressedClearTask lease) w =
     (if suppression_is_current (rs_conn w) lease then on_rtc (\<lambda>r. r\<lparr>rw_connected := False\<rparr>) w else w)"
| "run_task a h (JoinStatusTask lease room_code request_id peer_id) w =
     handle_join_status lease room_code request_id peer_id (ha_join_status h room_code request_id) w"
| "run_task a h (ApprovedBootstrapTask lease room_code request_id peer_id) w =
     (if \<not> realtime_lease_is_current w lease then w
      else case ha_bootstrap h room_code of
        Inr snapshot \<Rightarrow> enter_receiver_room snapshot request_id peer_id w
      | Inl error \<Rightarrow> dispatch_app_event (platform_error_event error) w)"
| "run_task a h (RefreshSnapshotTask lease room_code) w =
     (if \<not> realtime_lease_is_current w lease then w
      else case ha_bootstrap h room_code of
        Inr snapshot \<Rightarrow> handle_room_snapshot a lease snapshot w
      | Inl error \<Rightarrow> dispatch_app_event (platform_error_event error) w)"
| "run_task a h (LifecycleRefreshTask lease room_code) w =
     (case lease of
        None \<Rightarrow> w
      | Some lease \<Rightarrow>
          if \<not> realtime_lease_is_current w lease then w
          else (case ha_bootstrap h room_code of
                  Inr snapshot \<Rightarrow>
                    (case apply_authoritative_snapshot a lease snapshot w of
                       (w1, None) \<Rightarrow> w1 | (w1, Some entering) \<Rightarrow> schedule_avatar_cleanup entering w1)
                | Inl error \<Rightarrow> dispatch_app_event (platform_error_event error) w))"
| "run_task a h (AvatarCleanupTask session_id) w =
     on_model (\<lambda>m. m\<lparr>am_entering_receivers := filter (\<lambda>current. current \<noteq> session_id) (am_entering_receivers m)\<rparr>) w"
| "run_task a h (ConfigExpiryTask scope lease) w =
     (if \<not> rtc_config_scope_is_current w scope then w
      else if 0 < lease_remaining_ms (pa_now_ms a) lease then spawn_task (ConfigExpiryTask scope lease) w
      else if (case rw_config (rs_rtc w) of None \<Rightarrow> False | Some config \<Rightarrow> config_matches config scope lease)
      then on_model (\<lambda>m. mark_rtc_config_failed m RTC_CONFIG_EXPIRED_MESSAGE) (on_rtc (\<lambda>r. r\<lparr>rw_config := None\<rparr>) w)
      else w)"

section \<open>Lifecycle events of the browser\<close>

definition OFFLINE_STREAM_NOTICE :: rstring where "OFFLINE_STREAM_NOTICE = [0x7F51, 0x7EDC, 0x5DF2, 0x65AD, 0x5F00, 0xFF0C, 0x6062, 0x590D, 0x540E, 0x5C06, 0x4ECE, 0x6700, 0x540E, 0x68C0, 0x67E5, 0x70B9, 0x7EE7, 0x7EED, 0x4F20, 0x8F93]"
definition OFFLINE_NOTICE :: rstring where "OFFLINE_NOTICE = [0x7F51, 0x7EDC, 0x5DF2, 0x65AD, 0x5F00, 0xFF0C, 0x6062, 0x590D, 0x540E, 0x4F1A, 0x81EA, 0x52A8, 0x91CD, 0x65B0, 0x8FDE, 0x63A5]"
definition RECOVERING_STREAM_NOTICE :: rstring where "RECOVERING_STREAM_NOTICE = [0x6B63, 0x5728, 0x6062, 0x590D, 0x8FDE, 0x63A5, 0xFF0C, 0x5C06, 0x4ECE, 0x6700, 0x540E, 0x68C0, 0x67E5, 0x70B9, 0x7EE7, 0x7EED, 0x4F20, 0x8F93]"
definition RECOVERING_NOTICE :: rstring where "RECOVERING_NOTICE = [0x6B63, 0x5728, 0x6062, 0x590D, 0x8FDE, 0x63A5]"

definition current_realtime_lease :: "realtime_world \<Rightarrow> realtime_lease option" where
  "current_realtime_lease w = Option.bind (rs_target w) (current_lease (rs_conn w))"

definition drop_connection :: "realtime_world \<Rightarrow> realtime_world" where
  "drop_connection w = on_rtc (\<lambda>r. r\<lparr>rw_connected := False\<rparr>) (w\<lparr>rs_conn := conn_invalidate (rs_conn w)\<rparr>)"

definition reconnect_current :: "realtime_world \<Rightarrow> realtime_world" where
  "reconnect_current w = (case current_realtime_lease w of None \<Rightarrow> w | Some lease \<Rightarrow> schedule_reconnect lease w)"

definition handle_browser_lifecycle_event :: "lifecycle_event \<Rightarrow> realtime_world \<Rightarrow> realtime_world" where
  "handle_browser_lifecycle_event event w0 =
     (if event = LifeAppUpdate then dispatch_app_event UpgradeRequired w0
      else (let action = lifecycle_recovery_action_of event (rs_lifecycle w0);
                w1 = w0\<lparr>rs_lifecycle := lifecycle_note_event event action (rs_lifecycle w0)\<rparr>;
                w2 = w1\<lparr>rs_lifecycle := lifecycle_sync_target (rs_target w1) (rs_lifecycle w1)\<rparr>
            in case rs_target w2 of
                 None \<Rightarrow> w2
               | Some target \<Rightarrow>
                   if realtime_target_is_suppressed w2 then w2
                   else if event = LifeOffline
                   then (let w3 = drop_connection (w2\<lparr>rs_lifecycle := lifecycle_begin_recovery target True (rs_lifecycle w2)\<rparr>);
                             w4 = on_model (\<lambda>m.
                               (let (m1, has_stream) = mark_streamed_transfers_waiting (m\<lparr>am_realtime := RealtimeReconnecting\<rparr>)
                                in m1\<lparr>am_notice := Some (if has_stream then OFFLINE_STREAM_NOTICE else OFFLINE_NOTICE)\<rparr>)) w3
                         in reconnect_current w4)
                   else if action = LifeNone then w2
                   else (let w3 = w2\<lparr>rs_lifecycle :=
                                lifecycle_begin_recovery target (action = LifeRebuildResumablePeers) (rs_lifecycle w2)\<rparr>;
                             w4 = on_model (\<lambda>m.
                               (let (m1, has_stream) =
                                  mark_streamed_transfers_waiting (m\<lparr>am_realtime := RealtimeReconnecting, am_error := None\<rparr>)
                                in m1\<lparr>am_notice := Some (if has_stream then RECOVERING_STREAM_NOTICE else RECOVERING_NOTICE)\<rparr>)) w3;
                             w5 = reconnect_current (drop_connection w4)
                         in case am_screen (rs_model w5) of
                              RoomScreen _ snapshot _ _ \<Rightarrow>
                                spawn_task (LifecycleRefreshTask (current_realtime_lease w5) (rbr_room_code snapshot)) w5
                            | _ \<Rightarrow> w5)))"

end
