(* ===== verification/Web_Realtime_Properties.thy ===== *)
theory Web_Realtime_Properties
  imports Web_Realtime_Session Web_Session_Laws
begin

text \<open>
  What holds of the realtime session: leases and retry tickets of the connection state machine, and
  the order of the revisions the application shows.
\<close>

section \<open>Tickets and suppression\<close>

datatype conn_op =
    OpBegin "target_ref option"
  | OpInvalidate
  | OpMarkConnected realtime_lease
  | OpClaim retry_ticket realtime_phase
  | OpSuppress realtime_lease

fun conn_step :: "connection_state \<Rightarrow> conn_op \<Rightarrow> connection_state \<times> bool" where
  "conn_step c (OpBegin target) = (fst (conn_begin target c), True)"
| "conn_step c OpInvalidate = (conn_invalidate c, True)"
| "conn_step c (OpMarkConnected lease) = conn_mark_connected lease c"
| "conn_step c (OpClaim ticket phase) = conn_claim_reconnect_timer ticket phase c"
| "conn_step c (OpSuppress lease) = conn_suppress lease c"

definition conn_inv :: "connection_state \<Rightarrow> bool" where
  "conn_inv c \<longleftrightarrow> cs_generation c < cs_fresh c \<and> cs_retry_token c < cs_fresh c"

lemmas conn_defs = conn_begin_def conn_invalidate_def conn_mark_connected_def conn_claim_reconnect_timer_def conn_suppress_def
  new_generation_def new_retry_token_def Let_def

interpretation conn: command_machine conn_step conn_inv
  by unfold_locales (rename_tac s c, case_tac c, auto simp: conn_inv_def conn_defs split: option.split)

lemma token_moves_on:
  assumes "tk < cs_fresh c" "cs_retry_token c \<noteq> tk"
  shows "tk < cs_fresh (fst (conn_step c op)) \<and> cs_retry_token (fst (conn_step c op)) \<noteq> tk"
  using assms by (cases op) (auto simp: conn_defs split: option.split)

text \<open>C38. A reconnect timer acts at most once. After a ticket was claimed, no sequence of
  connections, invalidations, successes, suppressions and other timers makes the same ticket
  claimable again, even when the retry counter has saturated.\<close>

theorem retry_ticket_claimed_once:
  assumes "conn_inv c" and "conn_claim_reconnect_timer ticket phase c = (c', True)"
  shows "conn_claim_reconnect_timer ticket phase' (run_commands conn_step c' ops) = (run_commands conn_step c' ops, False)"
proof -
  let ?P = "\<lambda>c. tk_retry_token ticket < cs_fresh c \<and> cs_retry_token c \<noteq> tk_retry_token ticket"
  have "conn_inv c'" using conn.inv_step [OF assms(1), of "OpClaim ticket phase"] assms(2) by simp
  moreover have "?P c'" using assms by (auto simp: conn_inv_def conn_defs split: if_splits)
  ultimately have "?P (run_commands conn_step c' ops)"
    by (rule conn.stable_run [rotated]) (use token_moves_on in blast)
  then show ?thesis by (auto simp: conn_claim_reconnect_timer_def)
qed

definition sample_conn :: connection_state where
  "sample_conn = fst (conn_begin (Some 4) default_connection_state)"

definition sample_ticket :: retry_ticket where
  "sample_ticket = \<lparr>tk_generation = 2, tk_retry_token = 3, tk_attempt = 0, tk_target = 4\<rparr>"

lemma sample_conn_simp:
  "sample_conn = \<lparr>cs_generation = 2, cs_backoff_attempt = 0, cs_retry_token = 3, cs_active_target = Some 4, cs_suppressed = None, cs_fresh = 4\<rparr>"
  by (simp add: sample_conn_def conn_defs default_connection_state_def same_optional_target_instance_def target_is_suppressed_def)

theorem retry_ticket_claimed_once_witness:
  "snd (conn_claim_reconnect_timer sample_ticket RealtimeReconnecting sample_conn) \<and>
   \<not> snd (conn_claim_reconnect_timer sample_ticket RealtimeReconnecting
       (run_commands conn_step (fst (conn_claim_reconnect_timer sample_ticket RealtimeReconnecting sample_conn)) [OpBegin (Some 4)]))"
proof -
  have claimed: "conn_claim_reconnect_timer sample_ticket RealtimeReconnecting sample_conn =
      (fst (conn_claim_reconnect_timer sample_ticket RealtimeReconnecting sample_conn), True)"
    by (simp add: sample_conn_simp sample_ticket_def conn_claim_reconnect_timer_def target_is_suppressed_def)
  have "conn_inv sample_conn" by (simp add: sample_conn_simp conn_inv_def)
  from retry_ticket_claimed_once [OF this claimed, of RealtimeReconnecting "[OpBegin (Some 4)]"] claimed
  show ?thesis by (metis snd_conv)
qed

text \<open>Operations that keep the target: connections for it, and everything but connections.\<close>

fun keeps_target :: "target_ref \<Rightarrow> conn_op \<Rightarrow> bool" where
  "keeps_target t (OpBegin target) \<longleftrightarrow> target = Some t"
| "keeps_target t _ \<longleftrightarrow> True"

definition quiet :: "target_ref \<Rightarrow> connection_state \<Rightarrow> bool" where
  "quiet t c \<longleftrightarrow> cs_active_target c = Some t \<and> target_is_suppressed c t"

lemma quiet_step: "quiet t c \<Longrightarrow> keeps_target t op \<Longrightarrow> quiet t (fst (conn_step c op))"
  by (cases op) (auto simp: quiet_def conn_defs same_optional_target_instance_def target_is_suppressed_def lease_is_current_def
      split: option.splits)

text \<open>C39. A page whose room was opened in another tab stays quiet: after its lease was suppressed,
  and as long as its target is not replaced, no lease of any generation is current, no reconnect
  timer can be claimed and every attempt to connect is refused.\<close>

theorem suppressed_page_stays_quiet:
  assumes "conn_suppress lease c = (c', True)" and "list_all (keeps_target (ls_target lease)) ops"
  shows "\<not> lease_is_current (run_commands conn_step c' ops) lease' \<and>
    \<not> snd (conn_claim_reconnect_timer ticket phase (run_commands conn_step c' ops)) \<and>
    snd (conn_begin (Some (ls_target lease)) (run_commands conn_step c' ops)) = BeginSuppressed"
proof -
  have "quiet (ls_target lease) c'"
    using assms(1) by (auto simp: conn_suppress_def quiet_def lease_is_current_def target_is_suppressed_def split: if_splits)
  then have "quiet (ls_target lease) (run_commands conn_step c' ops)"
    using assms(2) by (induction ops arbitrary: c') (auto intro: quiet_step)
  then show ?thesis
    by (auto simp: quiet_def lease_is_current_def conn_claim_reconnect_timer_def conn_begin_def new_generation_def
        same_optional_target_instance_def target_is_suppressed_def Let_def split: option.splits)
qed

definition sample_lease :: realtime_lease where
  "sample_lease = \<lparr>ls_generation = 2, ls_target = 4\<rparr>"

theorem suppressed_page_stays_quiet_witness:
  "snd (conn_suppress sample_lease sample_conn) \<and>
   snd (conn_begin (Some 4) (run_commands conn_step (fst (conn_suppress sample_lease sample_conn)) [OpBegin (Some 4), OpInvalidate])) =
     BeginSuppressed"
proof -
  have s: "conn_suppress sample_lease sample_conn = (fst (conn_suppress sample_lease sample_conn), True)"
    by (simp add: sample_conn_simp sample_lease_def conn_suppress_def lease_is_current_def target_is_suppressed_def)
  have t: "ls_target sample_lease = 4" by (simp add: sample_lease_def)
  from suppressed_page_stays_quiet [OF s, of "[OpBegin (Some 4), OpInvalidate]"] s
  show ?thesis by (simp add: t) (metis snd_conv)
qed

section \<open>Revisions\<close>

lemma screen_on_rtc:
  "am_screen (rs_model (on_rtc (sync_rtc_peers a s) w)) = am_screen (rs_model w)"
  "am_screen (rs_model (on_rtc (remove_rtc_peer p) w)) = am_screen (rs_model w)"
  "am_screen (rs_model (on_rtc (accept_rtc_signal a s p n sg) w)) = am_screen (rs_model w)"
  "am_screen (rs_model (on_rtc reset_all_rtc_peers w)) = am_screen (rs_model w)"
  using screens.keep_sync_rtc_peers [of _ "am_screen (rs_model w)"] screens.keep_remove [of _ "am_screen (rs_model w)"]
    screens.keep_accept_rtc_signal [of _ "am_screen (rs_model w)"] screens.keep_reset [of _ "am_screen (rs_model w)"]
  by (simp_all add: on_rtc_def rs_model_def)

lemma screen_simps [simp]:
  "rs_model (spawn_task t w) = rs_model w"
  "rs_model (update_target f w) = rs_model w"
  "rs_model (w\<lparr>rs_conn := c\<rparr>) = rs_model w"
  "rs_model (w\<lparr>rs_lifecycle := l\<rparr>) = rs_model w"
  "rs_model (on_model g w) = g (rs_model w)"
  "rs_model (schedule_reconnect lease w) = rs_model w"
  "rs_model (resolve_waiting lease w) = rs_model w"
  "rs_model (refresh_room_snapshot lease w) = rs_model w"
  "rs_model (on_rtc (\<lambda>r. r\<lparr>rw_config := cfg\<rparr>) w) = rs_model w"
  by (simp_all add: rs_model_def spawn_task_def update_target_def on_model_def on_rtc_def with_model_def schedule_reconnect_def
      resolve_waiting_def refresh_room_snapshot_def split: option.split screen.split)

lemma screen_dispatch: "(\<forall>s. event \<noteq> Navigate s) \<Longrightarrow> am_screen (rs_model (dispatch_app_event event w)) = am_screen (rs_model w)"
  by (cases event) (simp_all add: dispatch_app_event_def rs_model_def on_model_def on_rtc_def with_model_def)

lemma screen_avatar [simp]: "rs_model (schedule_avatar_cleanup ids w) = rs_model w"
  by (induction ids arbitrary: w) (simp_all add: schedule_avatar_cleanup_def)

lemma screen_config [simp]: "am_screen (deactivate_rtc_config m) = am_screen m"
  by (simp add: deactivate_rtc_config_def clear_rtc_config_error_def Let_def split: option.split)

lemma screen_calls [simp]: "rs_model (on_rtc (fold (\<lambda>(_, peer). call_peer (PrepareReconnect peer)) peers) w) = rs_model w"
proof -
  have "rw_model (fold (\<lambda>(_, peer). call_peer (PrepareReconnect peer)) peers r) = rw_model r" for r
    by (induction peers arbitrary: r) (auto simp: case_prod_beta)
  then show ?thesis by (simp add: rs_model_def on_rtc_def)
qed

lemma screen_reset_waiting: "am_screen (fold (\<lambda>(peer_id, _) m. fst (reset_peer_waiting m peer_id)) peers m) = am_screen m"
  by (induction peers arbitrary: m) (auto simp: reset_peer_waiting_def Let_def split: option.split)

lemma screen_complete_attachment: "am_screen (rs_model (complete_attachment a lease member w)) = am_screen (rs_model w)"
  by (auto simp: complete_attachment_def complete_lifecycle_recovery_def screen_on_rtc screen_reset_waiting Let_def
      split: prod.splits option.splits if_splits)

lemma screen_suppress: "am_screen (rs_model (suppress_realtime_connection lease w)) = am_screen (rs_model w)"
  by (simp add: suppress_realtime_connection_def Let_def screen_on_rtc split: prod.split bool.split)

lemma effects_screen:
  assumes "am_screen (rs_model w) = sc"
  shows "am_screen (rs_model (apply_realtime_effects a lease effects w)) = sc \<or>
    am_screen (rs_model (apply_realtime_effects a lease effects w)) = Lobby [] None"
  using assms
proof (induction effects arbitrary: w)
  case (Cons e effects)
  show ?case
  proof (cases e)
    case (ReturnToLobby notice)
    then show ?thesis by (simp add: return_to_lobby_def)
  next
    case SuppressRealtimeConnection
    then show ?thesis using Cons.prems by (simp add: screen_suppress)
  next
    case (RemoveRtcPeer p)
    then show ?thesis using Cons.IH Cons.prems by (simp add: screen_on_rtc)
  qed (simp only: apply_realtime_effects.simps realtime_effect.case, rule Cons.IH, simp add: Cons.prems screen_dispatch screen_on_rtc)+
qed simp

definition revision_kept :: "u64 \<Rightarrow> screen \<Rightarrow> bool" where
  "revision_kept r s \<longleftrightarrow> (\<forall>r'. screen_revision s = Some r' \<longrightarrow> r \<le> r')"

lemma snapshot_keeps_revision:
  assumes "reduce_authoritative_snapshot m snapshot = (m', entering)" "screen_revision (am_screen m) = Some r"
  shows "revision_kept r (am_screen m')"
  using assms by (auto simp: reduce_authoritative_snapshot_def revision_kept_def Let_def split: screen.splits if_splits)

lemma room_snapshot_keeps_revision:
  assumes "screen_revision (am_screen (rs_model w)) = Some r"
  shows "revision_kept r (am_screen (rs_model (handle_room_snapshot a lease snapshot w)))"
proof -
  obtain m entering where red: "reduce_authoritative_snapshot (rs_model w) snapshot = (m, entering)" by fastforce
  have "am_screen (rs_model (fst (apply_authoritative_snapshot a lease snapshot w))) \<in> {am_screen (rs_model w), am_screen m}"
    by (auto simp: apply_authoritative_snapshot_def red Let_def mark_realtime_connected_def screen_on_rtc screen_complete_attachment
        split: prod.split option.split)
  then have "revision_kept r (am_screen (rs_model (fst (apply_authoritative_snapshot a lease snapshot w))))"
    using snapshot_keeps_revision [OF red assms] assms by (auto simp: revision_kept_def)
  then show ?thesis by (auto simp: handle_room_snapshot_def Let_def split: prod.splits option.splits)
qed

lemma attachment_screen: "am_screen (rs_model (handle_attachment a lease revision member w)) = am_screen (rs_model w)"
  by (simp add: handle_attachment_def mark_realtime_connected_def screen_complete_attachment Let_def
      split: attachment_decision.split prod.split)

lemma revision_step_apply: "revision_step current incoming = StepApply \<longleftrightarrow> unat incoming = unat current + 1"
  by (auto simp: revision_step_def checked_add_Some_iff word_le_nat_alt)

lemma reduce_event_revision:
  "screen_revision (am_screen (fst (reduce_revisioned_model_event m revision event))) \<in> {screen_revision (am_screen m), Some revision}"
  by (cases event)
     (simp_all add: reduce_join_requested_def reduce_join_decided_def reduce_peer_online_def reduce_peer_offline_def Let_def
       split: screen.split room_role.split)

lemma revisioned_event_screen:
  assumes "screen_revision (am_screen (rs_model w)) = Some r"
  shows "screen_revision (am_screen (rs_model (handle_revisioned_model_event a lease v event w))) \<in> {None, Some r} \<union>
    (if unat v = unat r + 1 then {Some v} else {})"
proof (cases "revision_step r v = StepApply")
  case True
  obtain m effects where red: "reduce_revisioned_model_event (rs_model w) v event = (m, effects)" by fastforce
  have m: "screen_revision (am_screen m) \<in> {Some r, Some v}" using reduce_event_revision [of "rs_model w" v event] assms by (simp add: red)
  obtain w' where b: "begin_revisioned_event v w = (w', Some StepApply)" and w': "rs_model w' = rs_model w"
    using assms True by (auto simp: begin_revisioned_event_def Let_def)
  have h: "handle_revisioned_model_event a lease v event w = apply_realtime_effects a lease effects (on_model (\<lambda>_. m) w')"
    by (simp add: handle_revisioned_model_event_def should_apply_revisioned_event_def b w' red)
  have v: "unat v = unat r + 1" using True by (simp add: revision_step_apply)
  have sc: "am_screen (rs_model (on_model (\<lambda>_. m) w')) = am_screen m" by simp
  show ?thesis using effects_screen [OF sc, of a lease effects] m v by (auto simp: h)
next
  case False
  then show ?thesis using assms
    by (auto simp: handle_revisioned_model_event_def should_apply_revisioned_event_def begin_revisioned_event_def Let_def
        split: revision_step_outcome.splits)
qed

fun event_revision :: "realtime_event \<Rightarrow> u64 option" where
  "event_revision (SocketMessage (SmJoinRequested _ _ v _)) = Some v"
| "event_revision (SocketMessage (SmJoinDecided _ _ v _ _)) = Some v"
| "event_revision (SocketMessage (SmPeerOnline _ _ v _ _)) = Some v"
| "event_revision (SocketMessage (SmPeerOffline _ _ v _)) = Some v"
| "event_revision _ = None"

text \<open>C40. The state shown for a room never goes back and never skips: handling any event of the
  realtime socket, the revision on the screen does not decrease as long as the room is shown, and a
  revisioned event changes it only when it is exactly the next revision. Late, repeated and
  premature events leave the screen's revision as it is.\<close>

theorem shown_revision_never_goes_back:
  assumes "screen_revision (am_screen (rs_model w)) = Some r"
    and "screen_revision (am_screen (rs_model (handle_realtime_event a lease event w))) = Some r'"
  shows "r \<le> r' \<and> (\<forall>v. event_revision event = Some v \<and> r' \<noteq> r \<longrightarrow> r' = v \<and> unat v = unat r + 1)"
proof (cases "realtime_lease_is_current w lease")
  case True
  have effects: "r' = r" if "rs_model w' = rs_model w"
    "screen_revision (am_screen (rs_model (apply_realtime_effects a lease effects w'))) = Some r'" for effects w'
    using effects_screen [of w' "am_screen (rs_model w)" a lease effects] that assms(1) by auto
  have revisioned: "r \<le> r' \<and> (r' \<noteq> r \<longrightarrow> r' = v \<and> unat v = unat r + 1)"
    if "screen_revision (am_screen (rs_model (handle_revisioned_model_event a lease v e w))) = Some r'" for v e
    using revisioned_event_screen [OF assms(1), of a lease v e] that
    by (auto simp: word_le_nat_alt split: if_splits)
  have snapshot: "r \<le> r'"
    if "screen_revision (am_screen (rs_model (handle_room_snapshot a lease snapshot w))) = Some r'" for snapshot
    using room_snapshot_keeps_revision [OF assms(1), of a lease snapshot] that by (simp add: revision_kept_def)
  show ?thesis
  proof (cases event)
    case (SocketMessage message)
    then show ?thesis
      using assms True effects revisioned snapshot
      by (cases message) (auto simp: handle_realtime_event_def attachment_screen)
  qed (use assms True effects in \<open>auto simp: handle_realtime_event_def screen_dispatch\<close>)
qed (use assms in \<open>simp add: handle_realtime_event_def\<close>)

definition sample_snapshot :: "u64 \<Rightarrow> room_bootstrap_response" where
  "sample_snapshot revision =
     \<lparr>rbr_version = CURRENT_PROTOCOL, rbr_room_id = rstr ''room'', rbr_room_code = rstr ''ABC234'', rbr_revision = revision,
      rbr_expires_at_ms = 1000, rbr_participants = [], rbr_pending_join_requests = []\<rparr>"

definition sample_realtime_world :: realtime_world where
  "sample_realtime_world =
     \<lparr>rs_rtc = \<lparr>rw_model = default_app_model\<lparr>am_screen := RoomScreen RoleOwner (sample_snapshot 7) None None\<rparr>, rw_connected = True,
        rw_peers = [], rw_config = None, rw_timers = [], rw_calls = []\<rparr>,
      rs_target = Some 4, rs_targets = [(4, member_target (rstr ''ABC234'') 7 (rstr ''peer''))], rs_next_target = 5,
      rs_conn = sample_conn, rs_trigger = 0,
      rs_lifecycle = \<lparr>lc_hidden = False, lc_network_recovery_pending = False, lc_recovery = None\<rparr>, rs_stored = None,
      rs_upgrade_prompt = False, rs_tasks = []\<rparr>"

definition sample_offline :: realtime_event where
  "sample_offline = SocketMessage (SmPeerOffline CURRENT_PROTOCOL (rstr ''e'') 8 (rstr ''s''))"

lemma sample_realtime_step:
  "screen_revision (am_screen (rs_model (handle_realtime_event silent_answers sample_lease sample_offline sample_realtime_world))) = Some 8"
  by (simp add: handle_realtime_event_def sample_offline_def sample_realtime_world_def realtime_lease_is_current_def sample_lease_def
      lease_is_current_def sample_conn_simp target_is_suppressed_def handle_revisioned_model_event_def should_apply_revisioned_event_def
      begin_revisioned_event_def rs_model_def sample_snapshot_def revision_step_def checked_add_def reduce_peer_offline_def
      on_model_def on_rtc_def with_model_def update_target_def refresh_room_snapshot_def spawn_task_def Let_def)

theorem shown_revision_never_goes_back_witness:
  "screen_revision (am_screen (rs_model (handle_realtime_event silent_answers sample_lease sample_offline sample_realtime_world))) = Some 8 \<and>
   (7 :: u64) \<le> 8 \<and> unat (8 :: u64) = unat (7 :: u64) + 1"
proof -
  have "screen_revision (am_screen (rs_model sample_realtime_world)) = Some 7"
    by (simp add: sample_realtime_world_def rs_model_def sample_snapshot_def)
  from shown_revision_never_goes_back [OF this sample_realtime_step] show ?thesis
    using sample_realtime_step by (simp add: sample_offline_def)
qed

end
