(* ===== verification/Spec2Isabelle.thy ===== *)
theory Spec2Isabelle
  imports Room_Properties Protocol_Properties Binary_Frames Rate_Limit Hub_Properties Storage_Properties
    Server_Properties Room_Services Socket_Properties
    Browser_Checkpoint Peer_Properties Peer_Reread Stream_Names
    Web_Session_Properties Web_Realtime_Properties
begin

text \<open>
  A verification of a peer-to-peer file transfer service: a server that lets sessions meet in
  rooms and relays the signalling between their browsers, the protocol and transfer rules that
  both sides share, the peer object of the browser that transfers files and texts, and the browser
  application that keeps a session, its peers and its transfers. The sources are the Rust crates
  under \<open>src/rust\<close>; a definition keeps the name of the item it models where Isabelle allows it, with a short prefix where names clash.

  \<^bold>\<open>Parts and their theories.\<close>

  \<^item> \<open>P2P_Prelude\<close>: results (\<open>Result\<close> is a sum, \<open>Inl\<close> the error), strings as lists of Unicode
    scalar values, machine integers as words with Rust's checked and saturating operations,
    \<open>BTreeMap\<close> as a sorted association list with the map interface as a locale, \<open>HashMap\<close> as an
    association list whose iteration order is an argument.

  \<^item> \<open>crates/domain\<close>: \<open>Domain_Ids\<close> (\<open>ids.rs\<close>, \<open>time.rs\<close>, \<open>session.rs\<close>) and \<open>Domain_Room\<close>
    (\<open>room.rs\<close>): the room aggregate, its commands and its restoration from snapshots.
    \<open>Room_Laws\<close> has the invariant and the abstract step relation, \<open>Room_Properties\<close> the
    properties: the invariant under every sequence of commands, revisions, admission only by the
    owner, finality of decisions, replays, snapshots, refinement of the admission protocol.

  \<^item> \<open>crates/transfer\<close>: \<open>Transfer_Plan\<close>, the chunk and segment plans, which partition a payload.

  \<^item> \<open>crates/protocol\<close>: \<open>Protocol_Limits\<close>, \<open>Protocol_Http\<close>, \<open>Protocol_Realtime\<close> and
    \<open>Protocol_Data_Channel\<close>, the messages with their validation; \<open>Binary_Frames\<close>, the encoding of
    chunk frames; \<open>Protocol_Properties\<close>, what accepted messages satisfy. The deserializer of JSON
    is an argument: a function from text to a message or an error.

  \<^item> \<open>apps/server\<close>: \<open>Rate_Limit\<close> (\<open>rate_limit.rs\<close>); \<open>Realtime_Hub\<close> (\<open>realtime/hub.rs\<close>) with
    \<open>Hub_Laws\<close> and \<open>Hub_Properties\<close>; \<open>Storage_Codec\<close> and \<open>Storage_Model\<close> (\<open>storage/\<close>) with
    \<open>Storage_Laws\<close> and \<open>Storage_Properties\<close>; \<open>Server_Config\<close> (\<open>config.rs\<close>); \<open>App_Services\<close>
    (\<open>services.rs\<close>); \<open>Realtime_Socket\<close> (\<open>realtime/socket.rs\<close> and below); \<open>Http_Api\<close>
    (\<open>http_api.rs\<close>, \<open>maintenance.rs\<close>). \<open>Server_Laws\<close> shows that every handler is a sequence of
    atomic calls to the database, the limiter and the hub, and \<open>Server_Properties\<close> that every
    interleaving of handlers keeps the server consistent. \<open>Service_Properties\<close>, \<open>Room_Services\<close>
    and \<open>Socket_Properties\<close> state what clients rely on: sessions, origins, authorized signals,
    retries, invitations, members that go offline. \<open>Server_Example\<close> has the states on which the
    properties are instantiated.

  \<^item> \<open>crates/browser-platform\<close>: \<open>Browser_Wire\<close> (\<open>rtc/wire.rs\<close>, \<open>rtc/manifest.rs\<close>),
    \<open>Browser_Checkpoint\<close> (\<open>rtc/checkpoint.rs\<close>, \<open>rtc/finalization.rs\<close>) and \<open>Browser_Errors\<close>
    (\<open>error.rs\<close>): frames and identifiers, which resume points are accepted, and errors.

  \<^item> The peer object of the browser (\<open>rtc/browser/\<close>): \<open>Peer_State\<close> (\<open>peer.rs\<close>, the records of
    \<open>stream_recovery.rs\<close>, the writers and the reopening of files of \<open>stream_storage.rs\<close> and
    \<open>source_storage.rs\<close>), \<open>Peer_Lifecycle\<close> (\<open>lifecycle/\<close>: commands, completion, manifests,
    reconnection), \<open>Peer_Text\<close> (\<open>text.rs\<close>), \<open>Peer_Receive\<close> (\<open>incoming.rs\<close>), \<open>Peer_Restore\<close>
    (\<open>recovery/incoming.rs\<close>), \<open>Peer_Send\<close> (\<open>outgoing.rs\<close>), \<open>Peer_Source\<close>
    (\<open>recovery/outgoing.rs\<close>), \<open>Peer_Signal\<close> (\<open>signaling.rs\<close>, \<open>connection.rs\<close>) and
    \<open>Peer_Engine\<close> (\<open>control.rs\<close> and all that can happen to a peer). \<open>Peer_Frame\<close> shows which
    operations leave a receiver alone, \<open>Peer_Invariant\<close> that received, hashed and written bytes
    agree in every reachable state, \<open>Peer_Runs\<close> has the runs and the states on which the properties
    are instantiated. \<open>Peer_Properties\<close> shows that files are closed and handed out only when they
    are verified; \<open>Peer_Exchange\<close> composes a sender and a receiver: texts are delivered, chunks
    keep both in step, full segments are acknowledged; \<open>Peer_Reread\<close> that a reopened file is read
    again up to its checkpoint. \<open>Stream_Names\<close> has the names of saved files.

  \<^item> \<open>apps/web\<close>: \<open>Web_State\<close> (\<open>app_state.rs\<close>, \<open>app_transition.rs\<close>, the types of \<open>rtc.rs\<close>),
    \<open>Web_Transfers\<close> (\<open>rtc_transfer_events\<close>), \<open>Web_Rtc\<close> (\<open>rtc_transition.rs\<close>), \<open>Web_Session\<close>
    (\<open>rtc_session.rs\<close>, \<open>rtc_orchestration.rs\<close>), \<open>Web_Realtime\<close> (\<open>realtime_target.rs\<close>,
    \<open>realtime_event_reducer.rs\<close>, the state machine of \<open>realtime_connection.rs\<close>) and
    \<open>Web_Realtime_Session\<close> (\<open>realtime_session.rs\<close>, \<open>browser_lifecycle.rs\<close>, \<open>rtc_config.rs\<close>).
    \<open>Web_Session_Laws\<close> has the interface of operations that keep an invariant of the session
    and its instances; \<open>Web_Session_Properties\<close> shows that the peers stay consistent and that
    unanswered offers end; \<open>Web_Realtime_Properties\<close> that a reconnect timer acts once, that a
    superseded page stays quiet and that the shown revision never goes back.

  \<^bold>\<open>State and effects.\<close> The database is a record of tables keyed as in the schema, with its check,
  uniqueness and foreign-key constraints as conditions of the statements, and a transaction is one
  atomic function that either commits or returns the database unchanged. The hub is a record of
  its five tables; a channel is an abstract value with a \<open>try_send\<close>. A handler maps the shared
  state to a new state and a result. What the process asks of its surroundings is an argument:
  clock readings, random UUIDs, hash functions, Base64, channel capacity, the order of hash sets
  and of rows with equal keys. In the browser a spawned task is an entry of the state, run by a
  function of its own when its sleep or its request has ended; objects of the browser are
  references, the calls made on them are recorded and their answers are an argument, so that the
  properties hold for every answer. The peer object works the same way: an asynchronous function
  that awaits the browser becomes one function per stretch between two awaits, and what remains to
  be done after the await is a task of the state with the values the function holds. A run of a peer
  (\<open>peer_run\<close>) takes inputs in any order: calls of the application, messages, callbacks, and the
  resumption of any task with any answer. The runs leave out one race of the program
  (\<open>orderly\<close>): a receiver that is installed while a segment task of an earlier receiver of the same
  transfer is under way, since the generation counter of the source does not tell the two apart. The
  state of a BLAKE3 hasher is the list of bytes it was given, the digest function an argument.

  \<^bold>\<open>Concurrency.\<close> Handlers run concurrently in the program; each call to the database, the hub or
  the limiter is atomic (a transaction, a mutex). The step relation of \<open>Server_Properties\<close> lets
  such calls interleave in any order, and its invariants hold at every point between two calls.

  \<^bold>\<open>Loops.\<close> All loops are structural recursions except the clean-up of evicted attachments, whose
  termination is proved from the number of connections of the hub, and two loops of the browser
  that the source leaves open-ended and that are partial functions here: the reading of a saved file
  (\<open>verify_segments\<close>), which ends for segments of at least one byte, and the search for a free
  file name (\<open>free_name\<close>), which ends for fewer files than there are numbers. No fuel is used. The attempts
  to find a free room code are bounded by the constant of the source.

  \<^bold>\<open>Not modelled.\<close> The inside of browser and operating-system interfaces (WebRTC objects, IndexedDB,
  pickers and permission prompts, fetch, sockets, DOM), which the operations above see through
  their answers; rendering of components and the texts they show; logging and metrics; the serving of
  web assets and the assembly of the server process. These parts consist of calls whose effect is
  outside the program, or of markup.
\<close>

end
